(* ===== verification/Py_Prelude.thy ===== *)
theory Py_Prelude
  imports Complex_Main
begin

text \<open>
  Shared ground of the development: the Python values the services pass around (JSON
  values, truthiness, decimal parsing, string operations), the exceptions they raise, the
  collections of rewrite rules used by the component theories, and the generic lemmas on
  lists, maps and step machines.

  Numbers: Python's \<open>int\<close> is \<open>int\<close>; Python's \<open>Decimal\<close> and \<open>float\<close> are exact
  rationals (\<open>rat\<close>), so the rounding of the 28-digit decimal context and of binary
  floating point is outside the model, as are NaN and the infinities. Strings are
  lists of characters; the identifiers, topics and keys of the program are ASCII.
\<close>

named_theorems py_defs \<open>definitions of the Python value layer\<close>
named_theorems key_simps \<open>equations about generated keys and topic names\<close>

subsection \<open>JSON values and truthiness\<close>

datatype json =
    JNull
  | JBool bool
  | JInt int
  | JNum rat
  | JStr string
  | JList "json list"
  | JObj "(string \<times> json) list"

text \<open>\<open>bool(v)\<close> of a JSON value.\<close>

fun py_truthy :: "json \<Rightarrow> bool" where
  "py_truthy JNull = False"
| "py_truthy (JBool b) = b"
| "py_truthy (JInt i) = (i \<noteq> 0)"
| "py_truthy (JNum r) = (r \<noteq> 0)"
| "py_truthy (JStr s) = (s \<noteq> [])"
| "py_truthy (JList xs) = (xs \<noteq> [])"
| "py_truthy (JObj kvs) = (kvs \<noteq> [])"

text \<open>\<open>d.get(k)\<close> of a JSON object (a key bound twice keeps the first binding of the list).\<close>

definition jget :: "(string \<times> json) list \<Rightarrow> string \<Rightarrow> json option" where
  "jget d k = map_of d k"

text \<open>\<open>d.get(k)\<close> where a missing key and \<open>None\<close> are the same.\<close>

definition jget_none :: "(string \<times> json) list \<Rightarrow> string \<Rightarrow> json" where
  "jget_none d k = (case jget d k of None \<Rightarrow> JNull | Some v \<Rightarrow> v)"

subsection \<open>Characters and strings\<close>

definition char_lower :: "char \<Rightarrow> char" where
  "char_lower c = (let n = (of_char c :: nat) in
     if 65 \<le> n \<and> n \<le> 90 then char_of (n + 32) else c)"

definition char_upper :: "char \<Rightarrow> char" where
  "char_upper c = (let n = (of_char c :: nat) in
     if 97 \<le> n \<and> n \<le> 122 then char_of (n - 32) else c)"

definition str_lower :: "string \<Rightarrow> string" where
  "str_lower s = map char_lower s"

definition str_upper :: "string \<Rightarrow> string" where
  "str_upper s = map char_upper s"

text \<open>\<open>s.startswith(p)\<close>.\<close>

fun starts_with :: "string \<Rightarrow> string \<Rightarrow> bool" where
  "starts_with [] s = True"
| "starts_with (p # ps) [] = False"
| "starts_with (p # ps) (c # cs) = (p = c \<and> starts_with ps cs)"

text \<open>\<open>p in s\<close> on strings.\<close>

fun in_str :: "string \<Rightarrow> string \<Rightarrow> bool" where
  "in_str p [] = (p = [])"
| "in_str p (c # cs) = (starts_with p (c # cs) \<or> in_str p cs)"

text \<open>\<open>s.split(c)\<close> for a one-character separator.\<close>

fun split_on :: "char \<Rightarrow> string \<Rightarrow> string list" where
  "split_on c [] = [[]]"
| "split_on c (x # xs) =
     (if x = c then [] # split_on c xs
      else (case split_on c xs of [] \<Rightarrow> [[x]] | y # ys \<Rightarrow> (x # y) # ys))"

text \<open>\<open>sep.join(xs)\<close>.\<close>

fun join_str :: "string \<Rightarrow> string list \<Rightarrow> string" where
  "join_str sep [] = []"
| "join_str sep [x] = x"
| "join_str sep (x # y # ys) = x @ sep @ join_str sep (y # ys)"

lemma starts_with_append [simp]: "starts_with p (p @ s)"
  by (induction p) auto

lemma starts_with_iff: "starts_with p s \<longleftrightarrow> (\<exists>r. s = p @ r)"
  by (induction p s rule: starts_with.induct) auto

lemma split_on_not_Nil [simp]: "split_on c s \<noteq> []"
  by (induction s) (auto split: list.splits)

lemma split_on_no_sep: "c \<notin> set s \<Longrightarrow> split_on c s = [s]"
  by (induction s) auto

lemma split_on_append:
  "c \<notin> set s \<Longrightarrow> split_on c (s @ c # t) = s # split_on c t"
  by (induction s) auto

lemma hd_split_on: "c \<notin> set s \<Longrightarrow> hd (split_on c (s @ c # t)) = s"
  by (simp add: split_on_append)

text \<open>A key built as \<open>a + sep + b\<close> determines its parts when \<open>a\<close> is free of the separator.\<close>

lemma append_sep_inject:
  assumes "c \<notin> set a" and "c \<notin> set a'"
  shows "a @ c # b = a' @ c # b' \<longleftrightarrow> a = a' \<and> b = b'"
proof
  assume eq: "a @ c # b = a' @ c # b'"
  have "takeWhile (\<lambda>x. x \<noteq> c) (a @ c # b) = a"
    using assms(1) by (induction a) auto
  moreover have "takeWhile (\<lambda>x. x \<noteq> c) (a' @ c # b') = a'"
    using assms(2) by (induction a') auto
  ultimately have "a = a'" using eq by simp
  then show "a = a' \<and> b = b'" using eq by simp
qed simp

lemma append_sep_inject_right:
  assumes "c \<notin> set b" and "c \<notin> set b'"
  shows "a @ c # b = a' @ c # b' \<longleftrightarrow> a = a' \<and> b = b'"
proof -
  have "a @ c # b = a' @ c # b' \<longleftrightarrow> rev b @ c # rev a = rev b' @ c # rev a'"
    by (metis append.assoc append_Cons append_Nil rev.simps(2) rev_append rev_rev_ident)
  also have "\<dots> \<longleftrightarrow> rev b = rev b' \<and> rev a = rev a'"
    by (rule append_sep_inject) (use assms in auto)
  finally show ?thesis by auto
qed

subsection \<open>Rendering and reading integers\<close>

definition digit_char :: "nat \<Rightarrow> char" where
  "digit_char d = char_of (48 + d)"

fun show_nat :: "nat \<Rightarrow> string" where
  "show_nat n = (if n < 10 then [digit_char n] else show_nat (n div 10) @ [digit_char (n mod 10)])"

declare show_nat.simps [simp del]

text \<open>\<open>str(i)\<close> of an integer.\<close>

definition show_int :: "int \<Rightarrow> string" where
  "show_int i = (if i < 0 then CHR ''-'' # show_nat (nat (- i)) else show_nat (nat i))"

definition digit_val :: "char \<Rightarrow> nat option" where
  "digit_val c = (let n = (of_char c :: nat) in if 48 \<le> n \<and> n \<le> 57 then Some (n - 48) else None)"

fun read_digits :: "nat \<Rightarrow> string \<Rightarrow> nat option" where
  "read_digits acc [] = Some acc"
| "read_digits acc (c # cs) =
     (case digit_val c of None \<Rightarrow> None | Some d \<Rightarrow> read_digits (10 * acc + d) cs)"

definition read_nat :: "string \<Rightarrow> nat option" where
  "read_nat s = (if s = [] then None else read_digits 0 s)"

text \<open>\<open>int(s)\<close> of a string: an optional sign and digits.\<close>

definition read_int :: "string \<Rightarrow> int option" where
  "read_int s = (case s of
      [] \<Rightarrow> None
    | c # cs \<Rightarrow>
        if c = CHR ''-'' then map_option (\<lambda>n. - int n) (read_nat cs)
        else if c = CHR ''+'' then map_option int (read_nat cs)
        else map_option int (read_nat s))"

lemma digit_val_char: "d < 10 \<Longrightarrow> digit_val (digit_char d) = Some d"
  by (simp add: digit_val_def digit_char_def Let_def of_char_of take_bit_eq_mod)

lemma read_digits_append:
  "read_digits acc (xs @ ys) = Option.bind (read_digits acc xs) (\<lambda>a. read_digits a ys)"
  by (induction xs arbitrary: acc) (auto split: option.splits)

lemma read_digits_show_nat: "read_digits 0 (show_nat n) = Some n"
proof (induction n rule: show_nat.induct)
  case (1 n)
  show ?case
  proof (cases "n < 10")
    case True
    then show ?thesis by (subst show_nat.simps) (simp add: digit_val_char)
  next
    case False
    with 1 have "read_digits 0 (show_nat (n div 10)) = Some (n div 10)" by simp
    with False show ?thesis
      by (subst show_nat.simps) (simp add: read_digits_append digit_val_char)
  qed
qed

lemma show_nat_not_Nil [simp]: "show_nat n \<noteq> []"
  by (subst show_nat.simps) simp

lemma digit_val_show_nat: "c \<in> set (show_nat n) \<Longrightarrow> digit_val c \<noteq> None"
proof (induction n rule: show_nat.induct)
  case (1 n)
  show ?case
  proof (cases "n < 10")
    case True
    with 1(2) show ?thesis by (subst (asm) show_nat.simps) (simp add: digit_val_char)
  next
    case False
    with 1(2) have "c \<in> set (show_nat (n div 10)) \<or> c = digit_char (n mod 10)"
      by (subst (asm) show_nat.simps) auto
    with 1(1) False show ?thesis by (auto simp: digit_val_char)
  qed
qed

lemma not_digit_show_int:
  assumes "digit_val c = None" and "c \<noteq> CHR ''-''"
  shows "c \<notin> set (show_int i)"
proof
  assume "c \<in> set (show_int i)"
  then have "c \<in> set (show_nat (nat i)) \<or> c \<in> set (show_nat (nat (- i)))"
    using assms(2) by (auto simp: show_int_def split: if_splits)
  then show False using digit_val_show_nat assms(1) by blast
qed

lemma read_int_show_int: "read_int (show_int i) = Some i"
proof (cases "i < 0")
  case True
  then have "show_int i = CHR ''-'' # show_nat (nat (- i))" by (simp add: show_int_def)
  then show ?thesis
    using True by (simp add: read_int_def read_nat_def read_digits_show_nat)
next
  case False
  obtain c cs where c: "show_nat (nat i) = c # cs"
    by (metis show_nat_not_Nil neq_Nil_conv)
  then have d: "digit_val c \<noteq> None" using digit_val_show_nat [of c "nat i"] by simp
  then have "c \<noteq> CHR ''-''" and "c \<noteq> CHR ''+''"
    by (auto simp: digit_val_def)
  then show ?thesis
    using False c read_digits_show_nat [of "nat i"]
    by (simp add: show_int_def read_int_def read_nat_def)
qed

lemma show_int_inject [simp]: "show_int i = show_int j \<longleftrightarrow> i = j"
  by (metis option.inject read_int_show_int)

lemma colon_not_in_show_int [simp]: "CHR '':'' \<notin> set (show_int i)"
  by (rule not_digit_show_int) (simp_all add: digit_val_def)

subsection \<open>Reading decimals\<close>

text \<open>The unsigned mantissa of a decimal literal: digits with at most one point.\<close>

definition read_mantissa :: "string \<Rightarrow> rat option" where
  "read_mantissa s = (case split_on (CHR ''.'') s of
      [a] \<Rightarrow> map_option of_nat (read_nat a)
    | [a, b] \<Rightarrow>
        if a = [] \<and> b = [] then None
        else (case (read_digits 0 a, read_digits 0 b) of
            (Some x, Some y) \<Rightarrow> Some (of_nat x + of_nat y / 10 ^ length b)
          | _ \<Rightarrow> None)
    | _ \<Rightarrow> None)"

definition scale10 :: "rat \<Rightarrow> int \<Rightarrow> rat" where
  "scale10 m e = (if 0 \<le> e then m * 10 ^ nat e else m / 10 ^ nat (- e))"

definition read_unsigned :: "string \<Rightarrow> rat option" where
  "read_unsigned s = (case split_on (CHR ''e'') (str_lower s) of
      [m] \<Rightarrow> read_mantissa m
    | [m, e] \<Rightarrow>
        (case (read_mantissa m, read_int e) of
            (Some x, Some k) \<Rightarrow> Some (scale10 x k)
          | _ \<Rightarrow> None)
    | _ \<Rightarrow> None)"

text \<open>\<open>Decimal(s)\<close> (and \<open>float(s)\<close>) of a string; \<open>None\<close> where Python raises.\<close>

definition read_decimal :: "string \<Rightarrow> rat option" where
  "read_decimal s = (case s of
      [] \<Rightarrow> None
    | c # cs \<Rightarrow>
        if c = CHR ''-'' then map_option uminus (read_unsigned cs)
        else if c = CHR ''+'' then read_unsigned cs
        else read_unsigned s)"

text \<open>\<open>Decimal(str(v))\<close> of a JSON value: booleans, \<open>None\<close> and containers do not parse.\<close>

fun dec_of_json :: "json \<Rightarrow> rat option" where
  "dec_of_json (JInt i) = Some (of_int i)"
| "dec_of_json (JNum r) = Some r"
| "dec_of_json (JStr s) = read_decimal s"
| "dec_of_json _ = None"

text \<open>\<open>float(v)\<close> of a JSON value: as above, but booleans convert.\<close>

fun float_of_json :: "json \<Rightarrow> rat option" where
  "float_of_json (JInt i) = Some (of_int i)"
| "float_of_json (JNum r) = Some r"
| "float_of_json (JBool b) = Some (of_bool b)"
| "float_of_json (JStr s) = read_decimal s"
| "float_of_json _ = None"

text \<open>Truncation towards zero: \<open>int(x)\<close> of a number, and \<open>//\<close> on \<open>Decimal\<close>.\<close>

definition trunc_rat :: "rat \<Rightarrow> int" where
  "trunc_rat r = (if r < 0 then - \<lfloor>- r\<rfloor> else \<lfloor>r\<rfloor>)"

lemma trunc_rat_nonneg: "0 \<le> r \<Longrightarrow> trunc_rat r = \<lfloor>r\<rfloor>"
  by (simp add: trunc_rat_def)

lemma trunc_rat_le: "0 \<le> r \<Longrightarrow> of_int (trunc_rat r) \<le> r"
  by (simp add: trunc_rat_def)

lemma trunc_rat_of_int [simp]: "trunc_rat (of_int i) = i"
  by (simp add: trunc_rat_def)

text \<open>\<open>int(v)\<close> of a JSON value; \<open>None\<close> where Python raises.\<close>

fun int_of_json :: "json \<Rightarrow> int option" where
  "int_of_json (JInt i) = Some i"
| "int_of_json (JNum r) = Some (trunc_rat r)"
| "int_of_json (JBool b) = Some (of_bool b)"
| "int_of_json (JStr s) = read_int s"
| "int_of_json _ = None"

text \<open>\<open>x or y\<close> for an optional number: \<open>None\<close> and zero fall through.\<close>

definition or_num :: "rat option \<Rightarrow> rat \<Rightarrow> rat" where
  "or_num x y = (case x of None \<Rightarrow> y | Some r \<Rightarrow> if r = 0 then y else r)"

lemma or_num_simps [simp]:
  "or_num None y = y" "or_num (Some 0) y = y" "r \<noteq> 0 \<Longrightarrow> or_num (Some r) y = r"
  by (simp_all add: or_num_def)

subsection \<open>Dates and times as text\<close>

text \<open>
  A \<open>datetime\<close> is kept as the two halves of its rendering: \<open>isoformat()\<close> joins them
  with \<open>T\<close>, \<open>str()\<close> with a blank.
\<close>

record datetime =
  dt_date :: string
  dt_time :: string

definition isoformat :: "datetime \<Rightarrow> string" where
  "isoformat t = dt_date t @ ''T'' @ dt_time t"

definition str_datetime :: "datetime \<Rightarrow> string" where
  "str_datetime t = dt_date t @ '' '' @ dt_time t"

subsection \<open>Dictionaries in insertion order\<close>

text \<open>
  A Python dict whose iteration order matters is an association list with distinct keys:
  assignment overwrites in place or appends.
\<close>

fun dict_set :: "'k \<Rightarrow> 'v \<Rightarrow> ('k \<times> 'v) list \<Rightarrow> ('k \<times> 'v) list" where
  "dict_set k v [] = [(k, v)]"
| "dict_set k v ((k', v') # d) =
     (if k' = k then (k, v) # d else (k', v') # dict_set k v d)"

definition dict_pop :: "'k \<Rightarrow> ('k \<times> 'v) list \<Rightarrow> ('k \<times> 'v) list" where
  "dict_pop k d = filter (\<lambda>kv. fst kv \<noteq> k) d"

lemma map_of_dict_set [simp]: "map_of (dict_set k v d) = (map_of d)(k \<mapsto> v)"
  by (induction k v d rule: dict_set.induct) (auto simp: fun_eq_iff)

lemma map_of_dict_pop [simp]: "map_of (dict_pop k d) = (map_of d)(k := None)"
  by (induction d) (auto simp: dict_pop_def fun_eq_iff)

lemma keys_dict_set [simp]: "fst ` set (dict_set k v d) = insert k (fst ` set d)"
  by (induction k v d rule: dict_set.induct) auto

lemma distinct_dict_set [simp]: "distinct (map fst d) \<Longrightarrow> distinct (map fst (dict_set k v d))"
proof (induction k v d rule: dict_set.induct)
  case (2 k v k' v' d)
  then show ?case
    using keys_dict_set [of k v d] by (auto simp flip: set_map)
qed simp

lemma distinct_dict_pop [simp]: "distinct (map fst d) \<Longrightarrow> distinct (map fst (dict_pop k d))"
  by (simp add: dict_pop_def distinct_map_filter)

lemma length_dict_set: "length (dict_set k v d) = (if map_of d k = None then Suc (length d) else length d)"
  by (induction k v d rule: dict_set.induct) auto

lemma dict_pop_absent: "map_of d k = None \<Longrightarrow> dict_pop k d = d"
  by (induction d) (auto simp: dict_pop_def split: if_splits)

lemma length_dict_pop: "distinct (map fst d) \<Longrightarrow> map_of d k = Some v \<Longrightarrow> Suc (length (dict_pop k d)) = length d"
proof (induction d)
  case (Cons x d)
  show ?case
  proof (cases "fst x = k")
    case True
    with Cons.prems have "map_of d k = None" by (auto simp: map_of_eq_None_iff)
    from dict_pop_absent [OF this] True show ?thesis by (simp add: dict_pop_def)
  qed (use Cons in \<open>auto simp: dict_pop_def split: if_splits\<close>)
qed simp

lemma keys_fold_dict_set: "fst ` set (fold (\<lambda>k d. dict_set k (f k) d) ks d) = set ks \<union> fst ` set d"
  by (induction ks arbitrary: d) auto

lemma keys_fold_zip: "fst ` set (fold (\<lambda>(k, v) d. dict_set k (g v) d) kvs d) = fst ` set kvs \<union> fst ` set d"
  by (induction kvs arbitrary: d) (simp_all add: case_prod_beta)

subsection \<open>Step machines\<close>

text \<open>
  Every stateful component is a step function over its events. What a step keeps, a run
  keeps; each component interprets this once for its own invariant.
\<close>

locale step_machine =
  fixes step :: "'s \<Rightarrow> 'e \<Rightarrow> 's" and inv :: "'s \<Rightarrow> bool"
  assumes step_inv: "inv s \<Longrightarrow> inv (step s e)"
begin

lemma run_inv: "inv s \<Longrightarrow> inv (foldl step s es)"
  by (induction es arbitrary: s) (auto intro: step_inv)

lemma run_prefix_inv: "inv s \<Longrightarrow> inv (foldl step s (take n es))"
  by (rule run_inv)

end

end
