(* ===== verification/Exceptions.thy ===== *)
theory Exceptions
  imports Py_Prelude
begin

text \<open>
  The exception hierarchy of core/utils/exceptions.py. A class is a constructor of
  \<open>exn_class\<close>; classes of the language, of pydantic and of the client libraries are
  \<open>Other name\<close>. \<open>exn_base\<close> is the base class each class statement names, \<open>mro\<close> the chain
  of ancestors, and \<open>isinstance\<close> membership in it.
\<close>

datatype exn_class =
    AlphaPandaException
  | TransientError
  | PermanentError
  | AuthenticationError
  | AuthorizationError
  | BrokerError
  | BrokerConnectionError
  | BrokerAPIError
  | InsufficientFundsError
  | MarketDataError
  | MarketDataConnectionError
  | StaleDataError
  | RiskValidationError
  | PositionLimitError
  | StrategyError
  | StrategyConfigurationError
  | StrategyExecutionError
  | InfrastructureError
  | DatabaseError
  | RedisError
  | StreamingError
  | MessageDeserializationError
  | ConfigurationError
  | ValidationError
  | PortfolioError
  | PortfolioStateError
  | InstrumentNotFoundError
  | OrderError
  | OrderRejectionError
  | OrderTimeoutError
  | Other string

fun exn_base :: "exn_class \<Rightarrow> exn_class option" where
  "exn_base AlphaPandaException = Some (Other ''Exception'')"
| "exn_base TransientError = Some AlphaPandaException"
| "exn_base PermanentError = Some AlphaPandaException"
| "exn_base AuthenticationError = Some TransientError"
| "exn_base AuthorizationError = Some PermanentError"
| "exn_base BrokerError = Some TransientError"
| "exn_base BrokerConnectionError = Some BrokerError"
| "exn_base BrokerAPIError = Some BrokerError"
| "exn_base InsufficientFundsError = Some PermanentError"
| "exn_base MarketDataError = Some TransientError"
| "exn_base MarketDataConnectionError = Some MarketDataError"
| "exn_base StaleDataError = Some TransientError"
| "exn_base RiskValidationError = Some PermanentError"
| "exn_base PositionLimitError = Some RiskValidationError"
| "exn_base StrategyError = Some AlphaPandaException"
| "exn_base StrategyConfigurationError = Some PermanentError"
| "exn_base StrategyExecutionError = Some TransientError"
| "exn_base InfrastructureError = Some TransientError"
| "exn_base DatabaseError = Some InfrastructureError"
| "exn_base RedisError = Some InfrastructureError"
| "exn_base StreamingError = Some InfrastructureError"
| "exn_base MessageDeserializationError = Some PermanentError"
| "exn_base ConfigurationError = Some PermanentError"
| "exn_base ValidationError = Some PermanentError"
| "exn_base PortfolioError = Some AlphaPandaException"
| "exn_base PortfolioStateError = Some TransientError"
| "exn_base InstrumentNotFoundError = Some PermanentError"
| "exn_base OrderError = Some AlphaPandaException"
| "exn_base OrderRejectionError = Some PermanentError"
| "exn_base OrderTimeoutError = Some TransientError"
| "exn_base (Other name) = None"

text \<open>The number of class statements between a class and \<open>Exception\<close>.\<close>

fun exn_depth :: "exn_class \<Rightarrow> nat" where
  "exn_depth (Other name) = 0"
| "exn_depth AlphaPandaException = 1"
| "exn_depth TransientError = 2"
| "exn_depth PermanentError = 2"
| "exn_depth StrategyError = 2"
| "exn_depth PortfolioError = 2"
| "exn_depth OrderError = 2"
| "exn_depth BrokerConnectionError = 4"
| "exn_depth BrokerAPIError = 4"
| "exn_depth MarketDataConnectionError = 4"
| "exn_depth PositionLimitError = 4"
| "exn_depth DatabaseError = 4"
| "exn_depth RedisError = 4"
| "exn_depth StreamingError = 4"
| "exn_depth _ = 3"

lemma exn_base_depth: "exn_base c = Some b \<Longrightarrow> exn_depth b < exn_depth c"
  by (cases c) auto

function mro :: "exn_class \<Rightarrow> exn_class list" where
  "mro c = c # (case exn_base c of None \<Rightarrow> [] | Some b \<Rightarrow> mro b)"
  by pat_completeness auto
termination
  by (relation "measure exn_depth") (auto simp: exn_base_depth)

declare mro.simps [simp del]

lemma mro_step: "exn_base c = Some b \<Longrightarrow> mro c = c # mro b"
  by (subst mro.simps) simp

lemma mro_Other [simp]: "mro (Other name) = [Other name]"
  by (subst mro.simps) simp

text \<open>The class name Python reports as \<open>type(e).__name__\<close>.\<close>

fun exn_name :: "exn_class \<Rightarrow> string" where
  "exn_name AlphaPandaException = ''AlphaPandaException''"
| "exn_name TransientError = ''TransientError''"
| "exn_name PermanentError = ''PermanentError''"
| "exn_name AuthenticationError = ''AuthenticationError''"
| "exn_name AuthorizationError = ''AuthorizationError''"
| "exn_name BrokerError = ''BrokerError''"
| "exn_name BrokerConnectionError = ''BrokerConnectionError''"
| "exn_name BrokerAPIError = ''BrokerAPIError''"
| "exn_name InsufficientFundsError = ''InsufficientFundsError''"
| "exn_name MarketDataError = ''MarketDataError''"
| "exn_name MarketDataConnectionError = ''MarketDataConnectionError''"
| "exn_name StaleDataError = ''StaleDataError''"
| "exn_name RiskValidationError = ''RiskValidationError''"
| "exn_name PositionLimitError = ''PositionLimitError''"
| "exn_name StrategyError = ''StrategyError''"
| "exn_name StrategyConfigurationError = ''StrategyConfigurationError''"
| "exn_name StrategyExecutionError = ''StrategyExecutionError''"
| "exn_name InfrastructureError = ''InfrastructureError''"
| "exn_name DatabaseError = ''DatabaseError''"
| "exn_name RedisError = ''RedisError''"
| "exn_name StreamingError = ''StreamingError''"
| "exn_name MessageDeserializationError = ''MessageDeserializationError''"
| "exn_name ConfigurationError = ''ConfigurationError''"
| "exn_name ValidationError = ''ValidationError''"
| "exn_name PortfolioError = ''PortfolioError''"
| "exn_name PortfolioStateError = ''PortfolioStateError''"
| "exn_name InstrumentNotFoundError = ''InstrumentNotFoundError''"
| "exn_name OrderError = ''OrderError''"
| "exn_name OrderRejectionError = ''OrderRejectionError''"
| "exn_name OrderTimeoutError = ''OrderTimeoutError''"
| "exn_name (Other name) = name"

text \<open>An exception value: its class, its message, and the retry attributes that the
  constructor of TransientError sets (meaningful only for transient errors).\<close>

record exn =
  exn_class :: exn_class
  exn_msg :: string
  exn_retry_count :: nat
  exn_max_retries :: nat

definition isinstance :: "exn \<Rightarrow> exn_class \<Rightarrow> bool" where
  "isinstance e c = (c \<in> set (mro (exn_class e)))"

text \<open>Raising a class with its default retry attributes (TransientError's defaults).\<close>

definition raise_exn :: "exn_class \<Rightarrow> string \<Rightarrow> exn" where
  "raise_exn c msg = \<lparr>exn_class = c, exn_msg = msg, exn_retry_count = 0, exn_max_retries = 5\<rparr>"

text \<open>The attribute \<open>retryable\<close> that TransientError's constructor computes.\<close>

definition retryable :: "exn \<Rightarrow> bool" where
  "retryable e = (exn_retry_count e < exn_max_retries e)"

definition is_retryable_error :: "exn \<Rightarrow> bool" where
  "is_retryable_error e = (if isinstance e TransientError then retryable e else False)"

definition get_retry_delay :: "exn \<Rightarrow> rat \<Rightarrow> rat" where
  "get_retry_delay e base_delay =
     (if \<not> isinstance e TransientError then 0 else base_delay * 2 ^ exn_retry_count e)"

subsection \<open>The shape of the hierarchy\<close>

lemmas mro_evals = mro_step [OF exn_base.simps(1)] mro_step [OF exn_base.simps(2)]
  mro_step [OF exn_base.simps(3)] mro_step [OF exn_base.simps(4)] mro_step [OF exn_base.simps(5)]
  mro_step [OF exn_base.simps(6)] mro_step [OF exn_base.simps(7)] mro_step [OF exn_base.simps(8)]
  mro_step [OF exn_base.simps(9)] mro_step [OF exn_base.simps(10)] mro_step [OF exn_base.simps(11)]
  mro_step [OF exn_base.simps(12)] mro_step [OF exn_base.simps(13)] mro_step [OF exn_base.simps(14)]
  mro_step [OF exn_base.simps(15)] mro_step [OF exn_base.simps(16)] mro_step [OF exn_base.simps(17)]
  mro_step [OF exn_base.simps(18)] mro_step [OF exn_base.simps(19)] mro_step [OF exn_base.simps(20)]
  mro_step [OF exn_base.simps(21)] mro_step [OF exn_base.simps(22)] mro_step [OF exn_base.simps(23)]
  mro_step [OF exn_base.simps(24)] mro_step [OF exn_base.simps(25)] mro_step [OF exn_base.simps(26)]
  mro_step [OF exn_base.simps(27)] mro_step [OF exn_base.simps(28)] mro_step [OF exn_base.simps(29)]
  mro_step [OF exn_base.simps(30)]

lemma transient_permanent_disjoint:
  "TransientError \<in> set (mro c) \<Longrightarrow> PermanentError \<notin> set (mro c)"
  by (cases c) (auto simp: mro_evals)

lemma structured_is_alpha:
  "TransientError \<in> set (mro c) \<or> PermanentError \<in> set (mro c) \<Longrightarrow> AlphaPandaException \<in> set (mro c)"
  by (cases c) (auto simp: mro_evals)

lemma is_retryable_not_permanent: "is_retryable_error e \<Longrightarrow> \<not> isinstance e PermanentError"
  using transient_permanent_disjoint [of "exn_class e"]
  by (auto simp: is_retryable_error_def isinstance_def split: if_splits)

lemma get_retry_delay_pos: "isinstance e TransientError \<Longrightarrow> 0 < b \<Longrightarrow> b \<le> get_retry_delay e b"
  by (simp add: get_retry_delay_def)

end
