(* ===== verification/Error_Handling.thy ===== *)
theory Error_Handling
  imports Exceptions
begin

text \<open>
  Error classification, retry policy, dead-letter publication and the error handler
  (core/streaming/error_handling.py, core/streaming/reliability/error_handler.py).

  The calls that leave the process (the DLQ producer, the handler that is retried, the offset
  commit) are parameters: functions on a world state \<open>'w\<close> that return the new world and the
  exception they raised, if any. The handler's own state (retry counters, statistics, the delays
  it slept) is the record \<open>eh\<close>. A call that raises is the left summand of the result.
\<close>

subsection \<open>Error types and retry configuration\<close>

datatype error_type = TRANSIENT | POISON | BUSINESS | INFRASTRUCTURE | AUTHENTICATION | RATE_LIMIT

fun error_type_value :: "error_type \<Rightarrow> string" where
  "error_type_value TRANSIENT = ''transient''"
| "error_type_value POISON = ''poison''"
| "error_type_value BUSINESS = ''business''"
| "error_type_value INFRASTRUCTURE = ''infrastructure''"
| "error_type_value AUTHENTICATION = ''authentication''"
| "error_type_value RATE_LIMIT = ''rate_limit''"

record retry_config =
  max_attempts :: nat
  base_delay :: rat
  max_delay :: rat
  exponential_base :: rat
  jitter :: bool

definition mk_retry :: "nat \<Rightarrow> rat \<Rightarrow> rat \<Rightarrow> retry_config" where
  "mk_retry a b m = \<lparr>max_attempts = a, base_delay = b, max_delay = m, exponential_base = 2, jitter = True\<rparr>"

text \<open>\<open>rnd\<close> is the value \<open>random.random()\<close> returns.\<close>

definition get_delay :: "retry_config \<Rightarrow> nat \<Rightarrow> rat \<Rightarrow> rat" where
  "get_delay c attempt rnd =
     (let delay = min (base_delay c * exponential_base c ^ attempt) (max_delay c) in
      if jitter c then delay * (1/2 + 1/2 * rnd) else delay)"

subsection \<open>ErrorClassifier\<close>

definition error_mappings :: "(string \<times> error_type) list" where
  "error_mappings =
    [(''ConnectionError'', TRANSIENT), (''TimeoutError'', TRANSIENT),
     (''KafkaTimeoutError'', TRANSIENT), (''CommitFailedError'', TRANSIENT),
     (''RebalanceInProgressError'', TRANSIENT),
     (''BrokerConnectionError'', TRANSIENT), (''BrokerAPIError'', TRANSIENT),
     (''MarketDataError'', TRANSIENT), (''MarketDataConnectionError'', TRANSIENT),
     (''StaleDataError'', TRANSIENT), (''StrategyExecutionError'', TRANSIENT),
     (''DatabaseError'', INFRASTRUCTURE), (''RedisError'', INFRASTRUCTURE),
     (''StreamingError'', INFRASTRUCTURE), (''PortfolioStateError'', INFRASTRUCTURE),
     (''OrderTimeoutError'', TRANSIENT),
     (''ValidationError'', POISON), (''ValueError'', POISON), (''KeyError'', POISON),
     (''JSONDecodeError'', POISON), (''TypeError'', POISON), (''UnicodeDecodeError'', POISON),
     (''MessageDeserializationError'', POISON), (''ConfigurationError'', POISON),
     (''InstrumentNotFoundError'', POISON), (''StrategyConfigurationError'', POISON),
     (''RiskValidationError'', POISON), (''PositionLimitError'', POISON),
     (''InsufficientFundsError'', POISON), (''OrderRejectionError'', POISON),
     (''AuthorizationError'', POISON),
     (''SQLAlchemyError'', INFRASTRUCTURE), (''RedisConnectionError'', INFRASTRUCTURE),
     (''DatabaseConnectionError'', INFRASTRUCTURE), (''InfrastructureError'', INFRASTRUCTURE),
     (''AuthenticationError'', AUTHENTICATION), (''TokenExpiredError'', AUTHENTICATION),
     (''UnauthorizedError'', AUTHENTICATION),
     (''RateLimitError'', RATE_LIMIT), (''TooManyRequestsError'', RATE_LIMIT)]"

definition transient_patterns :: "string list" where
  "transient_patterns = [''connection refused'', ''connection reset'', ''timeout'',
     ''temporary failure'', ''service unavailable'', ''network unreachable'']"

definition poison_patterns :: "string list" where
  "poison_patterns = [''invalid format'', ''malformed'', ''parse error'',
     ''schema validation'', ''unknown field'', ''missing required'']"

definition auth_patterns :: "string list" where
  "auth_patterns = [''unauthorized'', ''authentication failed'', ''invalid token'',
     ''access denied'', ''forbidden'', ''credentials'']"

definition any_in :: "string list \<Rightarrow> string \<Rightarrow> bool" where
  "any_in ps s = list_ex (\<lambda>p. in_str p s) ps"

definition classify_error :: "exn \<Rightarrow> error_type" where
  "classify_error e =
     (if isinstance e PermanentError then POISON
      else if isinstance e TransientError then
        (if isinstance e AuthenticationError then AUTHENTICATION
         else if isinstance e BrokerError then
           (if in_str ''rate limit'' (str_lower (exn_msg e)) \<or>
               in_str ''too many requests'' (str_lower (exn_msg e)) then RATE_LIMIT
            else TRANSIENT)
         else if isinstance e InfrastructureError then INFRASTRUCTURE
         else TRANSIENT)
      else
        (case map_of error_mappings (exn_name (exn_class e)) of
           Some t \<Rightarrow> t
         | None \<Rightarrow>
             let m = str_lower (exn_msg e) in
             if any_in transient_patterns m then TRANSIENT
             else if any_in poison_patterns m then POISON
             else if any_in auth_patterns m then AUTHENTICATION
             else BUSINESS))"

definition should_retry :: "error_type \<Rightarrow> bool" where
  "should_retry t = (t \<in> set [TRANSIENT, INFRASTRUCTURE, RATE_LIMIT, BUSINESS])"

fun get_retry_config :: "error_type \<Rightarrow> retry_config" where
  "get_retry_config TRANSIENT = mk_retry 5 1 30"
| "get_retry_config INFRASTRUCTURE = mk_retry 3 2 60"
| "get_retry_config RATE_LIMIT = mk_retry 8 5 300"
| "get_retry_config BUSINESS = mk_retry 2 1 10"
| "get_retry_config AUTHENTICATION = mk_retry 1 60 60"
| "get_retry_config POISON = mk_retry 0 0 0"

subsection \<open>DLQPublisher\<close>

record message =
  m_topic :: string
  m_partition :: int
  m_offset :: int
  m_key :: "string option"
  m_value :: "(string \<times> json) list"
  m_timestamp :: int

record dlq_event =
  d_topic :: string
  d_original_topic :: string
  d_partition :: int
  d_offset :: int
  d_timestamp :: int
  d_service :: string
  d_error_type :: string
  d_error_class :: string
  d_error_message :: string
  d_failure_reason :: string
  d_retry_count :: nat
  d_key :: string
  d_value :: "(string \<times> json) list"
  d_can_replay :: bool
  d_suggested_delay :: int
  d_consumer_group :: string
  d_manual_review :: bool

fun get_suggested_replay_delay :: "error_type option \<Rightarrow> int" where
  "get_suggested_replay_delay (Some TRANSIENT) = 5"
| "get_suggested_replay_delay (Some INFRASTRUCTURE) = 15"
| "get_suggested_replay_delay (Some RATE_LIMIT) = 30"
| "get_suggested_replay_delay (Some BUSINESS) = 60"
| "get_suggested_replay_delay (Some AUTHENTICATION) = 120"
| "get_suggested_replay_delay (Some POISON) = -1"
| "get_suggested_replay_delay None = 30"

text \<open>The event built from a failed message. A missing key is rendered by \<open>str(None)\<close>; the
  message objects built by the reliability layer carry no headers, so the serialised headers
  are empty and left out.\<close>

definition mk_dlq_event ::
  "string \<Rightarrow> message \<Rightarrow> exn \<Rightarrow> string \<Rightarrow> nat \<Rightarrow> error_type option \<Rightarrow> dlq_event" where
  "mk_dlq_event service m e reason n t =
     \<lparr>d_topic = m_topic m @ ''.dlq'',
      d_original_topic = m_topic m,
      d_partition = m_partition m,
      d_offset = m_offset m,
      d_timestamp = m_timestamp m,
      d_service = service,
      d_error_type = (case t of Some t' \<Rightarrow> error_type_value t' | None \<Rightarrow> ''unknown''),
      d_error_class = exn_name (exn_class e),
      d_error_message = exn_msg e,
      d_failure_reason = reason,
      d_retry_count = n,
      d_key = (case m_key m of None \<Rightarrow> ''None'' | Some k \<Rightarrow> k),
      d_value = m_value m,
      d_can_replay = (case t of Some t' \<Rightarrow> t' \<notin> {POISON} | None \<Rightarrow> True),
      d_suggested_delay = get_suggested_replay_delay t,
      d_consumer_group = ''alpha-panda.'' @ service,
      d_manual_review = (case t of Some t' \<Rightarrow> t' \<in> {POISON, AUTHENTICATION} | None \<Rightarrow> False)\<rparr>"

record dlq_stats =
  messages_sent :: nat
  dlq_errors :: nat

text \<open>\<open>send\<close> is the producer, \<open>cb\<close> the notification callback (its errors are swallowed, so only
  its effect on the world matters).\<close>

definition send_to_dlq ::
  "string \<Rightarrow> (dlq_event \<Rightarrow> 'w \<Rightarrow> 'w \<times> exn option) \<Rightarrow> (dlq_event \<Rightarrow> 'w \<Rightarrow> 'w) option \<Rightarrow>
   message \<Rightarrow> exn \<Rightarrow> string \<Rightarrow> nat \<Rightarrow> error_type option \<Rightarrow> dlq_stats \<Rightarrow> 'w \<Rightarrow> bool \<times> dlq_stats \<times> 'w" where
  "send_to_dlq service send cb m e reason n t st w =
     (let ev = mk_dlq_event service m e reason n t in
      case send ev w of
        (w', None) \<Rightarrow>
          (True, st\<lparr>messages_sent := messages_sent st + 1\<rparr>,
             (case cb of None \<Rightarrow> w' | Some f \<Rightarrow> f ev w'))
      | (w', Some _) \<Rightarrow> (False, st\<lparr>dlq_errors := dlq_errors st + 1\<rparr>, w'))"

subsection \<open>ErrorHandler\<close>

record eh =
  eh_retry :: "string \<rightharpoonup> nat"
  eh_total :: nat
  eh_retried :: nat
  eh_dlq_sent :: nat
  eh_successful :: nat
  eh_slept :: "rat list"
  eh_dlq :: dlq_stats

definition eh_init :: eh where
  "eh_init = \<lparr>eh_retry = Map.empty, eh_total = 0, eh_retried = 0, eh_dlq_sent = 0,
     eh_successful = 0, eh_slept = [], eh_dlq = \<lparr>messages_sent = 0, dlq_errors = 0\<rparr>\<rparr>"

text \<open>The calls the handler makes outside itself.\<close>

record 'w io =
  io_service :: string
  io_send :: "dlq_event \<Rightarrow> 'w \<Rightarrow> 'w \<times> exn option"
  io_on_dlq :: "(dlq_event \<Rightarrow> 'w \<Rightarrow> 'w) option"
  io_process :: "'w \<Rightarrow> 'w \<times> exn option"
  io_commit :: "('w \<Rightarrow> 'w \<times> exn option) option"
  io_random :: rat

definition get_message_key :: "message \<Rightarrow> string" where
  "get_message_key m = m_topic m @ '':'' @ show_int (m_partition m) @ '':'' @ show_int (m_offset m)"

definition run_commit :: "'w io \<Rightarrow> 'w \<Rightarrow> 'w \<times> exn option" where
  "run_commit io w = (case io_commit io of None \<Rightarrow> (w, None) | Some f \<Rightarrow> f w)"

definition send_to_dlq_and_commit ::
  "'w io \<Rightarrow> message \<Rightarrow> exn \<Rightarrow> error_type \<Rightarrow> nat \<Rightarrow> string \<Rightarrow> eh \<Rightarrow> 'w \<Rightarrow> (exn + unit) \<times> eh \<times> 'w" where
  "send_to_dlq_and_commit io m e t n reason st w =
     (let k = get_message_key m in
      case send_to_dlq (io_service io) (io_send io) (io_on_dlq io) m e reason n (Some t) (eh_dlq st) w of
        (True, dst, w') \<Rightarrow>
          (let st' = st\<lparr>eh_dlq := dst, eh_dlq_sent := eh_dlq_sent st + 1,
                        eh_retry := (eh_retry st)(k := None)\<rparr> in
           case run_commit io w' of
             (w'', None) \<Rightarrow> (Inr (), st', w'')
           | (w'', Some ex) \<Rightarrow> (Inl ex, st', w''))
      | (False, dst, w') \<Rightarrow> (Inr (), st\<lparr>eh_dlq := dst\<rparr>, w'))"

text \<open>The delay before a retry: structured transient errors carry their own.\<close>

definition retry_delay :: "exn \<Rightarrow> retry_config \<Rightarrow> nat \<Rightarrow> rat \<Rightarrow> rat" where
  "retry_delay e cfg n rnd =
     (if isinstance e TransientError then get_retry_delay e 1 else get_delay cfg n rnd)"

definition retry_processing ::
  "'w io \<Rightarrow> message \<Rightarrow> exn \<Rightarrow> nat \<Rightarrow> retry_config \<Rightarrow> eh \<Rightarrow> 'w \<Rightarrow> bool \<times> eh \<times> 'w" where
  "retry_processing io m e n cfg st w =
     (let k = get_message_key m;
          st1 = st\<lparr>eh_retry := (eh_retry st)(k \<mapsto> n + 1),
                   eh_retried := eh_retried st + 1,
                   eh_slept := eh_slept st @ [retry_delay e cfg n (io_random io)]\<rparr> in
      case io_process io w of
        (w', Some _) \<Rightarrow> (False, st1, w')
      | (w', None) \<Rightarrow>
          (let st2 = st1\<lparr>eh_retry := (eh_retry st1)(k := None),
                         eh_successful := eh_successful st1 + 1\<rparr> in
           case run_commit io w' of
             (w'', None) \<Rightarrow> (True, st2, w'')
           | (w'', Some _) \<Rightarrow> (False, st2, w'')))"

text \<open>The retry budget of an error: the configuration of its type, capped by the limit a
  transient error carries itself.\<close>

definition effective_config :: "exn \<Rightarrow> retry_config" where
  "effective_config e =
     (let c = get_retry_config (classify_error e) in
      if isinstance e TransientError then c\<lparr>max_attempts := min (max_attempts c) (exn_max_retries e)\<rparr>
      else c)"

definition should_retry_structured :: "exn \<Rightarrow> bool" where
  "should_retry_structured e =
     (if isinstance e AlphaPandaException then is_retryable_error e else True)"

definition handle_processing_error ::
  "'w io \<Rightarrow> message \<Rightarrow> exn \<Rightarrow> eh \<Rightarrow> 'w \<Rightarrow> (exn + bool) \<times> eh \<times> 'w" where
  "handle_processing_error io m e st0 w =
     (let st = st0\<lparr>eh_total := eh_total st0 + 1\<rparr>;
          t = classify_error e;
          n = (case eh_retry st (get_message_key m) of None \<Rightarrow> 0 | Some c \<Rightarrow> c);
          to_true = (\<lambda>(r, s, w'). (case r of Inl x \<Rightarrow> Inl x | Inr _ \<Rightarrow> Inr True, s, w')) in
      if t = POISON then
        to_true (send_to_dlq_and_commit io m e t n ''processing_failed'' st w)
      else if \<not> (should_retry t \<and> should_retry_structured e) then
        to_true (send_to_dlq_and_commit io m e t n ''processing_failed'' st w)
      else if n \<ge> max_attempts (effective_config e) then
        to_true (send_to_dlq_and_commit io m e t n ''max_retries_exceeded'' st w)
      else
        (case retry_processing io m e n (effective_config e) st w of (b, s, w') \<Rightarrow> (Inr b, s, w')))"

text \<open>handle_auth_degradation: the degradation settings it returns.\<close>

record degradation =
  deg_mode :: string
  deg_use_mock_data :: bool
  deg_alert_operations :: bool
  deg_retry_auth_interval :: nat
  deg_max_degraded_time :: nat
  deg_fallback_strategies :: "string list"

definition handle_auth_degradation :: "string \<Rightarrow> exn \<Rightarrow> degradation" where
  "handle_auth_degradation service_name e =
     \<lparr>deg_mode = ''degraded'', deg_use_mock_data = True, deg_alert_operations = True,
      deg_retry_auth_interval = 300, deg_max_degraded_time = 3600,
      deg_fallback_strategies = [''switch_to_paper_trading'', ''use_cached_data'', ''disable_new_orders'']\<rparr>"

subsection \<open>An observed world\<close>

text \<open>
  To state what the handler does to the outside, its three calls are run against a world that
  records them in order. Whether a call succeeds is decided by arbitrary functions of the
  history (\<open>so\<close> for the DLQ producer, \<open>po\<close> for the retried handler, \<open>co\<close> for the commit).
\<close>

datatype io_event = Sent dlq_event bool | Processed bool | Committed bool

definition fail_unless :: "bool \<Rightarrow> exn option" where
  "fail_unless ok = (if ok then None else Some (raise_exn (Other ''RuntimeError'') ''failed''))"

definition trace_io ::
  "string \<Rightarrow> (io_event list \<Rightarrow> bool) \<Rightarrow> (io_event list \<Rightarrow> bool) \<Rightarrow> (io_event list \<Rightarrow> bool) \<Rightarrow> rat \<Rightarrow> io_event list io" where
  "trace_io service so po co rnd =
     \<lparr>io_service = service,
      io_send = (\<lambda>ev h. (h @ [Sent ev (so h)], fail_unless (so h))),
      io_on_dlq = None,
      io_process = (\<lambda>h. (h @ [Processed (po h)], fail_unless (po h))),
      io_commit = Some (\<lambda>h. (h @ [Committed (co h)], fail_unless (co h))),
      io_random = rnd\<rparr>"

text \<open>A commit is justified when the message was processed, or stored in the DLQ, before it.\<close>

definition commit_justified :: "message \<Rightarrow> io_event list \<Rightarrow> bool" where
  "commit_justified m evs =
     (\<forall>i < length evs. (\<exists>b. evs ! i = Committed b) \<longrightarrow>
        (\<exists>j < i. evs ! j = Processed True \<or>
           (\<exists>ev. evs ! j = Sent ev True \<and> d_original_topic ev = m_topic m \<and>
                 d_partition ev = m_partition m \<and> d_offset ev = m_offset m \<and> d_value ev = m_value m)))"

subsection \<open>Lemmas\<close>

lemma fail_unless_simps [simp]:
  "fail_unless True = None" "fail_unless b = None \<longleftrightarrow> b"
  by (simp_all add: fail_unless_def)

lemma dlq_commit_trace:
  assumes "send_to_dlq_and_commit (trace_io sv so po co rnd) m e t n reason st h = (r, st', h')"
  shows "\<exists>ev. ev = mk_dlq_event sv m e reason n (Some t) \<and>
     (so h \<and> h' = h @ [Sent ev True, Committed (co (h @ [Sent ev True]))] \<and>
        eh_retry st' = (eh_retry st)(get_message_key m := None) \<and> eh_dlq_sent st' = eh_dlq_sent st + 1 \<or>
      \<not> so h \<and> h' = h @ [Sent ev False] \<and> r = Inr () \<and> eh_retry st' = eh_retry st \<and>
        eh_dlq_sent st' = eh_dlq_sent st)"
  using assms
  by (cases "so h"; cases "co (h @ [Sent (mk_dlq_event sv m e reason n (Some t)) True])")
     (auto simp: send_to_dlq_and_commit_def send_to_dlq_def trace_io_def run_commit_def Let_def
       fail_unless_def raise_exn_def)

lemma retry_trace:
  assumes "retry_processing (trace_io sv so po co rnd) m e n cfg st h = (b, st', h')"
  shows "\<not> po h \<and> h' = h @ [Processed False] \<and> \<not> b \<and>
       eh_retry st' = (eh_retry st)(get_message_key m \<mapsto> n + 1) \<or>
     po h \<and> h' = h @ [Processed True, Committed b] \<and>
       eh_retry st' = (eh_retry st)(get_message_key m := None)"
  using assms
  by (cases "po h"; cases "co (h @ [Processed True])")
     (auto simp: retry_processing_def trace_io_def run_commit_def Let_def fail_unless_def)

text \<open>The two ways an error is dealt with: the dead-letter queue or one retry.\<close>

definition dead_letters :: "exn \<Rightarrow> nat \<Rightarrow> bool" where
  "dead_letters e n =
     (classify_error e = POISON \<or>
      \<not> (should_retry (classify_error e) \<and> should_retry_structured e) \<or>
      n \<ge> max_attempts (effective_config e))"

definition tries_so_far :: "eh \<Rightarrow> message \<Rightarrow> nat" where
  "tries_so_far st m = (case eh_retry st (get_message_key m) of None \<Rightarrow> 0 | Some c \<Rightarrow> c)"

definition dlq_reason :: "exn \<Rightarrow> string" where
  "dlq_reason e =
     (if classify_error e = POISON \<or> \<not> (should_retry (classify_error e) \<and> should_retry_structured e)
      then ''processing_failed'' else ''max_retries_exceeded'')"

lemma handle_dead_letters:
  assumes "dead_letters e (tries_so_far st m)"
  shows "handle_processing_error io m e st w =
     (case send_to_dlq_and_commit io m e (classify_error e) (tries_so_far st m) (dlq_reason e)
             (st\<lparr>eh_total := eh_total st + 1\<rparr>) w of
        (r, s, w') \<Rightarrow> (case r of Inl x \<Rightarrow> Inl x | Inr _ \<Rightarrow> Inr True, s, w'))"
  using assms
  by (auto simp: handle_processing_error_def dead_letters_def dlq_reason_def tries_so_far_def Let_def)

lemma handle_retries:
  assumes "\<not> dead_letters e (tries_so_far st m)"
  shows "handle_processing_error io m e st w =
     (case retry_processing io m e (tries_so_far st m) (effective_config e)
             (st\<lparr>eh_total := eh_total st + 1\<rparr>) w of
        (b, s, w') \<Rightarrow> (Inr b, s, w'))"
  using assms
  by (auto simp: handle_processing_error_def dead_letters_def tries_so_far_def Let_def)

lemma classify_permanent: "isinstance e PermanentError \<Longrightarrow> classify_error e = POISON"
  by (simp add: classify_error_def)

lemma max_attempts_le_8: "max_attempts (effective_config e) \<le> 8"
  by (cases "classify_error e") (auto simp: effective_config_def mk_retry_def Let_def)

text \<open>The retry counters never pass the largest budget, whatever errors arrive.\<close>

definition retries_bounded :: "eh \<Rightarrow> bool" where
  "retries_bounded st = (\<forall>k n. eh_retry st k = Some n \<longrightarrow> n \<le> 8)"

definition eh_step :: "eh \<Rightarrow> 'w io \<times> message \<times> exn \<times> 'w \<Rightarrow> eh" where
  "eh_step st x = (case x of (io, m, e, w) \<Rightarrow> fst (snd (handle_processing_error io m e st w)))"

lemma dlq_retry_subset:
  "eh_retry (fst (snd (send_to_dlq_and_commit io m e t n reason st w))) k = Some c \<Longrightarrow>
     eh_retry st k = Some c"
  by (auto simp: send_to_dlq_and_commit_def Let_def split: prod.splits bool.splits option.splits if_splits)

lemma retry_counter:
  "eh_retry (fst (snd (retry_processing io m e n cfg st w))) k = Some c \<Longrightarrow>
     eh_retry st k = Some c \<or> c = n + 1"
  by (auto simp: retry_processing_def Let_def split: prod.splits option.splits if_splits)

lemma eh_step_dead:
  "dead_letters e (tries_so_far st m) \<Longrightarrow> eh_step st (io, m, e, w) =
     fst (snd (send_to_dlq_and_commit io m e (classify_error e) (tries_so_far st m) (dlq_reason e)
       (st\<lparr>eh_total := eh_total st + 1\<rparr>) w))"
  by (simp add: eh_step_def handle_dead_letters split: prod.splits)

lemma eh_step_retry:
  "\<not> dead_letters e (tries_so_far st m) \<Longrightarrow> eh_step st (io, m, e, w) =
     fst (snd (retry_processing io m e (tries_so_far st m) (effective_config e)
       (st\<lparr>eh_total := eh_total st + 1\<rparr>) w))"
  by (simp add: eh_step_def handle_retries split: prod.splits)

lemma handle_retries_bounded:
  assumes "retries_bounded st"
  shows "retries_bounded (eh_step st x)"
  unfolding retries_bounded_def
proof (intro allI impI)
  fix k n
  assume n: "eh_retry (eh_step st x) k = Some n"
  obtain io m e w where x: "x = (io, m, e, w)" by (cases x)
  show "n \<le> 8"
  proof (cases "dead_letters e (tries_so_far st m)")
    case True
    from dlq_retry_subset [OF n [unfolded x eh_step_dead [OF True]]] assms
    show ?thesis by (simp add: retries_bounded_def)
  next
    case False
    then have "tries_so_far st m + 1 \<le> 8"
      using max_attempts_le_8 [of e] by (simp add: dead_letters_def)
    with retry_counter [OF n [unfolded x eh_step_retry [OF False]]] assms
    show ?thesis by (auto simp: retries_bounded_def)
  qed
qed

interpretation error_handler: step_machine eh_step retries_bounded
  by unfold_locales (rule handle_retries_bounded)

subsection \<open>Properties\<close>

text \<open>C1: No offset is committed for an unhandled message. Whatever the outcomes of the DLQ
  producer, of the retried handler and of the commit itself, one call of
  handle_processing_error commits the offset only after the message was processed successfully or
  stored in the dead letter queue with its topic, partition, offset and value.\<close>

theorem commit_only_after_handling:
  "\<exists>r st' evs. handle_processing_error (trace_io sv so po co rnd) m e st h = (r, st', h @ evs) \<and>
     commit_justified m evs"
proof (cases "dead_letters e (tries_so_far st m)")
  case True
  obtain r st' h' where eq:
    "send_to_dlq_and_commit (trace_io sv so po co rnd) m e (classify_error e) (tries_so_far st m)
       (dlq_reason e) (st\<lparr>eh_total := eh_total st + 1\<rparr>) h = (r, st', h')"
    by (metis prod_cases3)
  from dlq_commit_trace [OF eq] True eq show ?thesis
    by (auto simp: handle_dead_letters commit_justified_def mk_dlq_event_def nth_Cons' less_Suc_eq)
next
  case False
  obtain b st' h' where eq:
    "retry_processing (trace_io sv so po co rnd) m e (tries_so_far st m) (effective_config e)
       (st\<lparr>eh_total := eh_total st + 1\<rparr>) h = (b, st', h')"
    by (metis prod_cases3)
  from retry_trace [OF eq] False eq show ?thesis
    by (auto simp: handle_retries commit_justified_def nth_Cons' less_Suc_eq)
qed

text \<open>Permanent errors are never retried. A permanent error, and any error classified as
  poison, is sent to the message's own dead letter topic exactly once, marked as not replayable
  and for manual review, without the handler being called again.\<close>

theorem poison_goes_straight_to_dlq:
  assumes "isinstance e PermanentError \<or> classify_error e = POISON"
  shows "\<exists>r st' evs ev. handle_processing_error (trace_io sv so po co rnd) m e st h = (r, st', h @ evs) \<and>
     evs ! 0 = Sent ev (so h) \<and> d_topic ev = m_topic m @ ''.dlq'' \<and>
     \<not> d_can_replay ev \<and> d_manual_review ev \<and>
     (\<forall>b. Processed b \<notin> set evs) \<and> length evs = (if so h then 2 else 1)"
proof -
  from assms have t: "classify_error e = POISON" using classify_permanent by blast
  then have dl: "dead_letters e (tries_so_far st m)" by (simp add: dead_letters_def)
  obtain r st' h' where eq:
    "send_to_dlq_and_commit (trace_io sv so po co rnd) m e (classify_error e) (tries_so_far st m)
       (dlq_reason e) (st\<lparr>eh_total := eh_total st + 1\<rparr>) h = (r, st', h')"
    by (metis prod_cases3)
  from dlq_commit_trace [OF eq] eq t show ?thesis
    by (auto simp: handle_dead_letters [OF dl] mk_dlq_event_def)
qed

theorem poison_goes_straight_to_dlq_witness:
  "\<exists>r st' evs ev.
     handle_processing_error (trace_io ''risk'' (\<lambda>_. True) (\<lambda>_. True) (\<lambda>_. True) 0)
       \<lparr>m_topic = ''paper.signals.raw'', m_partition = 0, m_offset = 7, m_key = None, m_value = [], m_timestamp = 0\<rparr>
       (raise_exn ValidationError ''bad'') eh_init [] = (r, st', [] @ evs) \<and>
     evs ! 0 = Sent ev True \<and> d_topic ev = ''paper.signals.raw.dlq'' \<and>
     \<not> d_can_replay ev \<and> d_manual_review ev \<and>
     (\<forall>b. Processed b \<notin> set evs) \<and> length evs = 2"
  using poison_goes_straight_to_dlq [where e = "raise_exn ValidationError ''bad''" and sv = "''risk''"
      and so = "\<lambda>_. True" and po = "\<lambda>_. True" and co = "\<lambda>_. True" and rnd = 0 and st = eh_init and h = "[]"
      and m = "\<lparr>m_topic = ''paper.signals.raw'', m_partition = 0, m_offset = 7, m_key = None, m_value = [], m_timestamp = 0\<rparr>"]
  by (simp add: isinstance_def raise_exn_def mro_evals)

text \<open>Retry budgets hold. In every run of the error handler, over any messages, errors and
  outcomes of the calls it makes, no message's retry counter exceeds 8, the largest budget of
  the retry table.\<close>

theorem retry_counters_bounded:
  "eh_retry (foldl eh_step eh_init xs) k = Some n \<Longrightarrow> n \<le> 8"
proof -
  have "retries_bounded eh_init" by (simp add: retries_bounded_def eh_init_def)
  then have "retries_bounded (foldl eh_step eh_init xs)" by (rule error_handler.run_inv)
  then show "eh_retry (foldl eh_step eh_init xs) k = Some n \<Longrightarrow> n \<le> 8"
    by (simp add: retries_bounded_def)
qed

definition demo_message :: message where
  "demo_message = \<lparr>m_topic = ''paper.signals.raw'', m_partition = 0, m_offset = 7,
     m_key = Some ''mom1:256265'', m_value = [], m_timestamp = 0\<rparr>"

theorem retry_counters_bounded_witness:
  "eh_retry (foldl eh_step eh_init
      [(trace_io ''risk'' (\<lambda>_. True) (\<lambda>_. False) (\<lambda>_. True) 0, demo_message,
        raise_exn (Other ''TimeoutError'') ''late'', [])]) (get_message_key demo_message) = Some 1 \<and>
   (1::nat) \<le> 8"
proof -
  let ?xs = "[(trace_io ''risk'' (\<lambda>_. True) (\<lambda>_. False) (\<lambda>_. True) 0, demo_message,
        raise_exn (Other ''TimeoutError'') ''late'', [] :: io_event list)]"
  have run: "eh_retry (foldl eh_step eh_init ?xs) (get_message_key demo_message) = Some 1"
    by (simp add: eh_step_def handle_processing_error_def eh_init_def Let_def classify_error_def
        isinstance_def raise_exn_def error_mappings_def should_retry_def should_retry_structured_def
        effective_config_def mk_retry_def retry_processing_def trace_io_def fail_unless_def)
  show ?thesis using run retry_counters_bounded [OF run] by simp
qed

text \<open>Redelivery of one message with one error, as a consumer that is restarted from the last
  committed offset does.\<close>

fun redeliver ::
  "nat \<Rightarrow> 'w io \<Rightarrow> message \<Rightarrow> exn \<Rightarrow> eh \<Rightarrow> 'w \<Rightarrow> (exn + bool) list \<times> eh \<times> 'w" where
  "redeliver 0 io m e st w = ([], st, w)"
| "redeliver (Suc k) io m e st w =
     (case handle_processing_error io m e st w of (r, st1, w1) \<Rightarrow>
        (case redeliver k io m e st1 w1 of (rs, st2, w2) \<Rightarrow> (r # rs, st2, w2)))"

lemma redeliver_failing:
  assumes retry: "should_retry (classify_error e)" "should_retry_structured e" "classify_error e \<noteq> POISON"
    and fails: "\<And>h. \<not> po h"
    and "tries_so_far st m + k \<le> max_attempts (effective_config e)"
  shows "\<exists>st'. redeliver k (trace_io sv so po co rnd) m e st h =
       (replicate k (Inr False), st', h @ replicate k (Processed False)) \<and>
     tries_so_far st' m = tries_so_far st m + k"
  using assms(5)
proof (induction k arbitrary: st h)
  case 0
  show ?case by simp
next
  case (Suc k)
  let ?io = "trace_io sv so po co rnd"
  have nd: "\<not> dead_letters e (tries_so_far st m)"
    using retry Suc.prems by (simp add: dead_letters_def)
  obtain b st1 h1 where eq:
    "retry_processing ?io m e (tries_so_far st m) (effective_config e)
       (st\<lparr>eh_total := eh_total st + 1\<rparr>) h = (b, st1, h1)"
    by (metis prod_cases3)
  from retry_trace [OF eq] fails have h1: "h1 = h @ [Processed False]" "\<not> b"
    and t1: "tries_so_far st1 m = tries_so_far st m + 1"
    by (auto simp: tries_so_far_def)
  from t1 Suc.prems have "tries_so_far st1 m + k \<le> max_attempts (effective_config e)" by simp
  from Suc.IH [OF this, of h1] obtain st' where
    "redeliver k ?io m e st1 h1 = (replicate k (Inr False), st', h1 @ replicate k (Processed False))"
    "tries_so_far st' m = tries_so_far st1 m + k" by blast
  then show ?case using eq h1 t1 by (simp add: handle_retries [OF nd])
qed

text \<open>Exhausting the retry budget. For a retryable error whose handler keeps failing, a
  message met for the first time is retried exactly max_attempts times (the budget of its error
  type, capped by the error's own limit), each delivery returning False without a commit; the next
  delivery stores it in the DLQ with reason max_retries_exceeded and returns True (or raises
  what the commit raises).\<close>

theorem retry_budget_exhausted:
  assumes "should_retry (classify_error e)" and "should_retry_structured e"
    and fails: "\<And>h. \<not> po h" and sends: "\<And>h. so h" and fresh: "eh_retry st (get_message_key m) = None"
  shows "\<exists>st' st'' r ev c. let n = max_attempts (effective_config e) in
     redeliver n (trace_io sv so po co rnd) m e st h =
       (replicate n (Inr False), st', h @ replicate n (Processed False)) \<and>
     handle_processing_error (trace_io sv so po co rnd) m e st' (h @ replicate n (Processed False)) =
       (r, st'', h @ replicate n (Processed False) @ [Sent ev True, Committed c]) \<and>
     d_failure_reason ev = ''max_retries_exceeded'' \<and> d_retry_count ev = n \<and>
     r \<noteq> Inr False \<and> eh_dlq_sent st'' = eh_dlq_sent st' + 1"
proof -
  let ?n = "max_attempts (effective_config e)" and ?io = "trace_io sv so po co rnd"
  have np: "classify_error e \<noteq> POISON" using assms(1) by (auto simp: should_retry_def)
  have t0: "tries_so_far st m = 0" using fresh by (simp add: tries_so_far_def)
  obtain st' where rd: "redeliver ?n ?io m e st h =
       (replicate ?n (Inr False), st', h @ replicate ?n (Processed False))"
    and t': "tries_so_far st' m = ?n"
    using redeliver_failing [OF assms(1,2) np, where po = po and so = so and co = co and sv = sv
        and rnd = rnd and st = st and m = m and k = ?n and h = h] fails t0 by auto
  let ?h = "h @ replicate ?n (Processed False)"
  have dl: "dead_letters e (tries_so_far st' m)" using t' by (simp add: dead_letters_def)
  have reason: "dlq_reason e = ''max_retries_exceeded''"
    using assms(1,2) np by (simp add: dlq_reason_def)
  obtain r st'' h' where eq:
    "send_to_dlq_and_commit ?io m e (classify_error e) (tries_so_far st' m) (dlq_reason e)
       (st'\<lparr>eh_total := eh_total st' + 1\<rparr>) ?h = (r, st'', h')"
    by (metis prod_cases3)
  from dlq_commit_trace [OF eq] sends obtain c where
    "h' = ?h @ [Sent (mk_dlq_event sv m e (dlq_reason e) (tries_so_far st' m) (Some (classify_error e))) True,
       Committed c]" "eh_dlq_sent st'' = eh_dlq_sent st' + 1" by auto
  then show ?thesis
    using rd eq t' reason
    by (auto simp: handle_dead_letters [OF dl] mk_dlq_event_def Let_def split: sum.splits)
qed

theorem retry_budget_exhausted_witness:
  "\<exists>st' st'' r ev c. let n = max_attempts (effective_config (raise_exn (Other ''TimeoutError'') ''late'')) in
     redeliver n (trace_io ''risk'' (\<lambda>_. True) (\<lambda>_. False) (\<lambda>_. True) 0) demo_message
       (raise_exn (Other ''TimeoutError'') ''late'') eh_init [] =
       (replicate n (Inr False), st', [] @ replicate n (Processed False)) \<and>
     handle_processing_error (trace_io ''risk'' (\<lambda>_. True) (\<lambda>_. False) (\<lambda>_. True) 0) demo_message
       (raise_exn (Other ''TimeoutError'') ''late'') st' ([] @ replicate n (Processed False)) =
       (r, st'', [] @ replicate n (Processed False) @ [Sent ev True, Committed c]) \<and>
     d_failure_reason ev = ''max_retries_exceeded'' \<and> d_retry_count ev = n \<and>
     r \<noteq> Inr False \<and> eh_dlq_sent st'' = eh_dlq_sent st' + 1"
  by (rule retry_budget_exhausted)
     (simp_all add: classify_error_def isinstance_def raise_exn_def error_mappings_def
       should_retry_def should_retry_structured_def eh_init_def)

text \<open>Backoff bounds. For every error type the delay computed by get_delay lies
  between half of the capped exponential delay and the type's maximum delay, hence within 300
  seconds, for any jitter drawn from [0, 1].\<close>

theorem backoff_delay_bounds:
  assumes "0 \<le> rnd" and "rnd \<le> 1"
  shows "let c = get_retry_config t; cap = min (base_delay c * 2 ^ n) (max_delay c) in
     0 \<le> get_delay c n rnd \<and> cap / 2 \<le> get_delay c n rnd \<and> get_delay c n rnd \<le> cap \<and>
     cap \<le> max_delay c \<and> max_delay c \<le> 300"
proof -
  define c where "c = get_retry_config t"
  define cap where "cap = min (base_delay c * 2 ^ n) (max_delay c)"
  have nn: "0 \<le> base_delay c" "0 \<le> max_delay c" "max_delay c \<le> 300" "jitter c" "exponential_base c = 2"
    unfolding c_def by (cases t; simp add: mk_retry_def)+
  then have cap: "0 \<le> cap" "cap \<le> max_delay c" by (simp_all add: cap_def)
  have eq: "get_delay c n rnd = cap * (1/2 + 1/2 * rnd)"
    using nn by (simp add: get_delay_def Let_def cap_def)
  have "cap * (1/2) \<le> cap * (1/2 + 1/2 * rnd)"
    by (rule mult_left_mono) (use assms cap in auto)
  moreover have "cap * (1/2 + 1/2 * rnd) \<le> cap * 1"
    by (rule mult_left_mono) (use assms cap in auto)
  ultimately have "0 \<le> get_delay c n rnd \<and> cap / 2 \<le> get_delay c n rnd \<and> get_delay c n rnd \<le> cap \<and>
     cap \<le> max_delay c \<and> max_delay c \<le> 300"
    using eq nn cap by simp
  then show ?thesis by (simp add: Let_def cap_def c_def)
qed

theorem backoff_delay_bounds_witness:
  "0 \<le> get_delay (get_retry_config RATE_LIMIT) 3 (1/4) \<and> get_delay (get_retry_config RATE_LIMIT) 3 (1/4) = 25"
  using backoff_delay_bounds [of "1/4" RATE_LIMIT 3]
  by (simp add: mk_retry_def get_delay_def Let_def)

text \<open>The mapping table against the structured classification. For every class of the
  exception hierarchy that the table names, classify_error gives the table's type as long as
  the message does not speak of rate limits, except for PortfolioStateError: the table lists it as
  an infrastructure error, but it derives directly from TransientError and is always classified
  transient (so with 5 attempts instead of 3).\<close>

theorem classification_matches_table:
  assumes "\<not> in_str ''rate limit'' (str_lower msg)" and "\<not> in_str ''too many requests'' (str_lower msg)"
    and "map_of error_mappings (exn_name c) = Some t" and "\<forall>name. c \<noteq> Other name"
  shows "(classify_error (raise_exn c msg) = t) = (c \<noteq> PortfolioStateError) \<and>
     classify_error (raise_exn PortfolioStateError msg) = TRANSIENT"
proof -
  note d = classify_error_def isinstance_def raise_exn_def mro_evals
  have p: "classify_error (raise_exn PortfolioStateError msg) = TRANSIENT"
    using assms(1,2) by (simp add: d)
  from assms(3) have "(classify_error (raise_exn c msg) = t) = (c \<noteq> PortfolioStateError)"
  proof (cases c)
    case (Other name)
    with assms(4) show ?thesis by blast
  qed (use assms(1,2) in \<open>simp_all add: d error_mappings_def\<close>)
  with p show ?thesis by blast
qed

theorem classification_matches_table_witness:
  "classify_error (raise_exn RedisError ''down'') = INFRASTRUCTURE \<and>
   map_of error_mappings ''PortfolioStateError'' = Some INFRASTRUCTURE \<and>
   classify_error (raise_exn PortfolioStateError ''down'') = TRANSIENT"
  using classification_matches_table [of "''down''" RedisError INFRASTRUCTURE]
  by (simp add: error_mappings_def str_lower_def char_lower_def)

end
