(* ===== verification/Circuit_Breaker.thy ===== *)
theory Circuit_Breaker
  imports Exceptions
begin

text \<open>
  The circuit breaker of core/utils/circuit_breaker.py. The guarded function is a parameter that
  acts on a world of its own and returns or raises; \<open>t0\<close> is the clock when the call begins and \<open>t1\<close>
  when a failure is recorded, both in seconds. \<open>expected\<close> tells which exceptions the breaker catches.
\<close>

datatype circuit_state = CLOSED | OPEN | HALF_OPEN

record breaker =
  failure_threshold :: int
  recovery_timeout :: rat
  failure_count :: int
  last_failure_time :: "rat option"
  cstate :: circuit_state

definition breaker_init :: "int \<Rightarrow> rat \<Rightarrow> breaker" where
  "breaker_init threshold timeout =
     \<lparr>failure_threshold = threshold, recovery_timeout = timeout, failure_count = 0,
      last_failure_time = None, cstate = CLOSED\<rparr>"

definition should_attempt_reset :: "breaker \<Rightarrow> rat \<Rightarrow> bool" where
  "should_attempt_reset b now =
     (case last_failure_time b of None \<Rightarrow> True | Some t \<Rightarrow> now - t > recovery_timeout b)"

definition record_failure :: "rat \<Rightarrow> breaker \<Rightarrow> breaker" where
  "record_failure now b =
     (let b' = b\<lparr>failure_count := failure_count b + 1, last_failure_time := Some now\<rparr> in
      if failure_count b' \<ge> failure_threshold b' then b'\<lparr>cstate := OPEN\<rparr> else b')"

definition breaker_reset :: "breaker \<Rightarrow> breaker" where
  "breaker_reset b = b\<lparr>failure_count := 0, last_failure_time := None, cstate := CLOSED\<rparr>"

definition breaker_call ::
  "(exn \<Rightarrow> bool) \<Rightarrow> rat \<Rightarrow> rat \<Rightarrow> ('w \<Rightarrow> (exn + 'a) \<times> 'w) \<Rightarrow> breaker \<Rightarrow> 'w \<Rightarrow> (exn + 'a) \<times> breaker \<times> 'w" where
  "breaker_call expected t0 t1 f b w =
     (if cstate b = OPEN \<and> \<not> should_attempt_reset b t0
      then (Inl (raise_exn (Other ''RuntimeError'') ''Circuit breaker is OPEN - failing fast''), b, w)
      else let b1 = (if cstate b = OPEN then b\<lparr>cstate := HALF_OPEN\<rparr> else b) in
        case f w of
          (Inr x, w') \<Rightarrow> (Inr x, (if cstate b1 = HALF_OPEN then breaker_reset b1 else b1), w')
        | (Inl e, w') \<Rightarrow> (Inl e, (if expected e then record_failure t1 b1 else b1), w'))"

subsection \<open>The invariant\<close>

text \<open>A closed breaker has counted fewer failures than its threshold; an open or half-open one has
  reached it and knows when the last failure was.\<close>

definition breaker_inv :: "breaker \<Rightarrow> bool" where
  "breaker_inv b = (1 \<le> failure_threshold b \<and> 0 \<le> failure_count b \<and>
     (cstate b = CLOSED \<longleftrightarrow> failure_count b < failure_threshold b) \<and>
     (last_failure_time b = None \<longleftrightarrow> failure_count b = 0))"

lemmas breaker_defs = breaker_inv_def record_failure_def breaker_reset_def Let_def

text \<open>The outcome of the guarded function in one call: what the breaker sees of it.\<close>

datatype outcome = Succeeds | Fails | Raises_other

definition outcome_fun :: "outcome \<Rightarrow> unit \<Rightarrow> (exn + unit) \<times> unit" where
  "outcome_fun oc w = (case oc of Succeeds \<Rightarrow> Inr ()
     | Fails \<Rightarrow> Inl (raise_exn (Other ''Exception'') []) | Raises_other \<Rightarrow> Inl (raise_exn (Other ''BaseException'') []), w)"

definition breaker_step :: "breaker \<Rightarrow> rat \<times> rat \<times> outcome \<Rightarrow> breaker" where
  "breaker_step b c = (case c of (t0, t1, oc) \<Rightarrow>
     fst (snd (breaker_call (\<lambda>e. exn_class e \<noteq> Other ''BaseException'') t0 t1 (outcome_fun oc) b ())))"

lemma breaker_call_inv:
  assumes "breaker_inv b" "breaker_call expected t0 t1 f b w = (r, b', w')"
  shows "breaker_inv b'"
  using assms
  by (auto simp: breaker_call_def breaker_defs split: if_splits prod.splits sum.splits)

interpretation breaker: step_machine breaker_step breaker_inv
proof
  fix b :: breaker and c :: "rat \<times> rat \<times> outcome"
  assume inv: "breaker_inv b"
  obtain t0 t1 oc where c: "c = (t0, t1, oc)" by (cases c)
  obtain r b' w' where "breaker_call (\<lambda>e. exn_class e \<noteq> Other ''BaseException'') t0 t1 (outcome_fun oc) b () = (r, b', w')"
    using prod_cases3 by metis
  with breaker_call_inv [OF inv this] c show "breaker_inv (breaker_step b c)" by (simp add: breaker_step_def)
qed

subsection \<open>Properties\<close>

text \<open>Fail fast and probe. In every state the breaker can reach, a call during the recovery time
  after the last failure of an open breaker raises without running the guarded function and
  without changing anything; later the function runs once, and the breaker closes with its count
  reset when it succeeds and opens again at once when it fails.\<close>

theorem open_breaker_fails_fast:
  assumes thr: "1 \<le> threshold" and b: "b = foldl breaker_step (breaker_init threshold timeout) cs" and op: "cstate b = OPEN"
  shows "\<exists>t. last_failure_time b = Some t \<and>
     (t0 - t \<le> timeout \<longrightarrow> (\<exists>e. breaker_call expected t0 t1 f b w = (Inl e, b, w) \<and> exn_class e = Other ''RuntimeError'')) \<and>
     (t0 - t > timeout \<longrightarrow>
        (\<forall>x w'. f w = (Inr x, w') \<longrightarrow> breaker_call expected t0 t1 f b w = (Inr x, breaker_init threshold timeout, w')) \<and>
        (\<forall>e w'. f w = (Inl e, w') \<and> expected e \<longrightarrow> (\<exists>b'. breaker_call expected t0 t1 f b w = (Inl e, b', w') \<and>
            cstate b' = OPEN \<and> last_failure_time b' = Some t1)))"
proof -
  have "breaker_inv (breaker_init threshold timeout)" using thr by (simp add: breaker_inv_def breaker_init_def)
  from breaker.run_inv [OF this, of cs] have inv: "breaker_inv b" by (simp add: b)
  have cfg: "failure_threshold (foldl breaker_step b0 cs) = failure_threshold b0 \<and>
      recovery_timeout (foldl breaker_step b0 cs) = recovery_timeout b0" for b0
  proof (induction cs arbitrary: b0)
    case (Cons c cs)
    have "failure_threshold (breaker_step b0 c) = failure_threshold b0 \<and> recovery_timeout (breaker_step b0 c) = recovery_timeout b0"
      by (cases c) (auto simp: breaker_step_def breaker_call_def outcome_fun_def breaker_defs split: outcome.splits)
    with Cons show ?case by simp
  qed simp
  have cf: "failure_threshold b = threshold" "recovery_timeout b = timeout"
    using cfg [of "breaker_init threshold timeout"] b by (simp_all add: breaker_init_def)
  from inv op obtain t where t: "last_failure_time b = Some t" and cnt: "failure_threshold b \<le> failure_count b"
    by (auto simp: breaker_inv_def)
  have "breaker_reset (b\<lparr>cstate := HALF_OPEN\<rparr>) = breaker_init threshold timeout"
    using cf by (simp add: breaker_reset_def breaker_init_def)
  then show ?thesis using t op cf cnt
    by (auto simp: breaker_call_def should_attempt_reset_def raise_exn_def record_failure_def Let_def)
qed

theorem open_breaker_fails_fast_witness:
  "\<exists>b t. b = foldl breaker_step (breaker_init 2 60) [(0, 0, Fails), (10, 10, Fails)] \<and> cstate b = OPEN \<and> last_failure_time b = Some t \<and>
     breaker_call (\<lambda>_. True) 100 100 (\<lambda>w. (Inr (7::nat), w)) b () = (Inr 7, breaker_init 2 60, ())"
proof -
  define b where "b = foldl breaker_step (breaker_init 2 60) [(0, 0, Fails), (10, 10, Fails)]"
  have st: "cstate b = OPEN" "last_failure_time b = Some 10"
    by (simp_all add: b_def breaker_step_def breaker_call_def outcome_fun_def breaker_init_def record_failure_def raise_exn_def Let_def)
  from open_breaker_fails_fast [where threshold = 2 and timeout = 60 and ?t0.0 = 100 and ?t1.0 = 100 and expected = "\<lambda>_. True" and f = "\<lambda>w. (Inr (7::nat), w)" and w = "()",
      OF _ b_def st(1)] st show ?thesis unfolding b_def [symmetric] by (intro exI [of _ b]) auto
qed

definition failures :: "(rat \<times> rat \<times> outcome) list \<Rightarrow> int" where
  "failures cs = int (length (filter (\<lambda>c. snd (snd c) = Fails) cs))"

lemma failures_simps [simp]:
  "failures [] = 0" "failures ((t0, t1, oc) # cs) = (if oc = Fails then 1 else 0) + failures cs" "0 \<le> failures cs"
  by (simp_all add: failures_def)

lemma closed_step:
  assumes "cstate b = CLOSED"
  shows "breaker_step b (t0, t1, oc) = (if oc = Fails then record_failure t1 b else b)"
  using assms by (cases oc) (simp_all add: breaker_step_def breaker_call_def outcome_fun_def raise_exn_def Let_def)

text \<open>Failures accumulate. Starting closed, the breaker is tripped by a sequence of calls exactly
  when the expected failures in it, not necessarily consecutive, reach the threshold: successful
  calls of a closed breaker do not lower the count.\<close>

theorem breaker_trips_on_total_failures:
  assumes "1 \<le> threshold" and "\<forall>n < length cs. failures (take n cs) < threshold"
  shows "cstate (foldl breaker_step (breaker_init threshold timeout) cs) = (if failures cs < threshold then CLOSED else OPEN) \<and>
     failure_count (foldl breaker_step (breaker_init threshold timeout) cs) = failures cs"
proof -
  have gen: "cstate (foldl breaker_step b cs) = (if failure_count b + failures cs < failure_threshold b then CLOSED else OPEN) \<and>
     failure_count (foldl breaker_step b cs) = failure_count b + failures cs"
    if "breaker_inv b" "cstate b = CLOSED" "\<forall>n < length cs. failure_count b + failures (take n cs) < failure_threshold b" for b
    using that
  proof (induction cs arbitrary: b)
    case Nil
    then show ?case by (auto simp: breaker_inv_def)
  next
    case (Cons c cs)
    obtain t0 t1 oc where c: "c = (t0, t1, oc)" by (cases c)
    let ?b' = "breaker_step b c"
    have b': "?b' = (if oc = Fails then record_failure t1 b else b)" unfolding c by (rule closed_step [OF Cons.prems(2)])
    have inv': "breaker_inv ?b'" by (rule breaker.step_inv [OF Cons.prems(1)])
    have cnt: "failure_count ?b' = failure_count b + (if oc = Fails then 1 else 0)" "failure_threshold ?b' = failure_threshold b"
      by (simp_all add: b' record_failure_def Let_def)
    show ?case
    proof (cases "cstate ?b' = CLOSED")
      case True
      have "\<forall>n < length cs. failure_count ?b' + failures (take n cs) < failure_threshold ?b'"
        using Cons.prems(3) cnt c by (auto dest: spec [of _ "Suc _"])
      from Cons.IH [OF inv' True this] cnt c show ?thesis by (auto simp: add.assoc)
    next
      case False
      then have op: "\<not> failure_count ?b' < failure_threshold ?b'" using inv' by (simp add: breaker_inv_def)
      have "cs = []"
      proof (rule ccontr)
        assume "cs \<noteq> []"
        then have "Suc 0 < length (c # cs)" by simp
        with Cons.prems(3) have "failure_count b + failures (take (Suc 0) (c # cs)) < failure_threshold b" by blast
        with op cnt c show False by (simp split: if_splits)
      qed
      moreover have "cstate ?b' = OPEN" using False b' Cons.prems(2) by (auto simp: record_failure_def Let_def split: if_splits)
      ultimately show ?thesis using op cnt c by (auto simp: breaker_inv_def)
    qed
  qed
  have "breaker_inv (breaker_init threshold timeout)" using assms(1) by (simp add: breaker_inv_def breaker_init_def)
  from gen [OF this] assms(2) show ?thesis by (simp add: breaker_init_def)
qed

theorem breaker_trips_on_total_failures_witness:
  "cstate (foldl breaker_step (breaker_init 2 60) [(0, 0, Fails), (1, 1, Succeeds), (2, 2, Succeeds), (3, 3, Fails)]) = OPEN"
  using breaker_trips_on_total_failures [where threshold = 2 and timeout = 60
      and cs = "[(0, 0, Fails), (1, 1, Succeeds), (2, 2, Succeeds), (3, 3, Fails)]"]
  by (simp add: less_Suc_eq numeral_nat)

end
