(* ===== verification/Market_Hours.thy ===== *)
theory Market_Hours
  imports Py_Prelude
begin

text \<open>
  Market hours (core/market_hours/models.py and market_hours_checker.py). A local time of the
  market is a day (Python's proleptic ordinal) with a time of day; conversion of an instant
  to the market's zone is done by pytz and happens before these functions. Times of day count
  microseconds, as Python's \<open>time\<close> does.
\<close>

subsection \<open>Times\<close>

datatype tod = Tod (micros: nat)

instantiation tod :: linorder
begin

definition less_eq_tod :: "tod \<Rightarrow> tod \<Rightarrow> bool" where
  "less_eq_tod a b = (micros a \<le> micros b)"

definition less_tod :: "tod \<Rightarrow> tod \<Rightarrow> bool" where
  "less_tod a b = (micros a < micros b)"

instance
  by standard (auto simp: less_eq_tod_def less_tod_def tod.expand)

end

definition time_of :: "nat \<Rightarrow> nat \<Rightarrow> tod" where
  "time_of h m = Tod ((h * 60 + m) * 60000000)"

record local_dt =
  ld_date :: int
  ld_time :: tod

text \<open>\<open>date.weekday()\<close>: Monday is 0.\<close>

definition weekday :: "int \<Rightarrow> int" where
  "weekday d = (d + 6) mod 7"

text \<open>The order of local times.\<close>

definition before :: "local_dt \<Rightarrow> local_dt \<Rightarrow> bool" where
  "before a b = (ld_date a < ld_date b \<or> ld_date a = ld_date b \<and> ld_time a < ld_time b)"

lemma weekday_range: "0 \<le> weekday d" "weekday d < 7"
  by (simp_all add: weekday_def)

lemma weekday_Suc: "weekday (d + 1) = (if weekday d = 6 then 0 else weekday d + 1)"
proof -
  have "weekday (d + 1) = (d + 6 + 1) mod 7"
    by (simp add: weekday_def)
  also have "\<dots> = (weekday d + 1) mod 7"
    unfolding weekday_def by (rule mod_add_left_eq [symmetric])
  finally show ?thesis
    using weekday_range[of d] by simp
qed

subsection \<open>MarketHoursConfig\<close>

datatype market_status = OPEN | CLOSED | PRE_OPEN | LUNCH_BREAK | WEEKEND | HOLIDAY

record market_session =
  ses_start :: tod
  ses_end :: tod

definition contains :: "market_session \<Rightarrow> tod \<Rightarrow> bool" where
  "contains s t = (ses_start s \<le> t \<and> t \<le> ses_end s)"

record market_config =
  pre_open_session :: market_session
  regular_session :: market_session
  lunch_break :: market_session
  enforce_lunch_break :: bool
  enforce_weekends :: bool
  market_24x7 :: bool

definition default_config :: market_config where
  "default_config =
     \<lparr>pre_open_session = \<lparr>ses_start = time_of 9 0, ses_end = time_of 9 15\<rparr>,
      regular_session = \<lparr>ses_start = time_of 9 15, ses_end = time_of 15 30\<rparr>,
      lunch_break = \<lparr>ses_start = time_of 12 30, ses_end = time_of 13 30\<rparr>,
      enforce_lunch_break = False, enforce_weekends = True, market_24x7 = False\<rparr>"

definition get_market_status :: "market_config \<Rightarrow> local_dt \<Rightarrow> market_status" where
  "get_market_status c now =
     (if market_24x7 c then OPEN
      else if enforce_weekends c \<and> weekday (ld_date now) \<ge> 5 then WEEKEND
      else if contains (pre_open_session c) (ld_time now) then PRE_OPEN
      else if contains (regular_session c) (ld_time now) then
        (if enforce_lunch_break c \<and> contains (lunch_break c) (ld_time now) then LUNCH_BREAK else OPEN)
      else CLOSED)"

definition is_market_open :: "market_config \<Rightarrow> local_dt \<Rightarrow> bool" where
  "is_market_open c now = (get_market_status c now \<in> {OPEN, PRE_OPEN})"

text \<open>The loop that advances to the next open day: \<open>while next_date.weekday() >= 5 or days_ahead > 0\<close>.\<close>

function advance_date :: "int \<Rightarrow> int \<Rightarrow> int" where
  "advance_date next_date days_ahead =
     (if weekday next_date \<ge> 5 \<or> days_ahead > 0 then advance_date (next_date + 1) (days_ahead - 1) else next_date)"
  by auto

termination
proof (relation "measure (\<lambda>(d, n). 3 * nat n + (if weekday d \<ge> 5 then nat (7 - weekday d) else 0))", goal_cases)
  case (2 d n)
  show ?case
  proof (cases "n > 0")
    case True
    have "(if weekday (d + 1) \<ge> 5 then nat (7 - weekday (d + 1)) else 0) \<le> 2" using weekday_range(2) [of "d + 1"] by auto
    moreover have "nat n = Suc (nat (n - 1))" using True by simp
    ultimately show ?thesis by (simp split: if_splits)
  next
    case False
    with 2 show ?thesis using weekday_range [of d] by (auto simp: weekday_Suc)
  qed
qed simp

declare advance_date.simps [simp del]

definition next_market_open :: "market_config \<Rightarrow> local_dt \<Rightarrow> local_dt" where
  "next_market_open c from_time =
     (let current_date = ld_date from_time in
      if ld_time from_time < ses_start (regular_session c) \<and> weekday current_date < 5
      then \<lparr>ld_date = current_date, ld_time = ses_start (regular_session c)\<rparr>
      else let days_ahead = (if weekday current_date \<ge> 4 then 7 - weekday current_date else 1)
           in \<lparr>ld_date = advance_date current_date days_ahead, ld_time = ses_start (regular_session c)\<rparr>)"

subsection \<open>MarketHoursChecker\<close>

text \<open>Seconds are kept as microseconds.\<close>

definition instant :: "local_dt \<Rightarrow> int" where
  "instant a = ld_date a * 86400000000 + int (micros (ld_time a))"

definition time_until_market_open :: "market_config \<Rightarrow> local_dt \<Rightarrow> int option" where
  "time_until_market_open c from_time =
     (if is_market_open c from_time then None
      else Some (instant (next_market_open c from_time) - instant from_time))"

record market_info =
  mi_status :: market_status
  mi_is_open :: bool
  mi_is_trading_session :: bool
  mi_is_pre_open :: bool
  mi_next_open :: "local_dt option"
  mi_time_to_open :: "int option"

definition get_market_info :: "market_config \<Rightarrow> local_dt \<Rightarrow> market_info" where
  "get_market_info c now =
     (let status = get_market_status c now; open_now = status \<in> {OPEN, PRE_OPEN} in
      \<lparr>mi_status = status, mi_is_open = open_now, mi_is_trading_session = (status = OPEN),
       mi_is_pre_open = (status = PRE_OPEN),
       mi_next_open = (if open_now then None else Some (next_market_open c now)),
       mi_time_to_open = (if open_now then None else Some (instant (next_market_open c now) - instant now))\<rparr>)"

text \<open>One round of the monitoring loop: the callbacks see a change of status. \<open>notified\<close> lists their
  arguments (callback errors are caught).\<close>

record monitor =
  last_status :: "market_status option"
  notified :: "(market_status option \<times> market_status) list"

definition monitor_round :: "market_config \<Rightarrow> monitor \<Rightarrow> local_dt \<Rightarrow> monitor" where
  "monitor_round c m now =
     (let current_status = get_market_status c now in
      if last_status m \<noteq> Some current_status
      then m\<lparr>notified := notified m @ [(last_status m, current_status)], last_status := Some current_status\<rparr>
      else m)"

subsection \<open>Properties\<close>

lemma advance_days:
  assumes "0 \<le> n"
  shows "advance_date d n = advance_date (d + n) 0"
  using assms
proof (induction "nat n" arbitrary: d n)
  case (Suc k)
  then have "0 < n" by simp
  then have "advance_date d n = advance_date (d + 1) (n - 1)" by (subst advance_date.simps) simp
  also have "\<dots> = advance_date (d + 1 + (n - 1)) 0" using Suc by (intro Suc.hyps(1)) auto
  finally show ?case by simp
qed simp

lemma advance_weekday: "weekday d < 5 \<Longrightarrow> advance_date d 0 = d"
  by (subst advance_date.simps) simp

text \<open>Where the next opening is: the day after Monday to Thursday, Monday after Friday to Sunday.\<close>

lemma next_open_date:
  "advance_date d (if weekday d \<ge> 4 then 7 - weekday d else 1) = d + (if weekday d \<ge> 4 then 7 - weekday d else 1)"
proof -
  let ?n = "if weekday d \<ge> 4 then 7 - weekday d else 1"
  have "weekday (d + ?n) < 5" unfolding weekday_def by (cases "weekday d \<ge> 4") (simp_all add: weekday_def, presburger+)
  then show ?thesis using advance_days [of ?n d] advance_weekday weekday_range(2) [of d] by simp
qed

text \<open>The next opening is the earliest. For every configuration and time, next_market_open
  returns a weekday at the start of the regular session, later than the given time, and no
  weekday's session start lies strictly between.\<close>

theorem next_market_open_least:
  "weekday (ld_date (next_market_open c now)) < 5 \<and>
   ld_time (next_market_open c now) = ses_start (regular_session c) \<and>
   before now (next_market_open c now) \<and>
   (\<forall>d. weekday d < 5 \<and> before now \<lparr>ld_date = d, ld_time = ses_start (regular_session c)\<rparr> \<longrightarrow>
      ld_date (next_market_open c now) \<le> d)"
proof (cases "ld_time now < ses_start (regular_session c) \<and> weekday (ld_date now) < 5")
  case True
  then show ?thesis by (auto simp: next_market_open_def before_def)
next
  case False
  let ?d = "ld_date now"
  let ?n = "if weekday ?d \<ge> 4 then 7 - weekday ?d else 1"
  have eq: "next_market_open c now = \<lparr>ld_date = ?d + ?n, ld_time = ses_start (regular_session c)\<rparr>"
    unfolding next_market_open_def Let_def if_not_P [OF False] next_open_date by (rule refl)
  have n: "0 < ?n" using weekday_range(2) [of ?d] by simp
  have wd: "weekday (?d + ?n) < 5" unfolding weekday_def by (cases "weekday ?d \<ge> 4") (simp_all add: weekday_def, presburger+)
  have least: "?d + ?n \<le> d" if "weekday d < 5" "before now \<lparr>ld_date = d, ld_time = ses_start (regular_session c)\<rparr>" for d
  proof (rule ccontr)
    assume "\<not> ?d + ?n \<le> d"
    with that False have "?d < d" "d < ?d + ?n" by (auto simp: before_def)
    with that(1) show False unfolding weekday_def by (cases "weekday ?d \<ge> 4") (simp_all add: weekday_def, presburger+)
  qed
  show ?thesis using n wd least by (auto simp: eq before_def)
qed

theorem next_market_open_least_witness:
  "next_market_open default_config \<lparr>ld_date = 5, ld_time = time_of 16 0\<rparr> = \<lparr>ld_date = 8, ld_time = time_of 9 15\<rparr>"
proof -
  let ?now = "\<lparr>ld_date = 5, ld_time = time_of 16 0\<rparr>" and ?o = "next_market_open default_config \<lparr>ld_date = 5, ld_time = time_of 16 0\<rparr>"
  note L = next_market_open_least [of default_config ?now]
  have st: "ses_start (regular_session default_config) = time_of 9 15" by (simp add: default_config_def)
  have b: "before ?now \<lparr>ld_date = 8, ld_time = time_of 9 15\<rparr>" by (simp add: before_def)
  have "ld_date ?o \<le> 8" using L b st by (auto simp: weekday_def)
  moreover have "5 \<le> ld_date ?o" "ld_date ?o \<noteq> 5" using L st by (auto simp: before_def time_of_def less_tod_def)
  moreover have "ld_date ?o \<noteq> 6" "ld_date ?o \<noteq> 7" using L by (auto simp: weekday_def)
  ultimately have "ld_date ?o = 8" by linarith
  with L st show ?thesis by (metis local_dt.surjective old.unit.exhaust)
qed

text \<open>The time until the market opens is positive and bounded. Whenever the market is not open,
  time_until_market_open is positive and at most three days, and after exactly that time the
  market is open under the standard configuration, on a weekday at 9:15.\<close>

theorem time_until_open_bounds:
  assumes closed: "\<not> is_market_open default_config now" and valid: "micros (ld_time now) < 86400000000"
  shows "\<exists>dt. time_until_market_open default_config now = Some dt \<and> 0 < dt \<and> dt \<le> 3 * 86400000000 \<and>
     (\<exists>t. instant t = instant now + dt \<and> is_market_open default_config t \<and> weekday (ld_date t) < 5 \<and> ld_time t = time_of 9 15)"
proof -
  let ?o = "next_market_open default_config now"
  have st: "ses_start (regular_session default_config) = time_of 9 15" by (simp add: default_config_def)
  note L = next_market_open_least [of default_config now, unfolded st]
  have open_o: "is_market_open default_config ?o"
    using L by (simp add: is_market_open_def get_market_status_def default_config_def contains_def time_of_def less_eq_tod_def)
  have lt: "instant now < instant ?o"
    using L valid by (auto simp: before_def instant_def less_tod_def time_of_def)
  have le: "instant ?o - instant now \<le> 3 * 86400000000"
  proof (cases "ld_time now < time_of 9 15 \<and> weekday (ld_date now) < 5")
    case True
    then have "ld_date ?o = ld_date now" by (simp add: next_market_open_def st)
    with L show ?thesis by (simp add: instant_def time_of_def)
  next
    case False
    let ?d = "ld_date now"
    have d: "ld_date ?o = ?d + (if weekday ?d \<ge> 4 then 7 - weekday ?d else 1)"
      unfolding next_market_open_def Let_def st if_not_P [OF False] next_open_date by simp
    show ?thesis
    proof (cases "weekday ?d < 5")
      case True
      with False have "micros (time_of 9 15) \<le> micros (ld_time now)" by (simp add: less_tod_def not_less)
      then show ?thesis using L d True by (auto simp: instant_def split: if_splits)
    next
      case False
      then show ?thesis using L d weekday_range(2) [of ?d] by (auto simp: instant_def time_of_def split: if_splits)
    qed
  qed
  show ?thesis using closed lt le open_o L
    by (auto simp: time_until_market_open_def intro!: exI [of _ ?o])
qed

theorem time_until_open_bounds_witness:
  "\<exists>dt. time_until_market_open default_config \<lparr>ld_date = 5, ld_time = time_of 16 0\<rparr> = Some dt \<and> 0 < dt \<and> dt \<le> 3 * 86400000000"
proof -
  have "\<not> is_market_open default_config \<lparr>ld_date = 5, ld_time = time_of 16 0\<rparr>"
    by (simp add: is_market_open_def get_market_status_def default_config_def contains_def time_of_def less_eq_tod_def weekday_def)
  moreover have "micros (ld_time \<lparr>ld_date = 5, ld_time = time_of 16 0\<rparr>) < 86400000000" by (simp add: time_of_def)
  ultimately show ?thesis using time_until_open_bounds by blast
qed

definition chained :: "(market_status option \<times> market_status) list \<Rightarrow> bool" where
  "chained ns = ((ns \<noteq> [] \<longrightarrow> fst (hd ns) = None) \<and> (\<forall>(old, new) \<in> set ns. old \<noteq> Some new) \<and>
     (\<forall>i. Suc i < length ns \<longrightarrow> fst (ns ! Suc i) = Some (snd (ns ! i))))"

definition monitor_ok :: "monitor \<Rightarrow> bool" where
  "monitor_ok m = (chained (notified m) \<and> last_status m = (if notified m = [] then None else Some (snd (last (notified m)))))"

lemma chained_snoc:
  assumes "chained ns" "old = (if ns = [] then None else Some (snd (last ns)))" "old \<noteq> Some new"
  shows "chained (ns @ [(old, new)])"
proof -
  have nth: "fst ((ns @ [(old, new)]) ! Suc i) = Some (snd ((ns @ [(old, new)]) ! i))" if "Suc i < length (ns @ [(old, new)])" for i
  proof (cases "Suc i < length ns")
    case True
    then show ?thesis using assms(1) by (simp add: chained_def nth_append)
  next
    case False
    with that have i: "Suc i = length ns" by simp
    then have ne: "ns \<noteq> []" by auto
    then have "last ns = ns ! i" using i by (metis diff_Suc_1 last_conv_nth)
    then show ?thesis using i ne assms(2) by (simp add: nth_append)
  qed
  show ?thesis unfolding chained_def
    using assms nth by (cases ns) (auto simp: chained_def)
qed

interpretation market_monitor: step_machine "monitor_round c" monitor_ok for c
proof
  fix m :: monitor and now :: local_dt
  assume ok: "monitor_ok m"
  show "monitor_ok (monitor_round c m now)"
  proof (cases "last_status m = Some (get_market_status c now)")
    case True
    then show ?thesis using ok by (simp add: monitor_round_def)
  next
    case False
    with ok show ?thesis
      using chained_snoc [of "notified m" "last_status m" "get_market_status c now"]
      by (auto simp: monitor_round_def monitor_ok_def Let_def)
  qed
qed

lemma monitor_round_last: "last_status (monitor_round c m now) = Some (get_market_status c now)"
  by (simp add: monitor_round_def Let_def)

text \<open>The monitor reports every change once. However often the status is polled, the callbacks see a
  chain of real changes: it starts with no previous status, each notification continues from the
  status of the one before and differs from it, and the last one is the status at the last
  poll.\<close>

theorem monitor_reports_changes:
  fixes c times
  defines "m \<equiv> foldl (monitor_round c) \<lparr>last_status = None, notified = []\<rparr> times"
  shows "chained (notified m) \<and>
     (times \<noteq> [] \<longrightarrow> notified m \<noteq> [] \<and> snd (last (notified m)) = get_market_status c (last times))"
proof -
  have "monitor_ok \<lparr>last_status = None, notified = []\<rparr>" by (simp add: monitor_ok_def chained_def)
  from market_monitor.run_inv [OF this, of c times] have ok: "monitor_ok m" by (simp add: m_def)
  have "last_status m = Some (get_market_status c (last times))" if "times \<noteq> []"
    using that by (cases times rule: rev_cases) (simp_all add: m_def monitor_round_last)
  with ok show ?thesis by (auto simp: monitor_ok_def split: if_splits)
qed

theorem monitor_reports_changes_witness:
  "snd (last (notified (foldl (monitor_round default_config) \<lparr>last_status = None, notified = []\<rparr>
      [\<lparr>ld_date = 1, ld_time = time_of 8 0\<rparr>, \<lparr>ld_date = 1, ld_time = time_of 10 0\<rparr>]))) = OPEN"
proof -
  have "get_market_status default_config \<lparr>ld_date = 1, ld_time = time_of 10 0\<rparr> = OPEN"
    by (simp add: get_market_status_def default_config_def contains_def time_of_def less_eq_tod_def weekday_def)
  with monitor_reports_changes [of default_config "[\<lparr>ld_date = 1, ld_time = time_of 8 0\<rparr>, \<lparr>ld_date = 1, ld_time = time_of 10 0\<rparr>]"]
  show ?thesis by simp
qed

end
