(* ===== verification/Redis_State.thy ===== *)
theory Redis_State
  imports Exceptions
begin

text \<open>
  Redis-backed state managers (core/utils/state_manager.py).

  The Redis client is not part of the repository: it is the parameter \<open>R\<close>, a record of the
  commands the managers issue on a store of type \<open>'r\<close>, each of which may raise. What the
  managers rely on is the predicate \<open>redis_ok R view\<close>: a command that returns has the
  documented effect on the visible contents \<open>view\<close> of the store. \<open>map_redis\<close> is one client that
  satisfies it. Stored values keep their text rendering apart (\<open>rvalue\<close>): an integer or number
  written by the client reads back as itself, JSON documents are kept as values.
\<close>

subsection \<open>Computations that may raise\<close>

type_synonym ('a, 'r) rm = "'r \<Rightarrow> (exn + 'a) \<times> 'r"

definition rret :: "'a \<Rightarrow> ('a, 'r) rm" where
  "rret x = (\<lambda>s. (Inr x, s))"

definition rraise :: "exn \<Rightarrow> ('a, 'r) rm" where
  "rraise e = (\<lambda>s. (Inl e, s))"

definition rbind :: "('a, 'r) rm \<Rightarrow> ('a \<Rightarrow> ('b, 'r) rm) \<Rightarrow> ('b, 'r) rm" where
  "rbind m f = (\<lambda>s. case m s of (Inl e, s') \<Rightarrow> (Inl e, s') | (Inr x, s') \<Rightarrow> f x s')"

text \<open>\<open>try: m except Exception as e: raise h(e)\<close>.\<close>

definition rwrap :: "(exn \<Rightarrow> exn) \<Rightarrow> ('a, 'r) rm \<Rightarrow> ('a, 'r) rm" where
  "rwrap h m = (\<lambda>s. case m s of (Inl e, s') \<Rightarrow> (Inl (h e), s') | (Inr x, s') \<Rightarrow> (Inr x, s'))"

lemma rret_eq [simp]: "rret x s = (r, s') \<longleftrightarrow> r = Inr x \<and> s' = s"
  by (auto simp: rret_def)

lemma rraise_Inr [simp]: "rraise e s = (Inr x, s') \<longleftrightarrow> False"
  by (simp add: rraise_def)

lemma rbind_Inr:
  "rbind m f s = (Inr y, s'') \<longleftrightarrow> (\<exists>x s'. m s = (Inr x, s') \<and> f x s' = (Inr y, s''))"
  by (auto simp: rbind_def split: prod.splits sum.splits)

lemma rwrap_Inr [simp]: "rwrap h m s = (Inr y, s') \<longleftrightarrow> m s = (Inr y, s')"
  by (auto simp: rwrap_def split: prod.splits sum.splits)

subsection \<open>The client\<close>

datatype rvalue = RStr string | RInt int | RNum rat | RJson json

record 'r redis =
  r_get :: "string \<Rightarrow> (rvalue option, 'r) rm"
  r_set :: "string \<Rightarrow> rvalue \<Rightarrow> (unit, 'r) rm"
  r_expire :: "string \<Rightarrow> nat \<Rightarrow> (unit, 'r) rm"
  r_setex :: "string \<Rightarrow> nat \<Rightarrow> rvalue \<Rightarrow> (unit, 'r) rm"
  r_incr :: "string \<Rightarrow> int \<Rightarrow> (int, 'r) rm"
  r_mget :: "string list \<Rightarrow> (rvalue option list, 'r) rm"
  r_keys :: "string \<Rightarrow> (string list, 'r) rm"
  r_delete :: "string list \<Rightarrow> (int, 'r) rm"
  r_exists :: "string \<Rightarrow> (bool, 'r) rm"

text \<open>\<open>int(value)\<close> and \<open>float(value)\<close> of a value read back.\<close>

fun rv_int :: "rvalue \<Rightarrow> int option" where
  "rv_int (RInt i) = Some i"
| "rv_int (RStr s) = read_int s"
| "rv_int _ = None"

fun rv_float :: "rvalue \<Rightarrow> rat option" where
  "rv_float (RInt i) = Some (of_int i)"
| "rv_float (RNum r) = Some r"
| "rv_float (RStr s) = read_decimal s"
| "rv_float _ = None"

fun rv_truthy :: "rvalue \<Rightarrow> bool" where
  "rv_truthy (RStr s) = (s \<noteq> [])"
| "rv_truthy _ = True"

text \<open>The integer a counter key holds: absent counts as zero.\<close>

definition counter_of :: "rvalue option \<Rightarrow> int option" where
  "counter_of v = (case v of None \<Rightarrow> Some 0 | Some x \<Rightarrow> rv_int x)"

definition glob_free :: "string \<Rightarrow> bool" where
  "glob_free p = (CHR ''*'' \<notin> set p \<and> CHR ''?'' \<notin> set p \<and> CHR ''['' \<notin> set p \<and> CHR 0x5C \<notin> set p)"

text \<open>Documented behaviour of the commands that return: reads report the visible contents,
  writes change exactly their key, KEYS lists the keys with a literal prefix.\<close>

definition ok_get :: "'r redis \<Rightarrow> ('r \<Rightarrow> string \<Rightarrow> rvalue option) \<Rightarrow> bool" where
  "ok_get R view = (\<forall>k s x s'. r_get R k s = (Inr x, s') \<longrightarrow> x = view s k \<and> view s' = view s)"

definition ok_set :: "'r redis \<Rightarrow> ('r \<Rightarrow> string \<Rightarrow> rvalue option) \<Rightarrow> bool" where
  "ok_set R view = (\<forall>k v s s'. r_set R k v s = (Inr (), s') \<longrightarrow> view s' = (view s)(k \<mapsto> v))"

definition ok_expire :: "'r redis \<Rightarrow> ('r \<Rightarrow> string \<Rightarrow> rvalue option) \<Rightarrow> bool" where
  "ok_expire R view = (\<forall>k t s s'. r_expire R k t s = (Inr (), s') \<longrightarrow> view s' = view s)"

definition ok_setex :: "'r redis \<Rightarrow> ('r \<Rightarrow> string \<Rightarrow> rvalue option) \<Rightarrow> bool" where
  "ok_setex R view = (\<forall>k t v s s'. r_setex R k t v s = (Inr (), s') \<longrightarrow> view s' = (view s)(k \<mapsto> v))"

definition ok_incr :: "'r redis \<Rightarrow> ('r \<Rightarrow> string \<Rightarrow> rvalue option) \<Rightarrow> bool" where
  "ok_incr R view = (\<forall>k a s n s'. r_incr R k a s = (Inr n, s') \<longrightarrow>
     counter_of (view s k) = Some (n - a) \<and> view s' = (view s)(k \<mapsto> RInt n))"

definition ok_mget :: "'r redis \<Rightarrow> ('r \<Rightarrow> string \<Rightarrow> rvalue option) \<Rightarrow> bool" where
  "ok_mget R view = (\<forall>ks s vs s'. r_mget R ks s = (Inr vs, s') \<longrightarrow>
     vs = map (view s) ks \<and> view s' = view s)"

definition ok_keys :: "'r redis \<Rightarrow> ('r \<Rightarrow> string \<Rightarrow> rvalue option) \<Rightarrow> bool" where
  "ok_keys R view = (\<forall>p s ks s'. glob_free p \<longrightarrow> r_keys R (p @ ''*'') s = (Inr ks, s') \<longrightarrow>
     set ks = {k. view s k \<noteq> None \<and> starts_with p k} \<and> distinct ks \<and> view s' = view s)"

definition ok_delete :: "'r redis \<Rightarrow> ('r \<Rightarrow> string \<Rightarrow> rvalue option) \<Rightarrow> bool" where
  "ok_delete R view = (\<forall>ks s n s'. r_delete R ks s = (Inr n, s') \<longrightarrow>
     view s' = (\<lambda>k. if k \<in> set ks then None else view s k) \<and>
     n = int (card {k \<in> set ks. view s k \<noteq> None}))"

definition ok_exists :: "'r redis \<Rightarrow> ('r \<Rightarrow> string \<Rightarrow> rvalue option) \<Rightarrow> bool" where
  "ok_exists R view = (\<forall>k s b s'. r_exists R k s = (Inr b, s') \<longrightarrow>
     b = (view s k \<noteq> None) \<and> view s' = view s)"

definition redis_ok :: "'r redis \<Rightarrow> ('r \<Rightarrow> string \<Rightarrow> rvalue option) \<Rightarrow> bool" where
  "redis_ok R view =
    (ok_get R view \<and> ok_set R view \<and> ok_expire R view \<and> ok_setex R view \<and> ok_incr R view \<and>
     ok_mget R view \<and> ok_keys R view \<and> ok_delete R view \<and> ok_exists R view)"

lemmas redis_ok_defs = redis_ok_def ok_get_def ok_set_def ok_expire_def ok_setex_def ok_incr_def
  ok_mget_def ok_keys_def ok_delete_def ok_exists_def

lemma redis_getD: "redis_ok R view \<Longrightarrow> r_get R k s = (Inr x, s') \<Longrightarrow> x = view s k \<and> view s' = view s"
  unfolding redis_ok_def ok_get_def by blast

lemma redis_setD: "redis_ok R view \<Longrightarrow> r_set R k v s = (Inr (), s') \<Longrightarrow> view s' = (view s)(k \<mapsto> v)"
  unfolding redis_ok_def ok_set_def by blast

lemma redis_expireD: "redis_ok R view \<Longrightarrow> r_expire R k t s = (Inr (), s') \<Longrightarrow> view s' = view s"
  unfolding redis_ok_def ok_expire_def by blast

lemma redis_setexD: "redis_ok R view \<Longrightarrow> r_setex R k t v s = (Inr (), s') \<Longrightarrow> view s' = (view s)(k \<mapsto> v)"
  unfolding redis_ok_def ok_setex_def by blast

lemma redis_incrD: "redis_ok R view \<Longrightarrow> r_incr R k a s = (Inr n, s') \<Longrightarrow>
    counter_of (view s k) = Some (n - a) \<and> view s' = (view s)(k \<mapsto> RInt n)"
  unfolding redis_ok_def ok_incr_def by blast

lemma redis_mgetD: "redis_ok R view \<Longrightarrow> r_mget R ks s = (Inr vs, s') \<Longrightarrow>
    vs = map (view s) ks \<and> view s' = view s"
  unfolding redis_ok_def ok_mget_def by blast

lemma redis_keysD: "redis_ok R view \<Longrightarrow> glob_free p \<Longrightarrow> r_keys R (p @ ''*'') s = (Inr ks, s') \<Longrightarrow>
    set ks = {k. view s k \<noteq> None \<and> starts_with p k} \<and> distinct ks \<and> view s' = view s"
  unfolding redis_ok_def ok_keys_def by blast

lemma redis_deleteD: "redis_ok R view \<Longrightarrow> r_delete R ks s = (Inr n, s') \<Longrightarrow>
    view s' = (\<lambda>k. if k \<in> set ks then None else view s k) \<and> n = int (card {k \<in> set ks. view s k \<noteq> None})"
  unfolding redis_ok_def ok_delete_def by blast

lemma redis_existsD: "redis_ok R view \<Longrightarrow> r_exists R k s = (Inr b, s') \<Longrightarrow>
    b = (view s k \<noteq> None) \<and> view s' = view s"
  unfolding redis_ok_def ok_exists_def by blast

subsection \<open>BaseStateManager\<close>

record mgr =
  service_prefix :: string
  namespace :: "string option"

definition mgr_initialize :: "string option \<Rightarrow> mgr \<Rightarrow> mgr" where
  "mgr_initialize ns m = m\<lparr>namespace := ns\<rparr>"

text \<open>\<open>if self.namespace\<close>: absent and empty namespaces are the same.\<close>

definition ns_truthy :: "mgr \<Rightarrow> bool" where
  "ns_truthy m = (namespace m \<noteq> None \<and> namespace m \<noteq> Some [])"

definition get_key :: "mgr \<Rightarrow> string \<Rightarrow> string \<Rightarrow> string" where
  "get_key m key_type identifier =
     (let base_key = service_prefix m @ '':'' @ key_type @ '':'' @ identifier in
      if ns_truthy m then the (namespace m) @ '':'' @ base_key else base_key)"

definition redis_error :: "string \<Rightarrow> exn \<Rightarrow> exn" where
  "redis_error what e = raise_exn RedisError (what @ '': '' @ exn_msg e)"

definition get_value_raw :: "'r redis \<Rightarrow> string \<Rightarrow> (rvalue option, 'r) rm" where
  "get_value_raw R key = rwrap (redis_error (''Failed to get key '' @ key)) (r_get R key)"

definition set_value_raw :: "'r redis \<Rightarrow> string \<Rightarrow> rvalue \<Rightarrow> nat option \<Rightarrow> (unit, 'r) rm" where
  "set_value_raw R key value ttl =
     rwrap (redis_error (''Failed to set key '' @ key))
       (rbind (r_set R key value)
          (\<lambda>_. case ttl of None \<Rightarrow> rret () | Some t \<Rightarrow> if t = 0 then rret () else r_expire R key t))"

definition increment_value :: "'r redis \<Rightarrow> string \<Rightarrow> int \<Rightarrow> nat option \<Rightarrow> (int, 'r) rm" where
  "increment_value R key amount ttl =
     rwrap (redis_error (''Failed to increment key '' @ key))
       (rbind (r_incr R key amount)
          (\<lambda>n. case ttl of None \<Rightarrow> rret n
             | Some t \<Rightarrow> if t = 0 then rret n else rbind (r_expire R key t) (\<lambda>_. rret n)))"

definition get_multiple_values ::
  "'r redis \<Rightarrow> string list \<Rightarrow> ((string \<times> rvalue option) list, 'r) rm" where
  "get_multiple_values R keys =
     rwrap (redis_error ''Failed to get multiple keys'')
       (if keys = [] then rret [] else rbind (r_mget R keys) (\<lambda>vs. rret (zip keys vs)))"

definition get_keys_by_pattern :: "'r redis \<Rightarrow> string \<Rightarrow> (string list, 'r) rm" where
  "get_keys_by_pattern R pat = rwrap (redis_error (''Failed to get keys by pattern '' @ pat)) (r_keys R pat)"

definition delete_key :: "'r redis \<Rightarrow> string \<Rightarrow> (bool, 'r) rm" where
  "delete_key R key =
     rwrap (redis_error (''Failed to delete key '' @ key))
       (rbind (r_delete R [key]) (\<lambda>n. rret (n > 0)))"

definition clear_namespace_data :: "'r redis \<Rightarrow> mgr \<Rightarrow> string \<Rightarrow> (int, 'r) rm" where
  "clear_namespace_data R m confirm_namespace =
     (if \<not> ns_truthy m \<or> namespace m \<noteq> Some confirm_namespace then
        rraise (raise_exn (Other ''ValueError'') ''Namespace confirmation required'')
      else
        rwrap (redis_error ''Failed to clear namespace data'')
          (rbind (get_keys_by_pattern R (the (namespace m) @ '':'' @ service_prefix m @ '':*''))
             (\<lambda>keys. if keys = [] then rret 0
                     else rbind (r_delete R keys) (\<lambda>_. rret (int (length keys))))))"

subsection \<open>KeyValueStateManager\<close>

definition kv_get_value :: "'r redis \<Rightarrow> mgr \<Rightarrow> string \<Rightarrow> (rvalue option, 'r) rm" where
  "kv_get_value R m key = get_value_raw R (get_key m ''value'' key)"

definition kv_set_value :: "'r redis \<Rightarrow> mgr \<Rightarrow> string \<Rightarrow> rvalue \<Rightarrow> nat option \<Rightarrow> (unit, 'r) rm" where
  "kv_set_value R m key value ttl = set_value_raw R (get_key m ''value'' key) value ttl"

definition increment_counter :: "'r redis \<Rightarrow> mgr \<Rightarrow> string \<Rightarrow> int \<Rightarrow> nat option \<Rightarrow> (int, 'r) rm" where
  "increment_counter R m key amount ttl = increment_value R (get_key m ''counter'' key) amount ttl"

definition get_counter :: "'r redis \<Rightarrow> mgr \<Rightarrow> string \<Rightarrow> (int, 'r) rm" where
  "get_counter R m key =
     rbind (get_value_raw R (get_key m ''counter'' key))
       (\<lambda>v. case v of None \<Rightarrow> rret 0
          | Some x \<Rightarrow> if \<not> rv_truthy x then rret 0
              else (case rv_int x of Some i \<Rightarrow> rret i
                    | None \<Rightarrow> rraise (raise_exn (Other ''ValueError'') ''invalid literal for int()'')))"

subsection \<open>DocumentStateManager\<close>

text \<open>Reading a document back: only JSON documents are written under document keys. A falsy
  stored text gives no document.\<close>

definition get_document :: "'r redis \<Rightarrow> mgr \<Rightarrow> string \<Rightarrow> (json option, 'r) rm" where
  "get_document R m document_id =
     rbind (get_value_raw R (get_key m ''document'' document_id))
       (\<lambda>v. case v of
            Some (RJson j) \<Rightarrow> rret (Some j)
          | Some (RStr s) \<Rightarrow> if s = [] then rret None
              else rraise (raise_exn RedisError (''Failed to deserialize JSON for key '' @ get_key m ''document'' document_id))
          | Some (RInt i) \<Rightarrow> rret (Some (JInt i))
          | Some (RNum r) \<Rightarrow> rret (Some (JNum r))
          | None \<Rightarrow> rret None)"

definition save_document :: "'r redis \<Rightarrow> mgr \<Rightarrow> string \<Rightarrow> json \<Rightarrow> nat option \<Rightarrow> (unit, 'r) rm" where
  "save_document R m document_id doc ttl =
     set_value_raw R (get_key m ''document'' document_id) (RJson doc) ttl"

text \<open>\<open>current.setdefault(key, {})\<close> along the path, then the assignment. Descending into a value
  that is not an object raises (Python: the value has no \<open>setdefault\<close>, or no item
  assignment).\<close>

fun set_path :: "string list \<Rightarrow> json \<Rightarrow> json \<Rightarrow> json option" where
  "set_path [] v j = None"
| "set_path [k] v (JObj d) = Some (JObj (dict_set k v d))"
| "set_path (k # k' # ks) v (JObj d) =
     (case set_path (k' # ks) v (case map_of d k of None \<Rightarrow> JObj [] | Some j \<Rightarrow> j) of
        None \<Rightarrow> None
      | Some j' \<Rightarrow> Some (JObj (dict_set k j' d)))"
| "set_path (k # ks) v j = None"

definition update_document_field :: "'r redis \<Rightarrow> mgr \<Rightarrow> string \<Rightarrow> string \<Rightarrow> json \<Rightarrow> (unit, 'r) rm" where
  "update_document_field R m document_id field_path v =
     rbind (get_document R m document_id)
       (\<lambda>d. let doc = (case d of None \<Rightarrow> JObj [] | Some j \<Rightarrow> if py_truthy j then j else JObj []) in
          case set_path (split_on (CHR ''.'') field_path) v doc of
            None \<Rightarrow> rraise (raise_exn (Other ''AttributeError'') ''setdefault'')
          | Some doc' \<Rightarrow> save_document R m document_id doc' None)"

definition delete_document :: "'r redis \<Rightarrow> mgr \<Rightarrow> string \<Rightarrow> (bool, 'r) rm" where
  "delete_document R m document_id = delete_key R (get_key m ''document'' document_id)"

text \<open>Reading a nested field of a document.\<close>

fun get_path :: "string list \<Rightarrow> json \<Rightarrow> json option" where
  "get_path [] j = Some j"
| "get_path (k # ks) (JObj d) = (case map_of d k of None \<Rightarrow> None | Some j \<Rightarrow> get_path ks j)"
| "get_path (k # ks) j = None"

subsection \<open>CollectionStateManager\<close>

text \<open>\<open>json.loads\<close> of a stored value, the text itself where it is not JSON. \<open>loads\<close> stands for
  \<open>json.loads\<close> on raw strings.\<close>

fun rv_json :: "(string \<Rightarrow> json option) \<Rightarrow> rvalue \<Rightarrow> json" where
  "rv_json loads (RInt i) = JInt i"
| "rv_json loads (RNum r) = JNum r"
| "rv_json loads (RJson j) = j"
| "rv_json loads (RStr s) = (case loads s of Some j \<Rightarrow> j | None \<Rightarrow> JStr s)"

definition item_key :: "string \<Rightarrow> string \<Rightarrow> string" where
  "item_key collection_id item_id = collection_id @ '':'' @ item_id"

definition get_collection ::
  "'r redis \<Rightarrow> (string \<Rightarrow> json option) \<Rightarrow> mgr \<Rightarrow> string \<Rightarrow> (string \<rightharpoonup> json, 'r) rm" where
  "get_collection R loads m collection_id =
     rbind (get_keys_by_pattern R (get_key m ''collection'' (collection_id @ '':*'')))
       (\<lambda>keys. if keys = [] then rret Map.empty
          else rbind (get_multiple_values R keys)
            (\<lambda>kvs. rret (foldl (\<lambda>res (k, v). case v of None \<Rightarrow> res
                         | Some x \<Rightarrow> res(last (split_on (CHR '':'') k) \<mapsto> rv_json loads x)) Map.empty kvs)))"

definition get_collection_item ::
  "'r redis \<Rightarrow> (string \<Rightarrow> json option) \<Rightarrow> mgr \<Rightarrow> string \<Rightarrow> string \<Rightarrow> (json option, 'r) rm" where
  "get_collection_item R loads m collection_id item_id =
     rbind (get_value_raw R (get_key m ''collection'' (item_key collection_id item_id)))
       (\<lambda>v. rret (map_option (rv_json loads) v))"

definition set_collection_item ::
  "'r redis \<Rightarrow> mgr \<Rightarrow> string \<Rightarrow> string \<Rightarrow> rvalue \<Rightarrow> nat option \<Rightarrow> (unit, 'r) rm" where
  "set_collection_item R m collection_id item_id value ttl =
     set_value_raw R (get_key m ''collection'' (item_key collection_id item_id)) value ttl"

definition remove_collection_item :: "'r redis \<Rightarrow> mgr \<Rightarrow> string \<Rightarrow> string \<Rightarrow> (bool, 'r) rm" where
  "remove_collection_item R m collection_id item_id =
     delete_key R (get_key m ''collection'' (item_key collection_id item_id))"

definition get_collection_size :: "'r redis \<Rightarrow> mgr \<Rightarrow> string \<Rightarrow> (int, 'r) rm" where
  "get_collection_size R m collection_id =
     rbind (get_keys_by_pattern R (get_key m ''collection'' (collection_id @ '':*'')))
       (\<lambda>keys. rret (int (length keys)))"

subsection \<open>A client that satisfies the contract\<close>

definition glob_match :: "string \<Rightarrow> string \<Rightarrow> bool" where
  "glob_match pat k =
     (if pat \<noteq> [] \<and> last pat = CHR ''*'' then starts_with (butlast pat) k else pat = k)"

definition map_redis :: "(string \<times> rvalue) list redis" where
  "map_redis =
     \<lparr>r_get = (\<lambda>k s. (Inr (map_of s k), s)),
      r_set = (\<lambda>k v s. (Inr (), dict_set k v s)),
      r_expire = (\<lambda>k t s. (Inr (), s)),
      r_setex = (\<lambda>k t v s. (Inr (), dict_set k v s)),
      r_incr = (\<lambda>k a s. case counter_of (map_of s k) of
          None \<Rightarrow> (Inl (raise_exn (Other ''ResponseError'') ''value is not an integer''), s)
        | Some n \<Rightarrow> (Inr (n + a), dict_set k (RInt (n + a)) s)),
      r_mget = (\<lambda>ks s. (Inr (map (map_of s) ks), s)),
      r_keys = (\<lambda>p s. (Inr (remdups (filter (glob_match p) (map fst s))), s)),
      r_delete = (\<lambda>ks s. (Inr (int (card (set ks \<inter> fst ` set s))), filter (\<lambda>kv. fst kv \<notin> set ks) s)),
      r_exists = (\<lambda>k s. (Inr (map_of s k \<noteq> None), s))\<rparr>"

lemma map_of_filter_keys: "map_of (filter (\<lambda>kv. fst kv \<notin> A) s) = (\<lambda>k. if k \<in> A then None else map_of s k)"
  by (induction s) (auto simp: fun_eq_iff)

lemma map_redis_ok: "redis_ok map_redis map_of"
proof -
  have card: "card (set ks \<inter> fst ` set s) = card {k \<in> set ks. map_of s k \<noteq> None}"
    for ks :: "string list" and s :: "(string \<times> rvalue) list"
    by (rule arg_cong [where f = card]) (auto simp: map_of_eq_None_iff)
  have keys: "k \<in> fst ` set s \<longleftrightarrow> (\<exists>y. map_of s k = Some y)"
    for k :: string and s :: "(string \<times> rvalue) list"
    by (metis map_of_eq_None_iff not_None_eq)
  show ?thesis
    by (auto simp: redis_ok_defs map_redis_def glob_match_def keys card
        map_of_filter_keys split: option.splits if_splits)
qed

subsection \<open>What a successful call does\<close>

lemma get_value_raw_ok:
  "redis_ok R view \<Longrightarrow> get_value_raw R k s = (Inr x, s') \<Longrightarrow> x = view s k \<and> view s' = view s"
  by (auto simp: get_value_raw_def dest: redis_getD)

lemma set_value_raw_ok:
  "redis_ok R view \<Longrightarrow> set_value_raw R k v ttl s = (Inr (), s') \<Longrightarrow> view s' = (view s)(k \<mapsto> v)"
proof -
  assume ok: "redis_ok R view" and eq: "set_value_raw R k v ttl s = (Inr (), s')"
  from eq obtain s1 where set: "r_set R k v s = (Inr (), s1)"
    and rest: "s' = s1 \<or> (\<exists>t. r_expire R k t s1 = (Inr (), s'))"
    by (cases ttl) (auto simp: set_value_raw_def rbind_Inr split: if_splits)
  from redis_setD [OF ok set] rest show ?thesis by (auto dest: redis_expireD [OF ok])
qed

lemma increment_value_ok:
  "redis_ok R view \<Longrightarrow> increment_value R k a ttl s = (Inr n, s') \<Longrightarrow>
     counter_of (view s k) = Some (n - a) \<and> view s' = (view s)(k \<mapsto> RInt n)"
proof -
  assume ok: "redis_ok R view" and eq: "increment_value R k a ttl s = (Inr n, s')"
  from eq obtain s1 where incr: "r_incr R k a s = (Inr n, s1)"
    and rest: "s' = s1 \<or> (\<exists>t. r_expire R k t s1 = (Inr (), s'))"
    by (cases ttl) (auto simp: increment_value_def rbind_Inr split: if_splits)
  from ok incr have 1: "counter_of (view s k) = Some (n - a)" "view s1 = (view s)(k \<mapsto> RInt n)"
    by (auto dest: redis_incrD)
  moreover from ok rest have "view s' = view s1" by (auto dest: redis_expireD)
  ultimately show ?thesis by simp
qed

lemma get_keys_ok:
  "redis_ok R view \<Longrightarrow> glob_free p \<Longrightarrow> get_keys_by_pattern R (p @ ''*'') s = (Inr ks, s') \<Longrightarrow>
     set ks = {k. view s k \<noteq> None \<and> starts_with p k} \<and> distinct ks \<and> view s' = view s"
  by (simp add: get_keys_by_pattern_def redis_keysD)

lemma delete_key_ok:
  "redis_ok R view \<Longrightarrow> delete_key R k s = (Inr b, s') \<Longrightarrow>
     view s' = (view s)(k := None) \<and> b = (view s k \<noteq> None)"
proof -
  assume ok: "redis_ok R view" and eq: "delete_key R k s = (Inr b, s')"
  from eq obtain n where n: "r_delete R [k] s = (Inr n, s')" and b: "b = (n > 0)"
    by (auto simp: delete_key_def rbind_Inr)
  from ok n have "view s' = (\<lambda>k'. if k' \<in> set [k] then None else view s k')"
    and "n = int (card {k' \<in> set [k]. view s k' \<noteq> None})"
    using redis_deleteD [OF ok n] by simp_all
  moreover have "{k' \<in> set [k]. view s k' \<noteq> None} = (if view s k = None then {} else {k})" by auto
  ultimately show ?thesis using b by (auto simp: fun_eq_iff split: if_splits)
qed

subsection \<open>Keys\<close>

text \<open>A manager whose prefix and namespace contain no separator.\<close>

definition plain_mgr :: "mgr \<Rightarrow> bool" where
  "plain_mgr m = (ns_truthy m \<and> CHR '':'' \<notin> set (the (namespace m)) \<and> CHR '':'' \<notin> set (service_prefix m))"

lemma get_key_plain:
  "plain_mgr m \<Longrightarrow> get_key m kt i =
     the (namespace m) @ CHR '':'' # service_prefix m @ CHR '':'' # kt @ CHR '':'' # i"
  by (simp add: plain_mgr_def get_key_def Let_def)

lemma get_key_inject:
  assumes "plain_mgr m" "plain_mgr m'" "CHR '':'' \<notin> set kt" "CHR '':'' \<notin> set kt'"
  shows "get_key m kt i = get_key m' kt' i' \<longleftrightarrow>
     namespace m = namespace m' \<and> service_prefix m = service_prefix m' \<and> kt = kt' \<and> i = i'"
  using assms
  by (auto simp: get_key_plain append_sep_inject plain_mgr_def ns_truthy_def)

lemma get_key_inject_same [simp]:
  "get_key m kt i = get_key m kt i' \<longleftrightarrow> i = i'"
  by (simp add: get_key_def Let_def)

text \<open>The writes a manager offers, as one type of operation.\<close>

datatype write_op =
    WSet string rvalue "nat option"
  | WIncr string int "nat option"
  | WDoc string json "nat option"
  | WItem string string rvalue "nat option"
  | WDelDoc string
  | WDelItem string string
  | WClear string

definition void :: "('a, 'r) rm \<Rightarrow> (unit, 'r) rm" where
  "void c = rbind c (\<lambda>_. rret ())"

fun do_write :: "'r redis \<Rightarrow> mgr \<Rightarrow> write_op \<Rightarrow> (unit, 'r) rm" where
  "do_write R m (WSet k v t) = kv_set_value R m k v t"
| "do_write R m (WIncr k a t) = void (increment_counter R m k a t)"
| "do_write R m (WDoc i d t) = save_document R m i d t"
| "do_write R m (WItem c i v t) = set_collection_item R m c i v t"
| "do_write R m (WDelDoc i) = void (delete_document R m i)"
| "do_write R m (WDelItem c i) = void (remove_collection_item R m c i)"
| "do_write R m (WClear ns) = void (clear_namespace_data R m ns)"

text \<open>All keys of one manager.\<close>

definition owns_key :: "mgr \<Rightarrow> string \<Rightarrow> bool" where
  "owns_key m k = starts_with (the (namespace m) @ '':'' @ service_prefix m @ '':'') k"

lemma owns_get_key: "plain_mgr m \<Longrightarrow> owns_key m (get_key m kt i)"
  using starts_with_append [of "the (namespace m) @ '':'' @ service_prefix m @ '':''" "kt @ CHR '':'' # i"]
  by (simp add: owns_key_def get_key_plain)

lemma not_owns_other:
  assumes "plain_mgr m" "plain_mgr m'" "(namespace m, service_prefix m) \<noteq> (namespace m', service_prefix m')"
  shows "\<not> owns_key m (get_key m' kt i)"
  using assms
  by (auto simp: owns_key_def starts_with_iff get_key_plain append_sep_inject plain_mgr_def ns_truthy_def)

lemma clear_namespace_ok:
  assumes ok: "redis_ok R view" and pl: "plain_mgr m"
    and gf: "glob_free (the (namespace m))" "glob_free (service_prefix m)"
    and eq: "clear_namespace_data R m ns s = (Inr n, s')"
  shows "view s' = (\<lambda>k. if owns_key m k then None else view s k) \<and> n = int (card {k. owns_key m k \<and> view s k \<noteq> None})"
proof -
  let ?p = "the (namespace m) @ '':'' @ service_prefix m @ '':''"
  have g: "glob_free ?p" using gf by (auto simp: glob_free_def)
  have pat: "the (namespace m) @ '':'' @ service_prefix m @ '':*'' = ?p @ ''*''" by simp
  from eq obtain ks s1 where ks: "get_keys_by_pattern R (?p @ ''*'') s = (Inr ks, s1)"
    and rest: "(if ks = [] then rret 0 else rbind (r_delete R ks) (\<lambda>_. rret (int (length ks)))) s1 = (Inr n, s')"
    unfolding pat by (auto simp: clear_namespace_data_def rbind_Inr split: if_splits)
  from get_keys_ok [OF ok g ks]
  have set: "set ks = {k. view s k \<noteq> None \<and> owns_key m k}" and d: "distinct ks" and v: "view s1 = view s"
    by (auto simp: owns_key_def)
  have len: "length ks = card {k. owns_key m k \<and> view s k \<noteq> None}"
    using distinct_card [OF d] by (simp add: set conj_commute)
  show ?thesis
  proof (cases "ks = []")
    case True
    then show ?thesis using rest set v len by (auto simp: fun_eq_iff)
  next
    case False
    with rest obtain c where "r_delete R ks s1 = (Inr c, s')" "n = int (length ks)"
      by (auto simp: rbind_Inr)
    with ok v have "view s' = (\<lambda>k. if k \<in> set ks then None else view s k)"
      using redis_deleteD by fastforce
    with set len \<open>n = int (length ks)\<close> show ?thesis by (auto simp: fun_eq_iff)
  qed
qed

subsection \<open>Nested fields\<close>

lemma set_path_get: "set_path ks v j = Some j' \<Longrightarrow> get_path ks j' = Some v"
  by (induction ks v j arbitrary: j' rule: set_path.induct) (auto split: option.splits)

lemma set_path_other:
  assumes "set_path (k # ks) v (JObj d) = Some j'" and "k' \<noteq> k"
  shows "get_path (k' # ks') j' = get_path (k' # ks') (JObj d)"
  using assms by (cases ks) (auto split: option.splits)

lemma void_Inr [simp]: "void c s = (Inr u, s') \<longleftrightarrow> (\<exists>x. c s = (Inr x, s'))"
  by (auto simp: void_def rbind_Inr)

lemma do_write_owned:
  assumes ok: "redis_ok R view" and pl: "plain_mgr m"
    and gf: "glob_free (the (namespace m))" "glob_free (service_prefix m)"
    and eq: "do_write R m op s = (Inr (), s')" and k: "\<not> owns_key m k"
  shows "view s' k = view s k"
proof -
  have ne: "k \<noteq> get_key m kt i" for kt i using k owns_get_key [OF pl] by auto
  show ?thesis
  proof (cases op)
    case (WSet i v t)
    with eq set_value_raw_ok [OF ok] ne show ?thesis by (simp add: kv_set_value_def)
  next
    case (WIncr i a t)
    with eq obtain n where "increment_value R (get_key m ''counter'' i) a t s = (Inr n, s')"
      by (auto simp: increment_counter_def)
    from increment_value_ok [OF ok this] ne show ?thesis by simp
  next
    case (WDoc i d t)
    with eq set_value_raw_ok [OF ok] ne show ?thesis by (simp add: save_document_def)
  next
    case (WItem c i v t)
    with eq set_value_raw_ok [OF ok] ne show ?thesis by (simp add: set_collection_item_def)
  next
    case (WDelDoc i)
    with eq obtain b where "delete_key R (get_key m ''document'' i) s = (Inr b, s')"
      by (auto simp: delete_document_def)
    from delete_key_ok [OF ok this] ne show ?thesis by simp
  next
    case (WDelItem c i)
    with eq obtain b where "delete_key R (get_key m ''collection'' (item_key c i)) s = (Inr b, s')"
      by (auto simp: remove_collection_item_def)
    from delete_key_ok [OF ok this] ne show ?thesis by simp
  next
    case (WClear ns)
    with eq obtain n where "clear_namespace_data R m ns s = (Inr n, s')" by auto
    from clear_namespace_ok [OF ok pl gf this] k show ?thesis by simp
  qed
qed

subsection \<open>Properties\<close>

text \<open>C29: Namespace isolation. For any Redis client that keeps its contract, a successful write
  through one state manager (value, counter, document, collection item, deletion, or clearing
  the whole namespace) never changes what a manager of another namespace or service prefix
  reads, whatever key type and identifier it asks for. Prefixes and namespaces contain no colon and
  no glob character.\<close>

theorem namespace_isolation:
  assumes "redis_ok R view" and "plain_mgr m" and "plain_mgr m'"
    and "glob_free (the (namespace m))" and "glob_free (service_prefix m)"
    and "(namespace m, service_prefix m) \<noteq> (namespace m', service_prefix m')"
    and "do_write R m op s = (Inr (), s')"
  shows "view s' (get_key m' kt i) = view s (get_key m' kt i)"
  using do_write_owned [OF assms(1,2,4,5,7)] not_owns_other [OF assms(2,3,6)] by blast

theorem namespace_isolation_witness:
  "map_of (snd (do_write map_redis \<lparr>service_prefix = ''risk'', namespace = Some ''paper''\<rparr> (WClear ''paper'')
       [(''paper:risk:value:x'', RInt 1), (''zerodha:risk:value:x'', RInt 2)])) ''zerodha:risk:value:x'' =
     Some (RInt 2)"
proof -
  let ?m = "\<lparr>service_prefix = ''risk'', namespace = Some ''paper''\<rparr>"
  let ?m' = "\<lparr>service_prefix = ''risk'', namespace = Some ''zerodha''\<rparr>"
  let ?s = "[(''paper:risk:value:x'', RInt 1), (''zerodha:risk:value:x'', RInt 2)]"
  have run: "do_write map_redis ?m (WClear ''paper'') ?s = (Inr (), [(''zerodha:risk:value:x'', RInt 2)])"
    by (simp add: void_def clear_namespace_data_def ns_truthy_def rwrap_def rbind_def rret_def
        get_keys_by_pattern_def map_redis_def glob_match_def)
  have "map_of [(''zerodha:risk:value:x'', RInt 2)] (get_key ?m' ''value'' ''x'') = map_of ?s (get_key ?m' ''value'' ''x'')"
    by (rule namespace_isolation [OF map_redis_ok, OF _ _ _ _ _ run])
       (simp_all add: plain_mgr_def ns_truthy_def glob_free_def)
  then show ?thesis
    unfolding run by (simp add: get_key_def ns_truthy_def)
qed

text \<open>A sequence of increments of one counter.\<close>

fun increments :: "'r redis \<Rightarrow> mgr \<Rightarrow> string \<Rightarrow> (int \<times> nat option) list \<Rightarrow> (unit, 'r) rm" where
  "increments R m k [] = rret ()"
| "increments R m k ((a, t) # xs) = rbind (increment_counter R m k a t) (\<lambda>_. increments R m k xs)"

lemma increments_view:
  assumes ok: "redis_ok R view" and "increments R m k xs s = (Inr (), s')"
    and "counter_of (view s (get_key m ''counter'' k)) = Some c"
  shows "counter_of (view s' (get_key m ''counter'' k)) = Some (c + sum_list (map fst xs))"
  using assms(2,3)
proof (induction xs arbitrary: s c)
  case Nil
  then show ?case by simp
next
  case (Cons x xs)
  obtain a t where x: "x = (a, t)" by (cases x)
  with Cons.prems obtain n s1 where inc: "increment_value R (get_key m ''counter'' k) a t s = (Inr n, s1)"
    and rest: "increments R m k xs s1 = (Inr (), s')"
    by (auto simp: rbind_Inr increment_counter_def)
  from increment_value_ok [OF ok inc] Cons.prems(2) have "n = c + a"
    and "counter_of (view s1 (get_key m ''counter'' k)) = Some n"
    by (auto simp: counter_of_def)
  with Cons.IH [OF rest] x show ?case by (simp add: add.assoc)
qed

text \<open>Counters count. After any sequence of successful increment_counter calls on one key,
  with any amounts and TTLs, a successful get_counter returns the old count plus the sum of
  the amounts.\<close>

theorem counter_counts:
  assumes ok: "redis_ok R view" and start: "counter_of (view s (get_key m ''counter'' k)) = Some c"
    and run: "increments R m k xs s = (Inr (), s')" and get: "get_counter R m k s' = (Inr n, s'')"
  shows "n = c + sum_list (map fst xs)"
proof -
  let ?k = "get_key m ''counter'' k"
  from get obtain v s1 where v: "get_value_raw R ?k s' = (Inr v, s1)"
    and n: "(case v of None \<Rightarrow> rret 0 | Some x \<Rightarrow> if \<not> rv_truthy x then rret 0
              else (case rv_int x of Some i \<Rightarrow> rret i
                    | None \<Rightarrow> rraise (raise_exn (Other ''ValueError'') ''invalid literal for int()''))) s1 = (Inr n, s'')"
    unfolding get_counter_def by (auto simp: rbind_Inr)
  have val: "v = view s' ?k" using get_value_raw_ok [OF ok v] by simp
  have "counter_of v = Some (c + sum_list (map fst xs))"
    unfolding val by (rule increments_view [OF ok, OF run, OF start])
  with n show ?thesis
  proof (cases v)
    case (Some x)
    with n \<open>counter_of v = _\<close> show ?thesis
      by (cases x) (auto simp: counter_of_def read_int_def split: if_splits option.splits)
  qed (simp add: counter_of_def)
qed

theorem counter_counts_witness:
  "get_counter map_redis \<lparr>service_prefix = ''risk'', namespace = Some ''paper''\<rparr> ''d''
     (snd (increments map_redis \<lparr>service_prefix = ''risk'', namespace = Some ''paper''\<rparr> ''d''
        [(1, Some 172800), (2, None)] [])) = (Inr 3, [(''paper:risk:counter:d'', RInt 3)]) \<and>
   (3::int) = 0 + sum_list (map fst [(1::int, Some (172800::nat)), (2, None)])"
proof -
  let ?m = "\<lparr>service_prefix = ''risk'', namespace = Some ''paper''\<rparr>"
  have run: "increments map_redis ?m ''d'' [(1, Some 172800), (2, None)] [] =
      (Inr (), [(''paper:risk:counter:d'', RInt 3)])"
    by (simp add: increment_counter_def increment_value_def get_key_def ns_truthy_def rbind_def
        rwrap_def rret_def map_redis_def counter_of_def)
  have get: "get_counter map_redis ?m ''d'' [(''paper:risk:counter:d'', RInt 3)] =
      (Inr 3, [(''paper:risk:counter:d'', RInt 3)])"
    by (simp add: get_counter_def get_value_raw_def get_key_def ns_truthy_def rbind_def
        rwrap_def rret_def map_redis_def)
  have "(3::int) = 0 + sum_list (map fst [(1::int, Some (172800::nat)), (2, None)])"
    by (rule counter_counts [OF map_redis_ok, OF _ run get]) (simp add: counter_of_def)
  then show ?thesis using run get by simp
qed

text \<open>Nested document updates. After a successful update_document_field, reading the
  document back gives an object in which the updated path holds exactly the new value, and every
  field whose path starts with another key is what it was before (a missing document counts as
  an empty object).\<close>

theorem update_document_field_roundtrip:
  assumes ok: "redis_ok R view"
    and before: "view s (get_key m ''document'' i) = map_option RJson old"
    and upd: "update_document_field R m i path v s = (Inr (), s')"
    and get: "get_document R m i s' = (Inr d, s'')"
  shows "\<exists>doc. d = Some doc \<and> get_path (split_on (CHR ''.'') path) doc = Some v \<and>
     (\<forall>k' ks. k' \<noteq> hd (split_on (CHR ''.'') path) \<longrightarrow>
        get_path (k' # ks) doc = (case old of None \<Rightarrow> None | Some j \<Rightarrow> get_path (k' # ks) j))"
proof -
  let ?key = "get_key m ''document'' i"
  let ?doc = "case old of None \<Rightarrow> JObj [] | Some j \<Rightarrow> if py_truthy j then j else JObj []"
  from upd obtain d0 s1 where d0: "get_document R m i s = (Inr d0, s1)"
    and rest: "(case set_path (split_on (CHR ''.'') path) v
        (case d0 of None \<Rightarrow> JObj [] | Some j \<Rightarrow> if py_truthy j then j else JObj []) of
          None \<Rightarrow> rraise (raise_exn (Other ''AttributeError'') ''setdefault'')
        | Some doc' \<Rightarrow> save_document R m i doc' None) s1 = (Inr (), s')"
    unfolding update_document_field_def Let_def by (auto simp: rbind_Inr)
  from d0 obtain v0 where v0: "get_value_raw R ?key s = (Inr v0, s1)" and dv: "d0 = old"
    using before get_value_raw_ok [OF ok] unfolding get_document_def
    by (cases old) (fastforce simp: rbind_Inr)+
  from rest dv obtain doc' where sp: "set_path (split_on (CHR ''.'') path) v ?doc = Some doc'"
    and sv: "set_value_raw R ?key (RJson doc') None s1 = (Inr (), s')"
    by (auto simp: save_document_def split: option.splits)
  have "view s' ?key = Some (RJson doc')" using set_value_raw_ok [OF ok sv] by simp
  with get have d: "d = Some doc'"
    using get_value_raw_ok [OF ok] unfolding get_document_def by (fastforce simp: rbind_Inr)
  obtain k0 ks0 where ks: "split_on (CHR ''.'') path = k0 # ks0"
    by (metis split_on_not_Nil neq_Nil_conv)
  from sp ks obtain dd where dd: "?doc = JObj dd"
    by (cases ?doc; cases ks0) auto
  have "get_path (k' # kk) doc' = (case old of None \<Rightarrow> None | Some j \<Rightarrow> get_path (k' # kk) j)"
    if "k' \<noteq> k0" for k' kk
  proof -
    from set_path_other [OF sp [unfolded ks dd] that]
    have "get_path (k' # kk) doc' = get_path (k' # kk) (JObj dd)" .
    also have "\<dots> = (case old of None \<Rightarrow> None | Some j \<Rightarrow> get_path (k' # kk) j)"
    proof (cases old)
      case (Some j)
      with dd show ?thesis by (cases j) (auto split: if_splits)
    qed (use dd in auto)
    finally show ?thesis .
  qed
  with d ks set_path_get [OF sp] show ?thesis by auto
qed

theorem update_document_field_roundtrip_witness:
  "\<exists>doc. Some (JObj [(''stats'', JObj [(''n'', JInt 5)]), (''id'', JStr ''p'')]) = Some doc \<and>
     get_path (split_on (CHR ''.'') ''stats.n'') doc = Some (JInt 5) \<and>
     (\<forall>k' ks. k' \<noteq> hd (split_on (CHR ''.'') ''stats.n'') \<longrightarrow>
        get_path (k' # ks) doc = (case Some (JObj [(''stats'', JObj []), (''id'', JStr ''p'')]) of
           None \<Rightarrow> None | Some j \<Rightarrow> get_path (k' # ks) j))"
proof -
  let ?m = "\<lparr>service_prefix = ''pf'', namespace = Some ''paper''\<rparr>"
  let ?old = "JObj [(''stats'', JObj []), (''id'', JStr ''p'')]"
  let ?new = "JObj [(''stats'', JObj [(''n'', JInt 5)]), (''id'', JStr ''p'')]"
  note defs = get_document_def get_value_raw_def get_key_def ns_truthy_def rbind_def rwrap_def
    rret_def map_redis_def update_document_field_def save_document_def set_value_raw_def
  have upd: "update_document_field map_redis ?m ''a'' ''stats.n'' (JInt 5) [(''paper:pf:document:a'', RJson ?old)] =
      (Inr (), [(''paper:pf:document:a'', RJson ?new)])"
    by (simp add: defs)
  have get: "get_document map_redis ?m ''a'' [(''paper:pf:document:a'', RJson ?new)] =
      (Inr (Some ?new), [(''paper:pf:document:a'', RJson ?new)])"
    by (simp add: defs)
  show ?thesis
    by (rule update_document_field_roundtrip [OF map_redis_ok, OF _ upd get])
       (simp add: get_key_def ns_truthy_def)
qed

end
