(* ===== verification/Topics.thy ===== *)
theory Topics
  imports Py_Prelude
begin

text \<open>
  Topic names and routing (core/schemas/topics.py, core/schemas/topic_validator.py): the
  fixed names of TopicNames, the per-broker generators of TopicMap, broker extraction from a
  topic, partitioning keys, the topic table of TopicConfig, consumer groups, and the
  topic validator. The locale \<open>broker_topic\<close> states what every TopicMap generator has in
  common (the broker is the first component of the name); each generator interprets it.
\<close>

subsection \<open>TopicNames\<close>

definition MARKET_TICKS :: string where "MARKET_TICKS = ''market.ticks''"
definition MARKET_EQUITY_TICKS :: string where "MARKET_EQUITY_TICKS = ''market.equity.ticks''"
definition MARKET_CRYPTO_TICKS :: string where "MARKET_CRYPTO_TICKS = ''market.crypto.ticks''"
definition MARKET_OPTIONS_TICKS :: string where "MARKET_OPTIONS_TICKS = ''market.options.ticks''"
definition MARKET_FOREX_TICKS :: string where "MARKET_FOREX_TICKS = ''market.forex.ticks''"
definition DEAD_LETTER_QUEUE :: string where "DEAD_LETTER_QUEUE = ''global.dead_letter_queue''"

lemmas market_topic_defs =
  MARKET_TICKS_def MARKET_EQUITY_TICKS_def MARKET_CRYPTO_TICKS_def MARKET_OPTIONS_TICKS_def
  MARKET_FOREX_TICKS_def

definition get_market_topic_by_asset_class :: "string \<Rightarrow> string" where
  "get_market_topic_by_asset_class asset_class = (let a = str_lower asset_class in
     if a \<in> set [''equity'', ''stock'', ''stocks''] then MARKET_EQUITY_TICKS
     else if a \<in> set [''crypto'', ''cryptocurrency'', ''bitcoin'', ''ethereum''] then MARKET_CRYPTO_TICKS
     else if a \<in> set [''options'', ''option'', ''derivatives''] then MARKET_OPTIONS_TICKS
     else if a \<in> set [''forex'', ''currency'', ''fx''] then MARKET_FOREX_TICKS
     else MARKET_TICKS)"

text \<open>The three broker-aware selectors raise \<open>ValueError\<close> (here the left summand, with the
  message) for a broker they do not know.\<close>

definition unknown_broker :: "string \<Rightarrow> string" where
  "unknown_broker broker = ''Unknown broker: '' @ broker"

definition get_signals_raw_topic :: "string \<Rightarrow> string + string" where
  "get_signals_raw_topic broker =
     (if broker = ''paper'' then Inr ''paper.signals.raw''
      else if broker = ''zerodha'' then Inr ''zerodha.signals.raw''
      else Inl (unknown_broker broker))"

definition get_signals_validated_topic :: "string \<Rightarrow> string + string" where
  "get_signals_validated_topic broker =
     (if broker = ''paper'' then Inr ''paper.signals.validated''
      else if broker = ''zerodha'' then Inr ''zerodha.signals.validated''
      else Inl (unknown_broker broker))"

definition get_signals_rejected_topic :: "string \<Rightarrow> string + string" where
  "get_signals_rejected_topic broker =
     (if broker = ''paper'' then Inr ''paper.signals.rejected''
      else if broker = ''zerodha'' then Inr ''zerodha.signals.rejected''
      else Inl (unknown_broker broker))"

definition get_dlq_topic :: "string \<Rightarrow> string" where
  "get_dlq_topic original_topic = original_topic @ ''.dlq''"

subsection \<open>TopicMap\<close>

definition signals_raw :: "string \<Rightarrow> string" where
  "signals_raw broker = broker @ ''.signals.raw''"

definition signals_validated :: "string \<Rightarrow> string" where
  "signals_validated broker = broker @ ''.signals.validated''"

definition signals_rejected :: "string \<Rightarrow> string" where
  "signals_rejected broker = broker @ ''.signals.rejected''"

definition orders_submitted :: "string \<Rightarrow> string" where
  "orders_submitted broker = broker @ ''.orders.submitted''"

definition orders_ack :: "string \<Rightarrow> string" where
  "orders_ack broker = broker @ ''.orders.ack''"

definition orders_filled :: "string \<Rightarrow> string" where
  "orders_filled broker = broker @ ''.orders.filled''"

definition orders_failed :: "string \<Rightarrow> string" where
  "orders_failed broker = broker @ ''.orders.failed''"

definition pnl_snapshots :: "string \<Rightarrow> string" where
  "pnl_snapshots broker = broker @ ''.pnl.snapshots''"

text \<open>All topics a TopicMap generates for its broker.\<close>

definition broker_topics :: "string \<Rightarrow> string list" where
  "broker_topics broker =
     [signals_raw broker, signals_validated broker, signals_rejected broker,
      orders_submitted broker, orders_ack broker, orders_filled broker, orders_failed broker,
      pnl_snapshots broker]"

definition known_brokers :: "string list" where
  "known_brokers = [''paper'', ''zerodha'']"

definition get_broker_from_topic :: "string \<Rightarrow> string" where
  "get_broker_from_topic topic =
     (if topic = [] \<or> CHR ''.'' \<notin> set topic then ''unknown''
      else let first_part = hd (split_on (CHR ''.'') topic) in
        if first_part \<in> set known_brokers then first_part
        else if first_part \<in> set [''market'', ''global''] then ''unknown''
        else ''unknown'')"

subsection \<open>PartitioningKeys\<close>

definition market_tick_key :: "int \<Rightarrow> string" where
  "market_tick_key instrument_token = show_int instrument_token"

definition trading_signal_key :: "string \<Rightarrow> int \<Rightarrow> string" where
  "trading_signal_key strategy_id instrument_token = strategy_id @ '':'' @ show_int instrument_token"

definition order_key :: "string \<Rightarrow> int \<Rightarrow> string \<Rightarrow> string" where
  "order_key strategy_id instrument_token timestamp =
     strategy_id @ '':'' @ show_int instrument_token @ '':'' @ timestamp"

subsection \<open>TopicConfig and ConsumerGroups\<close>

record topic_config =
  partitions :: nat
  replication_factor :: nat
  retention_ms :: nat

definition mk_config :: "nat \<Rightarrow> nat \<Rightarrow> topic_config" where
  "mk_config p ms = \<lparr>partitions = p, replication_factor = 1, retention_ms = ms\<rparr>"

definition topic_configs :: "(string \<times> topic_config) list" where
  "topic_configs =
    [(''market.ticks'', mk_config 12 3600000),
     (''market.equity.ticks'', mk_config 8 3600000),
     (''market.crypto.ticks'', mk_config 6 3600000),
     (''market.options.ticks'', mk_config 4 3600000),
     (''market.forex.ticks'', mk_config 4 3600000),
     (''paper.signals.raw'', mk_config 6 86400000),
     (''paper.signals.validated'', mk_config 6 86400000),
     (''paper.signals.rejected'', mk_config 3 86400000),
     (''paper.orders.filled'', mk_config 3 604800000),
     (''paper.orders.submitted'', mk_config 3 604800000),
     (''paper.orders.failed'', mk_config 3 604800000),
     (''paper.pnl.snapshots'', mk_config 3 604800000),
     (''zerodha.signals.raw'', mk_config 6 86400000),
     (''zerodha.signals.validated'', mk_config 6 86400000),
     (''zerodha.signals.rejected'', mk_config 3 86400000),
     (''zerodha.orders.filled'', mk_config 3 2592000000),
     (''zerodha.orders.submitted'', mk_config 3 2592000000),
     (''zerodha.orders.failed'', mk_config 3 2592000000),
     (''zerodha.pnl.snapshots'', mk_config 3 2592000000),
     (''market.ticks.dlq'', mk_config 3 604800000),
     (''paper.signals.raw.dlq'', mk_config 3 604800000),
     (''zerodha.signals.raw.dlq'', mk_config 3 604800000),
     (''paper.orders.filled.dlq'', mk_config 3 604800000),
     (''zerodha.orders.filled.dlq'', mk_config 3 604800000)]"

definition group_market_feed :: "string \<Rightarrow> string" where
  "group_market_feed broker = ''alpha-panda.market-feed.'' @ broker"
definition group_strategy_runner :: "string \<Rightarrow> string" where
  "group_strategy_runner broker = ''alpha-panda.strategy-runner.'' @ broker"
definition group_risk_manager :: "string \<Rightarrow> string" where
  "group_risk_manager broker = ''alpha-panda.risk-manager.'' @ broker"
definition group_trading_engine :: "string \<Rightarrow> string" where
  "group_trading_engine broker = ''alpha-panda.trading-engine.'' @ broker"
definition group_portfolio_manager :: "string \<Rightarrow> string" where
  "group_portfolio_manager broker = ''alpha-panda.portfolio-manager.'' @ broker"

subsection \<open>TopicValidator\<close>

definition shared_topics :: "string list" where
  "shared_topics = [''market.ticks'', ''market.equity.ticks'', ''market.crypto.ticks'']"

definition validate_broker_topic_pair :: "string \<Rightarrow> string \<Rightarrow> bool" where
  "validate_broker_topic_pair topic broker =
     (if starts_with (broker @ ''.'') topic then True
      else if topic \<in> set shared_topics then True
      else False)"

definition get_expected_topic :: "string \<Rightarrow> string \<Rightarrow> string" where
  "get_expected_topic base_topic broker =
     (if starts_with ''market.'' base_topic then base_topic
      else if \<not> starts_with (broker @ ''.'') base_topic then broker @ ''.'' @ base_topic
      else base_topic)"

subsection \<open>What every TopicMap generator promises\<close>

locale broker_topic =
  fixes topic :: "string \<Rightarrow> string" and suffix :: string
  assumes shape: "topic broker = broker @ CHR ''.'' # suffix"
begin

lemma topic_inject: "topic b = topic b' \<longleftrightarrow> b = b'"
  by (simp add: shape)

lemma broker_of_topic: "b \<in> set known_brokers \<Longrightarrow> get_broker_from_topic (topic b) = b"
  by (auto simp: shape get_broker_from_topic_def known_brokers_def)

lemma topic_validates: "validate_broker_topic_pair (topic b) b"
  using starts_with_append [of "b @ ''.''" suffix]
  by (simp add: validate_broker_topic_pair_def shape)

lemma expected_is_topic: "b \<noteq> ''market'' \<Longrightarrow> CHR ''.'' \<notin> set b \<Longrightarrow> get_expected_topic (topic b) b = topic b"
  using starts_with_append [of "b @ ''.''" suffix]
  by (simp add: get_expected_topic_def shape)

end

interpretation raw: broker_topic signals_raw "''signals.raw''"
  by unfold_locales (simp add: signals_raw_def)
interpretation validated: broker_topic signals_validated "''signals.validated''"
  by unfold_locales (simp add: signals_validated_def)
interpretation rejected: broker_topic signals_rejected "''signals.rejected''"
  by unfold_locales (simp add: signals_rejected_def)
interpretation submitted: broker_topic orders_submitted "''orders.submitted''"
  by unfold_locales (simp add: orders_submitted_def)
interpretation ack: broker_topic orders_ack "''orders.ack''"
  by unfold_locales (simp add: orders_ack_def)
interpretation filled: broker_topic orders_filled "''orders.filled''"
  by unfold_locales (simp add: orders_filled_def)
interpretation failed: broker_topic orders_failed "''orders.failed''"
  by unfold_locales (simp add: orders_failed_def)
interpretation pnl: broker_topic pnl_snapshots "''pnl.snapshots''"
  by unfold_locales (simp add: pnl_snapshots_def)

lemmas topic_map_defs =
  signals_raw_def signals_validated_def signals_rejected_def orders_submitted_def
  orders_ack_def orders_filled_def orders_failed_def pnl_snapshots_def

lemmas topic_inject = raw.topic_inject validated.topic_inject rejected.topic_inject
  submitted.topic_inject ack.topic_inject filled.topic_inject failed.topic_inject pnl.topic_inject

lemma rev_broker_topics:
  "t \<in> set (broker_topics b) \<Longrightarrow> rev t \<in> set (map rev (broker_topics b))"
  by simp

lemma broker_topics_known_dot:
  "t \<in> set (broker_topics b) \<Longrightarrow> \<exists>s. t = b @ CHR ''.'' # s"
  by (auto simp: broker_topics_def topic_map_defs)

lemma market_topic_is_shared:
  "get_market_topic_by_asset_class a \<in>
     {MARKET_TICKS, MARKET_EQUITY_TICKS, MARKET_CRYPTO_TICKS, MARKET_OPTIONS_TICKS, MARKET_FOREX_TICKS}"
  by (simp add: get_market_topic_by_asset_class_def Let_def)

subsection \<open>Properties\<close>

text \<open>Routing round trip. Every topic that TopicMap generates for one of the two known
  brokers is routed back to exactly that broker by get_broker_from_topic, while every market
  data topic is routed to 'unknown', whatever the asset class asked for.\<close>

theorem broker_routing_roundtrip:
  "b \<in> set known_brokers \<Longrightarrow> t \<in> set (broker_topics b) \<Longrightarrow>
     get_broker_from_topic t = b \<and>
     get_broker_from_topic (get_market_topic_by_asset_class a) = ''unknown''"
proof
  assume b: "b \<in> set known_brokers" and t: "t \<in> set (broker_topics b)"
  from t b show "get_broker_from_topic t = b"
    by (auto simp: broker_topics_def raw.broker_of_topic validated.broker_of_topic
        rejected.broker_of_topic submitted.broker_of_topic ack.broker_of_topic
        filled.broker_of_topic failed.broker_of_topic pnl.broker_of_topic)
  show "get_broker_from_topic (get_market_topic_by_asset_class a) = ''unknown''"
    using market_topic_is_shared [of a]
    by (auto simp: market_topic_defs get_broker_from_topic_def known_brokers_def)
qed

theorem broker_routing_roundtrip_witness:
  "get_broker_from_topic ''zerodha.orders.filled'' = ''zerodha'' \<and>
   get_broker_from_topic (get_market_topic_by_asset_class ''Crypto'') = ''unknown''"
  using broker_routing_roundtrip [of "''zerodha''" "''zerodha.orders.filled''" "''Crypto''"]
  by (simp add: known_brokers_def broker_topics_def topic_map_defs)

text \<open>Broker isolation. A topic name belongs to at most one broker: if the same string is
  generated for two brokers, the brokers are equal, so no message produced for one broker can
  reach a consumer subscribed to another broker's topics; and the eight topics of one broker are
  pairwise different.\<close>

theorem broker_topics_isolated:
  "(t \<in> set (broker_topics b) \<and> t \<in> set (broker_topics b') \<longrightarrow> b = b') \<and>
   distinct (broker_topics b)"
proof (intro conjI impI)
  assume "t \<in> set (broker_topics b) \<and> t \<in> set (broker_topics b')"
  then have "rev t \<in> set (map rev (broker_topics b))" "rev t \<in> set (map rev (broker_topics b'))"
    by (auto intro: rev_broker_topics)
  then show "b = b'"
    by (auto simp: broker_topics_def topic_map_defs)
next
  have "distinct (map rev (broker_topics b))"
    by (simp add: broker_topics_def topic_map_defs)
  then show "distinct (broker_topics b)"
    by (simp add: distinct_map)
qed

theorem broker_topics_isolated_witness:
  "''paper.signals.raw'' \<in> set (broker_topics ''paper'') \<and>
   ''paper.signals.raw'' \<notin> set (broker_topics ''zerodha'')"
  using broker_topics_isolated [of "''paper.signals.raw''" "''paper''" "''zerodha''"]
  by (simp add: broker_topics_def topic_map_defs)

text \<open>Order keys identify orders. Two orders get the same partitioning key only when their
  strategy, instrument and timestamp agree, provided strategy ids contain no colon (the
  timestamp may contain colons, as ISO times do).\<close>

theorem order_key_inject:
  "CHR '':'' \<notin> set sid \<Longrightarrow> CHR '':'' \<notin> set sid' \<Longrightarrow>
     order_key sid tok ts = order_key sid' tok' ts' \<longleftrightarrow> sid = sid' \<and> tok = tok' \<and> ts = ts'"
  by (simp add: order_key_def append_sep_inject)

theorem order_key_inject_witness:
  "order_key ''mom1'' 256265 ''2025-01-02 09:20:00'' \<noteq> order_key ''mom1'' 256266 ''2025-01-02 09:20:00''"
  using order_key_inject [of "''mom1''" "''mom1''" 256265 "''2025-01-02 09:20:00''" 256266
      "''2025-01-02 09:20:00''"]
  by simp

text \<open>Topic table. The topic table has no duplicate entry, every partition count is
  positive, and it configures every topic TopicMap generates for the two brokers except the
  orders.ack topics, which have no entry.\<close>

theorem topic_configs_cover:
  "distinct (map fst topic_configs) \<and>
   (\<forall>(t, c) \<in> set topic_configs. 0 < partitions c \<and> 0 < retention_ms c) \<and>
   (\<forall>b \<in> set known_brokers. \<forall>t \<in> set (broker_topics b).
      map_of topic_configs t \<noteq> None \<longleftrightarrow> t \<noteq> orders_ack b)"
  by (simp add: topic_configs_def mk_config_def known_brokers_def broker_topics_def topic_map_defs)

theorem topic_configs_cover_witness:
  "map_of topic_configs (orders_filled ''paper'') \<noteq> None \<and>
   map_of topic_configs (orders_ack ''paper'') = None"
  using topic_configs_cover
  by (auto simp: known_brokers_def broker_topics_def topic_map_defs dest: map_of_SomeD)

text \<open>The validator against the expected topic. For a base topic outside the market
  namespace the topic that get_expected_topic builds always passes validate_broker_topic_pair for
  its broker, and asking for the expected topic again changes nothing; a market topic passes (for
  a broker that is not itself called 'market') only if it is one of the three listed shared
  topics, so the options and forex topics that TopicNames defines are refused.\<close>

theorem expected_topic_validates:
  "(\<not> starts_with ''market.'' base \<longrightarrow>
      validate_broker_topic_pair (get_expected_topic base b) b \<and>
      (b \<noteq> ''market'' \<and> CHR ''.'' \<notin> set b \<longrightarrow>
         get_expected_topic (get_expected_topic base b) b = get_expected_topic base b)) \<and>
   (starts_with ''market.'' base \<and> \<not> starts_with (b @ ''.'') base \<longrightarrow>
      validate_broker_topic_pair (get_expected_topic base b) b = (base \<in> set shared_topics)) \<and>
   \<not> validate_broker_topic_pair MARKET_OPTIONS_TICKS ''paper'' \<and>
   \<not> validate_broker_topic_pair MARKET_FOREX_TICKS ''paper''"
proof -
  have sw: "starts_with (b @ ''.'') (b @ CHR ''.'' # base)"
    using starts_with_append [of "b @ ''.''" base] by simp
  have "starts_with ''market.'' (b @ CHR ''.'' # base) \<Longrightarrow> CHR ''.'' \<notin> set b \<Longrightarrow> b = ''market''"
    using append_sep_inject [of "CHR ''.''" b "''market''" base]
    by (auto simp: starts_with_iff)
  with sw show ?thesis
    by (auto simp: validate_broker_topic_pair_def get_expected_topic_def shared_topics_def
        market_topic_defs)
qed

theorem expected_topic_validates_witness:
  "validate_broker_topic_pair (get_expected_topic ''signals.raw'' ''paper'') ''paper'' \<and>
   \<not> validate_broker_topic_pair (get_expected_topic ''market.forex.ticks'' ''zerodha'') ''zerodha''"
  using expected_topic_validates [of "''signals.raw''" "''paper''"]
    expected_topic_validates [of "''market.forex.ticks''" "''zerodha''"]
  by (simp add: shared_topics_def)

end
