(* ===== verification/Deduplication.thy ===== *)
theory Deduplication
  imports Redis_State Topics "HOL-Library.List_Lexorder" "HOL-Library.Char_ord"
begin

text \<open>
  Event deduplication: DeduplicationManager of core/streaming/reliability/deduplication_manager.py
  with its bounded local cache, and EventDeduplicator and the per-service manager of
  core/streaming/deduplication.py. Redis is the client of the state managers; \<open>pop\<close> is
  \<open>set.pop\<close>, which removes an arbitrary element.
\<close>

subsection \<open>The manager with a local cache\<close>

record dedup =
  dd_service :: string
  dd_ttl :: nat
  dd_cache :: "string set"

definition dedup_init :: "string \<Rightarrow> nat \<Rightarrow> dedup" where
  "dedup_init service ttl = \<lparr>dd_service = service, dd_ttl = ttl, dd_cache = {}\<rparr>"

definition cache_key :: "string \<Rightarrow> string option \<Rightarrow> string" where
  "cache_key event_id broker_context =
     (case broker_context of
        Some b \<Rightarrow> if b = [] then event_id else b @ '':'' @ event_id
      | None \<Rightarrow> event_id)"

definition dedup_key :: "dedup \<Rightarrow> string \<Rightarrow> string" where
  "dedup_key d k = ''dedup:'' @ dd_service d @ '':'' @ k"

fun evict :: "(string set \<Rightarrow> string) \<Rightarrow> nat \<Rightarrow> string set \<Rightarrow> string set" where
  "evict pop 0 c = c"
| "evict pop (Suc n) c = (if c = {} then c else evict pop n (c - {pop c}))"

definition add_to_local_cache :: "(string set \<Rightarrow> string) \<Rightarrow> string \<Rightarrow> dedup \<Rightarrow> dedup" where
  "add_to_local_cache pop k d =
     (let c = (if card (dd_cache d) \<ge> 1000 then evict pop 250 (dd_cache d) else dd_cache d)
      in d\<lparr>dd_cache := insert k c\<rparr>)"

definition is_duplicate ::
  "'r redis \<Rightarrow> (string set \<Rightarrow> string) \<Rightarrow> string \<Rightarrow> string option \<Rightarrow> dedup \<Rightarrow> 'r \<Rightarrow> (exn + bool) \<times> dedup \<times> 'r" where
  "is_duplicate R pop event_id broker_context d s =
     (let k = cache_key event_id broker_context in
      if k \<in> dd_cache d then (Inr True, d, s)
      else case r_exists R (dedup_key d k) s of
          (Inl e, s') \<Rightarrow> (Inl e, d, s')
        | (Inr True, s') \<Rightarrow> (Inr True, add_to_local_cache pop k d, s')
        | (Inr False, s') \<Rightarrow> (Inr False, d, s'))"

definition mark_processed ::
  "'r redis \<Rightarrow> (string set \<Rightarrow> string) \<Rightarrow> string \<Rightarrow> string option \<Rightarrow> dedup \<Rightarrow> 'r \<Rightarrow> (exn + unit) \<times> dedup \<times> 'r" where
  "mark_processed R pop event_id broker_context d s =
     (let k = cache_key event_id broker_context in
      case r_setex R (dedup_key d k) (dd_ttl d) (RStr ''1'') s of
        (Inl e, s') \<Rightarrow> (Inl e, d, s')
      | (Inr _, s') \<Rightarrow> (Inr (), add_to_local_cache pop k d, s'))"

subsection \<open>EventDeduplicator and the per-service manager\<close>

record ded_stats =
  total_checks :: nat
  duplicates_found :: nat
  marked_processed :: nat
  ded_errors :: nat

definition ded_is_duplicate :: "'r redis \<Rightarrow> string \<Rightarrow> ded_stats \<Rightarrow> 'r \<Rightarrow> bool \<times> ded_stats \<times> 'r" where
  "ded_is_duplicate R event_id st s =
     (let st1 = st\<lparr>total_checks := total_checks st + 1\<rparr> in
      case r_exists R (''event_processed:'' @ event_id) s of
        (Inr b, s') \<Rightarrow> (b, (if b then st1\<lparr>duplicates_found := duplicates_found st1 + 1\<rparr> else st1), s')
      | (Inl _, s') \<Rightarrow> (False, st1\<lparr>ded_errors := ded_errors st1 + 1\<rparr>, s'))"

definition ded_mark_processed ::
  "'r redis \<Rightarrow> nat \<Rightarrow> datetime \<Rightarrow> string \<Rightarrow> json \<Rightarrow> ded_stats \<Rightarrow> 'r \<Rightarrow> ded_stats \<times> 'r" where
  "ded_mark_processed R ttl now event_id metadata st s =
     (let st1 = st\<lparr>marked_processed := marked_processed st + 1\<rparr>;
          v = RJson (JObj [(''processed_at'', JStr (isoformat now)), (''metadata'', if py_truthy metadata then metadata else JObj []),
                (''stats'', JObj [(''total_checks'', JInt (int (total_checks st1))),
                   (''duplicates_found'', JInt (int (duplicates_found st1))),
                   (''marked_processed'', JInt (int (marked_processed st1))), (''errors'', JInt (int (ded_errors st1)))])])
      in case r_setex R (''event_processed:'' @ event_id) ttl v s of
           (Inr _, s') \<Rightarrow> (st1, s')
         | (Inl _, s') \<Rightarrow> (st1\<lparr>ded_errors := ded_errors st1 + 1\<rparr>, s'))"

definition service_key :: "string \<Rightarrow> string \<Rightarrow> string" where
  "service_key service_name event_id = service_name @ '':event_processed:'' @ event_id"

text \<open>The overrides that get_deduplicator installs: the check passes an exception of the client on,
  the mark swallows it.\<close>

definition namespaced_is_duplicate :: "'r redis \<Rightarrow> string \<Rightarrow> string \<Rightarrow> (bool, 'r) rm" where
  "namespaced_is_duplicate R service_name event_id = r_exists R (service_key service_name event_id)"

definition namespaced_mark_processed ::
  "'r redis \<Rightarrow> nat \<Rightarrow> datetime \<Rightarrow> string \<Rightarrow> string \<Rightarrow> json \<Rightarrow> 'r \<Rightarrow> 'r" where
  "namespaced_mark_processed R ttl now service_name event_id metadata s =
     snd (r_setex R (service_key service_name event_id) ttl
        (RJson (JObj [(''service'', JStr service_name), (''processed_at'', JStr (isoformat now)), (''metadata'', if py_truthy metadata then metadata else JObj [])])) s)"

subsection \<open>The cache\<close>

definition pop_ok :: "(string set \<Rightarrow> string) \<Rightarrow> bool" where
  "pop_ok pop = (\<forall>c. finite c \<and> c \<noteq> {} \<longrightarrow> pop c \<in> c)"

lemma evict_subset: "evict pop n c \<subseteq> c"
  by (induction pop n c rule: evict.induct) auto

lemma card_evict:
  assumes "pop_ok pop" "finite c"
  shows "card (evict pop n c) = card c - n"
  using assms(2)
proof (induction n arbitrary: c)
  case (Suc n)
  show ?case
  proof (cases "c = {}")
    case False
    then have "pop c \<in> c" using assms(1) Suc.prems by (simp add: pop_ok_def)
    with Suc False show ?thesis by simp
  qed simp
qed simp

text \<open>The cache is finite, holds at most 1000 keys, and only keys that are marked in Redis.\<close>

definition cache_ok :: "('r \<Rightarrow> string \<Rightarrow> rvalue option) \<Rightarrow> dedup \<Rightarrow> 'r \<Rightarrow> bool" where
  "cache_ok view d s = (finite (dd_cache d) \<and> card (dd_cache d) \<le> 1000 \<and>
     (\<forall>k \<in> dd_cache d. view s (dedup_key d k) \<noteq> None))"

lemma add_cache_ok:
  assumes "pop_ok pop" "cache_ok view d s" "view s (dedup_key d k) \<noteq> None"
  shows "cache_ok view (add_to_local_cache pop k d) s"
proof -
  define c where "c = (if card (dd_cache d) \<ge> 1000 then evict pop 250 (dd_cache d) else dd_cache d)"
  have fin: "finite (dd_cache d)" and le: "card (dd_cache d) \<le> 1000" using assms(2) by (simp_all add: cache_ok_def)
  have sub: "c \<subseteq> dd_cache d" using evict_subset by (auto simp: c_def)
  have "card c \<le> 999" using card_evict [OF assms(1) fin, of 250] le by (auto simp: c_def)
  moreover have "finite c" using sub fin by (rule finite_subset)
  ultimately have "card (insert k c) \<le> 1000" by (simp add: card_insert_if)
  moreover have "add_to_local_cache pop k d = d\<lparr>dd_cache := insert k c\<rparr>"
    by (simp add: add_to_local_cache_def c_def)
  ultimately show ?thesis using assms \<open>finite c\<close> sub
    by (auto simp: cache_ok_def dedup_key_def)
qed

lemma cache_ok_view: "cache_ok view d s \<Longrightarrow> view s' = view s \<Longrightarrow> cache_ok view d s'"
  by (simp add: cache_ok_def)

lemma add_cache_service [simp]: "dd_service (add_to_local_cache pop k d) = dd_service d" "dedup_key (add_to_local_cache pop k d) = dedup_key d"
  by (simp_all add: add_to_local_cache_def dedup_key_def fun_eq_iff)

lemma is_duplicate_spec:
  assumes ok: "redis_ok R view" and pop: "pop_ok pop" and inv: "cache_ok view d s"
    and eq: "is_duplicate R pop e b d s = (Inr r, d', s')"
  shows "r = (view s (dedup_key d (cache_key e b)) \<noteq> None) \<and> view s' = view s \<and> cache_ok view d' s' \<and> dedup_key d' = dedup_key d"
proof (cases "cache_key e b \<in> dd_cache d")
  case True
  with eq inv show ?thesis by (auto simp: is_duplicate_def cache_ok_def)
next
  case False
  let ?k = "cache_key e b"
  obtain x s1 where x: "r_exists R (dedup_key d ?k) s = (x, s1)" by fastforce
  with eq False obtain v where v: "x = Inr v" "r = v" "s1 = s'" "d' = (if v then add_to_local_cache pop ?k d else d)"
    by (cases x) (auto simp: is_duplicate_def split: bool.splits)
  from redis_existsD [OF ok, OF x [unfolded v(1)]] v have r: "r = (view s (dedup_key d ?k) \<noteq> None)" and vw: "view s' = view s"
    by auto
  have inv': "cache_ok view d s'" using inv vw by (rule cache_ok_view)
  show ?thesis using r vw inv' v add_cache_ok [OF pop inv', of ?k] by auto
qed

lemma mark_processed_spec:
  assumes ok: "redis_ok R view" and pop: "pop_ok pop" and inv: "cache_ok view d s"
    and eq: "mark_processed R pop e b d s = (Inr u, d', s')"
  shows "view s' = (view s)(dedup_key d (cache_key e b) \<mapsto> RStr ''1'') \<and> cache_ok view d' s' \<and> dedup_key d' = dedup_key d"
proof -
  let ?k = "cache_key e b"
  obtain x s1 where x: "r_setex R (dedup_key d ?k) (dd_ttl d) (RStr ''1'') s = (x, s1)" by fastforce
  with eq have v: "x = Inr ()" "s1 = s'" "d' = add_to_local_cache pop ?k d"
    by (cases x; simp add: mark_processed_def)+
  from redis_setexD [OF ok, OF x [unfolded v(1)]] v have vw: "view s' = (view s)(dedup_key d ?k \<mapsto> RStr ''1'')" by simp
  then have "cache_ok view d s'" using inv by (auto simp: cache_ok_def)
  with add_cache_ok [OF pop this, of ?k] vw v show ?thesis by auto
qed

subsection \<open>Runs\<close>

datatype dedup_op = Mark string string | Check string string

fun run_dedup :: "'r redis \<Rightarrow> (string set \<Rightarrow> string) \<Rightarrow> dedup_op list \<Rightarrow> dedup \<Rightarrow> 'r \<Rightarrow> (exn + unit) \<times> dedup \<times> 'r" where
  "run_dedup R pop [] d s = (Inr (), d, s)"
| "run_dedup R pop (Mark e b # ops) d s =
     (case mark_processed R pop e (Some b) d s of
        (Inl x, d', s') \<Rightarrow> (Inl x, d', s') | (Inr _, d', s') \<Rightarrow> run_dedup R pop ops d' s')"
| "run_dedup R pop (Check e b # ops) d s =
     (case is_duplicate R pop e (Some b) d s of
        (Inl x, d', s') \<Rightarrow> (Inl x, d', s') | (Inr _, d', s') \<Rightarrow> run_dedup R pop ops d' s')"

definition plain_broker :: "string \<Rightarrow> bool" where
  "plain_broker b = (b \<noteq> [] \<and> CHR '':'' \<notin> set b)"

lemma cache_key_inject:
  "plain_broker b \<Longrightarrow> plain_broker b' \<Longrightarrow> cache_key e (Some b) = cache_key e' (Some b') \<longleftrightarrow> e = e' \<and> b = b'"
  by (auto simp: cache_key_def plain_broker_def append_sep_inject)

lemma dedup_key_inject: "dedup_key d k = dedup_key d k' \<longleftrightarrow> k = k'"
  by (simp add: dedup_key_def)

lemma run_dedup_view:
  assumes "redis_ok R view" "pop_ok pop" "cache_ok view d s" "run_dedup R pop ops d s = (Inr (), d', s')"
  shows "cache_ok view d' s' \<and> dedup_key d' = dedup_key d \<and>
     (\<forall>k. view s' (dedup_key d k) \<noteq> None \<longleftrightarrow> view s (dedup_key d k) \<noteq> None \<or> (\<exists>e b. Mark e b \<in> set ops \<and> k = cache_key e (Some b)))"
  using assms(3,4)
proof (induction ops arbitrary: d s)
  case (Cons op ops)
  show ?case
  proof (cases op)
    case (Mark e b)
    from Cons.prems(2) Mark obtain d1 s1 where m: "mark_processed R pop e (Some b) d s = (Inr (), d1, s1)"
      and r: "run_dedup R pop ops d1 s1 = (Inr (), d', s')" by (auto split: sum.splits prod.splits)
    from mark_processed_spec [OF assms(1), OF assms(2), OF Cons.prems(1), OF m]
    have v1: "view s1 = (view s)(dedup_key d (cache_key e (Some b)) \<mapsto> RStr ''1'')" "cache_ok view d1 s1" "dedup_key d1 = dedup_key d"
      by auto
    from Cons.IH [OF v1(2) r] v1 Mark show ?thesis by (auto simp: dedup_key_inject)
  next
    case (Check e b)
    from Cons.prems(2) Check obtain x d1 s1 where m: "is_duplicate R pop e (Some b) d s = (Inr x, d1, s1)"
      and r: "run_dedup R pop ops d1 s1 = (Inr (), d', s')" by (auto split: sum.splits prod.splits)
    from is_duplicate_spec [OF assms(1), OF assms(2), OF Cons.prems(1), OF m]
    have v1: "view s1 = view s" "cache_ok view d1 s1" "dedup_key d1 = dedup_key d" by auto
    from Cons.IH [OF v1(2) r] v1 Check show ?thesis by auto
  qed
qed simp

text \<open>C23: Duplicates are exactly the marked events. Starting from a fresh manager and a store without
  its keys, after any sequence of checks and marks that the Redis client completes, is_duplicate
  answers True exactly for the event and broker pairs that were marked, whatever the bounded
  local cache has evicted, and the cache never holds more than 1000 keys.\<close>

theorem duplicate_iff_marked:
  assumes redis: "redis_ok R view" and pop: "pop_ok pop"
    and fresh: "\<forall>k. view s (dedup_key (dedup_init service ttl) k) = None"
    and run: "run_dedup R pop ops (dedup_init service ttl) s = (Inr (), d', s')"
    and plain: "plain_broker b" "\<forall>e' b'. Mark e' b' \<in> set ops \<longrightarrow> plain_broker b'"
    and check: "is_duplicate R pop e (Some b) d' s' = (Inr r, d'', s'')"
  shows "(r \<longleftrightarrow> Mark e b \<in> set ops) \<and> card (dd_cache d'') \<le> 1000"
proof -
  have init: "cache_ok view (dedup_init service ttl) s" by (simp add: cache_ok_def dedup_init_def)
  from run_dedup_view [OF redis, OF pop, OF init, OF run]
  have v: "cache_ok view d' s'" "dedup_key d' = dedup_key (dedup_init service ttl)"
    "\<And>k. view s' (dedup_key (dedup_init service ttl) k) \<noteq> None \<longleftrightarrow> (\<exists>e b. Mark e b \<in> set ops \<and> k = cache_key e (Some b))"
    using fresh by auto
  from is_duplicate_spec [OF redis, OF pop, OF v(1), OF check]
  have r: "r = (view s' (dedup_key d' (cache_key e (Some b))) \<noteq> None)" and c: "cache_ok view d'' s''" by auto
  have "r \<longleftrightarrow> (\<exists>e' b'. Mark e' b' \<in> set ops \<and> cache_key e (Some b) = cache_key e' (Some b'))"
    unfolding r v(2) by (rule v(3))
  also have "\<dots> \<longleftrightarrow> Mark e b \<in> set ops" using plain by (auto simp: cache_key_inject)
  finally show ?thesis using c by (simp add: cache_ok_def)
qed

definition demo_pop :: "string set \<Rightarrow> string" where
  "demo_pop c = Min c"

lemma demo_pop_ok: "pop_ok demo_pop"
  by (simp add: pop_ok_def demo_pop_def)

theorem duplicate_iff_marked_witness:
  "\<exists>d' s' r d'' s''. run_dedup map_redis demo_pop [Check ''e1'' ''paper'', Mark ''e1'' ''paper''] (dedup_init ''risk'' 3600) [] = (Inr (), d', s') \<and>
     is_duplicate map_redis demo_pop ''e1'' (Some ''paper'') d' s' = (Inr r, d'', s'') \<and> r"
proof -
  obtain d' s' where run: "run_dedup map_redis demo_pop [Check ''e1'' ''paper'', Mark ''e1'' ''paper''] (dedup_init ''risk'' 3600) [] = (Inr (), d', s')"
    by (simp add: is_duplicate_def mark_processed_def map_redis_def dedup_init_def Let_def)
  obtain r d'' s'' where chk: "is_duplicate map_redis demo_pop ''e1'' (Some ''paper'') d' s' = (Inr r, d'', s'')"
  proof -
    have "\<exists>r. fst (is_duplicate map_redis demo_pop ''e1'' (Some ''paper'') d' s') = Inr r"
      by (auto simp: is_duplicate_def map_redis_def Let_def split: bool.splits)
    then show thesis using that by (metis prod.collapse)
  qed
  have "r \<longleftrightarrow> Mark ''e1'' ''paper'' \<in> set [Check ''e1'' ''paper'', Mark ''e1'' ''paper'']"
    using duplicate_iff_marked [OF map_redis_ok demo_pop_ok _ run _ _ chk] by (simp add: plain_broker_def)
  with run chk show ?thesis by auto
qed

subsection \<open>Per-service deduplicators\<close>

text \<open>Services with different names never share a key.\<close>

lemma service_key_inject:
  "CHR '':'' \<notin> set a \<Longrightarrow> CHR '':'' \<notin> set b \<Longrightarrow> service_key a e = service_key b e' \<longleftrightarrow> a = b \<and> e = e'"
  by (auto simp: service_key_def append_sep_inject)

text \<open>A failing client is counted and reported as no duplicate.\<close>

lemma ded_fails_open:
  "r_exists R (''event_processed:'' @ e) s = (Inl x, s') \<Longrightarrow>
     ded_is_duplicate R e st s = (False, st\<lparr>total_checks := total_checks st + 1, ded_errors := ded_errors st + 1\<rparr>, s')"
  by (simp add: ded_is_duplicate_def)

lemma ded_mark_then_check:
  assumes ok: "redis_ok R view" and m: "ded_mark_processed R ttl now e md st s = (st', s')" and noerr: "ded_errors st' = ded_errors st"
    and c: "ded_is_duplicate R e st' s' = (b, st'', s'')" "ded_errors st'' = ded_errors st'"
  shows "b"
proof -
  obtain v where v: "r_setex R (''event_processed:'' @ e) ttl v s = (Inr (), s')"
    using m noerr by (auto simp: ded_mark_processed_def Let_def split: prod.splits sum.splits)
  have view: "view s' = (view s)(''event_processed:'' @ e \<mapsto> v)" by (rule redis_setexD [OF ok, OF v])
  obtain y s2 where y: "r_exists R (''event_processed:'' @ e) s' = (y, s2)" by fastforce
  with c have "y = Inr b" by (cases y) (auto simp: ded_is_duplicate_def Let_def)
  with redis_existsD [OF ok, of "''event_processed:'' @ e" s' b s2] y view show ?thesis by simp
qed

end
