(* ===== verification/Py_Format.thy ===== *)
theory Py_Format
  imports Py_Prelude
begin

text \<open>
  Python's arithmetic on dynamically typed numbers, the rendering of values in f-strings, and
  \<open>str.split\<close> on a substring, as the services use them on JSON payloads.
\<close>

subsection \<open>Arithmetic on dynamic values\<close>

text \<open>The value of an operand of \<open>+\<close>, \<open>-\<close> and the comparisons; \<open>None\<close> where Python raises
  TypeError.\<close>

fun py_int :: "json \<Rightarrow> int option" where
  "py_int (JInt i) = Some i"
| "py_int (JBool b) = Some (of_bool b)"
| "py_int _ = None"

fun py_num :: "json \<Rightarrow> rat option" where
  "py_num (JInt i) = Some (of_int i)"
| "py_num (JBool b) = Some (of_bool b)"
| "py_num (JNum r) = Some r"
| "py_num _ = None"

definition num_op :: "(int \<Rightarrow> int \<Rightarrow> int) \<Rightarrow> (rat \<Rightarrow> rat \<Rightarrow> rat) \<Rightarrow> json \<Rightarrow> json \<Rightarrow> json option" where
  "num_op fi fr a b =
     (case (py_int a, py_int b) of
        (Some i, Some j) \<Rightarrow> Some (JInt (fi i j))
      | _ \<Rightarrow> (case (py_num a, py_num b) of
                (Some x, Some y) \<Rightarrow> Some (JNum (fr x y))
              | _ \<Rightarrow> None))"

definition py_add :: "json \<Rightarrow> json \<Rightarrow> json option" where
  "py_add = num_op (+) (+)"

definition py_sub :: "json \<Rightarrow> json \<Rightarrow> json option" where
  "py_sub = num_op (-) (-)"

fun py_abs :: "json \<Rightarrow> json" where
  "py_abs (JInt i) = JInt \<bar>i\<bar>"
| "py_abs (JNum r) = JNum \<bar>r\<bar>"
| "py_abs v = v"

lemma py_add_ints [simp]: "py_add (JInt i) (JInt j) = Some (JInt (i + j))"
  by (simp add: py_add_def num_op_def)

lemma py_sub_ints [simp]: "py_sub (JInt i) (JInt j) = Some (JInt (i - j))"
  by (simp add: py_sub_def num_op_def)

subsection \<open>Rendering\<close>

text \<open>\<open>round\<close> to the nearest integer, ties to even.\<close>

definition round_half_even :: "rat \<Rightarrow> int" where
  "round_half_even r =
     (let f = \<lfloor>r\<rfloor>; d = r - of_int f in
      if d < 1/2 then f else if d > 1/2 then f + 1 else if even f then f else f + 1)"

definition pad_left :: "nat \<Rightarrow> string \<Rightarrow> string" where
  "pad_left n s = replicate (n - length s) (CHR ''0'') @ s"

text \<open>A number with \<open>k\<close> decimal places.\<close>

definition show_fixed :: "nat \<Rightarrow> rat \<Rightarrow> string" where
  "show_fixed k r =
     (let n = round_half_even (\<bar>r\<bar> * 10 ^ k); q = nat n div 10 ^ k; m = nat n mod 10 ^ k in
      (if r < 0 then ''-'' else []) @ show_nat q @ (if k = 0 then [] else ''.'' @ pad_left k (show_nat m)))"

text \<open>\<open>{x:.2%}\<close>.\<close>

definition show_percent2 :: "rat \<Rightarrow> string" where
  "show_percent2 r = show_fixed 2 (r * 100) @ ''%''"

text \<open>\<open>str\<close> of a float: the fewest decimal places, at least one and at most 17, that render the value
  exactly.\<close>

definition exact_places :: "rat \<Rightarrow> nat \<Rightarrow> bool" where
  "exact_places r k = (of_int \<lfloor>r * 10 ^ k\<rfloor> = r * 10 ^ k)"

definition show_float :: "rat \<Rightarrow> string" where
  "show_float r =
     (case find (exact_places r) [1..<17] of Some k \<Rightarrow> show_fixed k r | None \<Rightarrow> show_fixed 17 r)"

text \<open>\<open>str\<close> of a JSON value; strings inside containers are quoted.\<close>

fun py_repr :: "json \<Rightarrow> string" where
  "py_repr JNull = ''None''"
| "py_repr (JBool b) = (if b then ''True'' else ''False'')"
| "py_repr (JInt i) = show_int i"
| "py_repr (JNum r) = show_float r"
| "py_repr (JStr s) = [CHR 0x27] @ s @ [CHR 0x27]"
| "py_repr (JList xs) = ''['' @ join_str '', '' (map py_repr xs) @ '']''"
| "py_repr (JObj kvs) =
     ''{'' @ join_str '', '' (map (\<lambda>(k, v). [CHR 0x27] @ k @ [CHR 0x27] @ '': '' @ py_repr v) kvs) @ ''}''"

fun py_str :: "json \<Rightarrow> string" where
  "py_str (JStr s) = s"
| "py_str v = py_repr v"

lemma py_str_simps [simp]:
  "py_str (JInt i) = show_int i" "py_str (JStr s) = s" "py_str JNull = ''None''"
  by simp_all

text \<open>Evaluation of renderings of concrete numbers.\<close>

lemma digit_char_evals:
  "char_of (48::nat) = CHR ''0''" "char_of (49::nat) = CHR ''1''" "char_of (50::nat) = CHR ''2''"
  "char_of (51::nat) = CHR ''3''" "char_of (52::nat) = CHR ''4''" "char_of (53::nat) = CHR ''5''"
  "char_of (54::nat) = CHR ''6''" "char_of (55::nat) = CHR ''7''" "char_of (56::nat) = CHR ''8''"
  "char_of (57::nat) = CHR ''9''"
  by code_simp+

lemmas show_evals = show_int_def show_nat.simps digit_char_def digit_char_evals

subsection \<open>Splitting on a substring\<close>

text \<open>The text before and after the first occurrence of \<open>sep\<close>.\<close>

fun break_sub :: "string \<Rightarrow> string \<Rightarrow> (string \<times> string) option" where
  "break_sub sep [] = (if sep = [] then Some ([], []) else None)"
| "break_sub sep (c # cs) =
     (if starts_with sep (c # cs) then Some ([], drop (length sep) (c # cs))
      else map_option (\<lambda>(b, a). (c # b, a)) (break_sub sep cs))"

text \<open>\<open>s.split(sep)[1]\<close>: the part between the first and the second separator; \<open>None\<close> where
  there is no separator and Python raises IndexError.\<close>

definition split_second :: "string \<Rightarrow> string \<Rightarrow> string option" where
  "split_second sep s =
     (case break_sub sep s of
        None \<Rightarrow> None
      | Some (_, rest) \<Rightarrow> Some (case break_sub sep rest of None \<Rightarrow> rest | Some (b, _) \<Rightarrow> b))"

lemma break_sub_append:
  assumes "break_sub sep s = Some (b, a)"
  shows "s = b @ sep @ a"
  using assms
proof (induction s arbitrary: b)
  case (Cons c cs)
  show ?case
  proof (cases "starts_with sep (c # cs)")
    case True
    then obtain t where t: "c # cs = sep @ t" by (auto simp: starts_with_iff)
    from True Cons.prems have "b = []" "a = drop (length sep) (c # cs)" by simp_all
    with t show ?thesis by simp
  next
    case False
    with Cons show ?thesis by (auto split: prod.splits)
  qed
qed (auto split: if_splits)

lemma break_sub_None: "break_sub sep s = None \<longleftrightarrow> \<not> in_str sep s"
  by (induction s) auto

lemma break_sub_first:
  assumes "\<not> in_str sep (p @ butlast sep)" "sep \<noteq> []"
  shows "break_sub sep (p @ sep @ a) = Some (p, a)"
  using assms
proof (induction p)
  case Nil
  then show ?case by (cases sep) (auto simp: starts_with_iff)
next
  case (Cons c p)
  have "\<not> starts_with sep ((c # p) @ sep @ a)"
  proof
    assume "starts_with sep ((c # p) @ sep @ a)"
    then obtain t where t: "(c # p) @ sep @ a = sep @ t" by (auto simp: starts_with_iff)
    have len: "length sep \<le> length (c # p) + length (butlast sep)" using Cons.prems(2) by (cases sep) auto
    have "(c # p) @ sep @ a = ((c # p) @ butlast sep) @ (last sep # a)"
      using Cons.prems(2) by (simp add: append_butlast_last_id [symmetric])
    then have "take (length sep) ((c # p) @ butlast sep) = sep"
      using t len by (metis append_eq_conv_conj take_append length_append diff_is_0_eq take0 append_Nil2)
    then have "starts_with sep ((c # p) @ butlast sep)"
      by (metis append_take_drop_id starts_with_iff)
    then show False using Cons.prems(1) by simp
  qed
  with Cons show ?case by simp
qed

subsection \<open>Blanks\<close>

text \<open>\<open>s.strip()\<close> and the blanks it removes.\<close>

definition blank :: "string \<Rightarrow> bool" where
  "blank s = list_all (\<lambda>c. c \<in> {CHR '' '', CHR 0x09, CHR 0x0A, CHR 0x0B, CHR 0x0C, CHR 0x0D, CHR 0x1C, CHR 0x1D, CHR 0x1E, CHR 0x1F}) s"

definition is_space :: "char \<Rightarrow> bool" where
  "is_space c = blank [c]"

definition strip :: "string \<Rightarrow> string" where
  "strip s = rev (dropWhile is_space (rev (dropWhile is_space s)))"

definition trimmed :: "string \<Rightarrow> bool" where
  "trimmed s = (s \<noteq> [] \<and> \<not> is_space (hd s) \<and> \<not> is_space (last s))"

lemma strip_trimmed: "trimmed s \<Longrightarrow> strip s = s"
proof -
  assume t: "trimmed s"
  then have "dropWhile is_space s = s" by (cases s) (auto simp: trimmed_def)
  moreover have "dropWhile is_space (rev s) = rev s"
    using t by (cases "rev s") (auto simp: trimmed_def hd_rev [symmetric] simp del: hd_rev)
  ultimately show ?thesis by (simp add: strip_def)
qed

lemma show_int_not_Nil [simp]: "show_int i \<noteq> []"
  by (simp add: show_int_def)

lemma show_int_trimmed: "trimmed (show_int i)"
proof -
  have "c \<notin> {CHR '' '', CHR 0x09, CHR 0x0A, CHR 0x0B, CHR 0x0C, CHR 0x0D, CHR 0x1C, CHR 0x1D, CHR 0x1E, CHR 0x1F}" if "c \<in> set (show_int i)" for c
    using that not_digit_show_int [of c i] by (auto simp: digit_val_def)
  then show ?thesis
    using hd_in_set [OF show_int_not_Nil] last_in_set [OF show_int_not_Nil] by (fastforce simp: trimmed_def is_space_def blank_def)
qed

lemma starts_with_length: "starts_with p s \<Longrightarrow> length p \<le> length s"
  by (auto simp: starts_with_iff)

lemma in_str_length: "in_str p s \<Longrightarrow> length p \<le> length s"
  by (induction p s rule: in_str.induct) (auto dest: starts_with_length)

end
