(* ===== verification/Py_Seq.thy ===== *)
theory Py_Seq
  imports Py_Prelude
begin

text \<open>
  Python sequences as the strategies and collectors use them: subscripts and slices with negative
  bounds, deques with a maximal length, and the means and variances of the \<open>statistics\<close> module on
  exact numbers.
\<close>

subsection \<open>Subscripts and slices\<close>

text \<open>\<open>xs[i]\<close>; \<open>None\<close> is IndexError.\<close>

definition py_index :: "'a list \<Rightarrow> int \<Rightarrow> 'a option" where
  "py_index xs i =
     (let j = (if i < 0 then i + int (length xs) else i) in
      if 0 \<le> j \<and> j < int (length xs) then Some (xs ! nat j) else None)"

text \<open>\<open>xs[i:]\<close>.\<close>

definition py_from :: "int \<Rightarrow> 'a list \<Rightarrow> 'a list" where
  "py_from i xs = drop (nat (if i < 0 then i + int (length xs) else i)) xs"

text \<open>\<open>append\<close> on a deque with a maximal length.\<close>

definition push :: "nat \<Rightarrow> 'a \<Rightarrow> 'a list \<Rightarrow> 'a list" where
  "push n x xs = (let ys = xs @ [x] in drop (length ys - n) ys)"

definition last_n :: "nat \<Rightarrow> 'a list \<Rightarrow> 'a list" where
  "last_n n xs = drop (length xs - n) xs"

lemma length_push: "length (push n x xs) \<le> n"
  by (simp add: push_def Let_def)

lemma length_last_n [simp]: "length (last_n n xs) = min n (length xs)"
  by (simp add: last_n_def)

lemma push_last_n: "push n x (last_n n xs) = last_n n (xs @ [x])"
proof (cases "length xs \<le> n")
  case False
  then have l: "length (last_n n xs) = n" by simp
  have "last_n n (xs @ [x]) = drop 1 (drop (length xs - n) (xs @ [x]))"
    using False by (simp add: last_n_def add.commute Suc_diff_le)
  also have "\<dots> = push n x (last_n n xs)" using l False by (simp add: push_def last_n_def)
  finally show ?thesis by simp
qed (simp add: push_def last_n_def)

lemma py_from_neg: "0 < k \<Longrightarrow> py_from (- int k) xs = last_n k xs"
  by (simp add: py_from_def last_n_def nat_diff_distrib' minus_diff_eq flip: of_nat_diff)

lemma last_n_all: "length xs \<le> n \<Longrightarrow> last_n n xs = xs"
  by (simp add: last_n_def)

lemma last_n_snoc: "last_n (Suc n) (xs @ [x]) = last_n n xs @ [x]"
  by (simp add: last_n_def)

lemma last_n_last_n: "last_n k (last_n n xs) = last_n (min k n) xs"
proof -
  have "k \<le> n \<Longrightarrow> length xs - (length xs - n + k) + (length xs - n) = length xs - k" by simp
  then show ?thesis by (simp add: last_n_def min_def)
qed

lemma map_last_n: "map f (last_n n xs) = last_n n (map f xs)"
  by (simp add: last_n_def drop_map)

lemma py_index_neg:
  assumes "0 < k" "k \<le> length xs"
  shows "py_index xs (- int k) = Some (xs ! (length xs - k))"
  using assms by (auto simp: py_index_def Let_def nat_diff_distrib' minus_diff_eq)

subsection \<open>Means\<close>

definition avg :: "rat list \<Rightarrow> rat" where
  "avg xs = sum_list xs / of_nat (length xs)"

text \<open>The sample variance, whose root is \<open>statistics.stdev\<close>.\<close>

definition sample_var :: "rat list \<Rightarrow> rat" where
  "sample_var xs = sum_list (map (\<lambda>x. (x - avg xs)\<^sup>2) xs) / of_nat (length xs - 1)"

fun max_list :: "rat list \<Rightarrow> rat option" where
  "max_list [] = None"
| "max_list (x # xs) = Some (fold max xs x)"

lemma sum_list_ge0: "(\<And>x. x \<in> set xs \<Longrightarrow> 0 \<le> f x) \<Longrightarrow> (0::rat) \<le> sum_list (map f xs)"
  by (induction xs) auto

lemma avg_ge0: "(\<And>x. x \<in> set xs \<Longrightarrow> 0 \<le> x) \<Longrightarrow> 0 \<le> avg xs"
  using sum_list_ge0 [of xs "\<lambda>x. x"] by (simp add: avg_def)

lemma avg_gt0:
  assumes "xs \<noteq> []" "\<And>x. x \<in> set xs \<Longrightarrow> 0 < x"
  shows "0 < avg xs"
proof -
  have "0 < sum_list xs" using assms
  proof (induction xs)
    case (Cons x xs)
    then show ?case by (cases xs) (auto intro: add_pos_pos)
  qed simp
  with assms(1) show ?thesis by (simp add: avg_def)
qed

lemma sample_var_ge0: "0 \<le> sample_var xs"
  unfolding sample_var_def by (intro divide_nonneg_nonneg sum_list_ge0) simp_all

lemma sum_list_avg: "sum_list xs = avg xs * of_nat (length xs)"
  by (cases "xs = []") (simp_all add: avg_def)

lemma avg_snoc: "avg (xs @ [x]) = (avg xs * of_nat (length xs) + x) / of_nat (Suc (length xs))"
  using sum_list_avg [of xs] by (simp add: avg_def)

subsection \<open>Batches\<close>

text \<open>\<open>[xs[i:i + b] for i in range(0, len(xs), b)]\<close>.\<close>

function chunks :: "nat \<Rightarrow> 'a list \<Rightarrow> 'a list list" where
  "chunks b xs = (if b = 0 \<or> xs = [] then [] else take b xs # chunks b (drop b xs))"
  by pat_completeness auto
termination
  by (relation "measure (length \<circ> snd)") auto

declare chunks.simps [simp del]

lemma chunks_concat: "0 < b \<Longrightarrow> concat (chunks b xs) = xs \<and> (\<forall>c \<in> set (chunks b xs). c \<noteq> [] \<and> length c \<le> b)"
proof (induction b xs rule: chunks.induct)
  case (1 b xs)
  then show ?case by (subst (1 2) chunks.simps) auto
qed

end
