(* ===== verification/Reliability.thy ===== *)
theory Reliability
  imports Error_Handling Py_Format Py_Seq
begin

text \<open>
  The reliability layer around every message handler: MetricsCollector
  (core/streaming/reliability/metrics_collector.py), ReliabilityLayer.process_message
  (reliability_layer.py), MessageConsumer.commit (infrastructure/message_consumer.py), the error handler that
  wraps the one of error_handling.py, and the
  consumption loop of ServiceOrchestrator. The deduplicator, the business handler, the commit of the
  Kafka client and the DLQ producer act on a world of type \<open>'w\<close> and may raise.
\<close>

subsection \<open>MetricsCollector\<close>

record metrics =
  mc_success :: nat
  mc_failure :: nat
  mc_total :: nat
  mc_durations :: "rat list"
  mc_total_time :: rat
  mc_errors :: "string \<Rightarrow> nat"
  mc_timestamps :: "rat list"
  mc_health :: string

definition window_size :: nat where "window_size = 100"

definition metrics_init :: metrics where
  "metrics_init = \<lparr>mc_success = 0, mc_failure = 0, mc_total = 0, mc_durations = [], mc_total_time = 0,
     mc_errors = (\<lambda>_. 0), mc_timestamps = [], mc_health = ''healthy''\<rparr>"

definition update_health_status :: "metrics \<Rightarrow> metrics" where
  "update_health_status m =
     (if mc_total m = 0 then m\<lparr>mc_health := ''starting''\<rparr>
      else let recent_window = min 50 (mc_total m);
               recent_failures = min (mc_failure m) recent_window;
               rate = (of_nat recent_failures / of_nat recent_window :: rat)
           in m\<lparr>mc_health := (if rate > 1/2 then ''critical'' else if rate > 1/10 then ''degraded''
                               else if rate > 5/100 then ''warning'' else ''healthy'')\<rparr>)"

definition mc_record_success :: "rat \<Rightarrow> rat \<Rightarrow> metrics \<Rightarrow> metrics" where
  "mc_record_success duration now m =
     update_health_status (m\<lparr>mc_success := mc_success m + 1, mc_total := mc_total m + 1,
       mc_total_time := mc_total_time m + duration, mc_durations := push window_size duration (mc_durations m),
       mc_timestamps := push window_size now (mc_timestamps m)\<rparr>)"

definition mc_record_failure :: "string \<Rightarrow> string option \<Rightarrow> rat \<Rightarrow> metrics \<Rightarrow> metrics" where
  "mc_record_failure error_type broker_context now m =
     (let k = (case broker_context of Some b \<Rightarrow> if b = [] then error_type else b @ '':'' @ error_type | None \<Rightarrow> error_type) in
      update_health_status (m\<lparr>mc_failure := mc_failure m + 1, mc_total := mc_total m + 1,
        mc_errors := (mc_errors m)(k := mc_errors m k + 1),
        mc_timestamps := push window_size now (mc_timestamps m)\<rparr>))"

definition get_health_status :: "metrics \<Rightarrow> string" where
  "get_health_status m = mc_health (update_health_status m)"

definition percentile :: "rat list \<Rightarrow> nat \<Rightarrow> rat" where
  "percentile sorted_values p =
     (let n = length sorted_values; i = p * n div 100 in sorted_values ! (if i \<ge> n then n - 1 else i))"

definition calculate_percentiles :: "rat list \<Rightarrow> (string \<times> rat) list" where
  "calculate_percentiles values =
     (if values = [] then []
      else let vs = sort values in
        [(''p50'', percentile vs 50), (''p90'', percentile vs 90), (''p95'', percentile vs 95), (''p99'', percentile vs 99)])"

definition calculate_throughput :: "rat \<Rightarrow> metrics \<Rightarrow> rat" where
  "calculate_throughput now m =
     (if length (mc_timestamps m) < 2 then 0
      else let recent = filter (\<lambda>ts. now - ts \<le> 60) (mc_timestamps m) in
        if length recent < 2 then 0
        else let time_span = last recent - hd recent in
          if time_span > 0 then of_nat (length recent) / time_span else 0)"

definition success_rate :: "metrics \<Rightarrow> rat" where
  "success_rate m = (if mc_total m > 0 then of_nat (mc_success m) / of_nat (mc_total m) * 100 else 0)"

definition average_processing_time :: "metrics \<Rightarrow> rat" where
  "average_processing_time m = (if mc_success m > 0 then mc_total_time m / of_nat (mc_success m) else 0)"

definition reset_metrics :: "metrics \<Rightarrow> metrics" where
  "reset_metrics m = metrics_init"

subsection \<open>ReliabilityLayer\<close>

record 'w layer =
  ly_is_duplicate :: "(string \<Rightarrow> string \<Rightarrow> 'w \<Rightarrow> (exn + bool) \<times> 'w) option"
  ly_mark_processed :: "string \<Rightarrow> string \<Rightarrow> 'w \<Rightarrow> 'w \<times> exn option"
  ly_handler :: "(string \<times> json) list \<Rightarrow> string \<Rightarrow> 'w \<Rightarrow> 'w \<times> exn option"
  ly_commit :: "string \<Rightarrow> int \<Rightarrow> int \<Rightarrow> 'w \<Rightarrow> 'w \<times> exn option"
  ly_error_handler :: "(string \<times> (dlq_event \<Rightarrow> 'w \<Rightarrow> 'w \<times> exn option) \<times> rat) option"
  ly_on_dlq :: bool

text \<open>MessageConsumer.commit: the offset after the message's, for its partition.\<close>

definition consumer_commit :: "'w layer \<Rightarrow> message \<Rightarrow> 'w \<Rightarrow> 'w \<times> exn option" where
  "consumer_commit L m = ly_commit L (m_topic m) (m_partition m) (m_offset m + 1)"

definition layer_broker :: "string \<Rightarrow> string" where
  "layer_broker topic = (if CHR ''.'' \<in> set topic then hd (split_on (CHR ''.'') topic) else ''unknown'')"

definition event_id_of :: "message \<Rightarrow> string option" where
  "event_id_of m = (let v = jget_none (m_value m) ''id'' in if py_truthy v then Some (py_str v) else None)"

text \<open>The body of the try block: handler, commit, mark.\<close>

definition process_and_commit :: "'w layer \<Rightarrow> message \<Rightarrow> 'w \<Rightarrow> 'w \<times> exn option" where
  "process_and_commit L m w =
     (case ly_handler L (m_value m) (m_topic m) w of
        (w1, Some e) \<Rightarrow> (w1, Some e)
      | (w1, None) \<Rightarrow>
     (case consumer_commit L m w1 of
        (w2, Some e) \<Rightarrow> (w2, Some e)
      | (w2, None) \<Rightarrow>
     (case (ly_is_duplicate L, event_id_of m) of
        (Some _, Some i) \<Rightarrow> ly_mark_processed L i (layer_broker (m_topic m)) w2
      | _ \<Rightarrow> (w2, None))))"

text \<open>The outside calls of the error handler, on the world and the collector. \<open>ly_on_dlq\<close> says that the
  builder attached its callback (StreamServiceBuilder.with_metrics), which records a failure
  for each message stored in the DLQ.\<close>

definition on_world :: "('w \<Rightarrow> 'w \<times> exn option) \<Rightarrow> 'w \<times> metrics \<Rightarrow> ('w \<times> metrics) \<times> exn option" where
  "on_world f wm = (case f (fst wm) of (w', r) \<Rightarrow> ((w', snd wm), r))"

definition on_dlq :: "rat \<Rightarrow> dlq_event \<Rightarrow> 'w \<times> metrics \<Rightarrow> 'w \<times> metrics" where
  "on_dlq now ev wm = (fst wm, mc_record_failure ''dlq'' (Some (layer_broker (d_topic ev))) now (snd wm))"

definition layer_io ::
  "'w layer \<Rightarrow> rat \<Rightarrow> message \<Rightarrow> string \<times> (dlq_event \<Rightarrow> 'w \<Rightarrow> 'w \<times> exn option) \<times> rat \<Rightarrow> ('w \<times> metrics) io" where
  "layer_io L now m h =
     \<lparr>io_service = fst h, io_send = (\<lambda>ev. on_world (fst (snd h) ev)),
      io_on_dlq = (if ly_on_dlq L then Some (on_dlq now) else None),
      io_process = on_world (ly_handler L (m_value m) (m_topic m)),
      io_commit = Some (on_world (consumer_commit L m)), io_random = snd (snd h)\<rparr>"

text \<open>ErrorHandler.handle_processing_error_async of reliability/error_handler.py: the message dictionary is
  wrapped as an object, the broker context is dropped, and the base handler does the work.\<close>

definition handle_processing_error_async :: "'w io \<Rightarrow> message \<Rightarrow> exn \<Rightarrow> eh \<Rightarrow> 'w \<Rightarrow> (exn + bool) \<times> eh \<times> 'w" where
  [simp]: "handle_processing_error_async io m e st w = handle_processing_error io m e st w"

text \<open>The except block; \<open>now\<close> is the clock of the metrics.\<close>

definition on_processing_error ::
  "'w layer \<Rightarrow> message \<Rightarrow> exn \<Rightarrow> rat \<Rightarrow> eh \<Rightarrow> metrics \<Rightarrow> 'w \<Rightarrow> exn option \<times> eh \<times> metrics \<times> 'w" where
  "on_processing_error L m e now st mc w =
     (let fail = mc_record_failure (exn_msg e) (Some (layer_broker (m_topic m))) now in
      case ly_error_handler L of
        Some h \<Rightarrow>
          (case handle_processing_error_async (layer_io L now m h) m e st (w, mc) of
             (Inl x, st', w', mc') \<Rightarrow> (Some x, st', mc', w')
           | (Inr _, st', w', mc') \<Rightarrow> (None, st', fail mc', w'))
      | None \<Rightarrow>
          (case consumer_commit L m w of
             (w', Some x) \<Rightarrow> (Some x, st, mc, w')
           | (w', None) \<Rightarrow> (None, st, fail mc, w')))"

definition check_duplicate :: "'w layer \<Rightarrow> message \<Rightarrow> 'w \<Rightarrow> (exn + bool) \<times> 'w" where
  "check_duplicate L m w =
     (case (ly_is_duplicate L, event_id_of m) of
        (Some f, Some i) \<Rightarrow> f i (layer_broker (m_topic m)) w
      | _ \<Rightarrow> (Inr False, w))"

definition process_message ::
  "'w layer \<Rightarrow> rat \<Rightarrow> rat \<Rightarrow> message \<Rightarrow> eh \<Rightarrow> metrics \<Rightarrow> 'w \<Rightarrow> exn option \<times> eh \<times> metrics \<times> 'w" where
  "process_message L duration now m st mc w =
     (case check_duplicate L m w of
        (Inl e, w1) \<Rightarrow> (Some e, st, mc, w1)
      | (Inr True, w1) \<Rightarrow> (case consumer_commit L m w1 of (w2, r) \<Rightarrow> (r, st, mc, w2))
      | (Inr False, w1) \<Rightarrow>
          (case process_and_commit L m w1 of
             (w2, None) \<Rightarrow> (None, st, mc_record_success duration now mc, w2)
           | (w2, Some e) \<Rightarrow> on_processing_error L m e now st mc w2))"

text \<open>The consumption loop: an exception that leaves process_message ends it.\<close>

fun consumption_loop ::
  "'w layer \<Rightarrow> rat \<Rightarrow> rat \<Rightarrow> message list \<Rightarrow> eh \<Rightarrow> metrics \<Rightarrow> 'w \<Rightarrow> exn option \<times> eh \<times> metrics \<times> 'w" where
  "consumption_loop L d now [] st mc w = (None, st, mc, w)"
| "consumption_loop L d now (m # ms) st mc w =
     (case process_message L d now m st mc w of
        (Some e, st', mc', w') \<Rightarrow> (Some e, st', mc', w')
      | (None, st', mc', w') \<Rightarrow> consumption_loop L d now ms st' mc' w')"

subsection \<open>Metrics\<close>

definition metrics_ok :: "metrics \<Rightarrow> bool" where
  "metrics_ok m = (mc_total m = mc_success m + mc_failure m \<and> length (mc_durations m) \<le> 100 \<and> length (mc_timestamps m) \<le> 100)"

lemma update_health_fields [simp]:
  "mc_success (update_health_status m) = mc_success m" "mc_failure (update_health_status m) = mc_failure m"
  "mc_total (update_health_status m) = mc_total m" "mc_durations (update_health_status m) = mc_durations m"
  "mc_timestamps (update_health_status m) = mc_timestamps m"
  by (simp_all add: update_health_status_def Let_def)

datatype metric_event = MSuccess rat rat | MFailure string "string option" rat

fun metrics_step :: "metrics \<Rightarrow> metric_event \<Rightarrow> metrics" where
  "metrics_step m (MSuccess d now) = mc_record_success d now m"
| "metrics_step m (MFailure e b now) = mc_record_failure e b now m"

lemma length_window: "length (push window_size x xs) \<le> 100"
  using length_push [of window_size] by (simp add: window_size_def)

interpretation metrics: step_machine metrics_step metrics_ok
proof
  fix m :: metrics and e :: metric_event
  assume "metrics_ok m"
  then show "metrics_ok (metrics_step m e)"
    by (cases e) (simp_all add: metrics_ok_def mc_record_success_def mc_record_failure_def Let_def length_window)
qed

lemma health_critical:
  assumes "26 \<le> mc_failure m" "0 < mc_total m"
  shows "mc_health (update_health_status m) = ''critical''"
proof -
  let ?w = "min 50 (mc_total m)" and ?f = "min (mc_failure m) (min 50 (mc_total m))"
  have "?w < 2 * ?f" using assms by (auto simp: min_def)
  then have "(of_nat ?w :: rat) < of_nat (2 * ?f)" by (simp only: of_nat_less_iff)
  moreover have "0 < (of_nat ?w :: rat)" using assms by simp
  ultimately have "1/2 < (of_nat ?f / of_nat ?w :: rat)" by (simp add: field_simps del: of_nat_min)
  then show ?thesis using assms by (simp add: update_health_status_def Let_def)
qed

lemma failures_mono: "mc_failure m \<le> mc_failure (foldl metrics_step m es)"
proof (induction es arbitrary: m)
  case (Cons e es)
  have "mc_failure m \<le> mc_failure (metrics_step m e)"
    by (cases e) (simp_all add: mc_record_success_def mc_record_failure_def Let_def)
  with Cons [of "metrics_step m e"] show ?case by simp
qed simp

text \<open>Metrics: a service with 26 failures never recovers. The health status takes all failures since
  the start for failures of the last 50 messages. So after 26 failures it is critical after every
  later message, however many messages succeed from then on, while the totals still add up.\<close>

theorem health_never_recovers:
  assumes "26 \<le> mc_failure (foldl metrics_step metrics_init es)"
  shows "mc_health (foldl metrics_step metrics_init (es @ es' @ [MSuccess d now])) = ''critical'' \<and>
     metrics_ok (foldl metrics_step metrics_init (es @ es' @ [MSuccess d now]))"
proof -
  define m where "m = foldl metrics_step metrics_init (es @ es')"
  have "26 \<le> mc_failure m" using assms failures_mono [of "foldl metrics_step metrics_init es" es'] by (simp add: m_def)
  then have "mc_health (metrics_step m (MSuccess d now)) = ''critical''"
    unfolding metrics_step.simps mc_record_success_def by (intro health_critical) simp_all
  moreover have "metrics_ok metrics_init" by (simp add: metrics_ok_def metrics_init_def)
  ultimately show ?thesis using metrics.run_inv [of metrics_init "es @ es' @ [MSuccess d now]"] by (simp add: m_def)
qed

theorem health_never_recovers_witness:
  "mc_health (foldl metrics_step metrics_init (replicate 26 (MFailure ''x'' None 0) @ replicate 1000 (MSuccess 1 0) @ [MSuccess 1 0])) = ''critical''"
proof -
  have "mc_failure (foldl metrics_step m (replicate n (MFailure ''x'' None 0))) = mc_failure m + n" for m n
    by (induction n arbitrary: m) (simp_all add: mc_record_failure_def Let_def)
  from this [of metrics_init 26] have "26 \<le> mc_failure (foldl metrics_step metrics_init (replicate 26 (MFailure ''x'' None 0)))"
    by (simp only:) 
  from health_never_recovers [OF this] show ?thesis by blast
qed

subsection \<open>An observed layer\<close>

text \<open>The outside calls are recorded in order; their outcomes are arbitrary functions of the
  history.\<close>

datatype layer_event =
    LChecked string string "exn + bool"
  | LHandled "(string \<times> json) list" string "exn option"
  | LCommitted string int int "exn option"
  | LMarked string string "exn option"
  | LDlq dlq_event "exn option"

record outcomes =
  oc_dup :: "layer_event list \<Rightarrow> exn + bool"
  oc_handler :: "layer_event list \<Rightarrow> exn option"
  oc_commit :: "layer_event list \<Rightarrow> exn option"
  oc_mark :: "layer_event list \<Rightarrow> exn option"
  oc_dlq :: "layer_event list \<Rightarrow> exn option"

definition trace_layer :: "string \<Rightarrow> outcomes \<Rightarrow> layer_event list layer" where
  "trace_layer service O' =
     \<lparr>ly_is_duplicate = Some (\<lambda>i b h. (oc_dup O' h, h @ [LChecked i b (oc_dup O' h)])),
      ly_mark_processed = (\<lambda>i b h. (h @ [LMarked i b (oc_mark O' h)], oc_mark O' h)),
      ly_handler = (\<lambda>v t h. (h @ [LHandled v t (oc_handler O' h)], oc_handler O' h)),
      ly_commit = (\<lambda>t p n h. (h @ [LCommitted t p n (oc_commit O' h)], oc_commit O' h)),
      ly_error_handler = Some (service, (\<lambda>ev h. (h @ [LDlq ev (oc_dlq O' h)], oc_dlq O' h)), 0), ly_on_dlq = True\<rparr>"

text \<open>A message is settled when it was handled, recognised as a duplicate, or stored in the DLQ.\<close>

definition settles :: "message \<Rightarrow> layer_event \<Rightarrow> bool" where
  "settles m ev = (ev = LHandled (m_value m) (m_topic m) None \<or>
     (\<exists>i b. ev = LChecked i b (Inr True) \<and> event_id_of m = Some i) \<or>
     (\<exists>d. ev = LDlq d None \<and> d_original_topic d = m_topic m \<and> d_partition d = m_partition m \<and>
        d_offset d = m_offset m \<and> d_value d = m_value m))"

fun justified :: "message \<Rightarrow> bool \<Rightarrow> layer_event list \<Rightarrow> bool" where
  "justified m seen [] = True"
| "justified m seen (LCommitted t p n r # evs) = (seen \<and> t = m_topic m \<and> p = m_partition m \<and> n = m_offset m + 1 \<and> justified m seen evs)"
| "justified m seen (ev # evs) = justified m (seen \<or> settles m ev) evs"

lemma justified_append: "justified m seen (xs @ ys) \<longleftrightarrow> justified m seen xs \<and> justified m (seen \<or> (\<exists>x \<in> set xs. settles m x)) ys"
proof (induction m seen xs rule: justified.induct)
  case (2 m seen t p n r evs)
  then show ?case by (auto simp: settles_def)
qed (auto simp: disj_assoc)

lemma justified_mono: "justified m seen xs \<Longrightarrow> justified m True xs"
  by (induction m seen xs rule: justified.induct) auto

lemma error_handler_justified:
  assumes "handle_processing_error (layer_io (trace_layer sv O') now m h0) m e st (h, mc) = (r, st', h', mc')"
    "ly_error_handler (trace_layer sv O') = Some h0"
  shows "\<exists>evs. h' = h @ evs \<and> justified m seen evs"
  using assms
  by (auto simp: handle_processing_error_def send_to_dlq_and_commit_def send_to_dlq_def retry_processing_def run_commit_def
      layer_io_def on_world_def on_dlq_def trace_layer_def consumer_commit_def mk_dlq_event_def settles_def Let_def
      split: if_splits option.splits prod.splits)

lemma process_and_commit_justified:
  "\<exists>evs. fst (process_and_commit (trace_layer sv O') m h) = h @ evs \<and> justified m seen evs"
  by (auto simp: process_and_commit_def trace_layer_def consumer_commit_def settles_def split: option.splits)

text \<open>C26: Offsets are committed only for settled messages. Whatever the deduplicator, the handler, the
  commit, the mark and the DLQ producer return or raise, process_message commits only the offset
  after the message's own, and only after the message was handled successfully, was recognised
  as a duplicate, or was stored in the dead letter queue.\<close>

theorem layer_commits_only_settled:
  "\<exists>evs. snd (snd (snd (process_message (trace_layer sv O') dur now m st mc h))) = h @ evs \<and> justified m False evs"
proof -
  let ?L = "trace_layer sv O'"
  obtain c w1 where c: "check_duplicate ?L m h = (c, w1)" by fastforce
  have w1: "\<exists>e1. w1 = h @ e1 \<and> justified m False e1 \<and> (c = Inr True \<longrightarrow> (\<exists>x \<in> set e1. settles m x))"
    using c by (auto simp: check_duplicate_def trace_layer_def settles_def split: option.splits)
  then obtain e1 where e1: "w1 = h @ e1" "justified m False e1" "c = Inr True \<longrightarrow> (\<exists>x \<in> set e1. settles m x)" by blast
  consider (err) x where "c = Inl x" | (dup) "c = Inr True" | (new) "c = Inr False" by (metis (full_types) sum.exhaust)
  then show ?thesis
  proof cases
    case err
    with c e1 show ?thesis by (auto simp: process_message_def)
  next
    case dup
    obtain w2 r where w2: "consumer_commit ?L m w1 = (w2, r)" by fastforce
    then have "w2 = w1 @ [LCommitted (m_topic m) (m_partition m) (m_offset m + 1) (oc_commit O' w1)]"
      by (auto simp: consumer_commit_def trace_layer_def)
    then show ?thesis using c e1 dup w2 by (auto simp: process_message_def justified_append)
  next
    case new
    obtain w2 r where w2: "process_and_commit ?L m w1 = (w2, r)" by fastforce
    obtain e2 where e2: "w2 = w1 @ e2" "justified m (\<exists>x \<in> set e1. settles m x) e2"
      using process_and_commit_justified [of sv O' m w1 "\<exists>x \<in> set e1. settles m x"] w2 by auto
    show ?thesis
    proof (cases r)
      case None
      then show ?thesis using c e1 e2 new w2 by (auto simp: process_message_def justified_append)
    next
      case (Some e)
      obtain h0 where h0: "ly_error_handler ?L = Some h0" by (simp add: trace_layer_def)
      obtain r3 st3 w3 mc3 where w3: "handle_processing_error (layer_io ?L now m h0) m e st (w2, mc) = (r3, st3, w3, mc3)"
        by (metis prod_cases4)
      obtain e3 where e3: "w3 = w2 @ e3" "justified m (\<exists>x \<in> set (e1 @ e2). settles m x) e3"
        using error_handler_justified [OF w3 h0, of "\<exists>x \<in> set (e1 @ e2). settles m x"] by blast
      have "snd (snd (snd (process_message ?L dur now m st mc h))) = h @ (e1 @ e2 @ e3)"
        using c new w2 Some h0 w3 e1(1) e2(1) e3(1)
        by (cases r3) (simp_all add: process_message_def on_processing_error_def Let_def)
      moreover have "justified m False (e1 @ e2 @ e3)"
        using e1(2) e2(2) e3(2) by (simp add: justified_append bex_Un disj_assoc)
      ultimately show ?thesis by blast
    qed
  qed
qed

subsection \<open>What a failing attempt leads to\<close>

definition is_handled :: "layer_event \<Rightarrow> bool" where
  "is_handled ev = (case ev of LHandled _ _ _ \<Rightarrow> True | _ \<Rightarrow> False)"

text \<open>A world in which the first two calls of the handler raise \<open>e\<close> and everything else works, and one
  in which only the mark in Redis raises.\<close>

definition flaky_handler :: "exn \<Rightarrow> outcomes" where
  "flaky_handler e = \<lparr>oc_dup = (\<lambda>_. Inr False),
     oc_handler = (\<lambda>h. if length (filter is_handled h) < 2 then Some e else None),
     oc_commit = (\<lambda>_. None), oc_mark = (\<lambda>_. None), oc_dlq = (\<lambda>_. None)\<rparr>"

definition failing_mark :: "exn \<Rightarrow> outcomes" where
  "failing_mark e = \<lparr>oc_dup = (\<lambda>_. Inr False), oc_handler = (\<lambda>_. None),
     oc_commit = (\<lambda>_. None), oc_mark = (\<lambda>_. Some e), oc_dlq = (\<lambda>_. None)\<rparr>"

lemma retry_trace_layer:
  assumes "\<not> dead_letters e (tries_so_far st m)" "ly_error_handler (trace_layer sv O') = Some h0"
  shows "\<exists>st'. handle_processing_error (layer_io (trace_layer sv O') now m h0) m e st (h, mc) =
     (Inr (oc_handler O' h = None \<and> oc_commit O' (h @ [LHandled (m_value m) (m_topic m) (oc_handler O' h)]) = None), st',
      h @ [LHandled (m_value m) (m_topic m) (oc_handler O' h)] @
        (if oc_handler O' h = None then
           [LCommitted (m_topic m) (m_partition m) (m_offset m + 1) (oc_commit O' (h @ [LHandled (m_value m) (m_topic m) (oc_handler O' h)]))]
         else []), mc)"
  using assms
  by (auto simp: handle_retries retry_processing_def run_commit_def layer_io_def on_world_def trace_layer_def consumer_commit_def Let_def
      split: option.splits)

text \<open>A message whose retry fails is passed over. When the handler raises a retryable error for a
  message and raises again in the retry, the loop goes on to the next message without sending
  the first to the dead letter queue; once the next one succeeds, its offset is committed, past
  the message that was never handled.\<close>

theorem failed_retry_is_skipped:
  assumes e: "\<not> dead_letters e 0" and ids: "event_id_of m1 = Some i1" "event_id_of m2 = Some i2"
  shows "\<exists>st' mc'. consumption_loop (trace_layer sv (flaky_handler e)) dur now [m1, m2] eh_init mc [] = (None, st', mc',
     [LChecked i1 (layer_broker (m_topic m1)) (Inr False),
      LHandled (m_value m1) (m_topic m1) (Some e), LHandled (m_value m1) (m_topic m1) (Some e),
      LChecked i2 (layer_broker (m_topic m2)) (Inr False),
      LHandled (m_value m2) (m_topic m2) None, LCommitted (m_topic m2) (m_partition m2) (m_offset m2 + 1) None,
      LMarked i2 (layer_broker (m_topic m2)) None])"
proof -
  let ?L = "trace_layer sv (flaky_handler e)"
  let ?h1 = "[LChecked i1 (layer_broker (m_topic m1)) (Inr False), LHandled (m_value m1) (m_topic m1) (Some e)]"
  obtain h0 where h0: "ly_error_handler ?L = Some h0" by (simp add: trace_layer_def)
  have nd: "\<not> dead_letters e (tries_so_far eh_init m1)" using e by (simp add: tries_so_far_def eh_init_def)
  have oh: "oc_handler (flaky_handler e) ?h1 = Some e" by (simp add: flaky_handler_def is_handled_def)
  from retry_trace_layer [OF nd h0, of now ?h1 mc] oh obtain st1 where
    r: "handle_processing_error (layer_io ?L now m1 h0) m1 e eh_init (?h1, mc) =
       (Inr False, st1, ?h1 @ [LHandled (m_value m1) (m_topic m1) (Some e)], mc)" by auto
  have c1: "check_duplicate ?L m1 [] = (Inr False, [LChecked i1 (layer_broker (m_topic m1)) (Inr False)])"
    by (simp add: check_duplicate_def trace_layer_def flaky_handler_def ids)
  have p1: "process_and_commit ?L m1 [LChecked i1 (layer_broker (m_topic m1)) (Inr False)] = (?h1, Some e)"
    by (simp add: process_and_commit_def trace_layer_def flaky_handler_def is_handled_def)
  obtain mc1 where m1: "process_message ?L dur now m1 eh_init mc [] =
      (None, st1, mc1, ?h1 @ [LHandled (m_value m1) (m_topic m1) (Some e)])"
    using c1 p1 r h0 by (simp add: process_message_def on_processing_error_def Let_def)
  let ?h3 = "?h1 @ [LHandled (m_value m1) (m_topic m1) (Some e)]"
  let ?h4 = "?h3 @ [LChecked i2 (layer_broker (m_topic m2)) (Inr False)]"
  have c2: "check_duplicate ?L m2 ?h3 = (Inr False, ?h4)"
    by (simp add: check_duplicate_def trace_layer_def flaky_handler_def ids)
  have p2: "process_and_commit ?L m2 ?h4 = (?h4 @ [LHandled (m_value m2) (m_topic m2) None,
      LCommitted (m_topic m2) (m_partition m2) (m_offset m2 + 1) None, LMarked i2 (layer_broker (m_topic m2)) None], None)"
    by (simp add: process_and_commit_def trace_layer_def flaky_handler_def is_handled_def ids consumer_commit_def)
  show ?thesis using m1 c2 p2 by (simp add: process_message_def)
qed

text \<open>A failing mark handles the message again. When the handler and the commit succeed but
  recording the event in Redis raises a retryable error, the failure is treated as a failure of the
  handler: the handler runs a second time on the same message, and its offset is committed twice.\<close>

theorem failed_mark_reprocesses:
  assumes e: "\<not> dead_letters e (tries_so_far st m)" and i: "event_id_of m = Some i"
  shows "\<exists>st' mc'. process_message (trace_layer sv (failing_mark e)) dur now m st mc [] = (None, st', mc',
     [LChecked i (layer_broker (m_topic m)) (Inr False), LHandled (m_value m) (m_topic m) None,
      LCommitted (m_topic m) (m_partition m) (m_offset m + 1) None, LMarked i (layer_broker (m_topic m)) (Some e),
      LHandled (m_value m) (m_topic m) None, LCommitted (m_topic m) (m_partition m) (m_offset m + 1) None])"
proof -
  let ?L = "trace_layer sv (failing_mark e)"
  let ?h = "[LChecked i (layer_broker (m_topic m)) (Inr False), LHandled (m_value m) (m_topic m) None,
      LCommitted (m_topic m) (m_partition m) (m_offset m + 1) None, LMarked i (layer_broker (m_topic m)) (Some e)]"
  obtain h0 where h0: "ly_error_handler ?L = Some h0" by (simp add: trace_layer_def)
  have oh: "oc_handler (failing_mark e) h = None" "oc_commit (failing_mark e) h = None" for h by (simp_all add: failing_mark_def)
  from retry_trace_layer [OF e h0, of now ?h mc] oh obtain st1 where
    r: "handle_processing_error (layer_io ?L now m h0) m e st (?h, mc) = (Inr True, st1, ?h @
       [LHandled (m_value m) (m_topic m) None, LCommitted (m_topic m) (m_partition m) (m_offset m + 1) None], mc)" by auto
  have c: "check_duplicate ?L m [] = (Inr False, [LChecked i (layer_broker (m_topic m)) (Inr False)])"
    by (simp add: check_duplicate_def trace_layer_def failing_mark_def i)
  have p: "process_and_commit ?L m [LChecked i (layer_broker (m_topic m)) (Inr False)] = (?h, Some e)"
    by (simp add: process_and_commit_def trace_layer_def failing_mark_def i consumer_commit_def)
  show ?thesis using c p r h0 by (simp add: process_message_def on_processing_error_def Let_def)
qed

text \<open>A message stored in the DLQ counts as two messages and two failures: once through the callback of
  the publisher and once in the except block.\<close>

lemma dead_letter_counts_twice:
  assumes dead: "dead_letters e (tries_so_far st m)" and L: "ly_error_handler L = Some (sv, send, rnd)" "ly_on_dlq L"
    and send: "\<forall>ev w. snd (send ev w) = None" and commit: "\<forall>t p n w. snd (ly_commit L t p n w) = None"
  shows "\<exists>st' mc' w'. on_processing_error L m e now st mc w = (None, st', mc', w') \<and>
     mc_failure mc' = mc_failure mc + 2 \<and> mc_total mc' = mc_total mc + 2"
proof -
  obtain f where f: "send ev w' = (f ev w', None)" for ev w'
  proof
    show "send ev w' = ((\<lambda>a b. fst (send a b)) ev w', None)" for ev w' using send by (metis prod.collapse)
  qed
  obtain g where g: "ly_commit L t p n w' = (g t p n w', None)" for t p n w'
  proof
    show "ly_commit L t p n w' = ((\<lambda>a b c d. fst (ly_commit L a b c d)) t p n w', None)" for t p n w'
      using commit by (metis prod.collapse)
  qed
  show ?thesis
    unfolding on_processing_error_def handle_processing_error_async_def
    by (simp add: L handle_dead_letters [OF dead] send_to_dlq_and_commit_def send_to_dlq_def run_commit_def layer_io_def on_world_def
        f g on_dlq_def consumer_commit_def mc_record_failure_def Let_def)
qed

lemma not_dead_redis: "\<not> dead_letters (raise_exn RedisError x) 0"
  by (simp add: dead_letters_def classify_error_def isinstance_def raise_exn_def mro_evals should_retry_def
      should_retry_structured_def is_retryable_error_def retryable_def effective_config_def mk_retry_def Let_def)

definition sample_message :: "string \<Rightarrow> int \<Rightarrow> message" where
  "sample_message i n = \<lparr>m_topic = ''paper.orders.filled'', m_partition = 0, m_offset = n, m_key = None, m_value = [(''id'', JStr i)], m_timestamp = 0\<rparr>"

lemma sample_id: "i \<noteq> [] \<Longrightarrow> event_id_of (sample_message i n) = Some i"
  by (simp add: event_id_of_def sample_message_def jget_none_def jget_def)

theorem failed_retry_is_skipped_witness:
  "\<exists>e st' mc'. consumption_loop (trace_layer ''s'' (flaky_handler e)) 0 0 [sample_message ''a'' 0, sample_message ''b'' 1]
     eh_init metrics_init [] = (None, st', mc',
     [LChecked ''a'' (layer_broker ''paper.orders.filled'') (Inr False),
      LHandled [(''id'', JStr ''a'')] ''paper.orders.filled'' (Some e), LHandled [(''id'', JStr ''a'')] ''paper.orders.filled'' (Some e),
      LChecked ''b'' (layer_broker ''paper.orders.filled'') (Inr False),
      LHandled [(''id'', JStr ''b'')] ''paper.orders.filled'' None, LCommitted ''paper.orders.filled'' 0 2 None,
      LMarked ''b'' (layer_broker ''paper.orders.filled'') None])"
proof -
  have ids: "event_id_of (sample_message ''a'' 0) = Some ''a''" "event_id_of (sample_message ''b'' 1) = Some ''b''"
    by (simp_all add: sample_id)
  from failed_retry_is_skipped [OF not_dead_redis [of "''x''"] ids, where sv = "''s''" and dur = 0 and now = 0 and mc = metrics_init]
  show ?thesis by (auto simp: sample_message_def)
qed

theorem failed_mark_reprocesses_witness:
  "\<exists>e st' mc'. process_message (trace_layer ''s'' (failing_mark e)) 0 0 (sample_message ''a'' 0) eh_init metrics_init [] = (None, st', mc',
     [LChecked ''a'' (layer_broker ''paper.orders.filled'') (Inr False), LHandled [(''id'', JStr ''a'')] ''paper.orders.filled'' None,
      LCommitted ''paper.orders.filled'' 0 1 None, LMarked ''a'' (layer_broker ''paper.orders.filled'') (Some e),
      LHandled [(''id'', JStr ''a'')] ''paper.orders.filled'' None, LCommitted ''paper.orders.filled'' 0 1 None])"
proof -
  have i: "event_id_of (sample_message ''a'' 0) = Some ''a''" by (simp add: sample_id)
  have "\<not> dead_letters (raise_exn RedisError ''x'') (tries_so_far eh_init (sample_message ''a'' 0))"
    using not_dead_redis [of "''x''"] by (simp add: tries_so_far_def eh_init_def)
  from failed_mark_reprocesses [OF this i, where sv = "''s''" and dur = 0 and now = 0 and mc = metrics_init]
  show ?thesis by (auto simp: sample_message_def)
qed

end
