(* ===== verification/Lifecycle.thy ===== *)
theory Lifecycle
  imports Exceptions "HOL-Library.List_Lexorder" "HOL-Library.Char_ord"
begin

text \<open>
  Starting and stopping services: ServiceOrchestrator.start and stop
  (core/streaming/orchestration/service_orchestrator.py), LifecycleCoordinator
  (orchestration/lifecycle_coordinator.py) and StreamingLifecycleManager
  (core/streaming/lifecycle_manager.py). The Kafka clients are names; opening and closing one may raise,
  as decided by a parameter that sees the number of calls made so far. MessageProducer.stop
  swallows exceptions, MessageConsumer.stop does not. A service's w_tasks entry stands for its
  consumption loops; asyncio.gather of the stops in the emergency shutdown is run one stop after the other, which
  the services' disjoint clients make immaterial.
\<close>

subsection \<open>Clients and orchestrators\<close>

record orch =
  o_name :: string
  o_producers :: "string list"
  o_consumers :: "string list"

record lc_env =
  le_start :: "nat \<Rightarrow> string \<Rightarrow> exn option"
  le_stop :: "nat \<Rightarrow> string \<Rightarrow> exn option"

record lc_world =
  w_open :: "string set"
  w_running :: "string set"
  w_tasks :: "string set"
  w_calls :: nat

definition start_client :: "lc_env \<Rightarrow> string \<Rightarrow> lc_world \<Rightarrow> exn option \<times> lc_world" where
  "start_client E c w =
     (if c \<in> w_open w then (None, w)
      else case le_start E (w_calls w) c of
          Some e \<Rightarrow> (Some e, w\<lparr>w_calls := w_calls w + 1\<rparr>)
        | None \<Rightarrow> (None, w\<lparr>w_open := insert c (w_open w), w_calls := w_calls w + 1\<rparr>))"

definition stop_consumer :: "lc_env \<Rightarrow> string \<Rightarrow> lc_world \<Rightarrow> exn option \<times> lc_world" where
  "stop_consumer E c w =
     (if c \<notin> w_open w then (None, w)
      else case le_stop E (w_calls w) c of
          Some e \<Rightarrow> (Some e, w\<lparr>w_calls := w_calls w + 1\<rparr>)
        | None \<Rightarrow> (None, w\<lparr>w_open := w_open w - {c}, w_calls := w_calls w + 1\<rparr>))"

definition stop_producer :: "string \<Rightarrow> lc_world \<Rightarrow> lc_world" where
  "stop_producer c w =
     (if c \<notin> w_open w then w else w\<lparr>w_open := w_open w - {c}, w_calls := w_calls w + 1\<rparr>)"

text \<open>A loop of awaited calls: the first exception ends it.\<close>

fun each :: "('c \<Rightarrow> 'w \<Rightarrow> exn option \<times> 'w) \<Rightarrow> 'c list \<Rightarrow> 'w \<Rightarrow> exn option \<times> 'w" where
  "each f [] w = (None, w)"
| "each f (c # cs) w = (case f c w of (Some e, w') \<Rightarrow> (Some e, w') | (None, w') \<Rightarrow> each f cs w')"

definition orchestrator_start :: "lc_env \<Rightarrow> orch \<Rightarrow> lc_world \<Rightarrow> exn option \<times> lc_world" where
  "orchestrator_start E ob w =
     (if o_name ob \<in> w_running w then (None, w)
      else case each (start_client E) (o_producers ob) w of
          (Some e, w1) \<Rightarrow> (Some e, w1)
        | (None, w1) \<Rightarrow>
            (case each (start_client E) (o_consumers ob) w1 of
               (Some e, w2) \<Rightarrow> (Some e, w2)
             | (None, w2) \<Rightarrow>
                 (None, w2\<lparr>w_tasks := insert (o_name ob) (w_tasks w2), w_running := insert (o_name ob) (w_running w2)\<rparr>)))"

definition orchestrator_stop :: "lc_env \<Rightarrow> orch \<Rightarrow> lc_world \<Rightarrow> exn option \<times> lc_world" where
  "orchestrator_stop E ob w =
     (if o_name ob \<notin> w_running w then (None, w)
      else let w1 = w\<lparr>w_tasks := w_tasks w - {o_name ob}\<rparr> in
        case each (stop_consumer E) (o_consumers ob) w1 of
          (Some e, w2) \<Rightarrow> (Some e, w2)
        | (None, w2) \<Rightarrow>
            (let w3 = fold stop_producer (o_producers ob) w2 in
             (None, w3\<lparr>w_running := w_running w3 - {o_name ob}\<rparr>)))"

subsection \<open>LifecycleCoordinator\<close>

type_synonym hook = "lc_world \<Rightarrow> exn option \<times> lc_world"

record coordinator =
  co_orchestrators :: "(string \<times> orch) list"
  co_startup_hooks :: "hook list"
  co_shutdown_handlers :: "hook list"
  co_running :: bool

definition coordinator_init :: coordinator where
  "coordinator_init = \<lparr>co_orchestrators = [], co_startup_hooks = [], co_shutdown_handlers = [], co_running = False\<rparr>"

definition register_orchestrator :: "orch \<Rightarrow> coordinator \<Rightarrow> coordinator" where
  "register_orchestrator ob co = co\<lparr>co_orchestrators := dict_set (o_name ob) ob (co_orchestrators co)\<rparr>"

definition add_startup_hook :: "hook \<Rightarrow> coordinator \<Rightarrow> coordinator" where
  "add_startup_hook h co = co\<lparr>co_startup_hooks := co_startup_hooks co @ [h]\<rparr>"

definition add_shutdown_handler :: "hook \<Rightarrow> coordinator \<Rightarrow> coordinator" where
  "add_shutdown_handler h co = co\<lparr>co_shutdown_handlers := co_shutdown_handlers co @ [h]\<rparr>"

text \<open>The given names first, then the others; without names, alphabetically (reversed to stop).\<close>

definition named_order :: "string list \<Rightarrow> coordinator \<Rightarrow> string list" where
  "named_order order co =
     (let keys = map fst (co_orchestrators co); first = filter (\<lambda>n. n \<in> set keys) order
      in first @ filter (\<lambda>n. n \<notin> set first) keys)"

definition start_names :: "string list \<Rightarrow> coordinator \<Rightarrow> string list" where
  "start_names order co = (if order \<noteq> [] then named_order order co else sort (map fst (co_orchestrators co)))"

definition stop_names :: "string list \<Rightarrow> coordinator \<Rightarrow> string list" where
  "stop_names order co = (if order \<noteq> [] then named_order order co else rev (sort (map fst (co_orchestrators co))))"

definition orch_of :: "coordinator \<Rightarrow> string \<Rightarrow> orch" where
  "orch_of co n = the (map_of (co_orchestrators co) n)"

definition emergency_shutdown :: "lc_env \<Rightarrow> coordinator \<Rightarrow> lc_world \<Rightarrow> lc_world" where
  "emergency_shutdown E co w =
     fold (\<lambda>ob w. snd (orchestrator_stop E ob w)) (filter (\<lambda>ob. o_name ob \<in> w_running w) (map snd (co_orchestrators co))) w"

definition start_all :: "lc_env \<Rightarrow> string list \<Rightarrow> coordinator \<Rightarrow> lc_world \<Rightarrow> exn option \<times> coordinator \<times> lc_world" where
  "start_all E order co w =
     (if co_running co then (None, co, w)
      else case each (\<lambda>h. h) (co_startup_hooks co) w of
          (Some e, w1) \<Rightarrow> (Some e, co, w1)
        | (None, w1) \<Rightarrow>
            (case each (\<lambda>n. orchestrator_start E (orch_of co n)) (start_names order co) w1 of
               (Some e, w2) \<Rightarrow> (Some e, co\<lparr>co_running := False\<rparr>, emergency_shutdown E co w2)
             | (None, w2) \<Rightarrow> (None, co\<lparr>co_running := True\<rparr>, w2)))"

definition stop_all :: "lc_env \<Rightarrow> string list \<Rightarrow> coordinator \<Rightarrow> lc_world \<Rightarrow> coordinator \<times> lc_world" where
  "stop_all E order co w =
     (if \<not> co_running co then (co, w)
      else let w1 = fold (\<lambda>n w. snd (orchestrator_stop E (orch_of co n) w)) (stop_names order co) w;
               w2 = fold (\<lambda>h w. snd (h w)) (co_shutdown_handlers co) w1
           in (co\<lparr>co_running := False\<rparr>, w2))"

definition restart_orchestrator :: "lc_env \<Rightarrow> string \<Rightarrow> coordinator \<Rightarrow> lc_world \<Rightarrow> bool \<times> lc_world" where
  "restart_orchestrator E n co w =
     (case map_of (co_orchestrators co) n of
        None \<Rightarrow> (False, w)
      | Some ob \<Rightarrow>
          (case orchestrator_stop E ob w of
             (Some e, w1) \<Rightarrow> (False, w1)
           | (None, w1) \<Rightarrow> (case orchestrator_start E ob w1 of (Some e, w2) \<Rightarrow> (False, w2) | (None, w2) \<Rightarrow> (True, w2))))"

subsection \<open>What starting and stopping one service changes\<close>

definition clients :: "orch \<Rightarrow> string set" where
  "clients ob = set (o_producers ob) \<union> set (o_consumers ob)"

lemma each_start_clients:
  assumes "each (start_client E) cs w = (r, w')"
  shows "w_open w \<subseteq> w_open w' \<and> w_open w' \<subseteq> w_open w \<union> set cs \<and> (r = None \<longrightarrow> set cs \<subseteq> w_open w') \<and>
     w_running w' = w_running w \<and> w_tasks w' = w_tasks w"
  using assms
proof (induction cs arbitrary: w)
  case (Cons c cs)
  obtain r1 w1 where r1: "start_client E c w = (r1, w1)" by fastforce
  then have s: "w_open w \<subseteq> w_open w1" "w_open w1 \<subseteq> insert c (w_open w)" "r1 = None \<Longrightarrow> c \<in> w_open w1"
    "w_running w1 = w_running w" "w_tasks w1 = w_tasks w"
    by (auto simp: start_client_def split: if_splits option.splits)
  show ?case
  proof (cases r1)
    case None
    with Cons.prems r1 have "each (start_client E) cs w1 = (r, w')" by simp
    from Cons.IH [OF this] s None show ?thesis by auto
  next
    case (Some e)
    with Cons.prems r1 s show ?thesis by auto
  qed
qed simp

lemma orchestrator_start_frame:
  assumes "orchestrator_start E ob w = (r, w')"
  shows "w_open w \<subseteq> w_open w'" "w_open w' \<subseteq> w_open w \<union> clients ob"
    "w_running w' = (if r = None then insert (o_name ob) (w_running w) else w_running w)"
    "o_name ob \<notin> w_running w \<Longrightarrow> w_tasks w' = (if r = None then insert (o_name ob) (w_tasks w) else w_tasks w)"
    "o_name ob \<notin> w_running w \<Longrightarrow> r = None \<Longrightarrow> clients ob \<subseteq> w_open w'"
    "o_name ob \<in> w_running w \<Longrightarrow> w' = w"
proof -
  obtain r1 w1 where 1: "each (start_client E) (o_producers ob) w = (r1, w1)" by fastforce
  obtain r2 w2 where 2: "each (start_client E) (o_consumers ob) w1 = (r2, w2)" by fastforce
  note f = assms 1 2 each_start_clients [OF 1] each_start_clients [OF 2]
  show "w_open w \<subseteq> w_open w'" "w_open w' \<subseteq> w_open w \<union> clients ob"
    "w_running w' = (if r = None then insert (o_name ob) (w_running w) else w_running w)"
    "o_name ob \<notin> w_running w \<Longrightarrow> w_tasks w' = (if r = None then insert (o_name ob) (w_tasks w) else w_tasks w)"
    "o_name ob \<notin> w_running w \<Longrightarrow> r = None \<Longrightarrow> clients ob \<subseteq> w_open w'"
    "o_name ob \<in> w_running w \<Longrightarrow> w' = w"
    using f by (auto simp: orchestrator_start_def clients_def split: if_splits option.splits)
qed

lemma each_stop_consumers:
  assumes "each (stop_consumer E) cs w = (r, w')"
  shows "w_open w - set cs \<subseteq> w_open w' \<and> w_open w' \<subseteq> w_open w \<and> (r = None \<longrightarrow> w_open w' = w_open w - set cs) \<and>
     w_running w' = w_running w \<and> w_tasks w' = w_tasks w \<and> ((\<forall>n. \<forall>c \<in> set cs. le_stop E n c = None) \<longrightarrow> r = None)"
  using assms
proof (induction cs arbitrary: w)
  case (Cons c cs)
  obtain r1 w1 where r1: "stop_consumer E c w = (r1, w1)" by fastforce
  then have s: "w_open w - {c} \<subseteq> w_open w1" "w_open w1 \<subseteq> w_open w" "r1 = None \<Longrightarrow> w_open w1 = w_open w - {c}"
    "w_running w1 = w_running w" "w_tasks w1 = w_tasks w" "(\<forall>n. le_stop E n c = None) \<Longrightarrow> r1 = None"
    by (auto simp: stop_consumer_def split: if_splits option.splits)
  show ?case
  proof (cases r1)
    case None
    with Cons.prems r1 have "each (stop_consumer E) cs w1 = (r, w')" by simp
    from Cons.IH [OF this] s None show ?thesis by auto
  next
    case (Some e)
    with Cons.prems r1 s show ?thesis by auto
  qed
qed simp

lemma fold_stop_producers:
  "w_open (fold stop_producer cs w) = w_open w - set cs \<and> w_running (fold stop_producer cs w) = w_running w \<and>
   w_tasks (fold stop_producer cs w) = w_tasks w"
  by (induction cs arbitrary: w) (auto simp: stop_producer_def)

lemma orchestrator_stop_frame:
  assumes "orchestrator_stop E ob w = (r, w')"
  shows "w_open w - clients ob \<subseteq> w_open w'" "w_open w' \<subseteq> w_open w"
    "w_running w - {o_name ob} \<subseteq> w_running w'" "w_running w' \<subseteq> w_running w" "w_tasks w' \<subseteq> w_tasks w"
    "o_name ob \<in> w_running w \<Longrightarrow> \<forall>n. \<forall>c \<in> set (o_consumers ob). le_stop E n c = None \<Longrightarrow>
       w_open w' = w_open w - clients ob \<and> w_running w' = w_running w - {o_name ob} \<and> w_tasks w' = w_tasks w - {o_name ob}"
    "o_name ob \<notin> w_running w \<Longrightarrow> w' = w"
proof -
  let ?w = "w\<lparr>w_tasks := w_tasks w - {o_name ob}\<rparr>"
  obtain r1 w1 where 1: "each (stop_consumer E) (o_consumers ob) ?w = (r1, w1)" by fastforce
  note f = assms 1 each_stop_consumers [OF 1] fold_stop_producers [of "o_producers ob" w1]
  show "w_open w - clients ob \<subseteq> w_open w'" "w_open w' \<subseteq> w_open w"
    "w_running w - {o_name ob} \<subseteq> w_running w'" "w_running w' \<subseteq> w_running w" "w_tasks w' \<subseteq> w_tasks w"
    "o_name ob \<in> w_running w \<Longrightarrow> \<forall>n. \<forall>c \<in> set (o_consumers ob). le_stop E n c = None \<Longrightarrow>
       w_open w' = w_open w - clients ob \<and> w_running w' = w_running w - {o_name ob} \<and> w_tasks w' = w_tasks w - {o_name ob}"
    "o_name ob \<notin> w_running w \<Longrightarrow> w' = w"
    using f by (auto simp: orchestrator_stop_def clients_def Let_def split: if_splits option.splits)
qed

subsection \<open>Starting and stopping all services\<close>

definition names :: "coordinator \<Rightarrow> string set" where
  "names co = fst ` set (co_orchestrators co)"

definition wf_coordinator :: "coordinator \<Rightarrow> bool" where
  "wf_coordinator co = (distinct (map fst (co_orchestrators co)) \<and> (\<forall>n \<in> names co. o_name (orch_of co n) = n) \<and>
     (\<forall>n \<in> names co. \<forall>n' \<in> names co. n \<noteq> n' \<longrightarrow> clients (orch_of co n) \<inter> clients (orch_of co n') = {}))"

lemma set_order [simp]: "set (start_names order co) = names co" "set (stop_names order co) = names co"
  by (auto simp: start_names_def stop_names_def named_order_def names_def Let_def)

lemma each_Some:
  assumes "each f cs w = (Some e, w')"
  shows "\<exists>pre c post w1. cs = pre @ c # post \<and> each f pre w = (None, w1) \<and> f c w1 = (Some e, w')"
  using assms
proof (induction cs arbitrary: w)
  case (Cons c cs)
  obtain r w1 where r: "f c w = (r, w1)" by fastforce
  show ?case
  proof (cases r)
    case None
    with Cons r obtain pre d post w2 where "cs = pre @ d # post" "each f pre w1 = (None, w2)" "f d w2 = (Some e, w')" by fastforce
    with r None show ?thesis by (intro exI [of _ "c # pre"]) auto
  next
    case (Some e')
    with Cons.prems r show ?thesis by (intro exI [of _ "[]"]) auto
  qed
qed simp

lemma start_each_exact:
  assumes wf: "wf_coordinator co" and run: "each (\<lambda>n. orchestrator_start E (orch_of co n)) ns w = (None, w')"
    and ns: "set ns \<subseteq> names co" and R: "w_running w = R" "w_open w = (\<Union>n \<in> R. clients (orch_of co n))" "w_tasks w = R" "R \<subseteq> names co"
  shows "w_running w' = R \<union> set ns \<and> w_open w' = (\<Union>n \<in> R \<union> set ns. clients (orch_of co n)) \<and> w_tasks w' = R \<union> set ns"
  using run ns R
proof (induction ns arbitrary: w R)
  case (Cons n ns)
  have n: "o_name (orch_of co n) = n" using wf Cons.prems(2) by (auto simp: wf_coordinator_def)
  obtain r w1 where r: "orchestrator_start E (orch_of co n) w = (r, w1)" by fastforce
  with Cons.prems(1) have rn: "r = None" and rest: "each (\<lambda>n. orchestrator_start E (orch_of co n)) ns w1 = (None, w')"
    by (auto split: option.splits)
  note f = orchestrator_start_frame [OF r]
  have w1: "w_running w1 = insert n R" "w_open w1 = (\<Union>n \<in> insert n R. clients (orch_of co n))" "w_tasks w1 = insert n R"
    using f rn n Cons.prems(3-5) by (cases "n \<in> w_running w"; auto)+
  from Cons.IH [OF rest _ w1] Cons.prems(2,6) show ?case by auto
qed simp

lemma stop_fold_exact:
  assumes "\<forall>n c. le_stop E n c = None" "distinct (map o_name obs)" "set (map o_name obs) \<subseteq> w_running w"
  shows "w_open (fold (\<lambda>ob w. snd (orchestrator_stop E ob w)) obs w) = w_open w - \<Union> (clients ` set obs) \<and>
     w_running (fold (\<lambda>ob w. snd (orchestrator_stop E ob w)) obs w) = w_running w - o_name ` set obs \<and>
     w_tasks (fold (\<lambda>ob w. snd (orchestrator_stop E ob w)) obs w) = w_tasks w - o_name ` set obs"
  using assms(2,3)
proof (induction obs arbitrary: w)
  case (Cons ob obs)
  obtain r w1 where r: "orchestrator_stop E ob w = (r, w1)" by fastforce
  have w1: "w_open w1 = w_open w - clients ob" "w_running w1 = w_running w - {o_name ob}" "w_tasks w1 = w_tasks w - {o_name ob}"
    using orchestrator_stop_frame(6) [OF r] Cons.prems assms(1) by auto
  have "set (map o_name obs) \<subseteq> w_running w1" using Cons.prems w1(2) by (simp add: subset_Diff_insert)
  moreover have "distinct (map o_name obs)" using Cons.prems(1) by simp
  ultimately have "w_open (fold (\<lambda>ob w. snd (orchestrator_stop E ob w)) obs w1) = w_open w1 - \<Union> (clients ` set obs)"
    "w_running (fold (\<lambda>ob w. snd (orchestrator_stop E ob w)) obs w1) = w_running w1 - o_name ` set obs"
    "w_tasks (fold (\<lambda>ob w. snd (orchestrator_stop E ob w)) obs w1) = w_tasks w1 - o_name ` set obs"
    using Cons.IH [of w1] by simp_all
  with r w1 show ?case by (simp, blast)
qed simp

lemma orch_of_Pair: "wf_coordinator co \<Longrightarrow> (n, ob) \<in> set (co_orchestrators co) \<Longrightarrow> orch_of co n = ob"
  by (simp add: orch_of_def wf_coordinator_def)

lemma orchs_of_names: "wf_coordinator co \<Longrightarrow> map snd (co_orchestrators co) = map (orch_of co) (map fst (co_orchestrators co))"
  by (auto simp: orch_of_Pair)

lemma emergency_shutdown_exact:
  assumes wf: "wf_coordinator co" and stops: "\<forall>n c. le_stop E n c = None" and R: "w_running w = R" "R \<subseteq> names co"
  shows "w_open (emergency_shutdown E co w) = w_open w - (\<Union>n \<in> R. clients (orch_of co n)) \<and>
    w_running (emergency_shutdown E co w) = {} \<and> w_tasks (emergency_shutdown E co w) = w_tasks w - R"
proof -
  have nm: "o_name (orch_of co k) = k" if "k \<in> names co" for k using wf that by (simp add: wf_coordinator_def)
  define obs where "obs = filter (\<lambda>ob. o_name ob \<in> w_running w) (map snd (co_orchestrators co))"
  have obs: "obs = map (orch_of co) (filter (\<lambda>k. k \<in> R) (map fst (co_orchestrators co)))"
    unfolding obs_def orchs_of_names [OF wf] filter_map comp_def
    by (rule arg_cong [of _ _ "\<lambda>xs. map (orch_of co) (map fst xs)"], rule filter_cong) (auto simp: nm names_def R)
  have mo: "map o_name obs = filter (\<lambda>k. k \<in> R) (map fst (co_orchestrators co))"
    unfolding obs map_map by (rule map_idI) (auto simp: nm names_def)
  have names_obs: "o_name ` set obs = R" "distinct (map o_name obs)"
    unfolding set_map [symmetric] mo using wf R by (auto simp: names_def wf_coordinator_def)
  have "\<Union> (clients ` set obs) = (\<Union>n \<in> R. clients (orch_of co n))" unfolding obs using R by (auto simp: names_def)
  moreover have "set (map o_name obs) \<subseteq> w_running w" using names_obs(1) R(1) by simp
  note stop_fold_exact [OF stops names_obs(2) this]
  ultimately show ?thesis unfolding emergency_shutdown_def obs_def [symmetric] using names_obs(1) R(1) by simp
qed

text \<open>A failed start leaves clients open. When starting the services fails, the coordinator stops
  every service that was running, but the service that failed does not count as running: the
  clients it had opened before its failure stay open, and exactly those.\<close>

theorem failed_start_leaks:
  assumes wf: "wf_coordinator co" and hooks: "co_startup_hooks co = []"
    and fresh: "w_running w = {}" "w_open w = {}" "w_tasks w = {}" and stops: "\<forall>n c. le_stop E n c = None"
    and run: "start_all E order co w = (Some e, co', w')"
  shows "\<exists>n w1 w2. n \<in> names co \<and> orchestrator_start E (orch_of co n) w1 = (Some e, w2) \<and> \<not> co_running co' \<and>
     w_running w' = {} \<and> w_tasks w' = {} \<and> w_open w' = w_open w2 \<inter> clients (orch_of co n)"
proof -
  let ?S = "\<lambda>n. orchestrator_start E (orch_of co n)"
  have nr: "\<not> co_running co" using run by (auto simp: start_all_def)
  obtain w2 where each: "each ?S (start_names order co) w = (Some e, w2)" and w': "w' = emergency_shutdown E co w2" and co': "\<not> co_running co'"
    using run nr hooks by (auto simp: start_all_def split: option.splits prod.splits)
  from each_Some [OF each] obtain pre n post w1 where
    split: "start_names order co = pre @ n # post" and pre: "each ?S pre w = (None, w1)" and n: "?S n w1 = (Some e, w2)" by blast
  have sub: "set pre \<subseteq> names co" "n \<in> names co"
    using split set_order(1) [of order co] by (metis Un_iff list.set_intros(1) set_append subsetI, metis in_set_conv_decomp)
  have w1: "w_running w1 = set pre" "w_open w1 = (\<Union>n \<in> set pre. clients (orch_of co n))" "w_tasks w1 = set pre"
    using start_each_exact [OF wf pre sub(1), of "{}"] fresh by auto
  have nm: "o_name (orch_of co k) = k" if "k \<in> names co" for k using wf that by (simp add: wf_coordinator_def)
  note f = orchestrator_start_frame [OF n, unfolded nm [OF sub(2)]]
  have npre: "n \<notin> set pre"
  proof
    assume "n \<in> set pre"
    then have "?S n w1 = (None, w1)" using w1 nm sub by (simp add: orchestrator_start_def)
    with n show False by simp
  qed
  have w2: "w_running w2 = set pre" "w_tasks w2 = set pre" "w_open w2 = (\<Union>n \<in> set pre. clients (orch_of co n)) \<union> (w_open w2 \<inter> clients (orch_of co n))"
    using f w1 npre by auto
  have "w_open w' = w_open w2 - (\<Union>n \<in> set pre. clients (orch_of co n))" "w_running w' = {}" "w_tasks w' = {}"
    using emergency_shutdown_exact [OF wf stops w2(1) sub(1)] w2(2) by (simp_all add: w')
  moreover have "clients (orch_of co n) \<inter> clients (orch_of co k) = {}" if "k \<in> set pre" for k
  proof -
    have "k \<in> names co" "n \<noteq> k" using sub npre that by auto
    with wf sub(2) show ?thesis by (simp add: wf_coordinator_def)
  qed
  then have "w_open w2 - (\<Union>n \<in> set pre. clients (orch_of co n)) = w_open w2 \<inter> clients (orch_of co n)"
    using w2(3) by blast
  ultimately show ?thesis using n sub co' by metis
qed

definition paper_orch :: orch where
  "paper_orch = \<lparr>o_name = ''paper_trading'', o_producers = [''paper-p''], o_consumers = [''paper-c'']\<rparr>"

definition risk_orch :: orch where
  "risk_orch = \<lparr>o_name = ''risk_manager'', o_producers = [''risk-p''], o_consumers = [''risk-c'']\<rparr>"

definition demo_coordinator :: coordinator where
  "demo_coordinator = register_orchestrator risk_orch (register_orchestrator paper_orch coordinator_init)"

definition demo_world :: lc_world where
  "demo_world = \<lparr>w_open = {}, w_running = {}, w_tasks = {}, w_calls = 0\<rparr>"

definition runtime_error :: exn where
  "runtime_error = raise_exn (Other ''RuntimeError'') []"

definition demo_env :: "string option \<Rightarrow> string option \<Rightarrow> lc_env" where
  "demo_env bad_start bad_stop =
     \<lparr>le_start = (\<lambda>_ c. if bad_start = Some c then Some runtime_error else None),
      le_stop = (\<lambda>_ c. if bad_stop = Some c then Some runtime_error else None)\<rparr>"

lemmas demo_defs = paper_orch_def risk_orch_def demo_coordinator_def demo_world_def demo_env_def
  register_orchestrator_def coordinator_init_def orch_of_def

lemma demo_wf: "wf_coordinator demo_coordinator"
  by (auto simp: wf_coordinator_def names_def clients_def demo_defs)

theorem failed_start_leaks_witness:
  "\<exists>co' w'. start_all (demo_env (Some ''risk-c'') None) [] demo_coordinator demo_world = (Some runtime_error, co', w') \<and>
     (\<exists>n w1 w2. n \<in> names demo_coordinator \<and>
        orchestrator_start (demo_env (Some ''risk-c'') None) (orch_of demo_coordinator n) w1 = (Some runtime_error, w2) \<and> \<not> co_running co' \<and>
        w_running w' = {} \<and> w_tasks w' = {} \<and> w_open w' = w_open w2 \<inter> clients (orch_of demo_coordinator n))"
proof -
  obtain co' w' where run: "start_all (demo_env (Some ''risk-c'') None) [] demo_coordinator demo_world = (Some runtime_error, co', w')"
    by (simp add: start_all_def start_names_def orchestrator_start_def start_client_def emergency_shutdown_def demo_defs)
  have stops: "\<forall>n c. le_stop (demo_env (Some ''risk-c'') None) n c = None" by (simp add: demo_env_def)
  from failed_start_leaks [OF demo_wf _ _ _ _ stops run] run show ?thesis by (simp add: demo_defs)
qed

subsection \<open>Stopping\<close>

lemma stop_fold_mono:
  "w_open (fold (\<lambda>n w. snd (orchestrator_stop E (orch_of co n) w)) ns w) \<subseteq> w_open w \<and>
   w_running (fold (\<lambda>n w. snd (orchestrator_stop E (orch_of co n) w)) ns w) \<subseteq> w_running w \<and>
   w_tasks (fold (\<lambda>n w. snd (orchestrator_stop E (orch_of co n) w)) ns w) \<subseteq> w_tasks w"
proof (induction ns arbitrary: w)
  case (Cons n ns)
  obtain r w1 where r: "orchestrator_stop E (orch_of co n) w = (r, w1)" by fastforce
  from Cons [of w1] orchestrator_stop_frame(2,4,5) [OF r] r show ?case by auto
qed simp

lemma stop_fold_keeps:
  assumes "wf_coordinator co" "set ns \<subseteq> names co" "m \<notin> set ns" "m \<in> w_running w"
  shows "m \<in> w_running (fold (\<lambda>n w. snd (orchestrator_stop E (orch_of co n) w)) ns w)"
  using assms(2-4)
proof (induction ns arbitrary: w)
  case (Cons n ns)
  obtain r w1 where r: "orchestrator_stop E (orch_of co n) w = (r, w1)" by fastforce
  have "o_name (orch_of co n) = n" using assms(1) Cons.prems(1) by (auto simp: wf_coordinator_def)
  with orchestrator_stop_frame(3) [OF r] Cons.prems have "m \<in> w_running w1" by auto
  with Cons.IH [of w1] Cons.prems r show ?case by simp
qed simp

text \<open>C30: Stopping reaches every service. Once stop_all has run, a registered service that was
  running, and whose own consumers close without an exception, is stopped: its clients are closed and its
  consumption loops are gone, whatever the stops of the other services did.\<close>

theorem stop_all_reaches_everyone:
  assumes wf: "wf_coordinator co" and running: "co_running co" "m \<in> names co" "m \<in> w_running w"
    and own: "\<forall>n. \<forall>c \<in> set (o_consumers (orch_of co m)). le_stop E n c = None"
    and handlers: "co_shutdown_handlers co = []" and run: "stop_all E order co w = (co', w')"
  shows "\<not> co_running co' \<and> m \<notin> w_running w' \<and> m \<notin> w_tasks w' \<and> w_open w' \<inter> clients (orch_of co m) = {}"
proof -
  let ?f = "fold (\<lambda>n w. snd (orchestrator_stop E (orch_of co n) w))"
  have "m \<in> set (stop_names order co)" using running by simp
  then obtain pre post where split: "stop_names order co = pre @ m # post" "m \<notin> set pre" by (blast dest: split_list_first)
  have pre: "set pre \<subseteq> names co" using split set_order(2) [of order co] by (metis Un_upper1 set_append)
  have nm: "o_name (orch_of co m) = m" using wf running by (simp add: wf_coordinator_def)
  obtain r w1 where r: "orchestrator_stop E (orch_of co m) (?f pre w) = (r, w1)" by fastforce
  have "m \<in> w_running (?f pre w)" by (rule stop_fold_keeps [OF wf pre split(2) running(3)])
  from orchestrator_stop_frame(6) [OF r _ own] this
  have w1: "w_open w1 \<inter> clients (orch_of co m) = {}" "m \<notin> w_running w1" "m \<notin> w_tasks w1" unfolding nm by auto
  have "w' = ?f post w1" "\<not> co_running co'" using run running(1) handlers split(1) r by (auto simp: stop_all_def Let_def)
  with w1 stop_fold_mono [of E co post w1] show ?thesis by blast
qed

theorem stop_all_reaches_everyone_witness:
  "\<exists>co' w'. stop_all (demo_env None (Some ''risk-c'')) [] (demo_coordinator\<lparr>co_running := True\<rparr>)
        \<lparr>w_open = {''paper-p'', ''paper-c'', ''risk-p'', ''risk-c''}, w_running = {''paper_trading'', ''risk_manager''},
         w_tasks = {''paper_trading'', ''risk_manager''}, w_calls = 4\<rparr> = (co', w') \<and>
     \<not> co_running co' \<and> ''paper_trading'' \<notin> w_running w' \<and> ''paper_trading'' \<notin> w_tasks w' \<and>
     w_open w' \<inter> clients (orch_of (demo_coordinator\<lparr>co_running := True\<rparr>) ''paper_trading'') = {}"
proof -
  let ?co = "demo_coordinator\<lparr>co_running := True\<rparr>"
  let ?w = "\<lparr>w_open = {''paper-p'', ''paper-c'', ''risk-p'', ''risk-c''}, w_running = {''paper_trading'', ''risk_manager''},
         w_tasks = {''paper_trading'', ''risk_manager''}, w_calls = 4\<rparr>"
  obtain co' w' where run: "stop_all (demo_env None (Some ''risk-c'')) [] ?co ?w = (co', w')" by fastforce
  have wf: "wf_coordinator ?co" using demo_wf by (simp add: wf_coordinator_def names_def orch_of_def)
  from stop_all_reaches_everyone [OF wf _ _ _ _ _ run, of "''paper_trading''"] run show ?thesis
    by (auto simp: names_def demo_defs)
qed

text \<open>A failed stop wedges the service. When closing a consumer raises, the consumption loops are
  already cancelled but the service still counts as running, so the next start returns at once
  without an error and without starting anything.\<close>

theorem failed_stop_wedges:
  assumes "orchestrator_stop E ob w = (Some e, w')"
  shows "orchestrator_start E' ob w' = (None, w') \<and> o_name ob \<in> w_running w' \<and> o_name ob \<notin> w_tasks w'"
proof -
  let ?w = "w\<lparr>w_tasks := w_tasks w - {o_name ob}\<rparr>"
  obtain r1 w1 where 1: "each (stop_consumer E) (o_consumers ob) ?w = (r1, w1)" by fastforce
  with assms each_stop_consumers [OF 1] have "w_running w' = w_running w \<and> w_tasks w' = w_tasks w - {o_name ob} \<and> o_name ob \<in> w_running w"
    by (auto simp: orchestrator_stop_def Let_def split: if_splits option.splits)
  then show ?thesis by (simp add: orchestrator_start_def)
qed

theorem failed_stop_wedges_witness:
  "\<exists>w'. orchestrator_start (demo_env None None) risk_orch w' = (None, w') \<and> o_name risk_orch \<in> w_running w' \<and> o_name risk_orch \<notin> w_tasks w'"
proof -
  let ?w = "\<lparr>w_open = {''risk-p'', ''risk-c''}, w_running = {''risk_manager''}, w_tasks = {''risk_manager''}, w_calls = 2\<rparr>"
  have "\<exists>w'. orchestrator_stop (demo_env None (Some ''risk-c'')) risk_orch ?w = (Some runtime_error, w')"
    by (simp add: orchestrator_stop_def stop_consumer_def demo_defs Let_def)
  with failed_stop_wedges [of "demo_env None (Some ''risk-c'')" risk_orch ?w runtime_error] show ?thesis by blast
qed

subsection \<open>StreamingLifecycleManager\<close>

text \<open>Names to clients and tasks, and the calls made on them. A call raises or times out as
  the parameter says; both are logged and the entry is deleted.\<close>

datatype lm_call = Cancel string | Flush string | Stop_Producer string | Stop_Consumer string

record lifecycle_manager =
  lm_producers :: "(string \<times> string) list"
  lm_consumers :: "(string \<times> string) list"
  lm_running_tasks :: "(string \<times> string) list"
  lm_shutdown :: bool
  lm_log :: "lm_call list"

definition lifecycle_manager_init :: lifecycle_manager where
  "lifecycle_manager_init =
     \<lparr>lm_producers = [], lm_consumers = [], lm_running_tasks = [], lm_shutdown = False, lm_log = []\<rparr>"

definition close_producer :: "(lm_call \<Rightarrow> bool) \<Rightarrow> string \<Rightarrow> lm_call list" where
  "close_producer fails p = (if fails (Flush p) then [Flush p] else [Flush p, Stop_Producer p])"

definition cleanup_producer :: "(lm_call \<Rightarrow> bool) \<Rightarrow> string \<Rightarrow> lifecycle_manager \<Rightarrow> lifecycle_manager" where
  "cleanup_producer fails n m = (case map_of (lm_producers m) n of None \<Rightarrow> m
     | Some p \<Rightarrow> m\<lparr>lm_log := lm_log m @ close_producer fails p, lm_producers := dict_pop n (lm_producers m)\<rparr>)"

definition cleanup_consumer :: "string \<Rightarrow> lifecycle_manager \<Rightarrow> lifecycle_manager" where
  "cleanup_consumer n m = (case map_of (lm_consumers m) n of None \<Rightarrow> m
     | Some c \<Rightarrow> m\<lparr>lm_log := lm_log m @ [Stop_Consumer c], lm_consumers := dict_pop n (lm_consumers m)\<rparr>)"

definition cancel_task :: "string \<Rightarrow> lifecycle_manager \<Rightarrow> lifecycle_manager" where
  "cancel_task n m = (case map_of (lm_running_tasks m) n of None \<Rightarrow> m
     | Some t \<Rightarrow> m\<lparr>lm_log := lm_log m @ [Cancel t], lm_running_tasks := dict_pop n (lm_running_tasks m)\<rparr>)"

definition register_producer :: "(lm_call \<Rightarrow> bool) \<Rightarrow> string \<Rightarrow> string \<Rightarrow> lifecycle_manager \<Rightarrow> lifecycle_manager" where
  "register_producer fails n p m =
     (let m1 = cleanup_producer fails n m in m1\<lparr>lm_producers := dict_set n p (lm_producers m1)\<rparr>)"

definition register_consumer :: "string \<Rightarrow> string \<Rightarrow> lifecycle_manager \<Rightarrow> lifecycle_manager" where
  "register_consumer n c m = (let m1 = cleanup_consumer n m in m1\<lparr>lm_consumers := dict_set n c (lm_consumers m1)\<rparr>)"

definition register_task :: "string \<Rightarrow> string \<Rightarrow> lifecycle_manager \<Rightarrow> lifecycle_manager" where
  "register_task n t m = (let m1 = cancel_task n m in m1\<lparr>lm_running_tasks := dict_set n t (lm_running_tasks m1)\<rparr>)"

definition shutdown_all :: "(lm_call \<Rightarrow> bool) \<Rightarrow> lifecycle_manager \<Rightarrow> lifecycle_manager" where
  "shutdown_all fails m =
     (let m0 = m\<lparr>lm_shutdown := True\<rparr>;
          m1 = fold cancel_task (map fst (lm_running_tasks m0)) m0;
          m2 = fold (cleanup_producer fails) (map fst (lm_producers m1)) m1
      in fold cleanup_consumer (map fst (lm_consumers m2)) m2)"

definition wf_manager :: "lifecycle_manager \<Rightarrow> bool" where
  "wf_manager m = (distinct (map fst (lm_producers m)) \<and> distinct (map fst (lm_consumers m)) \<and> distinct (map fst (lm_running_tasks m)))"

lemma wf_manager_ops:
  "wf_manager lifecycle_manager_init" "wf_manager m \<Longrightarrow> wf_manager (register_producer fails n p m)"
  "wf_manager m \<Longrightarrow> wf_manager (register_consumer n c m)" "wf_manager m \<Longrightarrow> wf_manager (register_task n t m)"
  by (auto simp: wf_manager_def lifecycle_manager_init_def register_producer_def register_consumer_def register_task_def
    cleanup_producer_def cleanup_consumer_def cancel_task_def Let_def split: option.splits)

lemma dict_pop_Cons: "n \<notin> fst ` set d \<Longrightarrow> dict_pop n ((n, v) # d) = d"
  by (auto simp: dict_pop_def intro!: filter_True)

lemma fold_cancel:
  "distinct (map fst d) \<Longrightarrow> lm_running_tasks m = d \<Longrightarrow>
   fold cancel_task (map fst d) m = m\<lparr>lm_log := lm_log m @ map (Cancel \<circ> snd) d, lm_running_tasks := []\<rparr>"
  by (induction d arbitrary: m) (auto simp: cancel_task_def dict_pop_Cons)

lemma fold_cleanup_producer:
  "distinct (map fst d) \<Longrightarrow> lm_producers m = d \<Longrightarrow>
   fold (cleanup_producer fails) (map fst d) m =
     m\<lparr>lm_log := lm_log m @ concat (map (close_producer fails \<circ> snd) d), lm_producers := []\<rparr>"
  by (induction d arbitrary: m) (auto simp: cleanup_producer_def dict_pop_Cons)

lemma fold_cleanup_consumer:
  "distinct (map fst d) \<Longrightarrow> lm_consumers m = d \<Longrightarrow>
   fold cleanup_consumer (map fst d) m = m\<lparr>lm_log := lm_log m @ map (Stop_Consumer \<circ> snd) d, lm_consumers := []\<rparr>"
  by (induction d arbitrary: m) (auto simp: cleanup_consumer_def dict_pop_Cons)

text \<open>What shutdown_all does. It cancels the tasks, then flushes and stops the
  producers, then stops the consumers, each registered one exactly once and in the order of registration, and forgets them
  all. A producer whose flush fails or times out is forgotten without being stopped.\<close>

theorem shutdown_all_trace:
  assumes "wf_manager m"
  shows "shutdown_all fails m =
     m\<lparr>lm_shutdown := True, lm_running_tasks := [], lm_producers := [], lm_consumers := [],
       lm_log := lm_log m @ map (Cancel \<circ> snd) (lm_running_tasks m) @
         concat (map (close_producer fails \<circ> snd) (lm_producers m)) @ map (Stop_Consumer \<circ> snd) (lm_consumers m)\<rparr>"
  using assms by (simp add: shutdown_all_def wf_manager_def Let_def fold_cancel fold_cleanup_producer fold_cleanup_consumer)

theorem shutdown_all_trace_witness:
  "shutdown_all (\<lambda>c. c = Flush ''p2'')
      (register_task ''loop'' ''t1'' (register_consumer ''in'' ''c1'' (register_producer (\<lambda>_. False) ''dlq'' ''p2''
        (register_producer (\<lambda>_. False) ''out'' ''p1'' lifecycle_manager_init)))) =
    \<lparr>lm_producers = [], lm_consumers = [], lm_running_tasks = [], lm_shutdown = True,
     lm_log = [Cancel ''t1'', Flush ''p1'', Stop_Producer ''p1'', Flush ''p2'', Stop_Consumer ''c1'']\<rparr>"
proof -
  have "wf_manager (register_task ''loop'' ''t1'' (register_consumer ''in'' ''c1'' (register_producer (\<lambda>_. False) ''dlq'' ''p2''
        (register_producer (\<lambda>_. False) ''out'' ''p1'' lifecycle_manager_init))))"
    by (intro wf_manager_ops)
  from shutdown_all_trace [OF this, of "\<lambda>c. c = Flush ''p2''"] show ?thesis
    by (simp add: register_task_def register_consumer_def register_producer_def cancel_task_def cleanup_consumer_def
      cleanup_producer_def close_producer_def lifecycle_manager_init_def)
qed

end
