(* ===== verification/Schemas.thy ===== *)
theory Schemas
  imports Topics Exceptions
begin

text \<open>
  The event schemas of core/schemas/events.py and the envelope that
  MessageProducer.send (core/streaming/infrastructure/message_producer.py) wraps around a payload.
  Field names carry a prefix per record; \<open>Decimal\<close> prices are rationals, \<open>datetime\<close> values the
  records of the prelude.
\<close>

datatype event_type =
    MARKET_TICK | TRADING_SIGNAL | VALIDATED_SIGNAL | REJECTED_SIGNAL | ORDER_PLACED
  | ORDER_FILLED | ORDER_FAILED | PNL_SNAPSHOT | SYSTEM_ERROR

fun event_type_value :: "event_type \<Rightarrow> string" where
  "event_type_value MARKET_TICK = ''market_tick''"
| "event_type_value TRADING_SIGNAL = ''trading_signal''"
| "event_type_value VALIDATED_SIGNAL = ''validated_signal''"
| "event_type_value REJECTED_SIGNAL = ''rejected_signal''"
| "event_type_value ORDER_PLACED = ''order_placed''"
| "event_type_value ORDER_FILLED = ''order_filled''"
| "event_type_value ORDER_FAILED = ''order_failed''"
| "event_type_value PNL_SNAPSHOT = ''pnl_snapshot''"
| "event_type_value SYSTEM_ERROR = ''system_error''"

definition all_event_types :: "event_type list" where
  "all_event_types = [MARKET_TICK, TRADING_SIGNAL, VALIDATED_SIGNAL, REJECTED_SIGNAL, ORDER_PLACED,
     ORDER_FILLED, ORDER_FAILED, PNL_SNAPSHOT, SYSTEM_ERROR]"

text \<open>\<open>EventType(value)\<close>: \<open>None\<close> where the enum constructor raises.\<close>

definition event_type_of :: "string \<Rightarrow> event_type option" where
  "event_type_of v = find (\<lambda>t. event_type_value t = v) all_event_types"

datatype signal_type = BUY | SELL | HOLD

fun signal_type_value :: "signal_type \<Rightarrow> string" where
  "signal_type_value BUY = ''BUY''"
| "signal_type_value SELL = ''SELL''"
| "signal_type_value HOLD = ''HOLD''"

datatype execution_mode = PAPER | ZERODHA

datatype order_status = PENDING | PLACED | FILLED | CANCELLED | REJECTED | FAILED

record event_envelope =
  ev_id :: string
  ev_correlation_id :: string
  ev_causation_id :: "string option"
  ev_trace_id :: string
  ev_parent_trace_id :: "string option"
  ev_broker :: string
  ev_type :: event_type
  ev_ts :: datetime
  ev_key :: string
  ev_source :: string
  ev_version :: nat
  ev_data :: "(string \<times> json) list"

text \<open>\<open>new_id\<close> is what generate_event_id returns, \<open>now\<close> the clock.\<close>

definition create_child_event ::
  "string \<Rightarrow> datetime \<Rightarrow> event_envelope \<Rightarrow> event_type \<Rightarrow> (string \<times> json) list \<Rightarrow> string \<Rightarrow> string \<Rightarrow> event_envelope" where
  "create_child_event new_id now self event_type data source key =
     \<lparr>ev_id = new_id, ev_correlation_id = ev_correlation_id self, ev_causation_id = Some (ev_id self),
      ev_trace_id = ev_trace_id self, ev_parent_trace_id = Some (ev_id self), ev_broker = ev_broker self,
      ev_type = event_type, ev_ts = now, ev_key = key, ev_source = source, ev_version = 1, ev_data = data\<rparr>"

record trading_signal =
  ts_strategy_id :: string
  ts_instrument_token :: int
  ts_signal_type :: signal_type
  ts_quantity :: int
  ts_price :: "rat option"
  ts_timestamp :: datetime
  ts_confidence :: "rat option"
  ts_metadata :: "(string \<times> json) list option"

record validated_signal =
  vs_original_signal :: trading_signal
  vs_validated_quantity :: int
  vs_validated_price :: "rat option"
  vs_risk_checks :: "(string \<times> bool) list"
  vs_timestamp :: datetime

record rejected_signal =
  rs_original_signal :: trading_signal
  rs_rejection_reason :: string
  rs_risk_checks :: "(string \<times> bool) list"
  rs_timestamp :: datetime

record order_placed =
  op_order_id :: string
  op_instrument_token :: int
  op_signal_type :: signal_type
  op_quantity :: int
  op_price :: "rat option"
  op_timestamp :: datetime
  op_broker :: string
  op_status :: order_status
  op_strategy_id :: "string option"
  op_execution_mode :: "execution_mode option"

record order_filled =
  of_order_id :: string
  of_instrument_token :: int
  of_quantity :: int
  of_fill_price :: rat
  of_timestamp :: datetime
  of_broker :: string
  of_side :: signal_type
  of_strategy_id :: "string option"
  of_signal_type :: "signal_type option"
  of_execution_mode :: "execution_mode option"
  of_fees :: "rat option"

record order_failed =
  ofa_strategy_id :: string
  ofa_instrument_token :: int
  ofa_signal_type :: signal_type
  ofa_quantity :: int
  ofa_price :: "rat option"
  ofa_order_id :: string
  ofa_execution_mode :: execution_mode
  ofa_error_message :: string
  ofa_timestamp :: datetime
  ofa_broker :: string

record pnl_snapshot =
  pn_broker :: string
  pn_instrument_token :: "int option"
  pn_realized_pnl :: rat
  pn_unrealized_pnl :: rat
  pn_total_pnl :: rat
  pn_timestamp :: datetime

record market_depth_level =
  md_price :: rat
  md_quantity :: int
  md_orders :: int

record ohlc_data =
  oh_open :: rat
  oh_high :: rat
  oh_low :: rat
  oh_close :: rat

record market_tick =
  mt_instrument_token :: int
  mt_last_price :: rat
  mt_timestamp :: datetime
  mt_symbol :: "string option"
  mt_volume_traded :: "int option"
  mt_last_traded_quantity :: "int option"
  mt_average_traded_price :: "rat option"
  mt_total_buy_quantity :: "int option"
  mt_total_sell_quantity :: "int option"
  mt_change :: "rat option"
  mt_ohlc :: "ohlc_data option"
  mt_oi :: "int option"
  mt_oi_day_high :: "int option"
  mt_oi_day_low :: "int option"
  mt_last_trade_time :: "datetime option"
  mt_exchange_timestamp :: "datetime option"
  mt_depth :: "(market_depth_level list \<times> market_depth_level list) option"
  mt_mode :: "string option"
  mt_tradable :: "bool option"

subsection \<open>The producer's envelope\<close>

definition ends_with :: "string \<Rightarrow> string \<Rightarrow> bool" where
  "ends_with p s = starts_with (rev p) (rev s)"

definition is_market_ticks_topic :: "string \<Rightarrow> bool" where
  "is_market_ticks_topic t =
     (t \<in> {MARKET_TICKS, MARKET_EQUITY_TICKS, MARKET_CRYPTO_TICKS, MARKET_OPTIONS_TICKS, MARKET_FOREX_TICKS} \<or>
      starts_with ''market.'' t \<and> ends_with ''.ticks'' t)"

definition json_str :: "json option \<Rightarrow> string option" where
  "json_str v = (case v of Some (JStr s) \<Rightarrow> Some s | _ \<Rightarrow> None)"

text \<open>The type of the envelope: the caller's, else the payload's \<open>type\<close> (which must be an event
  type, or the envelope's schema refuses it), else market tick for market data topics;
  otherwise the send is refused.\<close>

definition resolve_event_type ::
  "string \<Rightarrow> (string \<times> json) list \<Rightarrow> event_type option \<Rightarrow> exn + event_type" where
  "resolve_event_type topic data event_type =
     (case event_type of
        Some t \<Rightarrow> Inr t
      | None \<Rightarrow>
          (case jget data ''type'' of
             Some v \<Rightarrow>
               (case Option.bind (json_str (Some v)) event_type_of of
                  Some t \<Rightarrow> Inr t
                | None \<Rightarrow> Inl (raise_exn (Other ''ValidationError'') ''type''))
           | None \<Rightarrow>
               if is_market_ticks_topic topic then Inr MARKET_TICK
               else Inl (raise_exn (Other ''ValueError'') ''event_type is required for non-market topics'')))"

text \<open>The trace fields of the payload: a falsy trace id is replaced by a new one, and the
  schema admits strings only (and a missing parent).\<close>

definition trace_field :: "string \<Rightarrow> json \<Rightarrow> exn + string" where
  "trace_field fresh v =
     (if \<not> py_truthy v then Inr fresh
      else case v of JStr s \<Rightarrow> Inr s | _ \<Rightarrow> Inl (raise_exn (Other ''ValidationError'') ''trace_id''))"

definition parent_field :: "json \<Rightarrow> exn + string option" where
  "parent_field v =
     (case v of JNull \<Rightarrow> Inr None | JStr s \<Rightarrow> Inr (Some s)
      | _ \<Rightarrow> Inl (raise_exn (Other ''ValidationError'') ''parent_trace_id''))"

text \<open>\<open>ids\<close> are the identifiers successive calls of generate_event_id return: for the
  event, and where needed for the correlation and the trace.\<close>

definition producer_envelope ::
  "string \<Rightarrow> (nat \<Rightarrow> string) \<Rightarrow> datetime \<Rightarrow> string \<Rightarrow> string \<Rightarrow> (string \<times> json) list \<Rightarrow>
   event_type option \<Rightarrow> string option \<Rightarrow> string \<Rightarrow> exn + event_envelope" where
  "producer_envelope service ids now topic key data event_type correlation_id broker =
     (case resolve_event_type topic data event_type of
        Inl e \<Rightarrow> Inl e
      | Inr t \<Rightarrow>
     (case trace_field (ids 2) (jget_none data ''trace_id'') of
        Inl e \<Rightarrow> Inl e
      | Inr trace \<Rightarrow>
     (case parent_field (jget_none data ''parent_trace_id'') of
        Inl e \<Rightarrow> Inl e
      | Inr parent \<Rightarrow>
          Inr \<lparr>ev_id = ids 0,
               ev_correlation_id = (case correlation_id of Some c \<Rightarrow> if c = [] then ids 1 else c | None \<Rightarrow> ids 1),
               ev_causation_id = None, ev_trace_id = trace, ev_parent_trace_id = parent,
               ev_broker = broker, ev_type = t, ev_ts = now, ev_key = key, ev_source = service,
               ev_version = 1, ev_data = data\<rparr>)))"

text \<open>MessageProducer.send: a payload that already has an \<open>id\<close> is sent as it is, any other is
  wrapped. \<open>kafka\<close> is send_and_wait of the Kafka client: the exception it raises, if any. The
  result is the id of the event.\<close>

datatype wire = Wrapped event_envelope | Raw "(string \<times> json) list"

definition producer_message ::
  "string \<Rightarrow> (nat \<Rightarrow> string) \<Rightarrow> datetime \<Rightarrow> string \<Rightarrow> string \<Rightarrow> (string \<times> json) list \<Rightarrow>
   event_type option \<Rightarrow> string option \<Rightarrow> string \<Rightarrow> exn + (json \<times> wire)" where
  "producer_message service ids now topic key data event_type correlation_id broker =
     (case jget data ''id'' of
        Some i \<Rightarrow> Inr (i, Raw data)
      | None \<Rightarrow>
          (case producer_envelope service ids now topic key data event_type correlation_id broker of
             Inl e \<Rightarrow> Inl e
           | Inr env \<Rightarrow> Inr (JStr (ev_id env), Wrapped env)))"

definition producer_send ::
  "(string \<Rightarrow> string \<Rightarrow> wire \<Rightarrow> exn option) \<Rightarrow> string \<Rightarrow> (nat \<Rightarrow> string) \<Rightarrow> datetime \<Rightarrow> string \<Rightarrow> string \<Rightarrow>
   (string \<times> json) list \<Rightarrow> event_type option \<Rightarrow> string option \<Rightarrow> string \<Rightarrow> exn + json" where
  "producer_send kafka service ids now topic key data event_type correlation_id broker =
     (case producer_message service ids now topic key data event_type correlation_id broker of
        Inl e \<Rightarrow> Inl e
      | Inr (i, w) \<Rightarrow>
          (case kafka topic key w of
             Some e \<Rightarrow> Inl (raise_exn (Other ''RuntimeError'') (''MessageProducer.send failed: '' @ exn_msg e))
           | None \<Rightarrow> Inr i))"

subsection \<open>Lineage of events\<close>

text \<open>A chain of child events: each entry names the new id, the time, and the arguments of
  create_child_event.\<close>

fun child_chain ::
  "event_envelope \<Rightarrow> (string \<times> datetime \<times> event_type \<times> (string \<times> json) list \<times> string \<times> string) list \<Rightarrow> event_envelope list" where
  "child_chain e [] = []"
| "child_chain e ((i, now, t, d, src, k) # xs) =
     (let c = create_child_event i now e t d src k in c # child_chain c xs)"

lemma child_chain_inherits:
  "c \<in> set (child_chain e xs) \<Longrightarrow> ev_correlation_id c = ev_correlation_id e \<and>
     ev_trace_id c = ev_trace_id e \<and> ev_broker c = ev_broker e"
  by (induction e xs rule: child_chain.induct) (auto simp: Let_def create_child_event_def)

lemma child_chain_links:
  "Suc i < length (e # child_chain e xs) \<Longrightarrow>
     ev_causation_id ((e # child_chain e xs) ! Suc i) = Some (ev_id ((e # child_chain e xs) ! i)) \<and>
     ev_parent_trace_id ((e # child_chain e xs) ! Suc i) = Some (ev_id ((e # child_chain e xs) ! i))"
proof (induction e xs arbitrary: i rule: child_chain.induct)
  case (2 e i0 now t d src k xs)
  let ?c = "create_child_event i0 now e t d src k"
  show ?case
  proof (cases i)
    case 0
    then show ?thesis by (simp add: Let_def create_child_event_def)
  next
    case (Suc j)
    with 2 show ?thesis by (simp add: Let_def)
  qed
qed simp

text \<open>Event lineage. In every chain of events derived by create_child_event, each event
  carries the root's correlation id, trace id and broker, and its causation id and parent trace
  id name exactly the event it was derived from.\<close>

theorem event_lineage:
  "(\<forall>c \<in> set (child_chain e xs). ev_correlation_id c = ev_correlation_id e \<and>
      ev_trace_id c = ev_trace_id e \<and> ev_broker c = ev_broker e) \<and>
   (\<forall>i. Suc i < length (e # child_chain e xs) \<longrightarrow>
      ev_causation_id ((e # child_chain e xs) ! Suc i) = Some (ev_id ((e # child_chain e xs) ! i)) \<and>
      ev_parent_trace_id ((e # child_chain e xs) ! Suc i) = Some (ev_id ((e # child_chain e xs) ! i)))"
  using child_chain_inherits child_chain_links by blast

theorem event_lineage_witness:
  "\<exists>e c. child_chain e [(''b'', \<lparr>dt_date = ''2025-01-02'', dt_time = ''09:20:00''\<rparr>, TRADING_SIGNAL, [], ''strategy_runner'', ''k'')] = [c] \<and>
     ev_causation_id c = Some (ev_id e) \<and> ev_correlation_id c = ev_correlation_id e"
proof -
  define e :: event_envelope where "e = \<lparr>ev_id = ''a'', ev_correlation_id = ''c'', ev_causation_id = None,
     ev_trace_id = ''t'', ev_parent_trace_id = None, ev_broker = ''paper'', ev_type = MARKET_TICK,
     ev_ts = \<lparr>dt_date = ''2025-01-02'', dt_time = ''09:20:00''\<rparr>, ev_key = ''k'', ev_source = ''s'', ev_version = 1, ev_data = []\<rparr>"
  let ?xs = "[(''b'', \<lparr>dt_date = ''2025-01-02'', dt_time = ''09:20:00''\<rparr>, TRADING_SIGNAL, [], ''strategy_runner'', ''k'')]"
  have len: "length (child_chain e ?xs) = 1" by (simp add: Let_def)
  then obtain c where c: "child_chain e ?xs = [c]" by (auto simp: length_Suc_conv)
  from event_lineage [of e ?xs] c show ?thesis by (intro exI [of _ e] exI [of _ c]) auto
qed

text \<open>No untyped event leaves the producer. When MessageProducer.send wraps a payload
  without an explicit event type, the envelope has the payload's own type when it names one and
  is a market tick otherwise, in which case the topic is a market data topic; it carries the
  caller's broker and key. On any other topic the send raises ValueError and nothing is built.\<close>

theorem producer_event_type:
  "(case producer_message service ids now topic key data None cid broker of
      Inr (i, Wrapped env) \<Rightarrow>
        (case jget data ''type'' of
           Some v \<Rightarrow> v = JStr (event_type_value (ev_type env))
         | None \<Rightarrow> ev_type env = MARKET_TICK \<and> starts_with ''market.'' topic) \<and>
        ev_broker env = broker \<and> ev_key env = key \<and> i = JStr (ev_id env)
    | Inr (i, Raw d) \<Rightarrow> d = data \<and> jget data ''id'' = Some i
    | Inl e \<Rightarrow> jget data ''type'' = None \<and> \<not> starts_with ''market.'' topic \<longrightarrow> exn_class e = Other ''ValueError'')"
proof -
  have et: "event_type_of s = Some t \<Longrightarrow> event_type_value t = s" for s t
    by (auto simp: event_type_of_def find_Some_iff)
  show ?thesis
    by (auto simp: producer_message_def producer_envelope_def resolve_event_type_def json_str_def
        is_market_ticks_topic_def market_topic_defs raise_exn_def Option.bind_eq_Some_conv dest!: et
        split: option.splits json.splits if_splits sum.splits)
qed

theorem producer_event_type_witness:
  "producer_message ''svc'' (\<lambda>_. ''id'') \<lparr>dt_date = [], dt_time = []\<rparr> ''paper.orders.filled'' ''k'' [] None None ''paper'' =
     Inl (raise_exn (Other ''ValueError'') ''event_type is required for non-market topics'')"
  using producer_event_type [where service = "''svc''" and ids = "\<lambda>_. ''id''" and now = "\<lparr>dt_date = [], dt_time = []\<rparr>"
      and topic = "''paper.orders.filled''" and key = "''k''" and data = "[]" and cid = None and broker = "''paper''"]
  by (simp add: producer_message_def producer_envelope_def resolve_event_type_def jget_def is_market_ticks_topic_def
      market_topic_defs)

end
