(* ===== verification/Risk_Manager.thy ===== *)
theory Risk_Manager
  imports Py_Format Schemas Redis_State
begin

text \<open>
  The risk manager service: the rules and the rule engine (services/risk_manager/rules.py), its
  Redis-backed state (services/risk_manager/state.py) and the message handlers
  (services/risk_manager/service.py). A signal is the JSON object the code passes around. The
  Redis client, pydantic's construction of a TradingSignal and the Kafka producer are
  parameters. Pipeline metrics, tracing and logging, whose failures the code swallows, are left out.
\<close>

subsection \<open>Rules\<close>

record risk_state =
  rk_positions :: "string \<rightharpoonup> json"
  rk_values :: "string \<rightharpoonup> json"

datatype risk_rule = MaxPositionSizeRule int | MaxDailyTradesRule int | PriceLimitRule rat

fun rule_name :: "risk_rule \<Rightarrow> string" where
  "rule_name (MaxPositionSizeRule _) = ''MaxPositionSize''"
| "rule_name (MaxDailyTradesRule _) = ''MaxDailyTrades''"
| "rule_name (PriceLimitRule _) = ''PriceLimit''"

definition type_error :: "string \<Rightarrow> exn" where
  "type_error m = raise_exn (Other ''TypeError'') m"

definition value_error :: "string \<Rightarrow> exn" where
  "value_error m = raise_exn (Other ''ValueError'') m"

definition check_position ::
  "int \<Rightarrow> (string \<times> json) list \<Rightarrow> risk_state \<Rightarrow> exn + (bool \<times> string)" where
  "check_position max_position sig st =
     (let quantity = (case jget sig ''quantity'' of None \<Rightarrow> JInt 0 | Some q \<Rightarrow> q);
          current_position =
            (case rk_positions st (py_str (jget_none sig ''instrument_token'')) of None \<Rightarrow> JInt 0 | Some p \<Rightarrow> p);
          new_position =
            (if jget_none sig ''signal_type'' = JStr ''BUY'' then py_add current_position quantity
             else py_sub current_position quantity)
      in case new_position of
           None \<Rightarrow> Inl (type_error ''unsupported operand type(s)'')
         | Some p \<Rightarrow>
             if the (py_num (py_abs p)) > of_int max_position
             then Inr (False, ''Position size '' @ py_str (py_abs p) @ '' exceeds maximum '' @ show_int max_position)
             else Inr (True, ''Position size within limits''))"

text \<open>\<open>today\<close> is the date the clock shows, in ISO form.\<close>

definition check_daily_trades ::
  "int \<Rightarrow> string \<Rightarrow> (string \<times> json) list \<Rightarrow> risk_state \<Rightarrow> exn + (bool \<times> string)" where
  "check_daily_trades max_daily_trades today sig st =
     (let strategy_id = py_str (jget_none sig ''strategy_id'');
          daily_trades =
            (case rk_values st (''daily_trades_'' @ strategy_id @ ''_'' @ today) of None \<Rightarrow> JInt 0 | Some n \<Rightarrow> n)
      in case py_num daily_trades of
           None \<Rightarrow> Inl (type_error ''unsupported operand type(s)'')
         | Some n \<Rightarrow>
             if n \<ge> of_int max_daily_trades
             then Inr (False, ''Daily trade limit '' @ show_int max_daily_trades @ '' exceeded for strategy '' @ strategy_id)
             else Inr (True, ''Daily trade limit not exceeded''))"

text \<open>\<open>float(v)\<close> where Python raises: ValueError on a text, TypeError on a container.\<close>

definition py_float :: "json \<Rightarrow> exn + rat" where
  "py_float v =
     (case float_of_json v of
        Some r \<Rightarrow> Inr r
      | None \<Rightarrow> Inl (case v of JStr s \<Rightarrow> value_error (''could not convert string to float: '' @ s)
                    | _ \<Rightarrow> type_error ''float() argument must be a string or a real number''))"

definition check_price_limit ::
  "rat \<Rightarrow> (string \<times> json) list \<Rightarrow> risk_state \<Rightarrow> exn + (bool \<times> string)" where
  "check_price_limit max_price_deviation sig st =
     (let signal_price = jget_none sig ''price'';
          recent_price =
            (case rk_values st (''recent_price_'' @ py_str (jget_none sig ''instrument_token'')) of
               None \<Rightarrow> JNull | Some p \<Rightarrow> p)
      in if \<not> py_truthy signal_price then Inr (True, ''No price specified in signal'')
         else if \<not> py_truthy recent_price then Inr (True, ''No recent price available for comparison'')
         else case py_float signal_price of
             Inl e \<Rightarrow> Inl e
           | Inr sp \<Rightarrow>
          (case py_float recent_price of
             Inl e \<Rightarrow> Inl e
           | Inr rp \<Rightarrow>
               if rp = 0 then Inr (True, ''Cannot validate against zero price'')
               else let price_deviation = \<bar>sp - rp\<bar> / rp in
                 if price_deviation > max_price_deviation
                 then Inr (False, ''Price deviation '' @ show_percent2 price_deviation @
                            '' exceeds limit '' @ show_percent2 max_price_deviation)
                 else Inr (True, ''Price within acceptable deviation'')))"

fun check_rule ::
  "string \<Rightarrow> risk_rule \<Rightarrow> (string \<times> json) list \<Rightarrow> risk_state \<Rightarrow> exn + (bool \<times> string)" where
  "check_rule today (MaxPositionSizeRule m) sig st = check_position m sig st"
| "check_rule today (MaxDailyTradesRule m) sig st = check_daily_trades m today sig st"
| "check_rule today (PriceLimitRule d) sig st = check_price_limit d sig st"

definition engine_rules :: "risk_rule list" where
  "engine_rules = [MaxPositionSizeRule 1000, MaxDailyTradesRule 50, PriceLimitRule (1/10)]"

record evaluation =
  passed :: bool
  rule_results :: "(string \<times> bool) list"
  rejection_reasons :: "string list"

fun evaluate_rules ::
  "string \<Rightarrow> risk_rule list \<Rightarrow> (string \<times> json) list \<Rightarrow> risk_state \<Rightarrow> evaluation \<Rightarrow> exn + evaluation" where
  "evaluate_rules today [] sig st acc = Inr acc"
| "evaluate_rules today (r # rs) sig st acc =
     (case check_rule today r sig st of
        Inl e \<Rightarrow> Inl e
      | Inr (ok, reason) \<Rightarrow>
          evaluate_rules today rs sig st
            (let acc' = acc\<lparr>rule_results := dict_set (rule_name r) ok (rule_results acc)\<rparr> in
             if ok then acc'
             else acc'\<lparr>passed := False, rejection_reasons := rejection_reasons acc @ [rule_name r @ '': '' @ reason]\<rparr>))"

definition evaluate_signal :: "string \<Rightarrow> (string \<times> json) list \<Rightarrow> risk_state \<Rightarrow> exn + evaluation" where
  "evaluate_signal today sig st =
     evaluate_rules today engine_rules sig st \<lparr>passed = True, rule_results = [], rejection_reasons = []\<rparr>"

subsection \<open>RiskStateManager\<close>

text \<open>The collection manager the class extends, and its key-value manager.\<close>

record risk_mgr =
  rsm_coll :: mgr
  rsm_kv :: mgr

definition risk_mgr_init :: risk_mgr where
  "risk_mgr_init = \<lparr>rsm_coll = \<lparr>service_prefix = ''risk'', namespace = None\<rparr>,
     rsm_kv = \<lparr>service_prefix = ''risk'', namespace = None\<rparr>\<rparr>"

definition rsm_initialize :: "string option \<Rightarrow> risk_mgr \<Rightarrow> risk_mgr" where
  "rsm_initialize ns m =
     m\<lparr>rsm_coll := mgr_initialize ns (rsm_coll m), rsm_kv := mgr_initialize ns (rsm_kv m)\<rparr>"

text \<open>The entries of the risk state read back from keys that carry the marker \<open>tag\<close>.\<close>

fun state_entries ::
  "string \<Rightarrow> (rvalue \<Rightarrow> json option) \<Rightarrow> (string \<times> rvalue option) list \<Rightarrow> (string \<rightharpoonup> json) \<Rightarrow> exn + (string \<rightharpoonup> json)" where
  "state_entries tag conv [] acc = Inr acc"
| "state_entries tag conv ((k, None) # kvs) acc = state_entries tag conv kvs acc"
| "state_entries tag conv ((k, Some v) # kvs) acc =
     (case split_second tag k of
        None \<Rightarrow> state_entries tag conv kvs acc
      | Some part \<Rightarrow>
          (case conv v of
             None \<Rightarrow> Inl (value_error ''could not convert string'')
           | Some j \<Rightarrow> state_entries tag conv kvs (acc(tag @ part \<mapsto> j))))"

definition state_pattern :: "risk_mgr \<Rightarrow> string \<Rightarrow> string" where
  "state_pattern m p =
     (if ns_truthy (rsm_coll m) then the (namespace (rsm_coll m)) @ '':risk:'' @ p else ''risk:'' @ p)"

definition load_entries ::
  "'r redis \<Rightarrow> string \<Rightarrow> (rvalue \<Rightarrow> json option) \<Rightarrow> string \<Rightarrow> (string \<rightharpoonup> json, 'r) rm" where
  "load_entries R tag conv pat =
     rbind (get_keys_by_pattern R pat)
       (\<lambda>keys. if keys = [] then rret Map.empty
          else rbind (get_multiple_values R keys)
            (\<lambda>kvs. case state_entries tag conv kvs Map.empty of Inl e \<Rightarrow> rraise e | Inr d \<Rightarrow> rret d))"

definition get_state :: "'r redis \<Rightarrow> (string \<Rightarrow> json option) \<Rightarrow> risk_mgr \<Rightarrow> (risk_state, 'r) rm" where
  "get_state R loads m =
     rbind (get_collection R loads (rsm_coll m) ''positions'')
       (\<lambda>positions. rbind (load_entries R ''daily_trades_'' (map_option JInt \<circ> rv_int) (state_pattern m ''counter:daily_trades_*''))
       (\<lambda>daily_trades. rbind (load_entries R ''recent_price_'' (map_option JNum \<circ> rv_float) (state_pattern m ''value:recent_price_*''))
       (\<lambda>recent_prices. rret \<lparr>rk_positions = positions, rk_values = daily_trades ++ recent_prices\<rparr>)))"

text \<open>\<open>position or 0\<close>.\<close>

definition or_zero :: "json option \<Rightarrow> json" where
  "or_zero v = (case v of None \<Rightarrow> JInt 0 | Some j \<Rightarrow> if py_truthy j then j else JInt 0)"

definition rvalue_of_num :: "json \<Rightarrow> rvalue" where
  "rvalue_of_num v = (case v of JInt i \<Rightarrow> RInt i | JNum r \<Rightarrow> RNum r | _ \<Rightarrow> RJson v)"

definition update_position ::
  "'r redis \<Rightarrow> (string \<Rightarrow> json option) \<Rightarrow> risk_mgr \<Rightarrow> int \<Rightarrow> string \<Rightarrow> int \<Rightarrow> (unit, 'r) rm" where
  "update_position R loads m instrument_token signal_type quantity =
     rbind (get_collection_item R loads (rsm_coll m) ''positions'' (show_int instrument_token))
       (\<lambda>v. case (if signal_type = ''BUY'' then py_add (or_zero v) (JInt quantity) else py_sub (or_zero v) (JInt quantity)) of
           None \<Rightarrow> rraise (type_error ''unsupported operand type(s)'')
         | Some p \<Rightarrow> set_collection_item R (rsm_coll m) ''positions'' (show_int instrument_token) (rvalue_of_num p) None)"

definition daily_key :: "string \<Rightarrow> string option \<Rightarrow> string \<Rightarrow> string" where
  "daily_key strategy_id broker today =
     (case broker of
        Some b \<Rightarrow> if b \<noteq> [] then ''daily_trades_'' @ b @ ''_'' @ strategy_id @ ''_'' @ today
                  else ''daily_trades_'' @ strategy_id @ ''_'' @ today
      | None \<Rightarrow> ''daily_trades_'' @ strategy_id @ ''_'' @ today)"

definition increment_daily_trades ::
  "'r redis \<Rightarrow> risk_mgr \<Rightarrow> string \<Rightarrow> string \<Rightarrow> string option \<Rightarrow> (unit, 'r) rm" where
  "increment_daily_trades R m today strategy_id broker =
     rbind (increment_counter R (rsm_kv m) (daily_key strategy_id broker today) 1 (Some 172800)) (\<lambda>_. rret ())"

definition update_recent_price :: "'r redis \<Rightarrow> risk_mgr \<Rightarrow> string \<Rightarrow> rat \<Rightarrow> (unit, 'r) rm" where
  "update_recent_price R m instrument_token price =
     kv_set_value R (rsm_kv m) (''recent_price_'' @ instrument_token) (RNum price) (Some 3600)"

definition get_position :: "'r redis \<Rightarrow> (string \<Rightarrow> json option) \<Rightarrow> risk_mgr \<Rightarrow> int \<Rightarrow> (json, 'r) rm" where
  "get_position R loads m instrument_token =
     rbind (get_collection_item R loads (rsm_coll m) ''positions'' (show_int instrument_token))
       (\<lambda>v. rret (or_zero v))"

definition get_daily_trades :: "'r redis \<Rightarrow> risk_mgr \<Rightarrow> string \<Rightarrow> string \<Rightarrow> (int, 'r) rm" where
  "get_daily_trades R m today strategy_id = get_counter R (rsm_kv m) (daily_key strategy_id None today)"

subsection \<open>RiskManagerService\<close>

datatype risk_payload = PValidated validated_signal | PRejected rejected_signal

record risk_event =
  re_topic :: string
  re_key :: string
  re_payload :: risk_payload
  re_type :: event_type
  re_broker :: string

record 'r risk_world =
  rw_redis :: 'r
  rw_sent :: "risk_event list"
  rw_processed :: nat
  rw_errors :: nat

text \<open>What the handlers use from outside: the Redis client, \<open>json.loads\<close> on stored text,
  pydantic's TradingSignal constructor, the producer (the exception it raises, which may depend on
  what was sent before), and the clock, read once per message.\<close>

record 'r risk_env =
  en_redis :: "'r redis"
  en_loads :: "string \<Rightarrow> json option"
  en_parse :: "(string \<times> json) list \<Rightarrow> exn + trading_signal"
  en_send :: "risk_event list \<Rightarrow> risk_event \<Rightarrow> exn option"
  en_now :: datetime
  en_today :: string

record in_message =
  im_type :: json
  im_data :: "(string \<times> json) list"

definition on_redis :: "('a, 'r) rm \<Rightarrow> ('a, 'r risk_world) rm" where
  "on_redis m = (\<lambda>w. case m (rw_redis w) of (x, s) \<Rightarrow> (x, w\<lparr>rw_redis := s\<rparr>))"

definition service_start :: "string list \<Rightarrow> risk_mgr \<Rightarrow> risk_mgr" where
  "service_start active_brokers m = fold (\<lambda>b. rsm_initialize (Some b)) active_brokers m"

definition is_event_type :: "in_message \<Rightarrow> event_type \<Rightarrow> bool" where
  "is_event_type message et =
     (case im_type message of
        JStr t \<Rightarrow> t = event_type_value et \<or> str_lower t = event_type_value et
      | _ \<Rightarrow> False)"

definition emit_signal :: "'r risk_env \<Rightarrow> risk_event \<Rightarrow> (unit, 'r risk_world) rm" where
  "emit_signal E e = (\<lambda>w.
     case en_send E (rw_sent w) e of
       Some x \<Rightarrow> (Inl x, w)
     | None \<Rightarrow> (Inr (), w\<lparr>rw_sent := rw_sent w @ [e]\<rparr>))"

definition emit_validated_signal ::
  "'r risk_env \<Rightarrow> string \<Rightarrow> (string \<times> json) list \<Rightarrow> evaluation \<Rightarrow> string \<Rightarrow> (unit, 'r risk_world) rm" where
  "emit_validated_signal E key signal_data res broker =
     (case en_parse E signal_data of
        Inl e \<Rightarrow> rraise e
      | Inr original_signal \<Rightarrow>
          emit_signal E \<lparr>re_topic = signals_validated broker, re_key = key,
            re_payload = PValidated \<lparr>vs_original_signal = original_signal,
               vs_validated_quantity = ts_quantity original_signal,
               vs_validated_price = ts_price original_signal,
               vs_risk_checks = rule_results res, vs_timestamp = en_now E\<rparr>,
            re_type = VALIDATED_SIGNAL, re_broker = broker\<rparr>)"

definition emit_rejected_signal ::
  "'r risk_env \<Rightarrow> string \<Rightarrow> (string \<times> json) list \<Rightarrow> evaluation \<Rightarrow> string \<Rightarrow> (unit, 'r risk_world) rm" where
  "emit_rejected_signal E key signal_data res broker =
     (case en_parse E signal_data of
        Inl e \<Rightarrow> rraise e
      | Inr original_signal \<Rightarrow>
          emit_signal E \<lparr>re_topic = signals_rejected broker, re_key = key,
            re_payload = PRejected \<lparr>rs_original_signal = original_signal,
               rs_rejection_reason = join_str ''; '' (rejection_reasons res),
               rs_risk_checks = rule_results res, rs_timestamp = en_now E\<rparr>,
            re_type = REJECTED_SIGNAL, re_broker = broker\<rparr>)"

definition update_risk_state_for_signal ::
  "'r risk_env \<Rightarrow> risk_mgr \<Rightarrow> (string \<times> json) list \<Rightarrow> string \<Rightarrow> (unit, 'r) rm" where
  "update_risk_state_for_signal E m signal_data broker =
     (let strategy_id = jget_none signal_data ''strategy_id'' in
      if py_truthy strategy_id
      then increment_daily_trades (en_redis E) m (en_today E) (py_str strategy_id) (Some broker)
      else rret ())"

definition validate_and_emit ::
  "'r risk_env \<Rightarrow> risk_mgr \<Rightarrow> string \<Rightarrow> in_message \<Rightarrow> string \<Rightarrow> (unit, 'r risk_world) rm" where
  "validate_and_emit E m key message broker =
     (let signal_data = im_data message in
      rbind (on_redis (get_state (en_redis E) (en_loads E) m))
        (\<lambda>st. case evaluate_signal (en_today E) signal_data st of
            Inl e \<Rightarrow> rraise e
          | Inr res \<Rightarrow>
              if passed res
              then rbind (emit_validated_signal E key signal_data res broker)
                     (\<lambda>_. on_redis (update_risk_state_for_signal E m signal_data broker))
              else emit_rejected_signal E key signal_data res broker))"

definition handle_trading_signal ::
  "'r risk_env \<Rightarrow> risk_mgr \<Rightarrow> string \<Rightarrow> in_message \<Rightarrow> string \<Rightarrow> (unit, 'r risk_world) rm" where
  "handle_trading_signal E m key message broker =
     (if \<not> is_event_type message TRADING_SIGNAL then rret ()
      else (\<lambda>w. case validate_and_emit E m key message broker w of
              (Inr _, w') \<Rightarrow> (Inr (), w'\<lparr>rw_processed := rw_processed w' + 1\<rparr>)
            | (Inl e, w') \<Rightarrow> (Inl e, w'\<lparr>rw_errors := rw_errors w' + 1\<rparr>)))"

definition handle_market_tick ::
  "'r risk_env \<Rightarrow> risk_mgr \<Rightarrow> in_message \<Rightarrow> (unit, 'r risk_world) rm" where
  "handle_market_tick E m message =
     (if \<not> is_event_type message MARKET_TICK then rret ()
      else let instrument_token = jget_none (im_data message) ''instrument_token'';
               last_price = jget_none (im_data message) ''last_price''
           in if py_truthy instrument_token \<and> py_truthy last_price
              then (case py_float last_price of
                      Inl e \<Rightarrow> rraise e
                    | Inr p \<Rightarrow> on_redis (update_recent_price (en_redis E) m (py_str instrument_token) p))
              else rret ())"

definition message_key :: "(string \<times> json) list \<Rightarrow> string" where
  "message_key data =
     (let part = (\<lambda>k. case jget data k of None \<Rightarrow> [] | Some v \<Rightarrow> py_str v)
      in part ''strategy_id'' @ '':'' @ part ''instrument_token'')"

definition handle_message ::
  "'r risk_env \<Rightarrow> risk_mgr \<Rightarrow> in_message \<Rightarrow> string \<Rightarrow> (unit, 'r risk_world) rm" where
  "handle_message E m message topic =
     (let broker = get_broker_from_topic topic in
      if is_event_type message TRADING_SIGNAL
      then handle_trading_signal E m (message_key (im_data message)) message broker
      else if is_event_type message MARKET_TICK then handle_market_tick E m message
      else rret ())"

subsection \<open>What the rules decide\<close>

lemma eval_rules_passed:
  "evaluate_rules today rs sig st acc = Inr res \<Longrightarrow>
     (passed res \<longleftrightarrow> passed acc \<and> (\<forall>r \<in> set rs. \<exists>why. check_rule today r sig st = Inr (True, why))) \<and>
     (passed acc = (rejection_reasons acc = []) \<longrightarrow> passed res = (rejection_reasons res = []))"
proof (induction rs arbitrary: acc)
  case (Cons r rs)
  from Cons.prems obtain ok why where c: "check_rule today r sig st = Inr (ok, why)"
    by (auto split: sum.splits prod.splits)
  show ?case using Cons.prems Cons.IH c
    by (cases ok) (fastforce simp: Let_def)+
qed simp

lemma evaluate_passed_iff:
  "evaluate_signal today sig st = Inr res \<Longrightarrow>
     passed res \<longleftrightarrow> (\<forall>r \<in> set engine_rules. \<exists>why. check_rule today r sig st = Inr (True, why))"
  using eval_rules_passed [of today engine_rules sig st "\<lparr>passed = True, rule_results = [], rejection_reasons = []\<rparr>" res]
  by (simp add: evaluate_signal_def)

lemma evaluate_reasons:
  "evaluate_signal today sig st = Inr res \<Longrightarrow> passed res = (rejection_reasons res = [])"
  using eval_rules_passed [of today engine_rules sig st "\<lparr>passed = True, rule_results = [], rejection_reasons = []\<rparr>" res]
  by (auto simp: evaluate_signal_def)

lemma evaluate_total:
  assumes "\<And>r. r \<in> set rs \<Longrightarrow> \<exists>ok why. check_rule today r sig st = Inr (ok, why)"
  shows "\<exists>res. evaluate_rules today rs sig st acc = Inr res"
  using assms
proof (induction rs arbitrary: acc)
  case (Cons r rs)
  from Cons.prems [of r] obtain ok why where c: "check_rule today r sig st = Inr (ok, why)" by auto
  show ?case using Cons.IH Cons.prems c by simp
qed simp


text \<open>What a dynamically typed field stands for, where it has the type the schema gives it.\<close>

definition int_field :: "json option \<Rightarrow> int option" where
  "int_field v = (case v of None \<Rightarrow> Some 0 | Some (JInt i) \<Rightarrow> Some i | _ \<Rightarrow> None)"

definition price_field :: "json option \<Rightarrow> rat option option" where
  "price_field v = (case v of None \<Rightarrow> Some None
     | Some j \<Rightarrow> if py_truthy j then map_option Some (float_of_json j) else Some None)"

text \<open>The decision the rules are meant to take.\<close>

definition risk_accepts :: "bool \<Rightarrow> int \<Rightarrow> int \<Rightarrow> int \<Rightarrow> rat option \<Rightarrow> rat option \<Rightarrow> bool" where
  "risk_accepts buy position quantity trades price recent =
     (\<bar>if buy then position + quantity else position - quantity\<bar> \<le> 1000 \<and> trades < 50 \<and>
      (case (price, recent) of (Some p, Some r) \<Rightarrow> \<bar>p - r\<bar> \<le> r / 10 | _ \<Rightarrow> True))"

lemma check_position_ints:
  assumes "int_field (jget sig ''quantity'') = Some q"
    and "int_field (rk_positions st (py_str (jget_none sig ''instrument_token''))) = Some p"
  shows "\<exists>why. check_position m sig st =
     Inr (\<bar>if jget_none sig ''signal_type'' = JStr ''BUY'' then p + q else p - q\<bar> \<le> m, why)"
proof -
  have "(case jget sig ''quantity'' of None \<Rightarrow> JInt 0 | Some q \<Rightarrow> q) = JInt q"
    "(case rk_positions st (py_str (jget_none sig ''instrument_token'')) of None \<Rightarrow> JInt 0 | Some p \<Rightarrow> p) = JInt p"
    using assms by (auto simp: int_field_def split: option.splits json.splits)
  then show ?thesis
    by (cases "jget_none sig ''signal_type'' = JStr ''BUY''")
      (simp_all add: check_position_def Let_def not_less del: of_int_abs of_int_add of_int_diff)
qed

lemma check_daily_trades_ints:
  assumes "int_field (rk_values st (''daily_trades_'' @ py_str (jget_none sig ''strategy_id'') @ ''_'' @ today)) = Some n"
  shows "\<exists>why. check_daily_trades m today sig st = Inr (n < m, why)"
  using assms by (auto simp: check_daily_trades_def Let_def int_field_def not_less split: option.splits json.splits)

lemma py_float_of: "float_of_json j = Some r \<Longrightarrow> py_float j = Inr r"
  by (simp add: py_float_def)

lemma check_price_limit_field:
  assumes sp: "price_field (jget sig ''price'') = Some sp"
    and rp: "price_field (rk_values st (''recent_price_'' @ py_str (jget_none sig ''instrument_token''))) = Some rp"
    and pos: "\<forall>r. rp = Some r \<longrightarrow> 0 < r"
  shows "\<exists>why. check_price_limit d sig st =
     Inr (case (sp, rp) of (Some p, Some r) \<Rightarrow> \<bar>p - r\<bar> \<le> r * d | _ \<Rightarrow> True, why)"
proof (cases sp)
  case None
  with sp have "\<not> py_truthy (jget_none sig ''price'')"
    by (auto simp: price_field_def jget_none_def split: option.splits if_splits)
  with None show ?thesis by (simp add: check_price_limit_def)
next
  case (Some p)
  with sp have t: "py_truthy (jget_none sig ''price'')" and f: "float_of_json (jget_none sig ''price'') = Some p"
    by (auto simp: price_field_def jget_none_def split: option.splits if_splits)
  show ?thesis
  proof (cases rp)
    case None
    with rp t Some show ?thesis
      by (auto simp: price_field_def check_price_limit_def split: option.splits if_splits)
  next
    case (Some r)
    with rp obtain j where j: "rk_values st (''recent_price_'' @ py_str (jget_none sig ''instrument_token'')) = Some j"
      "py_truthy j" "float_of_json j = Some r"
      by (auto simp: price_field_def split: option.splits if_splits)
    from Some pos have "0 < r" by simp
    with j t f Some \<open>sp = Some p\<close> show ?thesis
      by (auto simp: check_price_limit_def py_float_of divide_le_eq mult.commute not_less less_divide_eq)
  qed
qed

lemma engine_rules_set: "set engine_rules = {MaxPositionSizeRule 1000, MaxDailyTradesRule 50, PriceLimitRule (1/10)}"
  by (simp add: engine_rules_def)



subsection \<open>What a handled message does\<close>

text \<open>The manager after a start whose last broker is \<open>ns\<close>.\<close>

definition risk_mgr_of :: "string \<Rightarrow> risk_mgr" where
  "risk_mgr_of ns = \<lparr>rsm_coll = \<lparr>service_prefix = ''risk'', namespace = Some ns\<rparr>,
     rsm_kv = \<lparr>service_prefix = ''risk'', namespace = Some ns\<rparr>\<rparr>"

lemma service_start_last: "bs \<noteq> [] \<Longrightarrow> service_start bs risk_mgr_init = risk_mgr_of (last bs)"
proof (induction bs rule: rev_induct)
  case (snoc b bs)
  have "rsm_initialize (Some b) risk_mgr_init = risk_mgr_of b" "rsm_initialize (Some b) (risk_mgr_of c) = risk_mgr_of b" for c
    by (simp_all add: rsm_initialize_def risk_mgr_init_def risk_mgr_of_def mgr_initialize_def)
  with snoc show ?case
    by (cases "bs = []") (simp_all add: service_start_def)
qed simp

lemma get_multiple_ok:
  "redis_ok R view \<Longrightarrow> get_multiple_values R ks s = (Inr kvs, s') \<Longrightarrow>
     kvs = map (\<lambda>k. (k, view s k)) ks \<and> view s' = view s"
  by (auto simp: get_multiple_values_def rbind_Inr zip_map2 zip_same_conv_map split: if_splits dest: redis_mgetD)

lemma load_entries_ok:
  assumes ok: "redis_ok R view" and g: "glob_free p"
    and eq: "load_entries R tag conv (p @ ''*'') s = (Inr d, s')"
  shows "view s' = view s \<and>
    (\<exists>ks. set ks = {k. view s k \<noteq> None \<and> starts_with p k} \<and> distinct ks \<and>
       state_entries tag conv (map (\<lambda>k. (k, view s k)) ks) Map.empty = Inr d)"
proof -
  from eq obtain ks s1 where ks: "get_keys_by_pattern R (p @ ''*'') s = (Inr ks, s1)"
    and rest: "(if ks = [] then rret Map.empty else rbind (get_multiple_values R ks)
            (\<lambda>kvs. case state_entries tag conv kvs Map.empty of Inl e \<Rightarrow> rraise e | Inr d \<Rightarrow> rret d)) s1 = (Inr d, s')"
    by (auto simp: load_entries_def rbind_Inr)
  from get_keys_ok [OF ok, OF g, OF ks] have k: "set ks = {k. view s k \<noteq> None \<and> starts_with p k}" "distinct ks" "view s1 = view s"
    by auto
  show ?thesis
  proof (cases "ks = []")
    case True
    with rest k show ?thesis by (intro conjI exI [of _ ks]) auto
  next
    case False
    with rest obtain kvs s2 where m: "get_multiple_values R ks s1 = (Inr kvs, s2)"
      and e: "(case state_entries tag conv kvs Map.empty of Inl e \<Rightarrow> rraise e | Inr d \<Rightarrow> rret d) s2 = (Inr d, s')"
      by (auto simp: rbind_Inr)
    from e have "state_entries tag conv kvs Map.empty = Inr d" "s' = s2"
      by (auto split: sum.splits)
    with get_multiple_ok [OF ok, OF m] k show ?thesis by (intro conjI exI [of _ ks]) auto
  qed
qed

lemma get_collection_view:
  assumes ok: "redis_ok R view" and g: "glob_free (get_key m ''collection'' (c @ '':''))"
    and eq: "get_collection R loads m c s = (Inr d, s')"
  shows "view s' = view s"
proof -
  have pat: "get_key m ''collection'' (c @ '':*'') = get_key m ''collection'' (c @ '':'') @ ''*''"
    by (simp add: get_key_def Let_def)
  from eq [unfolded get_collection_def pat] obtain ks s1 where ks: "get_keys_by_pattern R (get_key m ''collection'' (c @ '':'') @ ''*'') s = (Inr ks, s1)"
    and rest: "s' = s1 \<or> (\<exists>kvs. get_multiple_values R ks s1 = (Inr kvs, s'))"
    by (auto simp: rbind_Inr split: if_splits)
  from get_keys_ok [OF ok, OF g, OF ks] rest show ?thesis by (auto dest: get_multiple_ok [OF ok])
qed

definition counter_prefix :: "string \<Rightarrow> string" where
  "counter_prefix ns = ns @ '':risk:counter:daily_trades_''"

definition price_prefix :: "string \<Rightarrow> string" where
  "price_prefix ns = ns @ '':risk:value:recent_price_''"

lemma state_patterns:
  "ns \<noteq> [] \<Longrightarrow> state_pattern (risk_mgr_of ns) ''counter:daily_trades_*'' = counter_prefix ns @ ''*''"
  "ns \<noteq> [] \<Longrightarrow> state_pattern (risk_mgr_of ns) ''value:recent_price_*'' = price_prefix ns @ ''*''"
  by (simp_all add: state_pattern_def risk_mgr_of_def ns_truthy_def counter_prefix_def price_prefix_def)

lemma glob_free_append [simp]: "glob_free (a @ b) \<longleftrightarrow> glob_free a \<and> glob_free b"
  by (auto simp: glob_free_def)

lemma get_state_ok:
  assumes ok: "redis_ok R view" and ns: "ns \<noteq> []" "glob_free ns"
    and eq: "get_state R loads (risk_mgr_of ns) s = (Inr st, s')"
  shows "view s' = view s \<and> (\<exists>d p ks ks'. rk_values st = d ++ p \<and>
     set ks = {k. view s k \<noteq> None \<and> starts_with (counter_prefix ns) k} \<and>
     state_entries ''daily_trades_'' (map_option JInt \<circ> rv_int) (map (\<lambda>k. (k, view s k)) ks) Map.empty = Inr d \<and>
     set ks' = {k. view s k \<noteq> None \<and> starts_with (price_prefix ns) k} \<and> distinct ks' \<and>
     state_entries ''recent_price_'' (map_option JNum \<circ> rv_float) (map (\<lambda>k. (k, view s k)) ks') Map.empty = Inr p)"
proof -
  from eq obtain c s1 d s2 p where c: "get_collection R loads (rsm_coll (risk_mgr_of ns)) ''positions'' s = (Inr c, s1)"
    and d: "load_entries R ''daily_trades_'' (map_option JInt \<circ> rv_int) (counter_prefix ns @ ''*'') s1 = (Inr d, s2)"
    and p: "load_entries R ''recent_price_'' (map_option JNum \<circ> rv_float) (price_prefix ns @ ''*'') s2 = (Inr p, s')"
    and st: "st = \<lparr>rk_positions = c, rk_values = d ++ p\<rparr>"
    by (auto simp: get_state_def rbind_Inr state_patterns ns)
  have gf: "glob_free (get_key (rsm_coll (risk_mgr_of ns)) ''collection'' (''positions'' @ '':''))"
    "glob_free (counter_prefix ns)" "glob_free (price_prefix ns)"
    using ns by (auto simp: risk_mgr_of_def get_key_def ns_truthy_def counter_prefix_def price_prefix_def glob_free_def)
  have v1: "view s1 = view s" by (rule get_collection_view [OF ok, OF gf(1), OF c])
  note D = load_entries_ok [OF ok, OF gf(2), OF d] and P = load_entries_ok [OF ok, OF gf(3), OF p]
  from D obtain ks where ks: "view s2 = view s1" "set ks = {k. view s1 k \<noteq> None \<and> starts_with (counter_prefix ns) k}"
     "state_entries ''daily_trades_'' (map_option JInt \<circ> rv_int) (map (\<lambda>k. (k, view s1 k)) ks) Map.empty = Inr d" by auto
  from P obtain ks' where ks': "view s' = view s2" "set ks' = {k. view s2 k \<noteq> None \<and> starts_with (price_prefix ns) k}" "distinct ks'"
     "state_entries ''recent_price_'' (map_option JNum \<circ> rv_float) (map (\<lambda>k. (k, view s2 k)) ks') Map.empty = Inr p" by auto
  show ?thesis
    using ks ks' v1 st by (intro conjI exI [of _ d] exI [of _ p] exI [of _ ks] exI [of _ ks']) auto
qed

text \<open>The one visible change a handled message makes to the store.\<close>

datatype risk_write = NoWrite | TradeCount string string string int | PriceSeen string rat

fun write_of :: "string \<Rightarrow> risk_write \<Rightarrow> (string \<rightharpoonup> rvalue) \<Rightarrow> (string \<rightharpoonup> rvalue)" where
  "write_of ns NoWrite v = v"
| "write_of ns (TradeCount b sid today n) v = v(ns @ '':risk:counter:'' @ daily_key sid (Some b) today \<mapsto> RInt n)"
| "write_of ns (PriceSeen tok p) v = v(price_prefix ns @ tok \<mapsto> RNum p)"

lemma on_redis_Inr: "on_redis m w = (Inr x, w') \<longleftrightarrow> (\<exists>s. m (rw_redis w) = (Inr x, s) \<and> w' = w\<lparr>rw_redis := s\<rparr>)"
  by (auto simp: on_redis_def split: prod.splits)

lemma update_risk_state_ok:
  assumes ok: "redis_ok (en_redis E) view" and ns: "ns \<noteq> []"
    and eq: "update_risk_state_for_signal E (risk_mgr_of ns) d b s = (Inr (), s')"
  shows "\<exists>u. view s' = write_of ns u (view s) \<and> (u = NoWrite \<or> (\<exists>sid n. u = TradeCount b sid (en_today E) n))"
proof (cases "py_truthy (jget_none d ''strategy_id'')")
  case True
  let ?sid = "py_str (jget_none d ''strategy_id'')"
  let ?k = "ns @ '':risk:counter:'' @ daily_key ?sid (Some b) (en_today E)"
  from eq True obtain n where i: "increment_value (en_redis E) ?k 1 (Some 172800) s = (Inr n, s')"
    using ns by (auto simp: update_risk_state_for_signal_def increment_daily_trades_def increment_counter_def
        rbind_Inr risk_mgr_of_def get_key_def ns_truthy_def)
  from increment_value_ok [OF ok, OF i] show ?thesis
    by (intro exI [of _ "TradeCount b ?sid (en_today E) n"]) simp
next
  case False
  with eq show ?thesis by (intro exI [of _ NoWrite]) (simp add: update_risk_state_for_signal_def)
qed

lemma emit_redis: "emit_signal E e w = (Inr (), w') \<Longrightarrow> rw_redis w' = rw_redis w \<and> rw_sent w' = rw_sent w @ [e] \<and>
    rw_processed w' = rw_processed w"
  by (auto simp: emit_signal_def split: option.splits)

lemma emit_validated_Inr: "emit_validated_signal E key d res b w = (Inr (), w') \<longleftrightarrow>
    (\<exists>orig. en_parse E d = Inr orig \<and> emit_signal E \<lparr>re_topic = signals_validated b, re_key = key,
            re_payload = PValidated \<lparr>vs_original_signal = orig, vs_validated_quantity = ts_quantity orig,
               vs_validated_price = ts_price orig, vs_risk_checks = rule_results res, vs_timestamp = en_now E\<rparr>,
            re_type = VALIDATED_SIGNAL, re_broker = b\<rparr> w = (Inr (), w'))"
  by (auto simp: emit_validated_signal_def split: sum.splits)

lemma emit_rejected_Inr: "emit_rejected_signal E key d res b w = (Inr (), w') \<longleftrightarrow>
    (\<exists>orig. en_parse E d = Inr orig \<and> emit_signal E \<lparr>re_topic = signals_rejected b, re_key = key,
            re_payload = PRejected \<lparr>rs_original_signal = orig, rs_rejection_reason = join_str ''; '' (rejection_reasons res),
               rs_risk_checks = rule_results res, rs_timestamp = en_now E\<rparr>,
            re_type = REJECTED_SIGNAL, re_broker = b\<rparr> w = (Inr (), w'))"
  by (auto simp: emit_rejected_signal_def split: sum.splits)

text \<open>The three parts of a successful validation: the state read, the event, the counter.\<close>

lemma validate_and_emit_cases:
  assumes "validate_and_emit E m key msg b w = (Inr (), w')"
  obtains st s1 res w1 where
    "get_state (en_redis E) (en_loads E) m (rw_redis w) = (Inr st, s1)"
    "evaluate_signal (en_today E) (im_data msg) st = Inr res"
    "passed res \<Longrightarrow> emit_validated_signal E key (im_data msg) res b (w\<lparr>rw_redis := s1\<rparr>) = (Inr (), w1)"
    "passed res \<Longrightarrow> on_redis (update_risk_state_for_signal E m (im_data msg) b) w1 = (Inr (), w')"
    "\<not> passed res \<Longrightarrow> emit_rejected_signal E key (im_data msg) res b (w\<lparr>rw_redis := s1\<rparr>) = (Inr (), w')"
proof -
  from assms obtain st s1 where st: "get_state (en_redis E) (en_loads E) m (rw_redis w) = (Inr st, s1)"
    and rest: "(case evaluate_signal (en_today E) (im_data msg) st of Inl e \<Rightarrow> rraise e
       | Inr res \<Rightarrow> if passed res then rbind (emit_validated_signal E key (im_data msg) res b)
                     (\<lambda>_. on_redis (update_risk_state_for_signal E m (im_data msg) b))
              else emit_rejected_signal E key (im_data msg) res b) (w\<lparr>rw_redis := s1\<rparr>) = (Inr (), w')"
    by (auto simp: validate_and_emit_def Let_def rbind_Inr on_redis_Inr)
  from rest obtain res where res: "evaluate_signal (en_today E) (im_data msg) st = Inr res"
    by (auto split: sum.splits)
  show thesis
  proof (cases "passed res")
    case True
    with rest res obtain w1 where "emit_validated_signal E key (im_data msg) res b (w\<lparr>rw_redis := s1\<rparr>) = (Inr (), w1)"
      "on_redis (update_risk_state_for_signal E m (im_data msg) b) w1 = (Inr (), w')" by (auto simp: rbind_Inr)
    with st res True that show thesis by blast
  next
    case False
    with rest res st that show thesis by auto
  qed
qed

lemma handle_signal_Inr:
  assumes "is_event_type msg TRADING_SIGNAL"
    and "handle_message E m msg topic w = (Inr (), w')"
  shows "\<exists>w1. validate_and_emit E m (message_key (im_data msg)) msg (get_broker_from_topic topic) w = (Inr (), w1) \<and>
    w' = w1\<lparr>rw_processed := rw_processed w1 + 1\<rparr>"
proof -
  obtain r w1 where v: "validate_and_emit E m (message_key (im_data msg)) msg (get_broker_from_topic topic) w = (r, w1)"
    by (cases "validate_and_emit E m (message_key (im_data msg)) msg (get_broker_from_topic topic) w")
  with assms show ?thesis
    by (cases r) (simp_all add: handle_message_def handle_trading_signal_def Let_def)
qed

lemma handle_message_write:
  assumes ok: "redis_ok (en_redis E) view" and ns: "ns \<noteq> []" "glob_free ns"
    and eq: "handle_message E (risk_mgr_of ns) msg topic w = (Inr (), w')"
  shows "\<exists>u. view (rw_redis w') = write_of ns u (view (rw_redis w)) \<and>
     (\<forall>b sid today n. u = TradeCount b sid today n \<longrightarrow> b = get_broker_from_topic topic \<and> today = en_today E)"
proof (cases "is_event_type msg TRADING_SIGNAL")
  case True
  let ?b = "get_broker_from_topic topic"
  from handle_signal_Inr [OF True eq] obtain w1 where
    v: "validate_and_emit E (risk_mgr_of ns) (message_key (im_data msg)) msg ?b w = (Inr (), w1)"
    and w': "rw_redis w' = rw_redis w1" by auto
  from v obtain st s1 res w2 where
    g: "get_state (en_redis E) (en_loads E) (risk_mgr_of ns) (rw_redis w) = (Inr st, s1)" and
    p1: "passed res \<Longrightarrow> emit_validated_signal E (message_key (im_data msg)) (im_data msg) res ?b (w\<lparr>rw_redis := s1\<rparr>) = (Inr (), w2)" and
    p2: "passed res \<Longrightarrow> on_redis (update_risk_state_for_signal E (risk_mgr_of ns) (im_data msg) ?b) w2 = (Inr (), w1)" and
    p3: "\<not> passed res \<Longrightarrow> emit_rejected_signal E (message_key (im_data msg)) (im_data msg) res ?b (w\<lparr>rw_redis := s1\<rparr>) = (Inr (), w1)"
    by (rule validate_and_emit_cases) blast
  from get_state_ok [OF ok, OF ns, OF g] have v1: "view s1 = view (rw_redis w)" by simp
  show ?thesis
  proof (cases "passed res")
    case True
    with p1 have r2: "rw_redis w2 = s1" by (auto simp: emit_validated_Inr dest: emit_redis)
    from p2 [OF True] r2 have "update_risk_state_for_signal E (risk_mgr_of ns) (im_data msg) ?b s1 = (Inr (), rw_redis w1)"
      by (auto simp: on_redis_Inr)
    from update_risk_state_ok [OF ok, OF ns(1), OF this] v1 w' show ?thesis by (metis risk_write.inject(1) risk_write.simps(3))
  next
    case False
    with p3 have "rw_redis w1 = s1" by (auto simp: emit_rejected_Inr dest: emit_redis)
    with v1 w' show ?thesis by (intro exI [of _ NoWrite]) simp
  qed
next
  case False
  show ?thesis
  proof (cases "rw_redis w' = rw_redis w")
    case True
    then show ?thesis by (intro exI [of _ NoWrite]) simp
  next
    case changed: False
    with False eq obtain tok p where
      "update_recent_price (en_redis E) (risk_mgr_of ns) tok p (rw_redis w) = (Inr (), rw_redis w')"
      by (auto simp: handle_message_def handle_market_tick_def Let_def on_redis_Inr split: if_splits sum.splits)
    then have "set_value_raw (en_redis E) (price_prefix ns @ tok) (RNum p) (Some 3600) (rw_redis w) = (Inr (), rw_redis w')"
      using ns by (simp add: update_recent_price_def kv_set_value_def get_key_def risk_mgr_of_def ns_truthy_def price_prefix_def)
    from set_value_raw_ok [OF ok, OF this] show ?thesis
      by (intro exI [of _ "PriceSeen tok p"]) simp
  qed
qed

text \<open>C2: One decision per signal. Whenever the handler of a trading signal returns, it has sent
  exactly one event, for the broker of the topic the signal came from: the validated signal with
  the quantity and price of the original on that broker's validated topic when the rules passed
  in the risk state read, and otherwise the rejection, with its reasons, on that broker's
  rejected topic.\<close>

theorem signal_yields_one_event:
  assumes sig: "is_event_type msg TRADING_SIGNAL"
    and run: "handle_message E m msg topic w = (Inr (), w')"
  shows "\<exists>st s1 res orig e.
     get_state (en_redis E) (en_loads E) m (rw_redis w) = (Inr st, s1) \<and>
     evaluate_signal (en_today E) (im_data msg) st = Inr res \<and>
     en_parse E (im_data msg) = Inr orig \<and>
     rw_sent w' = rw_sent w @ [e] \<and> rw_processed w' = rw_processed w + 1 \<and>
     re_broker e = get_broker_from_topic topic \<and>
     (if passed res then re_topic e = signals_validated (get_broker_from_topic topic) \<and> re_type e = VALIDATED_SIGNAL \<and>
         (\<exists>v. re_payload e = PValidated v \<and> vs_original_signal v = orig \<and>
            vs_validated_quantity v = ts_quantity orig \<and> vs_validated_price v = ts_price orig)
      else re_topic e = signals_rejected (get_broker_from_topic topic) \<and> re_type e = REJECTED_SIGNAL \<and>
         rejection_reasons res \<noteq> [] \<and>
         (\<exists>v. re_payload e = PRejected v \<and> rs_original_signal v = orig \<and>
            rs_rejection_reason v = join_str ''; '' (rejection_reasons res)))"
proof -
  let ?b = "get_broker_from_topic topic" and ?k = "message_key (im_data msg)"
  from handle_signal_Inr [OF sig run] obtain w1 where
    v: "validate_and_emit E m ?k msg ?b w = (Inr (), w1)"
    and w': "rw_sent w' = rw_sent w1" "rw_processed w' = rw_processed w1 + 1" by auto
  from v obtain st s1 res w2 where
    g: "get_state (en_redis E) (en_loads E) m (rw_redis w) = (Inr st, s1)" and
    r: "evaluate_signal (en_today E) (im_data msg) st = Inr res" and
    p1: "passed res \<Longrightarrow> emit_validated_signal E ?k (im_data msg) res ?b (w\<lparr>rw_redis := s1\<rparr>) = (Inr (), w2)" and
    p2: "passed res \<Longrightarrow> on_redis (update_risk_state_for_signal E m (im_data msg) ?b) w2 = (Inr (), w1)" and
    p3: "\<not> passed res \<Longrightarrow> emit_rejected_signal E ?k (im_data msg) res ?b (w\<lparr>rw_redis := s1\<rparr>) = (Inr (), w1)"
    by (rule validate_and_emit_cases) blast
  show ?thesis
  proof (cases "passed res")
    case True
    from p1 [OF True] obtain orig e where "en_parse E (im_data msg) = Inr orig"
      "rw_sent w2 = rw_sent w @ [e]" "rw_processed w2 = rw_processed w" "re_broker e = ?b"
      "re_topic e = signals_validated ?b" "re_type e = VALIDATED_SIGNAL"
      "\<exists>v. re_payload e = PValidated v \<and> vs_original_signal v = orig \<and>
            vs_validated_quantity v = ts_quantity orig \<and> vs_validated_price v = ts_price orig"
      by (auto simp: emit_validated_Inr dest!: emit_redis)
    moreover from p2 [OF True] have "rw_sent w1 = rw_sent w2" "rw_processed w1 = rw_processed w2"
      by (auto simp: on_redis_Inr)
    ultimately show ?thesis using g r w' True by auto
  next
    case False
    from p3 [OF False] obtain orig e where "en_parse E (im_data msg) = Inr orig"
      "rw_sent w1 = rw_sent w @ [e]" "rw_processed w1 = rw_processed w" "re_broker e = ?b"
      "re_topic e = signals_rejected ?b" "re_type e = REJECTED_SIGNAL"
      "\<exists>v. re_payload e = PRejected v \<and> rs_original_signal v = orig \<and>
            rs_rejection_reason v = join_str ''; '' (rejection_reasons res)"
      by (auto simp: emit_rejected_Inr dest!: emit_redis)
    with g r w' False show ?thesis using evaluate_reasons [OF r] by auto
  qed
qed

subsection \<open>Trade counters and namespaces\<close>

definition entry_names :: "string \<Rightarrow> (string \<times> rvalue option) list \<Rightarrow> string set" where
  "entry_names tag kvs = {tag @ part | part k v. (k, Some v) \<in> set kvs \<and> split_second tag k = Some part}"

lemma entry_names_Cons:
  "entry_names tag kvs \<subseteq> entry_names tag (kv # kvs)"
  "split_second tag k = Some part \<Longrightarrow> tag @ part \<in> entry_names tag ((k, Some v) # kvs)"
  by (auto simp: entry_names_def)

lemma state_entries_dom:
  "state_entries tag conv kvs acc = Inr d \<Longrightarrow> dom d \<subseteq> dom acc \<union> entry_names tag kvs"
proof (induction tag conv kvs acc rule: state_entries.induct)
  case (2 tag conv k kvs acc)
  then show ?case using entry_names_Cons(1) [of tag kvs "(k, None)"] by auto
next
  case (3 tag conv k v kvs acc)
  note mono = entry_names_Cons(1) [of tag kvs "(k, Some v)"]
  show ?case
  proof (cases "split_second tag k")
    case None
    with 3 mono show ?thesis by auto
  next
    case (Some part)
    then obtain j where j: "conv v = Some j" using 3(3) by (auto split: option.splits)
    from Some j 3(3) have se: "state_entries tag conv kvs (acc(tag @ part \<mapsto> j)) = Inr d" by simp
    have "dom (\<lambda>a. if a = tag @ part then Some j else acc a) = insert (tag @ part) (dom acc)" by auto
    with 3(2) [OF Some j se] have "dom d \<subseteq> insert (tag @ part) (dom acc) \<union> entry_names tag kvs" by simp
    with mono entry_names_Cons(2) [OF Some, of v kvs] show ?thesis by blast
  qed
qed simp

text \<open>Every trade counter is stored under the name of a broker.\<close>

definition brokers :: "string set" where
  "brokers = {''paper'', ''zerodha'', ''unknown''}"

definition broker_counters :: "string \<Rightarrow> (string \<rightharpoonup> rvalue) \<Rightarrow> bool" where
  "broker_counters ns v =
     (\<forall>k. v k \<noteq> None \<longrightarrow> starts_with (counter_prefix ns) k \<longrightarrow>
        (\<exists>b \<in> brokers. starts_with (counter_prefix ns @ b @ ''_'') k))"

lemma broker_from_topic_brokers: "get_broker_from_topic topic \<in> brokers"
  by (auto simp: get_broker_from_topic_def brokers_def known_brokers_def Let_def)

lemma daily_key_broker:
  "b \<in> brokers \<Longrightarrow> daily_key sid (Some b) today = ''daily_trades_'' @ b @ ''_'' @ sid @ ''_'' @ today"
  by (auto simp: daily_key_def brokers_def)

lemma broker_counters_write:
  assumes inv: "broker_counters ns v"
    and u: "\<forall>b sid today n. u = TradeCount b sid today n \<longrightarrow> b \<in> brokers"
  shows "broker_counters ns (write_of ns u v)"
proof (cases u)
  case (TradeCount b sid today n)
  with u have b: "b \<in> brokers" by simp
  let ?k = "ns @ '':risk:counter:'' @ daily_key sid (Some b) today"
  have "?k = (counter_prefix ns @ b @ ''_'') @ sid @ ''_'' @ today"
    by (simp add: daily_key_broker [OF b] counter_prefix_def)
  then have "starts_with (counter_prefix ns @ b @ ''_'') ?k" by (metis starts_with_append)
  with inv b TradeCount show ?thesis by (auto simp: broker_counters_def)
next
  case (PriceSeen tok p)
  have "\<not> starts_with (counter_prefix ns) (price_prefix ns @ tok)"
    by (auto simp: starts_with_iff counter_prefix_def price_prefix_def)
  with inv PriceSeen show ?thesis by (auto simp: broker_counters_def)
qed (use inv in simp)

text \<open>In the risk state read back, a counter's name starts with its broker.\<close>

lemma split_second_counter:
  assumes ns: "ns \<in> set known_brokers" and b: "b \<in> brokers"
  shows "\<exists>y. split_second ''daily_trades_'' (counter_prefix ns @ b @ ''_'' @ x) = Some (b @ ''_'' @ y)"
proof -
  have 1: "break_sub ''daily_trades_'' (counter_prefix ns @ b @ ''_'' @ x) = Some (ns @ '':risk:counter:'', b @ ''_'' @ x)"
    using ns by (auto simp: known_brokers_def counter_prefix_def)
  have 2: "break_sub ''daily_trades_'' (b @ ''_'' @ x) = map_option (\<lambda>(c, a). (b @ ''_'' @ c, a)) (break_sub ''daily_trades_'' x)"
    using b by (cases "break_sub ''daily_trades_'' x") (auto simp: brokers_def)
  show ?thesis
    by (cases "break_sub ''daily_trades_'' x") (auto simp: split_second_def 1 [simplified] 2 [simplified])
qed

lemma state_without_counter:
  assumes ok: "redis_ok R view" and ns: "ns \<in> set known_brokers"
    and inv: "broker_counters ns (view s)"
    and eq: "get_state R loads (risk_mgr_of ns) s = (Inr st, s')"
    and other: "\<And>b. b \<in> brokers \<Longrightarrow> \<not> starts_with (b @ ''_'') x"
  shows "rk_values st (''daily_trades_'' @ x) = None"
proof -
  have nn: "ns \<noteq> []" "glob_free ns" using ns by (auto simp: known_brokers_def glob_free_def)
  from get_state_ok [OF ok, OF nn, OF eq] obtain d p ks ks' where
    st: "rk_values st = d ++ p" and
    ks: "set ks = {k. view s k \<noteq> None \<and> starts_with (counter_prefix ns) k}" and
    d: "state_entries ''daily_trades_'' (map_option JInt \<circ> rv_int) (map (\<lambda>k. (k, view s k)) ks) Map.empty = Inr d" and
    p: "state_entries ''recent_price_'' (map_option JNum \<circ> rv_float) (map (\<lambda>k. (k, view s k)) ks') Map.empty = Inr p"
    by blast
  have "''daily_trades_'' @ x \<notin> dom p"
    using state_entries_dom [OF p] by (auto simp: entry_names_def)
  moreover have "''daily_trades_'' @ x \<notin> dom d"
  proof
    assume "''daily_trades_'' @ x \<in> dom d"
    then obtain k where k: "k \<in> set ks" "split_second ''daily_trades_'' k = Some x"
      using state_entries_dom [OF d] by (auto simp: entry_names_def)
    then obtain b where b: "b \<in> brokers" "starts_with (counter_prefix ns @ b @ ''_'') k"
      using inv ks by (auto simp: broker_counters_def)
    then obtain y where "k = counter_prefix ns @ b @ ''_'' @ y" by (auto simp: starts_with_iff)
    with split_second_counter [OF ns b(1), of y] k(2) obtain z where "x = b @ ''_'' @ z" by auto
    with other [OF b(1)] show False by (metis append.assoc starts_with_append)
  qed
  ultimately show ?thesis using st by (simp add: map_add_None domIff)
qed

text \<open>Handling a sequence of messages, each with its own clock and environment.\<close>

fun handle_all :: "risk_mgr \<Rightarrow> ('r risk_env \<times> in_message \<times> string) list \<Rightarrow> (unit, 'r risk_world) rm" where
  "handle_all m [] = rret ()"
| "handle_all m ((E, msg, topic) # rest) = rbind (handle_message E m msg topic) (\<lambda>_. handle_all m rest)"

lemma handle_all_counters:
  assumes "\<forall>(E, msg, topic) \<in> set ms. redis_ok (en_redis E) view"
    and "ns \<in> set known_brokers" "broker_counters ns (view (rw_redis w))"
    and "handle_all (risk_mgr_of ns) ms w = (Inr (), w')"
  shows "broker_counters ns (view (rw_redis w'))"
  using assms
proof (induction ms arbitrary: w)
  case (Cons a ms)
  obtain E msg topic where a: "a = (E, msg, topic)" by (cases a)
  from Cons.prems(4) a obtain w1 where h: "handle_message E (risk_mgr_of ns) msg topic w = (Inr (), w1)"
    and r: "handle_all (risk_mgr_of ns) ms w1 = (Inr (), w')" by (auto simp: rbind_Inr)
  have ok: "redis_ok (en_redis E) view" using Cons.prems(1) a by auto
  have nn: "ns \<noteq> []" "glob_free ns" using Cons.prems(2) by (auto simp: known_brokers_def glob_free_def)
  from handle_message_write [OF ok, OF nn, OF h] broker_from_topic_brokers [of topic]
  have "broker_counters ns (view (rw_redis w1))"
    using broker_counters_write [OF Cons.prems(3)] by metis
  with Cons.IH [of w1] Cons.prems r show ?case by auto
qed simp

text \<open>C31: The daily trade limit is never applied. The service counts a strategy's trades under a
  key that carries the broker, the rule looks them up under a key that does not. So after any
  sequence of handled messages, starting from a store without counters, the rule passes every
  signal of a strategy whose name does not itself begin with a broker's, however many trades the
  strategy has made and however small the limit is.\<close>

theorem daily_trade_limit_never_applies:
  assumes start: "bs \<noteq> []" "last bs \<in> set known_brokers"
    and redis: "\<forall>(E, msg, topic) \<in> set ms. redis_ok (en_redis E) view" "redis_ok R view"
    and fresh: "\<forall>k. starts_with (counter_prefix (last bs)) k \<longrightarrow> view (rw_redis w) k = None"
    and run: "handle_all (service_start bs risk_mgr_init) ms w = (Inr (), w')"
    and st: "get_state R loads (service_start bs risk_mgr_init) (rw_redis w') = (Inr st, s')"
    and sid: "jget_none sig ''strategy_id'' = JStr sid"
    and plain: "\<forall>b \<in> {''paper'', ''zerodha'', ''unknown''}. \<not> starts_with (b @ ''_'') (sid @ ''_'' @ today)"
    and limit: "0 < max_daily_trades"
  shows "check_daily_trades max_daily_trades today sig st = Inr (True, ''Daily trade limit not exceeded'')"
proof -
  let ?ns = "last bs"
  have m: "service_start bs risk_mgr_init = risk_mgr_of ?ns" by (rule service_start_last [OF start(1)])
  have "broker_counters ?ns (view (rw_redis w))" using fresh by (auto simp: broker_counters_def)
  from handle_all_counters [OF redis(1), OF start(2), OF this, OF run [unfolded m]]
  have inv: "broker_counters ?ns (view (rw_redis w'))" .
  have "rk_values st (''daily_trades_'' @ sid @ ''_'' @ today) = None"
    by (rule state_without_counter [OF redis(2), OF start(2), OF inv, OF st [unfolded m]])
      (use plain in \<open>auto simp: brokers_def\<close>)
  with sid limit show ?thesis by (simp add: check_daily_trades_def)
qed

text \<open>One namespace for all brokers. Starting the service initialises its single state manager
  once per broker, so the last broker's namespace stays: whatever broker a message belongs to,
  everything its handling changes in Redis lies in the namespace of the last active broker.\<close>

theorem risk_state_in_last_namespace:
  assumes start: "bs \<noteq> []" "last bs \<noteq> []" "glob_free (last bs)"
    and redis: "redis_ok (en_redis E) view"
    and run: "handle_message E (service_start bs risk_mgr_init) msg topic w = (Inr (), w')"
    and changed: "view (rw_redis w') k \<noteq> view (rw_redis w) k"
  shows "starts_with (last bs @ '':risk:'') k"
proof -
  have m: "service_start bs risk_mgr_init = risk_mgr_of (last bs)" by (rule service_start_last [OF start(1)])
  from handle_message_write [OF redis, OF start(2,3), OF run [unfolded m]] obtain u
    where u: "view (rw_redis w') = write_of (last bs) u (view (rw_redis w))" by blast
  with changed have "\<exists>y. k = last bs @ '':risk:'' @ y"
    by (cases u) (auto simp: price_prefix_def split: if_splits)
  then show ?thesis by (auto simp: starts_with_iff)
qed

subsection \<open>A concrete service\<close>

definition demo_env :: "(string \<times> rvalue) list risk_env" where
  "demo_env = \<lparr>en_redis = map_redis, en_loads = (\<lambda>_. None),
     en_parse = (\<lambda>d. Inr \<lparr>ts_strategy_id = ''m1'', ts_instrument_token = 5, ts_signal_type = BUY,
        ts_quantity = 10, ts_price = None, ts_timestamp = \<lparr>dt_date = ''2025-01-02'', dt_time = ''09:20:00''\<rparr>,
        ts_confidence = None, ts_metadata = None\<rparr>),
     en_send = (\<lambda>_ _. None), en_now = \<lparr>dt_date = ''2025-01-02'', dt_time = ''09:20:00''\<rparr>, en_today = ''2025-01-02''\<rparr>"

definition demo_signal :: in_message where
  "demo_signal = \<lparr>im_type = JStr ''trading_signal'',
     im_data = [(''strategy_id'', JStr ''m1''), (''instrument_token'', JInt 5), (''signal_type'', JStr ''BUY''),
                (''quantity'', JInt 10)]\<rparr>"

definition demo_world :: "(string \<times> rvalue) list risk_world" where
  "demo_world = \<lparr>rw_redis = [], rw_sent = [], rw_processed = 0, rw_errors = 0\<rparr>"

lemma demo_get_state:
  "get_state map_redis loads (risk_mgr_of ''zerodha'') [] = (Inr \<lparr>rk_positions = Map.empty, rk_values = Map.empty\<rparr>, [])"
  by (simp add: get_state_def get_collection_def load_entries_def get_keys_by_pattern_def map_redis_def rbind_def rwrap_def rret_def)

lemma demo_evaluate:
  "\<exists>res. evaluate_signal today (im_data demo_signal) \<lparr>rk_positions = Map.empty, rk_values = Map.empty\<rparr> = Inr res \<and> passed res"
  by (simp add: evaluate_signal_def engine_rules_def check_position_def check_daily_trades_def check_price_limit_def
      demo_signal_def jget_def jget_none_def Let_def)

lemma demo_run:
  "\<exists>w'. handle_message demo_env (service_start [''paper'', ''zerodha''] risk_mgr_init) demo_signal ''paper.signals.raw'' demo_world = (Inr (), w') \<and>
    rw_redis w' = [(''zerodha:risk:counter:daily_trades_paper_m1_2025-01-02'', RInt 1)]"
proof -
  have b: "get_broker_from_topic ''paper.signals.raw'' = ''paper''" by code_simp
  have t: "is_event_type demo_signal TRADING_SIGNAL" by (simp add: is_event_type_def demo_signal_def)
  obtain res where res: "evaluate_signal ''2025-01-02'' (im_data demo_signal) \<lparr>rk_positions = Map.empty, rk_values = Map.empty\<rparr> = Inr res" "passed res"
    using demo_evaluate by blast
  have m: "service_start [''paper'', ''zerodha''] risk_mgr_init = risk_mgr_of ''zerodha''"
    by (simp add: service_start_last)
  have u: "update_risk_state_for_signal demo_env (risk_mgr_of ''zerodha'') (im_data demo_signal) ''paper'' [] =
    (Inr (), [(''zerodha:risk:counter:daily_trades_paper_m1_2025-01-02'', RInt 1)])"
    by (simp add: update_risk_state_for_signal_def demo_env_def demo_signal_def increment_daily_trades_def increment_counter_def
        increment_value_def daily_key_def map_redis_def rbind_def rwrap_def rret_def jget_none_def jget_def get_key_def risk_mgr_of_def ns_truthy_def
        counter_of_def)
  obtain orig where E: "en_redis demo_env = map_redis" "en_today demo_env = ''2025-01-02''"
    "en_parse demo_env d = Inr orig" "en_send demo_env es e = None" for d es e
    by (simp add: demo_env_def)
  show ?thesis
    using t res u
    by (simp add: handle_message_def b m handle_trading_signal_def validate_and_emit_def rbind_def on_redis_def E
        demo_get_state demo_world_def emit_validated_signal_def emit_signal_def Let_def)
qed

theorem signal_yields_one_event_witness:
  "\<exists>w' e. handle_message demo_env (service_start [''paper'', ''zerodha''] risk_mgr_init) demo_signal ''paper.signals.raw'' demo_world = (Inr (), w') \<and>
     rw_sent w' = [e] \<and> re_broker e = ''paper''"
proof -
  obtain w' where run: "handle_message demo_env (service_start [''paper'', ''zerodha''] risk_mgr_init) demo_signal ''paper.signals.raw'' demo_world = (Inr (), w')"
    using demo_run by blast
  have t: "is_event_type demo_signal TRADING_SIGNAL" by (simp add: is_event_type_def demo_signal_def)
  have b: "get_broker_from_topic ''paper.signals.raw'' = ''paper''" by code_simp
  from signal_yields_one_event [OF t run] run b show ?thesis by (auto simp: demo_world_def)
qed

theorem daily_trade_limit_never_applies_witness:
  "\<exists>w' st s'. handle_all (service_start [''paper'', ''zerodha''] risk_mgr_init) [(demo_env, demo_signal, ''paper.signals.raw'')] demo_world = (Inr (), w') \<and>
     get_state map_redis (\<lambda>_. None) (service_start [''paper'', ''zerodha''] risk_mgr_init) (rw_redis w') = (Inr st, s') \<and>
     check_daily_trades 1 ''2025-01-02'' (im_data demo_signal) st = Inr (True, ''Daily trade limit not exceeded'')"
proof -
  let ?m = "service_start [''paper'', ''zerodha''] risk_mgr_init"
  obtain w' where run: "handle_message demo_env ?m demo_signal ''paper.signals.raw'' demo_world = (Inr (), w')"
    and r: "rw_redis w' = [(''zerodha:risk:counter:daily_trades_paper_m1_2025-01-02'', RInt 1)]"
    using demo_run by blast
  have all: "handle_all ?m [(demo_env, demo_signal, ''paper.signals.raw'')] demo_world = (Inr (), w')"
    by (simp add: rbind_def run rret_def)
  have "\<exists>st s'. get_state map_redis (\<lambda>_. None) (risk_mgr_of ''zerodha'') (rw_redis w') = (Inr st, s')"
    unfolding r
    by (simp add: get_state_def get_collection_def load_entries_def get_keys_by_pattern_def map_redis_def rbind_def rwrap_def rret_def
        glob_match_def risk_mgr_of_def get_key_def ns_truthy_def state_pattern_def get_multiple_values_def split_second_def)
  then obtain st s' where st: "get_state map_redis (\<lambda>_. None) ?m (rw_redis w') = (Inr st, s')"
    by (simp add: service_start_last) blast
  have "check_daily_trades 1 ''2025-01-02'' (im_data demo_signal) st = Inr (True, ''Daily trade limit not exceeded'')"
    by (rule daily_trade_limit_never_applies [where view = map_of and sid = "''m1''", OF _ _ _ map_redis_ok _ all st])
      (simp_all add: known_brokers_def demo_env_def map_redis_ok demo_world_def demo_signal_def jget_none_def jget_def)
  with all st show ?thesis by blast
qed

theorem risk_state_in_last_namespace_witness:
  "\<exists>w'. handle_message demo_env (service_start [''paper'', ''zerodha''] risk_mgr_init) demo_signal ''paper.signals.raw'' demo_world = (Inr (), w') \<and>
     (\<exists>k. map_of (rw_redis w') k \<noteq> None) \<and> (\<forall>k. map_of (rw_redis w') k \<noteq> None \<longrightarrow> starts_with ''zerodha:risk:'' k)"
proof -
  let ?m = "service_start [''paper'', ''zerodha''] risk_mgr_init"
  obtain w' where run: "handle_message demo_env ?m demo_signal ''paper.signals.raw'' demo_world = (Inr (), w')"
    and r: "rw_redis w' = [(''zerodha:risk:counter:daily_trades_paper_m1_2025-01-02'', RInt 1)]"
    using demo_run by blast
  have ok: "redis_ok (en_redis demo_env) map_of" by (simp add: demo_env_def map_redis_ok)
  have "starts_with ''zerodha:risk:'' k" if "map_of (rw_redis w') k \<noteq> None" for k
    using risk_state_in_last_namespace [OF _ _ _ ok run, of k] that by (simp add: glob_free_def demo_world_def)
  with run r show ?thesis by auto
qed

subsection \<open>Recent prices\<close>

lemma state_entries_other:
  assumes "state_entries tag conv kvs acc = Inr d" "x \<notin> entry_names tag kvs"
  shows "d x = acc x"
  using assms
proof (induction tag conv kvs acc rule: state_entries.induct)
  case (2 tag conv k kvs acc)
  then show ?case using entry_names_Cons(1) [of tag kvs "(k, None)"] by auto
next
  case (3 tag conv k v kvs acc)
  have nx: "x \<notin> entry_names tag kvs" using 3(4) entry_names_Cons(1) [of tag kvs "(k, Some v)"] by auto
  show ?case
  proof (cases "split_second tag k")
    case None
    with 3 nx show ?thesis by auto
  next
    case (Some part)
    then obtain j where j: "conv v = Some j" using 3(3) by (auto split: option.splits)
    from Some j 3(3) have "state_entries tag conv kvs (acc(tag @ part \<mapsto> j)) = Inr d" by simp
    from 3(2) [OF Some j this nx] entry_names_Cons(2) [OF Some, of v kvs] 3(4) show ?thesis by auto
  qed
qed simp

lemma state_entries_lookup:
  assumes "state_entries tag conv kvs acc = Inr d" "(k, Some v) \<in> set kvs" "split_second tag k = Some part"
    and "distinct (map fst kvs)" "\<forall>k' v'. (k', Some v') \<in> set kvs \<longrightarrow> split_second tag k' = Some part \<longrightarrow> k' = k"
  shows "d (tag @ part) = conv v"
  using assms
proof (induction tag conv kvs acc rule: state_entries.induct)
  case (3 tag conv k0 v0 kvs acc)
  show ?case
  proof (cases "k0 = k")
    case True
    have nk: "k \<notin> fst ` set kvs" using 3(6) True by simp
    then have "(k, Some v) \<notin> set kvs" by force
    with 3(4) True have v: "v0 = v" by simp
    from True v 3(3,5) obtain j where j: "conv v = Some j" "state_entries tag conv kvs (acc(tag @ part \<mapsto> j)) = Inr d"
      by (auto split: option.splits)
    have "tag @ part \<notin> entry_names tag kvs"
    proof
      assume "tag @ part \<in> entry_names tag kvs"
      then obtain k' v' where kv: "(k', Some v') \<in> set kvs" "split_second tag k' = Some part"
        by (auto simp: entry_names_def)
      with 3(7) have "k' = k" by auto
      with kv nk show False by force
    qed
    from state_entries_other [OF j(2) this] j show ?thesis by simp
  next
    case False
    then have mem: "(k, Some v) \<in> set kvs" using 3(4) by auto
    have dist: "distinct (map fst kvs)" using 3(6) by simp
    have uniq: "\<forall>k' v'. (k', Some v') \<in> set kvs \<longrightarrow> split_second tag k' = Some part \<longrightarrow> k' = k" using 3(7) by auto
    show ?thesis
    proof (cases "split_second tag k0")
      case None
      with 3(3) have "state_entries tag conv kvs acc = Inr d" by simp
      from 3(1) [OF None this mem 3(5) dist uniq] show ?thesis .
    next
      case (Some part0)
      then obtain j where j: "conv v0 = Some j" using 3(3) by (auto split: option.splits)
      from Some j 3(3) have "state_entries tag conv kvs (acc(tag @ part0 \<mapsto> j)) = Inr d" by simp
      from 3(2) [OF Some j this mem 3(5) dist uniq] show ?thesis .
    qed
  qed
next
  case (2 tag conv k0 kvs acc)
  from 2(2) have se: "state_entries tag conv kvs acc = Inr d" by simp
  from 2(3) have mem: "(k, Some v) \<in> set kvs" by simp
  from 2(5) have dist: "distinct (map fst kvs)" by simp
  from 2(6) have "\<forall>k' v'. (k', Some v') \<in> set kvs \<longrightarrow> split_second tag k' = Some part \<longrightarrow> k' = k" by simp
  from 2(1) [OF se mem 2(4) dist this] show ?case .
qed simp

lemma in_str_char: "in_str p s \<Longrightarrow> c \<in> set p \<Longrightarrow> c \<in> set s"
  using break_sub_None [of p s] by (auto dest!: break_sub_append)

lemma split_second_price:
  assumes ns: "ns \<in> set known_brokers"
  shows "split_second ''recent_price_'' (price_prefix ns @ show_int t) = Some (show_int t)"
proof -
  have 1: "break_sub ''recent_price_'' (price_prefix ns @ x) = Some (ns @ '':risk:value:'', x)" for x
    using ns by (auto simp: known_brokers_def price_prefix_def)
  have "CHR ''r'' \<notin> set (show_int t)"
    using digit_val_show_nat [of "CHR ''r''"] by (auto simp: show_int_def digit_val_def)
  then have 2: "break_sub ''recent_price_'' (show_int t) = None"
    unfolding break_sub_None using in_str_char by force
  show ?thesis by (simp add: split_second_def 1 2)
qed

text \<open>Only prices of instruments with integer tokens are stored.\<close>

definition token_prices :: "string \<Rightarrow> (string \<rightharpoonup> rvalue) \<Rightarrow> bool" where
  "token_prices ns v = (\<forall>k. v k \<noteq> None \<longrightarrow> starts_with (price_prefix ns) k \<longrightarrow> (\<exists>t. k = price_prefix ns @ show_int t))"

text \<open>The price rule sees the last tick. When a market tick with a nonzero integer token and a
  price has been handled, the risk state read afterwards holds exactly that price as the recent
  price of the instrument, and only prices of integer tokens are stored.\<close>

theorem tick_price_read_back:
  assumes ns: "ns \<in> set known_brokers" and ok: "redis_ok (en_redis E) view"
    and tokens: "token_prices ns (view (rw_redis w))"
    and tick: "im_type msg = JStr ''market_tick''" "jget_none (im_data msg) ''instrument_token'' = JInt t" "t \<noteq> 0"
      "py_truthy (jget_none (im_data msg) ''last_price'')" "float_of_json (jget_none (im_data msg) ''last_price'') = Some p"
    and run: "handle_message E (risk_mgr_of ns) msg topic w = (Inr (), w')"
    and st: "get_state (en_redis E) loads (risk_mgr_of ns) (rw_redis w') = (Inr st, s')"
  shows "rk_values st (''recent_price_'' @ show_int t) = Some (JNum p) \<and> token_prices ns (view (rw_redis w'))"
proof -
  have nn: "ns \<noteq> []" "glob_free ns" using ns by (auto simp: known_brokers_def glob_free_def)
  let ?k = "price_prefix ns @ show_int t"
  have et: "is_event_type msg MARKET_TICK" "\<not> is_event_type msg TRADING_SIGNAL"
    using tick(1) by (simp_all add: is_event_type_def str_lower_def char_lower_def)
  from run tick et have "update_recent_price (en_redis E) (risk_mgr_of ns) (show_int t) p (rw_redis w) = (Inr (), rw_redis w')"
    by (auto simp: handle_message_def handle_market_tick_def Let_def py_float_of on_redis_Inr)
  then have "set_value_raw (en_redis E) ?k (RNum p) (Some 3600) (rw_redis w) = (Inr (), rw_redis w')"
    using nn by (simp add: update_recent_price_def kv_set_value_def get_key_def risk_mgr_of_def ns_truthy_def price_prefix_def)
  from set_value_raw_ok [OF ok, OF this]
  have view: "view (rw_redis w') = (view (rw_redis w))(?k \<mapsto> RNum p)" .
  with tokens have tok: "token_prices ns (view (rw_redis w'))" by (auto simp: token_prices_def)
  from get_state_ok [OF ok, OF nn, OF st] obtain d q ks' where
    vals: "rk_values st = d ++ q" and
    ks': "set ks' = {k. view (rw_redis w') k \<noteq> None \<and> starts_with (price_prefix ns) k}" "distinct ks'" and
    q: "state_entries ''recent_price_'' (map_option JNum \<circ> rv_float) (map (\<lambda>k. (k, view (rw_redis w') k)) ks') Map.empty = Inr q"
    by blast
  let ?kvs = "map (\<lambda>k. (k, view (rw_redis w') k)) ks'"
  have mem: "(?k, Some (RNum p)) \<in> set ?kvs" using ks' view by (auto intro!: image_eqI)
  have dist: "distinct (map fst ?kvs)" using ks'(2) by (simp add: o_def)
  have "k' = ?k" if "(k', Some v') \<in> set ?kvs" "split_second ''recent_price_'' k' = Some (show_int t)" for k' v'
  proof -
    from that(1) ks' have "k' \<in> set ks'" by auto
    with ks' tok obtain t' where "k' = price_prefix ns @ show_int t'" by (auto simp: token_prices_def)
    with that(2) split_second_price [OF ns, of t'] show ?thesis by simp
  qed
  then have "q (''recent_price_'' @ show_int t) = Some (JNum p)"
    using state_entries_lookup [OF q mem split_second_price [OF ns] dist] by simp
  with vals tok show ?thesis by simp
qed

theorem tick_price_read_back_witness:
  "\<exists>w' st s'. handle_message demo_env (risk_mgr_of ''paper'')
      \<lparr>im_type = JStr ''market_tick'', im_data = [(''instrument_token'', JInt 5), (''last_price'', JNum 100)]\<rparr> ''market.ticks'' demo_world = (Inr (), w') \<and>
     get_state map_redis (\<lambda>_. None) (risk_mgr_of ''paper'') (rw_redis w') = (Inr st, s') \<and>
     rk_values st (''recent_price_'' @ show_int 5) = Some (JNum 100)"
proof -
  let ?msg = "\<lparr>im_type = JStr ''market_tick'', im_data = [(''instrument_token'', JInt 5), (''last_price'', JNum 100)]\<rparr>"
  have five: "show_int 5 = ''5''" by (simp add: show_evals)
  obtain w' where run: "handle_message demo_env (risk_mgr_of ''paper'') ?msg ''market.ticks'' demo_world = (Inr (), w')"
    and r: "rw_redis w' = [(''paper:risk:value:recent_price_5'', RNum 100)]"
    by (simp add: handle_message_def is_event_type_def str_lower_def char_lower_def handle_market_tick_def jget_none_def jget_def
        py_float_def on_redis_def update_recent_price_def kv_set_value_def set_value_raw_def demo_env_def map_redis_def
        rbind_def rwrap_def rret_def demo_world_def get_key_def risk_mgr_of_def ns_truthy_def five)
  have "\<exists>st s'. get_state map_redis (\<lambda>_. None) (risk_mgr_of ''paper'') (rw_redis w') = (Inr st, s')"
    unfolding r
    by (simp add: get_state_def get_collection_def load_entries_def get_keys_by_pattern_def map_redis_def rbind_def rwrap_def rret_def
        glob_match_def risk_mgr_of_def get_key_def ns_truthy_def state_pattern_def get_multiple_values_def split_second_def)
  then obtain st s' where st: "get_state map_redis (\<lambda>_. None) (risk_mgr_of ''paper'') (rw_redis w') = (Inr st, s')" by blast
  have E: "en_redis demo_env = map_redis" by (simp add: demo_env_def)
  have "rk_values st (''recent_price_'' @ show_int 5) = Some (JNum 100)"
    using tick_price_read_back [of "''paper''" demo_env map_of demo_world ?msg 5 100 "''market.ticks''" w' "\<lambda>_. None" st s'] run st E
    by (simp add: known_brokers_def map_redis_ok token_prices_def demo_world_def jget_none_def jget_def)
  with run st show ?thesis by blast
qed

end
