(* ===== verification/Paper_Trading.thy ===== *)
theory Paper_Trading
  imports Py_Format Schemas
begin

text \<open>
  The paper trading service (services/paper_trading/service.py): validated signals are turned into
  simulated fills against an in-memory portfolio, market ticks drive bracket exits and pending stop
  orders. Parameters: pydantic's ValidatedSignal constructor, the Kafka producer, the seeded random
  number generator, the identifiers of generate_event_id and the clock. The settings are the
  record PaperTradingSettings of core/config/settings.py. A handler runs to completion before
  the next one starts. Logging and metrics are left out.
\<close>

subsection \<open>Settings and state\<close>

record pt_settings =
  slippage_percent :: rat
  commission_percent :: rat
  starting_cash :: rat
  latency_ms_mean :: rat
  latency_ms_std :: rat
  partial_fill_prob :: rat
  max_partials :: int
  min_quantity :: int
  max_quantity :: "int option"
  min_price :: "rat option"
  max_price :: "rat option"
  allowed_instruments :: "int list"
  max_position_notional :: "rat option"

definition default_settings :: pt_settings where
  "default_settings =
     \<lparr>slippage_percent = 5/100, commission_percent = 1/10, starting_cash = 1000000,
      latency_ms_mean = 0, latency_ms_std = 0, partial_fill_prob = 0, max_partials = 3,
      min_quantity = 1, max_quantity = None, min_price = Some 0, max_price = None,
      allowed_instruments = [], max_position_notional = None\<rparr>"

datatype pt_payload = Filled order_filled | Failed order_failed | Pnl pnl_snapshot

record pt_event =
  pe_topic :: string
  pe_key :: string
  pe_payload :: pt_payload
  pe_type :: event_type

record pending_stop =
  st_strategy_id :: string
  st_instrument_token :: int
  st_side :: signal_type
  st_quantity :: int
  st_stop_price :: rat
  st_limit_price :: "rat option"
  st_order_type :: string
  st_created_at :: datetime

type_synonym pos_key = "string \<times> int"

record pt =
  seen_keys :: "string set"
  seen_queue :: "string list"
  positions :: "pos_key \<rightharpoonup> (int \<times> rat)"
  realized :: "pos_key \<rightharpoonup> rat"
  cash :: "string \<rightharpoonup> rat"
  last_price :: "int \<rightharpoonup> rat"
  brackets :: "(pos_key \<times> (rat option \<times> rat option)) list"
  pending_stops :: "pending_stop list"
  sent :: "pt_event list"
  ids :: nat

definition pt_init :: pt where
  "pt_init = \<lparr>seen_keys = {}, seen_queue = [], positions = Map.empty, realized = Map.empty,
     cash = Map.empty, last_price = Map.empty, brackets = [], pending_stops = [], sent = [], ids = 0\<rparr>"

text \<open>\<open>random.Random(seed)\<close> and the methods the service calls on it.\<close>

record 'g rng =
  g_seed :: "string \<Rightarrow> 'g"
  g_random :: "'g \<Rightarrow> rat \<times> 'g"
  g_randint :: "int \<Rightarrow> int \<Rightarrow> 'g \<Rightarrow> int \<times> 'g"
  g_gauss :: "'g \<Rightarrow> rat \<times> 'g"

text \<open>Documented: randint returns a value between its arguments.\<close>

definition randint_ok :: "'g rng \<Rightarrow> bool" where
  "randint_ok G = (\<forall>a b g. a \<le> b \<longrightarrow> a \<le> fst (g_randint G a b g) \<and> fst (g_randint G a b g) \<le> b)"

record 'g pt_env =
  x_set :: pt_settings
  x_rng :: "'g rng"
  x_send :: "pt_event list \<Rightarrow> pt_event \<Rightarrow> exn option"
  x_new_id :: "nat \<Rightarrow> string"
  x_parse :: "(string \<times> json) list \<Rightarrow> validated_signal option"
  x_now :: datetime

definition send_event :: "'g pt_env \<Rightarrow> pt_event \<Rightarrow> pt \<Rightarrow> (exn + unit) \<times> pt" where
  "send_event X e s =
     (case x_send X (sent s) e of
        Some x \<Rightarrow> (Inl x, s)
      | None \<Rightarrow> (Inr (), s\<lparr>sent := sent s @ [e]\<rparr>))"

definition generate_event_id :: "'g pt_env \<Rightarrow> pt \<Rightarrow> string \<times> pt" where
  "generate_event_id X s = (x_new_id X (ids s), s\<lparr>ids := ids s + 1\<rparr>)"

subsection \<open>Portfolio\<close>

definition pos_of :: "pt \<Rightarrow> pos_key \<Rightarrow> int \<times> rat" where
  "pos_of s k = (case positions s k of None \<Rightarrow> (0, 0) | Some p \<Rightarrow> p)"

definition qty_of :: "pt \<Rightarrow> pos_key \<Rightarrow> int" where
  "qty_of s k = fst (pos_of s k)"

definition get_num :: "('k \<rightharpoonup> rat) \<Rightarrow> 'k \<Rightarrow> rat" where
  "get_num m k = (case m k of None \<Rightarrow> 0 | Some r \<Rightarrow> r)"

definition apply_fill_to_portfolio ::
  "string \<Rightarrow> int \<Rightarrow> signal_type \<Rightarrow> int \<Rightarrow> rat \<Rightarrow> rat option \<Rightarrow> pt \<Rightarrow> pt" where
  "apply_fill_to_portfolio strategy_id instrument_token side qty price fees s =
     (let key = (strategy_id, instrument_token);
          (q, avg) = pos_of s key;
          fee_val = or_num fees 0
      in if side = BUY then
           let new_qty = q + qty;
               new_avg = (if new_qty > 0 then (avg * of_int q + price * of_int qty) / of_int new_qty else 0)
           in s\<lparr>positions := (positions s)(key \<mapsto> (new_qty, new_avg)),
                cash := (cash s)(strategy_id \<mapsto> get_num (cash s) strategy_id - price * of_int qty - fee_val)\<rparr>
         else
           let new_qty = max 0 (q - qty)
           in s\<lparr>realized := (realized s)(key \<mapsto> get_num (realized s) key + (price - avg) * of_int qty),
                cash := (cash s)(strategy_id \<mapsto> get_num (cash s) strategy_id + price * of_int qty - fee_val),
                positions := (positions s)(key \<mapsto> (if new_qty = 0 then (0, 0) else (new_qty, avg)))\<rparr>)"

text \<open>A percentage of the metadata: \<open>float(md.get(k, 0.0) or 0.0)\<close>; \<open>None\<close> where it raises.\<close>

definition pct_field :: "(string \<times> json) list \<Rightarrow> string \<Rightarrow> rat option" where
  "pct_field md k =
     (let v = jget_none md k in if py_truthy v then float_of_json v else Some 0)"

definition set_bracket_if_configured ::
  "string \<Rightarrow> int \<Rightarrow> rat \<Rightarrow> (string \<times> json) list \<Rightarrow> pt \<Rightarrow> pt" where
  "set_bracket_if_configured strategy_id instrument_token entry_price md s =
     (if \<not> py_truthy (jget_none md ''bracket'') \<and>
         \<not> (py_truthy (jget_none md ''take_profit_pct'') \<or> py_truthy (jget_none md ''stop_loss_pct''))
      then s
      else case (pct_field md ''take_profit_pct'', pct_field md ''stop_loss_pct'') of
          (Some tp_pct, Some sl_pct) \<Rightarrow>
            (let tp = (if tp_pct > 0 then Some (entry_price * (1 + tp_pct / 100)) else None);
                 sl = (if sl_pct > 0 then Some (entry_price * (1 - sl_pct / 100)) else None)
             in s\<lparr>brackets := dict_set (strategy_id, instrument_token) (tp, sl) (brackets s)\<rparr>)
        | _ \<Rightarrow> s)"

definition compute_realized_pnl_instrument :: "pt \<Rightarrow> string \<Rightarrow> int \<Rightarrow> rat" where
  "compute_realized_pnl_instrument s strategy_id instrument_token =
     get_num (realized s) (strategy_id, instrument_token)"

definition compute_unrealized_pnl_instrument :: "pt \<Rightarrow> string \<Rightarrow> int \<Rightarrow> rat" where
  "compute_unrealized_pnl_instrument s strategy_id instrument_token =
     (case positions s (strategy_id, instrument_token) of
        None \<Rightarrow> 0
      | Some (qty, avg) \<Rightarrow>
          if qty = 0 then 0
          else (or_num (last_price s instrument_token) avg - avg) * of_int qty)"

definition compute_total_pnl_instrument :: "pt \<Rightarrow> string \<Rightarrow> int \<Rightarrow> rat" where
  "compute_total_pnl_instrument s strategy_id instrument_token =
     compute_realized_pnl_instrument s strategy_id instrument_token +
     compute_unrealized_pnl_instrument s strategy_id instrument_token"

subsection \<open>Order failures\<close>

text \<open>A failed send is caught and logged.\<close>

definition emit_order_failed :: "'g pt_env \<Rightarrow> validated_signal \<Rightarrow> string \<Rightarrow> pt \<Rightarrow> pt" where
  "emit_order_failed X v reason s =
     (let sig = vs_original_signal v; (order_id, s1) = generate_event_id X s in
      snd (send_event X
        \<lparr>pe_topic = orders_failed ''paper'',
         pe_key = order_key (ts_strategy_id sig) (ts_instrument_token sig) (str_datetime (vs_timestamp v)),
         pe_payload = Failed \<lparr>ofa_strategy_id = ts_strategy_id sig,
            ofa_instrument_token = ts_instrument_token sig, ofa_signal_type = ts_signal_type sig,
            ofa_quantity = vs_validated_quantity v,
            ofa_price = (case vs_validated_price v of Some p \<Rightarrow> if p = 0 then ts_price sig else Some p | None \<Rightarrow> ts_price sig),
            ofa_order_id = order_id, ofa_execution_mode = PAPER, ofa_error_message = reason,
            ofa_timestamp = vs_timestamp v, ofa_broker = ''paper''\<rparr>,
         pe_type = ORDER_FAILED\<rparr> s1))"

subsection \<open>Validated signals\<close>

text \<open>Idempotence: a key seen before is reported as a duplicate, a new one is remembered; the queue
  drops its oldest key when it reaches its capacity of 2000.\<close>

definition idem_key :: "validated_signal \<Rightarrow> string" where
  "idem_key v = ts_strategy_id (vs_original_signal v) @ '':'' @ show_int (ts_instrument_token (vs_original_signal v))
     @ '':'' @ isoformat (vs_timestamp v)"

definition remember_key :: "string \<Rightarrow> pt \<Rightarrow> pt" where
  "remember_key k s =
     (let s1 = s\<lparr>seen_keys := insert k (seen_keys s), seen_queue := seen_queue s @ [k]\<rparr> in
      if length (seen_queue s1) = 2000
      then s1\<lparr>seen_queue := tl (seen_queue s1), seen_keys := seen_keys s1 - {hd (seen_queue s1)}\<rparr>
      else s1)"

definition base_price_of :: "validated_signal \<Rightarrow> rat" where
  "base_price_of v = or_num (vs_validated_price v) (or_num (ts_price (vs_original_signal v)) 0)"

text \<open>The price, instrument and quantity guardrails, in the order of the code; the reason of the
  first that fails.\<close>

definition guardrails :: "pt_settings \<Rightarrow> validated_signal \<Rightarrow> string option" where
  "guardrails P v =
     (let sig = vs_original_signal v; base_price = base_price_of v in
      if (case min_price P of None \<Rightarrow> False | Some m \<Rightarrow> base_price < m) then Some ''Price below minimum''
      else if (case max_price P of None \<Rightarrow> False | Some m \<Rightarrow> m > 0 \<and> base_price > m) then Some ''Price above maximum''
      else if allowed_instruments P \<noteq> [] \<and> ts_instrument_token sig \<notin> set (allowed_instruments P)
        then Some ''Instrument not allowed''
      else if ts_quantity sig < max 1 (min_quantity P) then Some ''Quantity below minimum''
      else if (case max_quantity P of None \<Rightarrow> False | Some m \<Rightarrow> ts_quantity sig > m) then Some ''Quantity exceeds maximum''
      else None)"

definition metadata_of :: "validated_signal \<Rightarrow> (string \<times> json) list" where
  "metadata_of v = (case ts_metadata (vs_original_signal v) of None \<Rightarrow> [] | Some md \<Rightarrow> md)"

definition order_type_of :: "validated_signal \<Rightarrow> string" where
  "order_type_of v = str_lower (case jget (metadata_of v) ''order_type'' of None \<Rightarrow> ''market'' | Some j \<Rightarrow> py_str j)"

definition tif_of :: "validated_signal \<Rightarrow> string" where
  "tif_of v = str_upper (case jget (metadata_of v) ''tif'' of None \<Rightarrow> ''DAY'' | Some j \<Rightarrow> py_str j)"

definition is_stop :: "string \<Rightarrow> bool" where
  "is_stop order_type = (order_type \<in> {''stop'', ''stop_limit''})"

definition limit_price_of :: "validated_signal \<Rightarrow> rat option" where
  "limit_price_of v =
     (case dec_of_json (jget_none (metadata_of v) ''limit_price'') of
        Some p \<Rightarrow> Some p
      | None \<Rightarrow> if order_type_of v = ''limit'' then Some (base_price_of v) else None)"

definition stop_price_of :: "validated_signal \<Rightarrow> rat option" where
  "stop_price_of v = dec_of_json (jget_none (metadata_of v) ''stop_price'')"

definition is_crossing :: "signal_type \<Rightarrow> rat \<Rightarrow> rat option \<Rightarrow> bool" where
  "is_crossing side mkt lmt =
     (case lmt of None \<Rightarrow> True | Some l \<Rightarrow> if side = BUY then mkt \<le> l else mkt \<ge> l)"

definition stop_triggered :: "signal_type \<Rightarrow> rat \<Rightarrow> rat \<Rightarrow> bool" where
  "stop_triggered side mkt stp = (if side = BUY then mkt \<ge> stp else mkt \<le> stp)"

text \<open>Where an order goes: refused with a reason, queued as a stop order, or to be filled with a
  quantity.\<close>

datatype route = Refuse string | Enqueue | Fill int

definition route_order :: "'g rng \<Rightarrow> validated_signal \<Rightarrow> 'g \<Rightarrow> route \<times> 'g" where
  "route_order G v g =
     (let side = ts_signal_type (vs_original_signal v);
          order_type = order_type_of v; tif = tif_of v;
          market_price = base_price_of v; limit_price = limit_price_of v;
          requested_qty = vs_validated_quantity v;
          fillable_qty = (if order_type = ''limit'' \<and> \<not> is_crossing side market_price limit_price then 0 else requested_qty)
      in if is_stop order_type \<and> stop_price_of v = None then (Refuse ''Missing stop_price for stop order'', g)
         else if tif = ''FOK'' \<and> fillable_qty < requested_qty \<and> \<not> is_stop order_type
           then (Refuse ''FOK not fully fillable'', g)
         else if tif = ''IOC'' \<and> fillable_qty \<le> 0 \<and> \<not> is_stop order_type
           then (Refuse ''IOC no immediate fill available'', g)
         else
           let (actual_qty, g') =
                 (if tif = ''IOC'' \<and> fillable_qty > 0 \<and> fillable_qty < requested_qty then
                    (let (r, g1) = g_random G g; frac = max (1/10) (min 1 r)
                     in (max 1 (trunc_rat (of_int requested_qty * frac)), g1))
                  else if order_type = ''limit'' \<and> fillable_qty = 0 then (0, g)
                  else (requested_qty, g))
           in if \<not> is_stop order_type then (Fill actual_qty, g')
              else if \<not> stop_triggered side market_price (the (stop_price_of v)) then
                (if tif \<in> {''IOC'', ''FOK''} then Refuse ''Stop not triggered for IOC/FOK'' else Enqueue, g')
              else if order_type = ''stop_limit'' \<and> \<not> is_crossing side market_price limit_price
                then (Refuse ''Stop-limit not crossing'', g')
              else (Fill actual_qty, g'))"

definition enqueue_stop :: "validated_signal \<Rightarrow> pt \<Rightarrow> pt" where
  "enqueue_stop v s =
     (let sig = vs_original_signal v in
      s\<lparr>pending_stops := pending_stops s @
         [\<lparr>st_strategy_id = ts_strategy_id sig, st_instrument_token = ts_instrument_token sig,
           st_side = ts_signal_type sig, st_quantity = vs_validated_quantity v,
           st_stop_price = the (stop_price_of v),
           st_limit_price = (if order_type_of v = ''stop_limit'' then limit_price_of v else None),
           st_order_type = order_type_of v, st_created_at = vs_timestamp v\<rparr>]\<rparr>)"

definition fill_price_of :: "pt_settings \<Rightarrow> validated_signal \<Rightarrow> rat" where
  "fill_price_of P v =
     (let slip_mult = (if ts_signal_type (vs_original_signal v) = BUY then 1 + slippage_percent P / 100
                       else 1 - slippage_percent P / 100)
      in base_price_of v * slip_mult)"

definition init_cash :: "pt_settings \<Rightarrow> string \<Rightarrow> pt \<Rightarrow> pt" where
  "init_cash P strategy_id s =
     (if cash s strategy_id = None then s\<lparr>cash := (cash s)(strategy_id \<mapsto> starting_cash P)\<rparr> else s)"

text \<open>The quantity after the cash limit (BUY), the notional limit and the position limit (all
  other sides), or the reason of the refusal.\<close>

definition cash_limit :: "pt_settings \<Rightarrow> validated_signal \<Rightarrow> rat \<Rightarrow> int \<Rightarrow> string + int" where
  "cash_limit P v available actual_qty =
     (let unit_cost = fill_price_of P v * (1 + commission_percent P / 100); tif = tif_of v in
      if ts_signal_type (vs_original_signal v) = BUY \<and> unit_cost > 0 then
        let max_affordable = trunc_rat (available / unit_cost) in
        if tif = ''FOK'' \<and> actual_qty > max_affordable then Inl ''FOK insufficient cash''
        else if actual_qty > max_affordable then
          (if tif = ''IOC'' \<and> max_affordable > 0 then Inr max_affordable else Inl ''Insufficient cash'')
        else Inr actual_qty
      else Inr actual_qty)"

definition notional_limit :: "pt_settings \<Rightarrow> validated_signal \<Rightarrow> int \<Rightarrow> string + int" where
  "notional_limit P v actual_qty =
     (let unit_cost2 = fill_price_of P v * (1 + commission_percent P / 100); tif = tif_of v in
      case max_position_notional P of
        None \<Rightarrow> Inr actual_qty
      | Some max_notional \<Rightarrow>
          if max_notional > 0 \<and> unit_cost2 > 0 then
            let cap_qty = \<lfloor>max_notional / unit_cost2\<rfloor> in
            if cap_qty \<le> 0 then Inl ''Exceeds max position notional''
            else if tif = ''FOK'' \<and> actual_qty > cap_qty then Inl ''FOK exceeds max position notional''
            else if actual_qty > cap_qty then
              (if tif = ''IOC'' then Inr cap_qty else Inl ''Exceeds max position notional'')
            else Inr actual_qty
          else Inr actual_qty)"

definition position_limit :: "validated_signal \<Rightarrow> int \<Rightarrow> int \<Rightarrow> string + int" where
  "position_limit v held actual_qty =
     (let tif = tif_of v in
      if ts_signal_type (vs_original_signal v) \<noteq> BUY then
        if tif = ''FOK'' \<and> actual_qty > held then Inl ''FOK exceeds position size''
        else if actual_qty > held then
          (if tif = ''IOC'' \<and> held > 0 then Inr held else Inl ''No position to sell'')
        else Inr actual_qty
      else Inr actual_qty)"

definition limit_quantity :: "pt_settings \<Rightarrow> validated_signal \<Rightarrow> pt \<Rightarrow> int \<Rightarrow> string + int" where
  "limit_quantity P v s actual_qty =
     (let sig = vs_original_signal v in
      case cash_limit P v (get_num (cash s) (ts_strategy_id sig)) actual_qty of
        Inl r \<Rightarrow> Inl r
      | Inr q1 \<Rightarrow>
     (case notional_limit P v q1 of
        Inl r \<Rightarrow> Inl r
      | Inr q2 \<Rightarrow> position_limit v (qty_of s (ts_strategy_id sig, ts_instrument_token sig)) q2))"

text \<open>Splitting into partial fills: every slot but the last takes at least one and leaves at least
  one for each of the others.\<close>

fun take_parts :: "'g rng \<Rightarrow> nat \<Rightarrow> int \<Rightarrow> 'g \<Rightarrow> int list" where
  "take_parts G 0 remaining g = [remaining]"
| "take_parts G (Suc n) remaining g =
     (let (t, g') = g_randint G 1 (max 1 (remaining - int (Suc n))) g
      in t # take_parts G n (remaining - t) g')"

definition split_parts :: "'g rng \<Rightarrow> pt_settings \<Rightarrow> int \<Rightarrow> 'g \<Rightarrow> int list" where
  "split_parts G P actual_qty g =
     (let max_parts = (if max_partials P = 0 then 1 else max_partials P) in
      if actual_qty > 1 \<and> max_parts > 1 then
        let (r, g1) = g_random G g in
        if r < partial_fill_prob P then
          let (n_parts, g2) = g_randint G 2 (min max_parts actual_qty) g1
          in take_parts G (nat (n_parts - 1)) actual_qty g2
        else [actual_qty]
      else [actual_qty])"

definition fee_of :: "pt_settings \<Rightarrow> rat \<Rightarrow> int \<Rightarrow> rat option" where
  "fee_of P price qty =
     (let notional = price * of_int qty in
      if notional \<noteq> 0 then Some (notional * (commission_percent P / 100)) else None)"

definition fill_event :: "pt_settings \<Rightarrow> validated_signal \<Rightarrow> string \<Rightarrow> int \<Rightarrow> pt_event" where
  "fill_event P v order_id qty =
     (let sig = vs_original_signal v; price = fill_price_of P v in
      \<lparr>pe_topic = orders_filled ''paper'',
       pe_key = order_key (ts_strategy_id sig) (ts_instrument_token sig) (str_datetime (vs_timestamp v)),
       pe_payload = Filled \<lparr>of_order_id = order_id, of_instrument_token = ts_instrument_token sig,
          of_quantity = qty, of_fill_price = price, of_timestamp = vs_timestamp v, of_broker = ''paper'',
          of_side = ts_signal_type sig, of_strategy_id = Some (ts_strategy_id sig),
          of_signal_type = Some (ts_signal_type sig), of_execution_mode = Some PAPER,
          of_fees = fee_of P price qty\<rparr>,
       pe_type = ORDER_FILLED\<rparr>)"

text \<open>Each part is sent and then booked; a failing send ends the loop with its exception.\<close>

fun emit_fills :: "'g pt_env \<Rightarrow> validated_signal \<Rightarrow> string \<Rightarrow> int list \<Rightarrow> pt \<Rightarrow> (exn + unit) \<times> pt" where
  "emit_fills X v order_id [] s = (Inr (), s)"
| "emit_fills X v order_id (qty # parts) s =
     (case send_event X (fill_event (x_set X) v order_id qty) s of
        (Inl e, s') \<Rightarrow> (Inl e, s')
      | (Inr _, s') \<Rightarrow>
          (let sig = vs_original_signal v; price = fill_price_of (x_set X) v in
           emit_fills X v order_id parts
             (apply_fill_to_portfolio (ts_strategy_id sig) (ts_instrument_token sig) (ts_signal_type sig)
                qty price (fee_of (x_set X) price qty) s')))"

definition pnl_event :: "validated_signal \<Rightarrow> pt \<Rightarrow> pt_event" where
  "pnl_event v s =
     (let sid = ts_strategy_id (vs_original_signal v); tok = ts_instrument_token (vs_original_signal v) in
      \<lparr>pe_topic = pnl_snapshots ''paper'', pe_key = ''portfolio_snapshot_paper:'' @ sid,
       pe_payload = Pnl \<lparr>pn_broker = ''paper'', pn_instrument_token = Some tok,
          pn_realized_pnl = compute_realized_pnl_instrument s sid tok,
          pn_unrealized_pnl = compute_unrealized_pnl_instrument s sid tok,
          pn_total_pnl = compute_total_pnl_instrument s sid tok, pn_timestamp = vs_timestamp v\<rparr>,
       pe_type = PNL_SNAPSHOT\<rparr>)"

definition execute_fill :: "'g pt_env \<Rightarrow> validated_signal \<Rightarrow> int \<Rightarrow> 'g \<Rightarrow> pt \<Rightarrow> (exn + unit) \<times> pt" where
  "execute_fill X v routed_qty g s =
     (let P = x_set X; sig = vs_original_signal v;
          sid = ts_strategy_id sig; tok = ts_instrument_token sig;
          (order_id, s1) = generate_event_id X s;
          s2 = init_cash P sid s1
      in case limit_quantity P v s2 routed_qty of
           Inl reason \<Rightarrow> (Inr (), emit_order_failed X v reason s2)
         | Inr actual_qty \<Rightarrow>
             (case emit_fills X v order_id (split_parts (x_rng X) P actual_qty g) s2 of
                (Inl e, s3) \<Rightarrow> (Inl e, s3)
              | (Inr _, s3) \<Rightarrow>
                  (let s4 = (if ts_signal_type sig = BUY \<and> qty_of s2 (sid, tok) = 0
                             then set_bracket_if_configured sid tok (fill_price_of P v) (metadata_of v) s3 else s3)
                   in (Inr (), snd (send_event X (pnl_event v s4) s4)))))"

definition process_signal :: "'g pt_env \<Rightarrow> validated_signal \<Rightarrow> pt \<Rightarrow> (exn + unit) \<times> pt" where
  "process_signal X v s =
     (let P = x_set X; G = x_rng X; g0 = g_seed G (idem_key v);
          g1 = (if latency_ms_mean P > 0 \<or> latency_ms_std P > 0 then snd (g_gauss G g0) else g0)
      in case guardrails P v of
           Some reason \<Rightarrow> (Inr (), emit_order_failed X v reason s)
         | None \<Rightarrow>
             (case route_order G v g1 of
                (Refuse reason, _) \<Rightarrow> (Inr (), emit_order_failed X v reason s)
              | (Enqueue, _) \<Rightarrow> (Inr (), enqueue_stop v s)
              | (Fill qty, g2) \<Rightarrow> execute_fill X v qty g2 s))"

definition handle_validated_signal ::
  "'g pt_env \<Rightarrow> json \<Rightarrow> (string \<times> json) list \<Rightarrow> pt \<Rightarrow> (exn + unit) \<times> pt" where
  "handle_validated_signal X msg_type data s =
     (if msg_type \<noteq> JStr (event_type_value VALIDATED_SIGNAL) then (Inr (), s)
      else case x_parse X data of
          None \<Rightarrow> (Inl (raise_exn ValidationError ''Invalid validated signal payload''), s)
        | Some v \<Rightarrow>
            if idem_key v \<in> seen_keys s then (Inr (), s)
            else process_signal X v (remember_key (idem_key v) s))"

subsection \<open>Market ticks\<close>

text \<open>The exit is sent as a SELL fill; the portfolio update that follows lacks its last argument, so
  it raises TypeError, which is caught like a failed send: the portfolio does not change.\<close>

definition emit_bracket_exit_fill ::
  "'g pt_env \<Rightarrow> string \<Rightarrow> int \<Rightarrow> int \<Rightarrow> rat \<Rightarrow> pt \<Rightarrow> pt" where
  "emit_bracket_exit_fill X strategy_id instrument_token qty price s =
     (let (order_id, s1) = generate_event_id X s in
      snd (send_event X
        \<lparr>pe_topic = orders_filled ''paper'',
         pe_key = order_key strategy_id instrument_token (isoformat (x_now X)),
         pe_payload = Filled \<lparr>of_order_id = order_id, of_instrument_token = instrument_token,
            of_quantity = qty, of_fill_price = price, of_timestamp = x_now X, of_broker = ''paper'',
            of_side = SELL, of_strategy_id = Some strategy_id, of_signal_type = Some SELL,
            of_execution_mode = Some PAPER, of_fees = None\<rparr>,
         pe_type = ORDER_FILLED\<rparr> s1))"

definition bracket_trigger :: "rat option \<times> rat option \<Rightarrow> rat \<Rightarrow> rat option" where
  "bracket_trigger br lp =
     (case snd br of
        Some sl \<Rightarrow> if lp \<le> sl then Some sl
                   else (case fst br of Some tp \<Rightarrow> if lp \<ge> tp then Some tp else None | None \<Rightarrow> None)
      | None \<Rightarrow> (case fst br of Some tp \<Rightarrow> if lp \<ge> tp then Some tp else None | None \<Rightarrow> None))"

fun scan_brackets ::
  "'g pt_env \<Rightarrow> int \<Rightarrow> rat \<Rightarrow> (pos_key \<times> (rat option \<times> rat option)) list \<Rightarrow> pos_key list \<Rightarrow> pt \<Rightarrow> pos_key list \<times> pt" where
  "scan_brackets X inst lp [] to_remove s = (to_remove, s)"
| "scan_brackets X inst lp (((sid, token), br) # rest) to_remove s =
     (if token \<noteq> inst then scan_brackets X inst lp rest to_remove s
      else if qty_of s (sid, token) \<le> 0 then scan_brackets X inst lp rest (to_remove @ [(sid, token)]) s
      else case bracket_trigger br lp of
          Some price \<Rightarrow>
            scan_brackets X inst lp rest (to_remove @ [(sid, token)])
              (emit_bracket_exit_fill X sid token (qty_of s (sid, token)) price s)
        | None \<Rightarrow> scan_brackets X inst lp rest to_remove s)"

text \<open>A triggered stop order is to be executed by the signal handler, but building its signal uses
  the name \<open>datetime\<close>, which the module does not define: NameError is raised and caught, and the order
  is gone.\<close>

definition keep_stop :: "int \<Rightarrow> rat \<Rightarrow> pending_stop \<Rightarrow> bool" where
  "keep_stop inst lp od =
     (if st_instrument_token od \<noteq> inst then True
      else if st_quantity od \<le> 0 then False
      else \<not> (if st_side od = BUY then lp \<ge> st_stop_price od else lp \<le> st_stop_price od))"

definition scan_stops :: "int \<Rightarrow> rat \<Rightarrow> pt \<Rightarrow> pt" where
  "scan_stops inst lp s = s\<lparr>pending_stops := filter (keep_stop inst lp) (pending_stops s)\<rparr>"

definition handle_market_tick_paper ::
  "'g pt_env \<Rightarrow> json \<Rightarrow> (string \<times> json) list \<Rightarrow> pt \<Rightarrow> (exn + unit) \<times> pt" where
  "handle_market_tick_paper X msg_type data s =
     (if msg_type \<noteq> JStr (event_type_value MARKET_TICK) then (Inr (), s)
      else let tok = jget_none data ''instrument_token'' in
        case (if py_truthy tok then int_of_json tok else Some 0) of
          None \<Rightarrow> (Inl (raise_exn (Other (case tok of JStr _ \<Rightarrow> ''ValueError'' | _ \<Rightarrow> ''TypeError'')) ''int()''), s)
        | Some inst \<Rightarrow>
            if inst = 0 then (Inr (), s)
            else (case dec_of_json (jget_none data ''last_price'') of
                    None \<Rightarrow> (Inr (), s)
                  | Some lp \<Rightarrow>
                      (let s1 = s\<lparr>last_price := (last_price s)(inst \<mapsto> lp)\<rparr>;
                           (to_remove, s2) = scan_brackets X inst lp (brackets s1) [] s1;
                           s3 = s2\<lparr>brackets := fold dict_pop to_remove (brackets s2)\<rparr>
                       in (Inr (), scan_stops inst lp s3))))"

lemma send_event_fields [simp]:
  "seen_keys (snd (send_event X e s)) = seen_keys s" "seen_queue (snd (send_event X e s)) = seen_queue s"
  "positions (snd (send_event X e s)) = positions s" "realized (snd (send_event X e s)) = realized s"
  "cash (snd (send_event X e s)) = cash s" "last_price (snd (send_event X e s)) = last_price s"
  "brackets (snd (send_event X e s)) = brackets s" "pending_stops (snd (send_event X e s)) = pending_stops s"
  by (simp_all add: send_event_def split: option.splits)

lemma send_event_Inl: "send_event X e s = (Inl x, s') \<Longrightarrow> s' = s"
  by (auto simp: send_event_def split: option.splits)

lemma send_event_Inr: "send_event X e s = (Inr u, s') \<Longrightarrow> s' = s\<lparr>sent := sent s @ [e]\<rparr>"
  by (auto simp: send_event_def split: option.splits)

lemma emit_order_failed_fields [simp]:
  "seen_keys (emit_order_failed X v r s) = seen_keys s" "seen_queue (emit_order_failed X v r s) = seen_queue s"
  "positions (emit_order_failed X v r s) = positions s" "realized (emit_order_failed X v r s) = realized s"
  "cash (emit_order_failed X v r s) = cash s" "last_price (emit_order_failed X v r s) = last_price s"
  "brackets (emit_order_failed X v r s) = brackets s" "pending_stops (emit_order_failed X v r s) = pending_stops s"
  by (simp_all add: emit_order_failed_def generate_event_id_def Let_def)

lemma emit_bracket_fields [simp]:
  "seen_keys (emit_bracket_exit_fill X a b q p s) = seen_keys s" "seen_queue (emit_bracket_exit_fill X a b q p s) = seen_queue s"
  "positions (emit_bracket_exit_fill X a b q p s) = positions s" "realized (emit_bracket_exit_fill X a b q p s) = realized s"
  "cash (emit_bracket_exit_fill X a b q p s) = cash s" "last_price (emit_bracket_exit_fill X a b q p s) = last_price s"
  "brackets (emit_bracket_exit_fill X a b q p s) = brackets s" "pending_stops (emit_bracket_exit_fill X a b q p s) = pending_stops s"
  by (simp_all add: emit_bracket_exit_fill_def generate_event_id_def Let_def)

lemma scan_brackets_fields:
  "scan_brackets X inst lp brs rm s = (rm', s') \<Longrightarrow>
     seen_keys s' = seen_keys s \<and> seen_queue s' = seen_queue s \<and> positions s' = positions s \<and> realized s' = realized s \<and>
     cash s' = cash s \<and> brackets s' = brackets s \<and> pending_stops s' = pending_stops s \<and> last_price s' = last_price s"
proof (induction X inst lp brs rm s rule: scan_brackets.induct)
  case (2 X inst lp sid token br rest to_remove s)
  from 2(5) 2(1-4) show ?case by (auto split: if_splits option.splits)
qed simp

subsection \<open>The window of seen keys\<close>

definition window_ok :: "pt \<Rightarrow> bool" where
  "window_ok s = (seen_keys s = set (seen_queue s) \<and> distinct (seen_queue s) \<and> length (seen_queue s) < 2000)"

lemma remember_key_window:
  assumes "window_ok s" "k \<notin> seen_keys s"
  shows "window_ok (remember_key k s)" "k \<in> seen_keys (remember_key k s)"
proof -
  obtain q where q: "seen_queue s = q" "seen_keys s = set q" "distinct q" "length q < 2000" "k \<notin> set q"
    using assms by (auto simp: window_ok_def)
  show "window_ok (remember_key k s)"
  proof (cases "length q = 1999")
    case True
    then obtain a q' where "q = a # q'" by (cases q) auto
    with q True show ?thesis by (auto simp: window_ok_def remember_key_def Let_def)
  next
    case False
    with q show ?thesis by (auto simp: window_ok_def remember_key_def Let_def)
  qed
  show "k \<in> seen_keys (remember_key k s)"
    using q by (cases q) (auto simp: remember_key_def Let_def)
qed

lemma remember_key_fields [simp]:
  "positions (remember_key k s) = positions s" "realized (remember_key k s) = realized s"
  "cash (remember_key k s) = cash s" "last_price (remember_key k s) = last_price s"
  "brackets (remember_key k s) = brackets s" "pending_stops (remember_key k s) = pending_stops s"
  "sent (remember_key k s) = sent s"
  by (simp_all add: remember_key_def Let_def)

subsection \<open>Partial fills\<close>

lemma take_parts_ok:
  assumes "randint_ok G" "int (Suc n) \<le> remaining"
  shows "sum_list (take_parts G n remaining g) = remaining \<and> (\<forall>x \<in> set (take_parts G n remaining g). 1 \<le> x) \<and>
     length (take_parts G n remaining g) = Suc n"
  using assms(2)
proof (induction n arbitrary: remaining g)
  case (Suc n)
  obtain t g' where t: "g_randint G 1 (max 1 (remaining - int (Suc n))) g = (t, g')" by fastforce
  have "1 \<le> t \<and> t \<le> max 1 (remaining - int (Suc n))"
    using assms(1) t unfolding randint_ok_def by (metis fst_conv max.cobounded1)
  with Suc.prems have b: "1 \<le> t" "int (Suc n) \<le> remaining - t" by auto
  have eq: "take_parts G (Suc n) remaining g = t # take_parts G n (remaining - t) g'"
    by (simp only: take_parts.simps t Let_def prod.case)
  from Suc.IH [OF b(2), of g'] b(1) show ?case by (simp add: eq del: take_parts.simps)
qed auto

lemma split_parts_ok:
  assumes G: "randint_ok G" and q: "1 \<le> q"
  shows "sum_list (split_parts G P q g) = q \<and> (\<forall>x \<in> set (split_parts G P q g). 1 \<le> x) \<and>
     int (length (split_parts G P q g)) \<le> max 1 (max_partials P)"
proof (cases "q > 1 \<and> (if max_partials P = 0 then 1 else max_partials P) > 1 \<and> fst (g_random G g) < partial_fill_prob P")
  case True
  then have mp: "max_partials P > 1" by (auto split: if_splits)
  let ?m = "min (max_partials P) q"
  obtain n g2 where n: "g_randint G 2 ?m (snd (g_random G g)) = (n, g2)" by fastforce
  have "2 \<le> ?m" using True mp by auto
  then have n2: "2 \<le> n" "n \<le> ?m" using G n unfolding randint_ok_def by (metis fst_conv)+
  have eq: "split_parts G P q g = take_parts G (nat (n - 1)) q g2"
    using True mp n by (simp add: split_parts_def Let_def split_beta)
  have "int (Suc (nat (n - 1))) \<le> q" using n2 by auto
  from take_parts_ok [OF G this, of g2] n2 show ?thesis by (auto simp: eq)
next
  case False
  then have "split_parts G P q g = [q]"
    by (auto simp: split_parts_def Let_def split_beta)
  with q show ?thesis by simp
qed

lemma split_parts_sum:
  assumes "randint_ok G" "0 \<le> q"
  shows "sum_list (split_parts G P q g) = q \<and> (\<forall>x \<in> set (split_parts G P q g). 0 \<le> x)"
proof (cases "q = 0")
  case True
  then show ?thesis by (simp add: split_parts_def)
next
  case False
  with assms(2) have "1 \<le> q" by simp
  from split_parts_ok [OF assms(1), OF this, of P g] show ?thesis by (meson order_trans zero_le_one)
qed

subsection \<open>Booking a fill\<close>

text \<open>Cash, holdings and the book value of a position: what the portfolio's cash, cost basis and
  realised profit add up to.\<close>

definition cash_of :: "pt \<Rightarrow> string \<Rightarrow> rat" where
  "cash_of s sid = get_num (cash s) sid"

definition book_value :: "pt \<Rightarrow> pos_key \<Rightarrow> rat" where
  "book_value s k = cash_of s (fst k) + snd (pos_of s k) * of_int (qty_of s k) - get_num (realized s) k"

definition commission :: "pt_settings \<Rightarrow> rat \<Rightarrow> int \<Rightarrow> rat" where
  "commission P price qty = price * of_int qty * (commission_percent P / 100)"

lemma fee_commission: "or_num (fee_of P price qty) 0 = commission P price qty"
  by (auto simp: fee_of_def commission_def or_num_def Let_def)

lemma apply_buy:
  fixes s sid tok qty price fees
  defines "s' \<equiv> apply_fill_to_portfolio sid tok BUY qty price fees s"
  shows "cash_of s' sid = cash_of s sid - price * of_int qty - or_num fees 0"
    "qty_of s' (sid, tok) = qty_of s (sid, tok) + qty"
    "0 \<le> qty_of s (sid, tok) \<Longrightarrow> 0 \<le> qty \<Longrightarrow> book_value s' (sid, tok) = book_value s (sid, tok) - or_num fees 0"
proof -
  obtain q avg where p: "pos_of s (sid, tok) = (q, avg)" by fastforce
  define avg' where "avg' = (if q + qty > 0 then (avg * of_int q + price * of_int qty) / of_int (q + qty) else 0)"
  have eq: "s' = s\<lparr>positions := (positions s)((sid, tok) \<mapsto> (q + qty, avg')),
      cash := (cash s)(sid \<mapsto> cash_of s sid - price * of_int qty - or_num fees 0)\<rparr>"
    using p by (simp add: s'_def apply_fill_to_portfolio_def Let_def cash_of_def avg'_def)
  have pos': "pos_of s' (sid, tok) = (q + qty, avg')" by (simp add: eq pos_of_def)
  show 1: "cash_of s' sid = cash_of s sid - price * of_int qty - or_num fees 0"
    by (simp add: eq cash_of_def get_num_def)
  show "qty_of s' (sid, tok) = qty_of s (sid, tok) + qty" by (simp add: qty_of_def pos' p)
  assume "0 \<le> qty_of s (sid, tok)" "0 \<le> qty"
  then have "q + qty > 0 \<or> q = 0 \<and> qty = 0" using p by (auto simp: qty_of_def)
  then have basis: "avg' * of_int (q + qty) = avg * of_int q + price * of_int qty"
    by (auto simp: avg'_def)
  show "book_value s' (sid, tok) = book_value s (sid, tok) - or_num fees 0"
    unfolding book_value_def fst_conv 1 qty_of_def pos' p snd_conv basis
    by (simp add: eq)
qed

lemma apply_sell:
  fixes s sid tok side qty price fees
  assumes side: "side \<noteq> BUY"
  defines "s' \<equiv> apply_fill_to_portfolio sid tok side qty price fees s"
  shows "cash_of s' sid = cash_of s sid + price * of_int qty - or_num fees 0"
    "qty_of s' (sid, tok) = max 0 (qty_of s (sid, tok) - qty)"
    "qty \<le> qty_of s (sid, tok) \<Longrightarrow> book_value s' (sid, tok) = book_value s (sid, tok) - or_num fees 0"
proof -
  obtain q avg where p: "pos_of s (sid, tok) = (q, avg)" by fastforce
  have eq: "s' = s\<lparr>realized := (realized s)((sid, tok) \<mapsto> get_num (realized s) (sid, tok) + (price - avg) * of_int qty),
      cash := (cash s)(sid \<mapsto> cash_of s sid + price * of_int qty - or_num fees 0),
      positions := (positions s)((sid, tok) \<mapsto> (if max 0 (q - qty) = 0 then (0, 0) else (max 0 (q - qty), avg)))\<rparr>"
    using side p by (simp add: s'_def apply_fill_to_portfolio_def Let_def cash_of_def)
  show 1: "cash_of s' sid = cash_of s sid + price * of_int qty - or_num fees 0"
    by (simp add: eq cash_of_def get_num_def)
  have pos': "pos_of s' (sid, tok) = (if max 0 (q - qty) = 0 then (0, 0) else (max 0 (q - qty), avg))"
    by (simp add: eq pos_of_def)
  show "qty_of s' (sid, tok) = max 0 (qty_of s (sid, tok) - qty)"
    by (simp add: qty_of_def pos' p)
  assume le: "qty \<le> qty_of s (sid, tok)"
  have real: "get_num (realized s') (sid, tok) = get_num (realized s) (sid, tok) + (price - avg) * of_int qty"
    by (simp add: eq get_num_def)
  have basis: "snd (pos_of s' (sid, tok)) * of_int (qty_of s' (sid, tok)) = avg * (of_int q - of_int qty)"
    using le p by (auto simp: qty_of_def pos' max_def)
  show "book_value s' (sid, tok) = book_value s (sid, tok) - or_num fees 0"
    unfolding book_value_def fst_conv 1 real basis
    using p by (simp add: qty_of_def algebra_simps)
qed

lemma apply_fill_others:
  fixes s sid tok side qty price fees
  defines "s' \<equiv> apply_fill_to_portfolio sid tok side qty price fees s"
  shows "sid' \<noteq> sid \<Longrightarrow> cash_of s' sid' = cash_of s sid'" "k \<noteq> (sid, tok) \<Longrightarrow> qty_of s' k = qty_of s k"
    "sent s' = sent s" "seen_keys s' = seen_keys s" "seen_queue s' = seen_queue s" "brackets s' = brackets s"
    "pending_stops s' = pending_stops s" "cash s' sid \<noteq> None"
    "k \<noteq> (sid, tok) \<Longrightarrow> positions s' k = positions s k"
  by (auto simp: s'_def apply_fill_to_portfolio_def cash_of_def qty_of_def pos_of_def get_num_def Let_def split_beta)

subsection \<open>The portfolio stays sound\<close>

definition portfolio_ok :: "pt \<Rightarrow> bool" where
  "portfolio_ok s = ((\<forall>sid. 0 \<le> cash_of s sid) \<and> (\<forall>k. 0 \<le> qty_of s k))"

definition settings_ok :: "pt_settings \<Rightarrow> bool" where
  "settings_ok P = (0 \<le> slippage_percent P \<and> slippage_percent P \<le> 100 \<and> 0 \<le> commission_percent P \<and>
     commission_percent P \<le> 100 \<and> 0 \<le> starting_cash P \<and> (\<exists>m. min_price P = Some m \<and> 0 \<le> m))"

lemma portfolio_okD: "portfolio_ok s \<Longrightarrow> 0 \<le> cash_of s sid" "portfolio_ok s \<Longrightarrow> 0 \<le> qty_of s k"
  unfolding portfolio_ok_def by blast+

lemma apply_fill_sound:
  assumes ok: "portfolio_ok s" and P: "settings_ok P" and price: "0 \<le> price" and qty: "0 \<le> qty"
    and buy: "side = BUY \<longrightarrow> price * (1 + commission_percent P / 100) * of_int qty \<le> cash_of s sid"
    and sell: "side \<noteq> BUY \<longrightarrow> qty \<le> qty_of s (sid, tok)"
  shows "portfolio_ok (apply_fill_to_portfolio sid tok side qty price (fee_of P price qty) s)"
proof -
  let ?s' = "apply_fill_to_portfolio sid tok side qty price (fee_of P price qty) s"
  have c: "0 \<le> commission P price qty" "commission P price qty \<le> price * of_int qty"
  proof -
    have pq: "0 \<le> price * of_int qty" using price qty by simp
    have b: "0 \<le> commission_percent P / 100" "commission_percent P / 100 \<le> 1" using P by (auto simp: settings_ok_def)
    show "0 \<le> commission P price qty" unfolding commission_def using pq b(1) by (rule mult_nonneg_nonneg)
    show "commission P price qty \<le> price * of_int qty" unfolding commission_def using mult_left_le [OF b(2) pq] .
  qed
  have total: "price * (1 + commission_percent P / 100) * of_int qty = price * of_int qty + commission P price qty"
    by (simp add: commission_def algebra_simps)
  have cash: "0 \<le> cash_of ?s' sid"
  proof (cases "side = BUY")
    case True
    with buy total show ?thesis by (simp add: apply_buy(1) fee_commission)
  next
    case False
    with ok c show ?thesis using portfolio_okD(1) [OF ok, of sid] by (simp add: apply_sell(1) fee_commission)
  qed
  have qty': "0 \<le> qty_of ?s' (sid, tok)"
    using ok qty by (cases "side = BUY") (simp_all add: apply_buy(2) apply_sell(2) portfolio_okD)
  show ?thesis unfolding portfolio_ok_def
  proof (intro conjI allI)
    fix sid' show "0 \<le> cash_of ?s' sid'"
      using cash ok apply_fill_others(1) [of sid' sid tok side qty price "fee_of P price qty" s]
      by (cases "sid' = sid") (simp_all add: portfolio_okD)
  next
    fix k show "0 \<le> qty_of ?s' k"
      using qty' ok apply_fill_others(2) [of k sid tok side qty price "fee_of P price qty" s]
      by (cases "k = (sid, tok)") (simp_all add: portfolio_okD)
  qed
qed

definition sig_key :: "validated_signal \<Rightarrow> pos_key" where
  "sig_key v = (ts_strategy_id (vs_original_signal v), ts_instrument_token (vs_original_signal v))"

definition unit_cost :: "pt_settings \<Rightarrow> validated_signal \<Rightarrow> rat" where
  "unit_cost P v = fill_price_of P v * (1 + commission_percent P / 100)"

text \<open>The quantity is covered by the cash (BUY) or by the holding (any other side).\<close>

definition covered :: "pt_settings \<Rightarrow> validated_signal \<Rightarrow> int \<Rightarrow> pt \<Rightarrow> bool" where
  "covered P v qty s =
     (if ts_signal_type (vs_original_signal v) = BUY then unit_cost P v * of_int qty \<le> cash_of s (fst (sig_key v))
      else qty \<le> qty_of s (sig_key v))"

text \<open>The change of a holding by a filled quantity.\<close>

definition signed_qty :: "validated_signal \<Rightarrow> int \<Rightarrow> int" where
  "signed_qty v q = (if ts_signal_type (vs_original_signal v) = BUY then q else - q)"

definition same_books :: "pt \<Rightarrow> pt \<Rightarrow> bool" where
  "same_books s s' = (seen_keys s' = seen_keys s \<and> seen_queue s' = seen_queue s \<and> brackets s' = brackets s \<and>
     pending_stops s' = pending_stops s)"

lemma fill_one:
  fixes s v P qty
  defines "s' \<equiv> apply_fill_to_portfolio (fst (sig_key v)) (snd (sig_key v)) (ts_signal_type (vs_original_signal v))
      qty (fill_price_of P v) (fee_of P (fill_price_of P v) qty) s"
  assumes ok: "portfolio_ok s" and P: "settings_ok P" and price: "0 \<le> fill_price_of P v"
    and qty: "0 \<le> qty" "0 \<le> rest" and cov: "covered P v (qty + rest) s"
  shows "portfolio_ok s'" "covered P v rest s'"
    "book_value s' (sig_key v) = book_value s (sig_key v) - commission P (fill_price_of P v) qty"
    "qty_of s' (sig_key v) = qty_of s (sig_key v) + signed_qty v qty"
proof -
  let ?side = "ts_signal_type (vs_original_signal v)" and ?p = "fill_price_of P v"
  obtain sid tok where k: "sig_key v = (sid, tok)" by fastforce
  have uc: "0 \<le> unit_cost P v"
    using P price by (simp add: unit_cost_def settings_ok_def)
  then have le: "unit_cost P v * of_int qty \<le> unit_cost P v * of_int (qty + rest)"
    using qty by (intro mult_left_mono) auto
  have buy: "?side = BUY \<longrightarrow> ?p * (1 + commission_percent P / 100) * of_int qty \<le> cash_of s sid"
    using cov le k by (auto simp: covered_def unit_cost_def)
  have sell: "?side \<noteq> BUY \<longrightarrow> qty \<le> qty_of s (sid, tok)"
    using cov qty k by (auto simp: covered_def)
  show "portfolio_ok s'"
    unfolding s'_def k fst_conv snd_conv by (rule apply_fill_sound [OF ok P price qty(1) buy sell])
  show "covered P v rest s'"
  proof (cases "?side = BUY")
    case True
    have "cash_of s' sid = cash_of s sid - unit_cost P v * of_int qty"
      unfolding s'_def k fst_conv snd_conv True apply_buy(1) fee_commission
      by (simp add: commission_def unit_cost_def algebra_simps)
    with True cov k show ?thesis by (simp add: covered_def algebra_simps)
  next
    case False
    with cov k qty show ?thesis
      by (simp add: covered_def s'_def apply_sell(2) [OF False])
  qed
  show "book_value s' (sig_key v) = book_value s (sig_key v) - commission P ?p qty"
    using sell qty(1) portfolio_okD(2) [OF ok, of "(sid, tok)"]
    unfolding s'_def k fst_conv snd_conv fee_commission [symmetric]
    by (cases "?side = BUY") (simp_all add: apply_buy(3) apply_sell(3))
  show "qty_of s' (sig_key v) = qty_of s (sig_key v) + signed_qty v qty"
    using sell unfolding s'_def k fst_conv snd_conv
    by (cases "?side = BUY") (simp_all add: apply_buy(2) apply_sell(2) signed_qty_def)
qed

lemma emit_fills_run:
  assumes "emit_fills X v oid parts s = (r, s')" "settings_ok (x_set X)" "0 \<le> fill_price_of (x_set X) v"
    "\<forall>q \<in> set parts. 0 \<le> q" "portfolio_ok s" "covered (x_set X) v (sum_list parts) s"
  shows "portfolio_ok s' \<and> same_books s s' \<and> (\<exists>n. sent s' = sent s @ map (fill_event (x_set X) v oid) (take n parts) \<and>
      (r = Inr () \<longrightarrow> n = length parts) \<and>
      qty_of s' (sig_key v) = qty_of s (sig_key v) + signed_qty v (sum_list (take n parts)) \<and>
      book_value s' (sig_key v) = book_value s (sig_key v) -
        sum_list (map (commission (x_set X) (fill_price_of (x_set X) v)) (take n parts)))"
  using assms
proof (induction parts arbitrary: s)
  case Nil
  then show ?case by (simp add: same_books_def signed_qty_def)
next
  case (Cons q parts)
  let ?P = "x_set X"
  show ?case
  proof (cases "send_event X (fill_event ?P v oid q) s")
    case (Pair r1 s1)
    show ?thesis
    proof (cases r1)
      case (Inl e)
      with Pair Cons.prems have "s' = s" "r = Inl e" by (auto dest: send_event_Inl)
      with Cons.prems show ?thesis by (intro conjI exI [of _ 0]) (simp_all add: same_books_def signed_qty_def)
    next
      case (Inr u)
      have s1: "s1 = s\<lparr>sent := sent s @ [fill_event ?P v oid q]\<rparr>" using Pair Inr by (auto dest: send_event_Inr)
      define s2 where "s2 = apply_fill_to_portfolio (fst (sig_key v)) (snd (sig_key v)) (ts_signal_type (vs_original_signal v))
          q (fill_price_of ?P v) (fee_of ?P (fill_price_of ?P v) q) s1"
      have run: "emit_fills X v oid parts s2 = (r, s')"
        using Cons.prems(1) Pair Inr by (simp add: s2_def sig_key_def Let_def)
      have s1_same: "cash_of s1 = cash_of s" "qty_of s1 = qty_of s" "book_value s1 = book_value s"
        by (simp_all add: fun_eq_iff s1 cash_of_def qty_of_def pos_of_def book_value_def)
      have q: "0 \<le> q" "0 \<le> sum_list parts" using Cons.prems(4) by (auto intro: sum_list_nonneg)
      have pre: "portfolio_ok s1" "covered ?P v (q + sum_list parts) s1"
        using Cons.prems(5,6) unfolding portfolio_ok_def covered_def s1_same by (simp_all split: if_splits)
      note f = fill_one [OF pre(1) Cons.prems(2) Cons.prems(3) q pre(2), folded s2_def]
      have sent2: "sent s2 = sent s @ [fill_event ?P v oid q]" "same_books s s2"
        by (simp_all add: s2_def apply_fill_others s1 same_books_def)
      from Cons.IH [OF run Cons.prems(2,3) _ f(1,2)] Cons.prems(4) obtain n where
        n: "portfolio_ok s'" "same_books s2 s'" "sent s' = sent s2 @ map (fill_event ?P v oid) (take n parts)"
          "r = Inr () \<longrightarrow> n = length parts"
          "qty_of s' (sig_key v) = qty_of s2 (sig_key v) + signed_qty v (sum_list (take n parts))"
          "book_value s' (sig_key v) = book_value s2 (sig_key v) - sum_list (map (commission ?P (fill_price_of ?P v)) (take n parts))"
        by auto
      with sent2 f(3,4) s1_same(2,3) show ?thesis
        by (intro conjI exI [of _ "Suc n"]) (auto simp: same_books_def signed_qty_def)
    qed
  qed
qed

subsection \<open>Routing and limits\<close>

lemma route_order_qty:
  assumes "route_order G v g = (Fill q, g')" "1 \<le> vs_validated_quantity v"
  shows "q = vs_validated_quantity v \<or>
     (q = 0 \<and> order_type_of v = ''limit'' \<and> tif_of v \<notin> {''FOK'', ''IOC''} \<and>
      \<not> is_crossing (ts_signal_type (vs_original_signal v)) (base_price_of v) (limit_price_of v))"
  using assms by (auto simp: route_order_def Let_def is_stop_def split: if_splits prod.splits)

lemma cash_limit_ok:
  assumes "cash_limit P v available q = Inr q'" "0 \<le> q" "0 \<le> available" "0 \<le> unit_cost P v"
  shows "0 \<le> q' \<and> q' \<le> q \<and> (ts_signal_type (vs_original_signal v) = BUY \<longrightarrow> unit_cost P v * of_int q' \<le> available)"
proof (cases "ts_signal_type (vs_original_signal v) = BUY \<and> unit_cost P v > 0")
  case True
  define m where "m = trunc_rat (available / unit_cost P v)"
  have m: "m = \<lfloor>available / unit_cost P v\<rfloor>" using assms(3) True by (simp add: m_def trunc_rat_nonneg)
  have q': "0 \<le> q' \<and> q' \<le> q \<and> q' \<le> m"
    using assms(1,2) True by (auto simp: cash_limit_def Let_def unit_cost_def [symmetric] m_def [symmetric] split: if_splits)
  then have "of_int q' \<le> available / unit_cost P v" by (simp add: m le_floor_iff)
  with True have "unit_cost P v * of_int q' \<le> available" by (simp add: pos_le_divide_eq mult.commute)
  with q' show ?thesis by simp
next
  case False
  with assms(1) have "q' = q" by (auto simp: cash_limit_def unit_cost_def Let_def split: if_splits)
  with False assms show ?thesis by auto
qed

lemma notional_limit_ok: "notional_limit P v q = Inr q' \<Longrightarrow> 0 \<le> q \<Longrightarrow> 0 \<le> q' \<and> q' \<le> q"
  by (auto simp: notional_limit_def Let_def split: option.splits if_splits)

lemma position_limit_ok:
  "position_limit v held q = Inr q' \<Longrightarrow> 0 \<le> q \<Longrightarrow> 0 \<le> q' \<and> q' \<le> q \<and> (ts_signal_type (vs_original_signal v) \<noteq> BUY \<longrightarrow> q' \<le> held)"
  by (auto simp: position_limit_def Let_def split: if_splits)

lemma limit_quantity_ok:
  assumes l: "limit_quantity P v s q = Inr q'" and q: "0 \<le> q" and ok: "portfolio_ok s" and u: "0 \<le> unit_cost P v"
  shows "0 \<le> q' \<and> q' \<le> q \<and> covered P v q' s"
proof -
  from l obtain q1 q2 where
    1: "cash_limit P v (cash_of s (fst (sig_key v))) q = Inr q1" and 2: "notional_limit P v q1 = Inr q2"
    and 3: "position_limit v (qty_of s (sig_key v)) q2 = Inr q'"
    by (auto simp: limit_quantity_def Let_def sig_key_def cash_of_def split: sum.splits)
  from cash_limit_ok [OF 1 q portfolio_okD(1) [OF ok] u] have c: "0 \<le> q1" "q1 \<le> q"
    "ts_signal_type (vs_original_signal v) = BUY \<longrightarrow> unit_cost P v * of_int q1 \<le> cash_of s (fst (sig_key v))" by auto
  from notional_limit_ok [OF 2 c(1)] have n: "0 \<le> q2" "q2 \<le> q1" by auto
  from position_limit_ok [OF 3 n(1)] have p: "0 \<le> q'" "q' \<le> q2"
    "ts_signal_type (vs_original_signal v) \<noteq> BUY \<longrightarrow> q' \<le> qty_of s (sig_key v)" by auto
  have "unit_cost P v * of_int q' \<le> unit_cost P v * of_int q1" using u n p by (intro mult_left_mono) auto
  with c n p show ?thesis by (auto simp: covered_def)
qed

subsection \<open>The service as a machine\<close>

text \<open>What the service relies on: sensible settings, a random generator that keeps its contract, and
  validated signals whose quantity is that of the original signal, as the risk manager emits them.\<close>

definition env_ok :: "'g pt_env \<Rightarrow> bool" where
  "env_ok X = (settings_ok (x_set X) \<and> randint_ok (x_rng X) \<and>
     (\<forall>d v. x_parse X d = Some v \<longrightarrow> vs_validated_quantity v = ts_quantity (vs_original_signal v)))"

definition paper_inv :: "pt \<Rightarrow> bool" where
  "paper_inv s = (portfolio_ok s \<and> window_ok s)"

lemma window_ok_same: "same_books s s' \<Longrightarrow> window_ok s \<Longrightarrow> window_ok s'"
  by (simp add: same_books_def window_ok_def)

lemma portfolio_ok_same:
  "positions s' = positions s \<Longrightarrow> cash s' = cash s \<Longrightarrow> portfolio_ok s \<Longrightarrow> portfolio_ok s'"
  by (simp add: portfolio_ok_def cash_of_def qty_of_def pos_of_def)

lemma emit_order_failed_inv: "paper_inv s \<Longrightarrow> paper_inv (emit_order_failed X v r s)"
  by (auto simp: paper_inv_def window_ok_def intro: portfolio_ok_same)

lemma enqueue_stop_inv: "paper_inv s \<Longrightarrow> paper_inv (enqueue_stop v s)"
  using portfolio_ok_same [of "enqueue_stop v s" s]
  by (simp add: paper_inv_def window_ok_def enqueue_stop_def Let_def)

lemma guardrails_pass:
  assumes "guardrails P v = None" "settings_ok P"
  shows "1 \<le> ts_quantity (vs_original_signal v)" "0 \<le> fill_price_of P v" "0 \<le> unit_cost P v"
proof -
  obtain m where m: "min_price P = Some m" "0 \<le> m" using assms(2) by (auto simp: settings_ok_def)
  show "1 \<le> ts_quantity (vs_original_signal v)"
    using assms(1) by (auto simp: guardrails_def Let_def split: if_splits)
  have "m \<le> base_price_of v" using assms(1) m by (auto simp: guardrails_def Let_def split: if_splits)
  with m(2) have "0 \<le> base_price_of v" by simp
  then show f: "0 \<le> fill_price_of P v"
    using assms(2) by (simp add: fill_price_of_def settings_ok_def)
  then show "0 \<le> unit_cost P v"
    using assms(2) by (simp add: unit_cost_def settings_ok_def)
qed

lemma init_cash_ok: "portfolio_ok s \<Longrightarrow> settings_ok P \<Longrightarrow> portfolio_ok (init_cash P sid s)"
  unfolding portfolio_ok_def
  by (auto simp: init_cash_def cash_of_def get_num_def qty_of_def pos_of_def settings_ok_def)

lemma set_bracket_fields [simp]:
  "positions (set_bracket_if_configured a b c d s) = positions s" "cash (set_bracket_if_configured a b c d s) = cash s"
  "realized (set_bracket_if_configured a b c d s) = realized s" "seen_keys (set_bracket_if_configured a b c d s) = seen_keys s"
  "seen_queue (set_bracket_if_configured a b c d s) = seen_queue s" "sent (set_bracket_if_configured a b c d s) = sent s"
  by (simp_all add: set_bracket_if_configured_def Let_def split: option.splits)

lemma execute_fill_cases:
  assumes run: "execute_fill X v routed g s = (r, s')"
  obtains (failed) reason s2 where "s2 = init_cash (x_set X) (fst (sig_key v)) (s\<lparr>ids := ids s + 1\<rparr>)"
      "limit_quantity (x_set X) v s2 routed = Inl reason" "r = Inr ()" "s' = emit_order_failed X v reason s2"
    | (broken) q s2 e where "s2 = init_cash (x_set X) (fst (sig_key v)) (s\<lparr>ids := ids s + 1\<rparr>)"
      "limit_quantity (x_set X) v s2 routed = Inr q" "r = Inl e"
      "emit_fills X v (x_new_id X (ids s)) (split_parts (x_rng X) (x_set X) q g) s2 = (Inl e, s')"
    | (filled) q s2 s3 s4 where "s2 = init_cash (x_set X) (fst (sig_key v)) (s\<lparr>ids := ids s + 1\<rparr>)"
      "limit_quantity (x_set X) v s2 routed = Inr q" "r = Inr ()"
      "emit_fills X v (x_new_id X (ids s)) (split_parts (x_rng X) (x_set X) q g) s2 = (Inr (), s3)"
      "s4 = s3 \<or> s4 = set_bracket_if_configured (fst (sig_key v)) (snd (sig_key v)) (fill_price_of (x_set X) v) (metadata_of v) s3"
      "s' = snd (send_event X (pnl_event v s4) s4)"
proof -
  define s2 where "s2 = init_cash (x_set X) (fst (sig_key v)) (s\<lparr>ids := ids s + 1\<rparr>)"
  show thesis
  proof (cases "limit_quantity (x_set X) v s2 routed")
    case (Inl reason)
    then show thesis using run failed [OF s2_def, of reason]
      by (simp add: execute_fill_def generate_event_id_def Let_def s2_def sig_key_def)
  next
    case (Inr q)
    obtain r3 s3 where e: "emit_fills X v (x_new_id X (ids s)) (split_parts (x_rng X) (x_set X) q g) s2 = (r3, s3)"
      by fastforce
    show thesis
    proof (cases r3)
      case (Inl x)
      then show thesis using run e Inr broken [OF s2_def Inr, of x]
        by (simp add: execute_fill_def generate_event_id_def Let_def s2_def sig_key_def)
    next
      case (Inr u)
      define s4 where "s4 = (if ts_signal_type (vs_original_signal v) = BUY \<and> qty_of s2 (sig_key v) = 0
          then set_bracket_if_configured (fst (sig_key v)) (snd (sig_key v)) (fill_price_of (x_set X) v) (metadata_of v) s3 else s3)"
      have "r = Inr () \<and> s' = snd (send_event X (pnl_event v s4) s4)"
        using run e Inr \<open>limit_quantity (x_set X) v s2 routed = Inr q\<close>
        unfolding s4_def s2_def sig_key_def by (auto simp: execute_fill_def generate_event_id_def Let_def)
      then show thesis using filled [OF s2_def \<open>limit_quantity (x_set X) v s2 routed = Inr q\<close>, of s3 s4] e Inr
        by (auto simp: s4_def)
    qed
  qed
qed

lemma init_cash_fields [simp]:
  "positions (init_cash P sid s) = positions s" "seen_keys (init_cash P sid s) = seen_keys s"
  "seen_queue (init_cash P sid s) = seen_queue s" "sent (init_cash P sid s) = sent s" "realized (init_cash P sid s) = realized s"
  by (simp_all add: init_cash_def)

lemma execute_fill_inv:
  assumes run: "execute_fill X v routed g s = (r, s')" and X: "env_ok X" and inv: "paper_inv s"
    and q: "0 \<le> routed" and pr: "0 \<le> fill_price_of (x_set X) v" "0 \<le> unit_cost (x_set X) v"
  shows "paper_inv s'"
proof -
  let ?P = "x_set X"
  have P: "settings_ok ?P" and G: "randint_ok (x_rng X)" using X by (simp_all add: env_ok_def)
  define s2 where "s2 = init_cash ?P (fst (sig_key v)) (s\<lparr>ids := ids s + 1\<rparr>)"
  have ok2: "portfolio_ok s2" unfolding s2_def
    by (rule init_cash_ok [OF _ P]) (use inv in \<open>auto simp: paper_inv_def intro: portfolio_ok_same\<close>)
  have w2: "window_ok s2" using inv by (simp add: s2_def paper_inv_def window_ok_def)
  have fills: "portfolio_ok s3 \<and> window_ok s3"
    if "limit_quantity ?P v s2 routed = Inr q" "emit_fills X v oid (split_parts (x_rng X) ?P q g) s2 = (r3, s3)" for q oid r3 s3
  proof -
    from limit_quantity_ok [OF that(1) q ok2 pr(2)] have lq: "0 \<le> q" "covered ?P v q s2" by auto
    note sp = split_parts_sum [OF G, OF lq(1), of ?P g]
    from emit_fills_run [OF that(2) P pr(1) _ ok2] sp lq show ?thesis using w2 by (auto intro: window_ok_same)
  qed
  from run show ?thesis
  proof (cases rule: execute_fill_cases)
    case (failed reason s2')
    then show ?thesis using ok2 w2 emit_order_failed_inv [of s2] by (simp add: s2_def paper_inv_def)
  next
    case (broken q s2' e)
    then show ?thesis using fills [of q] by (simp add: s2_def paper_inv_def)
  next
    case (filled q s2' s3 s4)
    then have "portfolio_ok s3 \<and> window_ok s3" using fills [of q] by (simp add: s2_def)
    with filled show ?thesis
      by (auto simp: paper_inv_def window_ok_def intro: portfolio_ok_same)
  qed
qed

lemma handle_validated_signal_inv:
  assumes X: "env_ok X" and inv: "paper_inv s"
  shows "paper_inv (snd (handle_validated_signal X ty d s))"
proof (cases "\<exists>v. ty = JStr (event_type_value VALIDATED_SIGNAL) \<and> x_parse X d = Some v \<and> idem_key v \<notin> seen_keys s")
  case False
  then show ?thesis using inv by (auto simp: handle_validated_signal_def split: option.splits)
next
  case True
  then obtain v where v: "ty = JStr (event_type_value VALIDATED_SIGNAL)" "x_parse X d = Some v" "idem_key v \<notin> seen_keys s"
    by blast
  let ?s = "remember_key (idem_key v) s"
  have inv': "paper_inv ?s"
    using inv remember_key_window [of s, OF _ v(3)] by (auto simp: paper_inv_def intro: portfolio_ok_same)
  have eq: "handle_validated_signal X ty d s = process_signal X v ?s"
    using v by (simp add: handle_validated_signal_def)
  have P: "settings_ok (x_set X)" and vq: "vs_validated_quantity v = ts_quantity (vs_original_signal v)"
    using X v(2) by (auto simp: env_ok_def)
  show ?thesis
  proof (cases "guardrails (x_set X) v")
    case (Some reason)
    then show ?thesis using emit_order_failed_inv [OF inv'] by (simp add: eq process_signal_def Let_def)
  next
    case None
    note gp = guardrails_pass [OF None P]
    define g1 where "g1 = (if latency_ms_mean (x_set X) > 0 \<or> latency_ms_std (x_set X) > 0
        then snd (g_gauss (x_rng X) (g_seed (x_rng X) (idem_key v))) else g_seed (x_rng X) (idem_key v))"
    obtain rt g2 where rt: "route_order (x_rng X) v g1 = (rt, g2)" by fastforce
    show ?thesis
    proof (cases rt)
      case (Refuse reason)
      then show ?thesis using emit_order_failed_inv [OF inv'] None rt
        by (simp add: eq process_signal_def Let_def g1_def)
    next
      case Enqueue
      then show ?thesis using inv' None rt
        using enqueue_stop_inv [OF inv', of v] by (simp add: eq process_signal_def Let_def g1_def)
    next
      case (Fill q)
      have "0 \<le> q" using route_order_qty [OF rt [unfolded Fill]] gp(1) vq by auto
      moreover obtain r s' where run: "execute_fill X v q g2 ?s = (r, s')" by fastforce
      ultimately have "paper_inv s'" using execute_fill_inv [OF run X inv'] gp by simp
      then show ?thesis using None rt Fill run by (simp add: eq process_signal_def Let_def g1_def)
    qed
  qed
qed

lemma handle_market_tick_paper_inv:
  assumes inv: "paper_inv s"
  shows "paper_inv (snd (handle_market_tick_paper X ty d s))"
proof -
  have tick: "paper_inv (scan_stops inst lp (s2\<lparr>brackets := b\<rparr>))"
    if "scan_brackets X inst lp brs [] (s\<lparr>last_price := f\<rparr>) = (rm, s2)" for inst lp brs f rm s2 b
    using scan_brackets_fields [OF that] inv
    by (auto simp: paper_inv_def window_ok_def scan_stops_def intro: portfolio_ok_same)
  show ?thesis using inv tick
    by (auto simp: handle_market_tick_paper_def Let_def split: option.splits if_splits prod.splits)
qed

datatype pt_input = Signal json "(string \<times> json) list" | Tick json "(string \<times> json) list"

fun pt_step :: "'g pt_env \<Rightarrow> pt \<Rightarrow> datetime \<times> pt_input \<Rightarrow> pt" where
  "pt_step X s (now, Signal ty d) = snd (handle_validated_signal (X\<lparr>x_now := now\<rparr>) ty d s)"
| "pt_step X s (now, Tick ty d) = snd (handle_market_tick_paper (X\<lparr>x_now := now\<rparr>) ty d s)"

lemma env_ok_now: "env_ok X \<Longrightarrow> env_ok (X\<lparr>x_now := now\<rparr>)"
  by (simp add: env_ok_def)

interpretation paper: step_machine "pt_step X" "\<lambda>s. env_ok X \<longrightarrow> paper_inv s" for X
proof
  fix s :: pt and e :: "datetime \<times> pt_input"
  assume "env_ok X \<longrightarrow> paper_inv s"
  then show "env_ok X \<longrightarrow> paper_inv (pt_step X s e)"
    by (cases "(X, s, e)" rule: pt_step.cases)
      (auto intro: handle_validated_signal_inv handle_market_tick_paper_inv env_ok_now)
qed

lemma paper_inv_init: "paper_inv pt_init"
  by (simp add: paper_inv_def window_ok_def portfolio_ok_def pt_init_def cash_of_def qty_of_def pos_of_def get_num_def)

text \<open>C8: The simulated portfolio stays sound. From the initial state, after any sequence of validated
  signals and market ticks, with or without failing sends, no strategy's cash is negative, no
  holding is negative (there is no short selling), and the window of remembered signals holds
  fewer than 2000 keys, exactly those of its queue.\<close>

theorem paper_portfolio_sound:
  assumes "env_ok X"
  shows "0 \<le> get_num (cash (foldl (pt_step X) pt_init es)) sid \<and> 0 \<le> qty_of (foldl (pt_step X) pt_init es) k \<and>
    length (seen_queue (foldl (pt_step X) pt_init es)) < 2000 \<and>
    seen_keys (foldl (pt_step X) pt_init es) = set (seen_queue (foldl (pt_step X) pt_init es))"
  using paper.run_inv [of X pt_init es] paper_inv_init assms
  by (auto simp: paper_inv_def window_ok_def portfolio_okD cash_of_def [symmetric])

subsection \<open>Fills, holdings and book value\<close>

definition fill_qtys :: "pt_event list \<Rightarrow> int list" where
  "fill_qtys es = concat (map (\<lambda>e. case pe_payload e of Filled f \<Rightarrow> [of_quantity f] | _ \<Rightarrow> []) es)"

definition fill_fees :: "pt_event list \<Rightarrow> rat" where
  "fill_fees es = sum_list (map (\<lambda>e. case pe_payload e of Filled f \<Rightarrow> or_num (of_fees f) 0 | _ \<Rightarrow> 0) es)"

lemma fill_simps [simp]:
  "fill_qtys [] = []" "fill_qtys (es @ es') = fill_qtys es @ fill_qtys es'"
  "fill_fees [] = 0" "fill_fees (es @ es') = fill_fees es + fill_fees es'"
  by (simp_all add: fill_qtys_def fill_fees_def)

lemma fills_of_events:
  "fill_qtys (map (fill_event P v oid) qs) = qs"
  "fill_fees (map (fill_event P v oid) qs) = sum_list (map (commission P (fill_price_of P v)) qs)"
  by (induction qs) (simp_all add: fill_qtys_def fill_fees_def fill_event_def Let_def fee_commission)

text \<open>What handling one validated signal does to the holding, the book value and the topic.\<close>

definition accounts ::
  "pt_settings \<Rightarrow> validated_signal \<Rightarrow> pt \<Rightarrow> pt \<Rightarrow> bool" where
  "accounts P v s s' = (\<exists>es. sent s' = sent s @ es \<and>
     qty_of s' (sig_key v) = qty_of s (sig_key v) + signed_qty v (sum_list (fill_qtys es)) \<and>
     (cash s (fst (sig_key v)) \<noteq> None \<longrightarrow> book_value s' (sig_key v) = book_value s (sig_key v) - fill_fees es) \<and>
     (\<forall>q \<in> set (fill_qtys es). 0 \<le> q) \<and> sum_list (fill_qtys es) \<le> vs_validated_quantity v \<and>
     int (length (fill_qtys es)) \<le> max 1 (max_partials P))"

lemma send_event_sent: "\<exists>es. sent (snd (send_event X e s)) = sent s @ es \<and> set es \<subseteq> {e}"
  by (auto simp: send_event_def split: option.splits)

lemma no_fill_events:
  assumes "set es \<subseteq> {e}" "\<And>f. pe_payload e \<noteq> Filled f"
  shows "fill_qtys es = [] \<and> fill_fees es = 0"
  using assms(1) assms(2)
  by (induction es) (auto simp: fill_qtys_def fill_fees_def split: pt_payload.splits)

lemma accounts_no_fill:
  assumes "positions s' = positions s" "realized s' = realized s"
    "cash s (fst (sig_key v)) \<noteq> None \<longrightarrow> cash s' (fst (sig_key v)) = cash s (fst (sig_key v))"
    "sent s' = sent s @ es" "fill_qtys es = []" "fill_fees es = 0" "0 \<le> vs_validated_quantity v"
  shows "accounts P v s s'"
  unfolding accounts_def using assms
  by (intro exI [of _ es]) (auto simp: qty_of_def pos_of_def book_value_def cash_of_def get_num_def signed_qty_def)

lemma emit_order_failed_sent:
  "\<exists>es. sent (emit_order_failed X v r s) = sent s @ es \<and> fill_qtys es = [] \<and> fill_fees es = 0"
proof -
  define e where "e = \<lparr>pe_topic = orders_failed ''paper'',
         pe_key = order_key (ts_strategy_id (vs_original_signal v)) (ts_instrument_token (vs_original_signal v)) (str_datetime (vs_timestamp v)),
         pe_payload = Failed \<lparr>ofa_strategy_id = ts_strategy_id (vs_original_signal v),
            ofa_instrument_token = ts_instrument_token (vs_original_signal v), ofa_signal_type = ts_signal_type (vs_original_signal v),
            ofa_quantity = vs_validated_quantity v,
            ofa_price = (case vs_validated_price v of Some p \<Rightarrow> if p = 0 then ts_price (vs_original_signal v) else Some p | None \<Rightarrow> ts_price (vs_original_signal v)),
            ofa_order_id = x_new_id X (ids s), ofa_execution_mode = PAPER, ofa_error_message = r,
            ofa_timestamp = vs_timestamp v, ofa_broker = ''paper''\<rparr>,
         pe_type = ORDER_FAILED\<rparr>"
  have "emit_order_failed X v r s = snd (send_event X e (s\<lparr>ids := ids s + 1\<rparr>))"
    by (simp add: emit_order_failed_def generate_event_id_def Let_def e_def)
  moreover obtain es where "sent (snd (send_event X e (s\<lparr>ids := ids s + 1\<rparr>))) = sent s @ es" "set es \<subseteq> {e}"
    using send_event_sent [of X e "s\<lparr>ids := ids s + 1\<rparr>"] by auto
  moreover have "pe_payload e \<noteq> Filled f" for f by (simp add: e_def)
  ultimately show ?thesis using no_fill_events [of es e] by auto
qed

lemma init_cash_cash: "cash s sid \<noteq> None \<Longrightarrow> cash (init_cash P sid' s) sid = cash s sid"
  by (auto simp: init_cash_def)

lemma execute_fill_accounts:
  assumes run: "execute_fill X v routed g s = (r, s')" and X: "env_ok X" and inv: "paper_inv s"
    and q: "0 \<le> routed" "routed \<le> vs_validated_quantity v"
    and pr: "0 \<le> fill_price_of (x_set X) v" "0 \<le> unit_cost (x_set X) v"
  shows "accounts (x_set X) v s s'"
proof -
  let ?P = "x_set X"
  have P: "settings_ok ?P" and G: "randint_ok (x_rng X)" using X by (simp_all add: env_ok_def)
  define s2 where "s2 = init_cash ?P (fst (sig_key v)) (s\<lparr>ids := ids s + 1\<rparr>)"
  have ok2: "portfolio_ok s2" unfolding s2_def
    by (rule init_cash_ok [OF _ P]) (use inv in \<open>auto simp: paper_inv_def intro: portfolio_ok_same\<close>)
  have book2: "cash s (fst (sig_key v)) \<noteq> None \<Longrightarrow> book_value s2 (sig_key v) = book_value s (sig_key v)"
    and qty2: "qty_of s2 (sig_key v) = qty_of s (sig_key v)" and sent2: "sent s2 = sent s"
    by (simp_all add: s2_def book_value_def cash_of_def get_num_def init_cash_cash qty_of_def pos_of_def)
  have fills: "\<exists>es. sent s3 = sent s @ es \<and>
       qty_of s3 (sig_key v) = qty_of s (sig_key v) + signed_qty v (sum_list (fill_qtys es)) \<and>
       (cash s (fst (sig_key v)) \<noteq> None \<longrightarrow> book_value s3 (sig_key v) = book_value s (sig_key v) - fill_fees es) \<and>
       (\<forall>q \<in> set (fill_qtys es). 0 \<le> q) \<and> sum_list (fill_qtys es) \<le> vs_validated_quantity v \<and>
       int (length (fill_qtys es)) \<le> max 1 (max_partials ?P)"
    if "limit_quantity ?P v s2 routed = Inr q'" "emit_fills X v oid (split_parts (x_rng X) ?P q' g) s2 = (r3, s3)" for q' oid r3 s3
  proof -
    let ?parts = "split_parts (x_rng X) ?P q' g"
    from limit_quantity_ok [OF that(1) q(1) ok2 pr(2)] have lq: "0 \<le> q'" "q' \<le> routed" "covered ?P v q' s2" by auto
    note sp = split_parts_sum [OF G, OF lq(1), of ?P g]
    have len: "int (length ?parts) \<le> max 1 (max_partials ?P)"
      using split_parts_ok [OF G, of q' ?P g] lq(1) by (cases "q' = 0") (auto simp: split_parts_def)
    from emit_fills_run [OF that(2) P pr(1) _ ok2] sp lq obtain n where
      n: "sent s3 = sent s2 @ map (fill_event ?P v oid) (take n ?parts)"
        "qty_of s3 (sig_key v) = qty_of s2 (sig_key v) + signed_qty v (sum_list (take n ?parts))"
        "book_value s3 (sig_key v) = book_value s2 (sig_key v) - sum_list (map (commission ?P (fill_price_of ?P v)) (take n ?parts))"
      by auto
    have nn: "\<forall>x \<in> set (take n ?parts). 0 \<le> x" "\<forall>x \<in> set (drop n ?parts). 0 \<le> x"
      using sp by (auto dest: in_set_takeD in_set_dropD)
    have "sum_list (take n ?parts) + sum_list (drop n ?parts) = q'"
      using sp by (metis append_take_drop_id sum_list_append)
    moreover have "0 \<le> sum_list (drop n ?parts)" using nn(2) by (intro sum_list_nonneg) auto
    ultimately have "sum_list (take n ?parts) \<le> vs_validated_quantity v" using lq(2) q(2) by linarith
    moreover have "int (length (take n ?parts)) \<le> max 1 (max_partials ?P)" using len by simp
    ultimately show ?thesis using n nn(1) book2 qty2 sent2
      by (intro exI [of _ "map (fill_event ?P v oid) (take n ?parts)"]) (simp add: fills_of_events)
  qed
  from run show ?thesis
  proof (cases rule: execute_fill_cases)
    case (failed reason s2')
    then have s': "s' = emit_order_failed X v reason s2" by (simp add: s2_def)
    obtain es where "sent s' = sent s2 @ es" "fill_qtys es = []" "fill_fees es = 0"
      using emit_order_failed_sent [of X v reason s2] s' by auto
    then show ?thesis
      by (intro accounts_no_fill [of s' s v es]) (use q in \<open>simp_all add: s' s2_def init_cash_cash sent2\<close>)
  next
    case (broken q' s2' e)
    then show ?thesis using fills [of q'] unfolding accounts_def s2_def by simp
  next
    case (filled q' s2' s3 s4)
    have keep: "positions s4 = positions s3" "realized s4 = realized s3" "cash s4 = cash s3" "sent s4 = sent s3"
      using filled(5) by auto
    have "pe_payload (pnl_event v s4) \<noteq> Filled f" for f by (simp add: pnl_event_def Let_def)
    then obtain es' where es': "sent s' = sent s4 @ es'" "fill_qtys es' = []" "fill_fees es' = 0"
      using send_event_sent [of X "pnl_event v s4" s4] no_fill_events filled(6) by metis
    have same: "qty_of s' k = qty_of s3 k" "book_value s' k = book_value s3 k" for k
      using keep by (simp_all add: filled(6) qty_of_def pos_of_def book_value_def cash_of_def)
    from filled(1-4) have "limit_quantity ?P v s2 routed = Inr q'"
      "emit_fills X v (x_new_id X (ids s)) (split_parts (x_rng X) ?P q' g) s2 = (Inr (), s3)" by (simp_all add: s2_def)
    from fills [OF this] obtain es where
      "sent s3 = sent s @ es" "qty_of s3 (sig_key v) = qty_of s (sig_key v) + signed_qty v (sum_list (fill_qtys es))"
      "cash s (fst (sig_key v)) \<noteq> None \<longrightarrow> book_value s3 (sig_key v) = book_value s (sig_key v) - fill_fees es"
      "\<forall>q \<in> set (fill_qtys es). 0 \<le> q" "sum_list (fill_qtys es) \<le> vs_validated_quantity v"
      "int (length (fill_qtys es)) \<le> max 1 (max_partials ?P)" by blast
    with es' keep same show ?thesis unfolding accounts_def by (intro exI [of _ "es @ es'"]) simp
  qed
qed

lemma accounts_refl: "0 \<le> vs_validated_quantity v \<Longrightarrow> accounts P v s s"
  by (rule accounts_no_fill [where es = "[]"]) simp_all

lemma process_signal_accounts:
  assumes X: "env_ok X" and inv: "paper_inv s" and vq: "vs_validated_quantity v = ts_quantity (vs_original_signal v)"
    and nn: "0 \<le> vs_validated_quantity v"
  shows "accounts (x_set X) v s (snd (process_signal X v s))"
proof -
  have failed: "accounts (x_set X) v s (emit_order_failed X v reason s)" for reason
  proof -
    obtain es where "sent (emit_order_failed X v reason s) = sent s @ es" "fill_qtys es = []" "fill_fees es = 0"
      using emit_order_failed_sent by blast
    then show ?thesis using nn by (intro accounts_no_fill [of _ s v es]) simp_all
  qed
  have P: "settings_ok (x_set X)" using X by (simp add: env_ok_def)
  show ?thesis
  proof (cases "guardrails (x_set X) v")
    case (Some reason)
    then show ?thesis using failed by (simp add: process_signal_def Let_def)
  next
    case None
    note gp = guardrails_pass [OF None P]
    define g1 where "g1 = (if latency_ms_mean (x_set X) > 0 \<or> latency_ms_std (x_set X) > 0
        then snd (g_gauss (x_rng X) (g_seed (x_rng X) (idem_key v))) else g_seed (x_rng X) (idem_key v))"
    obtain rt g2 where rt: "route_order (x_rng X) v g1 = (rt, g2)" by fastforce
    show ?thesis
    proof (cases rt)
      case (Refuse reason)
      then show ?thesis using failed None rt by (simp add: process_signal_def Let_def g1_def)
    next
      case Enqueue
      have "accounts (x_set X) v s (enqueue_stop v s)"
        using nn by (intro accounts_no_fill [of _ s v "[]"]) (simp_all add: enqueue_stop_def Let_def)
      then show ?thesis using None rt Enqueue by (simp add: process_signal_def Let_def g1_def)
    next
      case (Fill q)
      have "0 \<le> q" "q \<le> vs_validated_quantity v" using route_order_qty [OF rt [unfolded Fill]] gp(1) vq by auto
      moreover obtain r s' where run: "execute_fill X v q g2 s = (r, s')" by fastforce
      ultimately have "accounts (x_set X) v s s'" using execute_fill_accounts [OF run X inv] gp by simp
      then show ?thesis using None rt Fill run by (simp add: process_signal_def Let_def g1_def)
    qed
  qed
qed

lemma accounts_remember: "accounts P v (remember_key k s) s' \<Longrightarrow> accounts P v s s'"
  by (simp add: accounts_def qty_of_def pos_of_def book_value_def cash_of_def)


lemma emit_fills_seen: "emit_fills X v oid parts s = (r, s') \<Longrightarrow> seen_keys s' = seen_keys s"
proof (induction parts arbitrary: s)
  case (Cons q parts)
  show ?case
  proof (cases "send_event X (fill_event (x_set X) v oid q) s")
    case (Pair r1 s1)
    have s1: "seen_keys s1 = seen_keys s" using send_event_fields(1) [of X _ s] Pair by (metis snd_conv)
    then show ?thesis using Cons.prems Pair Cons.IH
      by (cases r1) (auto simp: Let_def apply_fill_others)
  qed
qed simp

lemma process_signal_seen: "seen_keys (snd (process_signal X v s)) = seen_keys s"
proof -
  have ex: "seen_keys s' = seen_keys s" if run: "execute_fill X v q g s = (r, s')" for q g r s'
    using run
  proof (cases rule: execute_fill_cases)
    case (filled q s2 s3 s4)
    then show ?thesis by (auto dest: emit_fills_seen)
  qed (auto dest: emit_fills_seen)
  show ?thesis
    by (auto simp: process_signal_def Let_def enqueue_stop_def split: option.splits prod.splits route.splits dest: ex)
       (metis ex prod.collapse)+
qed

subsection \<open>Redelivery\<close>


subsection \<open>Limit orders that do not cross\<close>

lemma trunc_rat_ge0: "0 \<le> r \<Longrightarrow> 0 \<le> trunc_rat r"
  by (simp add: trunc_rat_def)

lemma cash_limit_zero:
  assumes "0 \<le> a"
  shows "cash_limit P v a 0 = Inr 0"
proof -
  have "0 < u \<Longrightarrow> \<not> trunc_rat (a / u) < 0" for u :: rat
    using trunc_rat_ge0 [of "a / u"] assms by simp
  then show ?thesis by (simp add: cash_limit_def Let_def)
qed

text \<open>A DAY limit order that does not cross the market is reported as filled. It is neither
  queued nor refused: the service sends an order-filled event with quantity zero and then a profit
  snapshot.\<close>

theorem non_crossing_limit_fills_nothing:
  assumes parse: "x_parse X d = Some v" and new: "idem_key v \<notin> seen_keys s"
    and inv: "paper_inv s" and P: "settings_ok (x_set X)" and nocap: "max_position_notional (x_set X) = None"
    and pass: "guardrails (x_set X) v = None"
    and lmt: "order_type_of v = ''limit''" "tif_of v = ''DAY''"
      "\<not> is_crossing (ts_signal_type (vs_original_signal v)) (base_price_of v) (limit_price_of v)"
    and send: "x_send X = (\<lambda>_ _. None)"
  shows "\<exists>oid p s'. handle_validated_signal X (JStr ''validated_signal'') d s = (Inr (), s') \<and>
     sent s' = sent s @ [fill_event (x_set X) v oid 0, p] \<and> pe_type p = PNL_SNAPSHOT"
proof -
  let ?P = "x_set X" and ?s = "remember_key (idem_key v) s"
  define g1 where "g1 = (if latency_ms_mean ?P > 0 \<or> latency_ms_std ?P > 0
        then snd (g_gauss (x_rng X) (g_seed (x_rng X) (idem_key v))) else g_seed (x_rng X) (idem_key v))"
  have rt: "route_order (x_rng X) v g1 = (Fill 0, g1)"
    using lmt by (simp add: route_order_def Let_def is_stop_def)
  have eq: "handle_validated_signal X (JStr ''validated_signal'') d s = execute_fill X v 0 g1 ?s"
    using parse new pass rt by (simp add: handle_validated_signal_def process_signal_def Let_def g1_def)
  define s2 where "s2 = init_cash ?P (fst (sig_key v)) (?s\<lparr>ids := ids ?s + 1\<rparr>)"
  have ok2: "portfolio_ok s2" unfolding s2_def
    by (rule init_cash_ok [OF _ P]) (use inv in \<open>auto simp: paper_inv_def intro: portfolio_ok_same\<close>)
  have "0 \<le> get_num (cash s2) (ts_strategy_id (vs_original_signal v))"
    using portfolio_okD(1) [OF ok2] by (simp add: cash_of_def)
  then have c: "cash_limit ?P v (get_num (cash s2) (ts_strategy_id (vs_original_signal v))) 0 = Inr 0"
    by (rule cash_limit_zero)
  have h: "0 \<le> qty_of s2 (ts_strategy_id (vs_original_signal v), ts_instrument_token (vs_original_signal v))"
    by (rule portfolio_okD(2) [OF ok2])
  have lq: "limit_quantity ?P v s2 0 = Inr 0"
    using h by (simp add: limit_quantity_def Let_def c notional_limit_def nocap position_limit_def)
  have parts: "split_parts (x_rng X) ?P 0 g1 = [0]" by (simp add: split_parts_def)
  obtain r s' where run: "execute_fill X v 0 g1 ?s = (r, s')" by fastforce
  then show ?thesis
  proof (cases rule: execute_fill_cases)
    case (filled q s2' s3 s4)
    have q: "q = 0" using filled(1,2) lq by (simp add: s2_def)
    have "sent s3 = sent s @ [fill_event ?P v (x_new_id X (ids ?s)) 0]"
      using filled(1,4) q by (auto simp: parts send_event_def send Let_def apply_fill_others)
    moreover have "sent s4 = sent s3" using filled(5) by auto
    ultimately show ?thesis using filled(3,6) run eq
      by (auto simp: send_event_def send pnl_event_def Let_def)
  qed (use lq in \<open>auto simp: s2_def parts send_event_def send Let_def\<close>)
qed

subsection \<open>Ticks\<close>

lemma tick_run:
  assumes "jget_none d ''instrument_token'' = JInt inst" "inst \<noteq> 0" "dec_of_json (jget_none d ''last_price'') = Some lp"
  shows "handle_market_tick_paper X (JStr ''market_tick'') d s =
    (let s1 = s\<lparr>last_price := (last_price s)(inst \<mapsto> lp)\<rparr>;
         (to_remove, s2) = scan_brackets X inst lp (brackets s1) [] s1
     in (Inr (), scan_stops inst lp (s2\<lparr>brackets := fold dict_pop to_remove (brackets s2)\<rparr>)))"
  using assms by (simp add: handle_market_tick_paper_def Let_def split_beta)

text \<open>A triggered stop order is dropped. When a tick reaches the stop price of a pending order,
  the order leaves the pending list, but nothing is executed: no event is sent, and holdings and
  cash stay as they are.\<close>

theorem triggered_stop_is_dropped:
  assumes tick: "jget_none d ''instrument_token'' = JInt inst" "inst \<noteq> 0" "dec_of_json (jget_none d ''last_price'') = Some lp"
    and od: "od \<in> set (pending_stops s)" "st_instrument_token od = inst"
    and trig: "stop_triggered (st_side od) lp (st_stop_price od)"
    and nobr: "brackets s = []"
  shows "\<exists>s'. handle_market_tick_paper X (JStr ''market_tick'') d s = (Inr (), s') \<and> od \<notin> set (pending_stops s') \<and>
     sent s' = sent s \<and> positions s' = positions s \<and> cash s' = cash s"
proof -
  have "\<not> keep_stop inst lp od" using od(2) trig by (simp add: keep_stop_def stop_triggered_def split: if_splits)
  then show ?thesis using nobr by (simp add: tick_run [OF tick] scan_stops_def)
qed

text \<open>A bracket exit is announced but not booked. When a tick reaches the take-profit or
  stop-loss price of a held position, the service sends a SELL fill for the whole holding and
  removes the bracket, yet the holding, the cash and the realised profit are unchanged.\<close>

theorem bracket_exit_not_booked:
  assumes tick: "jget_none d ''instrument_token'' = JInt inst" "inst \<noteq> 0" "dec_of_json (jget_none d ''last_price'') = Some lp"
    and br: "brackets s = [((sid, inst), br)]" and held: "0 < qty_of s (sid, inst)"
    and trig: "bracket_trigger br lp = Some price" and send: "x_send X = (\<lambda>_ _. None)"
  shows "\<exists>s' e f. handle_market_tick_paper X (JStr ''market_tick'') d s = (Inr (), s') \<and> sent s' = sent s @ [e] \<and>
     pe_payload e = Filled f \<and> of_side f = SELL \<and> of_quantity f = qty_of s (sid, inst) \<and> of_fill_price f = price \<and>
     brackets s' = [] \<and> qty_of s' (sid, inst) = qty_of s (sid, inst) \<and> cash s' = cash s \<and> realized s' = realized s"
proof -
  let ?s1 = "s\<lparr>last_price := (last_price s)(inst \<mapsto> lp)\<rparr>"
  have q: "qty_of ?s1 (sid, inst) = qty_of s (sid, inst)" by (simp add: qty_of_def pos_of_def)
  define e where "e = \<lparr>pe_topic = orders_filled ''paper'', pe_key = order_key sid inst (isoformat (x_now X)),
         pe_payload = Filled \<lparr>of_order_id = x_new_id X (ids s), of_instrument_token = inst,
            of_quantity = qty_of s (sid, inst), of_fill_price = price, of_timestamp = x_now X, of_broker = ''paper'',
            of_side = SELL, of_strategy_id = Some sid, of_signal_type = Some SELL,
            of_execution_mode = Some PAPER, of_fees = None\<rparr>, pe_type = ORDER_FILLED\<rparr>"
  have ex: "emit_bracket_exit_fill X sid inst (qty_of s (sid, inst)) price ?s1 = ?s1\<lparr>ids := ids s + 1, sent := sent s @ [e]\<rparr>"
    by (simp add: emit_bracket_exit_fill_def generate_event_id_def send_event_def send e_def)
  have "scan_brackets X inst lp (brackets ?s1) [] ?s1 = ([(sid, inst)], ?s1\<lparr>ids := ids s + 1, sent := sent s @ [e]\<rparr>)"
    using held trig by (simp add: br q ex)
  then have "handle_market_tick_paper X (JStr ''market_tick'') d s =
      (Inr (), scan_stops inst lp (?s1\<lparr>ids := ids s + 1, sent := sent s @ [e], brackets := []\<rparr>))"
    by (simp add: tick_run [OF tick] br dict_pop_def)
  then show ?thesis
    by (simp add: scan_stops_def qty_of_def pos_of_def) (simp add: e_def qty_of_def pos_of_def)
qed

subsection \<open>A concrete service\<close>

definition demo_rng :: "nat rng" where
  "demo_rng = \<lparr>g_seed = (\<lambda>_. 0), g_random = (\<lambda>g. (1/2, g)), g_randint = (\<lambda>a b g. (a, g)), g_gauss = (\<lambda>g. (0, g))\<rparr>"

definition demo_ts :: datetime where
  "demo_ts = \<lparr>dt_date = ''2025-01-02'', dt_time = ''09:20:00''\<rparr>"

text \<open>An order for ten units at 100 with the given metadata.\<close>

definition demo_validated :: "(string \<times> json) list \<Rightarrow> validated_signal" where
  "demo_validated md = \<lparr>vs_original_signal = \<lparr>ts_strategy_id = ''m1'', ts_instrument_token = 5, ts_signal_type = BUY,
      ts_quantity = 10, ts_price = Some 100, ts_timestamp = demo_ts, ts_confidence = None, ts_metadata = Some md\<rparr>,
     vs_validated_quantity = 10, vs_validated_price = Some 100, vs_risk_checks = [], vs_timestamp = demo_ts\<rparr>"

text \<open>The payload is the metadata of the order; \<open>up\<close> says whether the producer works.\<close>

definition demo_paper :: "bool \<Rightarrow> nat pt_env" where
  "demo_paper up = \<lparr>x_set = default_settings, x_rng = demo_rng,
     x_send = (\<lambda>_ _. if up then None else Some (raise_exn (Other ''RuntimeError'') ''down'')),
     x_new_id = show_nat, x_parse = (\<lambda>d. Some (demo_validated d)), x_now = demo_ts\<rparr>"

lemma demo_paper_ok: "env_ok (demo_paper up)"
  by (auto simp: env_ok_def demo_paper_def settings_ok_def default_settings_def randint_ok_def demo_rng_def demo_validated_def)

lemma demo_fields [simp]:
  "x_set (demo_paper up) = default_settings" "x_parse (demo_paper up) d = Some (demo_validated d)"
  "x_send (demo_paper True) = (\<lambda>_ _. None)" "sig_key (demo_validated md) = (''m1'', 5)"
  "vs_validated_quantity (demo_validated md) = 10"
  by (simp_all add: demo_paper_def sig_key_def demo_validated_def fun_eq_iff)

lemma demo_env_fields:
  "x_rng (demo_paper up) = demo_rng" "g_seed demo_rng k = 0" "latency_ms_mean default_settings = 0"
  "latency_ms_std default_settings = 0" "x_send (demo_paper False) es e = Some (raise_exn (Other ''RuntimeError'') ''down'')"
  by (simp_all add: demo_paper_def demo_rng_def default_settings_def)

lemma demo_guardrails: "guardrails default_settings (demo_validated md) = None"
  by (simp add: guardrails_def default_settings_def demo_validated_def base_price_of_def)

theorem paper_portfolio_sound_witness:
  "env_ok (demo_paper True) \<and>
   0 \<le> get_num (cash (foldl (pt_step (demo_paper True)) pt_init [(demo_ts, Signal (JStr ''validated_signal'') [])])) ''m1''"
  using demo_paper_ok [of True] paper_portfolio_sound [OF demo_paper_ok [of True],
      where es = "[(demo_ts, Signal (JStr ''validated_signal'') [])]" and sid = "''m1''"] by blast


lemma demo_fill_fails:
  "\<exists>s'. handle_validated_signal (demo_paper False) (JStr ''validated_signal'') [] pt_init =
     (Inl (raise_exn (Other ''RuntimeError'') ''down''), s') \<and> sent s' = []"
proof -
  have rt: "route_order demo_rng (demo_validated []) 0 = (Fill 10, 0)"
    by (simp add: route_order_def demo_validated_def order_type_of_def tif_of_def metadata_of_def jget_def
        str_lower_def char_lower_def str_upper_def char_upper_def is_stop_def)
  have lq: "limit_quantity default_settings (demo_validated []) s 10 = Inr 10" if "cash s ''m1'' = Some 1000000" for s
    using that by (simp add: limit_quantity_def cash_limit_def notional_limit_def position_limit_def default_settings_def
        demo_validated_def fill_price_of_def base_price_of_def get_num_def trunc_rat_def)
  have i: "idem_key (demo_validated []) \<notin> seen_keys pt_init" by (simp add: pt_init_def)
  let ?s = "remember_key (idem_key (demo_validated [])) pt_init"
  have c: "cash (init_cash default_settings ''m1'' (?s\<lparr>ids := Suc (ids ?s)\<rparr>)) ''m1'' = Some 1000000"
    by (simp add: init_cash_def default_settings_def) (simp add: pt_init_def)
  have m1: "ts_strategy_id (vs_original_signal (demo_validated [])) = ''m1''" by (simp add: demo_validated_def)
  have "split_parts demo_rng default_settings 10 0 = [10]" by (simp add: split_parts_def default_settings_def demo_rng_def)
  then have "handle_validated_signal (demo_paper False) (JStr ''validated_signal'') [] pt_init =
      (Inl (raise_exn (Other ''RuntimeError'') ''down''), init_cash default_settings ''m1'' (?s\<lparr>ids := Suc (ids ?s)\<rparr>))"
    using rt lq [OF c] i
    by (simp add: handle_validated_signal_def process_signal_def demo_guardrails execute_fill_def generate_event_id_def m1 Let_def
        demo_env_fields send_event_def)
  moreover have "sent (init_cash default_settings ''m1'' (?s\<lparr>ids := Suc (ids ?s)\<rparr>)) = []"
    by (simp add: pt_init_def)
  ultimately show ?thesis by blast
qed


theorem non_crossing_limit_fills_nothing_witness:
  "\<exists>s' oid p. handle_validated_signal (demo_paper True) (JStr ''validated_signal'')
       [(''order_type'', JStr ''limit''), (''limit_price'', JInt 90)] pt_init = (Inr (), s') \<and>
     sent s' = [fill_event default_settings (demo_validated [(''order_type'', JStr ''limit''), (''limit_price'', JInt 90)]) oid 0, p]"
proof -
  let ?md = "[(''order_type'', JStr ''limit''), (''limit_price'', JInt 90)]"
  have md: "metadata_of (demo_validated ?md) = ?md" by (simp add: metadata_of_def demo_validated_def)
  have ot: "order_type_of (demo_validated ?md) = ''limit''"
    by (simp add: order_type_of_def md jget_def str_lower_def char_lower_def)
  have tf: "tif_of (demo_validated ?md) = ''DAY''"
    by (simp add: tif_of_def md jget_def str_upper_def char_upper_def)
  have nc: "\<not> is_crossing (ts_signal_type (vs_original_signal (demo_validated ?md))) (base_price_of (demo_validated ?md))
      (limit_price_of (demo_validated ?md))"
    by (simp add: is_crossing_def limit_price_of_def md jget_none_def jget_def)
      (simp add: demo_validated_def base_price_of_def)
  have P: "settings_ok default_settings" using demo_paper_ok [of True] by (simp add: env_ok_def)
  have "\<exists>oid p s'. handle_validated_signal (demo_paper True) (JStr ''validated_signal'') ?md pt_init = (Inr (), s') \<and>
     sent s' = sent pt_init @ [fill_event (x_set (demo_paper True)) (demo_validated ?md) oid 0, p] \<and> pe_type p = PNL_SNAPSHOT"
    by (rule non_crossing_limit_fills_nothing)
      (simp_all add: demo_guardrails P ot tf nc paper_inv_init, simp_all add: pt_init_def default_settings_def)
  then show ?thesis by (auto simp: pt_init_def)
qed

theorem triggered_stop_is_dropped_witness:
  "\<exists>s s' od. pending_stops s = [od] \<and>
     handle_market_tick_paper (demo_paper True) (JStr ''market_tick'') [(''instrument_token'', JInt 5), (''last_price'', JInt 120)] s = (Inr (), s') \<and>
     pending_stops s' = [] \<and> sent s' = sent s \<and> positions s' = positions s"
proof -
  define od where "od = \<lparr>st_strategy_id = ''m1'', st_instrument_token = 5, st_side = BUY, st_quantity = 10,
      st_stop_price = 110, st_limit_price = None, st_order_type = ''stop'', st_created_at = demo_ts\<rparr>"
  let ?d = "[(''instrument_token'', JInt 5), (''last_price'', JInt 120)]" and ?s = "pt_init\<lparr>pending_stops := [od]\<rparr>"
  have "\<exists>s'. handle_market_tick_paper (demo_paper True) (JStr ''market_tick'') ?d ?s = (Inr (), s') \<and> od \<notin> set (pending_stops s') \<and>
     sent s' = sent ?s \<and> positions s' = positions ?s \<and> cash s' = cash ?s"
    by (rule triggered_stop_is_dropped [where inst = 5 and lp = 120])
      (simp_all add: jget_none_def jget_def od_def stop_triggered_def pt_init_def)
  then obtain s' where s': "handle_market_tick_paper (demo_paper True) (JStr ''market_tick'') ?d ?s = (Inr (), s')"
    "od \<notin> set (pending_stops s')" "sent s' = sent ?s" "positions s' = positions ?s" by blast
  moreover have "set (pending_stops s') \<subseteq> {od}"
    using s'(1) by (auto simp: handle_market_tick_paper_def jget_none_def jget_def Let_def scan_stops_def pt_init_def split: if_splits)
  ultimately have "pending_stops s' = []" by (cases "pending_stops s'") auto
  with s' show ?thesis by (intro exI [of _ ?s] exI [of _ s'] exI [of _ od]) simp
qed

theorem bracket_exit_not_booked_witness:
  "\<exists>s s' e. qty_of s (''m1'', 5) = 10 \<and>
     handle_market_tick_paper (demo_paper True) (JStr ''market_tick'') [(''instrument_token'', JInt 5), (''last_price'', JInt 120)] s = (Inr (), s') \<and>
     sent s' = [e] \<and> (\<exists>f. pe_payload e = Filled f \<and> of_quantity f = 10) \<and> qty_of s' (''m1'', 5) = 10"
proof -
  let ?d = "[(''instrument_token'', JInt 5), (''last_price'', JInt 120)]"
  let ?s = "pt_init\<lparr>positions := [(''m1'', 5) \<mapsto> (10, 100)], brackets := [((''m1'', 5), (Some 110, None))]\<rparr>"
  have t: "bracket_trigger (Some 110, None) 120 = Some 110" by (simp add: bracket_trigger_def)
  have q: "qty_of ?s (''m1'', 5) = 10" by (simp add: qty_of_def pos_of_def)
  have "\<exists>s' e f. handle_market_tick_paper (demo_paper True) (JStr ''market_tick'') ?d ?s = (Inr (), s') \<and> sent s' = sent ?s @ [e] \<and>
     pe_payload e = Filled f \<and> of_side f = SELL \<and> of_quantity f = qty_of ?s (''m1'', 5) \<and> of_fill_price f = 110 \<and>
     brackets s' = [] \<and> qty_of s' (''m1'', 5) = qty_of ?s (''m1'', 5) \<and> cash s' = cash ?s \<and> realized s' = realized ?s"
    by (rule bracket_exit_not_booked [where lp = 120 and br = "(Some 110, None)"])
      (simp_all add: jget_none_def jget_def q t)
  then obtain s' e f where h: "handle_market_tick_paper (demo_paper True) (JStr ''market_tick'') ?d ?s = (Inr (), s')"
    "sent s' = sent ?s @ [e]" "pe_payload e = Filled f" "of_quantity f = qty_of ?s (''m1'', 5)"
    "qty_of s' (''m1'', 5) = qty_of ?s (''m1'', 5)" by blast
  have e: "sent ?s = []" by (simp add: pt_init_def)
  show ?thesis
    by (rule exI [of _ ?s], rule exI [of _ s'], rule exI [of _ e]) (simp add: h(1) h(2) [unfolded e] h(3-5) q)
qed

end
