(* ===== verification/Rule_Strategies.thy ===== *)
theory Rule_Strategies
  imports Schemas Py_Seq
begin

text \<open>
  The rule-based strategies of strategies/implementations (momentum.py, rsi.py, mean_reversion.py,
  low_frequency_demo.py), the signal value object of strategies/core/protocols.py and the validator of
  strategies/validation/standard_validator.py. Prices, thresholds and confidences are exact
  numbers; the square root in \<open>statistics.stdev\<close> is a parameter. The free-text field
  \<open>reasoning\<close> of a signal, which no component reads, is left out.
\<close>

subsection \<open>Signals and their validation\<close>

record signal_result =
  sr_signal_type :: string
  sr_confidence :: rat
  sr_quantity :: int
  sr_price :: rat
  sr_metadata :: "(string \<times> json) list option"

record validator =
  va_max_confidence :: rat
  va_min_quantity :: int

definition validate_signal :: "validator \<Rightarrow> signal_result \<Rightarrow> market_tick \<Rightarrow> bool" where
  "validate_signal va s market_data =
     (if sr_confidence s < 0 \<or> sr_confidence s > va_max_confidence va then False
      else if sr_quantity s < va_min_quantity va then False
      else if sr_signal_type s \<notin> set [''BUY'', ''SELL'', ''HOLD''] then False
      else if mt_last_price market_data \<le> 0 then False
      else if sr_price s \<le> 0 then False
      else True)"

definition validate_configuration :: "(string \<times> json) list \<Rightarrow> bool" where
  "validate_configuration config =
     list_all (\<lambda>field. field \<in> fst ` set config) [''strategy_id'', ''strategy_type'', ''parameters'']"

text \<open>A signal at the price of the tick, as the rule strategies build it.\<close>

definition mk_signal :: "string \<Rightarrow> rat \<Rightarrow> int \<Rightarrow> rat \<Rightarrow> signal_result" where
  "mk_signal side confidence qty price =
     \<lparr>sr_signal_type = side, sr_confidence = confidence, sr_quantity = qty, sr_price = price, sr_metadata = None\<rparr>"

text \<open>Float division: \<open>None\<close> is ZeroDivisionError.\<close>

definition py_div :: "rat \<Rightarrow> rat \<Rightarrow> rat option" where
  "py_div a b = (if b = 0 then None else Some (a / b))"

definition zero_division :: "exn" where
  "zero_division = raise_exn (Other ''ZeroDivisionError'') ''float division by zero''"

subsection \<open>Momentum\<close>

record momentum =
  mo_lookback :: int
  mo_threshold :: rat
  mo_qty :: int

definition momentum_process_tick ::
  "momentum \<Rightarrow> market_tick \<Rightarrow> market_tick list \<Rightarrow> signal_result option" where
  "momentum_process_tick p tick history =
     (if int (length history) < mo_lookback p then None
      else case py_index history (- mo_lookback p) of
          None \<Rightarrow> None
        | Some h \<Rightarrow>
            (let start_price = mt_last_price h; current_price = mt_last_price tick in
             if start_price = 0 then None
             else let momentum = (current_price - start_price) / start_price in
               if momentum > mo_threshold p
               then Some (mk_signal ''BUY'' (min 1 (\<bar>momentum\<bar> * 5)) (mo_qty p) current_price)
               else if momentum < - mo_threshold p
               then Some (mk_signal ''SELL'' (min 1 (\<bar>momentum\<bar> * 5)) (mo_qty p) current_price)
               else None))"

subsection \<open>RSI\<close>

text \<open>The changes between neighbouring prices, and their positive and negative parts.\<close>

definition price_changes :: "rat list \<Rightarrow> rat list" where
  "price_changes ps = map2 (-) (tl ps) ps"

definition gain_of :: "rat \<Rightarrow> rat" where
  "gain_of c = (if c > 0 then c else 0)"

definition loss_of :: "rat \<Rightarrow> rat" where
  "loss_of c = (if c > 0 then 0 else \<bar>c\<bar>)"

text \<open>\<open>_calculate_rsi\<close>; the mean of no values raises StatisticsError, which is caught.\<close>

definition calculate_rsi :: "int \<Rightarrow> rat list \<Rightarrow> rat option" where
  "calculate_rsi period prices =
     (if length prices < 2 then None
      else let gains = map gain_of (price_changes prices); losses = map loss_of (price_changes prices) in
        if int (length gains) < period then None
        else if py_from (- period) gains = [] then None
        else let avg_gain = avg (py_from (- period) gains); avg_loss = avg (py_from (- period) losses) in
          if avg_loss = 0 then Some 100
          else let rs = avg_gain / avg_loss in Some (100 - 100 / (1 + rs)))"

record rsi =
  rs_period :: int
  rs_oversold :: rat
  rs_overbought :: rat
  rs_qty :: int

definition rsi_min_history :: "rsi \<Rightarrow> int" where
  "rsi_min_history p = rs_period p * 2"

definition rsi_process_tick ::
  "rsi \<Rightarrow> market_tick \<Rightarrow> market_tick list \<Rightarrow> exn + signal_result option" where
  "rsi_process_tick p tick history =
     (if int (length history) < rsi_min_history p then Inr None
      else case calculate_rsi (rs_period p) (map mt_last_price (py_from (- rs_period p - 1) history @ [tick])) of
          None \<Rightarrow> Inr None
        | Some r \<Rightarrow>
            if r < rs_oversold p then
              (case py_div (rs_oversold p - r) (rs_oversold p) of
                 None \<Rightarrow> Inl zero_division
               | Some q \<Rightarrow> Inr (Some (mk_signal ''BUY'' (min 1 q) (rs_qty p) (mt_last_price tick))))
            else if r > rs_overbought p then
              (case py_div (r - rs_overbought p) (100 - rs_overbought p) of
                 None \<Rightarrow> Inl zero_division
               | Some q \<Rightarrow> Inr (Some (mk_signal ''SELL'' (min 1 q) (rs_qty p) (mt_last_price tick))))
            else Inr None)"

subsection \<open>Mean reversion\<close>

record mean_rev =
  mr_lookback :: int
  mr_rsi_period :: int
  mr_oversold :: rat
  mr_overbought :: rat
  mr_bb_std :: rat
  mr_qty :: int

definition mr_min_history :: "mean_rev \<Rightarrow> int" where
  "mr_min_history p = max (mr_lookback p) (mr_rsi_period p * 2)"

text \<open>The class has its own copy of \<open>_calculate_rsi\<close>, with the same text.\<close>

definition mr_calculate_rsi :: "mean_rev \<Rightarrow> rat list \<Rightarrow> rat option" where
  "mr_calculate_rsi p = calculate_rsi (mr_rsi_period p)"

definition mean_rev_process_tick ::
  "(rat \<Rightarrow> rat) \<Rightarrow> mean_rev \<Rightarrow> market_tick \<Rightarrow> market_tick list \<Rightarrow> exn + signal_result option" where
  "mean_rev_process_tick sqrt_fn p tick history =
     (if int (length history) < mr_min_history p then Inr None
      else let current_price = mt_last_price tick;
               prices = map mt_last_price (py_from (- mr_lookback p) history) in
        case mr_calculate_rsi p (map mt_last_price (py_from (- mr_rsi_period p - 1) history @ [tick])) of
          None \<Rightarrow> Inr None
        | Some r \<Rightarrow>
            if prices = [] then Inr None
            else let sma = avg prices;
                     std_dev = (if length prices > 1 then sqrt_fn (sample_var prices) else 0);
                     upper_band = sma + mr_bb_std p * std_dev;
                     lower_band = sma - mr_bb_std p * std_dev in
              if r < mr_oversold p \<and> current_price < lower_band then
                (case py_div (lower_band - current_price) lower_band of
                   None \<Rightarrow> Inl zero_division
                 | Some q \<Rightarrow> Inr (Some (mk_signal ''BUY'' (min 1 ((mr_oversold p - r) / 20 + q)) (mr_qty p) current_price)))
              else if r > mr_overbought p \<and> current_price > upper_band then
                (case py_div (current_price - upper_band) upper_band of
                   None \<Rightarrow> Inl zero_division
                 | Some q \<Rightarrow> Inr (Some (mk_signal ''SELL'' (min 1 ((r - mr_overbought p) / 20 + q)) (mr_qty p) current_price)))
              else Inr None)"

subsection \<open>Low-frequency demo\<close>

record low_freq =
  lf_interval :: int
  lf_cap :: "int option"
  lf_side :: string
  lf_qty :: int
  lf_last :: "int \<rightharpoonup> rat"
  lf_counts :: "int \<rightharpoonup> int"
  lf_epoch :: "int option"

definition low_freq_init :: "int \<Rightarrow> int option \<Rightarrow> string \<Rightarrow> int \<Rightarrow> low_freq" where
  "low_freq_init interval cap side qty =
     \<lparr>lf_interval = interval, lf_cap = cap, lf_side = str_upper side, lf_qty = qty,
      lf_last = Map.empty, lf_counts = Map.empty, lf_epoch = None\<rparr>"

definition day_of :: "rat \<Rightarrow> int" where
  "day_of now = \<lfloor>now / 86400\<rfloor>"

definition maybe_reset_daily :: "rat \<Rightarrow> low_freq \<Rightarrow> low_freq" where
  "maybe_reset_daily now s =
     (if lf_epoch s \<noteq> Some (day_of now) then s\<lparr>lf_epoch := Some (day_of now), lf_counts := Map.empty\<rparr> else s)"

definition select_side :: "low_freq \<Rightarrow> int \<Rightarrow> string" where
  "select_side s token =
     (if lf_side s \<in> {''BUY'', ''SELL''} then lf_side s
      else if token mod 2 = 0 then ''BUY'' else ''SELL'')"

definition get_or :: "('k \<rightharpoonup> 'v) \<Rightarrow> 'k \<Rightarrow> 'v \<Rightarrow> 'v" where
  "get_or m k d = (case m k of None \<Rightarrow> d | Some v \<Rightarrow> v)"

definition low_freq_process_tick :: "rat \<Rightarrow> low_freq \<Rightarrow> market_tick \<Rightarrow> signal_result option \<times> low_freq" where
  "low_freq_process_tick now s0 tick =
     (let s = maybe_reset_daily now s0; token = mt_instrument_token tick; count = get_or (lf_counts s) token 0 in
      if now - get_or (lf_last s) token 0 < of_int (lf_interval s) then (None, s)
      else if (case lf_cap s of None \<Rightarrow> False | Some c \<Rightarrow> count \<ge> c) then (None, s)
      else (Some (mk_signal (select_side s token) (1/2) (lf_qty s) (mt_last_price tick)),
            s\<lparr>lf_last := (lf_last s)(token \<mapsto> now), lf_counts := (lf_counts s)(token \<mapsto> count + 1)\<rparr>))"

subsection \<open>RSI: bounds and what it measures\<close>

lemma length_price_changes [simp]: "length (price_changes ps) = length ps - 1"
  by (simp add: price_changes_def)

lemma price_changes_snoc: "ps \<noteq> [] \<Longrightarrow> price_changes (ps @ [x]) = price_changes ps @ [x - last ps]"
proof (induction ps rule: induct_list012)
  case (3 a b ps)
  then show ?case by (simp add: price_changes_def)
qed (simp_all add: price_changes_def)

lemma price_changes_last_n:
  assumes "k < length ps"
  shows "price_changes (last_n (Suc k) ps) = last_n k (price_changes ps)"
proof -
  have d: "length ps - Suc 0 - k = length ps - Suc k" using assms by simp
  have "tl (drop (length ps - Suc k) ps) = drop (length ps - Suc k) (tl ps)" by (simp add: drop_Suc tl_drop)
  then show ?thesis
    by (simp add: price_changes_def last_n_def d drop_zip drop_map)
qed

lemma gain_loss_ge0: "0 \<le> gain_of c" "0 \<le> loss_of c"
  by (simp_all add: gain_of_def loss_of_def)

lemma set_py_from: "set (py_from i xs) \<subseteq> set xs"
  by (simp add: py_from_def set_drop_subset)

lemma calculate_rsi_bounds:
  assumes "calculate_rsi p ps = Some r"
  shows "0 \<le> r \<and> r \<le> 100"
proof -
  let ?g = "avg (py_from (- p) (map gain_of (price_changes ps)))" and ?l = "avg (py_from (- p) (map loss_of (price_changes ps)))"
  have g: "0 \<le> ?g" and l: "0 \<le> ?l"
    using set_py_from [of "- p" "map gain_of (price_changes ps)"] set_py_from [of "- p" "map loss_of (price_changes ps)"]
    by (auto intro!: avg_ge0 simp: gain_loss_ge0 subset_iff)
  from assms have "r = 100 \<or> (?l \<noteq> 0 \<and> r = 100 - 100 / (1 + ?g / ?l))"
    by (auto simp: calculate_rsi_def Let_def split: if_splits)
  moreover have "1 \<le> 1 + ?g / ?l" using g l by simp
  then have "100 / (1 + ?g / ?l) \<le> 100" "0 \<le> 100 / (1 + ?g / ?l)" by (simp_all add: divide_le_eq)
  ultimately show ?thesis by auto
qed

text \<open>The RSI leaves out the newest price move. The executor has already appended the current tick to
  the history when it asks for a signal, and \<open>process_tick\<close> appends it once more, so the
  last of the \<open>period\<close> changes is always zero: the RSI of period p is the RSI of period p - 1
  over the history alone.\<close>

theorem rsi_counts_tick_twice:
  assumes p: "2 \<le> p" and len: "2 * p \<le> int (length history)" and tick: "last history = tick"
  shows "calculate_rsi p (map mt_last_price (py_from (- p - 1) history @ [tick])) =
     calculate_rsi (p - 1) (map mt_last_price (py_from (- p) history))"
proof -
  define k where "k = nat (p - 2)"
  have k: "p = int (Suc (Suc k))" using p by (simp add: k_def)
  define ps where "ps = map mt_last_price history"
  define cs where "cs = last_n (Suc k) (price_changes ps)"
  have ne: "history \<noteq> []" and lp: "k + 3 \<le> length ps" using len k by (auto simp: ps_def)
  have a: "- p - 1 = - int (Suc (Suc (Suc k)))" "- p = - int (Suc (Suc k))" "- (p - 1) = - int (Suc k)" using k by auto
  have fr1: "py_from (- p - 1) xs = last_n (Suc (Suc (Suc k))) xs" for xs :: "'b list"
    unfolding a(1) by (simp only: py_from_neg zero_less_Suc)
  have fr2: "py_from (- p) xs = last_n (Suc (Suc k)) xs" for xs :: "'b list"
    unfolding a(2) by (simp only: py_from_neg zero_less_Suc)
  have fr3: "py_from (- (p - 1)) xs = last_n (Suc k) xs" for xs :: "'b list"
    unfolding a(3) by (simp only: py_from_neg zero_less_Suc)
  note fr = fr1 fr2 fr3
  have A: "map mt_last_price (py_from (- p - 1) history @ [tick]) = last_n (Suc (Suc (Suc k))) ps @ [last ps]"
    using ne tick by (simp only: fr) (simp add: map_last_n ps_def last_map)
  have B: "map mt_last_price (py_from (- p) history) = last_n (Suc (Suc k)) ps" by (simp only: fr map_last_n ps_def)
  let ?A = "last_n (Suc (Suc (Suc k))) ps @ [last ps]" and ?B = "last_n (Suc (Suc k)) ps"
  have ne': "last_n (Suc (Suc (Suc k))) ps \<noteq> []" "last (last_n (Suc (Suc (Suc k))) ps) = last ps"
    using lp by (simp_all add: last_n_def)
  then have "price_changes ?A = last_n (Suc (Suc k)) (price_changes ps) @ [0]"
    using lp by (simp add: price_changes_snoc price_changes_last_n)
  then have ca: "last_n (Suc (Suc k)) (price_changes ?A) = cs @ [0]"
    by (simp only: last_n_snoc last_n_last_n cs_def) simp
  have cb: "last_n (Suc k) (price_changes ?B) = cs"
    using lp by (simp add: price_changes_last_n last_n_last_n cs_def)
  have lcs: "length cs = Suc k" using lp by (simp add: cs_def)
  have la: "length ?A = k + 4" and lb: "length ?B = k + 2" using lp by simp_all
  have m: "py_from (- p) (map f (price_changes ?A)) = map f cs @ [f 0]"
     "py_from (- (p - 1)) (map f (price_changes ?B)) = map f cs" for f :: "rat \<Rightarrow> rat"
    by (simp_all only: fr map_last_n [symmetric] ca cb) simp
  have z: "gain_of 0 = 0" "loss_of 0 = 0" by (simp_all add: gain_of_def loss_of_def)
  have s: "avg (xs @ [0]) = avg xs * (of_nat (length xs) / of_nat (Suc (length xs)))" if "xs \<noteq> []" for xs :: "rat list"
    using that by (simp add: avg_def)
  show ?thesis
    using lcs la lb unfolding A B calculate_rsi_def Let_def m z
    by (simp add: k s flip: length_0_conv)
qed

text \<open>A tick with the required fields only, as the runner builds it.\<close>

definition mk_tick :: "int \<Rightarrow> rat \<Rightarrow> datetime \<Rightarrow> string \<Rightarrow> market_tick" where
  "mk_tick token price ts symbol =
     \<lparr>mt_instrument_token = token, mt_last_price = price, mt_timestamp = ts, mt_symbol = Some symbol,
      mt_volume_traded = None, mt_last_traded_quantity = None, mt_average_traded_price = None, mt_total_buy_quantity = None,
      mt_total_sell_quantity = None, mt_change = None, mt_ohlc = None, mt_oi = None, mt_oi_day_high = None, mt_oi_day_low = None,
      mt_last_trade_time = None, mt_exchange_timestamp = None, mt_depth = None, mt_mode = None,
      mt_tradable = None\<rparr>"

lemma mk_tick_simps [simp]: "mt_instrument_token (mk_tick i p ts sy) = i" "mt_last_price (mk_tick i p ts sy) = p"
  by (simp_all add: mk_tick_def)

definition demo_tick :: "int \<Rightarrow> rat \<Rightarrow> market_tick" where
  "demo_tick token price = mk_tick token price \<lparr>dt_date = ''2025-01-02'', dt_time = ''10:00:00''\<rparr> ''X''"

lemma demo_tick_simps [simp]: "mt_instrument_token (demo_tick i p) = i" "mt_last_price (demo_tick i p) = p"
  by (simp_all add: demo_tick_def)

theorem rsi_counts_tick_twice_witness:
  "calculate_rsi 2 (map mt_last_price (py_from (- 2 - 1) [demo_tick 1 10, demo_tick 1 12, demo_tick 1 11, demo_tick 1 14] @ [demo_tick 1 14])) =
   calculate_rsi (2 - 1) (map mt_last_price (py_from (- 2) [demo_tick 1 10, demo_tick 1 12, demo_tick 1 11, demo_tick 1 14]))"
  by (rule rsi_counts_tick_twice) simp_all

subsection \<open>Rule signals pass the validator\<close>

lemma mk_signal_valid:
  assumes "0 \<le> c" "c \<le> 1" "1 \<le> va_max_confidence va" "va_min_quantity va \<le> q" "side \<in> {''BUY'', ''SELL''}"
    "0 < mt_last_price tick"
  shows "validate_signal va (mk_signal side c q (mt_last_price tick)) tick"
  using assms by (auto simp: validate_signal_def mk_signal_def)

lemma momentum_signal_form:
  assumes "momentum_process_tick p tick h = Some s"
  shows "\<exists>side c. side \<in> {''BUY'', ''SELL''} \<and> 0 \<le> c \<and> c \<le> 1 \<and> s = mk_signal side c (mo_qty p) (mt_last_price tick)"
proof -
  obtain h0 where h0: "py_index h (- mo_lookback p) = Some h0"
    using assms by (auto simp: momentum_process_tick_def split: if_splits option.splits)
  define m where "m = (mt_last_price tick - mt_last_price h0) / mt_last_price h0"
  define c where "c = min 1 (\<bar>m\<bar> * 5)"
  have "s = mk_signal ''BUY'' c (mo_qty p) (mt_last_price tick) \<or> s = mk_signal ''SELL'' c (mo_qty p) (mt_last_price tick)"
    using assms by (auto simp: momentum_process_tick_def h0 c_def m_def Let_def split: if_splits)
  moreover have "0 \<le> c" "c \<le> 1" by (simp_all add: c_def)
  ultimately show ?thesis by blast
qed

text \<open>RSI never divides by zero, since it stays within 0 and 100.\<close>

lemma rsi_signal_form:
  "\<exists>r. rsi_process_tick p tick h = Inr r \<and> (\<forall>s. r = Some s \<longrightarrow>
     (\<exists>side c. side \<in> {''BUY'', ''SELL''} \<and> 0 \<le> c \<and> c \<le> 1 \<and> s = mk_signal side c (rs_qty p) (mt_last_price tick)))"
proof (cases "calculate_rsi (rs_period p) (map mt_last_price (py_from (- rs_period p - 1) h @ [tick]))")
  case (Some r)
  from calculate_rsi_bounds [OF Some] have r: "0 \<le> r" "r \<le> 100" by auto
  have buy: "py_div (rs_oversold p - r) (rs_oversold p) = Some ((rs_oversold p - r) / rs_oversold p)"
    "0 \<le> (rs_oversold p - r) / rs_oversold p" if "r < rs_oversold p" using that r by (simp_all add: py_div_def)
  have sell: "py_div (r - rs_overbought p) (100 - rs_overbought p) = Some ((r - rs_overbought p) / (100 - rs_overbought p))"
    "0 \<le> (r - rs_overbought p) / (100 - rs_overbought p)" if "r > rs_overbought p" using that r by (simp_all add: py_div_def)
  show ?thesis
  proof (cases "r < rs_oversold p")
    case True
    then show ?thesis using Some buy [OF True]
      by (auto simp: rsi_process_tick_def intro!: exI [of _ "''BUY''"] exI [of _ "min 1 ((rs_oversold p - r) / rs_oversold p)"])
  next
    case False
    then show ?thesis using Some sell
      by (auto simp: rsi_process_tick_def intro!: exI [of _ "''SELL''"] exI [of _ "min 1 ((r - rs_overbought p) / (100 - rs_overbought p))"])
  qed
qed (simp add: rsi_process_tick_def)

lemma mean_rev_signal_form:
  assumes pos: "\<forall>t \<in> set (tick # h). 0 < mt_last_price t" and sqrt: "\<forall>x \<ge> 0. 0 \<le> sqrt_fn x" and bb: "0 \<le> mr_bb_std p"
  shows "\<exists>r. mean_rev_process_tick sqrt_fn p tick h = Inr r \<and> (\<forall>s. r = Some s \<longrightarrow>
     (\<exists>side c. side \<in> {''BUY'', ''SELL''} \<and> 0 \<le> c \<and> c \<le> 1 \<and> s = mk_signal side c (mr_qty p) (mt_last_price tick)))"
proof -
  define cp where "cp = mt_last_price tick"
  define ps where "ps = map mt_last_price (py_from (- mr_lookback p) h)"
  define sd where "sd = (if length ps > 1 then sqrt_fn (sample_var ps) else 0)"
  define ub where "ub = avg ps + mr_bb_std p * sd"
  define lb where "lb = avg ps - mr_bb_std p * sd"
  define R where "R = mr_calculate_rsi p (map mt_last_price (py_from (- mr_rsi_period p - 1) h @ [tick]))"
  have cp: "0 < cp" using pos by (simp add: cp_def)
  have "0 \<le> sd" using sqrt sample_var_ge0 [of ps] by (simp add: sd_def)
  then have sd: "0 \<le> mr_bb_std p * sd" using bb by simp
  have "ps \<noteq> [] \<Longrightarrow> 0 < avg ps"
    using pos set_py_from [of "- mr_lookback p" h] by (intro avg_gt0) (auto simp: ps_def)
  then have ub: "ps \<noteq> [] \<Longrightarrow> 0 < ub" using sd by (simp add: ub_def add_pos_nonneg)
  have eq: "mean_rev_process_tick sqrt_fn p tick h =
     (if int (length h) < mr_min_history p then Inr None
      else case R of None \<Rightarrow> Inr None | Some r \<Rightarrow>
        if ps = [] then Inr None
        else if r < mr_oversold p \<and> cp < lb then
          (case py_div (lb - cp) lb of None \<Rightarrow> Inl zero_division
           | Some q \<Rightarrow> Inr (Some (mk_signal ''BUY'' (min 1 ((mr_oversold p - r) / 20 + q)) (mr_qty p) cp)))
        else if r > mr_overbought p \<and> cp > ub then
          (case py_div (cp - ub) ub of None \<Rightarrow> Inl zero_division
           | Some q \<Rightarrow> Inr (Some (mk_signal ''SELL'' (min 1 ((r - mr_overbought p) / 20 + q)) (mr_qty p) cp)))
        else Inr None)"
    unfolding mean_rev_process_tick_def Let_def cp_def [symmetric] ps_def [symmetric] sd_def [symmetric]
      ub_def [symmetric] lb_def [symmetric] R_def [symmetric] ..
  have buy: "py_div (lb - cp) lb = Some ((lb - cp) / lb)" "0 \<le> (lb - cp) / lb" if "cp < lb"
    using that cp by (simp_all add: py_div_def)
  have sell: "py_div (cp - ub) ub = Some ((cp - ub) / ub)" "0 \<le> (cp - ub) / ub" if "ps \<noteq> []" "cp > ub"
    using that ub by (simp_all add: py_div_def)
  show ?thesis unfolding cp_def [symmetric]
  proof (cases R)
    case (Some r)
    show "\<exists>r. mean_rev_process_tick sqrt_fn p tick h = Inr r \<and> (\<forall>s. r = Some s \<longrightarrow>
        (\<exists>side c. side \<in> {''BUY'', ''SELL''} \<and> 0 \<le> c \<and> c \<le> 1 \<and> s = mk_signal side c (mr_qty p) cp))"
    proof (cases "r < mr_oversold p \<and> cp < lb")
      case True
      then show ?thesis unfolding eq using Some buy
        by (auto intro!: exI [of _ "''BUY''"] exI [of _ "min 1 ((mr_oversold p - r) / 20 + (lb - cp) / lb)"] add_nonneg_nonneg)
    next
      case False
      then show ?thesis unfolding eq using Some sell
        by (auto intro!: exI [of _ "''SELL''"] exI [of _ "min 1 ((r - mr_overbought p) / 20 + (cp - ub) / ub)"] add_nonneg_nonneg)
    qed
  qed (simp add: eq)
qed



subsection \<open>The rate limit of the demo strategy\<close>

fun lf_run :: "low_freq \<Rightarrow> (rat \<times> market_tick) list \<Rightarrow> (int \<times> rat) list" where
  "lf_run s [] = []"
| "lf_run s ((now, t) # es) =
     (case low_freq_process_tick now s t of
        (Some _, s') \<Rightarrow> (mt_instrument_token t, now) # lf_run s' es
      | (None, s') \<Rightarrow> lf_run s' es)"

lemma reset_fields [simp]:
  "lf_interval (maybe_reset_daily now s) = lf_interval s" "lf_cap (maybe_reset_daily now s) = lf_cap s"
  "lf_last (maybe_reset_daily now s) = lf_last s" "lf_epoch (maybe_reset_daily now s) = Some (day_of now)"
  by (auto simp: maybe_reset_daily_def)

lemma low_freq_step:
  assumes "low_freq_process_tick now s t = (r, s')"
  shows "lf_interval s' = lf_interval s" "lf_cap s' = lf_cap s" "lf_epoch s' = Some (day_of now)"
  using assms by (auto simp: low_freq_process_tick_def Let_def split: if_splits)

lemma low_freq_emits:
  assumes "low_freq_process_tick now s t = (Some x, s')"
  shows "of_int (lf_interval s) \<le> now - get_or (lf_last s) (mt_instrument_token t) 0"
    "lf_last s' = (lf_last s)(mt_instrument_token t \<mapsto> now)"
  using assms by (auto simp: low_freq_process_tick_def Let_def split: if_splits)

lemma low_freq_silent: "low_freq_process_tick now s t = (None, s') \<Longrightarrow> s' = maybe_reset_daily now s"
  by (auto simp: low_freq_process_tick_def Let_def split: if_splits)

lemma lf_run_after:
  assumes "(k, b) \<in> set (lf_run s es)" "0 \<le> lf_interval s"
  shows "of_int (lf_interval s) \<le> b - get_or (lf_last s) k 0"
  using assms
proof (induction es arbitrary: s)
  case (Cons e es)
  obtain now t where e: "e = (now, t)" by fastforce
  obtain r s' where r: "low_freq_process_tick now s t = (r, s')" by fastforce
  note i = low_freq_step(1) [OF r]
  show ?case
  proof (cases r)
    case None
    then show ?thesis using Cons e r i low_freq_silent [of now s t s'] by fastforce
  next
    case (Some x)
    note em = low_freq_emits [OF r [unfolded Some]]
    from Cons.prems(1) e r Some consider "k = mt_instrument_token t" "b = now" | "(k, b) \<in> set (lf_run s' es)" by auto
    then show ?thesis
    proof cases
      case 2
      with Cons.IH [of s'] Cons.prems(2) i have "of_int (lf_interval s) \<le> b - get_or (lf_last s') k 0" by auto
      moreover have "0 \<le> (of_int (lf_interval s) :: rat)" using Cons.prems(2) by simp
      ultimately show ?thesis using em by (cases "k = mt_instrument_token t") (auto simp: get_or_def)
    qed (use em in simp)
  qed
qed simp

lemma lf_run_times: "(k, b) \<in> set (lf_run s es) \<Longrightarrow> b \<in> fst ` set es"
proof (induction es arbitrary: s)
  case (Cons e es)
  obtain now t where e: "e = (now, t)" by fastforce
  obtain r s' where r: "low_freq_process_tick now s t = (r, s')" by fastforce
  with Cons e show ?case by (cases r) auto
qed simp

lemma lf_run_spaced:
  assumes "0 \<le> lf_interval s"
  shows "sorted_wrt (\<lambda>(k, a) (k', b). k = k' \<longrightarrow> of_int (lf_interval s) \<le> b - a) (lf_run s es)"
  using assms
proof (induction es arbitrary: s)
  case (Cons e es)
  obtain now t where e: "e = (now, t)" by fastforce
  obtain r s' where r: "low_freq_process_tick now s t = (r, s')" by fastforce
  note i = low_freq_step(1) [OF r]
  show ?case
  proof (cases r)
    case None
    then show ?thesis using Cons.IH [of s'] Cons.prems e r i by simp
  next
    case (Some x)
    have "of_int (lf_interval s) \<le> b - now" if "(mt_instrument_token t, b) \<in> set (lf_run s' es)" for b
      using lf_run_after [OF that] Cons.prems i low_freq_emits(2) [OF r [unfolded Some]] by (simp add: get_or_def)
    then show ?thesis using Cons.IH [of s'] Cons.prems e r i Some by auto
  qed
qed simp

definition emitted_on :: "int \<Rightarrow> int \<Rightarrow> (int \<times> rat) list \<Rightarrow> nat" where
  "emitted_on k d es = length (filter (\<lambda>(k', b). k' = k \<and> day_of b = d) es)"

definition counted :: "low_freq \<Rightarrow> int \<Rightarrow> int \<Rightarrow> int" where
  "counted s d k = (if lf_epoch s = Some d then get_or (lf_counts s) k 0 else 0)"

lemma counted_step:
  assumes "low_freq_process_tick now s t = (r, s')" "lf_cap s = Some c" "0 \<le> c" "counted s d k \<le> c"
    and past: "lf_epoch s = Some d \<Longrightarrow> day_of now = d"
  shows "counted s' d k = counted s d k + (if r \<noteq> None \<and> mt_instrument_token t = k \<and> day_of now = d then 1 else 0) \<and>
     counted s' d k \<le> c"
  using assms
  by (auto simp: low_freq_process_tick_def counted_def maybe_reset_daily_def get_or_def Let_def split: if_splits option.splits)

lemma day_of_mono: "a \<le> b \<Longrightarrow> day_of a \<le> day_of b"
  by (simp add: day_of_def floor_mono divide_right_mono)

lemma lf_run_capped:
  assumes "lf_cap s = Some c" "0 \<le> c" "counted s d k \<le> c" "sorted (map fst es)"
    and "\<forall>x. lf_epoch s = Some x \<longrightarrow> (\<forall>a \<in> fst ` set es. x \<le> day_of a)"
  shows "int (emitted_on k d (lf_run s es)) \<le> c - counted s d k"
  using assms
proof (induction es arbitrary: s)
  case (Cons e es)
  obtain now t where e: "e = (now, t)" by fastforce
  obtain r s' where r: "low_freq_process_tick now s t = (r, s')" by fastforce
  have later: "day_of now \<le> day_of a" if "a \<in> fst ` set es" for a
    using that Cons.prems(4) e by (auto intro: day_of_mono)
  show ?case
  proof (cases "lf_epoch s = Some d \<and> day_of now \<noteq> d")
    case True
    then have "d < day_of now" using Cons.prems(5) e by fastforce
    then have "day_of b \<noteq> d" if "(k, b) \<in> set (lf_run s (e # es))" for b
      using lf_run_times [OF that] later e by fastforce
    then have "filter (\<lambda>(k', b). k' = k \<and> day_of b = d) (lf_run s (e # es)) = []" by (auto simp: filter_empty_conv)
    then show ?thesis using Cons.prems(3) by (simp only: emitted_on_def) simp
  next
    case False
    then have c: "counted s' d k = counted s d k + (if r \<noteq> None \<and> mt_instrument_token t = k \<and> day_of now = d then 1 else 0)"
      and c': "counted s' d k \<le> c"
      using counted_step [OF r Cons.prems(1-3)] by auto
    have "int (emitted_on k d (lf_run s' es)) \<le> c - counted s' d k"
      using Cons.prems low_freq_step [OF r] c' later by (intro Cons.IH) auto
    then show ?thesis using c e r by (cases r) (auto simp: emitted_on_def split: if_splits)
  qed
qed (simp add: emitted_on_def)

text \<open>The demo strategy keeps its limits. Over any sequence of ticks, two signals for the same
  instrument are at least the configured interval apart; and when the clock does not go back, no
  instrument gets more signals in one UTC day than the configured cap.\<close>

theorem low_frequency_limits:
  assumes int: "0 \<le> interval"
  shows "sorted_wrt (\<lambda>(k, a) (k', b). k = k' \<longrightarrow> of_int interval \<le> b - a) (lf_run (low_freq_init interval cap side qty) es) \<and>
     (\<forall>c d k. cap = Some c \<and> 0 \<le> c \<and> sorted (map fst es) \<longrightarrow>
        int (emitted_on k d (lf_run (low_freq_init interval cap side qty) es)) \<le> c)"
proof -
  let ?s = "low_freq_init interval cap side qty"
  have f: "lf_interval ?s = interval" "lf_cap ?s = cap" "lf_epoch ?s = None" by (simp_all add: low_freq_init_def)
  have "counted ?s d k = 0" for d k using f by (simp add: counted_def)
  then have "int (emitted_on k d (lf_run ?s es)) \<le> c" if "cap = Some c" "0 \<le> c" "sorted (map fst es)" for c d k
    using lf_run_capped [of ?s c d k es] that f by simp
  moreover have "sorted_wrt (\<lambda>(k, a) (k', b). k = k' \<longrightarrow> of_int interval \<le> b - a) (lf_run ?s es)"
    using lf_run_spaced [of ?s es] int f by simp
  ultimately show ?thesis by blast
qed

theorem low_frequency_limits_witness:
  "int (emitted_on 7 0 (lf_run (low_freq_init 900 (Some 1) ''auto'' 1) [(900, demo_tick 7 10), (1000, demo_tick 7 10), (2000, demo_tick 7 11)])) \<le> 1"
  using low_frequency_limits [of 900 "Some 1" "''auto''" 1 "[(900, demo_tick 7 10), (1000, demo_tick 7 10), (2000, demo_tick 7 11)]"] by auto

end
