(* ===== verification/ML_Strategies.thy ===== *)
theory ML_Strategies
  imports Rule_Strategies Py_Format
begin

text \<open>
  The model-based strategies (strategies/implementations/ml_momentum.py, ml_mean_reversion.py,
  ml_breakout.py), the model cache of strategies/ml_utils/model_loader.py, and the hybrid strategies with
  their decision policies (hybrid_momentum.py, hybrid_mean_reversion.py). A trained model, joblib,
  the file system and numpy are parameters: a model predicts a class and optionally class
  probabilities, \<open>None\<close> where it raises.
\<close>

subsection \<open>Models and their loader\<close>

record model =
  md_n_features :: "int option"
  md_predict :: "rat list \<Rightarrow> int option"
  md_predict_proba :: "(rat list \<Rightarrow> rat list option) option"

record loader_env =
  ld_has_joblib :: bool
  ld_strategies_dir :: string
  ld_load :: "string \<Rightarrow> model option"

definition path_parts :: "string \<Rightarrow> string list" where
  "path_parts p = filter (\<lambda>x. x \<noteq> [] \<and> x \<noteq> ''.'') (split_on (CHR ''/'') p)"

text \<open>Relative paths are taken below the strategies directory, with a leading \<open>strategies\<close> dropped.\<close>

definition resolve_path :: "loader_env \<Rightarrow> string \<Rightarrow> string" where
  "resolve_path E model_path =
     (if starts_with ''/'' model_path then model_path
      else let parts = path_parts model_path;
               rel = (if parts \<noteq> [] \<and> hd parts = ''strategies'' then tl parts else parts)
           in join_str ''/'' (ld_strategies_dir E # rel))"

type_synonym model_cache = "string \<rightharpoonup> model"

definition loader_load_model :: "loader_env \<Rightarrow> string \<Rightarrow> model_cache \<Rightarrow> model option \<times> model_cache" where
  "loader_load_model E model_path cache =
     (if \<not> ld_has_joblib E then (None, cache)
      else let p = resolve_path E model_path in
        case cache p of
          Some m \<Rightarrow> (Some m, cache)
        | None \<Rightarrow> (case ld_load E p of None \<Rightarrow> (None, cache) | Some m \<Rightarrow> (Some m, cache(p \<mapsto> m))))"

definition clear_cache :: "model_cache \<Rightarrow> model_cache" where
  "clear_cache cache = Map.empty"

subsection \<open>Features\<close>

text \<open>The numpy functions the strategies call, on exact numbers.\<close>

record numpy =
  np_div :: "rat \<Rightarrow> rat \<Rightarrow> rat"
  np_std :: "rat list \<Rightarrow> rat"
  np_std1 :: "rat list \<Rightarrow> rat"
  np_mean :: "rat list \<Rightarrow> rat"
  np_max :: "rat list \<Rightarrow> rat"
  np_min :: "rat list \<Rightarrow> rat"

text \<open>\<open>N\<close> is \<open>None\<close> where numpy cannot be imported; \<open>sqrt_fn\<close> is \<open>** 0.5\<close>.\<close>

record num_env =
  ne_numpy :: "numpy option"
  ne_sqrt :: "rat \<Rightarrow> rat"

record ml =
  ml_model_path :: string
  ml_lookback :: int
  ml_threshold :: rat
  ml_position_size :: int
  ml_model :: "model option"

definition ml_load_model :: "loader_env \<Rightarrow> ml \<Rightarrow> model_cache \<Rightarrow> ml \<times> model_cache" where
  "ml_load_model E p cache =
     (let (m, cache') = loader_load_model E (ml_model_path p) cache in (p\<lparr>ml_model := m\<rparr>, cache'))"

definition np_returns :: "numpy \<Rightarrow> rat list \<Rightarrow> rat list" where
  "np_returns N ps = map2 (np_div N) (price_changes ps) ps"

text \<open>The returns of the fallback code: steps from a zero price are skipped.\<close>

definition plain_returns :: "rat list \<Rightarrow> rat list" where
  "plain_returns ps = map (\<lambda>(a, b). (b - a) / a) (filter (\<lambda>(a, b). a \<noteq> 0) (zip ps (tl ps)))"

definition window_prices :: "int \<Rightarrow> market_tick list \<Rightarrow> rat list" where
  "window_prices lookback history = map mt_last_price (py_from (- lookback) history)"

definition root_mean_square :: "num_env \<Rightarrow> rat list \<Rightarrow> rat" where
  "root_mean_square E rs = (if rs = [] then 0 else ne_sqrt E (sum_list (map (\<lambda>r. r * r) rs) / of_nat (length rs)))"

text \<open>\<open>None\<close> is the IndexError of \<open>prices[0]\<close> on an empty window.\<close>

definition ml_momentum_features :: "num_env \<Rightarrow> ml \<Rightarrow> market_tick \<Rightarrow> market_tick list \<Rightarrow> rat list option" where
  "ml_momentum_features E p tick history =
     (let current_price = mt_last_price tick; prices = window_prices (ml_lookback p) history; n = of_nat (length history) in
      case ne_numpy E of
        None \<Rightarrow>
          if int (length history) < ml_lookback p then Some [0, 0, 0, current_price, n]
          else (case py_index prices 0 of
              None \<Rightarrow> None
            | Some p0 \<Rightarrow>
                let total_return = (if p0 \<noteq> 0 then (current_price - p0) / p0 else 0);
                    momentum_5 = (case py_index prices (- 5) of
                                    Some p5 \<Rightarrow> if p5 \<noteq> 0 then (current_price - p5) / p5 else 0 | None \<Rightarrow> 0);
                    volatility = (if length prices > 1 then root_mean_square E (plain_returns prices) else 0)
                in Some [total_return, momentum_5, volatility, current_price, n])
      | Some N \<Rightarrow>
          if int (length history) < ml_lookback p then Some [0, 0, 0, 0, 0]
          else let returns = np_returns N prices in
            (case py_index prices 0 of
               None \<Rightarrow> None
             | Some p0 \<Rightarrow>
                 Some [np_div N (current_price - p0) p0,
                       (case py_index prices (- 5) of Some p5 \<Rightarrow> np_div N (current_price - p5) p5 | None \<Rightarrow> 0),
                       (if returns \<noteq> [] then np_std N returns else 0), current_price, n]))"

definition ml_mean_rev_features :: "num_env \<Rightarrow> ml \<Rightarrow> market_tick \<Rightarrow> market_tick list \<Rightarrow> rat list" where
  "ml_mean_rev_features E p tick history =
     (let current_price = mt_last_price tick; prices = window_prices (ml_lookback p) history; n = of_nat (length history) in
      if history = [] then [0, current_price, 0, 0]
      else case ne_numpy E of
        None \<Rightarrow>
          if length prices < 2 then [0, current_price, 0, n]
          else let mean_price = avg prices;
                   std = ne_sqrt E (sample_var prices);
                   z = (if std > 0 then (current_price - mean_price) / std else 0)
               in [z, current_price, root_mean_square E (plain_returns prices), n]
      | Some N \<Rightarrow>
          if length prices < 2 then [0, current_price, 0, n]
          else let mean_price = np_mean N prices;
                   std = np_std1 N prices;
                   z = (if std > 0 then np_div N (current_price - mean_price) std else 0);
                   returns = np_returns N prices
               in [z, current_price, (if returns \<noteq> [] then np_std N returns else 0), n])"

text \<open>\<open>None\<close> is the ValueError of \<open>np.max\<close> on an empty window.\<close>

definition ml_breakout_features :: "num_env \<Rightarrow> ml \<Rightarrow> market_tick \<Rightarrow> market_tick list \<Rightarrow> rat list option" where
  "ml_breakout_features E p tick history =
     (let current_price = mt_last_price tick; short = [0, current_price, 0, of_nat (length history)] in
      case ne_numpy E of
        None \<Rightarrow> Some short
      | Some N \<Rightarrow>
          if int (length history) < ml_lookback p then Some short
          else let prices = window_prices (ml_lookback p) history in
            if prices = [] then None
            else let rolling_high = np_max N prices; rolling_low = np_min N prices;
                   breakout_up = (if rolling_high \<noteq> 0 then (current_price - rolling_high) / rolling_high else 0);
                   breakout_down = (if rolling_low \<noteq> 0 then (current_price - rolling_low) / rolling_low else 0);
                   returns = np_returns N prices;
                   atr_like = (if returns \<noteq> [] then np_mean N (map abs returns) else 0)
               in Some [breakout_up, breakout_down, atr_like, current_price])"

subsection \<open>Inference\<close>

text \<open>predict_signal of the three classes: they differ in the position of the price among the features
  and in the metadata. Every exception inside is caught.\<close>

definition ml_predict ::
  "int \<Rightarrow> (int \<Rightarrow> rat \<Rightarrow> rat list \<Rightarrow> (string \<times> json) list option) \<Rightarrow> ml \<Rightarrow> rat list \<Rightarrow> signal_result option" where
  "ml_predict price_at metadata p features =
     (case ml_model p of
        None \<Rightarrow> None
      | Some M \<Rightarrow>
          if (case md_n_features M of None \<Rightarrow> False | Some expected \<Rightarrow> int (length features) \<noteq> expected) then None
          else case md_predict M features of
              None \<Rightarrow> None
            | Some prediction \<Rightarrow>
                (case (case md_predict_proba M of None \<Rightarrow> Some [1/2, 1/2] | Some f \<Rightarrow> f features) of
                   None \<Rightarrow> None
                 | Some probabilities \<Rightarrow>
                     (case (max_list probabilities, py_index features price_at) of
                        (Some max_prob, Some price) \<Rightarrow>
                          if (prediction = 1 \<or> prediction = 0) \<and> max_prob > ml_threshold p
                          then Some \<lparr>sr_signal_type = (if prediction = 1 then ''BUY'' else ''SELL''),
                             sr_confidence = max_prob, sr_quantity = ml_position_size p, sr_price = price,
                             sr_metadata = metadata prediction max_prob features\<rparr>
                          else None
                      | _ \<Rightarrow> None)))"

definition feature_list :: "rat list \<Rightarrow> json" where
  "feature_list fs = JList (map JNum fs)"

definition ml_momentum_predict :: "ml \<Rightarrow> rat list \<Rightarrow> signal_result option" where
  "ml_momentum_predict =
     ml_predict 3 (\<lambda>pred conf fs. Some [(''ml_prediction'', JInt pred), (''ml_confidence'', JNum conf), (''features'', feature_list fs)])"

definition ml_mean_rev_predict :: "ml \<Rightarrow> rat list \<Rightarrow> signal_result option" where
  "ml_mean_rev_predict = ml_predict 1 (\<lambda>_ _ fs. Some [(''features'', feature_list fs)])"

definition ml_breakout_predict :: "ml \<Rightarrow> rat list \<Rightarrow> signal_result option" where
  "ml_breakout_predict = ml_predict 3 (\<lambda>_ _ _. None)"

definition index_error :: exn where
  "index_error = raise_exn (Other ''IndexError'') ''list index out of range''"

definition value_error :: "string \<Rightarrow> exn" where
  "value_error m = raise_exn (Other ''ValueError'') m"

definition ml_momentum_process_tick :: "num_env \<Rightarrow> ml \<Rightarrow> market_tick \<Rightarrow> market_tick list \<Rightarrow> exn + signal_result option" where
  "ml_momentum_process_tick E p tick history =
     (case ml_momentum_features E p tick history of
        None \<Rightarrow> Inl index_error | Some fs \<Rightarrow> Inr (ml_momentum_predict p fs))"

definition ml_mean_rev_process_tick :: "num_env \<Rightarrow> ml \<Rightarrow> market_tick \<Rightarrow> market_tick list \<Rightarrow> exn + signal_result option" where
  "ml_mean_rev_process_tick E p tick history = Inr (ml_mean_rev_predict p (ml_mean_rev_features E p tick history))"

definition ml_breakout_process_tick :: "num_env \<Rightarrow> ml \<Rightarrow> market_tick \<Rightarrow> market_tick list \<Rightarrow> exn + signal_result option" where
  "ml_breakout_process_tick E p tick history =
     (case ml_breakout_features E p tick history of
        None \<Rightarrow> Inl (value_error ''zero-size array to reduction operation maximum which has no identity'')
      | Some fs \<Rightarrow> Inr (ml_breakout_predict p fs))"

subsection \<open>Decision policies and hybrids\<close>

datatype policy = MajorityVotePolicy rat | ConservativePolicy

fun decide :: "policy \<Rightarrow> signal_result option \<Rightarrow> signal_result option \<Rightarrow> signal_result option" where
  "decide (MajorityVotePolicy min_ml_confidence) rules_signal ml_signal =
     (case (rules_signal, ml_signal) of
        (Some r, Some m) \<Rightarrow>
          if sr_signal_type r = sr_signal_type m
          then Some \<lparr>sr_signal_type = sr_signal_type r,
                 sr_confidence = min 1 ((sr_confidence r + sr_confidence m) / 2 + 1/10),
                 sr_quantity = max (sr_quantity r) (sr_quantity m), sr_price = sr_price m, sr_metadata = None\<rparr>
          else if sr_confidence m \<ge> min_ml_confidence then Some (m\<lparr>sr_metadata := None\<rparr>)
          else Some (r\<lparr>sr_metadata := None\<rparr>)
      | (None, Some m) \<Rightarrow>
          if sr_confidence m \<ge> min_ml_confidence then Some (m\<lparr>sr_metadata := None\<rparr>)
          else Some (m\<lparr>sr_confidence := sr_confidence m * (8/10), sr_metadata := None\<rparr>)
      | (Some r, None) \<Rightarrow> Some (r\<lparr>sr_metadata := None\<rparr>)
      | (None, None) \<Rightarrow> None)"
| "decide ConservativePolicy rules_signal ml_signal =
     (case (rules_signal, ml_signal) of
        (Some r, Some m) \<Rightarrow>
          if sr_signal_type r = sr_signal_type m
          then Some \<lparr>sr_signal_type = sr_signal_type r,
                 sr_confidence = min 1 ((sr_confidence r + sr_confidence m) / 2 + 2/10),
                 sr_quantity = min (sr_quantity r) (sr_quantity m), sr_price = sr_price r, sr_metadata = None\<rparr>
          else None
      | _ \<Rightarrow> None)"

text \<open>An exception of the rules gives no signal; one of the model leaves the rules alone.\<close>

definition combine :: "policy \<Rightarrow> exn + signal_result option \<Rightarrow> exn + signal_result option \<Rightarrow> signal_result option" where
  "combine pol rules ml =
     (case rules of
        Inl _ \<Rightarrow> None
      | Inr r \<Rightarrow> decide pol r (case ml of Inl _ \<Rightarrow> None | Inr m \<Rightarrow> m))"

definition hybrid_momentum_process_tick ::
  "num_env \<Rightarrow> policy \<Rightarrow> momentum \<Rightarrow> ml \<Rightarrow> market_tick \<Rightarrow> market_tick list \<Rightarrow> signal_result option" where
  "hybrid_momentum_process_tick E pol rules m tick history =
     combine pol (Inr (momentum_process_tick rules tick history)) (ml_momentum_process_tick E m tick history)"

definition hybrid_mean_rev_process_tick ::
  "num_env \<Rightarrow> policy \<Rightarrow> mean_rev \<Rightarrow> ml \<Rightarrow> market_tick \<Rightarrow> market_tick list \<Rightarrow> signal_result option" where
  "hybrid_mean_rev_process_tick E pol rules m tick history =
     combine pol (mean_rev_process_tick (ne_sqrt E) rules tick history) (ml_mean_rev_process_tick E m tick history)"

subsection \<open>The loader\<close>

text \<open>A model is read from disk at most once: after a successful load the same path, with or without
  the \<open>strategies\<close> prefix, is answered from the cache whatever happens to the file.\<close>

lemma load_model_cached:
  assumes "loader_load_model E p cache = (Some m, cache')" and "ld_has_joblib E' = ld_has_joblib E"
    and "resolve_path E' p' = resolve_path E p"
  shows "loader_load_model E' p' cache' = (Some m, cache')"
  using assms by (auto simp: loader_load_model_def Let_def split: if_splits option.splits)

lemma resolve_strategies_prefix:
  assumes "\<not> starts_with ''/'' p" "path_parts p = [] \<or> hd (path_parts p) \<noteq> ''strategies''"
  shows "resolve_path E (''strategies/'' @ p) = resolve_path E p"
proof -
  have "split_on (CHR ''/'') (''strategies'' @ CHR ''/'' # p) = ''strategies'' # split_on (CHR ''/'') p"
    by (rule split_on_append) simp
  then have "path_parts (''strategies/'' @ p) = ''strategies'' # path_parts p" by (simp add: path_parts_def)
  then show ?thesis using assms by (auto simp: resolve_path_def)
qed

subsection \<open>Decisions\<close>

definition conf_ok :: "signal_result option \<Rightarrow> bool" where
  "conf_ok s = (case s of None \<Rightarrow> True | Some x \<Rightarrow> 0 \<le> sr_confidence x \<and> sr_confidence x \<le> 1)"

text \<open>Decision policies. From inputs with confidence between zero and one, both policies
  give a confidence between zero and one; the direction decided is that of one of the inputs;
  and the conservative policy decides only when both inputs are present and agree, with the
  smaller quantity.\<close>

theorem decide_sound:
  assumes "conf_ok r" "conf_ok m" and "decide pol r m = Some s"
  shows "0 \<le> sr_confidence s \<and> sr_confidence s \<le> 1 \<and>
     (\<exists>x. (r = Some x \<or> m = Some x) \<and> sr_signal_type s = sr_signal_type x) \<and>
     (pol = ConservativePolicy \<longrightarrow> (\<exists>x y. r = Some x \<and> m = Some y \<and> sr_signal_type x = sr_signal_type y \<and>
        sr_signal_type s = sr_signal_type x \<and> sr_quantity s = min (sr_quantity x) (sr_quantity y)))"
proof (cases pol)
  case (MajorityVotePolicy c)
  then show ?thesis using assms
    by (auto simp: conf_ok_def split: option.splits if_splits)
next
  case ConservativePolicy
  then show ?thesis using assms by (auto simp: conf_ok_def split: option.splits if_splits)
qed

theorem decide_sound_witness:
  "0 \<le> (min 1 ((1/2 + 7/10) / 2 + 2/10) :: rat) \<and> (min 1 ((1/2 + 7/10) / 2 + 2/10) :: rat) \<le> 1 \<and>
   decide ConservativePolicy (Some (mk_signal ''BUY'' (1/2) 100 10)) (Some (mk_signal ''BUY'' (7/10) 50 11)) =
     Some (mk_signal ''BUY'' (min 1 ((1/2 + 7/10) / 2 + 2/10)) 50 10)"
proof -
  have d: "decide ConservativePolicy (Some (mk_signal ''BUY'' (1/2) 100 10)) (Some (mk_signal ''BUY'' (7/10) 50 11)) =
     Some (mk_signal ''BUY'' (min 1 ((1/2 + 7/10) / 2 + 2/10)) 50 10)"
    by (simp add: mk_signal_def)
  from decide_sound [OF _ _ d] d show ?thesis by (simp add: conf_ok_def mk_signal_def)
qed

text \<open>A breakout signal during warm-up is priced by the number of ticks. While the history is
  shorter than the lookback, or without numpy, the features are zero, the price, zero and the
  length of the history; predict_signal takes the fourth of them for the price, so every signal
  carries the number of ticks seen as its price.\<close>

theorem breakout_warmup_price:
  assumes "int (length history) < ml_lookback p \<or> ne_numpy E = None"
    and "ml_breakout_process_tick E p tick history = Inr (Some s)"
  shows "sr_price s = of_nat (length history) \<and> sr_signal_type s \<in> {''BUY'', ''SELL''}"
proof -
  have "ml_breakout_features E p tick history = Some [0, mt_last_price tick, 0, of_nat (length history)]"
    using assms(1) by (auto simp: ml_breakout_features_def Let_def split: option.splits)
  with assms(2) have "ml_breakout_predict p [0, mt_last_price tick, 0, of_nat (length history)] = Some s"
    by (simp add: ml_breakout_process_tick_def)
  then show ?thesis
    by (auto simp: ml_breakout_predict_def ml_predict_def py_index_def Let_def split: option.splits if_splits)
qed

definition demo_model :: model where
  "demo_model = \<lparr>md_n_features = Some 4, md_predict = (\<lambda>_. Some 1), md_predict_proba = Some (\<lambda>_. Some [1/10, 9/10])\<rparr>"

theorem breakout_warmup_price_witness:
  "\<exists>s. ml_breakout_process_tick \<lparr>ne_numpy = None, ne_sqrt = (\<lambda>x. x)\<rparr>
      \<lparr>ml_model_path = ''m'', ml_lookback = 30, ml_threshold = 6/10, ml_position_size = 100, ml_model = Some demo_model\<rparr>
      (demo_tick 5 250) [demo_tick 5 249, demo_tick 5 250] = Inr (Some s) \<and> sr_price s = 2"
proof -
  let ?E = "\<lparr>ne_numpy = None, ne_sqrt = (\<lambda>x. x)\<rparr> :: num_env"
  let ?p = "\<lparr>ml_model_path = ''m'', ml_lookback = 30, ml_threshold = 6/10, ml_position_size = 100, ml_model = Some demo_model\<rparr>"
  obtain s where s: "ml_breakout_process_tick ?E ?p (demo_tick 5 250) [demo_tick 5 249, demo_tick 5 250] = Inr (Some s)"
    by (simp add: ml_breakout_process_tick_def ml_breakout_features_def ml_breakout_predict_def ml_predict_def demo_model_def
        py_index_def)
  from breakout_warmup_price [OF _ s] s show ?thesis by auto
qed

end
