(* ===== verification/Strategy_Executor.thy ===== *)
theory Strategy_Executor
  imports ML_Strategies
begin

text \<open>
  The composition of strategies: StrategyConfig and ExecutionContext (strategies/core/config.py),
  StrategyFactory.create_executor with the factory functions of the implementations
  (strategies/core/factory.py), StrategyExecutor (strategies/core/executor.py) and the factory of the runner
  (services/strategy_runner/factory.py). A processor is a value of the sum \<open>processor\<close>, one
  constructor per registered class. Parameters of a strategy are taken to have the documented
  types; others raise TypeError.
\<close>

subsection \<open>Processors\<close>

datatype processor =
    Momentum momentum
  | MeanReversion mean_rev
  | RSI rsi
  | LowFrequency low_freq
  | MLMomentum ml
  | MLMeanReversion ml
  | MLBreakout ml
  | HybridMomentum policy momentum ml
  | HybridMeanReversion policy mean_rev ml

text \<open>\<open>processor.process_tick\<close>; only the demo strategy keeps state.\<close>

fun processor_process_tick ::
  "num_env \<Rightarrow> rat \<Rightarrow> processor \<Rightarrow> market_tick \<Rightarrow> market_tick list \<Rightarrow> (exn + signal_result option) \<times> processor" where
  "processor_process_tick E now (Momentum p) t h = (Inr (momentum_process_tick p t h), Momentum p)"
| "processor_process_tick E now (MeanReversion p) t h = (mean_rev_process_tick (ne_sqrt E) p t h, MeanReversion p)"
| "processor_process_tick E now (RSI p) t h = (rsi_process_tick p t h, RSI p)"
| "processor_process_tick E now (LowFrequency p) t h = (let (r, p') = low_freq_process_tick now p t in (Inr r, LowFrequency p'))"
| "processor_process_tick E now (MLMomentum p) t h = (ml_momentum_process_tick E p t h, MLMomentum p)"
| "processor_process_tick E now (MLMeanReversion p) t h = (ml_mean_rev_process_tick E p t h, MLMeanReversion p)"
| "processor_process_tick E now (MLBreakout p) t h = (ml_breakout_process_tick E p t h, MLBreakout p)"
| "processor_process_tick E now (HybridMomentum pol r m) t h =
     (Inr (hybrid_momentum_process_tick E pol r m t h), HybridMomentum pol r m)"
| "processor_process_tick E now (HybridMeanReversion pol r m) t h =
     (Inr (hybrid_mean_rev_process_tick E pol r m t h), HybridMeanReversion pol r m)"

fun get_required_history_length :: "processor \<Rightarrow> int" where
  "get_required_history_length (Momentum p) = mo_lookback p"
| "get_required_history_length (MeanReversion p) = mr_min_history p"
| "get_required_history_length (RSI p) = rsi_min_history p"
| "get_required_history_length (LowFrequency p) = 1"
| "get_required_history_length (MLMomentum p) = ml_lookback p"
| "get_required_history_length (MLMeanReversion p) = ml_lookback p"
| "get_required_history_length (MLBreakout p) = ml_lookback p"
| "get_required_history_length (HybridMomentum pol r m) = max (mo_lookback r) (ml_lookback m)"
| "get_required_history_length (HybridMeanReversion pol r m) = max (mr_min_history r) (ml_lookback m)"

definition supports_instrument :: "processor \<Rightarrow> int \<Rightarrow> bool" where
  "supports_instrument p token = True"

text \<open>\<open>hasattr(processor, "load_model")\<close>: the hybrid classes have no such method.\<close>

fun has_load_model :: "processor \<Rightarrow> bool" where
  "has_load_model (MLMomentum p) = True"
| "has_load_model (MLMeanReversion p) = True"
| "has_load_model (MLBreakout p) = True"
| "has_load_model _ = False"

fun processor_load_model :: "loader_env \<Rightarrow> processor \<Rightarrow> model_cache \<Rightarrow> processor \<times> model_cache" where
  "processor_load_model L (MLMomentum p) c = (let (p', c') = ml_load_model L p c in (MLMomentum p', c'))"
| "processor_load_model L (MLMeanReversion p) c = (let (p', c') = ml_load_model L p c in (MLMeanReversion p', c'))"
| "processor_load_model L (MLBreakout p) c = (let (p', c') = ml_load_model L p c in (MLBreakout p', c'))"
| "processor_load_model L p c = (p, c)"

subsection \<open>Configuration\<close>

record strategy_config =
  sc_strategy_id :: string
  sc_strategy_type :: string
  sc_parameters :: "(string \<times> json) list"
  sc_active_brokers :: "string list"
  sc_instrument_tokens :: "int list"
  sc_max_position_size :: rat
  sc_risk_multiplier :: rat
  sc_enabled :: bool

record execution_context =
  xc_broker :: string
  xc_portfolio_state :: "(string \<times> json) list"
  xc_market_session :: string
  xc_risk_limits :: "(string \<times> rat) list"

definition ebind :: "exn + 'a \<Rightarrow> ('a \<Rightarrow> exn + 'b) \<Rightarrow> exn + 'b" where
  "ebind x f = (case x of Inl e \<Rightarrow> Inl e | Inr a \<Rightarrow> f a)"

definition type_error :: "string \<Rightarrow> exn" where
  "type_error m = raise_exn (Other ''TypeError'') m"

definition key_error :: "string \<Rightarrow> exn" where
  "key_error k = raise_exn (Other ''KeyError'') k"

definition cfg_int :: "(string \<times> json) list \<Rightarrow> string \<Rightarrow> int \<Rightarrow> exn + int" where
  "cfg_int d k v = (case jget d k of None \<Rightarrow> Inr v | Some (JInt i) \<Rightarrow> Inr i | Some _ \<Rightarrow> Inl (type_error k))"

definition cfg_num :: "(string \<times> json) list \<Rightarrow> string \<Rightarrow> rat \<Rightarrow> exn + rat" where
  "cfg_num d k v =
     (case jget d k of None \<Rightarrow> Inr v | Some (JInt i) \<Rightarrow> Inr (of_int i) | Some (JNum r) \<Rightarrow> Inr r | Some _ \<Rightarrow> Inl (type_error k))"

definition cfg_str :: "(string \<times> json) list \<Rightarrow> string \<Rightarrow> string \<Rightarrow> exn + string" where
  "cfg_str d k v = (case jget d k of None \<Rightarrow> Inr v | Some (JStr s) \<Rightarrow> Inr s | Some _ \<Rightarrow> Inl (type_error k))"

definition cfg_obj :: "(string \<times> json) list \<Rightarrow> string \<Rightarrow> (string \<times> json) list \<Rightarrow> exn + (string \<times> json) list" where
  "cfg_obj d k v = (case jget d k of None \<Rightarrow> Inr v | Some (JObj x) \<Rightarrow> Inr x | Some _ \<Rightarrow> Inl (type_error k))"

text \<open>\<open>int(config.get(k, v))\<close>.\<close>

definition cfg_as_int :: "(string \<times> json) list \<Rightarrow> string \<Rightarrow> int \<Rightarrow> exn + int" where
  "cfg_as_int d k v =
     (case jget d k of
        None \<Rightarrow> Inr v
      | Some j \<Rightarrow>
          (case int_of_json j of
             Some i \<Rightarrow> Inr i
           | None \<Rightarrow> Inl (case j of JStr s \<Rightarrow> value_error s | _ \<Rightarrow> type_error k)))"

subsection \<open>Factory functions\<close>

definition create_momentum_processor :: "(string \<times> json) list \<Rightarrow> exn + momentum" where
  "create_momentum_processor config =
     ebind (cfg_int config ''lookback_periods'' 20) (\<lambda>lookback.
     ebind (cfg_num config ''threshold'' (1/100)) (\<lambda>threshold.
     ebind (cfg_int config ''position_size'' 100) (\<lambda>qty.
       Inr \<lparr>mo_lookback = lookback, mo_threshold = threshold, mo_qty = qty\<rparr>)))"

definition create_mean_reversion_processor :: "(string \<times> json) list \<Rightarrow> exn + mean_rev" where
  "create_mean_reversion_processor config =
     ebind (cfg_int config ''lookback_periods'' 20) (\<lambda>lookback.
     ebind (cfg_int config ''rsi_period'' 14) (\<lambda>period.
     ebind (cfg_num config ''rsi_oversold'' 30) (\<lambda>oversold.
     ebind (cfg_num config ''rsi_overbought'' 70) (\<lambda>overbought.
     ebind (cfg_num config ''bollinger_std'' 2) (\<lambda>bb.
     ebind (cfg_int config ''position_size'' 100) (\<lambda>qty.
       Inr \<lparr>mr_lookback = lookback, mr_rsi_period = period, mr_oversold = oversold, mr_overbought = overbought,
            mr_bb_std = bb, mr_qty = qty\<rparr>))))))"

definition create_rsi_processor :: "(string \<times> json) list \<Rightarrow> exn + rsi" where
  "create_rsi_processor config =
     ebind (cfg_int config ''rsi_period'' 14) (\<lambda>period.
     ebind (cfg_num config ''rsi_oversold'' 30) (\<lambda>oversold.
     ebind (cfg_num config ''rsi_overbought'' 70) (\<lambda>overbought.
     ebind (cfg_int config ''position_size'' 100) (\<lambda>qty.
       Inr \<lparr>rs_period = period, rs_oversold = oversold, rs_overbought = overbought, rs_qty = qty\<rparr>))))"

definition create_low_frequency_demo_processor :: "(string \<times> json) list \<Rightarrow> exn + low_freq" where
  "create_low_frequency_demo_processor config =
     ebind (cfg_as_int config ''min_interval_seconds'' 900) (\<lambda>interval.
     ebind (if jget_none config ''max_daily_signals_per_instrument'' = JNull then Inr None
            else ebind (cfg_as_int config ''max_daily_signals_per_instrument'' 0) (\<lambda>c. Inr (Some c))) (\<lambda>cap.
     ebind (cfg_as_int config ''quantity'' 1) (\<lambda>qty.
       Inr (low_freq_init interval cap (case jget config ''side'' of None \<Rightarrow> ''auto'' | Some v \<Rightarrow> py_str v) qty))))"

text \<open>The three model-based classes differ in the default path and lookback.\<close>

definition create_ml_processor :: "string \<Rightarrow> int \<Rightarrow> (string \<times> json) list \<Rightarrow> exn + ml" where
  "create_ml_processor path lookback config =
     ebind (cfg_str config ''model_path'' path) (\<lambda>model_path.
     ebind (cfg_int config ''lookback_periods'' lookback) (\<lambda>lb.
     ebind (cfg_num config ''confidence_threshold'' (6/10)) (\<lambda>threshold.
     ebind (cfg_int config ''position_size'' 100) (\<lambda>qty.
       Inr \<lparr>ml_model_path = model_path, ml_lookback = lb, ml_threshold = threshold, ml_position_size = qty, ml_model = None\<rparr>))))"

definition create_ml_momentum_processor :: "(string \<times> json) list \<Rightarrow> exn + ml" where
  "create_ml_momentum_processor = create_ml_processor ''strategies/models/momentum_v1.joblib'' 20"

definition create_ml_mean_reversion_processor :: "(string \<times> json) list \<Rightarrow> exn + ml" where
  "create_ml_mean_reversion_processor = create_ml_processor ''strategies/models/mean_reversion_v1.joblib'' 20"

definition create_ml_breakout_processor :: "(string \<times> json) list \<Rightarrow> exn + ml" where
  "create_ml_breakout_processor = create_ml_processor ''strategies/models/breakout_v1.joblib'' 30"

text \<open>\<open>C(**config)\<close>: unknown keywords, and a missing model path, raise TypeError.\<close>

definition with_kwargs :: "string list \<Rightarrow> string list \<Rightarrow> ((string \<times> json) list \<Rightarrow> exn + 'a) \<Rightarrow> (string \<times> json) list \<Rightarrow> exn + 'a" where
  "with_kwargs required optional f config =
     (if set (map fst config) \<subseteq> set (required @ optional) \<and> set required \<subseteq> set (map fst config) then f config
      else Inl (type_error ''__init__''))"

definition hybrid_ml :: "(string \<times> json) list \<Rightarrow> exn + ml" where
  "hybrid_ml = with_kwargs [''model_path''] [''lookback_periods'', ''confidence_threshold'', ''position_size''] (create_ml_processor [] 20)"

definition create_policy :: "(string \<times> json) list \<Rightarrow> exn + policy" where
  "create_policy config =
     ebind (cfg_num config ''min_ml_confidence'' (6/10)) (\<lambda>c.
       Inr (if jget config ''policy_type'' = Some (JStr ''conservative'') then ConservativePolicy else MajorityVotePolicy c))"

definition create_hybrid_momentum_processor :: "(string \<times> json) list \<Rightarrow> exn + processor" where
  "create_hybrid_momentum_processor config =
     ebind (cfg_obj config ''rules_config'' [(''lookback_periods'', JInt 20), (''threshold'', JNum (1/100)), (''position_size'', JInt 100)]) (\<lambda>rc.
     ebind (cfg_obj config ''ml_config'' [(''lookback_periods'', JInt 20), (''model_path'', JStr ''strategies/models/momentum_model.joblib'')]) (\<lambda>mc.
     ebind (with_kwargs [] [''lookback_periods'', ''threshold'', ''position_size''] create_momentum_processor rc) (\<lambda>r.
     ebind (hybrid_ml mc) (\<lambda>m.
     ebind (create_policy config) (\<lambda>pol. Inr (HybridMomentum pol r m))))))"

definition create_hybrid_mean_reversion_processor :: "(string \<times> json) list \<Rightarrow> exn + processor" where
  "create_hybrid_mean_reversion_processor config =
     ebind (cfg_obj config ''rules_config'' [(''lookback_periods'', JInt 20), (''rsi_period'', JInt 14), (''rsi_oversold'', JInt 30),
        (''rsi_overbought'', JInt 70), (''position_size'', JInt 100)]) (\<lambda>rc.
     ebind (cfg_obj config ''ml_config'' [(''lookback_periods'', JInt 20), (''model_path'', JStr ''strategies/models/mean_reversion_model.joblib'')]) (\<lambda>mc.
     ebind (with_kwargs [] [''lookback_periods'', ''rsi_period'', ''rsi_oversold'', ''rsi_overbought'', ''bollinger_std'', ''position_size'']
              create_mean_reversion_processor rc) (\<lambda>r.
     ebind (hybrid_ml mc) (\<lambda>m.
     ebind (create_policy config) (\<lambda>pol. Inr (HybridMeanReversion pol r m))))))"

text \<open>The registry of the composition factory: strategy type to factory function.\<close>

definition emap :: "('a \<Rightarrow> 'b) \<Rightarrow> exn + 'a \<Rightarrow> exn + 'b" where
  "emap f x = ebind x (\<lambda>a. Inr (f a))"

definition processors :: "(string \<times> ((string \<times> json) list \<Rightarrow> exn + processor)) list" where
  "processors =
     [(''ml_momentum'', \<lambda>c. emap MLMomentum (create_ml_momentum_processor c)),
      (''MLMomentumProcessor'', \<lambda>c. emap MLMomentum (create_ml_momentum_processor c)),
      (''ml_mean_reversion'', \<lambda>c. emap MLMeanReversion (create_ml_mean_reversion_processor c)),
      (''MLMeanReversionProcessor'', \<lambda>c. emap MLMeanReversion (create_ml_mean_reversion_processor c)),
      (''ml_breakout'', \<lambda>c. emap MLBreakout (create_ml_breakout_processor c)),
      (''MLBreakoutProcessor'', \<lambda>c. emap MLBreakout (create_ml_breakout_processor c)),
      (''momentum'', \<lambda>c. emap Momentum (create_momentum_processor c)),
      (''mean_reversion'', \<lambda>c. emap MeanReversion (create_mean_reversion_processor c)),
      (''rsi'', \<lambda>c. emap RSI (create_rsi_processor c)),
      (''hybrid_momentum'', create_hybrid_momentum_processor),
      (''hybrid_mean_reversion'', create_hybrid_mean_reversion_processor),
      (''low_frequency_demo'', \<lambda>c. emap LowFrequency (create_low_frequency_demo_processor c))]"

subsection \<open>StrategyExecutor\<close>

record executor =
  ex_processor :: processor
  ex_validator :: validator
  ex_config :: strategy_config
  ex_context :: execution_context
  ex_maxlen :: nat
  ex_history :: "market_tick list"

text \<open>\<open>__init__\<close>: a negative maximal length of the deque raises ValueError.\<close>

definition mk_executor :: "processor \<Rightarrow> validator \<Rightarrow> strategy_config \<Rightarrow> execution_context \<Rightarrow> exn + executor" where
  "mk_executor p va cfg ctx =
     (if get_required_history_length p < 0 then Inl (value_error ''maxlen must be non-negative'')
      else Inr \<lparr>ex_processor = p, ex_validator = va, ex_config = cfg, ex_context = ctx,
                ex_maxlen = nat (get_required_history_length p), ex_history = []\<rparr>)"

definition can_process_tick :: "executor \<Rightarrow> market_tick \<Rightarrow> bool" where
  "can_process_tick ex tick =
     (mt_instrument_token tick \<in> set (sc_instrument_tokens (ex_config ex)) \<and>
      supports_instrument (ex_processor ex) (mt_instrument_token tick) \<and> sc_enabled (ex_config ex))"

definition checked :: "validator \<Rightarrow> market_tick \<Rightarrow> exn + signal_result option \<Rightarrow> exn + signal_result option" where
  "checked va tick r =
     (case r of
        Inl e \<Rightarrow> Inl e
      | Inr None \<Rightarrow> Inr None
      | Inr (Some s) \<Rightarrow> Inr (if validate_signal va s tick then Some s else None))"

definition executor_process_tick ::
  "num_env \<Rightarrow> rat \<Rightarrow> executor \<Rightarrow> market_tick \<Rightarrow> (exn + signal_result option) \<times> executor" where
  "executor_process_tick E now ex tick =
     (if \<not> can_process_tick ex tick then (Inr None, ex)
      else let history = push (ex_maxlen ex) tick (ex_history ex);
               (r, p') = processor_process_tick E now (ex_processor ex) tick history
           in (checked (ex_validator ex) tick r, ex\<lparr>ex_history := history, ex_processor := p'\<rparr>))"

subsection \<open>The factories\<close>

definition create_standard_validator :: "(string \<times> json) list \<Rightarrow> exn + validator" where
  "create_standard_validator config =
     ebind (cfg_num config ''max_confidence'' 100) (\<lambda>c.
     ebind (cfg_int config ''min_quantity'' 1) (\<lambda>q. Inr \<lparr>va_max_confidence = c, va_min_quantity = q\<rparr>))"

text \<open>\<open>create_executor\<close>: the cache of models changes even when a later step raises.\<close>

definition create_executor ::
  "loader_env \<Rightarrow> strategy_config \<Rightarrow> execution_context \<Rightarrow> model_cache \<Rightarrow> (exn + executor) \<times> model_cache" where
  "create_executor L cfg ctx cache =
     (case map_of processors (sc_strategy_type cfg) of
        None \<Rightarrow> (Inl (key_error (sc_strategy_type cfg)), cache)
      | Some factory \<Rightarrow>
          (case factory (sc_parameters cfg) of
             Inl e \<Rightarrow> (Inl e, cache)
           | Inr p0 \<Rightarrow>
               (let (p, cache') = (if has_load_model p0 then processor_load_model L p0 cache else (p0, cache)) in
                (case jget (sc_parameters cfg) ''validator'' of
                   Some v \<Rightarrow> (if v \<noteq> JStr ''standard'' then Inl (key_error (py_str v))
                              else ebind (create_standard_validator (sc_parameters cfg)) (\<lambda>va. mk_executor p va cfg ctx))
                 | None \<Rightarrow> ebind (create_standard_validator (sc_parameters cfg)) (\<lambda>va. mk_executor p va cfg ctx),
                 cache'))))"

text \<open>\<open>Decimal(str(parameters.get(k, v)))\<close>.\<close>

definition cfg_decimal :: "(string \<times> json) list \<Rightarrow> string \<Rightarrow> rat \<Rightarrow> exn + rat" where
  "cfg_decimal d k v =
     (case jget d k of
        None \<Rightarrow> Inr v
      | Some j \<Rightarrow> (case dec_of_json j of Some r \<Rightarrow> Inr r | None \<Rightarrow> Inl (raise_exn (Other ''InvalidOperation'') k)))"

text \<open>\<open>StrategyFactory.create_strategy\<close> of the runner.\<close>

definition create_strategy ::
  "loader_env \<Rightarrow> string \<Rightarrow> string \<Rightarrow> (string \<times> json) list \<Rightarrow> string list \<Rightarrow> int list \<Rightarrow> model_cache \<Rightarrow> (exn + executor) \<times> model_cache" where
  "create_strategy L strategy_id strategy_type parameters brokers instrument_tokens cache =
     (if strategy_type \<notin> set (map fst processors)
      then (Inl (value_error (''Unknown strategy type: '' @ strategy_type)), cache)
      else case ebind (cfg_decimal parameters ''max_position_size'' 10000) (\<lambda>ps.
                ebind (cfg_decimal parameters ''risk_multiplier'' 1) (\<lambda>rm. Inr (ps, rm))) of
          Inl e \<Rightarrow> (Inl e, cache)
        | Inr (ps, rm) \<Rightarrow>
            create_executor L
              \<lparr>sc_strategy_id = strategy_id, sc_strategy_type = strategy_type, sc_parameters = parameters,
               sc_active_brokers = (if brokers = [] then [''paper''] else brokers), sc_instrument_tokens = instrument_tokens,
               sc_max_position_size = ps, sc_risk_multiplier = rm, sc_enabled = True\<rparr>
              \<lparr>xc_broker = (case brokers of [] \<Rightarrow> ''paper'' | b # _ \<Rightarrow> b), xc_portfolio_state = [],
               xc_market_session = ''regular'', xc_risk_limits = [(''max_position'', ps)]\<rparr> cache)"

subsection \<open>Runs of an executor\<close>

fun run_executor :: "num_env \<Rightarrow> executor \<Rightarrow> (rat \<times> market_tick) list \<Rightarrow> executor" where
  "run_executor E ex [] = ex"
| "run_executor E ex ((now, t) # ts) = run_executor E (snd (executor_process_tick E now ex t)) ts"

lemma executor_step_fields:
  assumes "executor_process_tick E now ex t = (r, ex')"
  shows "ex_config ex' = ex_config ex" "ex_maxlen ex' = ex_maxlen ex" "ex_validator ex' = ex_validator ex"
    "ex_history ex' = (if can_process_tick ex t then push (ex_maxlen ex) t (ex_history ex) else ex_history ex)"
  using assms by (auto simp: executor_process_tick_def Let_def split: prod.splits if_splits)

lemma can_process_config: "ex_config ex' = ex_config ex \<Longrightarrow> can_process_tick ex' = can_process_tick ex"
  by (simp add: fun_eq_iff can_process_tick_def supports_instrument_def)

text \<open>The history is the last accepted ticks, of all instruments together.\<close>

lemma run_executor_history:
  assumes "ex_history ex = last_n (ex_maxlen ex) xs"
  shows "ex_history (run_executor E ex ts) = last_n (ex_maxlen ex) (xs @ filter (can_process_tick ex) (map snd ts)) \<and>
     ex_config (run_executor E ex ts) = ex_config ex \<and> ex_maxlen (run_executor E ex ts) = ex_maxlen ex \<and>
     ex_validator (run_executor E ex ts) = ex_validator ex"
  using assms
proof (induction ts arbitrary: ex xs)
  case (Cons a ts)
  obtain now t where a: "a = (now, t)" by fastforce
  obtain r ex' where r: "executor_process_tick E now ex t = (r, ex')" by fastforce
  note f = executor_step_fields [OF r]
  have "ex_history ex' = last_n (ex_maxlen ex') (xs @ (if can_process_tick ex t then [t] else []))"
    using Cons.prems f by (simp add: push_last_n)
  from Cons.IH [OF this] show ?case using a r f can_process_config [OF f(1)] by simp
qed simp

text \<open>Only the demo strategy changes with the ticks.\<close>

fun stateless :: "processor \<Rightarrow> bool" where
  "stateless (LowFrequency p) = False"
| "stateless p = True"

lemma stateless_step: "stateless p \<Longrightarrow> snd (processor_process_tick E now p t h) = p"
  by (cases p) auto

lemma stateless_now: "stateless p \<Longrightarrow> fst (processor_process_tick E now p t h) = fst (processor_process_tick E 0 p t h)"
  by (cases p) auto

lemma run_executor_stateless: "stateless (ex_processor ex) \<Longrightarrow> ex_processor (run_executor E ex ts) = ex_processor ex"
proof (induction ts arbitrary: ex)
  case (Cons a ts)
  obtain now t where a: "a = (now, t)" by fastforce
  have "ex_processor (snd (executor_process_tick E now ex t)) = ex_processor ex"
    using stateless_step [OF Cons.prems] by (auto simp: executor_process_tick_def Let_def split: prod.splits) (metis snd_conv)
  with Cons.IH Cons.prems a show ?case by simp
qed simp

text \<open>The specification of an executor: a function of the whole sequence of ticks.\<close>

definition executor_spec :: "num_env \<Rightarrow> executor \<Rightarrow> market_tick list \<Rightarrow> market_tick \<Rightarrow> exn + signal_result option" where
  "executor_spec E ex ts t =
     (if can_process_tick ex t
      then checked (ex_validator ex) t
             (fst (processor_process_tick E 0 (ex_processor ex) t (last_n (ex_maxlen ex) (filter (can_process_tick ex) (ts @ [t])))))
      else Inr None)"

text \<open>C12: An executor is a function of its last ticks. For every strategy but the demo one, what an
  executor returns for a tick is what its strategy says about the last accepted ticks, as many
  as it requires, the current one included; ticks it does not support change nothing.\<close>

theorem executor_refines_spec:
  assumes "stateless (ex_processor ex)" "ex_history ex = []"
  shows "fst (executor_process_tick E now (run_executor E ex ts) t) = executor_spec E ex (map snd ts) t"
proof -
  let ?ex = "run_executor E ex ts"
  have h: "ex_history ?ex = last_n (ex_maxlen ex) (filter (can_process_tick ex) (map snd ts))"
    and c: "ex_config ?ex = ex_config ex" "ex_maxlen ?ex = ex_maxlen ex" "ex_validator ?ex = ex_validator ex"
    using run_executor_history [of ex "[]" E ts] assms(2) by (auto simp: last_n_def)
  have p: "ex_processor ?ex = ex_processor ex" using assms(1) by (rule run_executor_stateless)
  have "fst (processor_process_tick E now (ex_processor ex) t x) = fst (processor_process_tick E 0 (ex_processor ex) t x)" for x
    using assms(1) by (rule stateless_now)
  then show ?thesis
    using can_process_config [OF c(1)] h c p
    by (simp add: executor_process_tick_def executor_spec_def push_last_n Let_def split: prod.split)
       (metis fst_conv)
qed

definition demo_num :: num_env where
  "demo_num = \<lparr>ne_numpy = None, ne_sqrt = (\<lambda>x. x)\<rparr>"

definition demo_config :: "string \<Rightarrow> (string \<times> json) list \<Rightarrow> int list \<Rightarrow> strategy_config" where
  "demo_config ty ps toks = \<lparr>sc_strategy_id = ''s1'', sc_strategy_type = ty, sc_parameters = ps, sc_active_brokers = [''paper''],
     sc_instrument_tokens = toks, sc_max_position_size = 10000, sc_risk_multiplier = 1, sc_enabled = True\<rparr>"

definition demo_context :: execution_context where
  "demo_context = \<lparr>xc_broker = ''paper'', xc_portfolio_state = [], xc_market_session = ''regular'', xc_risk_limits = []\<rparr>"

definition demo_executor :: "processor \<Rightarrow> int list \<Rightarrow> executor" where
  "demo_executor p toks = \<lparr>ex_processor = p, ex_validator = \<lparr>va_max_confidence = 100, va_min_quantity = 1\<rparr>,
     ex_config = demo_config ''momentum'' [] toks, ex_context = demo_context,
     ex_maxlen = nat (get_required_history_length p), ex_history = []\<rparr>"

theorem executor_refines_spec_witness:
  "fst (executor_process_tick demo_num 9 (run_executor demo_num
        (demo_executor (Momentum \<lparr>mo_lookback = 2, mo_threshold = 1/100, mo_qty = 10\<rparr>) [1]) [(7, demo_tick 1 100), (8, demo_tick 2 50)])
      (demo_tick 1 110)) =
   Inr (Some (mk_signal ''BUY'' (min 1 (\<bar>(110 - 100) / 100\<bar> * 5)) 10 110))"
proof -
  let ?ex = "demo_executor (Momentum \<lparr>mo_lookback = 2, mo_threshold = 1/100, mo_qty = 10\<rparr>) [1]"
  have "executor_spec demo_num ?ex (map snd [(7::rat, demo_tick 1 100), (8, demo_tick 2 50)]) (demo_tick 1 110) =
      Inr (Some (mk_signal ''BUY'' (min 1 (\<bar>(110 - 100) / 100\<bar> * 5)) 10 110))"
    by (simp add: executor_spec_def demo_executor_def demo_config_def can_process_tick_def supports_instrument_def last_n_def
        momentum_process_tick_def py_index_def checked_def mk_signal_def validate_signal_def)
  with executor_refines_spec [of ?ex demo_num 9 "[(7, demo_tick 1 100), (8, demo_tick 2 50)]" "demo_tick 1 110"]
  show ?thesis by (simp add: demo_executor_def)
qed

subsection \<open>Instruments share one history\<close>

lemma last_two_accepted:
  assumes "stateless (ex_processor ex)" "ex_history ex = []" "ex_maxlen ex = 2"
    and "can_process_tick ex u" "can_process_tick ex t" "map snd ts = xs @ [u]"
  shows "fst (executor_process_tick E now (run_executor E ex ts) t) =
     checked (ex_validator ex) t (fst (processor_process_tick E 0 (ex_processor ex) t [u, t]))"
proof -
  have "last_n 2 (filter (can_process_tick ex) (map snd ts @ [t])) = [u, t]"
    using assms by (simp add: last_n_def)
  then show ?thesis using executor_refines_spec [OF assms(1,2)] assms by (simp add: executor_spec_def)
qed

lemma momentum_of_two:
  assumes "0 \<le> th" "0 < mt_last_price u"
  shows "(1 + th) * mt_last_price u < mt_last_price t \<Longrightarrow> \<exists>c. 0 \<le> c \<and> c \<le> 1 \<and>
      momentum_process_tick \<lparr>mo_lookback = 2, mo_threshold = th, mo_qty = q\<rparr> t [u, t] = Some (mk_signal ''BUY'' c q (mt_last_price t))"
    and "mt_last_price t < (1 - th) * mt_last_price u \<Longrightarrow> \<exists>c. 0 \<le> c \<and> c \<le> 1 \<and>
      momentum_process_tick \<lparr>mo_lookback = 2, mo_threshold = th, mo_qty = q\<rparr> t [u, t] = Some (mk_signal ''SELL'' c q (mt_last_price t))"
proof -
  define m where "m = (mt_last_price t - mt_last_price u) / mt_last_price u"
  have eq: "momentum_process_tick \<lparr>mo_lookback = 2, mo_threshold = th, mo_qty = q\<rparr> t [u, t] =
     (if m > th then Some (mk_signal ''BUY'' (min 1 (\<bar>m\<bar> * 5)) q (mt_last_price t))
      else if m < - th then Some (mk_signal ''SELL'' (min 1 (\<bar>m\<bar> * 5)) q (mt_last_price t)) else None)"
    using assms by (simp add: momentum_process_tick_def py_index_def m_def Let_def)
  have c: "0 \<le> min 1 (\<bar>m\<bar> * 5)" "min 1 (\<bar>m\<bar> * 5) \<le> 1" by simp_all
  show "\<exists>c. 0 \<le> c \<and> c \<le> 1 \<and>
      momentum_process_tick \<lparr>mo_lookback = 2, mo_threshold = th, mo_qty = q\<rparr> t [u, t] = Some (mk_signal ''BUY'' c q (mt_last_price t))"
    if "(1 + th) * mt_last_price u < mt_last_price t"
  proof -
    have "th < m" using that assms by (simp add: m_def field_simps)
    then show ?thesis using eq c by (intro exI [of _ "min 1 (\<bar>m\<bar> * 5)"]) simp
  qed
  show "\<exists>c. 0 \<le> c \<and> c \<le> 1 \<and>
      momentum_process_tick \<lparr>mo_lookback = 2, mo_threshold = th, mo_qty = q\<rparr> t [u, t] = Some (mk_signal ''SELL'' c q (mt_last_price t))"
    if "mt_last_price t < (1 - th) * mt_last_price u"
  proof -
    have "m < - th" using that assms by (simp add: m_def field_simps)
    moreover then have "\<not> th < m" using assms by simp
    ultimately show ?thesis using eq c by (intro exI [of _ "min 1 (\<bar>m\<bar> * 5)"]) simp
  qed
qed

text \<open>A momentum signal without any price move. An executor that serves two instruments keeps one
  history for both. When their ticks alternate at constant prices, one above the other by more
  than the threshold, every tick of the dearer instrument gives a BUY signal and every tick of
  the cheaper one after it a SELL signal, although no price ever changes.\<close>

theorem momentum_across_instruments:
  assumes p: "ex_processor ex = Momentum \<lparr>mo_lookback = 2, mo_threshold = th, mo_qty = q\<rparr>" "0 \<le> th" "ex_maxlen ex = 2" "ex_history ex = []"
    and va: "1 \<le> va_max_confidence (ex_validator ex)" "va_min_quantity (ex_validator ex) \<le> q"
    and acc: "can_process_tick ex a" "can_process_tick ex b"
    and prices: "0 < mt_last_price a" "(1 + th) * mt_last_price a < mt_last_price b" "mt_last_price a < (1 - th) * mt_last_price b"
    and ts: "map snd ts = concat (replicate (Suc n) [a, b])"
  shows "(\<exists>c. fst (executor_process_tick E now (run_executor E ex (ts @ [(tm, a)])) b) = Inr (Some (mk_signal ''BUY'' c q (mt_last_price b)))) \<and>
     (\<exists>c. fst (executor_process_tick E now (run_executor E ex ts) a) = Inr (Some (mk_signal ''SELL'' c q (mt_last_price a))))"
proof
  have st: "stateless (ex_processor ex)" using p by simp
  have "mt_last_price a \<le> (1 + th) * mt_last_price a" using prices(1) p(2) by simp
  then have pb: "0 < mt_last_price b" using prices by linarith
  have valid: "validate_signal (ex_validator ex) (mk_signal side c q (mt_last_price t)) t"
    if "0 \<le> c" "c \<le> 1" "side \<in> {''BUY'', ''SELL''}" "0 < mt_last_price t" for side c and t :: market_tick
    using that va by (intro mk_signal_valid) auto
  have "map snd (ts @ [(tm, a)]) = map snd ts @ [a]" by simp
  from last_two_accepted [OF st p(4,3) acc this, of E now] p(1) momentum_of_two(1) [OF p(2) prices(1,2), of q] valid pb
  show "\<exists>c. fst (executor_process_tick E now (run_executor E ex (ts @ [(tm, a)])) b) = Inr (Some (mk_signal ''BUY'' c q (mt_last_price b)))"
    by (auto simp: checked_def)
  have "map snd ts = (concat (replicate n [a, b]) @ [a]) @ [b]" using ts
    by (simp flip: replicate_append_same)
  from last_two_accepted [OF st p(4,3) acc(2,1) this, of E now] p(1) momentum_of_two(2) [OF p(2) pb prices(3), of q] valid prices(1)
  show "\<exists>c. fst (executor_process_tick E now (run_executor E ex ts) a) = Inr (Some (mk_signal ''SELL'' c q (mt_last_price a)))"
    by (auto simp: checked_def)
qed

theorem momentum_across_instruments_witness:
  "\<exists>c. fst (executor_process_tick demo_num 0 (run_executor demo_num
      (demo_executor (Momentum \<lparr>mo_lookback = 2, mo_threshold = 1/100, mo_qty = 10\<rparr>) [1, 2]) [(0, demo_tick 1 100), (0, demo_tick 2 200), (0, demo_tick 1 100)])
      (demo_tick 2 200)) = Inr (Some (mk_signal ''BUY'' c 10 200))"
  using momentum_across_instruments [where ex = "demo_executor (Momentum \<lparr>mo_lookback = 2, mo_threshold = 1/100, mo_qty = 10\<rparr>) [1, 2]"
      and th = "1/100" and q = 10 and a = "demo_tick 1 100" and b = "demo_tick 2 200" and n = 0 and tm = 0 and E = demo_num and now = 0
      and ts = "[(0, demo_tick 1 100), (0, demo_tick 2 200)]"]
  by (simp add: demo_executor_def demo_config_def can_process_tick_def supports_instrument_def)

subsection \<open>Hybrid strategies run without their model\<close>

definition signal_of :: "exn + signal_result option \<Rightarrow> signal_result option" where
  "signal_of r = (case r of Inl _ \<Rightarrow> None | Inr s \<Rightarrow> s)"

fun rules_only :: "processor \<Rightarrow> processor" where
  "rules_only (HybridMomentum pol r m) = Momentum r"
| "rules_only (HybridMeanReversion pol r m) = MeanReversion r"
| "rules_only p = p"

fun hybrid_without_model :: "policy \<Rightarrow> processor \<Rightarrow> bool" where
  "hybrid_without_model pol (HybridMomentum pol' r m) = (pol' = pol \<and> ml_model m = None)"
| "hybrid_without_model pol (HybridMeanReversion pol' r m) = (pol' = pol \<and> ml_model m = None)"
| "hybrid_without_model pol _ = False"

lemma ebind_Inr: "ebind x f = Inr y \<longleftrightarrow> (\<exists>a. x = Inr a \<and> f a = Inr y)"
  by (cases x) (auto simp: ebind_def)

lemma hybrid_ml_unloaded: "hybrid_ml mc = Inr m \<Longrightarrow> ml_model m = None"
  by (auto simp: hybrid_ml_def with_kwargs_def create_ml_processor_def ebind_Inr split: if_splits)

lemma create_policy_type:
  "create_policy c = Inr pol \<Longrightarrow> pol = ConservativePolicy \<longleftrightarrow> jget c ''policy_type'' = Some (JStr ''conservative'')"
  by (auto simp: create_policy_def ebind_Inr split: if_splits)

lemma mk_executor_processor: "mk_executor p va cfg ctx = Inr ex \<Longrightarrow> ex_processor ex = p \<and> ex_history ex = []"
  by (auto simp: mk_executor_def split: if_splits)

lemma create_hybrid:
  assumes create: "create_executor L cfg ctx cache = (Inr ex, cache')"
    and ty: "sc_strategy_type cfg \<in> {''hybrid_momentum'', ''hybrid_mean_reversion''}"
  obtains pol where "hybrid_without_model pol (ex_processor ex)" "ex_history ex = []"
    "pol = ConservativePolicy \<longleftrightarrow> jget (sc_parameters cfg) ''policy_type'' = Some (JStr ''conservative'')"
proof -
  define f where "f = (if sc_strategy_type cfg = ''hybrid_momentum'' then create_hybrid_momentum_processor else create_hybrid_mean_reversion_processor)"
  have f: "map_of processors (sc_strategy_type cfg) = Some f" using ty by (auto simp: processors_def f_def)
  obtain p where p: "f (sc_parameters cfg) = Inr p" using create f by (cases "f (sc_parameters cfg)") (auto simp: create_executor_def)
  then obtain pol where h: "hybrid_without_model pol p" and pol: "create_policy (sc_parameters cfg) = Inr pol"
    by (auto simp: f_def create_hybrid_momentum_processor_def create_hybrid_mean_reversion_processor_def ebind_Inr
        dest!: hybrid_ml_unloaded split: if_splits)
  have "\<not> has_load_model p" using h by (cases p) auto
  then have "ex_processor ex = p \<and> ex_history ex = []" using create f p
    by (auto simp: create_executor_def ebind_Inr split: option.splits if_splits dest: mk_executor_processor)
  with h create_policy_type [OF pol] show thesis by (intro that [of pol]) auto
qed

lemma ml_predict_unloaded: "ml_model m = None \<Longrightarrow> ml_predict i f m fs = None"
  by (simp add: ml_predict_def)

lemma ml_unloaded_momentum: "ml_model m = None \<Longrightarrow> signal_of (ml_momentum_process_tick E m t h) = None"
  by (simp add: ml_momentum_process_tick_def ml_momentum_predict_def signal_of_def ml_predict_unloaded split: option.splits)

lemma ml_unloaded_mean_rev: "ml_model m = None \<Longrightarrow> ml_mean_rev_process_tick E m t h = Inr None"
  by (simp add: ml_mean_rev_process_tick_def ml_mean_rev_predict_def ml_predict_unloaded)

lemma momentum_no_metadata: "momentum_process_tick p t h = Some s \<Longrightarrow> sr_metadata s = None"
  using momentum_signal_form [of p t h s] by (auto simp: mk_signal_def)

lemma mean_rev_no_metadata: "mean_rev_process_tick f p t h = Inr (Some s) \<Longrightarrow> sr_metadata s = None"
  by (auto simp: mean_rev_process_tick_def mk_signal_def Let_def split: if_splits option.splits)

lemma decide_rules_alone:
  assumes "\<And>s. r = Some s \<Longrightarrow> sr_metadata s = None"
  shows "decide pol r None = (if pol = ConservativePolicy then None else r)"
  using assms by (cases pol) (auto split: option.splits)

lemma hybrid_is_rules:
  assumes "hybrid_without_model pol p"
  shows "fst (processor_process_tick E now p t h) =
     Inr (if pol = ConservativePolicy then None else signal_of (fst (processor_process_tick E now (rules_only p) t h)))"
proof (cases p)
  case (HybridMomentum pol' r m)
  then have m: "signal_of (ml_momentum_process_tick E m t h) = None" using assms by (simp add: ml_unloaded_momentum)
  have "hybrid_momentum_process_tick E pol r m t h = decide pol (momentum_process_tick r t h) None"
    using m by (simp add: hybrid_momentum_process_tick_def combine_def signal_of_def split: sum.splits)
  with HybridMomentum assms show ?thesis
    by (simp add: decide_rules_alone [OF momentum_no_metadata] signal_of_def)
next
  case (HybridMeanReversion pol' r m)
  show ?thesis
  proof (cases "mean_rev_process_tick (ne_sqrt E) r t h")
    case (Inr x)
    then have "decide pol x None = (if pol = ConservativePolicy then None else x)"
      using mean_rev_no_metadata [of "ne_sqrt E" r t h] by (intro decide_rules_alone) auto
    with HybridMeanReversion assms Inr show ?thesis
      by (simp add: hybrid_mean_rev_process_tick_def combine_def ml_unloaded_mean_rev signal_of_def del: decide.simps)
  qed (use HybridMeanReversion assms in \<open>simp add: hybrid_mean_rev_process_tick_def combine_def signal_of_def\<close>)
qed (use assms in auto)

lemma signal_of_checked: "signal_of (checked va t r) = (case signal_of r of None \<Rightarrow> None | Some s \<Rightarrow> if validate_signal va s t then Some s else None)"
  by (auto simp: checked_def signal_of_def split: sum.splits option.splits)

text \<open>The model of a hybrid strategy is never used. The factory loads a model only into processors that
  have a \<open>load_model\<close> method, which the hybrid classes do not. So whatever the ticks, a hybrid
  executor with the default policy gives exactly the signals of its rules, and one with the
  conservative policy never gives any.\<close>

theorem hybrid_model_never_loaded:
  assumes create: "create_executor L cfg ctx cache = (Inr ex, cache')"
    and ty: "sc_strategy_type cfg \<in> {''hybrid_momentum'', ''hybrid_mean_reversion''}"
  shows "signal_of (fst (executor_process_tick E now (run_executor E ex ts) t)) =
     (if jget (sc_parameters cfg) ''policy_type'' = Some (JStr ''conservative'') then None
      else signal_of (fst (executor_process_tick E now (run_executor E (ex\<lparr>ex_processor := rules_only (ex_processor ex)\<rparr>) ts) t)))"
proof -
  from create_hybrid [OF create ty] obtain pol where h: "hybrid_without_model pol (ex_processor ex)" "ex_history ex = []"
    and pol: "pol = ConservativePolicy \<longleftrightarrow> jget (sc_parameters cfg) ''policy_type'' = Some (JStr ''conservative'')" by blast
  let ?ex = "ex\<lparr>ex_processor := rules_only (ex_processor ex)\<rparr>"
  have st: "stateless (ex_processor ex)" "stateless (ex_processor ?ex)" using h(1) by (cases "ex_processor ex"; simp)+
  have c: "can_process_tick ?ex = can_process_tick ex" by (rule can_process_config) simp
  have a: "fst (executor_process_tick E now (run_executor E ex ts) t) = executor_spec E ex (map snd ts) t"
    by (rule executor_refines_spec [OF st(1) h(2)])
  have b: "fst (executor_process_tick E now (run_executor E ?ex ts) t) = executor_spec E ?ex (map snd ts) t"
    using h(2) by (intro executor_refines_spec [OF st(2)]) simp
  show ?thesis unfolding a b executor_spec_def c hybrid_is_rules [OF h(1)]
    by (simp add: signal_of_checked pol) (simp add: signal_of_def)
qed

theorem hybrid_model_never_loaded_witness:
  "\<exists>ex cache'. create_executor \<lparr>ld_has_joblib = True, ld_strategies_dir = ''/app/strategies'', ld_load = (\<lambda>_. Some demo_model)\<rparr>
      (demo_config ''hybrid_momentum'' [(''policy_type'', JStr ''conservative'')] [1]) demo_context Map.empty = (Inr ex, cache') \<and>
     signal_of (fst (executor_process_tick demo_num 0 (run_executor demo_num ex [(0, demo_tick 1 100)]) (demo_tick 1 200))) = None"
proof -
  let ?L = "\<lparr>ld_has_joblib = True, ld_strategies_dir = ''/app/strategies'', ld_load = (\<lambda>_. Some demo_model)\<rparr>"
  let ?c = "demo_config ''hybrid_momentum'' [(''policy_type'', JStr ''conservative'')] [1]"
  obtain ex where ex: "create_executor ?L ?c demo_context Map.empty = (Inr ex, Map.empty)"
    by (simp add: create_executor_def demo_config_def processors_def create_hybrid_momentum_processor_def ebind_def cfg_obj_def jget_def
        with_kwargs_def create_momentum_processor_def cfg_int_def cfg_num_def cfg_str_def hybrid_ml_def create_ml_processor_def
        create_policy_def create_standard_validator_def mk_executor_def)
  from hybrid_model_never_loaded [OF ex, of demo_num 0 "[(0, demo_tick 1 100)]" "demo_tick 1 200"] ex
  show ?thesis by (auto simp: demo_config_def jget_def)
qed

end
