(* ===== verification/Strategy_Runner.thy ===== *)
theory Strategy_Runner
  imports Strategy_Executor Topics
begin

text \<open>
  The strategy runner (services/strategy_runner/service.py): loading of the configured strategies, the
  index from instruments to strategies, the handler of market ticks and the emission of signals.
  Parameters: the MarketTick constructor, the producer, the clock, the market hours check, the
  numeric and model environment of the strategies. Logging, tracing and metrics are left out;
  sends gathered concurrently are made in the order of the brokers.
\<close>

subsection \<open>State\<close>

record runner_event =
  ne_topic :: string
  ne_key :: string
  ne_signal :: trading_signal
  ne_type :: event_type
  ne_broker :: string

record runner =
  rn_active_brokers :: "string list"
  rn_executors :: "(string \<times> executor) list"
  rn_instruments :: "(string \<times> int list) list"
  rn_index :: "int \<Rightarrow> string list"
  rn_signals_generated :: nat
  rn_strategies_processed :: nat
  rn_last_signal_time :: "rat option"
  rn_ml_strategies_loaded :: nat
  rn_ml_inference_count :: nat
  rn_ml_inference_errors :: nat
  rn_cache :: model_cache
  rn_sent :: "runner_event list"

definition runner_init :: "string list \<Rightarrow> runner" where
  "runner_init active_brokers =
     \<lparr>rn_active_brokers = active_brokers, rn_executors = [], rn_instruments = [], rn_index = (\<lambda>_. []),
      rn_signals_generated = 0, rn_strategies_processed = 0, rn_last_signal_time = None, rn_ml_strategies_loaded = 0,
      rn_ml_inference_count = 0, rn_ml_inference_errors = 0, rn_cache = Map.empty, rn_sent = []\<rparr>"

record runner_env =
  rv_num :: num_env
  rv_loader :: loader_env
  rv_send :: "runner_event list \<Rightarrow> runner_event \<Rightarrow> exn option"
  rv_market_tick :: "(string \<times> json) list \<Rightarrow> exn + market_tick"
  rv_market_open :: bool
  rv_now :: rat

subsection \<open>Loading strategies\<close>

record strategy_row =
  row_id :: string
  row_strategy_type :: string
  row_parameters :: "(string \<times> json) list"
  row_instruments :: "int list"
  row_zerodha_trading_enabled :: bool

text \<open>The processors with \<open>load_model\<close> are also the ones with \<open>predict_signal\<close> and \<open>extract_features\<close>.\<close>

definition has_ml_capability :: "executor \<Rightarrow> bool" where
  "has_ml_capability ex = has_load_model (ex_processor ex)"

definition index_add :: "string \<Rightarrow> int list \<Rightarrow> (int \<Rightarrow> string list) \<Rightarrow> int \<Rightarrow> string list" where
  "index_add sid toks ix = fold (\<lambda>t ix. ix(t := ix t @ [sid])) toks ix"

definition register :: "strategy_row \<Rightarrow> executor \<Rightarrow> runner \<Rightarrow> runner" where
  "register row ex st =
     st\<lparr>rn_ml_strategies_loaded := rn_ml_strategies_loaded st + (if has_ml_capability ex then 1 else 0),
        rn_executors := dict_set (row_id row) ex (rn_executors st),
        rn_instruments := dict_set (row_id row) (row_instruments row) (rn_instruments st),
        rn_index := index_add (row_id row) (row_instruments row) (rn_index st)\<rparr>"

definition row_strategy :: "loader_env \<Rightarrow> strategy_row \<Rightarrow> model_cache \<Rightarrow> (exn + executor) \<times> model_cache" where
  "row_strategy L row =
     create_strategy L (row_id row) (row_strategy_type row) (row_parameters row)
       (if row_zerodha_trading_enabled row then [''zerodha''] else [''paper'']) (row_instruments row)"

text \<open>ValueError ends the loading unless it is about a model; other exceptions skip the row.\<close>

definition reraises :: "exn \<Rightarrow> bool" where
  "reraises e = (exn_class e = Other ''ValueError'' \<and> \<not> in_str ''Failed to load ML model'' (exn_msg e))"

fun load_strategies :: "runner_env \<Rightarrow> strategy_row list \<Rightarrow> runner \<Rightarrow> exn option \<times> runner" where
  "load_strategies V [] st = (None, st)"
| "load_strategies V (row # rows) st =
     (case row_strategy (rv_loader V) row (rn_cache st) of
        (Inl e, c) \<Rightarrow>
          if reraises e then (Some e, st\<lparr>rn_cache := c\<rparr>) else load_strategies V rows (st\<lparr>rn_cache := c\<rparr>)
      | (Inr ex, c) \<Rightarrow> load_strategies V rows (register row ex (st\<lparr>rn_cache := c\<rparr>)))"

subsection \<open>Emission\<close>

fun signal_type_map :: "string \<Rightarrow> signal_type option" where
  "signal_type_map s = (if s = ''BUY'' then Some BUY else if s = ''SELL'' then Some SELL else if s = ''HOLD'' then Some HOLD else None)"

text \<open>Confidence is brought to the range from zero to one; values above one are percentages.\<close>

definition normalize_confidence :: "rat \<Rightarrow> rat" where
  "normalize_confidence raw = max 0 (min 1 (if raw > 1 then raw / 100 else raw))"

definition mk_trading_signal :: "string \<Rightarrow> market_tick \<Rightarrow> signal_type \<Rightarrow> signal_result \<Rightarrow> trading_signal" where
  "mk_trading_signal sid tick ty s =
     \<lparr>ts_strategy_id = sid, ts_instrument_token = mt_instrument_token tick, ts_signal_type = ty,
      ts_quantity = sr_quantity s, ts_price = Some (sr_price s), ts_timestamp = mt_timestamp tick,
      ts_confidence = Some (normalize_confidence (sr_confidence s)),
      ts_metadata = Some (case sr_metadata s of None \<Rightarrow> [] | Some md \<Rightarrow> md)\<rparr>"

definition runner_signal_event :: "trading_signal \<Rightarrow> string \<Rightarrow> string \<Rightarrow> runner_event" where
  "runner_signal_event sig broker sid =
     \<lparr>ne_topic = signals_raw broker, ne_key = trading_signal_key sid (ts_instrument_token sig), ne_signal = sig,
      ne_type = TRADING_SIGNAL, ne_broker = broker\<rparr>"

definition runner_emit_signal :: "runner_env \<Rightarrow> trading_signal \<Rightarrow> string \<Rightarrow> string \<Rightarrow> runner \<Rightarrow> exn option \<times> runner" where
  "runner_emit_signal V sig broker sid st =
     (if broker \<notin> set (rn_active_brokers st) then (Some (value_error (''Invalid broker: '' @ broker)), st)
      else if \<not> validate_broker_topic_pair (signals_raw broker) broker
      then (Some (value_error (''Topic '' @ signals_raw broker @ '' does not match broker '' @ broker)), st)
      else let e = runner_signal_event sig broker sid in
        case rv_send V (rn_sent st) e of
          Some x \<Rightarrow> (Some x, st)
        | None \<Rightarrow> (None, st\<lparr>rn_sent := rn_sent st @ [e]\<rparr>))"

text \<open>\<open>asyncio.gather\<close>: every emission is made; the first exception is the result.\<close>

fun emit_gathered :: "runner_env \<Rightarrow> trading_signal \<Rightarrow> string \<Rightarrow> string list \<Rightarrow> runner \<Rightarrow> exn option \<times> runner" where
  "emit_gathered V sig sid [] st = (None, st)"
| "emit_gathered V sig sid (b # bs) st =
     (case runner_emit_signal V sig b sid st of
        (r, st1) \<Rightarrow> (case emit_gathered V sig sid bs st1 of
                      (r', st2) \<Rightarrow> (case r of Some e \<Rightarrow> Some e | None \<Rightarrow> r', st2)))"

subsection \<open>Market ticks\<close>

definition count_ml_error :: "executor \<Rightarrow> runner \<Rightarrow> runner" where
  "count_ml_error ex st = (if has_ml_capability ex then st\<lparr>rn_ml_inference_errors := rn_ml_inference_errors st + 1\<rparr> else st)"

definition emit_result :: "runner_env \<Rightarrow> market_tick \<Rightarrow> string \<Rightarrow> executor \<Rightarrow> signal_result \<Rightarrow> runner \<Rightarrow> runner" where
  "emit_result V tick sid ex s st =
     (case signal_type_map (sr_signal_type s) of
        None \<Rightarrow> st
      | Some ty \<Rightarrow>
          if ty = HOLD then st
          else let sig = mk_trading_signal sid tick ty s;
                   brokers = filter (\<lambda>b. b \<in> set (rn_active_brokers st)) (sc_active_brokers (ex_config ex)) in
            if brokers = [] then st
            else case emit_gathered V sig sid brokers st of
                (None, st') \<Rightarrow> st'\<lparr>rn_signals_generated := rn_signals_generated st' + length brokers,
                                   rn_last_signal_time := Some (rv_now V)\<rparr>
              | (Some e, st') \<Rightarrow> count_ml_error ex st')"

text \<open>One strategy: any exception is caught and the next strategy is tried.\<close>

definition process_strategy :: "runner_env \<Rightarrow> market_tick \<Rightarrow> string \<Rightarrow> runner \<Rightarrow> runner" where
  "process_strategy V tick sid st =
     (case map_of (rn_executors st) sid of
        None \<Rightarrow> st
      | Some ex \<Rightarrow>
          (let (r, ex') = executor_process_tick (rv_num V) (rv_now V) ex tick;
               st1 = st\<lparr>rn_executors := dict_set sid ex' (rn_executors st)\<rparr> in
           case r of
             Inl e \<Rightarrow> count_ml_error ex st1
           | Inr so \<Rightarrow>
               (let st2 = st1\<lparr>rn_strategies_processed := rn_strategies_processed st1 + 1,
                              rn_ml_inference_count := rn_ml_inference_count st1 + (if has_ml_capability ex then 1 else 0)\<rparr> in
                case so of None \<Rightarrow> st2 | Some s \<Rightarrow> emit_result V tick sid ex s st2)))"

definition runner_is_event_type :: "json \<Rightarrow> event_type \<Rightarrow> bool" where
  "runner_is_event_type t et = (case t of JStr s \<Rightarrow> s = event_type_value et \<or> str_lower s = event_type_value et | _ \<Rightarrow> False)"

text \<open>The instrument token as a dictionary key: numbers that are equal to an integer find its entry.\<close>

fun token_key :: "json \<Rightarrow> int option" where
  "token_key (JInt i) = Some i"
| "token_key (JBool b) = Some (of_bool b)"
| "token_key (JNum r) = (if of_int \<lfloor>r\<rfloor> = r then Some \<lfloor>r\<rfloor> else None)"
| "token_key _ = None"

definition runner_handle_market_tick ::
  "runner_env \<Rightarrow> json \<Rightarrow> (string \<times> json) list \<Rightarrow> runner \<Rightarrow> exn option \<times> runner" where
  "runner_handle_market_tick V msg_type tick_data st =
     (if \<not> runner_is_event_type msg_type MARKET_TICK then (None, st)
      else if \<not> rv_market_open V then (None, st)
      else let instrument_token = jget_none tick_data ''instrument_token'' in
        if \<not> py_truthy instrument_token then (None, st)
        else if (case instrument_token of JList _ \<Rightarrow> True | JObj _ \<Rightarrow> True | _ \<Rightarrow> False)
        then (Some (type_error ''unhashable type''), st)
        else case (case token_key instrument_token of None \<Rightarrow> [] | Some t \<Rightarrow> rn_index st t) of
            [] \<Rightarrow> (None, st)
          | sids \<Rightarrow>
              (case rv_market_tick V tick_data of
                 Inl e \<Rightarrow> (Some e, st)
               | Inr tick \<Rightarrow> (None, fold (process_strategy V tick) sids st)))"

subsection \<open>The index from instruments to strategies\<close>

lemma index_add_apply: "index_add sid toks ix t = ix t @ replicate (count_list toks t) sid"
proof (induction toks arbitrary: ix)
  case (Cons a toks)
  then show ?case
    by (auto simp: index_add_def)
qed (simp add: index_add_def)

lemma row_strategy_config:
  assumes "row_strategy L row c = (Inr ex, c')"
  shows "sc_instrument_tokens (ex_config ex) = row_instruments row \<and>
     sc_active_brokers (ex_config ex) = [if row_zerodha_trading_enabled row then ''zerodha'' else ''paper'']"
proof -
  have mk: "mk_executor p va cfg ctx = Inr ex \<Longrightarrow> ex_config ex = cfg" for p va cfg ctx
    by (auto simp: mk_executor_def split: if_splits)
  have ce: "create_executor L cfg ctx cc = (Inr ex, c') \<Longrightarrow> ex_config ex = cfg" for cfg ctx cc
    by (auto simp: create_executor_def ebind_Inr split: option.splits sum.splits if_splits prod.splits dest: mk)
  show ?thesis using assms
    by (auto simp: row_strategy_def create_strategy_def split: if_splits sum.splits prod.splits dest!: ce)
qed

lemma distinct_count: "distinct xs \<Longrightarrow> count_list xs x = (if x \<in> set xs then 1 else 0)"
  by (induction xs) auto

definition routed :: "runner \<Rightarrow> int \<Rightarrow> strategy_row \<Rightarrow> string list" where
  "routed st t row = (if map_of (rn_executors st) (row_id row) = None then [] else replicate (count_list (row_instruments row) t) (row_id row))"

definition rows_ok :: "runner \<Rightarrow> strategy_row list \<Rightarrow> bool" where
  "rows_ok st rows = (\<forall>row \<in> set rows. \<forall>ex. map_of (rn_executors st) (row_id row) = Some ex \<longrightarrow>
     sc_instrument_tokens (ex_config ex) = row_instruments row \<and>
     sc_active_brokers (ex_config ex) = [if row_zerodha_trading_enabled row then ''zerodha'' else ''paper''])"

lemma load_strategies_index:
  assumes "load_strategies V rows st = (None, st')" "distinct (map row_id rows)"
    "\<forall>row \<in> set rows. map_of (rn_executors st) (row_id row) = None"
  shows "(\<forall>t. rn_index st' t = rn_index st t @ concat (map (routed st' t) rows)) \<and> rows_ok st' rows \<and>
     (\<forall>k. k \<notin> row_id ` set rows \<longrightarrow> map_of (rn_executors st') k = map_of (rn_executors st) k)"
  using assms
proof (induction rows arbitrary: st)
  case (Cons row rows)
  obtain r c where r: "row_strategy (rv_loader V) row (rn_cache st) = (r, c)" by fastforce
  show ?case
  proof (cases r)
    case (Inl e)
    with r Cons.prems(1) have run: "load_strategies V rows (st\<lparr>rn_cache := c\<rparr>) = (None, st')" by (auto split: if_splits)
    have "map_of (rn_executors st') (row_id row) = None"
      using Cons.IH [OF run] Cons.prems(2,3) by auto
    then show ?thesis using Cons.IH [OF run] Cons.prems by (auto simp: routed_def rows_ok_def)
  next
    case (Inr ex)
    let ?st = "register row ex (st\<lparr>rn_cache := c\<rparr>)"
    have run: "load_strategies V rows ?st = (None, st')" using r Inr Cons.prems(1) by simp
    have ex: "map_of (rn_executors ?st) = (map_of (rn_executors st))(row_id row \<mapsto> ex)"
      and ix: "rn_index ?st t = rn_index st t @ replicate (count_list (row_instruments row) t) (row_id row)" for t
      by (simp_all add: register_def index_add_apply)
    have ne: "row_id row' \<noteq> row_id row" if "row' \<in> set rows" for row' using Cons.prems(2) that by (metis distinct.simps(2) image_eqI list.simps(9) set_map)
    have IH: "(\<forall>t. rn_index st' t = rn_index ?st t @ concat (map (routed st' t) rows)) \<and> rows_ok st' rows \<and>
       (\<forall>k. k \<notin> row_id ` set rows \<longrightarrow> map_of (rn_executors st') k = map_of (rn_executors ?st) k)"
      using Cons.prems(2,3) ne by (intro Cons.IH [OF run]) (auto simp: ex)
    then have h: "map_of (rn_executors st') (row_id row) = Some ex" using Cons.prems(2) ex by auto
    have "routed st' t row = replicate (count_list (row_instruments row) t) (row_id row)" for t by (simp add: routed_def h)
    moreover have "rows_ok st' (row # rows)"
      using IH h row_strategy_config [OF r [unfolded Inr]] by (auto simp: rows_ok_def)
    ultimately show ?thesis using IH ex ix by auto
  qed
qed (simp add: rows_ok_def)

text \<open>C11: The routing index is the scan it replaces. When loading ends without an exception, the
  strategies found for an instrument are those a scan of the configuration finds, in its order:
  the loaded ones whose instruments contain it; and each executor accepts exactly the
  instruments it is indexed under and is bound to the one broker its row selects.\<close>

theorem index_matches_scan:
  assumes load: "load_strategies V rows (runner_init brokers) = (None, st)"
    and ids: "distinct (map row_id rows)" and toks: "\<forall>row \<in> set rows. distinct (row_instruments row)"
  shows "rn_index st t = map row_id (filter (\<lambda>row. map_of (rn_executors st) (row_id row) \<noteq> None \<and> t \<in> set (row_instruments row)) rows) \<and>
     (\<forall>row \<in> set rows. \<forall>ex. map_of (rn_executors st) (row_id row) = Some ex \<longrightarrow>
        sc_instrument_tokens (ex_config ex) = row_instruments row \<and>
        sc_active_brokers (ex_config ex) = [if row_zerodha_trading_enabled row then ''zerodha'' else ''paper''])"
proof -
  have one: "routed st t row = (if map_of (rn_executors st) (row_id row) \<noteq> None \<and> t \<in> set (row_instruments row) then [row_id row] else [])"
    if "row \<in> set rows" for row
    using toks that by (auto simp: routed_def distinct_count)
  have "concat (map (routed st t) rows') =
      map row_id (filter (\<lambda>row. map_of (rn_executors st) (row_id row) \<noteq> None \<and> t \<in> set (row_instruments row)) rows')"
    if "set rows' \<subseteq> set rows" for rows'
    using that one by (induction rows') auto
  then have "concat (map (routed st t) rows) =
      map row_id (filter (\<lambda>row. map_of (rn_executors st) (row_id row) \<noteq> None \<and> t \<in> set (row_instruments row)) rows)" by blast
  with load_strategies_index [OF load ids] show ?thesis by (simp add: runner_init_def rows_ok_def)
qed

subsection \<open>What one tick does\<close>

lemma emit_signal_frame: "\<exists>x. snd (runner_emit_signal V sig b sid st) = st\<lparr>rn_sent := x\<rparr>"
proof
  show "snd (runner_emit_signal V sig b sid st) = st\<lparr>rn_sent := rn_sent (snd (runner_emit_signal V sig b sid st))\<rparr>"
    by (simp add: runner_emit_signal_def Let_def split: option.splits)
qed

lemma emit_gathered_frame: "\<exists>x. snd (emit_gathered V sig sid bs st) = st\<lparr>rn_sent := x\<rparr>"
proof (induction bs arbitrary: st)
  case Nil
  have "st = st\<lparr>rn_sent := rn_sent st\<rparr>" by simp
  then show ?case by (metis emit_gathered.simps(1) snd_conv)
next
  case (Cons b bs)
  obtain x where x: "snd (runner_emit_signal V sig b sid st) = st\<lparr>rn_sent := x\<rparr>" using emit_signal_frame by blast
  obtain y where "snd (emit_gathered V sig sid bs (st\<lparr>rn_sent := x\<rparr>)) = st\<lparr>rn_sent := x\<rparr>\<lparr>rn_sent := y\<rparr>" using Cons by blast
  with x show ?case by (auto split: prod.splits)
qed

lemma emit_result_frame:
  "rn_executors (emit_result V tick sid ex s st) = rn_executors st" "rn_index (emit_result V tick sid ex s st) = rn_index st"
  "rn_active_brokers (emit_result V tick sid ex s st) = rn_active_brokers st"
proof -
  obtain st' where st': "emit_result V tick sid ex s st = st' \<or> emit_result V tick sid ex s st = st"
    "rn_executors st' = rn_executors st" "rn_index st' = rn_index st" "rn_active_brokers st' = rn_active_brokers st"
  proof (cases "signal_type_map (sr_signal_type s)")
    case (Some ty)
    let ?bs = "filter (\<lambda>b. b \<in> set (rn_active_brokers st)) (sc_active_brokers (ex_config ex))"
    obtain r st1 where g: "emit_gathered V (mk_trading_signal sid tick ty s) sid ?bs st = (r, st1)" by fastforce
    then obtain x where "st1 = st\<lparr>rn_sent := x\<rparr>" using emit_gathered_frame [of V _ sid ?bs st] by (metis snd_conv)
    with g Some show ?thesis
      by (intro that [of "emit_result V tick sid ex s st"])
         (auto simp: emit_result_def Let_def count_ml_error_def split: option.splits)
  qed (auto simp: emit_result_def intro: that)
  then show "rn_executors (emit_result V tick sid ex s st) = rn_executors st" "rn_index (emit_result V tick sid ex s st) = rn_index st"
    "rn_active_brokers (emit_result V tick sid ex s st) = rn_active_brokers st" by auto
qed

definition step_executor :: "runner_env \<Rightarrow> market_tick \<Rightarrow> executor \<Rightarrow> executor" where
  "step_executor V tick ex = snd (executor_process_tick (rv_num V) (rv_now V) ex tick)"

lemma process_strategy_frame:
  "map_of (rn_executors (process_strategy V tick sid st)) =
     (case map_of (rn_executors st) sid of None \<Rightarrow> map_of (rn_executors st)
      | Some ex \<Rightarrow> (map_of (rn_executors st))(sid \<mapsto> step_executor V tick ex))"
  "rn_index (process_strategy V tick sid st) = rn_index st"
  "rn_active_brokers (process_strategy V tick sid st) = rn_active_brokers st"
  by (auto simp: process_strategy_def step_executor_def emit_result_frame count_ml_error_def Let_def
      split: option.splits prod.splits sum.splits)

lemma fold_strategies_frame:
  assumes "distinct sids"
  shows "map_of (rn_executors (fold (process_strategy V tick) sids st)) k =
     (if k \<in> set sids then map_option (step_executor V tick) (map_of (rn_executors st) k) else map_of (rn_executors st) k)"
  using assms
  by (induction sids arbitrary: st) (auto simp: process_strategy_frame split: option.splits)

text \<open>The events a strategy sends for a tick when every send works.\<close>

definition events_of :: "runner_env \<Rightarrow> market_tick \<Rightarrow> runner \<Rightarrow> string \<Rightarrow> runner_event list" where
  "events_of V tick st sid =
     (case map_of (rn_executors st) sid of
        None \<Rightarrow> []
      | Some ex \<Rightarrow>
          (case signal_of (fst (executor_process_tick (rv_num V) (rv_now V) ex tick)) of
             None \<Rightarrow> []
           | Some s \<Rightarrow>
               (case signal_type_map (sr_signal_type s) of
                  None \<Rightarrow> []
                | Some ty \<Rightarrow>
                    if ty = HOLD then []
                    else map (\<lambda>b. runner_signal_event (mk_trading_signal sid tick ty s) b sid)
                           (filter (\<lambda>b. b \<in> set (rn_active_brokers st)) (sc_active_brokers (ex_config ex))))))"

lemma emit_gathered_ok:
  assumes "\<forall>es e. rv_send V es e = None" "set bs \<subseteq> set (rn_active_brokers st)"
  shows "emit_gathered V sig sid bs st = (None, st\<lparr>rn_sent := rn_sent st @ map (\<lambda>b. runner_signal_event sig b sid) bs\<rparr>)"
  using assms(2)
proof (induction bs arbitrary: st)
  case (Cons b bs)
  have "runner_emit_signal V sig b sid st = (None, st\<lparr>rn_sent := rn_sent st @ [runner_signal_event sig b sid]\<rparr>)"
    using Cons.prems assms(1) raw.topic_validates by (simp add: runner_emit_signal_def Let_def)
  with Cons show ?case by simp
qed simp

lemma emit_gathered_down:
  assumes "\<forall>es e. rv_send V es e \<noteq> None" "bs \<noteq> []"
  shows "\<exists>e. emit_gathered V sig sid bs st = (Some e, st)"
proof -
  have one: "\<exists>e. runner_emit_signal V sig b sid st = (Some e, st)" for b st
  proof -
    obtain y where "rv_send V (rn_sent st) (runner_signal_event sig b sid) = Some y" using assms(1) by blast
    then show ?thesis by (auto simp: runner_emit_signal_def Let_def)
  qed
  have "snd (emit_gathered V sig sid bs st) = st" for bs
    using one [of _ st] by (induction bs) (auto split: prod.splits, metis snd_conv)
  moreover obtain b bs' where "bs = b # bs'" using assms(2) by (cases bs) auto
  ultimately show ?thesis using one [of b st] by (auto split: prod.splits) (metis prod.collapse snd_conv)
qed

lemma emit_result_sent:
  assumes "\<forall>es e. rv_send V es e = None"
  shows "rn_sent (emit_result V tick sid ex s st) = rn_sent st @ (case signal_type_map (sr_signal_type s) of None \<Rightarrow> []
      | Some ty \<Rightarrow> if ty = HOLD then [] else map (\<lambda>b. runner_signal_event (mk_trading_signal sid tick ty s) b sid)
            (filter (\<lambda>b. b \<in> set (rn_active_brokers st)) (sc_active_brokers (ex_config ex))))"
proof (cases "signal_type_map (sr_signal_type s)")
  case (Some ty)
  have "emit_gathered V sig sid (filter (\<lambda>b. b \<in> set (rn_active_brokers st)) bs) st =
      (None, st\<lparr>rn_sent := rn_sent st @ map (\<lambda>b. runner_signal_event sig b sid) (filter (\<lambda>b. b \<in> set (rn_active_brokers st)) bs)\<rparr>)" for sig bs
    by (rule emit_gathered_ok [OF assms]) auto
  with Some show ?thesis by (simp add: emit_result_def Let_def)
qed (simp add: emit_result_def)

lemma process_strategy_sent:
  assumes "\<forall>es e. rv_send V es e = None"
  shows "rn_sent (process_strategy V tick sid st) = rn_sent st @ events_of V tick st sid"
proof (cases "map_of (rn_executors st) sid")
  case (Some ex)
  obtain r ex' where r: "executor_process_tick (rv_num V) (rv_now V) ex tick = (r, ex')" by fastforce
  show ?thesis
  proof (cases r)
    case (Inr so)
    with Some r show ?thesis
      by (cases so) (simp_all add: process_strategy_def events_of_def signal_of_def emit_result_sent [OF assms])
  qed (use Some r in \<open>simp add: process_strategy_def events_of_def signal_of_def count_ml_error_def Let_def\<close>)
qed (simp add: process_strategy_def events_of_def)

lemma events_of_other: "sid' \<noteq> sid \<Longrightarrow> events_of V tick (process_strategy V tick sid st) sid' = events_of V tick st sid'"
  by (simp add: events_of_def process_strategy_frame split: option.splits)

lemma fold_strategies_sent:
  assumes "\<forall>es e. rv_send V es e = None" "distinct sids"
  shows "rn_sent (fold (process_strategy V tick) sids st) = rn_sent st @ concat (map (events_of V tick st) sids)"
  using assms(2)
proof (induction sids arbitrary: st)
  case (Cons sid sids)
  then have "concat (map (events_of V tick (process_strategy V tick sid st)) sids) = concat (map (events_of V tick st) sids)"
    by (intro arg_cong [where f = concat] map_cong refl events_of_other) auto
  with Cons show ?case by (simp add: process_strategy_sent [OF assms(1)] del: map_eq_conv)
qed simp

lemma process_strategy_down:
  assumes "\<forall>es e. rv_send V es e \<noteq> None"
  shows "rn_sent (process_strategy V tick sid st) = rn_sent st \<and>
     rn_signals_generated (process_strategy V tick sid st) = rn_signals_generated st"
proof -
  have "rn_sent (emit_result V tick sid ex s st) = rn_sent st \<and> rn_signals_generated (emit_result V tick sid ex s st) = rn_signals_generated st" for ex s st
  proof (cases "signal_type_map (sr_signal_type s)")
    case (Some ty)
    let ?bs = "filter (\<lambda>b. b \<in> set (rn_active_brokers st)) (sc_active_brokers (ex_config ex))"
    show ?thesis
    proof (cases "?bs = []")
      case False
      then obtain e where "emit_gathered V (mk_trading_signal sid tick ty s) sid ?bs st = (Some e, st)"
        using emit_gathered_down [OF assms] by blast
      with Some show ?thesis by (simp add: emit_result_def Let_def count_ml_error_def)
    qed (use Some in \<open>simp add: emit_result_def\<close>)
  qed (simp add: emit_result_def)
  then show ?thesis
    by (auto simp: process_strategy_def count_ml_error_def Let_def split: option.splits prod.splits sum.splits)
qed

definition accepts_tick :: "runner_env \<Rightarrow> json \<Rightarrow> (string \<times> json) list \<Rightarrow> int \<Rightarrow> market_tick \<Rightarrow> bool" where
  "accepts_tick V msg_type data tok tick =
     (runner_is_event_type msg_type MARKET_TICK \<and> rv_market_open V \<and> jget data ''instrument_token'' = Some (JInt tok) \<and> tok \<noteq> 0 \<and>
      rv_market_tick V data = Inr tick)"

lemma handle_accepted:
  assumes "accepts_tick V msg_type data tok tick"
  shows "runner_handle_market_tick V msg_type data st = (None, fold (process_strategy V tick) (rn_index st tok) st)"
proof (cases "rn_index st tok")
  case Nil
  then show ?thesis using assms by (simp add: accepts_tick_def runner_handle_market_tick_def jget_none_def Let_def)
next
  case (Cons a as)
  then show ?thesis using assms by (simp add: accepts_tick_def runner_handle_market_tick_def jget_none_def Let_def)
qed

text \<open>C10: Signals go where they should. While sends work, a tick of an open market makes the runner
  send exactly this, in this order: for each strategy of the instrument whose executor gives a
  BUY or SELL signal, that signal once on the raw signal topic of each of its brokers that is
  active, and nothing else.\<close>

theorem runner_emits_per_strategy:
  assumes "accepts_tick V msg_type data tok tick" and "\<forall>es e. rv_send V es e = None" and "distinct (rn_index st tok)"
  shows "\<exists>st'. runner_handle_market_tick V msg_type data st = (None, st') \<and>
     rn_sent st' = rn_sent st @ concat (map (events_of V tick st) (rn_index st tok)) \<and>
     (\<forall>sid e. e \<in> set (events_of V tick st sid) \<longrightarrow> ne_broker e \<in> set (rn_active_brokers st) \<and>
        ne_topic e = signals_raw (ne_broker e) \<and> ts_signal_type (ne_signal e) \<noteq> HOLD \<and>
        ts_instrument_token (ne_signal e) = mt_instrument_token tick \<and>
        (\<exists>c. ts_confidence (ne_signal e) = Some c \<and> 0 \<le> c \<and> c \<le> 1))"
proof -
  have "ne_broker e \<in> set (rn_active_brokers st) \<and> ne_topic e = signals_raw (ne_broker e) \<and> ts_signal_type (ne_signal e) \<noteq> HOLD \<and>
      ts_instrument_token (ne_signal e) = mt_instrument_token tick \<and> (\<exists>c. ts_confidence (ne_signal e) = Some c \<and> 0 \<le> c \<and> c \<le> 1)"
    if "e \<in> set (events_of V tick st sid)" for sid e
    using that
    by (auto simp: events_of_def runner_signal_event_def mk_trading_signal_def normalize_confidence_def
        split: option.splits if_splits)
  then show ?thesis
    using handle_accepted [OF assms(1)] fold_strategies_sent [OF assms(2,3)] by auto
qed

text \<open>The runner hides every failure. Once the tick is parsed, the handler returns normally whatever the
  strategies and the sends do, and every strategy of the instrument has consumed the tick; when
  no send works, the signals are gone without an event, so the reliability layer sees a success
  and commits the tick.\<close>

theorem runner_hides_failures:
  assumes "accepts_tick V msg_type data tok tick" and "distinct (rn_index st tok)"
  shows "\<exists>st'. runner_handle_market_tick V msg_type data st = (None, st') \<and>
     (\<forall>sid. map_of (rn_executors st') sid = (if sid \<in> set (rn_index st tok)
        then map_option (step_executor V tick) (map_of (rn_executors st) sid) else map_of (rn_executors st) sid)) \<and>
     ((\<forall>es e. rv_send V es e \<noteq> None) \<longrightarrow> rn_sent st' = rn_sent st \<and> rn_signals_generated st' = rn_signals_generated st)"
proof -
  have "rn_sent (fold (process_strategy V tick) sids st) = rn_sent st \<and>
      rn_signals_generated (fold (process_strategy V tick) sids st) = rn_signals_generated st"
    if "\<forall>es e. rv_send V es e \<noteq> None" for sids
    using process_strategy_down [OF that] by (induction sids arbitrary: st) auto
  then show ?thesis using handle_accepted [OF assms(1)] fold_strategies_frame [OF assms(2)] by auto
qed

text \<open>A runner with one demo strategy, and one whose sends all fail.\<close>

definition demo_runner_env :: "bool \<Rightarrow> runner_env" where
  "demo_runner_env up =
     \<lparr>rv_num = demo_num, rv_loader = \<lparr>ld_has_joblib = False, ld_strategies_dir = ''s'', ld_load = (\<lambda>_. None)\<rparr>,
      rv_send = (\<lambda>_ _. if up then None else Some (raise_exn (Other ''KafkaError'') ''down'')),
      rv_market_tick = (\<lambda>_. Inr (demo_tick 1 110)), rv_market_open = True, rv_now = 1000\<rparr>"

definition demo_row :: strategy_row where
  "demo_row = \<lparr>row_id = ''s1'', row_strategy_type = ''low_frequency_demo'', row_parameters = [],
     row_instruments = [1], row_zerodha_trading_enabled = False\<rparr>"

definition demo_runner :: runner where
  "demo_runner = snd (load_strategies (demo_runner_env True) [demo_row] (runner_init [''paper'']))"

lemma demo_row_loads: "\<exists>ex c. row_strategy (rv_loader (demo_runner_env b)) demo_row Map.empty = (Inr ex, c)"
  by (simp add: row_strategy_def demo_row_def create_strategy_def processors_def cfg_decimal_def jget_def ebind_def create_executor_def
      create_low_frequency_demo_processor_def cfg_as_int_def cfg_int_def cfg_num_def jget_none_def emap_def create_standard_validator_def mk_executor_def)

lemma demo_load: "load_strategies (demo_runner_env True) [demo_row] (runner_init [''paper'']) = (None, demo_runner)"
proof -
  obtain ex c where "row_strategy (rv_loader (demo_runner_env True)) demo_row Map.empty = (Inr ex, c)" using demo_row_loads by blast
  then show ?thesis by (simp add: demo_runner_def runner_init_def)
qed

lemma demo_accepts: "accepts_tick (demo_runner_env up) (JStr ''market_tick'') [(''instrument_token'', JInt 1)] 1 (demo_tick 1 110)"
  by (simp add: accepts_tick_def demo_runner_env_def runner_is_event_type_def jget_def)

theorem index_matches_scan_witness:
  "rn_index demo_runner 1 = [''s1''] \<and> rn_index demo_runner 2 = []"
proof -
  have d: "distinct (map row_id [demo_row])" "\<forall>row \<in> set [demo_row]. distinct (row_instruments row)" by (simp_all add: demo_row_def)
  obtain ex c where r: "row_strategy (rv_loader (demo_runner_env True)) demo_row Map.empty = (Inr ex, c)" using demo_row_loads by blast
  have "map_of (rn_executors demo_runner) (row_id demo_row) \<noteq> None"
    using r by (simp add: demo_runner_def runner_init_def register_def)
  then show ?thesis
    using index_matches_scan [OF demo_load d, of 1] index_matches_scan [OF demo_load d, of 2] by (simp add: demo_row_def)
qed

lemma demo_index: "rn_index demo_runner 1 = [''s1'']"
proof -
  obtain ex c where "row_strategy (rv_loader (demo_runner_env True)) demo_row Map.empty = (Inr ex, c)" using demo_row_loads by blast
  then show ?thesis by (simp add: demo_runner_def runner_init_def register_def index_add_def demo_row_def)
qed

lemma demo_events: "map ne_topic (events_of (demo_runner_env True) (demo_tick 1 110) demo_runner ''s1'') = [''paper.signals.raw'']"
  by (simp add: demo_runner_def demo_runner_env_def demo_row_def row_strategy_def create_strategy_def processors_def cfg_decimal_def
      jget_def ebind_def create_executor_def create_low_frequency_demo_processor_def cfg_as_int_def cfg_int_def cfg_num_def jget_none_def
      emap_def create_standard_validator_def mk_executor_def runner_init_def register_def events_of_def executor_process_tick_def
      can_process_tick_def supports_instrument_def low_freq_process_tick_def low_freq_init_def maybe_reset_daily_def get_or_def
      select_side_def str_upper_def char_upper_def checked_def mk_signal_def validate_signal_def signal_of_def runner_signal_event_def
      signals_raw_def Let_def)

theorem runner_emits_per_strategy_witness:
  "\<exists>st'. runner_handle_market_tick (demo_runner_env True) (JStr ''market_tick'') [(''instrument_token'', JInt 1)] demo_runner = (None, st') \<and>
     map ne_topic (rn_sent st') = map ne_topic (rn_sent demo_runner) @ [''paper.signals.raw'']"
proof -
  have "\<forall>es e. rv_send (demo_runner_env True) es e = None" by (simp add: demo_runner_env_def)
  from runner_emits_per_strategy [OF demo_accepts this, of demo_runner] demo_events show ?thesis by (auto simp: demo_index)
qed

theorem runner_hides_failures_witness:
  "\<exists>st'. runner_handle_market_tick (demo_runner_env False) (JStr ''market_tick'') [(''instrument_token'', JInt 1)] demo_runner = (None, st') \<and>
     rn_sent st' = rn_sent demo_runner"
  using runner_hides_failures [OF demo_accepts [of False], of demo_runner] by (auto simp: demo_index demo_runner_env_def)

end
