(* ===== verification/Pipeline_Monitoring.thy ===== *)
theory Pipeline_Monitoring
  imports Redis_State Py_Format
begin

text \<open>
  Pipeline metrics and their validation: MetricsRegistry (core/monitoring/metrics_registry.py),
  PipelineMetricsCollector (pipeline_metrics.py) and PipelineValidator (pipeline_validator.py),
  over the Redis client of Redis_State. Clock readings are microseconds; their text is given by
  the parameter \<open>ck\<close> (isoformat and fromisoformat), whose round trip is the hypothesis \<open>clock_ok\<close>.
  A validation reads the clock once.
\<close>

subsection \<open>Metric keys\<close>

definition build_key :: "string \<Rightarrow> string \<Rightarrow> string \<Rightarrow> string" where
  "build_key stage broker metric_type = ''pipeline:'' @ stage @ '':'' @ broker @ '':'' @ metric_type"

definition market_ticks_last :: string where
  "market_ticks_last = ''pipeline:market_ticks:market:last''"

definition market_ticks_count :: string where
  "market_ticks_count = ''pipeline:market_ticks:market:count''"

definition signals_last :: "string \<Rightarrow> string" where
  "signals_last broker = build_key ''signals'' broker ''last''"

definition signals_count :: "string \<Rightarrow> string" where
  "signals_count broker = build_key ''signals'' broker ''count''"

definition risk_validation_last :: "string \<Rightarrow> string" where
  "risk_validation_last broker = build_key ''risk_validation'' broker ''last''"

definition risk_validation_count :: "string \<Rightarrow> string" where
  "risk_validation_count broker = build_key ''risk_validation'' broker ''count''"

definition signals_validated_last :: "string \<Rightarrow> string" where
  "signals_validated_last broker = build_key ''signals_validated'' broker ''last''"

definition signals_validated_count :: "string \<Rightarrow> string" where
  "signals_validated_count broker = build_key ''signals_validated'' broker ''count''"

definition signals_rejected_last :: "string \<Rightarrow> string" where
  "signals_rejected_last broker = build_key ''signals_rejected'' broker ''last''"

definition signals_rejected_count :: "string \<Rightarrow> string" where
  "signals_rejected_count broker = build_key ''signals_rejected'' broker ''count''"

definition orders_last :: "string \<Rightarrow> string" where
  "orders_last broker = build_key ''orders'' broker ''last''"

definition orders_count :: "string \<Rightarrow> string" where
  "orders_count broker = build_key ''orders'' broker ''count''"

definition portfolio_updates_last :: "string \<Rightarrow> string" where
  "portfolio_updates_last broker = build_key ''portfolio_updates'' broker ''last''"

definition portfolio_updates_count :: "string \<Rightarrow> string" where
  "portfolio_updates_count broker = build_key ''portfolio_updates'' broker ''count''"

definition strategies_count :: "string \<Rightarrow> string" where
  "strategies_count broker = build_key ''strategies'' broker ''count''"

definition get_all_broker_specific_keys :: "string \<Rightarrow> (string \<times> string) list" where
  "get_all_broker_specific_keys broker =
     [(''signals_last'', signals_last broker), (''signals_count'', signals_count broker),
      (''risk_validation_last'', risk_validation_last broker), (''risk_validation_count'', risk_validation_count broker),
      (''signals_validated_last'', signals_validated_last broker), (''signals_validated_count'', signals_validated_count broker),
      (''orders_last'', orders_last broker), (''orders_count'', orders_count broker),
      (''portfolio_updates_last'', portfolio_updates_last broker), (''portfolio_updates_count'', portfolio_updates_count broker)]"

definition get_shared_keys :: "(string \<times> string) list" where
  "get_shared_keys = [(''market_ticks_last'', market_ticks_last), (''market_ticks_count'', market_ticks_count)]"

text \<open>The key mapping; the report's other fields are its size and its values.\<close>

definition validate_key_consistency :: "string list \<Rightarrow> (string \<times> string) list" where
  "validate_key_consistency active_brokers =
     fold (\<lambda>broker d. fold (\<lambda>(n, k). dict_set (broker @ ''_'' @ n) k) (get_all_broker_specific_keys broker) d)
       active_brokers get_shared_keys"

subsection \<open>The collector\<close>

record clock =
  ck_iso :: "int \<Rightarrow> string"
  ck_parse :: "string \<Rightarrow> int option"

definition clock_ok :: "clock \<Rightarrow> bool" where
  "clock_ok ck = (\<forall>t. ck_parse ck (ck_iso ck t) = Some t)"

definition metrics_ttl :: nat where
  "metrics_ttl = 300"

text \<open>A pipeline without transaction runs both commands; exceptions are caught and logged.\<close>

definition record_activity :: "'r redis \<Rightarrow> clock \<Rightarrow> int \<Rightarrow> string \<Rightarrow> string \<Rightarrow> (string \<times> json) list \<Rightarrow> 'r \<Rightarrow> 'r" where
  "record_activity R ck now count_key last_key data s =
     (let s1 = snd (r_incr R count_key 1 s) in
      snd (r_setex R last_key metrics_ttl (RJson (JObj ((''timestamp'', JStr (ck_iso ck now)) # data))) s1))"

definition record_market_tick :: "'r redis \<Rightarrow> clock \<Rightarrow> int \<Rightarrow> (string \<times> json) list \<Rightarrow> string \<Rightarrow> 'r \<Rightarrow> 'r" where
  "record_market_tick R ck now tick ns s =
     (let data = [(''symbol'', jget_none tick ''symbol''), (''instrument_token'', jget_none tick ''instrument_token''),
                  (''last_price'', jget_none tick ''last_price'')]
      in record_activity R ck now (build_key ''market_ticks'' ns ''count'') (build_key ''market_ticks'' ns ''last'') data
           (record_activity R ck now market_ticks_count market_ticks_last data s))"

definition record_signal_generated :: "'r redis \<Rightarrow> clock \<Rightarrow> int \<Rightarrow> (string \<times> json) list \<Rightarrow> string \<Rightarrow> 'r \<Rightarrow> 'r" where
  "record_signal_generated R ck now signal ns =
     record_activity R ck now (signals_count ns) (signals_last ns)
       [(''signal_id'', jget_none signal ''id''), (''strategy_id'', jget_none signal ''strategy_id''),
        (''instrument_token'', jget_none signal ''instrument_token''), (''signal_type'', jget_none signal ''signal_type'')]"

definition record_signal_validated :: "'r redis \<Rightarrow> clock \<Rightarrow> int \<Rightarrow> (string \<times> json) list \<Rightarrow> bool \<Rightarrow> string \<Rightarrow> 'r \<Rightarrow> 'r" where
  "record_signal_validated R ck now signal passed ns =
     record_activity R ck now
       (if passed then signals_validated_count ns else signals_rejected_count ns)
       (if passed then signals_validated_last ns else signals_rejected_last ns)
       [(''signal_id'', jget_none signal ''id''), (''strategy_id'', jget_none signal ''strategy_id''), (''validation_passed'', JBool passed)]"

definition record_order_processed :: "'r redis \<Rightarrow> clock \<Rightarrow> int \<Rightarrow> (string \<times> json) list \<Rightarrow> string \<Rightarrow> 'r \<Rightarrow> 'r" where
  "record_order_processed R ck now order ns =
     record_activity R ck now (orders_count ns) (orders_last ns)
       [(''order_id'', jget_none order ''id''), (''strategy_id'', jget_none order ''strategy_id''),
        (''status'', jget_none order ''status''), (''instrument_token'', jget_none order ''instrument_token'')]"

definition record_portfolio_update :: "'r redis \<Rightarrow> clock \<Rightarrow> int \<Rightarrow> string \<Rightarrow> (string \<times> json) list \<Rightarrow> string \<Rightarrow> 'r \<Rightarrow> 'r" where
  "record_portfolio_update R ck now portfolio_id data ns =
     record_activity R ck now (portfolio_updates_count ns) (portfolio_updates_last ns)
       [(''portfolio_id'', JStr portfolio_id), (''total_pnl'', jget_none data ''total_pnl''), (''cash_balance'', jget_none data ''cash_balance'')]"

definition increment_count :: "'r redis \<Rightarrow> string \<Rightarrow> string \<Rightarrow> 'r \<Rightarrow> 'r" where
  "increment_count R metric_name broker s = snd (r_incr R (build_key metric_name broker ''count'') 1 s)"

definition set_last_activity_timestamp :: "'r redis \<Rightarrow> clock \<Rightarrow> int \<Rightarrow> string \<Rightarrow> string \<Rightarrow> 'r \<Rightarrow> 'r" where
  "set_last_activity_timestamp R ck now metric_name broker s =
     snd (r_setex R (build_key metric_name broker ''last_activity'') metrics_ttl
       (RJson (JObj [(''timestamp'', JStr (ck_iso ck now)), (''metric'', JStr metric_name)])) s)"

definition pm_reset_metrics :: "'r redis \<Rightarrow> string \<Rightarrow> 'r \<Rightarrow> 'r" where
  "pm_reset_metrics R ns s =
     snd (r_delete R (concat (map (\<lambda>stage. [build_key stage ns ''last'', build_key stage ns ''count''])
       [''market_ticks'', ''signals'', ''signals_validated'', ''signals_rejected'', ''orders'', ''portfolio_updates''])) s)"

definition set_strategy_count :: "'r redis \<Rightarrow> string \<Rightarrow> int \<Rightarrow> 'r \<Rightarrow> 'r" where
  "set_strategy_count R broker count s = snd (r_setex R (strategies_count broker) metrics_ttl (RStr (show_int count)) s)"

subsection \<open>The collector's own health report\<close>

record stage_health =
  sh_healthy :: bool
  sh_age :: "rat option"
  sh_count :: "int option"
  sh_error :: "string option"

definition seconds_between :: "int \<Rightarrow> int \<Rightarrow> rat" where
  "seconds_between a b = of_int (a - b) / 1000000"

definition stage_threshold :: "string \<Rightarrow> rat" where
  "stage_threshold stage = (if stage = ''market_ticks'' then 5 else 60)"

definition json_timestamp :: "clock \<Rightarrow> rvalue \<Rightarrow> int option" where
  "json_timestamp ck v =
     (case v of RJson (JObj d) \<Rightarrow> (case jget d ''timestamp'' of Some (JStr t) \<Rightarrow> ck_parse ck t | _ \<Rightarrow> None) | _ \<Rightarrow> None)"

definition present :: "rvalue option \<Rightarrow> bool" where
  "present v = (case v of None \<Rightarrow> False | Some x \<Rightarrow> rv_truthy x)"

definition value_error_pm :: exn where
  "value_error_pm = raise_exn (Other ''ValueError'') ''invalid literal for int()''"

definition count_of :: "rvalue option \<Rightarrow> exn + int" where
  "count_of v =
     (case v of None \<Rightarrow> Inr 0
      | Some x \<Rightarrow> if rv_truthy x then (case rv_int x of Some i \<Rightarrow> Inr i | None \<Rightarrow> Inl value_error_pm) else Inr 0)"

definition failed_stage :: "string \<Rightarrow> stage_health" where
  "failed_stage e = \<lparr>sh_healthy = False, sh_age = None, sh_count = None, sh_error = Some e\<rparr>"

definition get_stage_health :: "'r redis \<Rightarrow> clock \<Rightarrow> string \<Rightarrow> int \<Rightarrow> string \<Rightarrow> 'r \<Rightarrow> stage_health \<times> 'r" where
  "get_stage_health R ck stage now ns s =
     (case r_get R (build_key stage ns ''last'') s of
        (Inl e, s1) \<Rightarrow> (failed_stage (exn_msg e), s1)
      | (Inr act, s1) \<Rightarrow>
     (case r_get R (build_key stage ns ''count'') s1 of
        (Inl e, s2) \<Rightarrow> (failed_stage (exn_msg e), s2)
      | (Inr cnt, s2) \<Rightarrow>
          (if present act
           then (case json_timestamp ck (the act) of
                   None \<Rightarrow> failed_stage ''timestamp''
                 | Some t \<Rightarrow>
                     (case count_of cnt of Inl e \<Rightarrow> failed_stage (exn_msg e)
                      | Inr n \<Rightarrow> \<lparr>sh_healthy = (seconds_between now t < stage_threshold stage),
                                 sh_age = Some (seconds_between now t), sh_count = Some n, sh_error = None\<rparr>))
           else (case count_of cnt of Inl e \<Rightarrow> failed_stage (exn_msg e)
                 | Inr n \<Rightarrow> \<lparr>sh_healthy = False, sh_age = None, sh_count = Some n, sh_error = None\<rparr>), s2)))"

definition pipeline_stages :: "string list" where
  "pipeline_stages = [''market_ticks'', ''signals'', ''signals_validated'', ''orders'', ''portfolio_updates'']"

fun stages_health :: "'r redis \<Rightarrow> clock \<Rightarrow> int \<Rightarrow> string \<Rightarrow> string list \<Rightarrow> 'r \<Rightarrow> (string \<times> stage_health) list \<times> 'r" where
  "stages_health R ck now ns [] s = ([], s)"
| "stages_health R ck now ns (st # rest) s =
     (let (h, s1) = get_stage_health R ck st now ns s; (hs, s2) = stages_health R ck now ns rest s1 in ((st, h) # hs, s2))"

definition get_pipeline_health :: "'r redis \<Rightarrow> clock \<Rightarrow> int \<Rightarrow> string \<Rightarrow> 'r \<Rightarrow> bool \<times> (string \<times> stage_health) list \<times> 'r" where
  "get_pipeline_health R ck now ns s =
     (let (hs, s1) = stages_health R ck now ns pipeline_stages s in (list_all (\<lambda>(_, h). sh_healthy h) hs, hs, s1))"

subsection \<open>What is recorded is reported\<close>

text \<open>Every read returns, and shows the visible contents.\<close>

definition reads_ok :: "'r redis \<Rightarrow> ('r \<Rightarrow> string \<Rightarrow> rvalue option) \<Rightarrow> bool" where
  "reads_ok R view = (\<forall>k s. \<exists>s'. r_get R k s = (Inr (view s k), s') \<and> view s' = view s)"

lemma reads_okE: assumes "reads_ok R view" obtains s' where "r_get R k s = (Inr (view s k), s')" "view s' = view s"
  using assms unfolding reads_ok_def by blast

lemma map_redis_reads: "reads_ok map_redis map_of"
  by (simp add: reads_ok_def map_redis_def)

lemma record_activity_view:
  assumes ok: "redis_ok R view" and inc: "r_incr R ck_key 1 s = (Inr n, s1)"
    and set: "r_setex R last_key metrics_ttl (RJson (JObj ((''timestamp'', JStr (ck_iso ck now)) # data))) s1 = (Inr (), s2)"
  shows "record_activity R ck now ck_key last_key data s = s2"
    "view s2 = (view s)(ck_key \<mapsto> RInt n, last_key \<mapsto> RJson (JObj ((''timestamp'', JStr (ck_iso ck now)) # data)))"
  using redis_incrD [OF ok inc] redis_setexD [OF ok set] inc set by (simp_all add: record_activity_def)

lemma build_key_inject:
  assumes "CHR '':'' \<notin> set st" "CHR '':'' \<notin> set st'" "CHR '':'' \<notin> set b" "CHR '':'' \<notin> set b'"
  shows "build_key st b m = build_key st' b' m' \<longleftrightarrow> st = st' \<and> b = b' \<and> m = m'"
  using append_sep_inject [OF assms(1,2)] append_sep_inject [OF assms(3,4)] by (simp add: build_key_def)

lemma stage_health_value:
  assumes "reads_ok R view"
  shows "sh_healthy (fst (get_stage_health R ck st now ns s)) \<longleftrightarrow>
     (\<exists>v t n. view s (build_key st ns ''last'') = Some v \<and> rv_truthy v \<and> json_timestamp ck v = Some t \<and>
        count_of (view s (build_key st ns ''count'')) = Inr n \<and> seconds_between now t < stage_threshold st)"
    "view (snd (get_stage_health R ck st now ns s)) = view s"
proof -
  obtain s1 where 1: "r_get R (build_key st ns ''last'') s = (Inr (view s (build_key st ns ''last'')), s1)" "view s1 = view s"
    using assms by (rule reads_okE)
  obtain s2 where 2: "r_get R (build_key st ns ''count'') s1 = (Inr (view s1 (build_key st ns ''count'')), s2)" "view s2 = view s1"
    using assms by (rule reads_okE)
  then show "view (snd (get_stage_health R ck st now ns s)) = view s" using 1 by (simp add: get_stage_health_def)
  show "sh_healthy (fst (get_stage_health R ck st now ns s)) \<longleftrightarrow>
     (\<exists>v t n. view s (build_key st ns ''last'') = Some v \<and> rv_truthy v \<and> json_timestamp ck v = Some t \<and>
        count_of (view s (build_key st ns ''count'')) = Inr n \<and> seconds_between now t < stage_threshold st)" using 1 2
    by (auto simp: get_stage_health_def present_def failed_stage_def split: option.splits sum.splits)
qed

text \<open>What is recorded is reported. When an activity of a stage has been recorded for a broker, the
  collector's report on that stage is healthy until the stage's threshold has passed since then, and
  not afterwards.\<close>

theorem recorded_stage_is_healthy:
  assumes ok: "redis_ok R view" "reads_ok R view" and ck: "clock_ok ck" and colon: "CHR '':'' \<notin> set st" "CHR '':'' \<notin> set b"
    and inc: "r_incr R (build_key st b ''count'') 1 s = (Inr n, s1)"
    and set: "r_setex R (build_key st b ''last'') metrics_ttl (RJson (JObj ((''timestamp'', JStr (ck_iso ck t)) # data))) s1 = (Inr (), s2)"
  shows "sh_healthy (fst (get_stage_health R ck st now b
       (record_activity R ck t (build_key st b ''count'') (build_key st b ''last'') data s))) \<longleftrightarrow>
     seconds_between now t < stage_threshold st"
proof -
  note v = record_activity_view [OF ok(1) inc set]
  have ne: "build_key st b ''count'' \<noteq> build_key st b ''last''" by (simp add: build_key_def)
  show ?thesis unfolding stage_health_value(1) [OF ok(2)] v(1) using v(2) ne ck
    by (auto simp: json_timestamp_def jget_def clock_ok_def count_of_def)
qed

theorem recorded_stage_is_healthy_witness:
  "sh_healthy (fst (get_stage_health map_redis \<lparr>ck_iso = show_int, ck_parse = read_int\<rparr> ''orders'' 59000000 ''paper''
     (record_activity map_redis \<lparr>ck_iso = show_int, ck_parse = read_int\<rparr> 0 (build_key ''orders'' ''paper'' ''count'') (build_key ''orders'' ''paper'' ''last'') [] [])))"
proof -
  have "clock_ok \<lparr>ck_iso = show_int, ck_parse = read_int\<rparr>" by (simp add: clock_ok_def read_int_show_int)
  from recorded_stage_is_healthy [OF map_redis_ok map_redis_reads this, of "''orders''" "''paper''" "[]" 1
      "[(build_key ''orders'' ''paper'' ''count'', RInt 1)]" 0 "[]" _ 59000000]
  show ?thesis by (simp add: map_redis_def counter_of_def seconds_between_def stage_threshold_def)
qed

text \<open>A command that raises leaves the contents as they were.\<close>

definition quiet_failures :: "'r redis \<Rightarrow> ('r \<Rightarrow> string \<Rightarrow> rvalue option) \<Rightarrow> bool" where
  "quiet_failures R view = ((\<forall>k s e s'. r_incr R k 1 s = (Inl e, s') \<longrightarrow> view s' = view s) \<and>
     (\<forall>k t v s e s'. r_setex R k t v s = (Inl e, s') \<longrightarrow> view s' = view s))"

lemma record_activity_other:
  assumes ok: "redis_ok R view" "quiet_failures R view" and k: "k \<noteq> ck_key" "k \<noteq> last_key"
  shows "view (record_activity R ck now ck_key last_key data s) k = view s k"
proof -
  obtain r1 s1 where 1: "r_incr R ck_key 1 s = (r1, s1)" by fastforce
  obtain r2 s2 where 2: "r_setex R last_key metrics_ttl (RJson (JObj ((''timestamp'', JStr (ck_iso ck now)) # data))) s1 = (r2, s2)" by fastforce
  have "view s1 k = view s k"
    using 1 ok k redis_incrD [OF ok(1)] by (cases r1) (auto simp: quiet_failures_def)
  moreover have "view s2 k = view s1 k"
    using 2 ok k redis_setexD [OF ok(1)] by (cases r2) (auto simp: quiet_failures_def)
  ultimately show ?thesis using 1 2 by (simp add: record_activity_def)
qed

lemma stages_health_view:
  assumes "reads_ok R view"
  shows "view (snd (stages_health R ck now ns sts s)) = view s"
proof (induction sts arbitrary: s)
  case (Cons st sts)
  then show ?case using stage_health_value(2) [OF assms] by (simp add: split_beta)
qed simp

text \<open>The feed's ticks do not count for any broker. The market feed records its ticks under the name
  shared, the report for a broker looks for them under the broker's own name. So whatever ticks the feed
  records, the pipeline of a broker is never reported healthy.\<close>

theorem shared_ticks_never_count:
  assumes ok: "redis_ok R view" "reads_ok R view" "quiet_failures R view"
    and ns: "ns \<noteq> ''shared''" "ns \<noteq> ''market''" "CHR '':'' \<notin> set ns"
    and none: "view s (build_key ''market_ticks'' ns ''last'') = None"
  shows "\<not> fst (get_pipeline_health R ck now ns (fold (\<lambda>(t, tick). record_market_tick R ck t tick ''shared'') ticks s))"
proof -
  let ?k = "build_key ''market_ticks'' ns ''last''"
  have eq: "market_ticks_last = build_key ''market_ticks'' ''market'' ''last''" "market_ticks_count = build_key ''market_ticks'' ''market'' ''count''"
    by (simp_all add: market_ticks_last_def market_ticks_count_def build_key_def)
  have "view (record_market_tick R ck t tick ''shared'' s) ?k = view s ?k" for t tick s
    using ns record_activity_other [OF ok(1,3)] by (simp add: record_market_tick_def eq build_key_inject Let_def)
  then have "view (fold (\<lambda>(t, tick). record_market_tick R ck t tick ''shared'') ticks s) ?k = None"
    using none by (induction ticks arbitrary: s) auto
  then show ?thesis using stage_health_value(1) [OF ok(2)]
    by (auto simp: get_pipeline_health_def pipeline_stages_def split_beta)
qed

theorem shared_ticks_never_count_witness:
  "\<not> fst (get_pipeline_health map_redis \<lparr>ck_iso = show_int, ck_parse = read_int\<rparr> 1000 ''paper''
     (fold (\<lambda>(t, tick). record_market_tick map_redis \<lparr>ck_iso = show_int, ck_parse = read_int\<rparr> t tick ''shared'') [(1000, [])] []))"
proof -
  have "quiet_failures map_redis map_of" by (auto simp: quiet_failures_def map_redis_def split: option.splits)
  then show ?thesis by (rule shared_ticks_never_count [OF map_redis_ok map_redis_reads]) simp_all
qed

end
