(* ===== verification/Pipeline_Validator.thy ===== *)
theory Pipeline_Validator
  imports Pipeline_Monitoring
begin

text \<open>
  PipelineValidator (core/monitoring/pipeline_validator.py): the five stages and the overall
  verdict. Whether the market is open and whether trading is enabled for the broker are arguments, as is
  the outcome of the ping. Two of its faults decide most verdicts and are modelled where they
  occur: \<open>decode\<close> is called on text that is already decoded, and the import inside
  \<open>_validate_signal_generation\<close> makes MetricsRegistry a local name that is unbound when the first branch
  is not taken.
\<close>

subsection \<open>Stages\<close>

record stage =
  sg_healthy :: bool
  sg_latency_ms :: "rat option"
  sg_last_time :: "string option"
  sg_count :: "int option"
  sg_issue :: "string option"
  sg_recommendation :: "string option"
  sg_info :: "string option"
  sg_reason :: "string option"
  sg_error :: "string option"

definition plain_stage :: "bool \<Rightarrow> stage" where
  "plain_stage h = \<lparr>sg_healthy = h, sg_latency_ms = None, sg_last_time = None, sg_count = None, sg_issue = None,
     sg_recommendation = None, sg_info = None, sg_reason = None, sg_error = None\<rparr>"

definition bad_stage :: "string \<Rightarrow> string option \<Rightarrow> stage" where
  "bad_stage issue err = (plain_stage False)\<lparr>sg_issue := Some issue, sg_error := err\<rparr>"

definition skipped_stage :: "string \<Rightarrow> stage" where
  "skipped_stage reason = (plain_stage True)\<lparr>sg_reason := Some reason\<rparr>"

definition late_stage :: "rat \<Rightarrow> string \<Rightarrow> string \<Rightarrow> stage \<Rightarrow> stage" where
  "late_stage latency issue advice st =
     st\<lparr>sg_healthy := False, sg_latency_ms := Some (latency * 1000),
        sg_issue := Some (issue @ show_fixed 2 latency @ ''s''), sg_recommendation := Some advice\<rparr>"

record vconfig =
  vc_broker :: string
  vc_start_time :: int
  vc_market_data_latency :: rat
  vc_grace_period :: rat
  vc_trading_enabled :: bool

text \<open>_parse_timestamp_from_json_or_iso.\<close>

definition parse_timestamp :: "clock \<Rightarrow> rvalue \<Rightarrow> int option" where
  "parse_timestamp ck v =
     (case v of
        RJson j \<Rightarrow> json_timestamp ck v
      | RStr t \<Rightarrow> ck_parse ck t
      | RInt i \<Rightarrow> ck_parse ck (show_int i)
      | RNum r \<Rightarrow> None)"

definition in_startup_grace_period :: "vconfig \<Rightarrow> int \<Rightarrow> bool" where
  "in_startup_grace_period c now = (seconds_between now (vc_start_time c) < vc_grace_period c)"

definition validate_market_data_flow :: "'r redis \<Rightarrow> clock \<Rightarrow> bool \<Rightarrow> int \<Rightarrow> vconfig \<Rightarrow> 'r \<Rightarrow> stage \<times> 'r" where
  "validate_market_data_flow R ck market_open now c s =
     (if \<not> market_open then (skipped_stage ''market_closed'', s)
      else case r_get R market_ticks_last s of
          (Inl e, s1) \<Rightarrow> (bad_stage ''redis_unavailable'' (Some (exn_msg e)), s1)
        | (Inr v, s1) \<Rightarrow>
            (if \<not> present v
             then (bad_stage ''No market data ticks found'' None)\<lparr>sg_recommendation := Some ''Check market feed service and authentication''\<rparr>
             else case parse_timestamp ck (the v) of
                 None \<Rightarrow> bad_stage ''metrics_parse_error'' None
               | Some t \<Rightarrow>
                   (let latency = seconds_between now t in
                    if latency \<le> vc_market_data_latency c then (plain_stage True)\<lparr>sg_latency_ms := Some (latency * 1000)\<rparr>
                    else late_stage latency ''Market data latency too high: '' ''Check market feed service connectivity and performance'' (plain_stage False)), s1))"

text \<open>Reading the number of active strategies; \<open>None\<close> when reading or parsing raises.\<close>

definition active_strategies :: "'r redis \<Rightarrow> vconfig \<Rightarrow> 'r \<Rightarrow> int option \<times> 'r" where
  "active_strategies R c s =
     (case r_get R (strategies_count (vc_broker c)) s of
        (Inl e, s1) \<Rightarrow> (None, s1)
      | (Inr None, s1) \<Rightarrow> (Some 0, s1)
      | (Inr (Some v), s1) \<Rightarrow> (rv_int v, s1))"

definition unbound_local :: exn where
  "unbound_local = raise_exn (Other ''UnboundLocalError'') ''cannot access local variable MetricsRegistry''"

definition no_strategies :: "vconfig \<Rightarrow> string" where
  "no_strategies c = ''No active strategies configured for '' @ vc_broker c"

definition signal_stage :: "'r redis \<Rightarrow> clock \<Rightarrow> int \<Rightarrow> vconfig \<Rightarrow> 'r \<Rightarrow> stage \<times> 'r" where
  "signal_stage R ck now c s =
     (case r_get R (signals_last (vc_broker c)) s of
        (Inl e, s1) \<Rightarrow> (bad_stage ''redis_unavailable'' (Some (exn_msg e)), s1)
      | (Inr act, s1) \<Rightarrow>
     (case r_get R (signals_count (vc_broker c)) s1 of
        (Inl e, s2) \<Rightarrow> (bad_stage ''redis_unavailable'' (Some (exn_msg e)), s2)
      | (Inr cnt, s2) \<Rightarrow>
     (case count_of cnt of
        Inl e \<Rightarrow> (bad_stage ''validation_error'' (Some (exn_msg e)), s2)
      | Inr n \<Rightarrow>
          (let result = (plain_stage True)\<lparr>sg_count := Some n\<rparr> in
           if \<not> present act
           then (case active_strategies R c s2 of
                   (Some a, s3) \<Rightarrow>
                     (if a = 0 then (result\<lparr>sg_info := Some (no_strategies c)\<rparr>, s3)
                      else (result\<lparr>sg_healthy := False, sg_issue := Some (''No signals generated for '' @ vc_broker c @ '' during market hours''),
                             sg_recommendation := Some (''Check strategy runner and '' @ vc_broker c @ '' broker configuration'')\<rparr>, s3))
                 | (None, s3) \<Rightarrow>
                     (result\<lparr>sg_healthy := False, sg_issue := Some (''No signals generated for '' @ vc_broker c @ '' during market hours''),
                             sg_recommendation := Some (''Check strategy runner and '' @ vc_broker c @ '' broker configuration'')\<rparr>, s3))
           else case parse_timestamp ck (the act) of
               None \<Rightarrow> (bad_stage ''metrics_parse_error'' None, s2)
             | Some t \<Rightarrow>
                 (let latency = seconds_between now t; result' = result\<lparr>sg_last_time := Some (ck_iso ck t)\<rparr> in
                  if latency > 5
                  then (late_stage latency (''Signal generation latency too high for '' @ vc_broker c @ '': '')
                          (''Check strategy runner performance for '' @ vc_broker c) result', s2)
                  else (result', s2))))))"

text \<open>When the market is closed or trading is disabled, the name MetricsRegistry is unbound.\<close>

definition validate_signal_generation :: "'r redis \<Rightarrow> clock \<Rightarrow> bool \<Rightarrow> int \<Rightarrow> vconfig \<Rightarrow> 'r \<Rightarrow> stage \<times> 'r" where
  "validate_signal_generation R ck market_open now c s =
     (if market_open \<and> vc_trading_enabled c
      then (case active_strategies R c s of
              (a, s1) \<Rightarrow> if a = Some 0 then ((plain_stage True)\<lparr>sg_count := Some 0, sg_info := Some (no_strategies c)\<rparr>, s1)
                         else signal_stage R ck now c s1)
      else (bad_stage ''validation_error'' (Some (exn_msg unbound_local)), s))"

text \<open>\<open>x.decode() if x else None\<close> on decoded text.\<close>

definition attribute_error :: exn where
  "attribute_error = raise_exn (Other ''AttributeError'') ''str object has no attribute decode''"

definition str_decode :: "rvalue option \<Rightarrow> exn + string option" where
  "str_decode v = (if present v then Inl attribute_error else Inr None)"

text \<open>The common body of the risk, order and portfolio stages.\<close>

definition activity_stage ::
  "'r redis \<Rightarrow> clock \<Rightarrow> int \<Rightarrow> string \<Rightarrow> string \<Rightarrow> rat \<Rightarrow> string \<Rightarrow> string \<Rightarrow> 'r \<Rightarrow> stage \<times> 'r" where
  "activity_stage R ck now last_key count_key threshold issue advice s =
     (case r_get R last_key s of
        (Inl e, s1) \<Rightarrow> (bad_stage ''redis_unavailable'' (Some (exn_msg e)), s1)
      | (Inr act, s1) \<Rightarrow>
     (case r_get R count_key s1 of
        (Inl e, s2) \<Rightarrow> (bad_stage ''redis_unavailable'' (Some (exn_msg e)), s2)
      | (Inr cnt, s2) \<Rightarrow>
     (case str_decode act of
        Inl e \<Rightarrow> (bad_stage ''validation_error'' (Some (exn_msg e)), s2)
      | Inr lt \<Rightarrow>
     (case count_of cnt of
        Inl e \<Rightarrow> (bad_stage ''validation_error'' (Some (exn_msg e)), s2)
      | Inr n \<Rightarrow>
          (let result = (plain_stage True)\<lparr>sg_last_time := lt, sg_count := Some n\<rparr> in
           if \<not> present act then (result, s2)
           else case parse_timestamp ck (the act) of
               None \<Rightarrow> (bad_stage ''metrics_parse_error'' None, s2)
             | Some t \<Rightarrow>
                 (let latency = seconds_between now t in
                  (if latency > threshold then late_stage latency issue advice result else result, s2)))))))"

definition validate_risk_management :: "'r redis \<Rightarrow> clock \<Rightarrow> int \<Rightarrow> vconfig \<Rightarrow> 'r \<Rightarrow> stage \<times> 'r" where
  "validate_risk_management R ck now c =
     activity_stage R ck now (signals_validated_last (vc_broker c)) (signals_validated_count (vc_broker c)) 2
       (''Risk validation latency too high for '' @ vc_broker c @ '': '') (''Check risk manager service performance for '' @ vc_broker c)"

definition validate_order_execution :: "'r redis \<Rightarrow> clock \<Rightarrow> int \<Rightarrow> vconfig \<Rightarrow> 'r \<Rightarrow> stage \<times> 'r" where
  "validate_order_execution R ck now c s =
     (if \<not> vc_trading_enabled c then (skipped_stage ''trading_disabled'', s)
      else activity_stage R ck now (orders_last (vc_broker c)) (orders_count (vc_broker c)) 10
       (''Order execution latency too high for '' @ vc_broker c @ '': '') (''Check trading engine service performance for '' @ vc_broker c) s)"

definition validate_portfolio_updates :: "'r redis \<Rightarrow> clock \<Rightarrow> int \<Rightarrow> vconfig \<Rightarrow> 'r \<Rightarrow> stage \<times> 'r" where
  "validate_portfolio_updates R ck now c s =
     (if \<not> vc_trading_enabled c then (skipped_stage ''trading_disabled'', s)
      else activity_stage R ck now (portfolio_updates_last (vc_broker c)) (portfolio_updates_count (vc_broker c)) 3
       (''Portfolio update latency too high for '' @ vc_broker c @ '': '') (''Check portfolio manager service performance for '' @ vc_broker c) s)"

subsection \<open>The verdict\<close>

record verdict =
  vr_overall :: string
  vr_stages :: "(string \<times> stage) list"
  vr_bottlenecks :: "(string \<times> string) list"
  vr_recommendations :: "(string \<times> string) list"

definition overall_health :: "nat \<Rightarrow> nat \<Rightarrow> string" where
  "overall_health healthy total_stages =
     (if healthy = total_stages then ''healthy''
      else if of_nat healthy \<ge> of_nat total_stages * (4/5 :: rat) then ''warning''
      else if of_nat healthy \<ge> of_nat total_stages * (3/5 :: rat) then ''degraded''
      else ''critical'')"

definition analyze_pipeline_health :: "(string \<times> stage) list \<Rightarrow> verdict" where
  "analyze_pipeline_health stages =
     (let unhealthy = filter (\<lambda>(_, st). \<not> sg_healthy st) stages in
      \<lparr>vr_overall = overall_health (length (filter (\<lambda>(_, st). sg_healthy st) stages)) (length stages), vr_stages = stages,
       vr_bottlenecks = map (\<lambda>(n, st). (n, case sg_issue st of None \<Rightarrow> ''Unknown issue'' | Some i \<Rightarrow> i)) unhealthy,
       vr_recommendations = concat (map (\<lambda>(n, st). case sg_recommendation st of None \<Rightarrow> [] | Some r \<Rightarrow> [(n, r)]) unhealthy)\<rparr>)"

definition idle_stages :: "vconfig \<Rightarrow> stage \<Rightarrow> (string \<times> stage) list" where
  "idle_stages c md =
     (let t = skipped_stage (if vc_trading_enabled c then ''market_closed'' else ''trading_disabled'') in
      [(''market_data'', md), (''signal_generation'', skipped_stage ''market_closed''), (''risk_validation'', skipped_stage ''market_closed''),
       (''order_execution'', t), (''portfolio_updates'', t)])"

definition validate_end_to_end_flow ::
  "'r redis \<Rightarrow> exn option \<Rightarrow> clock \<Rightarrow> bool \<Rightarrow> int \<Rightarrow> vconfig \<Rightarrow> 'r \<Rightarrow> verdict \<times> 'r" where
  "validate_end_to_end_flow R ping ck market_open now c s =
     (if in_startup_grace_period c now
      then (\<lparr>vr_overall = ''startup'', vr_stages = [], vr_bottlenecks = [], vr_recommendations = []\<rparr>, s)
      else if ping \<noteq> None
      then (\<lparr>vr_overall = ''error'', vr_stages = [], vr_bottlenecks = [(''infrastructure'', ''redis_unavailable'')], vr_recommendations = []\<rparr>, s)
      else if \<not> market_open
      then (let (md, s1) = validate_market_data_flow R ck market_open now c s in
            (\<lparr>vr_overall = ''idle'', vr_stages = idle_stages c md, vr_bottlenecks = [], vr_recommendations = []\<rparr>, s1))
      else let (md, s1) = validate_market_data_flow R ck market_open now c s;
               (sg, s2) = validate_signal_generation R ck market_open now c s1;
               (rk, s3) = validate_risk_management R ck now c s2;
               (oe, s4) = validate_order_execution R ck now c s3;
               (pu, s5) = validate_portfolio_updates R ck now c s4
           in (analyze_pipeline_health [(''market_data'', md), (''signal_generation'', sg), (''risk_validation'', rk),
                 (''order_execution'', oe), (''portfolio_updates'', pu)], s5))"

subsection \<open>What the verdicts mean\<close>

lemma plain_stage_healthy [simp]: "sg_healthy (plain_stage h) = h" "\<not> sg_healthy (bad_stage i e)" "sg_healthy (skipped_stage r)"
  "\<not> sg_healthy (late_stage l i a st)"
  by (simp_all add: plain_stage_def bad_stage_def skipped_stage_def late_stage_def)

lemma activity_stage_healthy:
  assumes "reads_ok R view"
  shows "sg_healthy (fst (activity_stage R ck now k1 k2 th i a s)) \<longleftrightarrow> \<not> present (view s k1) \<and> (\<exists>n. count_of (view s k2) = Inr n)"
    "view (snd (activity_stage R ck now k1 k2 th i a s)) = view s"
proof -
  obtain s1 where 1: "r_get R k1 s = (Inr (view s k1), s1)" "view s1 = view s" using assms by (rule reads_okE)
  obtain s2 where 2: "r_get R k2 s1 = (Inr (view s1 k2), s2)" "view s2 = view s1" using assms by (rule reads_okE)
  show "sg_healthy (fst (activity_stage R ck now k1 k2 th i a s)) \<longleftrightarrow> \<not> present (view s k1) \<and> (\<exists>n. count_of (view s k2) = Inr n)"
    using 1 2 by (auto simp: activity_stage_def str_decode_def Let_def split: sum.splits option.splits if_splits)
  show "view (snd (activity_stage R ck now k1 k2 th i a s)) = view s"
    using 1 2 by (auto simp: activity_stage_def str_decode_def Let_def split: sum.splits option.splits if_splits)
qed

text \<open>Activity makes a stage unhealthy. When Redis answers, the risk stage is reported healthy exactly when no validated
  signal is on record, the order stage exactly when no order is, and the portfolio stage exactly
  when no update is (and the counters are numbers): decoding the time of the last activity, which
  is text already, raises whenever there is one.\<close>

theorem activity_makes_stage_unhealthy:
  assumes "reads_ok R view"
  shows "(sg_healthy (fst (validate_risk_management R ck now c s)) \<longleftrightarrow>
       \<not> present (view s (signals_validated_last (vc_broker c))) \<and> (\<exists>n. count_of (view s (signals_validated_count (vc_broker c))) = Inr n)) \<and>
     (vc_trading_enabled c \<longrightarrow> (sg_healthy (fst (validate_order_execution R ck now c s)) \<longleftrightarrow>
       \<not> present (view s (orders_last (vc_broker c))) \<and> (\<exists>n. count_of (view s (orders_count (vc_broker c))) = Inr n))) \<and>
     (vc_trading_enabled c \<longrightarrow> (sg_healthy (fst (validate_portfolio_updates R ck now c s)) \<longleftrightarrow>
       \<not> present (view s (portfolio_updates_last (vc_broker c))) \<and> (\<exists>n. count_of (view s (portfolio_updates_count (vc_broker c))) = Inr n)))"
  using activity_stage_healthy(1) [OF assms]
  by (simp add: validate_risk_management_def validate_order_execution_def validate_portfolio_updates_def)

lemma market_data_view:
  assumes "reads_ok R view"
  shows "view (snd (validate_market_data_flow R ck mo now c s)) = view s"
  using assms by (rule reads_okE [of R view market_ticks_last s]) (auto simp: validate_market_data_flow_def)

lemma active_strategies_view:
  assumes "reads_ok R view"
  shows "view (snd (active_strategies R c s)) = view s"
    "fst (active_strategies R c s) = (case view s (strategies_count (vc_broker c)) of None \<Rightarrow> Some 0 | Some v \<Rightarrow> rv_int v)"
  using assms by (rule reads_okE [of R view "strategies_count (vc_broker c)" s], auto simp: active_strategies_def split: option.splits)+

lemma signal_stage_view:
  assumes "reads_ok R view"
  shows "view (snd (signal_stage R ck now c s)) = view s"
proof -
  obtain s1 where 1: "r_get R (signals_last (vc_broker c)) s = (Inr (view s (signals_last (vc_broker c))), s1)" "view s1 = view s"
    using assms by (rule reads_okE)
  obtain s2 where 2: "r_get R (signals_count (vc_broker c)) s1 = (Inr (view s1 (signals_count (vc_broker c))), s2)" "view s2 = view s1"
    using assms by (rule reads_okE)
  obtain a s3 where 3: "active_strategies R c s2 = (a, s3)" by fastforce
  with active_strategies_view(1) [OF assms, of c s2] have "view s3 = view s2" by simp
  with 1 2 3 show ?thesis by (auto simp: signal_stage_def Let_def split: sum.splits option.splits)
qed

lemma signal_generation_view:
  assumes "reads_ok R view"
  shows "view (snd (validate_signal_generation R ck mo now c s)) = view s"
  using signal_stage_view [OF assms] active_strategies_view(1) [OF assms, of c s]
  by (auto simp: validate_signal_generation_def split: prod.splits)

text \<open>C32: A working pipeline is critical. During market hours, once the risk manager, the trading service and
  the portfolio have recorded activity, however recent it is, the verdict on the whole
  pipeline is critical.\<close>

theorem working_pipeline_is_critical:
  assumes ok: "reads_ok R view" and c: "\<not> in_startup_grace_period c now" "vc_trading_enabled c"
    and act: "present (view s (signals_validated_last (vc_broker c)))" "present (view s (orders_last (vc_broker c)))"
      "present (view s (portfolio_updates_last (vc_broker c)))"
  shows "vr_overall (fst (validate_end_to_end_flow R None ck True now c s)) = ''critical''"
proof -
  obtain md s1 where 1: "validate_market_data_flow R ck True now c s = (md, s1)" by fastforce
  obtain sg s2 where 2: "validate_signal_generation R ck True now c s1 = (sg, s2)" by fastforce
  obtain rk s3 where 3: "validate_risk_management R ck now c s2 = (rk, s3)" by fastforce
  obtain oe s4 where 4: "validate_order_execution R ck now c s3 = (oe, s4)" by fastforce
  obtain pu s5 where 5: "validate_portfolio_updates R ck now c s4 = (pu, s5)" by fastforce
  have v2: "view s2 = view s" using market_data_view [OF ok, of ck True now c s] signal_generation_view [OF ok, of ck True now c s1] 1 2 by simp
  note h = activity_stage_healthy [OF ok]
  have "view (snd (validate_risk_management R ck now c s2)) = view s2" by (simp add: validate_risk_management_def h(2))
  with 3 v2 have v3: "view s3 = view s" by simp
  have "view (snd (validate_order_execution R ck now c s3)) = view s3" by (simp add: validate_order_execution_def h(2))
  with 4 v3 have v4: "view s4 = view s" by simp
  have "\<not> sg_healthy (fst (validate_risk_management R ck now c s2))" using act(1) v2 by (simp add: validate_risk_management_def h(1))
  with 3 have "\<not> sg_healthy rk" by simp
  moreover have "\<not> sg_healthy (fst (validate_order_execution R ck now c s3))"
    using act(2) v3 c(2) by (simp add: validate_order_execution_def h(1))
  with 4 have "\<not> sg_healthy oe" by simp
  moreover have "\<not> sg_healthy (fst (validate_portfolio_updates R ck now c s4))"
    using act(3) v4 c(2) by (simp add: validate_portfolio_updates_def h(1))
  with 5 have "\<not> sg_healthy pu" by simp
  ultimately show ?thesis using c(1)
    by (simp add: validate_end_to_end_flow_def 1 2 3 4 5 analyze_pipeline_health_def overall_health_def Let_def)
qed

text \<open>The signal stage is blind. With trading disabled it is always unhealthy, because the registry's name
  is unbound; with trading enabled it is healthy as soon as the strategy count is missing, whatever
  the signals, and the count is written once at start-up with a life of five minutes.\<close>

theorem signal_stage_blind:
  assumes "reads_ok R view"
  shows "(\<not> vc_trading_enabled c \<longrightarrow> \<not> sg_healthy (fst (validate_signal_generation R ck True now c s))) \<and>
     (vc_trading_enabled c \<and> view s (strategies_count (vc_broker c)) = None \<longrightarrow> sg_healthy (fst (validate_signal_generation R ck True now c s)))"
proof -
  have "fst (active_strategies R c s) = Some 0" if "view s (strategies_count (vc_broker c)) = None"
    using that active_strategies_view(2) [OF assms, of c s] by simp
  then show ?thesis by (auto simp: validate_signal_generation_def plain_stage_def bad_stage_def split: prod.splits)
qed

subsection \<open>Concrete verdicts\<close>

definition demo_clock :: clock where
  "demo_clock = \<lparr>ck_iso = show_int, ck_parse = read_int\<rparr>"

definition demo_vconfig :: "bool \<Rightarrow> vconfig" where
  "demo_vconfig on = \<lparr>vc_broker = ''paper'', vc_start_time = 0, vc_market_data_latency = 1, vc_grace_period = 30, vc_trading_enabled = on\<rparr>"

text \<open>A store after a signal passed the risk manager, was filled and booked.\<close>

definition busy_store :: "(string \<times> rvalue) list" where
  "busy_store = record_portfolio_update map_redis demo_clock 60000000 ''p'' [] ''paper''
     (record_order_processed map_redis demo_clock 60000000 [] ''paper''
       (record_signal_validated map_redis demo_clock 60000000 [] True ''paper'' []))"

lemma busy_store_present:
  "present (map_of busy_store (signals_validated_last ''paper''))" "present (map_of busy_store (orders_last ''paper''))"
  "present (map_of busy_store (portfolio_updates_last ''paper''))"
  by (simp_all add: busy_store_def record_portfolio_update_def record_order_processed_def record_signal_validated_def record_activity_def
      map_redis_def counter_of_def present_def signals_validated_last_def signals_validated_count_def orders_last_def orders_count_def
      portfolio_updates_last_def portfolio_updates_count_def build_key_def)

theorem activity_makes_stage_unhealthy_witness:
  "\<not> sg_healthy (fst (validate_risk_management map_redis demo_clock 60000000 (demo_vconfig True) busy_store)) \<and>
   sg_healthy (fst (validate_risk_management map_redis demo_clock 60000000 (demo_vconfig True) []))"
  using activity_makes_stage_unhealthy [OF map_redis_reads, of demo_clock 60000000 "demo_vconfig True" busy_store]
    activity_makes_stage_unhealthy [OF map_redis_reads, of demo_clock 60000000 "demo_vconfig True" "[]"] busy_store_present
  by (simp add: demo_vconfig_def present_def count_of_def)

theorem working_pipeline_is_critical_witness:
  "vr_overall (fst (validate_end_to_end_flow map_redis None demo_clock True 60000000 (demo_vconfig True) busy_store)) = ''critical''"
  by (rule working_pipeline_is_critical [OF map_redis_reads])
    (use busy_store_present in \<open>simp_all add: demo_vconfig_def in_startup_grace_period_def seconds_between_def\<close>)

theorem signal_stage_blind_witness:
  "\<not> sg_healthy (fst (validate_signal_generation map_redis demo_clock True 60000000 (demo_vconfig False) [])) \<and>
   sg_healthy (fst (validate_signal_generation map_redis demo_clock True 60000000 (demo_vconfig True) []))"
  using signal_stage_blind [OF map_redis_reads, of "demo_vconfig False" demo_clock 60000000 "[]"]
    signal_stage_blind [OF map_redis_reads, of "demo_vconfig True" demo_clock 60000000 "[]"]
  by (simp add: demo_vconfig_def)

end
