(* ===== verification/Alerting.thy ===== *)
theory Alerting
  imports Exceptions Py_Seq
begin

text \<open>
  Alerts (core/monitoring/alerting.py): the delivery channels, the AlertManager with suppression,
  history and statistics, and the convenience methods. Times are seconds. Whether a logging call raises is the
  parameter \<open>log_fails\<close> of the channels; the email, Slack and PagerDuty channels are placeholders in the source that
  only log. Hooks cannot change the alert or the manager and their exceptions are caught, so only their number is kept.
\<close>

subsection \<open>Alerts and channels\<close>

datatype severity = CRITICAL | HIGH | MEDIUM | LOW | INFO

datatype category = AUTHENTICATION | MARKET_DATA | TRADING | SYSTEM | PIPELINE | PERFORMANCE

fun category_value :: "category \<Rightarrow> string" where
  "category_value AUTHENTICATION = ''authentication''"
| "category_value MARKET_DATA = ''market_data''"
| "category_value TRADING = ''trading''"
| "category_value SYSTEM = ''system''"
| "category_value PIPELINE = ''pipeline''"
| "category_value PERFORMANCE = ''performance''"

record alert =
  al_title :: string
  al_message :: string
  al_severity :: severity
  al_category :: category
  al_component :: string
  al_broker_namespace :: string
  al_timestamp :: rat
  al_suppress_minutes :: rat

datatype channel = LoggingChannel | EmailChannel | SlackChannel | PagerDutyChannel

fun severity_rank :: "severity \<Rightarrow> nat" where
  "severity_rank INFO = 0"
| "severity_rank LOW = 1"
| "severity_rank MEDIUM = 2"
| "severity_rank HIGH = 3"
| "severity_rank CRITICAL = 4"

fun supports_severity :: "channel \<Rightarrow> severity \<Rightarrow> bool" where
  "supports_severity LoggingChannel sv = True"
| "supports_severity EmailChannel sv = (severity_rank MEDIUM \<le> severity_rank sv)"
| "supports_severity SlackChannel sv = True"
| "supports_severity PagerDutyChannel sv = (sv = CRITICAL)"

fun channel_send :: "(channel \<Rightarrow> alert \<Rightarrow> bool) \<Rightarrow> channel \<Rightarrow> alert \<Rightarrow> bool" where
  "channel_send log_fails PagerDutyChannel a = (if al_severity a \<noteq> CRITICAL then True else \<not> log_fails PagerDutyChannel a)"
| "channel_send log_fails ch a = (\<not> log_fails ch a)"

subsection \<open>AlertManager\<close>

record alert_manager =
  am_channels :: "channel list"
  am_history :: "alert list"
  am_suppressed :: "string \<rightharpoonup> rat"
  am_hooks :: nat
  am_sent :: nat
  am_suppressed_count :: nat
  am_failed :: nat
  am_last_alert_time :: "rat option"

definition add_channel :: "channel \<Rightarrow> alert_manager \<Rightarrow> alert_manager" where
  "add_channel ch m = m\<lparr>am_channels := am_channels m @ [ch]\<rparr>"

definition add_alert_hook :: "alert_manager \<Rightarrow> alert_manager" where
  "add_alert_hook m = m\<lparr>am_hooks := am_hooks m + 1\<rparr>"

definition alert_manager_init :: alert_manager where
  "alert_manager_init = add_channel LoggingChannel
     \<lparr>am_channels = [], am_history = [], am_suppressed = Map.empty, am_hooks = 0, am_sent = 0, am_suppressed_count = 0,
      am_failed = 0, am_last_alert_time = None\<rparr>"

definition configure_alerting :: "bool \<Rightarrow> bool \<Rightarrow> bool \<Rightarrow> alert_manager" where
  "configure_alerting email slack pagerduty =
     (let m0 = alert_manager_init;
          m1 = (if email then add_channel EmailChannel m0 else m0);
          m2 = (if slack then add_channel SlackChannel m1 else m1)
      in if pagerduty then add_channel PagerDutyChannel m2 else m2)"

definition suppression_key :: "alert \<Rightarrow> string" where
  "suppression_key a = al_component a @ '':'' @ category_value (al_category a) @ '':'' @ al_title a"

definition is_suppressed :: "alert \<Rightarrow> alert_manager \<Rightarrow> bool" where
  "is_suppressed a m =
     (case am_suppressed m (suppression_key a) of
        None \<Rightarrow> False
      | Some t \<Rightarrow> (al_timestamp a - t) / 60 < al_suppress_minutes a)"

definition add_to_suppression_cache :: "alert \<Rightarrow> alert_manager \<Rightarrow> alert_manager" where
  "add_to_suppression_cache a m = m\<lparr>am_suppressed := (am_suppressed m)(suppression_key a \<mapsto> al_timestamp a)\<rparr>"

definition success_count :: "(channel \<Rightarrow> alert \<Rightarrow> bool) \<Rightarrow> alert \<Rightarrow> alert_manager \<Rightarrow> nat" where
  "success_count log_fails a m =
     length (filter (\<lambda>ch. channel_send log_fails ch a) (filter (\<lambda>ch. supports_severity ch (al_severity a)) (am_channels m)))"

definition send_alert_object :: "(channel \<Rightarrow> alert \<Rightarrow> bool) \<Rightarrow> alert \<Rightarrow> alert_manager \<Rightarrow> bool \<times> alert_manager" where
  "send_alert_object log_fails a m =
     (if is_suppressed a m then (False, m\<lparr>am_suppressed_count := am_suppressed_count m + 1\<rparr>)
      else if success_count log_fails a m > 0
      then (True, add_to_suppression_cache a
              (m\<lparr>am_sent := am_sent m + 1, am_last_alert_time := Some (al_timestamp a), am_history := push 1000 a (am_history m)\<rparr>))
      else (False, m\<lparr>am_failed := am_failed m + 1\<rparr>))"

definition get_recent_alerts :: "rat \<Rightarrow> rat \<Rightarrow> alert_manager \<Rightarrow> alert list" where
  "get_recent_alerts now minutes m = filter (\<lambda>a. al_timestamp a > now - minutes * 60) (am_history m)"

text \<open>The keyword arguments that the convenience methods pass on.\<close>

record alert_kwargs =
  kw_severity :: "severity option"
  kw_category :: "category option"
  kw_broker_namespace :: "string option"
  kw_suppress_minutes :: "rat option"

definition no_kwargs :: alert_kwargs where
  "no_kwargs = \<lparr>kw_severity = None, kw_category = None, kw_broker_namespace = None, kw_suppress_minutes = None\<rparr>"

definition multiple_values :: "string \<Rightarrow> exn" where
  "multiple_values arg = raise_exn (Other ''TypeError'') (''send_alert() got multiple values for keyword argument '' @ arg)"

definition send_alert ::
  "(channel \<Rightarrow> alert \<Rightarrow> bool) \<Rightarrow> rat \<Rightarrow> string \<Rightarrow> string \<Rightarrow> severity \<Rightarrow> category \<Rightarrow> string \<Rightarrow> alert_kwargs \<Rightarrow> alert_manager \<Rightarrow>
   (exn + bool) \<times> alert_manager" where
  "send_alert log_fails now title message sv cat component kw m =
     (if kw_severity kw \<noteq> None then (Inl (multiple_values ''severity''), m)
      else if kw_category kw \<noteq> None then (Inl (multiple_values ''category''), m)
      else let a = \<lparr>al_title = title, al_message = message, al_severity = sv, al_category = cat, al_component = component,
                    al_broker_namespace = (case kw_broker_namespace kw of None \<Rightarrow> ''unknown'' | Some b \<Rightarrow> b), al_timestamp = now,
                    al_suppress_minutes = (case kw_suppress_minutes kw of None \<Rightarrow> 60 | Some x \<Rightarrow> x)\<rparr>;
               (b, m') = send_alert_object log_fails a m
           in (Inr b, m'))"

definition critical_alert ::
  "(channel \<Rightarrow> alert \<Rightarrow> bool) \<Rightarrow> rat \<Rightarrow> string \<Rightarrow> string \<Rightarrow> string \<Rightarrow> alert_kwargs \<Rightarrow> alert_manager \<Rightarrow> (exn + bool) \<times> alert_manager" where
  "critical_alert log_fails now title message component kw m =
     send_alert log_fails now title message CRITICAL (case kw_category kw of None \<Rightarrow> SYSTEM | Some c \<Rightarrow> c) component kw m"

definition authentication_alert ::
  "(channel \<Rightarrow> alert \<Rightarrow> bool) \<Rightarrow> rat \<Rightarrow> string \<Rightarrow> string \<Rightarrow> string \<Rightarrow> alert_kwargs \<Rightarrow> alert_manager \<Rightarrow> (exn + bool) \<times> alert_manager" where
  "authentication_alert log_fails now title message component kw m =
     send_alert log_fails now title message CRITICAL AUTHENTICATION component kw m"

definition performance_alert ::
  "(channel \<Rightarrow> alert \<Rightarrow> bool) \<Rightarrow> rat \<Rightarrow> string \<Rightarrow> string \<Rightarrow> string \<Rightarrow> alert_kwargs \<Rightarrow> alert_manager \<Rightarrow> (exn + bool) \<times> alert_manager" where
  "performance_alert log_fails now title message component kw m =
     send_alert log_fails now title message (case kw_severity kw of None \<Rightarrow> MEDIUM | Some x \<Rightarrow> x) PERFORMANCE component kw m"

subsection \<open>Runs of the manager\<close>

text \<open>The alerts handed in, each with the outcome of the channels; the alerts that went out.\<close>

fun alert_run :: "alert_manager \<Rightarrow> ((channel \<Rightarrow> alert \<Rightarrow> bool) \<times> alert) list \<Rightarrow> alert list \<times> alert_manager" where
  "alert_run m [] = ([], m)"
| "alert_run m ((lf, a) # rest) =
     (let (b, m1) = send_alert_object lf a m; (out, m2) = alert_run m1 rest in (if b then a # out else out, m2))"

definition alerts_ok :: "alert_manager \<Rightarrow> bool" where
  "alerts_ok m = (length (am_history m) \<le> 1000 \<and> length (am_history m) \<le> am_sent m \<and> (am_history m = [] \<longleftrightarrow> am_sent m = 0))"

lemma push_pos: "0 < n \<Longrightarrow> push n x xs \<noteq> []"
  by (simp add: push_def Let_def)

lemma send_alert_ok: "alerts_ok m \<Longrightarrow> alerts_ok (snd (send_alert_object lf a m))"
  using length_push [of 1000 a "am_history m"]
  by (auto simp: alerts_ok_def send_alert_object_def add_to_suppression_cache_def push_pos) (auto simp: push_def Let_def)

text \<open>No alert goes out within the suppression time of an earlier one with the same key.\<close>

definition spaced :: "alert list \<Rightarrow> bool" where
  "spaced = sorted_wrt (\<lambda>a b. suppression_key a = suppression_key b \<longrightarrow> al_suppress_minutes b \<le> (al_timestamp b - al_timestamp a) / 60)"

lemma send_alert_counts:
  "am_sent (snd (send_alert_object lf a m)) = am_sent m + (if fst (send_alert_object lf a m) then 1 else 0)"
  "am_sent (snd (send_alert_object lf a m)) + am_suppressed_count (snd (send_alert_object lf a m)) + am_failed (snd (send_alert_object lf a m)) =
     Suc (am_sent m + am_suppressed_count m + am_failed m)"
  by (auto simp: send_alert_object_def add_to_suppression_cache_def)

lemma alert_run_counts:
  assumes "alert_run m es = (out, m')" "alerts_ok m"
  shows "alerts_ok m' \<and> am_sent m' = am_sent m + length out \<and>
     am_sent m' + am_suppressed_count m' + am_failed m' = am_sent m + am_suppressed_count m + am_failed m + length es"
  using assms
proof (induction m es arbitrary: out rule: alert_run.induct)
  case (2 m lf a rest)
  obtain b m1 where 1: "send_alert_object lf a m = (b, m1)" by fastforce
  obtain out1 where 2: "alert_run m1 rest = (out1, m')" and out: "out = (if b then a # out1 else out1)"
    using "2.prems"(1) 1 by (auto split: prod.splits)
  have "alerts_ok m1" using send_alert_ok [OF "2.prems"(2), of lf a] 1 by simp
  from "2.IH" [OF 1 [symmetric] refl 2 this]
  have "alerts_ok m' \<and> am_sent m' = am_sent m1 + length out1 \<and>
     am_sent m' + am_suppressed_count m' + am_failed m' = am_sent m1 + am_suppressed_count m1 + am_failed m1 + length rest" .
  with send_alert_counts [of lf a m] 1 out show ?case by (auto split: if_splits)
qed simp

lemma alert_run_spaced:
  assumes "\<forall>(lf, a) \<in> set es. 0 \<le> al_suppress_minutes a" "alert_run m es = (out, m')"
  shows "spaced out \<and> (\<forall>b \<in> set out. \<forall>t. am_suppressed m (suppression_key b) = Some t \<longrightarrow> al_suppress_minutes b \<le> (al_timestamp b - t) / 60)"
  using assms
proof (induction m es arbitrary: out rule: alert_run.induct)
  case (2 m lf a rest)
  obtain b m1 where 1: "send_alert_object lf a m = (b, m1)" by fastforce
  obtain out1 where 2: "alert_run m1 rest = (out1, m')" and out: "out = (if b then a # out1 else out1)"
    using "2.prems"(2) 1 by (auto split: prod.splits)
  from "2.IH" [OF _ _ _ 2] 1 2 "2.prems"(1)
  have ih: "spaced out1" "\<And>x t. x \<in> set out1 \<Longrightarrow> am_suppressed m1 (suppression_key x) = Some t \<Longrightarrow> al_suppress_minutes x \<le> (al_timestamp x - t) / 60"
    by auto
  show ?case
  proof (cases b)
    case False
    with 1 have "am_suppressed m1 = am_suppressed m" by (auto simp: send_alert_object_def split: if_splits)
    with False out ih show ?thesis by simp
  next
    case True
    with 1 have m1: "am_suppressed m1 = (am_suppressed m)(suppression_key a \<mapsto> al_timestamp a)" and ns: "\<not> is_suppressed a m"
      by (auto simp: send_alert_object_def add_to_suppression_cache_def split: if_splits)
    have a0: "al_suppress_minutes a \<le> (al_timestamp a - t) / 60" if "am_suppressed m (suppression_key a) = Some t" for t
      using ns that by (simp add: is_suppressed_def)
    have same: "al_suppress_minutes x \<le> (al_timestamp x - al_timestamp a) / 60" if "x \<in> set out1" "suppression_key x = suppression_key a" for x
      using ih(2) [OF that(1), of "al_timestamp a"] that(2) m1 by simp
    have "al_suppress_minutes x \<le> (al_timestamp x - t) / 60"
      if x: "x \<in> set out1" and t: "am_suppressed m (suppression_key x) = Some t" for x t
    proof (cases "suppression_key x = suppression_key a")
      case True
      have "0 \<le> al_suppress_minutes a" using "2.prems"(1) by auto
      with a0 [of t] t True have "t \<le> al_timestamp a" by simp
      with same [OF x True] show ?thesis by simp
    next
      case False
      with ih(2) [OF x, of t] t m1 show ?thesis by simp
    qed
    with True out ih(1) same a0 show ?thesis by (auto simp: spaced_def)
  qed
qed (simp add: spaced_def)

text \<open>C35: Alerts are spaced and accounted for. Whatever alerts are handed to a new manager, and whichever channels fail,
  two alerts that go out with the same component, category and title are at least the suppression time of
  the later one apart; every alert counts as sent, suppressed or failed; and the history
  never holds more than a thousand.\<close>

theorem alerts_are_spaced:
  assumes "\<forall>(lf, a) \<in> set es. 0 \<le> al_suppress_minutes a" "alert_run (configure_alerting e s p) es = (out, m')"
  shows "spaced out \<and> am_sent m' = length out \<and> am_sent m' + am_suppressed_count m' + am_failed m' = length es \<and> length (am_history m') \<le> 1000"
proof -
  have init: "alerts_ok (configure_alerting e s p)" "am_sent (configure_alerting e s p) = 0" "am_suppressed_count (configure_alerting e s p) = 0"
    "am_failed (configure_alerting e s p) = 0"
    by (auto simp: alerts_ok_def configure_alerting_def alert_manager_init_def add_channel_def Let_def)
  from alert_run_counts [OF assms(2) init(1)] alert_run_spaced [OF assms] init show ?thesis by (auto simp: alerts_ok_def)
qed

definition demo_alert :: "string \<Rightarrow> rat \<Rightarrow> alert" where
  "demo_alert broker t = \<lparr>al_title = ''Feed down'', al_message = ''m'', al_severity = CRITICAL, al_category = MARKET_DATA, al_component = ''feed'',
     al_broker_namespace = broker, al_timestamp = t, al_suppress_minutes = 60\<rparr>"

text \<open>An alert for one broker suppresses the same alert for another: the key does not hold the broker.\<close>

lemma other_broker_suppressed:
  assumes "send_alert_object lf a m = (True, m1)" "t - al_timestamp a < 60 * al_suppress_minutes a"
  shows "\<not> fst (send_alert_object lf' (a\<lparr>al_broker_namespace := b, al_timestamp := t\<rparr>) m1)"
  using assms by (auto simp: send_alert_object_def is_suppressed_def suppression_key_def add_to_suppression_cache_def split: if_splits)

theorem alerts_are_spaced_witness:
  "\<exists>out m'. alert_run (configure_alerting True True False)
       [(\<lambda>_ _. False, demo_alert ''paper'' 0), (\<lambda>_ _. False, demo_alert ''zerodha'' 1800), (\<lambda>_ _. False, demo_alert ''paper'' 3600)] = (out, m') \<and>
     out = [demo_alert ''paper'' 0, demo_alert ''paper'' 3600] \<and> am_suppressed_count m' = 1"
proof -
  let ?es = "[(\<lambda>_ _. False, demo_alert ''paper'' 0), (\<lambda>_ _. False, demo_alert ''zerodha'' 1800), (\<lambda>_ _. False, demo_alert ''paper'' 3600)]
    :: ((channel \<Rightarrow> alert \<Rightarrow> bool) \<times> alert) list"
  obtain out m' where run: "alert_run (configure_alerting True True False) ?es = (out, m')" by fastforce
  have out: "out = [demo_alert ''paper'' 0, demo_alert ''paper'' 3600]"
    using run by (simp add: demo_alert_def configure_alerting_def alert_manager_init_def add_channel_def send_alert_object_def is_suppressed_def
        success_count_def suppression_key_def add_to_suppression_cache_def)
  have fails: "am_failed m' = 0"
    using run by (auto simp: demo_alert_def configure_alerting_def alert_manager_init_def add_channel_def send_alert_object_def is_suppressed_def
        success_count_def suppression_key_def add_to_suppression_cache_def)
  from alerts_are_spaced [OF _ run] out fails run show ?thesis by (simp add: demo_alert_def)
qed

end
