(* ===== verification/Health_Checker.thy ===== *)
theory Health_Checker
  imports Alerting Pipeline_Monitoring
begin

text \<open>
  ServiceHealthChecker (core/health/health_checker.py): the checks, how their results are
  interpreted and combined, and the alerts sent. What a check function does when it is called is
  an outcome: it returns a boolean, a dictionary or another value, times out, or raises. The
  checks themselves are functions of what they find outside (a session, a ping, a percentage, the
  contents of Redis). The details of a dictionary are only passed on and are left out.
\<close>

subsection \<open>Results\<close>

datatype health_status = HEALTHY | DEGRADED | UNHEALTHY | UNKNOWN

fun status_value :: "health_status \<Rightarrow> string" where
  "status_value HEALTHY = ''healthy''"
| "status_value DEGRADED = ''degraded''"
| "status_value UNHEALTHY = ''unhealthy''"
| "status_value UNKNOWN = ''unknown''"

text \<open>\<open>HealthStatus.__members__\<close> is keyed by the names of the members, not by their values.\<close>

definition status_members :: "string list" where
  "status_members = [''HEALTHY'', ''DEGRADED'', ''UNHEALTHY'', ''UNKNOWN'']"

definition status_of_value :: "string \<Rightarrow> exn + health_status" where
  "status_of_value v =
     (case find (\<lambda>st. status_value st = v) [HEALTHY, DEGRADED, UNHEALTHY, UNKNOWN] of
        Some st \<Rightarrow> Inr st
      | None \<Rightarrow> Inl (raise_exn (Other ''ValueError'') (v @ '' is not a valid HealthStatus'')))"

datatype outcome = CBool bool | CDict "(string \<times> json) list" | COther json | CTimeout | CRaise exn

record health_check =
  hc_name :: string
  hc_component :: string
  hc_timeout :: rat
  hc_critical :: bool
  hc_enabled :: bool
  hc_outcome :: outcome

record health_result =
  hr_name :: string
  hr_component :: string
  hr_status :: health_status
  hr_message :: json
  hr_error :: "string option"

text \<open>The status of a dictionary; a key that cannot be hashed raises.\<close>

definition dict_status :: "(string \<times> json) list \<Rightarrow> exn + health_status" where
  "dict_status d =
     (case jget d ''status'' of
        None \<Rightarrow> Inr UNKNOWN
      | Some (JStr v) \<Rightarrow> if v \<in> set status_members then status_of_value v else Inr UNKNOWN
      | Some (JList _) \<Rightarrow> Inl (raise_exn (Other ''TypeError'') ''unhashable type'')
      | Some (JObj _) \<Rightarrow> Inl (raise_exn (Other ''TypeError'') ''unhashable type'')
      | Some _ \<Rightarrow> Inr UNKNOWN)"

definition mk_result :: "health_check \<Rightarrow> health_status \<Rightarrow> json \<Rightarrow> string option \<Rightarrow> health_result" where
  "mk_result c st msg err =
     \<lparr>hr_name = hc_name c, hr_component = hc_component c, hr_status = st, hr_message = msg, hr_error = err\<rparr>"

definition raised_result :: "health_check \<Rightarrow> exn \<Rightarrow> health_result" where
  "raised_result c e = mk_result c UNHEALTHY (JStr (''Health check failed: '' @ exn_msg e)) (Some (exn_msg e))"

definition run_health_check :: "health_check \<Rightarrow> health_result" where
  "run_health_check c =
     (if \<not> hc_enabled c then mk_result c UNKNOWN (JStr ''Health check disabled'') None
      else case hc_outcome c of
          CBool b \<Rightarrow> mk_result c (if b then HEALTHY else UNHEALTHY) (JStr (if b then ''Check passed'' else ''Check failed'')) None
        | CDict d \<Rightarrow>
            (case dict_status d of
               Inl e \<Rightarrow> raised_result c e
             | Inr st \<Rightarrow> mk_result c st (case jget d ''message'' of None \<Rightarrow> JStr ''No message provided'' | Some m \<Rightarrow> m) None)
        | COther v \<Rightarrow> mk_result c (if py_truthy v then HEALTHY else UNHEALTHY)
                        (if py_truthy v then JStr (py_str v) else JStr ''Check failed'') None
        | CTimeout \<Rightarrow> mk_result c UNHEALTHY (JStr (''Health check timed out after '' @ show_float (hc_timeout c) @ ''s'')) (Some ''timeout'')
        | CRaise e \<Rightarrow> raised_result c e)"

subsection \<open>The overall status\<close>

record overall =
  ov_status :: health_status
  ov_checks :: "(string \<times> health_result) list"
  ov_total :: nat
  ov_healthy :: nat
  ov_degraded :: nat
  ov_critical :: "health_result list"
  ov_non_critical :: "health_result list"

definition run_checks :: "health_check list \<Rightarrow> (string \<times> health_result) list" where
  "run_checks cs = fold (\<lambda>c d. dict_set (hc_name c) (run_health_check c) d) (filter hc_enabled cs) []"

definition failing :: "health_status \<Rightarrow> bool" where
  "failing st = (st = DEGRADED \<or> st = UNHEALTHY)"

fun tally :: "(string \<times> health_result) list \<Rightarrow> health_check list \<Rightarrow> overall \<Rightarrow> overall" where
  "tally results [] acc = acc"
| "tally results (c # cs) acc =
     tally results cs
       (case map_of results (hc_name c) of
          None \<Rightarrow> acc
        | Some r \<Rightarrow>
            (let acc1 = (if hr_status r = HEALTHY then acc\<lparr>ov_healthy := ov_healthy acc + 1\<rparr>
                         else if hr_status r = DEGRADED then acc\<lparr>ov_degraded := ov_degraded acc + 1\<rparr> else acc)
             in if \<not> failing (hr_status r) then acc1
                else if hc_critical c then acc1\<lparr>ov_critical := ov_critical acc1 @ [r]\<rparr>
                else acc1\<lparr>ov_non_critical := ov_non_critical acc1 @ [r]\<rparr>))"

definition get_overall_health :: "health_check list \<Rightarrow> overall" where
  "get_overall_health cs =
     (let results = run_checks cs;
          acc = tally results cs \<lparr>ov_status = UNKNOWN, ov_checks = results, ov_total = length cs, ov_healthy = 0, ov_degraded = 0,
                                  ov_critical = [], ov_non_critical = []\<rparr>
      in acc\<lparr>ov_status := (if ov_critical acc \<noteq> [] then UNHEALTHY
                           else if ov_non_critical acc \<noteq> [] \<or> ov_degraded acc > 0 then DEGRADED else HEALTHY)\<rparr>)"

subsection \<open>Alerts\<close>

definition alert_category_for_component :: "string \<Rightarrow> category" where
  "alert_category_for_component component =
     (if component = ''authentication'' then AUTHENTICATION
      else if component = ''streaming'' \<or> component = ''pipeline'' then PIPELINE else SYSTEM)"

text \<open>Both calls in the loop name the variable broker, which is not defined; the arguments are
  evaluated before the call.\<close>

definition name_error :: exn where
  "name_error = raise_exn (Other ''NameError'') ''name broker is not defined''"

fun alert_checks :: "(string \<times> health_result) list \<Rightarrow> exn option" where
  "alert_checks [] = None"
| "alert_checks ((n, r) # rest) =
     (if hr_status r = UNHEALTHY then Some name_error
      else if n = ''zerodha_authentication'' \<and> hr_status r \<noteq> HEALTHY then Some name_error
      else alert_checks rest)"

definition send_health_alerts ::
  "(channel \<Rightarrow> alert \<Rightarrow> bool) \<Rightarrow> rat \<Rightarrow> string list \<Rightarrow> overall \<Rightarrow> alert_manager \<Rightarrow> exn option \<times> alert_manager" where
  "send_health_alerts log_fails now brokers ov m =
     (let (r, m1) = (if ov_status ov = UNHEALTHY
                     then send_alert log_fails now ''System Health Check Failed''
                            (''Alpha Panda system health check failed for brokers '' @ py_str (JList (map JStr brokers)))
                            CRITICAL SYSTEM ''health_checker'' (no_kwargs\<lparr>kw_broker_namespace := Some (join_str '','' brokers)\<rparr>) m
                     else (Inr False, m))
      in case r of Inl e \<Rightarrow> (Some e, m1) | Inr _ \<Rightarrow> (alert_checks (ov_checks ov), m1))"

text \<open>One turn of the periodic task; an exception is logged.\<close>

definition periodic_health_check ::
  "(channel \<Rightarrow> alert \<Rightarrow> bool) \<Rightarrow> rat \<Rightarrow> string list \<Rightarrow> health_check list \<Rightarrow> alert_manager \<Rightarrow> overall \<times> alert_manager" where
  "periodic_health_check log_fails now brokers cs m =
     (let ov = get_overall_health cs in
      (ov, if ov_status ov = HEALTHY then m else snd (send_health_alerts log_fails now brokers ov m)))"

subsection \<open>The checks\<close>

definition check_dict :: "string \<Rightarrow> string \<Rightarrow> outcome" where
  "check_dict st msg = CDict [(''status'', JStr st), (''message'', JStr msg)]"

text \<open>\<open>db\<close>: no manager, or the exception of the query if it raises.\<close>

definition check_postgres_health :: "exn option option \<Rightarrow> outcome" where
  "check_postgres_health db =
     (case db of
        None \<Rightarrow> check_dict ''unknown'' ''Database manager not available''
      | Some None \<Rightarrow> check_dict ''healthy'' ''PostgreSQL connection is healthy''
      | Some (Some e) \<Rightarrow> check_dict ''unhealthy'' (''PostgreSQL connection failed: '' @ exn_msg e))"

definition check_redis_health :: "exn option option \<Rightarrow> outcome" where
  "check_redis_health ping =
     (case ping of
        None \<Rightarrow> check_dict ''unknown'' ''Redis client not available''
      | Some None \<Rightarrow> check_dict ''healthy'' ''Redis connection is healthy''
      | Some (Some e) \<Rightarrow> check_dict ''degraded'' (''Redis connection failed: '' @ exn_msg e))"

text \<open>\<open>is_closed\<close>: no client, or the state of its closed flag.\<close>

definition check_kafka_producer_health :: "bool option \<Rightarrow> outcome" where
  "check_kafka_producer_health is_closed =
     (case is_closed of
        None \<Rightarrow> check_dict ''unknown'' ''Kafka producer not available''
      | Some True \<Rightarrow> check_dict ''unhealthy'' ''Kafka producer is closed''
      | Some False \<Rightarrow> check_dict ''healthy'' ''Kafka producer is healthy'')"

definition check_kafka_consumer_health :: "bool option \<Rightarrow> outcome" where
  "check_kafka_consumer_health is_closed =
     (case is_closed of
        None \<Rightarrow> check_dict ''unknown'' ''Kafka consumer not available''
      | Some True \<Rightarrow> check_dict ''unhealthy'' ''Kafka consumer is closed''
      | Some False \<Rightarrow> check_dict ''healthy'' ''Kafka consumer is healthy'')"

definition check_consumer_lag :: "bool \<Rightarrow> int \<Rightarrow> outcome" where
  "check_consumer_lag has_consumer threshold =
     (let max_lag = 0 in
      if \<not> has_consumer then check_dict ''unknown'' ''Kafka consumer not available''
      else if max_lag > threshold then check_dict ''degraded'' (''Consumer lag is high ('' @ show_int max_lag @ '' messages)'')
      else check_dict ''healthy'' (''Consumer lag is normal ('' @ show_int max_lag @ '' messages)''))"

definition check_memory_usage :: "rat \<Rightarrow> exn + rat \<Rightarrow> outcome" where
  "check_memory_usage threshold percent =
     (case percent of
        Inl e \<Rightarrow> check_dict ''unknown'' (''Memory check failed: '' @ exn_msg e)
      | Inr p \<Rightarrow> if p / 100 < threshold then check_dict ''healthy'' (''Memory usage is normal ('' @ show_fixed 1 p @ ''%)'')
                 else check_dict ''degraded'' (''Memory usage is high ('' @ show_fixed 1 p @ ''%)''))"

definition check_disk_space :: "rat \<Rightarrow> exn + rat \<times> rat \<Rightarrow> outcome" where
  "check_disk_space threshold usage =
     (case usage of
        Inl e \<Rightarrow> check_dict ''unknown'' (''Disk space check failed: '' @ exn_msg e)
      | Inr (used, total_space) \<Rightarrow>
          if total_space = 0 then check_dict ''unknown'' (''Disk space check failed: '' @ ''division by zero'')
          else let u = used / total_space in
            if u < threshold then check_dict ''healthy'' (''Disk usage is normal ('' @ show_fixed 1 (u * 100) @ ''%)'')
            else check_dict ''degraded'' (''Disk usage is high ('' @ show_fixed 1 (u * 100) @ ''%)''))"

definition check_cpu_usage :: "rat \<Rightarrow> exn + rat \<Rightarrow> outcome" where
  "check_cpu_usage threshold percent =
     (case percent of
        Inl e \<Rightarrow> check_dict ''unknown'' (''CPU check failed: '' @ exn_msg e)
      | Inr p \<Rightarrow> if p < threshold * 100 then check_dict ''healthy'' (''CPU usage is normal ('' @ show_fixed 1 p @ ''%)'')
                 else check_dict ''degraded'' (''CPU usage is high ('' @ show_fixed 1 p @ ''%)''))"

text \<open>The age of a recorded activity: the current time is aware of its zone, so subtracting a naive timestamp raises. \<open>aware\<close>
  says whether a timestamp's text carries a zone.\<close>

definition activity_age :: "clock \<Rightarrow> (string \<Rightarrow> bool) \<Rightarrow> int \<Rightarrow> rvalue \<Rightarrow> exn + rat" where
  "activity_age ck aware now v =
     (case v of
        RJson (JObj d) \<Rightarrow>
          (case jget d ''timestamp'' of
             Some (JStr t) \<Rightarrow>
               (case ck_parse ck t of
                  None \<Rightarrow> Inl (raise_exn (Other ''ValueError'') ''Invalid isoformat string'')
                | Some i \<Rightarrow> if aware t then Inr (seconds_between now i)
                            else Inl (raise_exn (Other ''TypeError'') ''can't subtract offset-naive and offset-aware datetimes''))
           | _ \<Rightarrow> Inl (raise_exn (Other ''KeyError'') ''timestamp''))
      | _ \<Rightarrow> Inl (raise_exn (Other ''JSONDecodeError'') ''Expecting value''))"

definition flow_failed :: "string \<Rightarrow> exn \<Rightarrow> outcome" where
  "flow_failed what e = check_dict ''unknown'' (what @ '' flow check failed: '' @ exn_msg e)"

definition check_market_data_flow :: "'r redis \<Rightarrow> clock \<Rightarrow> (string \<Rightarrow> bool) \<Rightarrow> int \<Rightarrow> 'r \<Rightarrow> outcome \<times> 'r" where
  "check_market_data_flow R ck aware now s =
     (case r_get R ''pipeline:market_ticks:market:last'' s of
        (Inl e, s1) \<Rightarrow> (flow_failed ''Market data'' e, s1)
      | (Inr v, s1) \<Rightarrow>
          if \<not> present v then (check_dict ''degraded'' ''No recent market data activity found'', s1)
          else case activity_age ck aware now (the v) of
              Inl e \<Rightarrow> (flow_failed ''Market data'' e, s1)
            | Inr age \<Rightarrow>
                if age > 30 then (check_dict ''degraded'' (''Market data is stale ('' @ show_fixed 1 age @ ''s old)''), s1)
                else case r_get R ''pipeline:market_ticks:market:count'' s1 of
                    (Inl e, s2) \<Rightarrow> (flow_failed ''Market data'' e, s2)
                  | (Inr c, s2) \<Rightarrow>
                      (case count_of c of
                         Inl e \<Rightarrow> flow_failed ''Market data'' e
                       | Inr n \<Rightarrow> check_dict ''healthy'' (''Market data flowing normally ('' @ show_int n @ '' ticks/min)''), s2))"

definition flow_broker :: "string list \<Rightarrow> string" where
  "flow_broker active_brokers = (case active_brokers of [] \<Rightarrow> ''paper'' | b # _ \<Rightarrow> b)"

definition check_signal_generation_flow :: "'r redis \<Rightarrow> clock \<Rightarrow> (string \<Rightarrow> bool) \<Rightarrow> string list \<Rightarrow> int \<Rightarrow> 'r \<Rightarrow> outcome \<times> 'r" where
  "check_signal_generation_flow R ck aware brokers now s =
     (case r_get R (build_key ''signals'' (flow_broker brokers) ''last'') s of
        (Inl e, s1) \<Rightarrow> (flow_failed ''Signal generation'' e, s1)
      | (Inr v, s1) \<Rightarrow>
     (case r_get R (build_key ''signals'' (flow_broker brokers) ''count'') s1 of
        (Inl e, s2) \<Rightarrow> (flow_failed ''Signal generation'' e, s2)
      | (Inr c, s2) \<Rightarrow>
          (case count_of c of
             Inl e \<Rightarrow> flow_failed ''Signal generation'' e
           | Inr n \<Rightarrow>
               if \<not> present v then check_dict ''healthy'' ''No recent signals generated (may be normal during low volatility)''
               else case activity_age ck aware now (the v) of
                   Inl e \<Rightarrow> flow_failed ''Signal generation'' e
                 | Inr age \<Rightarrow>
                     if age > 300 \<and> n = 0 then check_dict ''degraded'' ''No signals generated in 5.0 minutes''
                     else check_dict ''healthy'' (''Signal generation active ('' @ show_int n @ '' signals in 5min)''), s2)))"

definition order_verdict :: "int \<Rightarrow> int \<Rightarrow> outcome" where
  "order_verdict filled failed =
     (let total_orders = filled + failed;
          success_rate = (if total_orders > 0 then of_int filled / of_int total_orders * 100 else (100 :: rat))
      in if success_rate < 80 \<and> total_orders > 5
         then check_dict ''degraded'' (''Low order success rate ('' @ show_fixed 1 success_rate @ ''%)'')
         else if failed > filled \<and> total_orders > 10
         then check_dict ''degraded'' (''More failed than successful orders ('' @ show_int failed @ ''F vs '' @ show_int filled @ ''S)'')
         else check_dict ''healthy'' (''Order processing normal ('' @ show_int total_orders @ '' orders, '' @ show_fixed 1 success_rate @ ''% success)''))"

text \<open>The key of the failed orders is that of the filled ones.\<close>

definition check_order_flow :: "'r redis \<Rightarrow> clock \<Rightarrow> (string \<Rightarrow> bool) \<Rightarrow> string list \<Rightarrow> int \<Rightarrow> 'r \<Rightarrow> outcome \<times> 'r" where
  "check_order_flow R ck aware brokers now s =
     (let b = flow_broker brokers; filled_key = build_key ''orders'' b ''count''; failed_key = build_key ''orders'' b ''count'' in
      case r_get R (build_key ''orders'' b ''last'') s of
        (Inl e, s1) \<Rightarrow> (flow_failed ''Order'' e, s1)
      | (Inr v, s1) \<Rightarrow>
     (case r_get R filled_key s1 of
        (Inl e, s2) \<Rightarrow> (flow_failed ''Order'' e, s2)
      | (Inr c, s2) \<Rightarrow>
     (case r_get R failed_key s2 of
        (Inl e, s3) \<Rightarrow> (flow_failed ''Order'' e, s3)
      | (Inr c', s3) \<Rightarrow>
          (case count_of c of
             Inl e \<Rightarrow> flow_failed ''Order'' e
           | Inr filled \<Rightarrow>
               (case count_of c' of
                  Inl e \<Rightarrow> flow_failed ''Order'' e
                | Inr failed \<Rightarrow>
                    if \<not> present v \<and> filled + failed = 0
                    then check_dict ''healthy'' ''No recent order activity (normal during low signal periods)''
                    else if present v
                    then (case activity_age ck aware now (the v) of Inl e \<Rightarrow> flow_failed ''Order'' e | Inr age \<Rightarrow> order_verdict filled failed)
                    else order_verdict filled failed), s3))))"

definition parse_ver :: "string \<Rightarrow> int list" where
  "parse_ver v =
     (let parts = split_on (CHR ''.'') v; ns = map read_int (take 3 parts) in
      if None \<in> set ns then [0, 0, 0] else map the ns @ replicate (3 - length parts) 0)"

fun lex_less :: "int list \<Rightarrow> int list \<Rightarrow> bool" where
  "lex_less (x # xs) (y # ys) = (x < y \<or> (x = y \<and> lex_less xs ys))"
| "lex_less [] (y # ys) = True"
| "lex_less xs [] = False"

text \<open>The version of aiokafka or the exception of its import, Python's version, and the configured servers.\<close>

definition check_kafka_runtime_compatibility :: "exn + string \<Rightarrow> int \<Rightarrow> int \<Rightarrow> string \<Rightarrow> outcome" where
  "check_kafka_runtime_compatibility imported py_major py_minor servers =
     (case imported of
        Inl e \<Rightarrow> check_dict ''unhealthy'' (''aiokafka not importable: '' @ exn_msg e)
      | Inr v \<Rightarrow>
          (let py = show_int py_major @ ''.'' @ show_int py_minor;
               old = (\<not> lex_less [py_major, py_minor] [3, 13] \<and> lex_less (parse_ver v) [0, 12, 0]);
               missing = list_all (\<lambda>ch. ch \<in> {CHR '' '', CHR 0x09, CHR 0x0A, CHR 0x0B, CHR 0x0C, CHR 0x0D}) servers;
               msg = (if old then ''aiokafka '' @ v @ '' may not support Python '' @ py @ ''. Require >= 0.12.0.''
                      else ''aiokafka '' @ v @ '' on Python '' @ py)
           in check_dict (if old then ''unhealthy'' else if missing then ''degraded'' else ''healthy'')
                (if missing then msg @ '', bootstrap_servers not configured'' else msg)))"

text \<open>No service; or whether it is authenticated and whether a profile is found, each possibly raising.\<close>

definition check_zerodha_auth_health :: "((exn + bool) \<times> (exn + bool)) option \<Rightarrow> outcome" where
  "check_zerodha_auth_health auth =
     (case auth of
        None \<Rightarrow> check_dict ''unhealthy'' ''Auth service not available - system cannot operate without Zerodha authentication''
      | Some (Inl e, _) \<Rightarrow> check_dict ''unhealthy'' (''Zerodha authentication check failed: '' @ exn_msg e)
      | Some (Inr False, _) \<Rightarrow> check_dict ''unhealthy'' ''Zerodha authentication is not active - system requires valid Zerodha session''
      | Some (Inr True, Inl e) \<Rightarrow> check_dict ''unhealthy'' (''Zerodha authentication check failed: '' @ exn_msg e)
      | Some (Inr True, Inr False) \<Rightarrow> check_dict ''unhealthy'' ''Zerodha session is invalid - cannot retrieve user profile''
      | Some (Inr True, Inr True) \<Rightarrow> check_dict ''healthy'' ''Zerodha authentication is active and valid'')"

text \<open>The checks registered for the clients at hand; \<open>out\<close> gives the outcome of each.\<close>

definition default_checks :: "bool \<Rightarrow> bool \<Rightarrow> bool \<Rightarrow> bool \<Rightarrow> (string \<Rightarrow> outcome) \<Rightarrow> health_check list" where
  "default_checks db redis kafka flow out =
     (let chk = (\<lambda>(n, comp, crit). \<lparr>hc_name = n, hc_component = comp, hc_timeout = 5, hc_critical = crit, hc_enabled = True, hc_outcome = out n\<rparr>) in
      map chk
       ([(''zerodha_authentication'', ''authentication'', True)] @
        (if db then [(''postgres_connection'', ''database'', True)] else []) @
        (if redis then [(''redis_connection'', ''cache'', False)] else []) @
        [(''kafka_runtime_compatibility'', ''streaming'', True)] @
        (if kafka then [(''kafka_producer'', ''streaming'', True), (''kafka_consumer'', ''streaming'', True), (''consumer_lag'', ''streaming'', False)] else []) @
        [(''memory_usage'', ''system'', False), (''disk_space'', ''system'', False), (''cpu_usage'', ''system'', False)] @
        (if flow then [(''market_data_flow'', ''pipeline'', True), (''signal_generation_flow'', ''pipeline'', True), (''order_flow'', ''pipeline'', True)] else [])))"

subsection \<open>What the overall status says\<close>

lemma map_of_run_checks:
  "distinct (map hc_name cs) \<Longrightarrow> map_of (run_checks cs) n =
     (case find (\<lambda>c. hc_name c = n) (filter hc_enabled cs) of None \<Rightarrow> None | Some c \<Rightarrow> Some (run_health_check c))"
proof -
  assume d: "distinct (map hc_name cs)"
  have gen: "map_of (fold (\<lambda>c d. dict_set (hc_name c) (run_health_check c) d) es acc) n =
      (case find (\<lambda>c. hc_name c = n) es of None \<Rightarrow> map_of acc n | Some c \<Rightarrow> Some (run_health_check c))"
    if "distinct (map hc_name es)" for es acc
    using that
  proof (induction es arbitrary: acc)
    case (Cons c es)
    have "find (\<lambda>x. hc_name x = n) es = None" if "hc_name c = n"
      using Cons.prems that by (simp add: find_None_iff) (metis imageI)
    with Cons show ?case by (auto split: option.splits)
  qed simp
  have "distinct (map hc_name (filter hc_enabled cs))" using d by (simp add: distinct_map_filter)
  from gen [OF this, of "[]"] show ?thesis by (simp add: run_checks_def split: option.splits)
qed

lemma map_of_run_checks_mem:
  assumes "distinct (map hc_name cs)" "c \<in> set cs"
  shows "map_of (run_checks cs) (hc_name c) = (if hc_enabled c then Some (run_health_check c) else None)"
proof -
  have same: "x = c" if "x \<in> set cs" "hc_name x = hc_name c" for x using assms that by (auto simp: distinct_map dest: inj_onD)
  show ?thesis
  proof (cases "find (\<lambda>x. hc_name x = hc_name c) (filter hc_enabled cs)")
    case None
    with assms(2) have "\<not> hc_enabled c" by (auto simp: find_None_iff)
    with None assms(1) show ?thesis by (simp add: map_of_run_checks)
  next
    case (Some x)
    then have "x \<in> set (filter hc_enabled cs)" "hc_name x = hc_name c" by (metis (mono_tags, lifting) find_Some_iff nth_mem)+
    with same have "x = c" "hc_enabled c" by auto
    with Some assms(1) show ?thesis by (simp add: map_of_run_checks)
  qed
qed

lemma tally_parts:
  fixes results :: "(string \<times> health_result) list"
  defines "found \<equiv> \<lambda>c. map_of results (hc_name c)"
  shows "ov_critical (tally results cs acc) = ov_critical acc @
       map (the \<circ> found) (filter (\<lambda>c. hc_critical c \<and> found c \<noteq> None \<and> failing (hr_status (the (found c)))) cs)"
    "ov_non_critical (tally results cs acc) = ov_non_critical acc @
       map (the \<circ> found) (filter (\<lambda>c. \<not> hc_critical c \<and> found c \<noteq> None \<and> failing (hr_status (the (found c)))) cs)"
    "ov_degraded (tally results cs acc) = ov_degraded acc +
       length (filter (\<lambda>c. found c \<noteq> None \<and> hr_status (the (found c)) = DEGRADED) cs)"
    "ov_checks (tally results cs acc) = ov_checks acc"
  unfolding found_def
  by (induction results cs acc rule: tally.induct) (auto simp: failing_def Let_def split: option.splits)

text \<open>How the overall status is decided. With differently named checks, the system is unhealthy exactly when an enabled
  critical check comes out degraded or unhealthy; otherwise degraded exactly when another enabled check does;
  and healthy in every other case, unknown results included.\<close>

lemma overall_health_decides:
  assumes d: "distinct (map hc_name cs)"
  shows "ov_status (get_overall_health cs) =
     (if \<exists>c \<in> set cs. hc_enabled c \<and> hc_critical c \<and> failing (hr_status (run_health_check c)) then UNHEALTHY
      else if \<exists>c \<in> set cs. hc_enabled c \<and> failing (hr_status (run_health_check c)) then DEGRADED else HEALTHY)"
proof -
  let ?r = "run_checks cs"
  define acc where "acc = tally ?r cs \<lparr>ov_status = UNKNOWN, ov_checks = ?r, ov_total = length cs, ov_healthy = 0, ov_degraded = 0,
                                  ov_critical = [], ov_non_critical = []\<rparr>"
  have f: "(map_of ?r (hc_name c) \<noteq> None \<and> P (the (map_of ?r (hc_name c)))) \<longleftrightarrow> (hc_enabled c \<and> P (run_health_check c))"
    if "c \<in> set cs" for c P using map_of_run_checks_mem [OF d that] by simp
  have crit: "ov_critical acc \<noteq> [] \<longleftrightarrow> (\<exists>c \<in> set cs. hc_critical c \<and> hc_enabled c \<and> failing (hr_status (run_health_check c)))"
    using f [of _ "\<lambda>r. failing (hr_status r)"] by (simp add: acc_def tally_parts filter_empty_conv) blast
  have non: "ov_non_critical acc \<noteq> [] \<longleftrightarrow> (\<exists>c \<in> set cs. \<not> hc_critical c \<and> hc_enabled c \<and> failing (hr_status (run_health_check c)))"
    using f [of _ "\<lambda>r. failing (hr_status r)"] by (simp add: acc_def tally_parts filter_empty_conv) blast
  have degr: "0 < ov_degraded acc \<longleftrightarrow> (\<exists>c \<in> set cs. hc_enabled c \<and> hr_status (run_health_check c) = DEGRADED)"
    using f [of _ "\<lambda>r. hr_status r = DEGRADED"] by (simp add: acc_def tally_parts filter_empty_conv length_greater_0_conv del: length_0_conv)
  have "ov_status (get_overall_health cs) = (if ov_critical acc \<noteq> [] then UNHEALTHY
      else if ov_non_critical acc \<noteq> [] \<or> ov_degraded acc > 0 then DEGRADED else HEALTHY)"
    by (simp add: get_overall_health_def Let_def acc_def)
  moreover have "failing DEGRADED" by (simp add: failing_def)
  ultimately show ?thesis unfolding crit non degr by (smt (verit))
qed

text \<open>What the checks report is ignored. Every default check answers with a dictionary whose status is one of the
  lower-case words; the lookup among the upper-case member names never finds it. So as long as no check
  raises or times out, the system is healthy, whatever the checks report.\<close>

theorem reported_statuses_ignored:
  assumes "\<forall>n. \<exists>st msg. out n = check_dict (status_value st) msg"
  shows "ov_status (get_overall_health (default_checks db redis kafka flow out)) = HEALTHY"
proof -
  have unknown: "dict_status [(''status'', JStr (status_value st)), (''message'', msg)] = Inr UNKNOWN" for st msg
    by (cases st) (simp_all add: dict_status_def jget_def status_members_def)
  have "hr_status (run_health_check c) = UNKNOWN" if c: "c \<in> set (default_checks db redis kafka flow out)" for c
  proof -
    from c have e: "hc_outcome c = out (hc_name c)" "hc_enabled c" by (auto simp: default_checks_def split: if_splits)
    with assms obtain st msg where "hc_outcome c = check_dict (status_value st) msg" by metis
    with e(2) unknown show ?thesis unfolding run_health_check_def by (simp add: check_dict_def mk_result_def)
  qed
  moreover have "distinct (map hc_name (default_checks db redis kafka flow out))"
    by (cases db; cases redis; cases kafka; cases flow) (simp_all add: default_checks_def)
  ultimately show ?thesis by (simp add: overall_health_decides failing_def)
qed

theorem reported_statuses_ignored_witness:
  "ov_status (get_overall_health (default_checks True True True True
     (\<lambda>n. if n = ''postgres_connection'' then check_postgres_health (Some (Some name_error)) else check_zerodha_auth_health None))) = HEALTHY"
proof (rule reported_statuses_ignored, rule allI)
  fix n :: string
  have "\<exists>msg. check_postgres_health (Some (Some name_error)) = check_dict (status_value UNHEALTHY) msg"
    unfolding check_postgres_health_def by (simp only: option.case status_value.simps) blast
  moreover have "\<exists>msg. check_zerodha_auth_health None = check_dict (status_value UNHEALTHY) msg"
    unfolding check_zerodha_auth_health_def by (simp only: option.case status_value.simps) blast
  ultimately show "\<exists>st msg. (if n = ''postgres_connection'' then check_postgres_health (Some (Some name_error)) else check_zerodha_auth_health None) =
      check_dict (status_value st) msg"
    by (simp only: split: if_split) blast
qed

lemma checks_answer_in_words:
  "\<exists>st msg. check_postgres_health a = check_dict (status_value st) msg" "\<exists>st msg. check_redis_health a = check_dict (status_value st) msg"
  "\<exists>st msg. check_kafka_producer_health b = check_dict (status_value st) msg" "\<exists>st msg. check_kafka_consumer_health b = check_dict (status_value st) msg"
  "\<exists>st msg. check_consumer_lag x y = check_dict (status_value st) msg" "\<exists>st msg. check_memory_usage t p = check_dict (status_value st) msg"
  "\<exists>st msg. check_disk_space t u = check_dict (status_value st) msg" "\<exists>st msg. check_cpu_usage t p = check_dict (status_value st) msg"
  "\<exists>st msg. check_zerodha_auth_health au = check_dict (status_value st) msg"
  "\<exists>st msg. check_kafka_runtime_compatibility im ma mi bs = check_dict (status_value st) msg"
  "\<exists>st msg. fst (check_market_data_flow R ck aware now s) = check_dict (status_value st) msg"
  "\<exists>st msg. fst (check_signal_generation_flow R ck aware brokers now s) = check_dict (status_value st) msg"
  "\<exists>st msg. fst (check_order_flow R ck aware brokers now s) = check_dict (status_value st) msg"
proof -
  have w: "\<exists>st msg. check_dict v m = check_dict (status_value st) msg" if "v \<in> {''healthy'', ''degraded'', ''unhealthy'', ''unknown''}" for v m
    using that status_value.simps by (metis empty_iff insert_iff)
  note d = check_postgres_health_def check_redis_health_def check_kafka_producer_health_def check_kafka_consumer_health_def check_consumer_lag_def
    check_memory_usage_def check_disk_space_def check_cpu_usage_def check_zerodha_auth_health_def check_kafka_runtime_compatibility_def
    check_market_data_flow_def check_signal_generation_flow_def check_order_flow_def order_verdict_def flow_failed_def Let_def
  show "\<exists>st msg. check_postgres_health a = check_dict (status_value st) msg" "\<exists>st msg. check_redis_health a = check_dict (status_value st) msg"
    "\<exists>st msg. check_kafka_producer_health b = check_dict (status_value st) msg" "\<exists>st msg. check_kafka_consumer_health b = check_dict (status_value st) msg"
    "\<exists>st msg. check_consumer_lag x y = check_dict (status_value st) msg" "\<exists>st msg. check_memory_usage t p = check_dict (status_value st) msg"
    "\<exists>st msg. check_disk_space t u = check_dict (status_value st) msg" "\<exists>st msg. check_cpu_usage t p = check_dict (status_value st) msg"
    "\<exists>st msg. check_zerodha_auth_health au = check_dict (status_value st) msg"
    "\<exists>st msg. check_kafka_runtime_compatibility im ma mi bs = check_dict (status_value st) msg"
    "\<exists>st msg. fst (check_market_data_flow R ck aware now s) = check_dict (status_value st) msg"
    "\<exists>st msg. fst (check_signal_generation_flow R ck aware brokers now s) = check_dict (status_value st) msg"
    "\<exists>st msg. fst (check_order_flow R ck aware brokers now s) = check_dict (status_value st) msg"
    unfolding d by (auto simp: w split: option.splits sum.splits bool.splits prod.splits)
qed

text \<open>Turns of the periodic task: the time, the checks with their outcomes and the channels that fail at each.\<close>

definition health_turns ::
  "string list \<Rightarrow> ((channel \<Rightarrow> alert \<Rightarrow> bool) \<times> rat \<times> health_check list) list \<Rightarrow> alert_manager \<Rightarrow> alert_manager" where
  "health_turns brokers ts m = fold (\<lambda>(lf, now, cs) m. snd (periodic_health_check lf now brokers cs m)) ts m"

lemma send_alert_history:
  "set (am_history (snd (send_alert lf now title msg sv cat component kw m))) \<subseteq> set (am_history m) \<union> {a. al_title a = title}"
proof -
  have p: "set (push k x xs) \<subseteq> insert x (set xs)" for k x and xs :: "alert list"
    unfolding push_def Let_def using set_drop_subset by fastforce
  have o: "set (am_history (snd (send_alert_object lf a m))) \<subseteq> insert a (set (am_history m))" for a
    using p by (auto simp: send_alert_object_def add_to_suppression_cache_def)
  show ?thesis
  proof (cases "kw_severity kw = None \<and> kw_category kw = None")
    case True
    then obtain a where "snd (send_alert lf now title msg sv cat component kw m) = snd (send_alert_object lf a m)" "al_title a = title"
      by (simp add: send_alert_def Let_def case_prod_beta)
    with o [of a] show ?thesis by auto
  qed (auto simp: send_alert_def)
qed

lemma periodic_history:
  "set (am_history (snd (periodic_health_check lf now brokers cs m))) \<subseteq> set (am_history m) \<union> {a. al_title a = ''System Health Check Failed''}"
proof -
  let ?ov = "get_overall_health cs"
  have "snd (send_health_alerts lf now brokers ?ov m) = m \<or>
      (\<exists>msg kw. snd (send_health_alerts lf now brokers ?ov m) =
         snd (send_alert lf now ''System Health Check Failed'' msg CRITICAL SYSTEM ''health_checker'' kw m))"
    unfolding send_health_alerts_def Let_def by (simp add: case_prod_beta split: sum.splits) blast
  then show ?thesis
  proof
    assume "\<exists>msg kw. snd (send_health_alerts lf now brokers ?ov m) =
         snd (send_alert lf now ''System Health Check Failed'' msg CRITICAL SYSTEM ''health_checker'' kw m)"
    then obtain msg kw where "snd (send_health_alerts lf now brokers ?ov m) =
         snd (send_alert lf now ''System Health Check Failed'' msg CRITICAL SYSTEM ''health_checker'' kw m)" by blast
    with send_alert_history [of lf now "''System Health Check Failed''" msg CRITICAL SYSTEM "''health_checker''" kw m]
    show ?thesis by (simp add: periodic_health_check_def Let_def)
  qed (simp add: periodic_health_check_def Let_def)
qed

text \<open>No alert ever names the component that failed. Both alerts of a single check use a variable that is not defined, so however
  many turns the periodic task takes, and whatever the checks find, every alert in the history is the one about the whole system.\<close>

theorem component_alerts_never_sent:
  assumes "a \<in> set (am_history (health_turns brokers ts (configure_alerting email slack pagerduty)))"
  shows "al_title a = ''System Health Check Failed''"
proof -
  have "set (am_history (health_turns brokers ts m)) \<subseteq> set (am_history m) \<union> {a. al_title a = ''System Health Check Failed''}" for m
  proof (induction ts arbitrary: m)
    case (Cons t ts)
    obtain lf now cs where t: "t = (lf, now, cs)" by (cases t)
    show ?case
      using Cons.IH [of "snd (periodic_health_check lf now brokers cs m)"] periodic_history [of lf now brokers cs m]
      by (auto simp: health_turns_def t)
  qed (simp add: health_turns_def)
  from this [of "configure_alerting email slack pagerduty"] assms show ?thesis
    by (auto simp: configure_alerting_def alert_manager_init_def add_channel_def Let_def split: if_splits)
qed

text \<open>The authentication check raises: the system is unhealthy and one alert goes out, not the one about authentication.\<close>

theorem component_alerts_never_sent_witness:
  "let cs = default_checks False False False False (\<lambda>n. if n = ''zerodha_authentication'' then CRaise name_error else CBool True);
       m = health_turns [''paper''] [(\<lambda>_ _. False, 0, cs)] (configure_alerting False False False)
   in length (am_history m) = 1 \<and> al_title (hd (am_history m)) = ''System Health Check Failed''"
proof -
  define cs where "cs = default_checks False False False False (\<lambda>n. if n = ''zerodha_authentication'' then CRaise name_error else CBool True)"
  define m where "m = health_turns [''paper''] [(\<lambda>_ _. False, 0, cs)] (configure_alerting False False False)"
  have "ov_status (get_overall_health cs) = UNHEALTHY"
    by (simp add: cs_def default_checks_def overall_health_decides failing_def run_health_check_def raised_result_def mk_result_def)
  then have l: "length (am_history m) = 1"
    by (simp add: m_def health_turns_def periodic_health_check_def Let_def send_health_alerts_def send_alert_def no_kwargs_def
        send_alert_object_def is_suppressed_def configure_alerting_def alert_manager_init_def add_channel_def success_count_def
        add_to_suppression_cache_def push_def)
  then have "hd (am_history m) \<in> set (am_history m)" by (cases "am_history m") auto
  then have "al_title (hd (am_history m)) = ''System Health Check Failed''" unfolding m_def by (rule component_alerts_never_sent)
  with l show ?thesis by (simp add: cs_def m_def Let_def)
qed

end
