(* ===== verification/Tick_Formatter.thy ===== *)
theory Tick_Formatter
  imports Schemas Py_Format "HOL-Library.Sublist"
begin

text \<open>
  TickFormatter (services/market_feed/formatter.py): a raw tick of the broker's WebSocket becomes a
  market tick. The values of a raw tick are JSON values and datetimes. A datetime is its wall
  clock in microseconds with an optional offset from UTC; reading one from text and rendering an instant are the
  standard library's and given by a calendar. The keys of the formatted dictionary are the
  fields of MarketTick and its values have the types of the fields, so the two steps are one here.
\<close>

record py_time =
  tm_wall :: int
  tm_offset :: "int option"

datatype raw = RTime py_time | RVal json

type_synonym raw_tick = "(string \<times> raw) list"

record calendar =
  cal_iso :: "string \<Rightarrow> py_time option"
  cal_strptime :: "string \<Rightarrow> int option"
  cal_utc :: "int \<Rightarrow> datetime"
  cal_str :: "py_time \<Rightarrow> string"

subsection \<open>Conversions\<close>

definition caught :: "string list \<Rightarrow> exn \<Rightarrow> bool" where
  "caught names e = list_ex (\<lambda>n. isinstance e (Other n)) names"

definition raw_int :: "raw \<Rightarrow> exn + int" where
  "raw_int v =
     (case v of
        RTime t \<Rightarrow> Inl (raise_exn (Other ''TypeError'') ''int() argument must be a string or a number'')
      | RVal j \<Rightarrow>
          (case int_of_json j of
             Some i \<Rightarrow> Inr i
           | None \<Rightarrow>
               (case j of
                  JStr s \<Rightarrow> Inl (raise_exn (Other ''ValueError'') ''invalid literal for int()'')
                | _ \<Rightarrow> Inl (raise_exn (Other ''TypeError'') ''int() argument must be a string or a number''))))"

definition raw_decimal :: "raw \<Rightarrow> exn + rat" where
  "raw_decimal v =
     (case (case v of RTime t \<Rightarrow> None | RVal j \<Rightarrow> dec_of_json j) of
        Some r \<Rightarrow> Inr r
      | None \<Rightarrow> Inl (raise_exn (Other ''InvalidOperation'') ''ConversionSyntax''))"

definition raw_truthy :: "raw \<Rightarrow> bool" where
  "raw_truthy v = (case v of RTime t \<Rightarrow> True | RVal j \<Rightarrow> py_truthy j)"

definition raw_str :: "calendar \<Rightarrow> raw \<Rightarrow> string" where
  "raw_str C v = (case v of RTime t \<Rightarrow> cal_str C t | RVal j \<Rightarrow> py_str j)"

text \<open>\<open>raw_tick[k]\<close>, and a field that is converted when its key is there.\<close>

definition required :: "raw_tick \<Rightarrow> string \<Rightarrow> (raw \<Rightarrow> exn + 'a) \<Rightarrow> exn + 'a" where
  "required t k f = (case map_of t k of None \<Rightarrow> Inl (raise_exn (Other ''KeyError'') k) | Some v \<Rightarrow> f v)"

definition optional :: "raw_tick \<Rightarrow> string \<Rightarrow> (raw \<Rightarrow> exn + 'a) \<Rightarrow> exn + 'a option" where
  "optional t k f = (case map_of t k of None \<Rightarrow> Inr None | Some v \<Rightarrow> (case f v of Inl e \<Rightarrow> Inl e | Inr x \<Rightarrow> Inr (Some x)))"

subsection \<open>Timestamps\<close>

definition instant :: "py_time \<Rightarrow> int" where
  "instant t = (case tm_offset t of None \<Rightarrow> tm_wall t | Some off \<Rightarrow> tm_wall t - off)"

definition normalize_to_utc :: "calendar \<Rightarrow> int \<Rightarrow> raw \<Rightarrow> int" where
  "normalize_to_utc C now v =
     (case v of
        RTime t \<Rightarrow> instant t
      | RVal (JStr s) \<Rightarrow>
          (case cal_iso C s of
             Some t \<Rightarrow> instant t
           | None \<Rightarrow> (case cal_strptime C s of Some i \<Rightarrow> i | None \<Rightarrow> now))
      | RVal _ \<Rightarrow> now)"

definition raw_get :: "raw_tick \<Rightarrow> string \<Rightarrow> raw" where
  "raw_get t k = (case map_of t k of None \<Rightarrow> RVal JNull | Some v \<Rightarrow> v)"

definition format_timestamp :: "calendar \<Rightarrow> int \<Rightarrow> raw_tick \<Rightarrow> int" where
  "format_timestamp C now t =
     (let ts = (if raw_truthy (raw_get t ''exchange_timestamp'') then raw_get t ''exchange_timestamp'' else raw_get t ''last_trade_time'') in
      if ts = RVal JNull then now else normalize_to_utc C now ts)"

definition format_datetime :: "calendar \<Rightarrow> int \<Rightarrow> raw \<Rightarrow> int option" where
  "format_datetime C now v = (if v = RVal JNull then None else Some (normalize_to_utc C now v))"

subsection \<open>Prices and depth\<close>

text \<open>\<open>ohlc[k]\<close> and its conversion.\<close>

definition ohlc_field :: "json \<Rightarrow> string \<Rightarrow> exn + rat" where
  "ohlc_field ohlc k =
     (case ohlc of
        JObj d \<Rightarrow> (case jget d k of None \<Rightarrow> Inl (raise_exn (Other ''KeyError'') k) | Some v \<Rightarrow> raw_decimal (RVal v))
      | _ \<Rightarrow> Inl (raise_exn (Other ''TypeError'') ''object is not subscriptable''))"

definition ohlc_values :: "json \<Rightarrow> exn + ohlc_data" where
  "ohlc_values ohlc =
     (case ohlc_field ohlc ''open'' of Inl e \<Rightarrow> Inl e | Inr a \<Rightarrow>
     (case ohlc_field ohlc ''high'' of Inl e \<Rightarrow> Inl e | Inr b \<Rightarrow>
     (case ohlc_field ohlc ''low'' of Inl e \<Rightarrow> Inl e | Inr c \<Rightarrow>
     (case ohlc_field ohlc ''close'' of Inl e \<Rightarrow> Inl e | Inr d \<Rightarrow>
        Inr \<lparr>oh_open = a, oh_high = b, oh_low = c, oh_close = d\<rparr>))))"

definition format_ohlc :: "raw \<Rightarrow> exn + ohlc_data option" where
  "format_ohlc v =
     (if \<not> raw_truthy v then Inr None
      else case v of
          RTime t \<Rightarrow> Inr None
        | RVal j \<Rightarrow>
            (case ohlc_values j of
               Inr x \<Rightarrow> Inr (Some x)
             | Inl e \<Rightarrow> if caught [''KeyError'', ''ValueError'', ''TypeError''] e then Inr None else Inl e))"

definition is_valid_depth_order :: "json \<Rightarrow> bool" where
  "is_valid_depth_order order =
     (case order of
        JObj d \<Rightarrow> list_all (\<lambda>k. jget d k \<noteq> None \<and> jget d k \<noteq> Some JNull) [''price'', ''quantity'', ''orders'']
      | _ \<Rightarrow> False)"

text \<open>A level; \<open>None\<close> where it is skipped.\<close>

definition depth_level :: "json \<Rightarrow> market_depth_level option" where
  "depth_level order =
     (if \<not> is_valid_depth_order order then None
      else case order of
          JObj d \<Rightarrow>
            (case (dec_of_json (jget_none d ''price''), int_of_json (jget_none d ''quantity''), int_of_json (jget_none d ''orders'')) of
               (Some p, Some q, Some n) \<Rightarrow> Some \<lparr>md_price = p, md_quantity = q, md_orders = n\<rparr>
             | _ \<Rightarrow> None)
        | _ \<Rightarrow> None)"

text \<open>One side of the book; the slice of anything but a list or a text raises an exception that the caller catches.\<close>

definition depth_side :: "(string \<times> json) list \<Rightarrow> string \<Rightarrow> market_depth_level list option" where
  "depth_side d side =
     (case jget d side of
        None \<Rightarrow> Some []
      | Some (JList xs) \<Rightarrow> Some (List.map_filter depth_level (take 5 xs))
      | Some (JStr s) \<Rightarrow> Some []
      | Some _ \<Rightarrow> None)"

definition format_market_depth :: "raw \<Rightarrow> exn + (market_depth_level list \<times> market_depth_level list) option" where
  "format_market_depth v =
     (if \<not> raw_truthy v then Inr None
      else case v of
          RVal (JObj d) \<Rightarrow>
            (case (depth_side d ''buy'', depth_side d ''sell'') of
               (Some b, Some s) \<Rightarrow> Inr (if b = [] \<and> s = [] then None else Some (b, s))
             | _ \<Rightarrow> Inr None)
        | _ \<Rightarrow> Inl (raise_exn (Other ''AttributeError'') ''object has no attribute get''))"

subsection \<open>The whole tick\<close>

definition format_tick :: "calendar \<Rightarrow> int \<Rightarrow> raw_tick \<Rightarrow> exn + market_tick" where
  "format_tick C now t =
     (let time = (\<lambda>k. case map_of t k of None \<Rightarrow> None | Some v \<Rightarrow> map_option (cal_utc C) (format_datetime C now v)) in
      case required t ''instrument_token'' raw_int of Inl e \<Rightarrow> Inl e | Inr token \<Rightarrow>
     (case required t ''last_price'' raw_decimal of Inl e \<Rightarrow> Inl e | Inr price \<Rightarrow>
     (case optional t ''volume_traded'' raw_int of Inl e \<Rightarrow> Inl e | Inr volume \<Rightarrow>
     (case optional t ''last_traded_quantity'' raw_int of Inl e \<Rightarrow> Inl e | Inr last_qty \<Rightarrow>
     (case optional t ''average_traded_price'' raw_decimal of Inl e \<Rightarrow> Inl e | Inr average \<Rightarrow>
     (case optional t ''total_buy_quantity'' raw_int of Inl e \<Rightarrow> Inl e | Inr buy \<Rightarrow>
     (case optional t ''total_sell_quantity'' raw_int of Inl e \<Rightarrow> Inl e | Inr sell \<Rightarrow>
     (case optional t ''change'' raw_decimal of Inl e \<Rightarrow> Inl e | Inr change \<Rightarrow>
     (case format_ohlc (raw_get t ''ohlc'') of Inl e \<Rightarrow> Inl e | Inr ohlc \<Rightarrow>
     (case optional t ''oi'' raw_int of Inl e \<Rightarrow> Inl e | Inr oi \<Rightarrow>
     (case optional t ''oi_day_high'' raw_int of Inl e \<Rightarrow> Inl e | Inr oi_high \<Rightarrow>
     (case optional t ''oi_day_low'' raw_int of Inl e \<Rightarrow> Inl e | Inr oi_low \<Rightarrow>
     (case format_market_depth (raw_get t ''depth'') of Inl e \<Rightarrow> Inl e | Inr depth \<Rightarrow>
        Inr \<lparr>mt_instrument_token = token, mt_last_price = price, mt_timestamp = cal_utc C (format_timestamp C now t),
             mt_symbol = None, mt_volume_traded = volume, mt_last_traded_quantity = last_qty, mt_average_traded_price = average,
             mt_total_buy_quantity = buy, mt_total_sell_quantity = sell, mt_change = change, mt_ohlc = ohlc, mt_oi = oi,
             mt_oi_day_high = oi_high, mt_oi_day_low = oi_low, mt_last_trade_time = time ''last_trade_time'',
             mt_exchange_timestamp = time ''exchange_timestamp'', mt_depth = depth,
             mt_mode = map_option (raw_str C) (map_of t ''mode''), mt_tradable = map_option raw_truthy (map_of t ''tradable'')\<rparr>)))))))))))))"

subsection \<open>What the formatter guarantees\<close>

lemma map_filter_length: "length (List.map_filter f xs) \<le> length xs"
  by (simp add: List.map_filter_def)

lemma map_filter_subseq: "subseq (map Some (List.map_filter f xs)) (map f xs)"
proof (induction xs)
  case (Cons x xs)
  then show ?case by (cases "f x") (auto simp: List.map_filter_simps intro: list_emb_Cons)
qed (simp add: List.map_filter_simps)

lemma depth_side_levels:
  "depth_side d side = Some ls \<Longrightarrow> length ls \<le> 5 \<and> (\<forall>xs. jget d side = Some (JList xs) \<longrightarrow> subseq (map Some ls) (map depth_level xs))"
proof -
  assume a: "depth_side d side = Some ls"
  have "subseq (map Some (List.map_filter depth_level (take 5 xs))) (map depth_level xs)" for xs
    using map_filter_subseq [of depth_level "take 5 xs"] subseq_rev_drop_many [of _ "map depth_level (take 5 xs)" "map depth_level (drop 5 xs)"]
    by (simp flip: map_append)
  moreover have "length (List.map_filter depth_level (take 5 xs)) \<le> 5" for xs
    using map_filter_length [of depth_level "take 5 xs"] by simp
  ultimately show ?thesis using a by (auto simp: depth_side_def split: option.splits json.splits)
qed

text \<open>A formatted tick, field by field.\<close>

lemma format_tick_parts:
  assumes "format_tick C now t = Inr m"
  shows "mt_timestamp m = cal_utc C (format_timestamp C now t)" "format_ohlc (raw_get t ''ohlc'') = Inr (mt_ohlc m)"
    "format_market_depth (raw_get t ''depth'') = Inr (mt_depth m)"
  using assms by (auto simp: format_tick_def Let_def split: sum.splits)

text \<open>The book is bounded and in order. A formatted tick carries at most five levels on either side and at least one level in all;
  where a side of the raw tick is a list, the levels are its valid entries, in its order. The raw
  depth is therefore an object, and the time of the tick is that of the exchange when it gives one.\<close>

theorem depth_bounded_in_order:
  assumes "format_tick C now t = Inr m" "mt_depth m = Some (b, s)"
  shows "length b \<le> 5 \<and> length s \<le> 5 \<and> (b \<noteq> [] \<or> s \<noteq> []) \<and>
     (\<exists>d. map_of t ''depth'' = Some (RVal (JObj d)) \<and>
        (\<forall>xs. jget d ''buy'' = Some (JList xs) \<longrightarrow> subseq (map Some b) (map depth_level xs)) \<and>
        (\<forall>xs. jget d ''sell'' = Some (JList xs) \<longrightarrow> subseq (map Some s) (map depth_level xs))) \<and>
     (\<forall>x. map_of t ''exchange_timestamp'' = Some (RTime x) \<longrightarrow> mt_timestamp m = cal_utc C (instant x))"
proof -
  from format_tick_parts(3) [OF assms(1)] assms(2) have "format_market_depth (raw_get t ''depth'') = Inr (Some (b, s))" by simp
  then obtain d where d: "raw_get t ''depth'' = RVal (JObj d)" "depth_side d ''buy'' = Some b" "depth_side d ''sell'' = Some s" "b \<noteq> [] \<or> s \<noteq> []"
    by (auto simp: format_market_depth_def split: if_splits raw.splits json.splits option.splits)
  from d(1) have "map_of t ''depth'' = Some (RVal (JObj d))" by (simp add: raw_get_def split: option.splits)
  moreover have "mt_timestamp m = cal_utc C (instant x)" if "map_of t ''exchange_timestamp'' = Some (RTime x)" for x
    using format_tick_parts(1) [OF assms(1)] that by (simp add: format_timestamp_def raw_get_def raw_truthy_def normalize_to_utc_def)
  ultimately show ?thesis using depth_side_levels [OF d(2)] depth_side_levels [OF d(3)] d(4) by blast
qed

definition demo_calendar :: calendar where
  "demo_calendar = \<lparr>cal_iso = (\<lambda>_. None), cal_strptime = (\<lambda>_. None),
     cal_utc = (\<lambda>i. \<lparr>dt_date = ''2025-01-02'', dt_time = show_int i\<rparr>), cal_str = (\<lambda>_. [])\<rparr>"

definition demo_level :: "json \<Rightarrow> json" where
  "demo_level p = JObj [(''price'', p), (''quantity'', JInt 10), (''orders'', JInt 1)]"

definition demo_raw :: "json \<Rightarrow> raw_tick" where
  "demo_raw high = [(''instrument_token'', RVal (JInt 738561)), (''last_price'', RVal (JNum (201/2))),
     (''exchange_timestamp'', RTime \<lparr>tm_wall = 90, tm_offset = Some 30\<rparr>),
     (''ohlc'', RVal (JObj [(''open'', JInt 99), (''high'', high), (''low'', JInt 98), (''close'', JInt 100)])),
     (''depth'', RVal (JObj [(''buy'', JList [demo_level (JInt 100), demo_level JNull, demo_level (JBool True), demo_level (JInt 99)])]))]"

lemmas formatter_evals = format_tick_def required_def optional_def raw_int_def raw_decimal_def raw_get_def raw_truthy_def format_ohlc_def
  ohlc_values_def ohlc_field_def jget_def jget_none_def caught_def isinstance_def raise_exn_def format_market_depth_def depth_side_def
  depth_level_def is_valid_depth_order_def List.map_filter_simps demo_raw_def demo_level_def Let_def

lemma demo_raw_formats:
  "\<exists>m. format_tick demo_calendar 0 (demo_raw (JInt 101)) = Inr m \<and>
     mt_depth m = Some ([\<lparr>md_price = 100, md_quantity = 10, md_orders = 1\<rparr>, \<lparr>md_price = 99, md_quantity = 10, md_orders = 1\<rparr>], [])"
  by (simp add: formatter_evals)

lemma demo_raw_unreadable: "\<exists>e. format_tick demo_calendar 0 (demo_raw JNull) = Inl e"
  by (simp add: formatter_evals)

theorem depth_bounded_in_order_witness:
  "\<exists>m. format_tick demo_calendar 0 (demo_raw (JInt 101)) = Inr m \<and> length (fst (the (mt_depth m))) = 2 \<and>
     mt_timestamp m = \<lparr>dt_date = ''2025-01-02'', dt_time = show_int 60\<rparr>"
proof -
  obtain m where m: "format_tick demo_calendar 0 (demo_raw (JInt 101)) = Inr m"
    "mt_depth m = Some ([\<lparr>md_price = 100, md_quantity = 10, md_orders = 1\<rparr>, \<lparr>md_price = 99, md_quantity = 10, md_orders = 1\<rparr>], [])"
    using demo_raw_formats by blast
  from depth_bounded_in_order [OF m] have "mt_timestamp m = cal_utc demo_calendar (instant \<lparr>tm_wall = 90, tm_offset = Some 30\<rparr>)"
    by (simp add: demo_raw_def)
  with m show ?thesis by (simp add: demo_calendar_def instant_def)
qed

text \<open>An unreadable price in the day's prices loses the tick. The conversion of a decimal raises InvalidOperation, which is none of the
  exceptions that are caught there, so a tick that would be formatted without its day's prices is not
  formatted at all when one of the four cannot be read. (A price that is missing is tolerated, and so is an unreadable price in the
  book.)\<close>

theorem unreadable_ohlc_loses_tick:
  assumes rest: "format_tick C now (dict_pop ''ohlc'' t) = Inr m"
    and ohlc: "map_of t ''ohlc'' = Some (RVal (JObj d))" "\<forall>k \<in> {''open'', ''high'', ''low'', ''close''}. jget d k \<noteq> None"
    and bad: "k \<in> {''open'', ''high'', ''low'', ''close''}" "dec_of_json (jget_none d k) = None"
  shows "format_tick C now t = Inl (raise_exn (Other ''InvalidOperation'') ''ConversionSyntax'')"
proof -
  let ?e = "raise_exn (Other ''InvalidOperation'') ''ConversionSyntax''"
  have same: "map_of (dict_pop ''ohlc'' t) k = map_of t k" if "k \<noteq> ''ohlc''" for k using that by simp
  have field: "ohlc_field (JObj d) k = (case dec_of_json (jget_none d k) of None \<Rightarrow> Inl ?e | Some r \<Rightarrow> Inr r)"
    if "k \<in> {''open'', ''high'', ''low'', ''close''}" for k
    using ohlc(2) that by (auto simp: ohlc_field_def jget_none_def raw_decimal_def split: option.splits)
  have "ohlc_values (JObj d) = Inl ?e"
    using bad by (auto simp: ohlc_values_def field split: option.splits)
  moreover have "d \<noteq> []" using ohlc(2) by (auto simp: jget_def)
  moreover have "\<not> caught [''KeyError'', ''ValueError'', ''TypeError''] ?e" by (simp add: caught_def isinstance_def raise_exn_def)
  ultimately have "format_ohlc (raw_get t ''ohlc'') = Inl ?e" using ohlc(1) by (simp add: format_ohlc_def raw_get_def raw_truthy_def)
  then show ?thesis using rest
    by (simp add: format_tick_def Let_def required_def optional_def same split: sum.splits)
qed

theorem unreadable_ohlc_loses_tick_witness:
  "format_tick demo_calendar 0 (demo_raw JNull) = Inl (raise_exn (Other ''InvalidOperation'') ''ConversionSyntax'')"
proof -
  have "\<exists>m. format_tick demo_calendar 0 (dict_pop ''ohlc'' (demo_raw JNull)) = Inr m"
    by (simp add: formatter_evals dict_pop_def)
  then obtain m where m: "format_tick demo_calendar 0 (dict_pop ''ohlc'' (demo_raw JNull)) = Inr m" by blast
  show ?thesis
    by (rule unreadable_ohlc_loses_tick [OF m, where k = "''high''"
        and d = "[(''open'', JInt 99), (''high'', JNull), (''low'', JInt 98), (''close'', JInt 100)]"]) (simp_all add: demo_raw_def jget_def jget_none_def)
qed

end
