(* ===== verification/Market_Feed.thy ===== *)
theory Market_Feed
  imports Tick_Formatter Pipeline_Monitoring Py_Seq
begin

text \<open>
  MarketFeedService (services/market_feed/service.py): from the callback of the broker's WebSocket to the ticks
  published. The callback runs on the client's thread; it formats a tick and schedules its enqueueing on
  the event loop, whose callbacks run in order; a worker takes ticks from the bounded queue. The
  interleaving of these is a list of inputs. What the client, the producer and Redis do are
  parameters of the environment or part of an input.
\<close>

subsection \<open>State and environment\<close>

record feed_event =
  fv_topic :: string
  fv_key :: string
  fv_tick :: market_tick
  fv_type :: event_type
  fv_broker :: string

record 'r feed =
  mf_running :: bool
  mf_worker :: bool
  mf_clients :: bool
  mf_connected :: bool
  mf_tokens :: "int list"
  mf_received :: nat
  mf_processed :: nat
  mf_dropped :: nat
  mf_failed_sends :: nat
  mf_failed_metrics :: nat
  mf_scheduled :: "market_tick list"
  mf_queue :: "market_tick list"
  mf_unfinished :: nat
  mf_sent :: "feed_event list"
  mf_attempts :: nat
  mf_redis :: 'r

record 'r feed_env =
  fe_maxsize :: int
  fe_block :: bool
  fe_calendar :: calendar
  fe_redis :: "'r redis"
  fe_clock :: clock
  fe_dump :: "market_tick \<Rightarrow> (string \<times> json) list"
  fe_has_producer :: bool
  fe_send :: "feed_event list \<Rightarrow> feed_event \<Rightarrow> exn option"

definition feed_init :: "'r \<Rightarrow> 'r feed" where
  "feed_init r =
     \<lparr>mf_running = False, mf_worker = False, mf_clients = False, mf_connected = False, mf_tokens = [], mf_received = 0, mf_processed = 0,
      mf_dropped = 0, mf_failed_sends = 0, mf_failed_metrics = 0, mf_scheduled = [], mf_queue = [], mf_unfinished = 0, mf_sent = [],
      mf_attempts = 0, mf_redis = r\<rparr>"

subsection \<open>The queue\<close>

text \<open>A size of zero or less means no bound.\<close>

definition queue_full :: "int \<Rightarrow> market_tick list \<Rightarrow> bool" where
  "queue_full maxsize q = (0 < maxsize \<and> maxsize \<le> int (length q))"

definition put_tick :: "market_tick \<Rightarrow> 'r feed \<Rightarrow> 'r feed" where
  "put_tick t s = s\<lparr>mf_queue := mf_queue s @ [t], mf_unfinished := mf_unfinished s + 1\<rparr>"

definition enqueue_nowait :: "'r feed_env \<Rightarrow> market_tick \<Rightarrow> 'r feed \<Rightarrow> 'r feed" where
  "enqueue_nowait X t s = (if queue_full (fe_maxsize X) (mf_queue s) then s\<lparr>mf_dropped := mf_dropped s + 1\<rparr> else put_tick t s)"

subsection \<open>The callback\<close>

text \<open>The debugging output of the first ticks takes the length of both sides of the book.\<close>

definition has_len :: "json option \<Rightarrow> bool" where
  "has_len v = (case v of None \<Rightarrow> True | Some (JList xs) \<Rightarrow> True | Some (JStr s) \<Rightarrow> True | Some (JObj d) \<Rightarrow> True | Some _ \<Rightarrow> False)"

definition richness_logged :: "raw_tick \<Rightarrow> bool" where
  "richness_logged t =
     (case raw_get t ''depth'' of
        RVal JNull \<Rightarrow> True
      | RVal (JObj d) \<Rightarrow> has_len (jget d ''buy'') \<and> has_len (jget d ''sell'')
      | _ \<Rightarrow> False)"

text \<open>One tick of the callback: the tick if it is formatted. In the blocking mode \<open>in_time\<close> says whether the loop puts it in the queue
  before the timeout; the call waits for that. An exception is logged.\<close>

definition on_tick :: "'r feed_env \<Rightarrow> int \<Rightarrow> raw_tick \<times> bool \<Rightarrow> 'r feed \<Rightarrow> market_tick option \<times> 'r feed" where
  "on_tick X now r s =
     (if mf_processed s < 5 \<and> \<not> richness_logged (fst r) then (None, s)
      else case format_tick (fe_calendar X) now (fst r) of
          Inl e \<Rightarrow> (None, s)
        | Inr t \<Rightarrow>
            (let s1 = s\<lparr>mf_processed := mf_processed s + 1\<rparr> in
             (Some t,
              if fe_block X
              then (if snd r \<and> \<not> queue_full (fe_maxsize X) (mf_queue s1) then put_tick t s1 else s1\<lparr>mf_dropped := mf_dropped s1 + 1\<rparr>)
              else s1\<lparr>mf_scheduled := mf_scheduled s1 @ [t]\<rparr>)))"

fun on_each_tick :: "'r feed_env \<Rightarrow> int \<Rightarrow> (raw_tick \<times> bool) list \<Rightarrow> 'r feed \<Rightarrow> market_tick list \<times> 'r feed" where
  "on_each_tick X now [] s = ([], s)"
| "on_each_tick X now (r # rs) s =
     (let (t, s1) = on_tick X now r s; (ts, s2) = on_each_tick X now rs s1
      in ((case t of None \<Rightarrow> ts | Some x \<Rightarrow> x # ts), s2))"

definition on_ticks :: "'r feed_env \<Rightarrow> int \<Rightarrow> (raw_tick \<times> bool) list \<Rightarrow> 'r feed \<Rightarrow> market_tick list \<times> 'r feed" where
  "on_ticks X now rs s =
     (if \<not> mf_running s then ([], s) else on_each_tick X now rs (s\<lparr>mf_received := mf_received s + length rs\<rparr>))"

text \<open>A turn of the event loop runs the callback that was scheduled first.\<close>

definition loop_turn :: "'r feed_env \<Rightarrow> 'r feed \<Rightarrow> 'r feed" where
  "loop_turn X s = (case mf_scheduled s of [] \<Rightarrow> s | t # ts \<Rightarrow> enqueue_nowait X t (s\<lparr>mf_scheduled := ts\<rparr>))"

subsection \<open>The worker\<close>

definition tick_event :: "market_tick \<Rightarrow> feed_event" where
  "tick_event t = \<lparr>fv_topic = MARKET_TICKS, fv_key = market_tick_key (mt_instrument_token t), fv_tick = t, fv_type = MARKET_TICK,
     fv_broker = ''shared''\<rparr>"

definition emit_tick :: "'r feed_env \<Rightarrow> market_tick \<Rightarrow> 'r feed \<Rightarrow> exn option \<times> 'r feed" where
  "emit_tick X t s =
     (if \<not> fe_has_producer X then (None, s)
      else case fe_send X (mf_sent s) (tick_event t) of
          None \<Rightarrow> (None, s\<lparr>mf_sent := mf_sent s @ [tick_event t]\<rparr>)
        | Some e \<Rightarrow> (Some e, s\<lparr>mf_failed_sends := mf_failed_sends s + 1\<rparr>))"

text \<open>Recording a tick catches its own exceptions, so the handler around it never runs.\<close>

definition update_metrics :: "'r feed_env \<Rightarrow> int \<Rightarrow> market_tick \<Rightarrow> 'r feed \<Rightarrow> 'r feed" where
  "update_metrics X now t s = s\<lparr>mf_redis := record_market_tick (fe_redis X) (fe_clock X) now (fe_dump X t) ''shared'' (mf_redis s)\<rparr>"

text \<open>One round of the worker. Both coroutines run; an exception of the first skips task_done.\<close>

definition worker_round :: "'r feed_env \<Rightarrow> int \<Rightarrow> 'r feed \<Rightarrow> 'r feed" where
  "worker_round X now s =
     (if \<not> mf_worker s then s
      else case mf_queue s of
          [] \<Rightarrow> s
        | t # ts \<Rightarrow>
            (let (failed, s1) = emit_tick X t (s\<lparr>mf_queue := ts\<rparr>); s2 = update_metrics X now t s1
             in if failed = None then s2\<lparr>mf_unfinished := mf_unfinished s2 - 1\<rparr> else s2))"

subsection \<open>Starting and stopping\<close>

text \<open>\<open>clients\<close> and \<open>ticker\<close> are the exceptions of the orchestrator's start and of get_ticker, if they raise,
  \<open>tokens\<close> the outcome of loading the instruments.\<close>

definition feed_start :: "exn option \<Rightarrow> exn + int list \<Rightarrow> exn option \<Rightarrow> 'r feed \<Rightarrow> exn option \<times> 'r feed" where
  "feed_start clients tokens ticker s =
     (case clients of
        Some e \<Rightarrow> (Some e, s)
      | None \<Rightarrow>
          (let s1 = s\<lparr>mf_clients := True\<rparr> in
           case tokens of
             Inl e \<Rightarrow> (Some (raise_exn (Other ''RuntimeError'') ''CRITICAL FAILURE: Cannot load instruments from CSV file.''),
                       s1\<lparr>mf_running := False\<rparr>)
           | Inr toks \<Rightarrow>
               (case ticker of
                  Some e \<Rightarrow> (Some e, s1\<lparr>mf_tokens := toks, mf_running := False\<rparr>)
                | None \<Rightarrow> (None, s1\<lparr>mf_tokens := toks, mf_running := True, mf_worker := True\<rparr>))))"

text \<open>\<open>clients\<close> is the exception of the orchestrator's stop.\<close>

definition feed_stop :: "exn option \<Rightarrow> 'r feed \<Rightarrow> exn option \<times> 'r feed" where
  "feed_stop clients s =
     (let s1 = s\<lparr>mf_running := False, mf_worker := False, mf_connected := False\<rparr> in
      case clients of Some e \<Rightarrow> (Some e, s1) | None \<Rightarrow> (None, s1\<lparr>mf_clients := False\<rparr>))"

subsection \<open>Subscription\<close>

datatype ws_call = Subscribe "int list" | SetModeFull "int list"

definition subscribe_all :: "int list \<Rightarrow> ws_call list" where
  "subscribe_all toks = [Subscribe toks, SetModeFull toks]"

definition on_connect :: "int \<Rightarrow> 'r feed \<Rightarrow> exn + ws_call list" where
  "on_connect batch_size s =
     (if mf_tokens s = []
      then Inl (raise_exn (Other ''RuntimeError'') ''CRITICAL FAILURE: No instruments available for market data subscription.'')
      else if 0 < batch_size then Inr (concat (map subscribe_all (chunks (nat batch_size) (mf_tokens s))))
      else Inr (subscribe_all (mf_tokens s)))"

subsection \<open>Reconnection\<close>

record reconnect_cfg =
  rc_max_attempts :: nat
  rc_base_delay :: rat
  rc_max_delay :: rat
  rc_multiplier :: rat

text \<open>How an attempt ends: connected; failed (an exception or the timeout); or the service was stopped in the meantime.\<close>

datatype attempt = Connected | Unreachable | Stopped

definition reconnect_delay :: "reconnect_cfg \<Rightarrow> nat \<Rightarrow> rat" where
  "reconnect_delay c attempts = min (rc_base_delay c * rc_multiplier c ^ (attempts - 1)) (rc_max_delay c)"

text \<open>The delay slept, if any, and whether another attempt is scheduled.\<close>

definition attempt_reconnection :: "reconnect_cfg \<Rightarrow> attempt \<Rightarrow> 'r feed \<Rightarrow> rat option \<times> bool \<times> 'r feed" where
  "attempt_reconnection c out s =
     (if \<not> mf_running s then (None, False, s)
      else if rc_max_attempts c \<le> mf_attempts s then (None, False, s\<lparr>mf_running := False\<rparr>)
      else let s1 = s\<lparr>mf_attempts := mf_attempts s + 1, mf_connected := False\<rparr>; d = Some (reconnect_delay c (mf_attempts s1)) in
           case out of
             Connected \<Rightarrow> (d, False, s1\<lparr>mf_attempts := 0, mf_connected := True\<rparr>)
           | Unreachable \<Rightarrow> (d, True, s1)
           | Stopped \<Rightarrow> (d, False, s1\<lparr>mf_running := False\<rparr>))"

lemma attempt_again:
  "attempt_reconnection c out s = (d, True, s') \<Longrightarrow> mf_attempts s < rc_max_attempts c \<and> mf_attempts s' = Suc (mf_attempts s)"
  by (auto simp: attempt_reconnection_def Let_def split: if_splits attempt.splits)

text \<open>The attempts that follow a closed connection.\<close>

function reconnect_run :: "reconnect_cfg \<Rightarrow> (nat \<Rightarrow> attempt) \<Rightarrow> nat \<Rightarrow> 'r feed \<Rightarrow> rat list \<times> 'r feed" where
  "reconnect_run c out n s =
     (let r = attempt_reconnection c (out n) s;
          rest = (if fst (snd r) then reconnect_run c out (Suc n) (snd (snd r)) else ([], snd (snd r)))
      in ((case fst r of None \<Rightarrow> fst rest | Some d \<Rightarrow> d # fst rest), snd rest))"
  by pat_completeness auto
termination
proof (relation "measure (\<lambda>(c, out, n, s). rc_max_attempts c - mf_attempts s)")
  fix c :: reconnect_cfg and out :: "nat \<Rightarrow> attempt" and n :: nat and s :: "'r feed" and r
  assume "r = attempt_reconnection c (out n) s" "fst (snd r)"
  then have "attempt_reconnection c (out n) s = (fst r, True, snd (snd r))" by (metis prod.collapse)
  from attempt_again [OF this]
  show "((c, out, Suc n, snd (snd r)), (c, out, n, s)) \<in> measure (\<lambda>(c, out, n, s). rc_max_attempts c - mf_attempts s)"
    by (simp add: diff_less_mono2)
qed simp

declare reconnect_run.simps [simp del]

definition on_close :: "reconnect_cfg \<Rightarrow> (nat \<Rightarrow> attempt) \<Rightarrow> 'r feed \<Rightarrow> rat list \<times> 'r feed" where
  "on_close c out s = (if mf_running s then reconnect_run c out 0 s else ([], s))"

subsection \<open>Health\<close>

definition calculate_processing_rate :: "rat option \<Rightarrow> 'r feed \<Rightarrow> rat" where
  "calculate_processing_rate elapsed s =
     (case elapsed of None \<Rightarrow> 0
      | Some e \<Rightarrow> if mf_processed s = 0 then 0 else if e > 0 then of_nat (mf_processed s) / e else 0)"

definition failure_rate :: "'r feed \<Rightarrow> rat" where
  "failure_rate s = of_nat (mf_failed_sends s) / of_nat (max (mf_processed s) 1)"

definition feed_healthy :: "'r feed \<Rightarrow> bool" where
  "feed_healthy s = (mf_running s \<and> mf_connected s \<and> length (mf_queue s) < 8000 \<and> failure_rate s < 1/100)"

definition identify_health_issues :: "'r feed \<Rightarrow> string list" where
  "identify_health_issues s =
     (if \<not> mf_running s then [''Service not running''] else []) @
     (if \<not> mf_connected s then [''WebSocket disconnected''] else []) @
     (if length (mf_queue s) > 8000 then [''Queue near capacity''] else []) @
     (if failure_rate s > 1/100 then [''High failure rate''] else []) @
     (if mf_dropped s > 0 then [''Dropped ticks detected''] else [])"

definition feed_health_check :: "'r feed \<Rightarrow> string \<times> string list" where
  "feed_health_check s = (if feed_healthy s then ''healthy'' else ''unhealthy'', identify_health_issues s)"

subsection \<open>Every tick is accounted for\<close>

datatype feed_input =
    Batch int "(raw_tick \<times> bool) list"
  | Loop_Turn
  | Worker_Round int
  | Started "exn option" "exn + int list" "exn option"
  | Stopping "exn option"
  | Closed reconnect_cfg "nat \<Rightarrow> attempt"

fun feed_step :: "'r feed_env \<Rightarrow> market_tick list \<times> 'r feed \<Rightarrow> feed_input \<Rightarrow> market_tick list \<times> 'r feed" where
  "feed_step X (seen, s) (Batch now rs) = (let (ts, s') = on_ticks X now rs s in (seen @ ts, s'))"
| "feed_step X (seen, s) Loop_Turn = (seen, loop_turn X s)"
| "feed_step X (seen, s) (Worker_Round now) = (seen, worker_round X now s)"
| "feed_step X (seen, s) (Started a b c) = (seen, snd (feed_start a b c s))"
| "feed_step X (seen, s) (Stopping a) = (seen, snd (feed_stop a s))"
| "feed_step X (seen, s) (Closed c out) = (seen, snd (on_close c out s))"

text \<open>\<open>seen\<close> are the ticks formatted so far. Those on their way or published are among them, in their order, and the counters
  account for the rest.\<close>

definition in_flight :: "'r feed \<Rightarrow> market_tick list" where
  "in_flight s = map fv_tick (mf_sent s) @ mf_queue s @ mf_scheduled s"

definition feed_inv :: "'r feed_env \<Rightarrow> market_tick list \<times> 'r feed \<Rightarrow> bool" where
  "feed_inv X ls = (let (seen, s) = ls in
     mf_processed s = length seen \<and> subseq (in_flight s) seen \<and>
     (fe_has_producer X \<longrightarrow> length seen = length (in_flight s) + mf_dropped s + mf_failed_sends s \<and>
        mf_unfinished s = length (mf_queue s) + mf_failed_sends s) \<and>
     (0 < fe_maxsize X \<longrightarrow> int (length (mf_queue s)) \<le> fe_maxsize X) \<and>
     (fe_block X \<longrightarrow> mf_scheduled s = []) \<and>
     mf_processed s \<le> mf_received s \<and> mf_failed_metrics s = 0)"

text \<open>What the invariant depends on.\<close>

definition flight where
  "flight s = (in_flight s, mf_queue s, mf_scheduled s, mf_processed s, mf_dropped s, mf_failed_sends s, mf_unfinished s,
     mf_received s, mf_failed_metrics s)"

lemma same_flight: "flight s' = flight s \<Longrightarrow> feed_inv X (seen, s') = feed_inv X (seen, s)"
  by (simp add: feed_inv_def flight_def)

lemma attempt_flight: "flight (snd (snd (attempt_reconnection c out s))) = flight s"
  by (simp add: attempt_reconnection_def Let_def flight_def in_flight_def split: attempt.split)

lemma reconnect_flight: "flight (snd (reconnect_run c out n s)) = flight s"
proof (induction c out n s rule: reconnect_run.induct)
  case (1 c out n s)
  then show ?case
    using attempt_flight [of c "out n" s] by (subst reconnect_run.simps) (simp add: Let_def)
qed

lemma subseq_remove:
  "subseq (xs @ y # zs) ws \<Longrightarrow> subseq (xs @ zs) ws"
  "subseq (xs @ ys @ y # zs) ws \<Longrightarrow> subseq (xs @ ys @ zs) ws"
proof -
  have "subseq (as @ zs) (as @ y # zs)" for as by (simp add: subseq_append' list_emb_Cons)
  from this [of xs] this [of "xs @ ys"]
  show "subseq (xs @ y # zs) ws \<Longrightarrow> subseq (xs @ zs) ws"
    "subseq (xs @ ys @ y # zs) ws \<Longrightarrow> subseq (xs @ ys @ zs) ws"
    by (auto intro: subseq_order.order_trans)
qed

lemma on_each_tick_inv:
  "feed_inv X (seen, s) \<Longrightarrow> mf_processed s + length rs \<le> mf_received s \<Longrightarrow> on_each_tick X now rs s = (ts, s') \<Longrightarrow> feed_inv X (seen @ ts, s')"
proof (induction rs arbitrary: s seen ts)
  case (Cons r rs)
  obtain t s1 where 1: "on_tick X now r s = (t, s1)" by fastforce
  obtain ts1 where 2: "on_each_tick X now rs s1 = (ts1, s')" "ts = (case t of None \<Rightarrow> ts1 | Some x \<Rightarrow> x # ts1)"
    using Cons.prems(3) 1 by (auto split: prod.splits)
  have "feed_inv X (seen @ (case t of None \<Rightarrow> [] | Some x \<Rightarrow> [x]), s1) \<and> mf_processed s1 + length rs \<le> mf_received s1"
  proof (cases t)
    case None
    with 1 Cons.prems show ?thesis by (auto simp: on_tick_def Let_def split: if_splits sum.splits)
  next
    case (Some x)
    with 1 Cons.prems(1,2) show ?thesis
      by (auto simp: on_tick_def put_tick_def queue_full_def feed_inv_def in_flight_def Let_def split: if_splits sum.splits
          intro: list_emb_append_mono subseq_rev_drop_many simp flip: append_assoc)
  qed
  with Cons.IH [of "seen @ (case t of None \<Rightarrow> [] | Some x \<Rightarrow> [x])" s1 ts1] 2 show ?case by (auto split: option.splits)
qed simp

lemma feed_step_inv: "feed_inv X ls \<Longrightarrow> feed_inv X (feed_step X ls i)"
proof (cases ls)
  case (Pair seen s)
  assume inv: "feed_inv X ls"
  show ?thesis
  proof (cases i)
    case (Batch now rs)
    let ?s = "s\<lparr>mf_received := mf_received s + length rs\<rparr>"
    have "feed_inv X (seen, ?s)" "mf_processed ?s + length rs \<le> mf_received ?s"
      using inv by (simp_all add: Pair feed_inv_def in_flight_def)
    from on_each_tick_inv [OF this] inv show ?thesis
      by (auto simp: Pair Batch on_ticks_def split: prod.splits)
  next
    case Loop_Turn
    show ?thesis
    proof (cases "mf_scheduled s")
      case (Cons t ts)
      have "subseq (map fv_tick (mf_sent s) @ mf_queue s @ t # ts) seen" using inv Cons by (simp add: Pair feed_inv_def in_flight_def)
      with subseq_remove(2) [OF this] inv Cons show ?thesis
        by (simp add: Pair Loop_Turn loop_turn_def enqueue_nowait_def put_tick_def queue_full_def feed_inv_def in_flight_def) auto
    qed (use inv in \<open>simp add: Pair Loop_Turn loop_turn_def\<close>)
  next
    case (Worker_Round now)
    show ?thesis
    proof (cases "mf_worker s \<and> mf_queue s \<noteq> []")
      case True
      then obtain t ts where q: "mf_queue s = t # ts" "mf_worker s" by (auto simp: neq_Nil_conv)
      have fl: "subseq (map fv_tick (mf_sent s) @ t # ts @ mf_scheduled s) seen" using inv q by (simp add: Pair feed_inv_def in_flight_def)
      note fl = fl subseq_remove(1) [OF fl]
      show ?thesis
      proof (cases "emit_tick X t (s\<lparr>mf_queue := ts\<rparr>)")
        case (Pair failed s1)
        have "s1 = (if \<not> fe_has_producer X then s\<lparr>mf_queue := ts\<rparr>
            else if failed = None then s\<lparr>mf_queue := ts, mf_sent := mf_sent s @ [tick_event t]\<rparr>
            else s\<lparr>mf_queue := ts, mf_failed_sends := mf_failed_sends s + 1\<rparr>)" "\<not> fe_has_producer X \<Longrightarrow> failed = None"
          using Pair by (auto simp: emit_tick_def split: if_splits option.splits)
        with Pair inv fl q show ?thesis
          unfolding Worker_Round \<open>ls = (seen, s)\<close>
          by (simp add: worker_round_def update_metrics_def feed_inv_def in_flight_def tick_event_def) auto
      qed
    qed (use inv in \<open>auto simp: Pair Worker_Round worker_round_def\<close>)
  next
    case (Started a b c)
    have "flight (snd (feed_start a b c s)) = flight s"
      by (simp add: feed_start_def flight_def in_flight_def Let_def split: option.split sum.split)
    from same_flight [OF this, of X seen] inv show ?thesis by (simp add: Pair Started)
  next
    case (Stopping a)
    have "flight (snd (feed_stop a s)) = flight s" by (simp add: feed_stop_def flight_def in_flight_def Let_def split: option.split)
    from same_flight [OF this, of X seen] inv show ?thesis by (simp add: Pair Stopping)
  next
    case (Closed c out)
    have "flight (snd (on_close c out s)) = flight s" by (simp add: on_close_def reconnect_flight)
    from same_flight [OF this, of X seen] inv show ?thesis by (simp add: Pair Closed)
  qed
qed

interpretation feed: step_machine "feed_step X" "feed_inv X" for X
  by unfold_locales (rule feed_step_inv)

definition feed_run :: "'r feed_env \<Rightarrow> 'r \<Rightarrow> feed_input list \<Rightarrow> market_tick list \<times> 'r feed" where
  "feed_run X r is = foldl (feed_step X) ([], feed_init r) is"

lemma feed_run_inv: "feed_inv X (feed_run X r is)"
  unfolding feed_run_def by (rule feed.run_inv) (simp add: feed_inv_def feed_init_def in_flight_def)

text \<open>C18: Every tick is accounted for, and none overtakes another. However callbacks, loop turns, worker rounds, starts, stops and
  reconnections interleave, the published ticks, followed by the queued and the scheduled ones, are formatted ticks in the order in which
  they were formatted; the ones missing are exactly those counted as dropped or failed; the queue keeps to its bound. With nothing
  pending, dropped or failed, what was published is what was formatted.\<close>

theorem feed_accounts_for_ticks:
  assumes run: "feed_run X r is = (seen, s)" and prod: "fe_has_producer X"
  shows "subseq (map fv_tick (mf_sent s) @ mf_queue s @ mf_scheduled s) seen \<and>
     length seen = length (mf_sent s) + length (mf_queue s) + length (mf_scheduled s) + mf_dropped s + mf_failed_sends s \<and>
     (0 < fe_maxsize X \<longrightarrow> int (length (mf_queue s)) \<le> fe_maxsize X) \<and>
     (mf_queue s = [] \<and> mf_scheduled s = [] \<and> mf_dropped s = 0 \<and> mf_failed_sends s = 0 \<longrightarrow> map fv_tick (mf_sent s) = seen)"
proof -
  have "feed_inv X (seen, s)" using feed_run_inv [of X r "is"] run by simp
  with prod have i: "subseq (map fv_tick (mf_sent s) @ mf_queue s @ mf_scheduled s) seen"
    "length seen = length (mf_sent s) + length (mf_queue s) + length (mf_scheduled s) + mf_dropped s + mf_failed_sends s"
    "0 < fe_maxsize X \<longrightarrow> int (length (mf_queue s)) \<le> fe_maxsize X" by (simp_all add: feed_inv_def in_flight_def)
  moreover have "map fv_tick (mf_sent s) = seen" if "mf_queue s = []" "mf_scheduled s = []" "mf_dropped s = 0" "mf_failed_sends s = 0"
    using subseq_same_length [OF i(1)] i(2) that by simp
  ultimately show ?thesis by blast
qed

definition demo_feed_env :: "(string \<times> rvalue) list feed_env" where
  "demo_feed_env = \<lparr>fe_maxsize = 1, fe_block = False, fe_calendar = demo_calendar, fe_redis = map_redis,
     fe_clock = \<lparr>ck_iso = show_int, ck_parse = read_int\<rparr>, fe_dump = (\<lambda>t. []), fe_has_producer = True,
     fe_send = (\<lambda>es e. if length es = 1 then Some (raise_exn (Other ''RuntimeError'') ''send failed'') else None)\<rparr>"

definition demo_feed_inputs :: "feed_input list" where
  "demo_feed_inputs = [Started None (Inr [738561]) None, Batch 0 [(demo_raw (JInt 101), True), (demo_raw JNull, True), (demo_raw (JInt 101), True)],
     Loop_Turn, Loop_Turn, Worker_Round 0]"

lemma demo_feed_fields [simp]:
  "fe_maxsize demo_feed_env = 1" "fe_block demo_feed_env = False" "fe_has_producer demo_feed_env = True"
  "fe_send demo_feed_env [] e = None"
  by (simp_all add: demo_feed_env_def)

lemma demo_on_tick:
  assumes "format_tick demo_calendar 0 (demo_raw h) = f"
  shows "on_tick demo_feed_env 0 (demo_raw h, True) s =
     (case f of Inl e \<Rightarrow> (None, s)
      | Inr m \<Rightarrow> (Some m, s\<lparr>mf_processed := mf_processed s + 1, mf_scheduled := mf_scheduled s @ [m]\<rparr>))"
proof -
  have "richness_logged (demo_raw h)" by (simp add: richness_logged_def demo_raw_def raw_get_def has_len_def jget_def)
  with assms show ?thesis by (simp add: on_tick_def demo_feed_env_def split: sum.split)
qed

text \<open>Three ticks with a queue of one: one cannot be formatted, one is published, one is dropped.\<close>

theorem feed_accounts_for_ticks_witness:
  "\<exists>m s. feed_run demo_feed_env [] demo_feed_inputs = ([m, m], s) \<and> mf_dropped s = 1 \<and> map fv_tick (mf_sent s) = [m] \<and>
     subseq (map fv_tick (mf_sent s) @ mf_queue s @ mf_scheduled s) [m, m]"
proof -
  obtain m where m: "format_tick demo_calendar 0 (demo_raw (JInt 101)) = Inr m" using demo_raw_formats by blast
  obtain e where e: "format_tick demo_calendar 0 (demo_raw JNull) = Inl e" using demo_raw_unreadable by blast
  have "\<exists>s. feed_run demo_feed_env [] demo_feed_inputs = ([m, m], s) \<and> mf_dropped s = 1 \<and> mf_sent s = [tick_event m]"
    by (simp add: feed_run_def demo_feed_inputs_def feed_start_def feed_init_def on_ticks_def demo_on_tick [OF m] demo_on_tick [OF e]
        loop_turn_def enqueue_nowait_def queue_full_def put_tick_def worker_round_def emit_tick_def update_metrics_def)
  then obtain s where s: "feed_run demo_feed_env [] demo_feed_inputs = ([m, m], s)" "mf_dropped s = 1" "mf_sent s = [tick_event m]"
    by blast
  from feed_accounts_for_ticks [OF s(1)] have "subseq (map fv_tick (mf_sent s) @ mf_queue s @ mf_scheduled s) [m, m]"
    by simp
  with s show ?thesis by (auto simp: tick_event_def)
qed

subsection \<open>Reconnection\<close>

lemma reconnect_run_bounds:
  "length (fst (reconnect_run c out n s)) \<le> rc_max_attempts c - mf_attempts s \<and>
   (\<forall>d \<in> set (fst (reconnect_run c out n s)). d \<le> rc_max_delay c)"
proof (induction c out n s rule: reconnect_run.induct)
  case (1 c out n s)
  let ?r = "attempt_reconnection c (out n) s"
  show ?case
  proof (cases "fst (snd ?r)")
    case True
    then have a: "?r = (fst ?r, True, snd (snd ?r))" by (metis prod.collapse)
    moreover have "d \<le> rc_max_delay c" if "fst ?r = Some d" for d
      using that by (auto simp: attempt_reconnection_def reconnect_delay_def Let_def split: if_splits attempt.splits)
    ultimately show ?thesis using 1 [OF refl True] attempt_again [OF a] True
      by (subst (1 2) reconnect_run.simps) (auto simp: Let_def split: option.splits)
  next
    case False
    then show ?thesis
      by (subst (1 2) reconnect_run.simps)
        (auto simp: Let_def attempt_reconnection_def reconnect_delay_def split: option.splits attempt.splits if_splits)
  qed
qed

lemma reconnect_run_unreachable:
  assumes "mf_running s" "mf_attempts s \<le> rc_max_attempts c" "\<forall>k. out k = Unreachable"
  shows "fst (reconnect_run c out n s) = map (reconnect_delay c) [Suc (mf_attempts s)..<Suc (rc_max_attempts c)] \<and>
     \<not> mf_running (snd (reconnect_run c out n s)) \<and> mf_attempts (snd (reconnect_run c out n s)) = rc_max_attempts c"
  using assms
proof (induction c out n s rule: reconnect_run.induct)
  case (1 c out n s)
  show ?case
  proof (cases "mf_attempts s = rc_max_attempts c")
    case True
    with 1(2) show ?thesis by (subst (1 2 3) reconnect_run.simps) (simp add: attempt_reconnection_def)
  next
    case False
    let ?s = "s\<lparr>mf_attempts := mf_attempts s + 1, mf_connected := False\<rparr>"
    have r: "attempt_reconnection c (out n) s = (Some (reconnect_delay c (Suc (mf_attempts s))), True, ?s)"
      using 1(2-4) False by (simp add: attempt_reconnection_def)
    have ih: "fst (reconnect_run c out (Suc n) ?s) = map (reconnect_delay c) [Suc (Suc (mf_attempts s))..<Suc (rc_max_attempts c)] \<and>
        \<not> mf_running (snd (reconnect_run c out (Suc n) ?s)) \<and> mf_attempts (snd (reconnect_run c out (Suc n) ?s)) = rc_max_attempts c"
    proof -
      have u: "snd (snd (attempt_reconnection c (out n) s)) = ?s" "fst (snd (attempt_reconnection c (out n) s))" by (simp_all add: r)
      have "mf_running ?s" "mf_attempts ?s \<le> rc_max_attempts c" "mf_attempts ?s = Suc (mf_attempts s)" using 1(2,3) False by simp_all
      with 1(1) [OF refl u(2)] 1(4) show ?thesis unfolding u(1) by metis
    qed
    have "[Suc (mf_attempts s)..<Suc (rc_max_attempts c)] = Suc (mf_attempts s) # [Suc (Suc (mf_attempts s))..<Suc (rc_max_attempts c)]"
      using 1(3) False by (simp add: upt_conv_Cons del: upt_Suc)
    with ih r show ?thesis by (subst (1 2 3) reconnect_run.simps) (simp add: Let_def del: upt_Suc)
  qed
qed

text \<open>C19: Reconnection gives up. However the attempts after a closed connection end, there are at most the configured number of them and each waits
  at most the configured time. When none succeeds, the waits are exactly the delays of the exponential back-off, one per attempt, and the service
  stops running.\<close>

theorem reconnection_gives_up:
  assumes "mf_running s" "mf_attempts s = 0"
  shows "length (fst (on_close c out s)) \<le> rc_max_attempts c \<and> (\<forall>d \<in> set (fst (on_close c out s)). d \<le> rc_max_delay c) \<and>
     ((\<forall>k. out k = Unreachable) \<longrightarrow>
        fst (on_close c out s) = map (\<lambda>k. min (rc_base_delay c * rc_multiplier c ^ k) (rc_max_delay c)) [0..<rc_max_attempts c] \<and>
        \<not> mf_running (snd (on_close c out s)))"
proof -
  have "map (reconnect_delay c) [Suc 0..<Suc m] = map (\<lambda>k. min (rc_base_delay c * rc_multiplier c ^ k) (rc_max_delay c)) [0..<m]" for m
    unfolding map_Suc_upt [symmetric] by (simp add: reconnect_delay_def)
  with reconnect_run_unreachable [of s c out 0] assms have "(\<forall>k. out k = Unreachable) \<longrightarrow>
      fst (reconnect_run c out 0 s) = map (\<lambda>k. min (rc_base_delay c * rc_multiplier c ^ k) (rc_max_delay c)) [0..<rc_max_attempts c] \<and>
      \<not> mf_running (snd (reconnect_run c out 0 s))" by (metis le0)
  moreover have "on_close c out s = reconnect_run c out 0 s" using assms(1) by (simp add: on_close_def)
  ultimately show ?thesis using reconnect_run_bounds [of c out 0 s] assms(2) by (metis minus_nat.diff_0)
qed

definition demo_reconnect :: reconnect_cfg where
  "demo_reconnect = \<lparr>rc_max_attempts = 5, rc_base_delay = 1, rc_max_delay = 10, rc_multiplier = 2\<rparr>"

theorem reconnection_gives_up_witness:
  "let s = (feed_init ())\<lparr>mf_running := True\<rparr> in
     fst (on_close demo_reconnect (\<lambda>_. Unreachable) s) = [1, 2, 4, 8, 10] \<and> \<not> mf_running (snd (on_close demo_reconnect (\<lambda>_. Unreachable) s))"
  using reconnection_gives_up [of "(feed_init ())\<lparr>mf_running := True\<rparr>" demo_reconnect "\<lambda>_. Unreachable"]
  by (simp add: feed_init_def demo_reconnect_def upt_rec [of _ 5] upt_rec eval_nat_numeral)

subsection \<open>Subscription\<close>

definition subscribed :: "ws_call list \<Rightarrow> int list" where
  "subscribed cs = concat (map (\<lambda>c. case c of Subscribe ts \<Rightarrow> ts | SetModeFull ts \<Rightarrow> []) cs)"

definition in_full_mode :: "ws_call list \<Rightarrow> int list" where
  "in_full_mode cs = concat (map (\<lambda>c. case c of Subscribe ts \<Rightarrow> [] | SetModeFull ts \<Rightarrow> ts) cs)"

lemma subscribed_batches: "subscribed (concat (map subscribe_all cs)) = concat cs" "in_full_mode (concat (map subscribe_all cs)) = concat cs"
  by (induction cs) (simp_all add: subscribed_def in_full_mode_def subscribe_all_def)

text \<open>Every instrument is subscribed once. Whatever the batch size, connecting with a nonempty list of instruments subscribes and sets the mode
  of exactly these, in their order; with a positive batch size no call names more than that many.\<close>

theorem subscription_covers_instruments:
  assumes "mf_tokens s \<noteq> []"
  shows "\<exists>cs. on_connect b s = Inr cs \<and> subscribed cs = mf_tokens s \<and> in_full_mode cs = mf_tokens s \<and>
     (\<forall>ts. Subscribe ts \<in> set cs \<and> 0 < b \<longrightarrow> ts \<noteq> [] \<and> int (length ts) \<le> b)"
proof (cases "0 < b")
  case True
  then have "0 < nat b" by simp
  from chunks_concat [OF this, of "mf_tokens s"] assms True show ?thesis
    by (fastforce simp: on_connect_def subscribed_batches subscribe_all_def)
next
  case False
  with assms show ?thesis by (simp add: on_connect_def subscribed_def in_full_mode_def subscribe_all_def)
qed

theorem subscription_covers_instruments_witness:
  "\<exists>cs. on_connect 2 ((feed_init ())\<lparr>mf_tokens := [1, 2, 3, 4, 5]\<rparr>) = Inr cs \<and> subscribed cs = [1, 2, 3, 4, 5]"
  using subscription_covers_instruments [of "(feed_init ())\<lparr>mf_tokens := [1, 2, 3, 4, 5]\<rparr>" 2] by (auto simp: feed_init_def)

subsection \<open>Health\<close>

text \<open>The status and the issues agree but for two boundaries. A healthy service has no issue but dropped ticks; an unhealthy one without another issue
  has a queue of exactly 8000 ticks or exactly one failed send in a hundred.\<close>

theorem unhealthy_without_issue:
  "(feed_healthy s \<longrightarrow> set (identify_health_issues s) \<subseteq> {''Dropped ticks detected''}) \<and>
   (\<not> feed_healthy s \<and> set (identify_health_issues s) \<subseteq> {''Dropped ticks detected''} \<longleftrightarrow>
      mf_running s \<and> mf_connected s \<and> length (mf_queue s) \<le> 8000 \<and> failure_rate s \<le> 1/100 \<and>
      (length (mf_queue s) = 8000 \<or> failure_rate s = 1/100))"
  by (auto simp: feed_healthy_def identify_health_issues_def)

theorem unhealthy_without_issue_witness:
  "let s = (feed_init ())\<lparr>mf_running := True, mf_connected := True, mf_processed := 100, mf_failed_sends := 1\<rparr>
   in \<not> feed_healthy s \<and> set (identify_health_issues s) \<subseteq> {''Dropped ticks detected''}"
  using unhealthy_without_issue [of "(feed_init ())\<lparr>mf_running := True, mf_connected := True, mf_processed := 100, mf_failed_sends := 1\<rparr>"]
  by (simp add: feed_init_def failure_rate_def Let_def)

text \<open>A failed start leaves the clients of the orchestrator open: they were started before, and nothing stops them.\<close>

lemma failed_start_keeps_clients:
  assumes "feed_start None tokens ticker s = (Some e, s')"
  shows "mf_clients s' \<and> \<not> mf_running s'"
  using assms by (auto simp: feed_start_def Let_def split: sum.splits option.splits)

text \<open>What is queued when the service stops is not published.\<close>

lemma stop_ends_publishing: "mf_sent (worker_round X now (snd (feed_stop a s))) = mf_sent s"
  by (simp add: worker_round_def feed_stop_def Let_def split: option.split)

end
