(* ===== verification/Zerodha_Trading.thy ===== *)
theory Zerodha_Trading
  imports Schemas Pipeline_Monitoring
begin

text \<open>
  ZerodhaTradingService (services/zerodha_trading/service.py): a validated signal becomes an order event and an empty
  snapshot of the profit. The producer, the schema of the payload and the rendering of decimals are parameters; the
  pipeline metrics go to the Redis client. The handler returns whatever happens: an invalid payload and
  a failed send are logged.
\<close>

datatype zt_payload = Placed order_placed | Snapshot pnl_snapshot

record zt_event =
  ze_topic :: string
  ze_key :: string
  ze_payload :: zt_payload
  ze_type :: event_type

record 'r zt =
  zt_sent :: "zt_event list"
  zt_ids :: nat
  zt_redis :: 'r

record 'r zt_env =
  zx_send :: "zt_event list \<Rightarrow> zt_event \<Rightarrow> exn option"
  zx_has_producer :: bool
  zx_new_id :: "nat \<Rightarrow> string"
  zx_parse :: "(string \<times> json) list \<Rightarrow> exn + validated_signal"
  zx_decimal :: "rat \<Rightarrow> string"
  zx_redis :: "'r redis"
  zx_clock :: clock

definition zt_generate_event_id :: "'r zt_env \<Rightarrow> 'r zt \<Rightarrow> string \<times> 'r zt" where
  "zt_generate_event_id X s = (zx_new_id X (zt_ids s), s\<lparr>zt_ids := zt_ids s + 1\<rparr>)"

definition get_first_producer_or_raise :: "'r zt_env \<Rightarrow> exn option" where
  "get_first_producer_or_raise X =
     (if zx_has_producer X then None else Some (raise_exn (Other ''RuntimeError'') ''No producers available for orchestrator''))"

definition zt_send :: "'r zt_env \<Rightarrow> zt_event \<Rightarrow> 'r zt \<Rightarrow> exn option \<times> 'r zt" where
  "zt_send X e s = (case zx_send X (zt_sent s) e of Some x \<Rightarrow> (Some x, s) | None \<Rightarrow> (None, s\<lparr>zt_sent := zt_sent s @ [e]\<rparr>))"

text \<open>\<open>validated_price or price\<close>: zero falls through like a missing price.\<close>

definition order_price :: "validated_signal \<Rightarrow> rat option" where
  "order_price v =
     (case vs_validated_price v of
        Some p \<Rightarrow> if p = 0 then ts_price (vs_original_signal v) else Some p
      | None \<Rightarrow> ts_price (vs_original_signal v))"

definition placed_order :: "string \<Rightarrow> validated_signal \<Rightarrow> order_placed" where
  "placed_order order_id v =
     (let sig = vs_original_signal v in
      \<lparr>op_order_id = order_id, op_instrument_token = ts_instrument_token sig, op_signal_type = ts_signal_type sig,
       op_quantity = vs_validated_quantity v, op_price = order_price v, op_timestamp = vs_timestamp v, op_broker = ''zerodha'',
       op_status = PLACED, op_strategy_id = Some (ts_strategy_id sig), op_execution_mode = Some ZERODHA\<rparr>)"

definition placed_event :: "string \<Rightarrow> validated_signal \<Rightarrow> zt_event" where
  "placed_event order_id v =
     (let sig = vs_original_signal v in
      \<lparr>ze_topic = orders_submitted ''zerodha'',
       ze_key = order_key (ts_strategy_id sig) (ts_instrument_token sig) (str_datetime (vs_timestamp v)),
       ze_payload = Placed (placed_order order_id v), ze_type = ORDER_PLACED\<rparr>)"

definition empty_snapshot :: "validated_signal \<Rightarrow> pnl_snapshot" where
  "empty_snapshot v =
     \<lparr>pn_broker = ''zerodha'', pn_instrument_token = Some (ts_instrument_token (vs_original_signal v)), pn_realized_pnl = 0,
      pn_unrealized_pnl = 0, pn_total_pnl = 0, pn_timestamp = vs_timestamp v\<rparr>"

definition snapshot_event :: "validated_signal \<Rightarrow> zt_event" where
  "snapshot_event v =
     \<lparr>ze_topic = pnl_snapshots ''zerodha'', ze_key = ''portfolio_snapshot_zerodha:'' @ ts_strategy_id (vs_original_signal v),
      ze_payload = Snapshot (empty_snapshot v), ze_type = PNL_SNAPSHOT\<rparr>"

text \<open>\<open>model_dump(mode="json")\<close> of the two payloads.\<close>

fun order_status_value :: "order_status \<Rightarrow> string" where
  "order_status_value PENDING = ''PENDING''"
| "order_status_value PLACED = ''PLACED''"
| "order_status_value FILLED = ''FILLED''"
| "order_status_value CANCELLED = ''CANCELLED''"
| "order_status_value REJECTED = ''REJECTED''"
| "order_status_value FAILED = ''FAILED''"

fun execution_mode_value :: "execution_mode \<Rightarrow> string" where
  "execution_mode_value PAPER = ''paper''"
| "execution_mode_value ZERODHA = ''zerodha''"

definition opt_json :: "('a \<Rightarrow> json) \<Rightarrow> 'a option \<Rightarrow> json" where
  "opt_json f x = (case x of None \<Rightarrow> JNull | Some y \<Rightarrow> f y)"

definition dump_order_placed :: "(rat \<Rightarrow> string) \<Rightarrow> order_placed \<Rightarrow> (string \<times> json) list" where
  "dump_order_placed dec p =
     [(''order_id'', JStr (op_order_id p)), (''instrument_token'', JInt (op_instrument_token p)),
      (''signal_type'', JStr (signal_type_value (op_signal_type p))), (''quantity'', JInt (op_quantity p)),
      (''price'', opt_json (JStr \<circ> dec) (op_price p)), (''timestamp'', JStr (isoformat (op_timestamp p))), (''broker'', JStr (op_broker p)),
      (''status'', JStr (order_status_value (op_status p))), (''strategy_id'', opt_json JStr (op_strategy_id p)),
      (''execution_mode'', opt_json (JStr \<circ> execution_mode_value) (op_execution_mode p))]"

definition dump_pnl_snapshot :: "(rat \<Rightarrow> string) \<Rightarrow> pnl_snapshot \<Rightarrow> (string \<times> json) list" where
  "dump_pnl_snapshot dec p =
     [(''broker'', JStr (pn_broker p)), (''instrument_token'', opt_json JInt (pn_instrument_token p)), (''realized_pnl'', JStr (dec (pn_realized_pnl p))),
      (''unrealized_pnl'', JStr (dec (pn_unrealized_pnl p))), (''total_pnl'', JStr (dec (pn_total_pnl p))), (''timestamp'', JStr (isoformat (pn_timestamp p)))]"

definition record_live_order :: "'r zt_env \<Rightarrow> int \<Rightarrow> string \<Rightarrow> validated_signal \<Rightarrow> 'r zt \<Rightarrow> 'r zt" where
  "record_live_order X now order_id v s =
     s\<lparr>zt_redis :=
         record_portfolio_update (zx_redis X) (zx_clock X) now (''zerodha:'' @ ts_strategy_id (vs_original_signal v))
           (dump_pnl_snapshot (zx_decimal X) (empty_snapshot v)) ''zerodha''
         (record_order_processed (zx_redis X) (zx_clock X) now (dump_order_placed (zx_decimal X) (placed_order order_id v)) ''zerodha'' (zt_redis s))\<rparr>"

text \<open>The events of an order: the first exception ends the block.\<close>

definition emit_live_order :: "'r zt_env \<Rightarrow> int \<Rightarrow> string \<Rightarrow> validated_signal \<Rightarrow> 'r zt \<Rightarrow> exn option \<times> 'r zt" where
  "emit_live_order X now order_id v s =
     (case get_first_producer_or_raise X of
        Some e \<Rightarrow> (Some e, s)
      | None \<Rightarrow>
     (case zt_send X (placed_event order_id v) s of
        (Some e, s1) \<Rightarrow> (Some e, s1)
      | (None, s1) \<Rightarrow>
     (case zt_send X (snapshot_event v) s1 of
        (Some e, s2) \<Rightarrow> (Some e, s2)
      | (None, s2) \<Rightarrow> (None, record_live_order X now order_id v s2))))"

definition handle_live_signal :: "'r zt_env \<Rightarrow> int \<Rightarrow> (string \<times> json) list \<Rightarrow> 'r zt \<Rightarrow> 'r zt" where
  "handle_live_signal X now message s =
     (if jget_none message ''type'' \<noteq> JStr (event_type_value VALIDATED_SIGNAL) then s
      else case (case jget message ''data'' of None \<Rightarrow> JObj [] | Some d \<Rightarrow> d) of
          JObj d \<Rightarrow>
            (case zx_parse X d of
               Inl e \<Rightarrow> s
             | Inr v \<Rightarrow> (let (order_id, s1) = zt_generate_event_id X s in snd (emit_live_order X now order_id v s1)))
        | _ \<Rightarrow> s)"

subsection \<open>What is published\<close>

lemma emit_live_order_sent:
  "zt_sent (snd (emit_live_order X now i v s)) = zt_sent s @
     (if \<not> zx_has_producer X \<or> zx_send X (zt_sent s) (placed_event i v) \<noteq> None then []
      else if zx_send X (zt_sent s @ [placed_event i v]) (snapshot_event v) \<noteq> None then [placed_event i v]
      else [placed_event i v, snapshot_event v])"
  "zt_ids (snd (emit_live_order X now i v s)) = zt_ids s"
  by (auto simp: emit_live_order_def get_first_producer_or_raise_def zt_send_def record_live_order_def split: option.splits)

lemma handle_live_signal_cases:
  "handle_live_signal X now message s = s \<or>
   (\<exists>v. handle_live_signal X now message s = snd (emit_live_order X now (zx_new_id X (zt_ids s)) v (s\<lparr>zt_ids := zt_ids s + 1\<rparr>)))"
proof (cases "case jget message ''data'' of None \<Rightarrow> JObj [] | Some d \<Rightarrow> d")
  case (JObj d)
  then show ?thesis by (cases "zx_parse X d") (auto simp: handle_live_signal_def zt_generate_event_id_def)
qed (simp_all add: handle_live_signal_def)


text \<open>The types of the events: payload, event type, topic and broker agree.\<close>

fun zt_well_typed :: "zt_event \<Rightarrow> bool" where
  "zt_well_typed e =
     (case ze_payload e of
        Placed p \<Rightarrow> ze_type e = ORDER_PLACED \<and> ze_topic e = orders_submitted ''zerodha'' \<and> op_broker p = ''zerodha'' \<and>
          op_status p = PLACED \<and> op_execution_mode p = Some ZERODHA \<and> op_strategy_id p \<noteq> None
      | Snapshot p \<Rightarrow> ze_type e = PNL_SNAPSHOT \<and> ze_topic e = pnl_snapshots ''zerodha'' \<and> pn_broker p = ''zerodha'' \<and>
          pn_total_pnl p = pn_realized_pnl p + pn_unrealized_pnl p)"

definition zt_step :: "'r zt_env \<Rightarrow> 'r zt \<Rightarrow> int \<times> (string \<times> json) list \<Rightarrow> 'r zt" where
  "zt_step X s m = handle_live_signal X (fst m) (snd m) s"

lemma zt_step_typed: "list_all zt_well_typed (zt_sent s) \<Longrightarrow> list_all zt_well_typed (zt_sent (zt_step X s m))"
  using handle_live_signal_cases [of X "fst m" "snd m" s]
  by (auto simp: zt_step_def emit_live_order_sent placed_event_def placed_order_def snapshot_event_def empty_snapshot_def Let_def)

interpretation live: step_machine "zt_step X" "\<lambda>s. list_all zt_well_typed (zt_sent s)" for X
  by unfold_locales (rule zt_step_typed)

text \<open>C37: Only well-typed events of the live broker leave the service. Whatever messages arrive and whichever sends fail, every event published
  has the payload its type and topic announce, an order is a placed order of the live mode with its strategy, and a
  snapshot's total is the sum of its parts.\<close>

theorem live_events_well_typed:
  assumes "zt_sent s = []" "e \<in> set (zt_sent (foldl (zt_step X) s ms))"
  shows "zt_well_typed e"
  using live.run_inv [of s X ms] assms by (simp add: list_all_iff)

definition demo_zt_env :: "bool \<Rightarrow> (string \<times> rvalue) list zt_env" where
  "demo_zt_env up = \<lparr>zx_send = (\<lambda>_ _. if up then None else Some (raise_exn (Other ''RuntimeError'') ''down'')), zx_has_producer = True,
     zx_new_id = show_nat, zx_parse = (\<lambda>d. Inr \<lparr>vs_original_signal = \<lparr>ts_strategy_id = ''m1'', ts_instrument_token = 5, ts_signal_type = BUY,
        ts_quantity = 10, ts_price = Some 100, ts_timestamp = \<lparr>dt_date = ''2025-01-02'', dt_time = ''09:20:00''\<rparr>, ts_confidence = None,
        ts_metadata = None\<rparr>, vs_validated_quantity = 10, vs_validated_price = Some 0, vs_risk_checks = [],
        vs_timestamp = \<lparr>dt_date = ''2025-01-02'', dt_time = ''09:20:00''\<rparr>\<rparr>),
     zx_decimal = show_float, zx_redis = map_redis, zx_clock = \<lparr>ck_iso = show_int, ck_parse = read_int\<rparr>\<rparr>"

definition demo_live_message :: "(string \<times> json) list" where
  "demo_live_message = [(''id'', JStr ''a''), (''type'', JStr ''validated_signal''), (''data'', JObj [])]"

definition zt_init :: "'r \<Rightarrow> 'r zt" where
  "zt_init r = \<lparr>zt_sent = [], zt_ids = 0, zt_redis = r\<rparr>"

lemma demo_zt_fields [simp]:
  "zx_has_producer (demo_zt_env up)" "zx_send (demo_zt_env True) es e = None"
  "zx_send (demo_zt_env False) es e = Some (raise_exn (Other ''RuntimeError'') ''down'')"
  "\<exists>v. zx_parse (demo_zt_env up) d = Inr v \<and> ts_price (vs_original_signal v) = Some 100 \<and> vs_validated_price v = Some 0"
  "jget_none demo_live_message ''type'' = JStr (event_type_value VALIDATED_SIGNAL)" "jget demo_live_message ''data'' = Some (JObj [])"
  by (simp_all add: demo_zt_env_def demo_live_message_def jget_none_def jget_def)


theorem live_events_well_typed_witness:
  "\<exists>e. e \<in> set (zt_sent (foldl (zt_step (demo_zt_env True)) (zt_init []) [(0, demo_live_message)])) \<and> zt_well_typed e"
proof -
  obtain v where v: "zx_parse (demo_zt_env True) [] = Inr v" using demo_zt_fields(4) by blast
  have "placed_event (zx_new_id (demo_zt_env True) 0) v \<in> set (zt_sent (foldl (zt_step (demo_zt_env True)) (zt_init []) [(0, demo_live_message)]))"
    using v by (simp add: zt_step_def handle_live_signal_def zt_generate_event_id_def emit_live_order_sent zt_init_def)
  with live_events_well_typed [OF _ this] show ?thesis by (auto simp: zt_init_def)
qed

end
