(* ===== verification/Sessions.thy ===== *)
theory Sessions
  imports Exceptions
begin

text \<open>
  Sessions of the broker (services/auth/models.py, session_manager.py) over the table of trading sessions
  (core/database/models.py). The database is a record of the statements the manager executes,
  with its documented behaviour as a predicate on the visible rows: user_id is unique, an upsert keeps the
  identity of the row it finds, and a statement that raises is rolled back. Times are
  microseconds. Values read from the JSON column are JSON values.
\<close>

subsection \<open>Data\<close>

datatype auth_status = UNAUTHENTICATED | AUTHENTICATING | AUTHENTICATED | EXPIRED | ERROR

datatype login_method = EXTERNAL_TOKEN | STORED_SESSION | OAUTH

fun login_method_value :: "login_method \<Rightarrow> string" where
  "login_method_value EXTERNAL_TOKEN = ''external_token''"
| "login_method_value STORED_SESSION = ''stored_session''"
| "login_method_value OAUTH = ''oauth''"

text \<open>\<open>LoginMethod(value)\<close>; \<open>None\<close> where the constructor raises.\<close>

definition login_method_of :: "json \<Rightarrow> login_method option" where
  "login_method_of v = find (\<lambda>m. JStr (login_method_value m) = v) [EXTERNAL_TOKEN, STORED_SESSION, OAUTH]"

lemma login_method_of_value [simp]: "login_method_of (JStr (login_method_value m)) = Some m"
  by (cases m) (simp_all add: login_method_of_def)

record session_data =
  sd_user_id :: string
  sd_access_token :: json
  sd_expires_at :: int
  sd_login_timestamp :: int
  sd_last_activity :: int
  sd_login_method :: login_method
  sd_user_name :: json
  sd_user_shortname :: json
  sd_broker :: json
  sd_email :: json
  sd_ip_address :: json
  sd_user_agent :: json
  sd_session_id :: string
  sd_created_at :: int
  sd_updated_at :: int
  sd_last_validated :: int

definition is_expired :: "int \<Rightarrow> session_data \<Rightarrow> bool" where
  "is_expired now s = (sd_expires_at s \<le> now)"

definition time_to_expiry :: "int \<Rightarrow> session_data \<Rightarrow> rat" where
  "time_to_expiry now s = max 0 (of_int (sd_expires_at s - now) / 1000000)"

definition update_activity :: "int \<Rightarrow> session_data \<Rightarrow> session_data" where
  "update_activity now s = s\<lparr>sd_last_activity := now, sd_updated_at := now\<rparr>"

record user_profile =
  up_user_id :: json
  up_user_name :: json
  up_user_shortname :: json
  up_email :: json
  up_broker :: json

definition dget :: "(string \<times> json) list \<Rightarrow> string \<Rightarrow> json \<Rightarrow> json" where
  "dget d k v0 = (case jget d k of None \<Rightarrow> v0 | Some v \<Rightarrow> v)"

definition profile_from_kite_response :: "json \<Rightarrow> exn + user_profile" where
  "profile_from_kite_response data =
     (case data of
        JObj d \<Rightarrow> Inr \<lparr>up_user_id = dget d ''user_id'' (JStr []), up_user_name = dget d ''user_name'' (JStr []),
                      up_user_shortname = dget d ''user_shortname'' (JStr []), up_email = dget d ''email'' (JStr []),
                      up_broker = dget d ''broker'' (JStr ''zerodha'')\<rparr>
      | _ \<Rightarrow> Inl (raise_exn (Other ''AttributeError'') ''object has no attribute get''))"

record session_row =
  sr_session_id :: string
  sr_user_id :: string
  sr_start_time :: int
  sr_end_time :: int
  sr_is_active :: bool
  sr_session_data :: "(string \<times> json) list"
  sr_updated_at :: int

definition row_live :: "int \<Rightarrow> session_row \<Rightarrow> bool" where
  "row_live now r = (sr_is_active r \<and> now < sr_end_time r)"

subsection \<open>The database\<close>

text \<open>The statements: the upsert and its commit; the query, for one user or for all, with its order; the commit of a touched row;
  the deactivation of a user's row, of all rows, and of the expired rows.\<close>

record 'd session_db =
  db_upsert :: "session_row \<Rightarrow> 'd \<Rightarrow> (exn + unit) \<times> 'd"
  db_select :: "int \<Rightarrow> string option \<Rightarrow> 'd \<Rightarrow> (exn + session_row list) \<times> 'd"
  db_touch :: "string \<Rightarrow> int \<Rightarrow> 'd \<Rightarrow> (exn + unit) \<times> 'd"
  db_deactivate :: "string option \<Rightarrow> int \<Rightarrow> 'd \<Rightarrow> (exn + unit) \<times> 'd"
  db_expire :: "int \<Rightarrow> 'd \<Rightarrow> (exn + nat) \<times> 'd"

type_synonym table = "string \<Rightarrow> session_row option"

definition upserted :: "session_row \<Rightarrow> table \<Rightarrow> table" where
  "upserted r T = T(sr_user_id r \<mapsto>
     (case T (sr_user_id r) of
        None \<Rightarrow> r
      | Some old \<Rightarrow> r\<lparr>sr_session_id := sr_session_id old, sr_start_time := sr_start_time old\<rparr>))"

definition matching :: "int \<Rightarrow> string option \<Rightarrow> table \<Rightarrow> session_row set" where
  "matching now user T = {r. \<exists>u. T u = Some r \<and> row_live now r \<and> (user = None \<or> user = Some u)}"

definition session_db_ok :: "'d session_db \<Rightarrow> ('d \<Rightarrow> table) \<Rightarrow> bool" where
  "session_db_ok D view \<longleftrightarrow>
     (\<forall>d u r. view d u = Some r \<longrightarrow> sr_user_id r = u) \<and>
     (\<forall>r d x d'. db_upsert D r d = (x, d') \<longrightarrow> view d' = (case x of Inl e \<Rightarrow> view d | Inr _ \<Rightarrow> upserted r (view d))) \<and>
     (\<forall>now u d x d'. db_select D now u d = (x, d') \<longrightarrow> view d' = view d \<and>
        (case x of Inl e \<Rightarrow> True
         | Inr rs \<Rightarrow> set rs = matching now u (view d) \<and> sorted_wrt (\<lambda>a b. sr_updated_at b \<le> sr_updated_at a) rs)) \<and>
     (\<forall>u t d x d'. db_touch D u t d = (x, d') \<longrightarrow>
        view d' = (case x of Inl e \<Rightarrow> view d | Inr _ \<Rightarrow> (view d)(u := map_option (sr_updated_at_update (\<lambda>_. t)) (view d u)))) \<and>
     (\<forall>u t d x d'. db_deactivate D u t d = (x, d') \<longrightarrow>
        view d' = (case x of Inl e \<Rightarrow> view d
          | Inr _ \<Rightarrow> (\<lambda>w. map_option (\<lambda>r. if (case u of None \<Rightarrow> sr_is_active r | Some v \<Rightarrow> v = w)
              then r\<lparr>sr_is_active := False, sr_updated_at := t\<rparr> else r) (view d w))))"

subsection \<open>The manager\<close>

record 'd sess =
  sm_current :: "session_data option"
  sm_running :: bool
  sm_db :: 'd

definition session_start :: "'d sess \<Rightarrow> 'd sess" where
  "session_start s = (if sm_running s then s else s\<lparr>sm_running := True\<rparr>)"

definition session_stop :: "'d sess \<Rightarrow> 'd sess" where
  "session_stop s = (if \<not> sm_running s then s else s\<lparr>sm_current := None, sm_running := False\<rparr>)"

definition session_dict :: "session_data \<Rightarrow> (string \<times> json) list" where
  "session_dict x =
     [(''access_token'', sd_access_token x), (''user_name'', sd_user_name x), (''user_shortname'', sd_user_shortname x),
      (''broker'', sd_broker x), (''email'', sd_email x), (''login_method'', JStr (login_method_value (sd_login_method x))),
      (''ip_address'', sd_ip_address x), (''user_agent'', sd_user_agent x)]"

text \<open>\<open>uuid\<close> is a new identifier.\<close>

definition session_row_of :: "string \<Rightarrow> int \<Rightarrow> session_data \<Rightarrow> session_row" where
  "session_row_of uuid now x =
     \<lparr>sr_session_id = (if sd_session_id x = [] then uuid else sd_session_id x), sr_user_id = sd_user_id x, sr_start_time = now,
      sr_end_time = sd_expires_at x, sr_is_active = True, sr_session_data = session_dict x, sr_updated_at = now\<rparr>"

definition save_session :: "'d session_db \<Rightarrow> string \<Rightarrow> int \<Rightarrow> session_data \<Rightarrow> 'd sess \<Rightarrow> exn option \<times> 'd sess" where
  "save_session D uuid now x s =
     (let y = x\<lparr>sd_updated_at := now, sd_last_validated := now\<rparr> in
      case db_upsert D (session_row_of uuid now y) (sm_db s) of
        (Inl e, d) \<Rightarrow> (Some (raise_exn (Other ''Exception'') (''Failed to save session: '' @ exn_msg e)), s\<lparr>sm_db := d\<rparr>)
      | (Inr _, d) \<Rightarrow> (None, s\<lparr>sm_db := d, sm_current := Some y\<rparr>))"

definition login_method_field :: "session_row \<Rightarrow> json" where
  "login_method_field r = dget (sr_session_data r) ''login_method'' (JStr ''oauth'')"

definition pick_session :: "bool option \<Rightarrow> session_row list \<Rightarrow> session_row option" where
  "pick_session mock_mode rs =
     (case mock_mode of
        None \<Rightarrow> (case rs of [] \<Rightarrow> None | r # _ \<Rightarrow> Some r)
      | Some m \<Rightarrow> find (\<lambda>r. m \<longleftrightarrow> login_method_field r = JStr ''mock'') rs)"

definition session_of_row :: "int \<Rightarrow> session_row \<Rightarrow> exn + session_data" where
  "session_of_row now r =
     (let d = sr_session_data r in
      case login_method_of (login_method_field r) of
        None \<Rightarrow> Inl (raise_exn (Other ''ValueError'') ''not a valid LoginMethod'')
      | Some m \<Rightarrow>
          Inr \<lparr>sd_user_id = sr_user_id r, sd_access_token = dget d ''access_token'' (JStr []), sd_expires_at = sr_end_time r,
               sd_login_timestamp = sr_start_time r, sd_last_activity = now, sd_login_method = m,
               sd_user_name = jget_none d ''user_name'', sd_user_shortname = jget_none d ''user_shortname'', sd_broker = jget_none d ''broker'',
               sd_email = jget_none d ''email'', sd_ip_address = jget_none d ''ip_address'', sd_user_agent = jget_none d ''user_agent'',
               sd_session_id = sr_session_id r, sd_created_at = sr_start_time r, sd_updated_at = now, sd_last_validated = sr_updated_at r\<rparr>)"

text \<open>The session becomes the current one before its touched row is committed.\<close>

definition load_session :: "'d session_db \<Rightarrow> int \<Rightarrow> bool option \<Rightarrow> string option \<Rightarrow> 'd sess \<Rightarrow> session_data option \<times> 'd sess" where
  "load_session D now mock_mode user_id s =
     (case db_select D now (if user_id = Some [] then None else user_id) (sm_db s) of
        (Inl e, d) \<Rightarrow> (None, s\<lparr>sm_db := d\<rparr>)
      | (Inr rs, d) \<Rightarrow>
          (case pick_session mock_mode rs of
             None \<Rightarrow> (None, s\<lparr>sm_db := d\<rparr>)
           | Some r \<Rightarrow>
               (case session_of_row now r of
                  Inl e \<Rightarrow> (None, s\<lparr>sm_db := d\<rparr>)
                | Inr x \<Rightarrow>
                    (case db_touch D (sr_user_id r) now d of
                       (Inl e, d') \<Rightarrow> (None, s\<lparr>sm_db := d', sm_current := Some x\<rparr>)
                     | (Inr _, d') \<Rightarrow> (Some x, s\<lparr>sm_db := d', sm_current := Some x\<rparr>)))))"

definition get_current_session :: "int \<Rightarrow> 'd sess \<Rightarrow> session_data option" where
  "get_current_session now s = (case sm_current s of None \<Rightarrow> None | Some x \<Rightarrow> if is_expired now x then None else Some x)"

definition is_session_valid :: "int \<Rightarrow> 'd sess \<Rightarrow> bool" where
  "is_session_valid now s = (case get_current_session now s of None \<Rightarrow> False | Some x \<Rightarrow> \<not> is_expired now x)"

definition invalidate_session :: "'d session_db \<Rightarrow> int \<Rightarrow> 'd sess \<Rightarrow> bool \<times> 'd sess" where
  "invalidate_session D now s =
     (case db_deactivate D (map_option sd_user_id (sm_current s)) now (sm_db s) of
        (Inl e, d) \<Rightarrow> (False, s\<lparr>sm_db := d\<rparr>)
      | (Inr _, d) \<Rightarrow> (True, s\<lparr>sm_db := d, sm_current := None\<rparr>))"

definition cleanup_round :: "'d session_db \<Rightarrow> int \<Rightarrow> 'd sess \<Rightarrow> 'd sess" where
  "cleanup_round D now s = (if \<not> sm_running s then s else s\<lparr>sm_db := snd (db_expire D now (sm_db s))\<rparr>)"

subsection \<open>What the database promises\<close>

lemma session_dbD:
  assumes "session_db_ok D view"
  shows "view d u = Some r \<Longrightarrow> sr_user_id r = u"
    "db_upsert D r d = (Inr x, d') \<Longrightarrow> view d' = upserted r (view d)"
    "db_upsert D r d = (Inl e, d') \<Longrightarrow> view d' = view d"
    "db_select D now v d = (y, d') \<Longrightarrow> view d' = view d"
    "db_select D now v d = (Inr rs, d') \<Longrightarrow> set rs = matching now v (view d) \<and> sorted_wrt (\<lambda>a b. sr_updated_at b \<le> sr_updated_at a) rs"
    "db_touch D u t d = (Inr x, d') \<Longrightarrow> view d' = (view d)(u := map_option (sr_updated_at_update (\<lambda>_. t)) (view d u))"
    "db_touch D u t d = (Inl e, d') \<Longrightarrow> view d' = view d"
    "db_deactivate D v t d = (Inr x, d') \<Longrightarrow> view d' = (\<lambda>w. map_option (\<lambda>r. if (case v of None \<Rightarrow> sr_is_active r | Some v \<Rightarrow> v = w)
              then r\<lparr>sr_is_active := False, sr_updated_at := t\<rparr> else r) (view d w))"
    "db_deactivate D v t d = (Inl e, d') \<Longrightarrow> view d' = view d"
  using assms unfolding session_db_ok_def by (fastforce split: sum.splits)+

text \<open>A table as an association list from users to rows.\<close>

definition list_view :: "(string \<times> session_row) list \<Rightarrow> table" where
  "list_view d u = map_option (sr_user_id_update (\<lambda>_. u)) (map_of d u)"

definition list_rows :: "(string \<times> session_row) list \<Rightarrow> session_row list" where
  "list_rows d = map (\<lambda>u. the (list_view d u)) (remdups (map fst d))"

definition map_rows :: "(string \<Rightarrow> session_row \<Rightarrow> session_row) \<Rightarrow> (string \<times> session_row) list \<Rightarrow> (string \<times> session_row) list" where
  "map_rows f d = map (\<lambda>(u, r). (u, f u r)) d"

definition list_db :: "((string \<times> session_row) list) session_db" where
  "list_db = \<lparr>db_upsert = (\<lambda>r d. (Inr (), (sr_user_id r, the (upserted r (list_view d) (sr_user_id r))) # d)),
     db_select = (\<lambda>now u d. (Inr (rev (sort_key sr_updated_at
        (filter (\<lambda>r. row_live now r \<and> (u = None \<or> u = Some (sr_user_id r))) (list_rows d)))), d)),
     db_touch = (\<lambda>u t d. (Inr (), map_rows (\<lambda>k r. if k = u then r\<lparr>sr_updated_at := t\<rparr> else r) d)),
     db_deactivate = (\<lambda>u t d. (Inr (), map_rows (\<lambda>k r. if (case u of None \<Rightarrow> sr_is_active r | Some v \<Rightarrow> v = k)
        then r\<lparr>sr_is_active := False, sr_updated_at := t\<rparr> else r) d)),
     db_expire = (\<lambda>now d. (Inr (length (filter (\<lambda>r. sr_is_active r \<and> sr_end_time r < now) (list_rows d))),
        map_rows (\<lambda>k r. if sr_is_active r \<and> sr_end_time r < now then r\<lparr>sr_is_active := False, sr_updated_at := now\<rparr> else r) d))\<rparr>"

lemma map_of_map_rows: "map_of (map_rows f d) u = map_option (f u) (map_of d u)"
  by (induction d) (auto simp: map_rows_def)

lemma set_list_rows: "set (list_rows d) = {r. \<exists>u. list_view d u = Some r}"
proof -
  have "u \<in> fst ` set d \<longleftrightarrow> list_view d u \<noteq> None" for u
    by (simp add: list_view_def map_of_eq_None_iff)
  then show ?thesis by (force simp: list_rows_def)
qed

lemma list_db_ok: "session_db_ok list_db list_view"
proof -
  have key: "list_view d u = Some r \<Longrightarrow> sr_user_id r = u" for d u r by (auto simp: list_view_def)
  have up: "list_view ((sr_user_id r, the (upserted r (list_view d) (sr_user_id r))) # d) = upserted r (list_view d)" for r d
    by (rule ext) (auto simp: list_view_def upserted_def split: option.split)
  have sel: "set (filter (\<lambda>r. row_live now r \<and> (u = None \<or> u = Some (sr_user_id r))) (list_rows d)) = matching now u (list_view d)" for now u d
    using key by (auto simp: set_list_rows matching_def)
  have srt: "sorted_wrt (\<lambda>a b. sr_updated_at b \<le> sr_updated_at a) (rev (sort_key sr_updated_at rs))" for rs
    using sorted_sort_key [of sr_updated_at rs] by (simp add: sorted_wrt_rev sorted_wrt_map)
  have touch: "list_view (map_rows (\<lambda>k r. if k = u then r\<lparr>sr_updated_at := t\<rparr> else r) d) =
      (list_view d)(u := map_option (sr_updated_at_update (\<lambda>_. t)) (list_view d u))" for u t d
  proof (rule ext)
    fix w
    show "list_view (map_rows (\<lambda>k r. if k = u then r\<lparr>sr_updated_at := t\<rparr> else r) d) w =
        ((list_view d)(u := map_option (sr_updated_at_update (\<lambda>_. t)) (list_view d u))) w"
      by (cases "map_of d w") (auto simp: list_view_def map_of_map_rows)
  qed
  have deact: "list_view (map_rows (\<lambda>k r. if (case u of None \<Rightarrow> sr_is_active r | Some v \<Rightarrow> v = k)
        then r\<lparr>sr_is_active := False, sr_updated_at := t\<rparr> else r) d) =
      (\<lambda>w. map_option (\<lambda>r. if (case u of None \<Rightarrow> sr_is_active r | Some v \<Rightarrow> v = w)
              then r\<lparr>sr_is_active := False, sr_updated_at := t\<rparr> else r) (list_view d w))" for u t d
    by (rule ext) (auto simp: list_view_def map_of_map_rows option.map_comp comp_def split: option.splits intro!: option.map_cong)
  show ?thesis unfolding session_db_ok_def using key
    by (simp add: list_db_def up sel [simplified] srt touch deact)
qed

subsection \<open>Saving and loading\<close>

lemma session_of_saved_row:
  "session_of_row now (session_row_of uuid t x) = Inr (x\<lparr>sd_login_timestamp := t, sd_last_activity := now, sd_created_at := t, sd_updated_at := now,
     sd_last_validated := t, sd_session_id := (if sd_session_id x = [] then uuid else sd_session_id x)\<rparr>)"
  by (simp add: session_of_row_def session_row_of_def login_method_field_def session_dict_def dget_def jget_none_def jget_def Let_def)

text \<open>Mock sessions never load: a stored mock session names a login method that does not exist.\<close>

lemma mock_sessions_never_load: "fst (load_session D now (Some True) u s) = None"
proof -
  have "session_of_row now r = Inl (raise_exn (Other ''ValueError'') ''not a valid LoginMethod'')" if "login_method_field r = JStr ''mock''" for r
    using that by (simp add: session_of_row_def login_method_of_def)
  moreover have "login_method_field r = JStr ''mock''" if "pick_session (Some True) rs = Some r" for rs r
    using that by (auto simp: pick_session_def find_Some_iff)
  ultimately show ?thesis by (auto simp: load_session_def split: prod.splits sum.splits option.splits)
qed

text \<open>The row a load without a login method returns.\<close>

lemma load_session_row:
  assumes ok: "session_db_ok D view" and load: "load_session D now None u s = (Some x, s')"
  obtains r where "r \<in> matching now (if u = Some [] then None else u) (view (sm_db s))"
    "\<forall>q \<in> matching now (if u = Some [] then None else u) (view (sm_db s)). sr_updated_at q \<le> sr_updated_at r"
    "session_of_row now r = Inr x" "sm_current s' = Some x"
    "view (sm_db s') = (view (sm_db s))(sr_user_id r \<mapsto> r\<lparr>sr_updated_at := now\<rparr>)"
proof -
  let ?u = "if u = Some [] then None else u"
  obtain rs d where sel: "db_select D now ?u (sm_db s) = (Inr rs, d)" using load
    by (auto simp: load_session_def split: prod.splits sum.splits)
  then obtain r rs' where rs: "rs = r # rs'" using load by (cases rs) (auto simp: load_session_def pick_session_def)
  have x: "session_of_row now r = Inr x" using load sel rs
    by (auto simp: load_session_def pick_session_def split: sum.splits prod.splits)
  then obtain d' where touch: "db_touch D (sr_user_id r) now d = (Inr (), d')" "s' = s\<lparr>sm_db := d', sm_current := Some x\<rparr>"
    using load sel rs by (auto simp: load_session_def pick_session_def split: sum.splits prod.splits)
  have m: "set rs = matching now ?u (view (sm_db s))" "sorted_wrt (\<lambda>a b. sr_updated_at b \<le> sr_updated_at a) rs"
    using session_dbD(5) [OF ok sel] by auto
  then have r: "r \<in> matching now ?u (view (sm_db s))" using rs by auto
  then have vr: "view (sm_db s) (sr_user_id r) = Some r" using session_dbD(1) [OF ok] by (auto simp: matching_def)
  have "view d' = (view (sm_db s))(sr_user_id r \<mapsto> r\<lparr>sr_updated_at := now\<rparr>)"
    using session_dbD(6) [OF ok touch(1)] session_dbD(4) [OF ok sel] vr by simp
  moreover have "\<forall>q \<in> matching now ?u (view (sm_db s)). sr_updated_at q \<le> sr_updated_at r"
    using m(2) rs unfolding m(1) [symmetric] by auto
  ultimately show thesis using that [of r] r x touch(2) by simp
qed

text \<open>The session loaded is the most recently touched one. A load without a user or a login method returns a session made from an active, unexpired row
  that no other such row was updated after, whoever logged in last; it becomes the current session and its row the most
  recent one, so that the next load before it expires returns the same user and token, provided the clock moves on.\<close>

theorem load_returns_latest:
  assumes ok: "session_db_ok D view" and load: "load_session D now None None s = (Some x, s')"
    and later: "load_session D now' None None s' = (Some y, s'')" "now' < sd_expires_at x"
      "\<forall>u r. view (sm_db s) u = Some r \<longrightarrow> sr_updated_at r < now"
  shows "(\<exists>u r. view (sm_db s) u = Some r \<and> row_live now r \<and> sd_user_id x = u \<and> sd_expires_at x = sr_end_time r \<and>
       (\<forall>v q. view (sm_db s) v = Some q \<and> row_live now q \<longrightarrow> sr_updated_at q \<le> sr_updated_at r)) \<and>
     sm_current s' = Some x \<and> \<not> is_expired now x \<and> sd_user_id y = sd_user_id x \<and> sd_access_token y = sd_access_token x"
proof -
  from load_session_row [OF ok load] obtain r where r: "r \<in> matching now None (view (sm_db s))"
    "\<forall>q \<in> matching now None (view (sm_db s)). sr_updated_at q \<le> sr_updated_at r" "session_of_row now r = Inr x" "sm_current s' = Some x"
    "view (sm_db s') = (view (sm_db s))(sr_user_id r \<mapsto> r\<lparr>sr_updated_at := now\<rparr>)" by auto
  have x: "sd_user_id x = sr_user_id r" "sd_expires_at x = sr_end_time r" "sd_access_token x = dget (sr_session_data r) ''access_token'' (JStr [])"
    using r(3) by (auto simp: session_of_row_def Let_def split: option.splits)
  have vr: "view (sm_db s) (sr_user_id r) = Some r" "row_live now r" using r(1) session_dbD(1) [OF ok] by (auto simp: matching_def)
  from load_session_row [OF ok later(1)] obtain q where q: "q \<in> matching now' None (view (sm_db s'))"
    "\<forall>p \<in> matching now' None (view (sm_db s')). sr_updated_at p \<le> sr_updated_at q" "session_of_row now' q = Inr y" by auto
  have "r\<lparr>sr_updated_at := now\<rparr> \<in> matching now' None (view (sm_db s'))"
    using r(5) vr(2) later(2) x(2) by (auto simp: matching_def row_live_def)
  with q(2) have ge: "now \<le> sr_updated_at q" by force
  have "q = r\<lparr>sr_updated_at := now\<rparr>"
  proof (rule ccontr)
    assume ne: "q \<noteq> r\<lparr>sr_updated_at := now\<rparr>"
    from q(1) r(5) ne obtain u where "view (sm_db s) u = Some q" by (auto simp: matching_def split: if_splits)
    with later(3) ge show False by force
  qed
  then have "sd_user_id y = sr_user_id r" "sd_access_token y = dget (sr_session_data r) ''access_token'' (JStr [])"
    using q(3) by (auto simp: session_of_row_def Let_def split: option.splits)
  moreover have "\<forall>v p. view (sm_db s) v = Some p \<and> row_live now p \<longrightarrow> sr_updated_at p \<le> sr_updated_at r"
    using r(2) by (auto simp: matching_def)
  moreover have "\<not> is_expired now x" using vr(2) x(2) by (simp add: is_expired_def row_live_def)
  ultimately show ?thesis using x vr r(4) by auto
qed

definition demo_row :: session_row where
  "demo_row = \<lparr>sr_session_id = ''s'', sr_user_id = ''AB'', sr_start_time = 0, sr_end_time = 100, sr_is_active = True,
     sr_session_data = [(''access_token'', JStr ''tok'')], sr_updated_at = 0\<rparr>"

lemma load_returns_latest_witness:
  "map_option sd_user_id (fst (load_session list_db 20 None None
     (snd (load_session list_db 10 None None \<lparr>sm_current = None, sm_running = False, sm_db = [(''AB'', demo_row)]\<rparr>)))) = Some ''AB''"
proof -
  let ?s = "\<lparr>sm_current = None, sm_running = False, sm_db = [(''AB'', demo_row)]\<rparr>"
  note run = load_session_def list_db_def list_rows_def list_view_def row_live_def demo_row_def pick_session_def session_of_row_def
    login_method_field_def dget_def jget_def Let_def login_method_of_def map_rows_def
  obtain x s' where l: "load_session list_db 10 None None ?s = (Some x, s')" "sd_user_id x = ''AB''" "sd_expires_at x = 100"
      "sm_db s' = [(''AB'', demo_row\<lparr>sr_updated_at := 10\<rparr>)]"
    by (simp add: run)
  obtain y s'' where m: "load_session list_db 20 None None s' = (Some y, s'')"
    using l(4) by (simp add: run)
  have "\<forall>u r. list_view (sm_db ?s) u = Some r \<longrightarrow> sr_updated_at r < 10" by (auto simp: list_view_def demo_row_def split: if_splits)
  with load_returns_latest [OF list_db_ok l(1) m] l(2,3) have "sd_user_id y = ''AB''" by simp
  with l(1) m show ?thesis by simp
qed

end
