(* ===== verification/Auth.thy ===== *)
theory Auth
  imports Sessions Py_Format
begin

text \<open>
  Authentication with the broker: AuthManager (services/auth/auth_manager.py), AuthService (services/auth/service.py), the wrapper of the
  SDK client (services/auth/kite_client.py) and BrokerAuthenticator (services/market_feed/auth.py). The SDK client, the database and
  what the operator types are parameters. What is printed is left out.
\<close>

subsection \<open>State and environment\<close>

text \<open>What the prompt ends in: no input within the time or a shutdown; an interrupt; a line; another exception.\<close>

datatype prompt = No_Input bool | Interrupted | Line string | Prompt_Raises exn

record 'd auth_env =
  ae_api_key :: string
  ae_api_secret :: string
  ae_db :: "'d session_db"
  ae_profile :: "json \<Rightarrow> exn + json"
  ae_login_url :: "exn + string"
  ae_generate :: "string \<Rightarrow> exn + json"
  ae_uuid :: string
  ae_session_id :: string

record 'd auth =
  au_status :: auth_status
  au_profile :: "user_profile option"
  au_shutting_down :: bool
  au_kite :: bool
  au_token :: "json option"
  au_sessions :: "'d sess"

definition kite_not_initialized :: exn where
  "kite_not_initialized = raise_exn (Other ''AuthenticationError'') ''Kite client not initialized.''"

text \<open>\<open>available\<close>: the SDK is installed and its constructor returns.\<close>

definition auth_init :: "'d auth_env \<Rightarrow> bool \<Rightarrow> 'd \<Rightarrow> 'd auth" where
  "auth_init E available d =
     \<lparr>au_status = UNAUTHENTICATED, au_profile = None, au_shutting_down = False, au_kite = (available \<and> ae_api_key E \<noteq> []), au_token = None,
      au_sessions = \<lparr>sm_current = None, sm_running = False, sm_db = d\<rparr>\<rparr>"

definition set_access_token :: "json \<Rightarrow> 'd auth \<Rightarrow> exn option \<times> 'd auth" where
  "set_access_token t a = (if \<not> au_kite a then (Some kite_not_initialized, a) else (None, a\<lparr>au_token := Some t\<rparr>))"

definition get_profile :: "'d auth_env \<Rightarrow> 'd auth \<Rightarrow> exn + json" where
  "get_profile E a =
     (if \<not> au_kite a then Inl kite_not_initialized
      else ae_profile E (case au_token a of None \<Rightarrow> JNull | Some t \<Rightarrow> t))"

subsection \<open>Logging in\<close>

definition day :: int where
  "day = 86400000000"

definition zerodha_auth_error :: "string \<Rightarrow> exn" where
  "zerodha_auth_error msg = raise_exn (Other ''ZerodhaAuthError'') msg"

text \<open>The profile found and the session made from it; a user id that is not text is refused by the database.\<close>

definition new_session :: "'d auth_env \<Rightarrow> int \<Rightarrow> json \<Rightarrow> login_method \<Rightarrow> user_profile \<Rightarrow> (exn + session_data)" where
  "new_session E now token m p =
     (case up_user_id p of
        JStr u \<Rightarrow>
          Inr \<lparr>sd_user_id = u, sd_access_token = token, sd_expires_at = now + day, sd_login_timestamp = now, sd_last_activity = now,
               sd_login_method = m, sd_user_name = up_user_name p, sd_user_shortname = up_user_shortname p, sd_broker = up_broker p,
               sd_email = up_email p, sd_ip_address = JNull, sd_user_agent = JNull, sd_session_id = ae_session_id E, sd_created_at = now,
               sd_updated_at = now, sd_last_validated = now\<rparr>
      | _ \<Rightarrow> Inl (raise_exn (Other ''Exception'') ''Failed to save session''))"

text \<open>Fetching the profile with the token set, making the session and saving it.\<close>

definition open_session :: "'d auth_env \<Rightarrow> int \<Rightarrow> json \<Rightarrow> login_method \<Rightarrow> 'd auth \<Rightarrow> (exn + session_data) \<times> 'd auth" where
  "open_session E now token m a =
     (case set_access_token token a of
        (Some e, a1) \<Rightarrow> (Inl e, a1)
      | (None, a1) \<Rightarrow>
     (case get_profile E a1 of
        Inl e \<Rightarrow> (Inl e, a1)
      | Inr data \<Rightarrow>
     (case profile_from_kite_response data of
        Inl e \<Rightarrow> (Inl e, a1)
      | Inr p \<Rightarrow>
          (let a2 = a1\<lparr>au_profile := Some p\<rparr> in
           case new_session E now token m p of
             Inl e \<Rightarrow> (Inl e, a2)
           | Inr x \<Rightarrow>
               (case save_session (ae_db E) (ae_uuid E) now x (au_sessions a2) of
                  (Some e, ss) \<Rightarrow> (Inl e, a2\<lparr>au_sessions := ss\<rparr>)
                | (None, ss) \<Rightarrow> (Inr x, a2\<lparr>au_sessions := ss\<rparr>))))))"

definition login_with_token :: "'d auth_env \<Rightarrow> int \<Rightarrow> string \<Rightarrow> 'd auth \<Rightarrow> (exn + session_data) \<times> 'd auth" where
  "login_with_token E now token a =
     (if \<not> au_kite a then (Inl (raise_exn (Other ''AuthenticationError'') ''Cannot login with token: Kite client not initialized.''), a)
      else case open_session E now (JStr token) EXTERNAL_TOKEN a of
          (Inl e, a1) \<Rightarrow> (Inl (zerodha_auth_error (''Token validation or session creation failed: '' @ exn_msg e)), a1\<lparr>au_status := ERROR\<rparr>)
        | (Inr x, a1) \<Rightarrow> (Inr x, a1\<lparr>au_status := AUTHENTICATED\<rparr>))"

definition generate_error :: "exn \<Rightarrow> exn" where
  "generate_error e =
     (if in_str ''Invalid request token'' (exn_msg e) \<or> in_str ''400'' (exn_msg e)
      then zerodha_auth_error ''Invalid request token. Please try again with a fresh token from the login URL.''
      else if in_str ''timeout'' (str_lower (exn_msg e))
      then zerodha_auth_error ''Network timeout during authentication. Please check your internet connection.''
      else zerodha_auth_error (''Failed to generate session: '' @ exn_msg e))"

text \<open>The token of a response; any falsy response, or one without a token, is invalid.\<close>

definition response_token :: "json \<Rightarrow> exn + json" where
  "response_token r =
     (if \<not> py_truthy r then Inl (zerodha_auth_error ''Invalid response from Zerodha API'')
      else case r of
          JObj d \<Rightarrow> (case jget d ''access_token'' of None \<Rightarrow> Inl (zerodha_auth_error ''Invalid response from Zerodha API'') | Some t \<Rightarrow> Inr t)
        | JStr s \<Rightarrow> if in_str ''access_token'' s then Inl (raise_exn (Other ''TypeError'') ''string indices must be integers'')
                    else Inl (zerodha_auth_error ''Invalid response from Zerodha API'')
        | JList xs \<Rightarrow> if JStr ''access_token'' \<in> set xs then Inl (raise_exn (Other ''TypeError'') ''list indices must be integers or slices'')
                      else Inl (zerodha_auth_error ''Invalid response from Zerodha API'')
        | _ \<Rightarrow> Inl (raise_exn (Other ''TypeError'') ''argument is not iterable''))"

definition generate_session :: "'d auth_env \<Rightarrow> int \<Rightarrow> string \<Rightarrow> 'd auth \<Rightarrow> (exn + session_data) \<times> 'd auth" where
  "generate_session E now request_token a =
     (let fail = (\<lambda>e a. (Inl (generate_error e), a)) in
      if length request_token < 10 then fail (raise_exn (Other ''ValueError'') ''Invalid request token format'') a
      else case (if \<not> au_kite a then Inl kite_not_initialized else ae_generate E request_token) of
          Inl e \<Rightarrow> fail e a
        | Inr r \<Rightarrow>
            (case response_token r of
               Inl e \<Rightarrow> fail e a
             | Inr t \<Rightarrow> (case open_session E now t OAUTH a of (Inl e, a1) \<Rightarrow> fail e a1 | (Inr x, a1) \<Rightarrow> (Inr x, a1))))"

definition validate_api_credentials :: "'d auth_env \<Rightarrow> 'd auth \<Rightarrow> bool" where
  "validate_api_credentials E a = (au_kite a \<and> ae_api_key E \<noteq> [] \<and> ae_api_secret E \<noteq> [])"

definition interactive_authentication :: "'d auth_env \<Rightarrow> int \<Rightarrow> prompt \<Rightarrow> 'd auth \<Rightarrow> bool \<times> 'd auth" where
  "interactive_authentication E now typed a0 =
     (let a = a0\<lparr>au_status := AUTHENTICATING\<rparr>; failed = (\<lambda>a. (False, a\<lparr>au_status := ERROR\<rparr>)) in
      if \<not> validate_api_credentials E a then (False, a)
      else case ae_login_url E of
          Inl e \<Rightarrow> (False, a)
        | Inr url \<Rightarrow>
            (case typed of
               No_Input shutdown \<Rightarrow> failed (if shutdown then a\<lparr>au_shutting_down := True\<rparr> else a)
             | Interrupted \<Rightarrow> (False, a\<lparr>au_status := ERROR, au_shutting_down := True\<rparr>)
             | Prompt_Raises e \<Rightarrow> failed a
             | Line l \<Rightarrow>
                 if au_shutting_down a then failed a
                 else if blank l then failed a
                 else case generate_session E now (strip l) a of
                     (Inl e, a1) \<Rightarrow> failed a1
                   | (Inr x, a1) \<Rightarrow> (True, a1\<lparr>au_status := AUTHENTICATED\<rparr>)))"

text \<open>Restoring the session found: \<open>True\<close> if its token is still good. The profile must be a dictionary.\<close>

definition restore_session :: "'d auth_env \<Rightarrow> int \<Rightarrow> session_data \<Rightarrow> 'd auth \<Rightarrow> (exn + unit) \<times> 'd auth" where
  "restore_session E now x a =
     (let a1 = a\<lparr>au_token := Some (sd_access_token x)\<rparr> in
      case get_profile E a1 of
        Inl e \<Rightarrow> (Inl e, a1)
      | Inr data \<Rightarrow>
          (case profile_from_kite_response data of
             Inl e \<Rightarrow> (Inl (raise_exn (Other ''ValueError'') ''Invalid profile data format from Zerodha API''), a1)
           | Inr p \<Rightarrow> (Inr (), a1\<lparr>au_profile := Some p, au_status := AUTHENTICATED\<rparr>)))"

definition auth_initialize :: "'d auth_env \<Rightarrow> int \<Rightarrow> prompt \<Rightarrow> 'd auth \<Rightarrow> bool \<times> 'd auth" where
  "auth_initialize E now typed a =
     (if ae_api_key E = [] \<or> ae_api_secret E = [] \<or> \<not> au_kite a then (False, a\<lparr>au_status := ERROR\<rparr>)
      else let (loaded, ss) = load_session (ae_db E) now None None (au_sessions a);
               a1 = a\<lparr>au_sessions := ss\<rparr>;
               (restored, a2) = (case loaded of
                  None \<Rightarrow> (False, a1)
                | Some x \<Rightarrow>
                    if is_expired now x then (False, a1)
                    else case restore_session E now x a1 of
                        (Inr _, b) \<Rightarrow> (True, b)
                      | (Inl e, b) \<Rightarrow> (False, b\<lparr>au_sessions := snd (invalidate_session (ae_db E) now (au_sessions b))\<rparr>))
           in if restored then (True, a2)
              else case interactive_authentication E now typed a2 of
                  (True, a3) \<Rightarrow> (True, a3)
                | (False, a3) \<Rightarrow> (False, a3\<lparr>au_status := ERROR\<rparr>))"

subsection \<open>Using and closing the session\<close>

definition logout :: "'d auth_env \<Rightarrow> int \<Rightarrow> 'd auth \<Rightarrow> bool \<times> 'd auth" where
  "logout E now a =
     (let (out, ss) = invalidate_session (ae_db E) now (au_sessions a); a1 = a\<lparr>au_sessions := ss\<rparr>
      in (out, if out then a1\<lparr>au_status := UNAUTHENTICATED, au_profile := None\<rparr> else a1))"

definition manager_access_token :: "'d auth_env \<Rightarrow> int \<Rightarrow> 'd auth \<Rightarrow> json option \<times> 'd auth" where
  "manager_access_token E now a =
     (if au_status a = AUTHENTICATED
      then (case load_session (ae_db E) now None None (au_sessions a) of
              (x, ss) \<Rightarrow> (case x of None \<Rightarrow> None | Some x \<Rightarrow> if is_expired now x then None else Some (sd_access_token x), a\<lparr>au_sessions := ss\<rparr>))
      else (None, a))"

definition auth_stop :: "'d auth \<Rightarrow> 'd auth" where
  "auth_stop a = a\<lparr>au_shutting_down := True, au_sessions := session_stop (au_sessions a)\<rparr>"

subsection \<open>The service\<close>

definition is_authenticated :: "'d auth \<Rightarrow> bool" where
  "is_authenticated a = (au_status a = AUTHENTICATED)"

definition get_access_token :: "'d auth_env \<Rightarrow> int \<Rightarrow> 'd auth \<Rightarrow> json option \<times> 'd auth" where
  "get_access_token E now a = (if \<not> is_authenticated a then (None, a) else manager_access_token E now a)"

text \<open>\<open>AuthStatus\<close> has no member STOPPED.\<close>

definition get_status :: "'d auth \<Rightarrow> exn + bool" where
  "get_status a = Inl (raise_exn (Other ''AttributeError'') ''type object AuthStatus has no attribute STOPPED'')"

record login_response =
  lr_success :: bool
  lr_message :: string
  lr_user_id :: "string option"
  lr_session_id :: "string option"

definition establish_zerodha_session :: "'d auth_env \<Rightarrow> int \<Rightarrow> string \<Rightarrow> 'd auth \<Rightarrow> login_response \<times> 'd auth" where
  "establish_zerodha_session E now token a =
     (if token = [] then (\<lparr>lr_success = False, lr_message = ''Access token is required.'', lr_user_id = None, lr_session_id = None\<rparr>, a)
      else case login_with_token E now token a of
          (Inl e, a1) \<Rightarrow> (\<lparr>lr_success = False, lr_message = exn_msg e, lr_user_id = None, lr_session_id = None\<rparr>, a1)
        | (Inr x, a1) \<Rightarrow> (\<lparr>lr_success = True, lr_message = ''Zerodha session established successfully.'', lr_user_id = Some (sd_user_id x),
                         lr_session_id = Some (sd_session_id x)\<rparr>, a1))"

definition get_current_user_profile :: "'d auth_env \<Rightarrow> int \<Rightarrow> 'd auth \<Rightarrow> user_profile option \<times> 'd auth" where
  "get_current_user_profile E now a =
     (if \<not> is_authenticated a then (None, a)
      else case au_profile a of
          Some p \<Rightarrow> (Some p, a)
        | None \<Rightarrow>
            (let (token, a1) = manager_access_token E now a in
             case token of
               None \<Rightarrow> (None, a1)
             | Some t \<Rightarrow>
                 if \<not> py_truthy t \<or> \<not> au_kite a1 then (None, a1)
                 else let a2 = a1\<lparr>au_token := Some t\<rparr> in
                      case get_profile E a2 of
                        Inl e \<Rightarrow> (None, a2)
                      | Inr data \<Rightarrow> (case profile_from_kite_response data of Inl e \<Rightarrow> (None, a2) | Inr p \<Rightarrow> (Some p, a2\<lparr>au_profile := Some p\<rparr>))))"

subsection \<open>The market feed's ticker\<close>

definition get_ticker :: "'d auth_env \<Rightarrow> int \<Rightarrow> 'd auth \<Rightarrow> (exn + string \<times> json) \<times> 'd auth" where
  "get_ticker E now a =
     (if \<not> is_authenticated a
      then (Inl (raise_exn (Other ''ConnectionError'') ''Cannot start market feed: No authenticated Zerodha session found.''), a)
      else let (token, a1) = get_access_token E now a in
           (case token of
              None \<Rightarrow> Inl (raise_exn (Other ''ValueError'') ''Zerodha API key or access token is missing.'')
            | Some t \<Rightarrow> if ae_api_key E = [] \<or> \<not> py_truthy t then Inl (raise_exn (Other ''ValueError'') ''Zerodha API key or access token is missing.'')
                        else Inr (ae_api_key E, t), a1))"

subsection \<open>The status\<close>

lemma sessions_keep_running:
  "save_session D u now x s = (r1, s') \<Longrightarrow> sm_running s' = sm_running s"
  "load_session D now m v s = (r2, s') \<Longrightarrow> sm_running s' = sm_running s"
  "invalidate_session D now s = (r3, s') \<Longrightarrow> sm_running s' = sm_running s"
  by (auto simp: save_session_def load_session_def invalidate_session_def Let_def split: prod.splits sum.splits option.splits)

text \<open>What an operation leaves alone: the client and whether the session manager runs.\<close>

definition kept :: "'d auth \<Rightarrow> bool \<times> bool" where
  "kept a = (au_kite a, sm_running (au_sessions a))"

lemma kept_update [simp]:
  "kept (a\<lparr>au_status := st\<rparr>) = kept a" "kept (a\<lparr>au_profile := p\<rparr>) = kept a" "kept (a\<lparr>au_token := t\<rparr>) = kept a"
  "kept (a\<lparr>au_shutting_down := b\<rparr>) = kept a" "sm_running ss = sm_running (au_sessions a) \<Longrightarrow> kept (a\<lparr>au_sessions := ss\<rparr>) = kept a"
  by (simp_all add: kept_def)

lemma open_session_facts:
  assumes "open_session E now t m a = (r, a')"
  shows "kept a' = kept a \<and> au_status a' = au_status a \<and> (\<forall>x. r = Inr x \<longrightarrow> au_profile a' \<noteq> None)"
  using assms sessions_keep_running(1)
  by (auto simp: open_session_def set_access_token_def Let_def split: if_splits sum.splits prod.splits option.splits) fastforce+

lemma generate_session_facts:
  assumes "generate_session E now l a = (r, a')"
  shows "kept a' = kept a \<and> au_status a' = au_status a \<and> (\<forall>x. r = Inr x \<longrightarrow> au_profile a' \<noteq> None)"
proof (cases "length l < 10")
  case False
  show ?thesis
  proof (cases "if \<not> au_kite a then Inl kite_not_initialized else ae_generate E l")
    case (Inl e)
    with False assms show ?thesis by (auto simp: generate_session_def)
  next
    case (Inr resp)
    show ?thesis
    proof (cases "response_token resp")
      case (Inl e)
      with False Inr assms show ?thesis by (auto simp: generate_session_def)
    next
      case tok: (Inr t)
      obtain r1 a1 where "open_session E now t OAUTH a = (r1, a1)" by fastforce
      with open_session_facts [OF this] False Inr tok assms show ?thesis by (cases r1) (auto simp: generate_session_def)
    qed
  qed
qed (use assms in \<open>auto simp: generate_session_def\<close>)

lemma interactive_facts:
  assumes "interactive_authentication E now typed a = (b, a')"
  shows "kept a' = kept a \<and> b = (au_status a' = AUTHENTICATED) \<and> (b \<longrightarrow> au_profile a' \<noteq> None)"
proof (cases "\<exists>l. typed = Line l \<and> \<not> au_shutting_down a \<and> \<not> blank l")
  case True
  then obtain l where l: "typed = Line l" "\<not> au_shutting_down a" "\<not> blank l" by blast
  obtain r a1 where "generate_session E now (strip l) (a\<lparr>au_status := AUTHENTICATING\<rparr>) = (r, a1)" by fastforce
  with generate_session_facts [OF this] l assms show ?thesis
    by (cases r) (auto simp: interactive_authentication_def Let_def split: if_splits sum.splits)
next
  case False
  with assms show ?thesis
    by (cases typed) (auto simp: interactive_authentication_def Let_def split: if_splits sum.splits)
qed

lemma restore_facts:
  assumes "restore_session E now x a = (r, a')"
  shows "kept a' = kept a \<and> (\<forall>u. r = Inr u \<longrightarrow> au_status a' = AUTHENTICATED \<and> au_profile a' \<noteq> None)"
  using assms by (auto simp: restore_session_def Let_def split: sum.splits)

lemma auth_initialize_facts:
  assumes run: "auth_initialize E now typed a = (b, a')"
  shows "kept a' = kept a \<and> au_status a' = (if b then AUTHENTICATED else ERROR) \<and> (b \<longrightarrow> au_profile a' \<noteq> None)"
proof (cases "ae_api_key E = [] \<or> ae_api_secret E = [] \<or> \<not> au_kite a")
  case False
  obtain loaded ss where load: "load_session (ae_db E) now None None (au_sessions a) = (loaded, ss)" by fastforce
  let ?a = "a\<lparr>au_sessions := ss\<rparr>"
  obtain restored a2 where r: "(case loaded of None \<Rightarrow> (False, ?a) | Some x \<Rightarrow> if is_expired now x then (False, ?a)
      else case restore_session E now x ?a of (Inr _, b) \<Rightarrow> (True, b)
        | (Inl e, b) \<Rightarrow> (False, b\<lparr>au_sessions := snd (invalidate_session (ae_db E) now (au_sessions b))\<rparr>)) = (restored, a2)" by fastforce
  have "kept ?a = kept a" using sessions_keep_running(2) [OF load] by simp
  then have k: "kept a2 = kept a \<and> (restored \<longrightarrow> au_status a2 = AUTHENTICATED \<and> au_profile a2 \<noteq> None)"
  proof (cases loaded)
    case (Some x)
    obtain u a1 where rs: "restore_session E now x ?a = (u, a1)" by fastforce
    have "sm_running (snd (invalidate_session (ae_db E) now (au_sessions a1))) = sm_running (au_sessions a1)"
      using sessions_keep_running(3) by (metis prod.collapse)
    with restore_facts [OF rs] r Some rs \<open>kept ?a = kept a\<close> show ?thesis by (cases u) (auto split: if_splits)
  qed (use r in auto)
  have e: "auth_initialize E now typed a = (if restored then (True, a2) else case interactive_authentication E now typed a2 of
      (True, a3) \<Rightarrow> (True, a3) | (False, a3) \<Rightarrow> (False, a3\<lparr>au_status := ERROR\<rparr>))"
    using False by (simp add: auth_initialize_def load r)
  obtain c a3 where "interactive_authentication E now typed a2 = (c, a3)" by fastforce
  with interactive_facts [OF this] e run k show ?thesis by (cases restored; cases c) auto
qed (use run in \<open>auto simp: auth_initialize_def\<close>)

text \<open>The operations of a run.\<close>

datatype auth_input = Initialize int prompt | Establish int string | Logout int | Access_Token int | Profile int | Ticker int | Stop_Auth

fun auth_step :: "'d auth_env \<Rightarrow> 'd auth \<Rightarrow> auth_input \<Rightarrow> 'd auth" where
  "auth_step E a (Initialize now typed) = snd (auth_initialize E now typed a)"
| "auth_step E a (Establish now token) = snd (establish_zerodha_session E now token a)"
| "auth_step E a (Logout now) = snd (logout E now a)"
| "auth_step E a (Access_Token now) = snd (get_access_token E now a)"
| "auth_step E a (Profile now) = snd (get_current_user_profile E now a)"
| "auth_step E a (Ticker now) = snd (get_ticker E now a)"
| "auth_step E a Stop_Auth = auth_stop a"

text \<open>An authenticated service has a profile, and nothing starts the session manager.\<close>

definition auth_inv :: "'d auth \<Rightarrow> bool" where
  "auth_inv a = ((au_status a = AUTHENTICATED \<longrightarrow> au_profile a \<noteq> None) \<and> \<not> sm_running (au_sessions a))"

lemma manager_access_token_facts:
  assumes "manager_access_token E now a = (t, a')"
  shows "au_status a' = au_status a \<and> au_profile a' = au_profile a \<and> sm_running (au_sessions a') = sm_running (au_sessions a)"
proof -
  obtain x ss where l: "load_session (ae_db E) now None None (au_sessions a) = (x, ss)" by fastforce
  from sessions_keep_running(2) [OF l] assms show ?thesis by (auto simp: manager_access_token_def l split: if_splits)
qed

lemma get_access_token_facts:
  assumes "get_access_token E now a = (t, a')"
  shows "au_status a' = au_status a \<and> au_profile a' = au_profile a \<and> sm_running (au_sessions a') = sm_running (au_sessions a)"
proof (cases "is_authenticated a")
  case True
  with assms have "manager_access_token E now a = (t, a')" by (simp add: get_access_token_def)
  then show ?thesis by (rule manager_access_token_facts)
qed (use assms in \<open>simp add: get_access_token_def\<close>)

lemma auth_step_inv: "auth_inv a \<Longrightarrow> auth_inv (auth_step E a i)"
proof (cases i)
  assume inv: "auth_inv a"
  {
    case (Initialize now typed)
    obtain b a' where "auth_initialize E now typed a = (b, a')" by fastforce
    with auth_initialize_facts [OF this] inv show ?thesis by (simp add: Initialize auth_inv_def kept_def)
  next
    case (Establish now token)
    obtain r a' where "open_session E now (JStr token) EXTERNAL_TOKEN a = (r, a')" by fastforce
    with open_session_facts [OF this] inv show ?thesis
      by (cases r) (auto simp: Establish establish_zerodha_session_def login_with_token_def auth_inv_def kept_def)
  next
    case (Logout now)
    obtain out ss where "invalidate_session (ae_db E) now (au_sessions a) = (out, ss)" by fastforce
    with sessions_keep_running(3) [OF this] inv show ?thesis by (auto simp: Logout logout_def auth_inv_def Let_def)
  next
    case (Access_Token now)
    obtain t a' where "get_access_token E now a = (t, a')" by fastforce
    with get_access_token_facts [OF this] inv show ?thesis by (auto simp: Access_Token auth_inv_def)
  next
    case (Profile now)
    with inv show ?thesis by (cases "au_profile a") (auto simp: get_current_user_profile_def is_authenticated_def auth_inv_def)
  next
    case (Ticker now)
    obtain t a' where "get_access_token E now a = (t, a')" by fastforce
    with get_access_token_facts [OF this] inv show ?thesis by (auto simp: Ticker get_ticker_def auth_inv_def)
  next
    case Stop_Auth
    with inv show ?thesis by (simp add: auth_stop_def auth_inv_def session_stop_def)
  }
qed

interpretation auth: step_machine "auth_step E" auth_inv for E
  by unfold_locales (rule auth_step_inv)

text \<open>An authenticated service knows its user. After any sequence of operations from the start, an authenticated service has a profile, so asking for
  it returns it at once: neither the database nor the broker is asked, and the state stays the same. Starting up succeeds
  exactly when the service comes out authenticated, and leaves it in the error state otherwise.\<close>

theorem authenticated_has_profile:
  assumes "a = foldl (auth_step E) (auth_init E k d) is"
  shows "(is_authenticated a \<longrightarrow> au_profile a \<noteq> None \<and> get_current_user_profile E now a = (au_profile a, a)) \<and>
     (\<forall>b a'. auth_initialize E now typed a = (b, a') \<longrightarrow> is_authenticated a' = b \<and> (\<not> b \<longrightarrow> au_status a' = ERROR))"
proof -
  have "auth_inv a" unfolding assms by (rule auth.run_inv) (simp add: auth_inv_def auth_init_def)
  then have "is_authenticated a \<longrightarrow> au_profile a \<noteq> None \<and> get_current_user_profile E now a = (au_profile a, a)"
    by (auto simp: auth_inv_def is_authenticated_def get_current_user_profile_def)
  moreover have "is_authenticated a' = b \<and> (\<not> b \<longrightarrow> au_status a' = ERROR)" if "auth_initialize E now typed a = (b, a')" for b a'
    using auth_initialize_facts [OF that] by (simp add: is_authenticated_def)
  ultimately show ?thesis by blast
qed

text \<open>A stop without a start: nothing starts the session manager, so stopping returns at once and the session stays.\<close>

lemma stop_keeps_session:
  assumes "a = foldl (auth_step E) (auth_init E k d) is"
  shows "\<not> sm_running (au_sessions a) \<and> sm_current (au_sessions (auth_stop a)) = sm_current (au_sessions a)"
proof -
  have "auth_inv a" unfolding assms by (rule auth.run_inv) (simp add: auth_inv_def auth_init_def)
  then show ?thesis by (simp add: auth_inv_def auth_stop_def session_stop_def)
qed

text \<open>A load when a single row, or none, is alive.\<close>

definition db_up :: "'d session_db \<Rightarrow> bool" where
  "db_up D \<longleftrightarrow> (\<forall>now u d e. fst (db_select D now u d) \<noteq> Inl e) \<and> (\<forall>u t d e. fst (db_touch D u t d) \<noteq> Inl e)"

lemma select_up:
  assumes "db_up D"
  obtains rs d' where "db_select D now u d = (Inr rs, d')"
proof (cases "db_select D now u d")
  case (Pair x d')
  moreover have "fst (db_select D now u d) \<noteq> Inl e" for e using assms unfolding db_up_def by blast
  ultimately show thesis using that by (cases x) auto
qed

lemma touch_up:
  assumes "db_up D"
  obtains d' where "db_touch D u t d = (Inr (), d')"
proof (cases "db_touch D u t d")
  case (Pair x d')
  moreover have "fst (db_touch D u t d) \<noteq> Inl e" for e using assms unfolding db_up_def by blast
  ultimately show thesis using that by (cases x) auto
qed

lemma load_session_none_live:
  assumes "session_db_ok D view" "matching now None (view (sm_db s)) = {}" "load_session D now None None s = (x, s')"
  shows "x = None"
proof (cases x)
  case (Some y)
  show ?thesis
  proof (rule load_session_row [OF assms(1) assms(3) [unfolded Some]])
    fix r assume "r \<in> matching now (if None = Some [] then None else None) (view (sm_db s))"
    with assms(2) show ?thesis by simp
  qed
qed simp

lemma load_session_one_live:
  assumes ok: "session_db_ok D view" and up: "db_up D" and one: "matching now None (view (sm_db s)) = {r}"
    and y: "session_of_row now r = Inr y" and load: "load_session D now None None s = (x, s')"
  shows "x = Some y"
proof -
  obtain rs d where sel: "db_select D now None (sm_db s) = (Inr rs, d)"
    by (rule select_up [OF up])
  have "set rs = {r}" using session_dbD(5) [OF ok sel] one by simp
  then obtain rs' where rs: "rs = r # rs'" by (cases rs) auto
  obtain d' where "db_touch D (sr_user_id r) now d = (Inr (), d')"
    by (rule touch_up [OF up])
  with load sel rs y show ?thesis by (simp add: load_session_def pick_session_def)
qed

lemma open_session_saves:
  assumes ok: "session_db_ok (ae_db E) view" and run: "open_session E now token m a = (Inr x, a')"
  shows "view (sm_db (au_sessions a')) = upserted (session_row_of (ae_uuid E) now x) (view (sm_db (au_sessions a))) \<and>
    sd_access_token x = token \<and> sd_expires_at x = now + day"
proof -
  obtain a1 where t: "set_access_token token a = (None, a1)" "au_sessions a1 = au_sessions a"
    using run by (auto simp: open_session_def set_access_token_def split: if_splits)
  obtain data where data: "get_profile E a1 = Inr data" using run t by (auto simp: open_session_def split: sum.splits)
  obtain p where p: "profile_from_kite_response data = Inr p" using run t data by (auto simp: open_session_def split: sum.splits)
  have x: "new_session E now token m p = Inr x"
    using run t data p by (auto simp: open_session_def Let_def split: sum.splits prod.splits option.splits)
  obtain ss where ss: "save_session (ae_db E) (ae_uuid E) now x (au_sessions a) = (None, ss)" "au_sessions a' = ss"
    using run t data p x by (auto simp: open_session_def Let_def split: prod.splits option.splits)
  have x': "sd_access_token x = token" "sd_expires_at x = now + day"
    using x by (auto simp: new_session_def split: json.splits)
  have same: "session_row_of (ae_uuid E) now (x\<lparr>sd_updated_at := now, sd_last_validated := now\<rparr>) = session_row_of (ae_uuid E) now x"
    by (simp add: session_row_of_def session_dict_def)
  obtain d where "db_upsert (ae_db E) (session_row_of (ae_uuid E) now x) (sm_db (au_sessions a)) = (Inr (), d)" "sm_db ss = d"
    using ss(1) same by (auto simp: save_session_def Let_def split: prod.splits sum.splits)
  with session_dbD(2) [OF ok this(1)] ss(2) x' show ?thesis by simp
qed

text \<open>C22: A login is good for a day. When the broker's token is accepted and the sessions of before are over, the ticker of the market feed
  gets that token, with the API key, until a day has passed; from then on it is refused with a ValueError, while the service
  still says that it is authenticated.\<close>

theorem login_valid_for_a_day:
  assumes ok: "session_db_ok (ae_db E) view" and up: "db_up (ae_db E)" and key: "ae_api_key E \<noteq> []"
    and over: "\<forall>u r. view (sm_db (au_sessions a)) u = Some r \<longrightarrow> \<not> row_live t r"
    and login: "establish_zerodha_session E t token a = (resp, a')" "lr_success resp" and t': "t \<le> t'"
  shows "fst (get_ticker E t' a') = (if t' < t + day then Inr (ae_api_key E, JStr token)
       else Inl (raise_exn (Other ''ValueError'') ''Zerodha API key or access token is missing.'')) \<and>
     is_authenticated (snd (get_ticker E t' a'))"
proof -
  obtain x a1 where o: "open_session E t (JStr token) EXTERNAL_TOKEN a = (Inr x, a1)" "a' = a1\<lparr>au_status := AUTHENTICATED\<rparr>" "token \<noteq> []"
    using login by (auto simp: establish_zerodha_session_def login_with_token_def split: if_splits sum.splits prod.splits)
  note x = open_session_saves [OF ok o(1)]
  let ?T = "view (sm_db (au_sessions a'))"
  let ?old = "view (sm_db (au_sessions a)) (sd_user_id x)"
  obtain r where r: "?T = (view (sm_db (au_sessions a)))(sd_user_id x \<mapsto> r)" "sr_user_id r = sd_user_id x" "sr_end_time r = t + day" "sr_is_active r"
      "sr_session_data r = session_dict x"
    using x o(2) by (cases ?old) (auto simp: upserted_def session_row_of_def)
  have "\<not> row_live t' q" if "view (sm_db (au_sessions a)) u = Some q" for u q
    using over that t' by (fastforce simp: row_live_def)
  then have m: "matching t' None ?T = (if t' < t + day then {r} else {})"
    using r by (auto simp: matching_def row_live_def)
  obtain y where y: "session_of_row t' r = Inr y" "sd_access_token y = JStr token" "sd_expires_at y = t + day"
    using r(2-5) x by (simp add: session_of_row_def login_method_field_def session_dict_def dget_def jget_none_def jget_def Let_def)
  obtain w ss where l: "load_session (ae_db E) t' None None (au_sessions a') = (w, ss)" by fastforce
  have "w = (if t' < t + day then Some y else None)"
    using load_session_one_live [OF ok up _ y(1) l] load_session_none_live [OF ok _ l] m by (auto split: if_splits)
  then have "get_access_token E t' a' = (if t' < t + day then Some (JStr token) else None, a'\<lparr>au_sessions := ss\<rparr>)"
    using y o(2) l by (simp add: get_access_token_def is_authenticated_def manager_access_token_def is_expired_def)
  then show ?thesis using key o(2,3) by (simp add: get_ticker_def is_authenticated_def)
qed

definition demo_env :: "((string \<times> session_row) list) auth_env" where
  "demo_env = \<lparr>ae_api_key = ''key'', ae_api_secret = ''secret'', ae_db = list_db, ae_profile = (\<lambda>t. Inr (JObj [(''user_id'', JStr ''AB'')])),
     ae_login_url = Inr ''url'', ae_generate = (\<lambda>t. Inr (JObj [(''access_token'', JStr ''tok'')])), ae_uuid = ''u'', ae_session_id = ''s''\<rparr>"

lemmas demo_login = demo_env_def auth_init_def establish_zerodha_session_def login_with_token_def open_session_def set_access_token_def
  get_profile_def profile_from_kite_response_def dget_def jget_def new_session_def save_session_def list_db_def Let_def

lemma authenticated_has_profile_witness:
  "let a = foldl (auth_step demo_env) (auth_init demo_env True []) [Establish 0 ''tok''] in
     get_current_user_profile demo_env 5 a = (au_profile a, a)"
proof -
  let ?a = "foldl (auth_step demo_env) (auth_init demo_env True []) [Establish 0 ''tok'']"
  have "is_authenticated ?a" by (simp add: demo_login is_authenticated_def)
  with authenticated_has_profile [of ?a demo_env True "[]" "[Establish 0 ''tok'']" 5] show ?thesis by (simp add: Let_def)
qed

lemma login_valid_for_a_day_witness:
  "fst (get_ticker demo_env 5 (snd (establish_zerodha_session demo_env 0 ''tok'' (auth_init demo_env True [])))) = Inr (''key'', JStr ''tok'')"
proof -
  let ?a = "auth_init demo_env True []"
  obtain resp a' where run: "establish_zerodha_session demo_env 0 ''tok'' ?a = (resp, a')" by fastforce
  then have "lr_success resp" by (auto simp: demo_login)
  moreover have "db_up (ae_db demo_env)" by (simp add: db_up_def demo_env_def list_db_def)
  moreover have "session_db_ok (ae_db demo_env) list_view" using list_db_ok by (simp add: demo_env_def)
  moreover have "\<forall>u r. list_view (sm_db (au_sessions ?a)) u = Some r \<longrightarrow> \<not> row_live 0 r" by (simp add: auth_init_def list_view_def)
  moreover have "ae_api_key demo_env = ''key''" by (simp add: demo_env_def)
  ultimately show ?thesis using login_valid_for_a_day [of demo_env list_view ?a 0 "''tok''" resp a' 5] run by (simp add: day_def)
qed

end
