(* ===== verification/Base_Service.thy ===== *)
theory Base_Service
  imports Redis_State Py_Seq
begin

text \<open>
  The base class of services (core/services/base_service.py) and its health monitor (core/monitoring/service_health.py). The
  hooks of a subclass act on a world and may raise; the Redis lists are commands of a client that may raise.
\<close>

subsection \<open>The health monitor\<close>

datatype metric_status = HEALTHY | DEGRADED | UNHEALTHY | UNKNOWN

fun metric_status_value :: "metric_status \<Rightarrow> string" where
  "metric_status_value HEALTHY = ''healthy''"
| "metric_status_value DEGRADED = ''degraded''"
| "metric_status_value UNHEALTHY = ''unhealthy''"
| "metric_status_value UNKNOWN = ''unknown''"

record health_metric =
  hm_name :: string
  hm_value :: json
  hm_status :: metric_status
  hm_timestamp :: int
  hm_message :: json
  hm_threshold :: json

record 'r health_redis =
  hr_setex :: "string \<Rightarrow> nat \<Rightarrow> json \<Rightarrow> (unit, 'r) rm"
  hr_lpush :: "string \<Rightarrow> json \<Rightarrow> (unit, 'r) rm"
  hr_ltrim :: "string \<Rightarrow> nat \<Rightarrow> nat \<Rightarrow> (unit, 'r) rm"
  hr_expire :: "string \<Rightarrow> nat \<Rightarrow> (unit, 'r) rm"

record 'r health_monitor =
  mo_service :: string
  mo_redis :: "'r health_redis option"
  mo_history :: "health_metric list"
  mo_store :: 'r

definition max_history :: nat where
  "max_history = 100"

text \<open>\<open>fmt\<close> is the text of a clock reading. An exception of a command ends the storing and is swallowed.\<close>

definition store_metric_in_redis :: "(int \<Rightarrow> string) \<Rightarrow> 'r health_redis \<Rightarrow> string \<Rightarrow> health_metric \<Rightarrow> 'r \<Rightarrow> 'r" where
  "store_metric_in_redis fmt R service m r =
     (let data = JObj [(''value'', hm_value m), (''status'', JStr (metric_status_value (hm_status m))), (''timestamp'', JStr (fmt (hm_timestamp m))),
                       (''message'', hm_message m), (''threshold'', hm_threshold m)];
          history = ''health_history:'' @ service @ '':'' @ hm_name m
      in snd (rbind (hr_setex R (''health:'' @ service @ '':'' @ hm_name m) 300 data) (\<lambda>_.
              rbind (hr_lpush R history data) (\<lambda>_. rbind (hr_ltrim R history 0 99) (\<lambda>_. hr_expire R history 3600))) r))"

definition record_metric :: "(int \<Rightarrow> string) \<Rightarrow> health_metric \<Rightarrow> 'r health_monitor \<Rightarrow> 'r health_monitor" where
  "record_metric fmt m h =
     (let xs = mo_history h @ [m]; h1 = h\<lparr>mo_history := (if max_history < length xs then tl xs else xs)\<rparr>
      in case mo_redis h of None \<Rightarrow> h1 | Some R \<Rightarrow> h1\<lparr>mo_store := store_metric_in_redis fmt R (mo_service h) m (mo_store h1)\<rparr>)"

text \<open>The newest metric of each name, newest first; the loop over them stops at the first unhealthy one.\<close>

fun latest_metrics :: "health_metric list \<Rightarrow> health_metric list \<Rightarrow> health_metric list" where
  "latest_metrics acc [] = acc"
| "latest_metrics acc (m # ms) = latest_metrics (if hm_name m \<in> set (map hm_name acc) then acc else acc @ [m]) ms"

fun worst_status :: "metric_status \<Rightarrow> health_metric list \<Rightarrow> metric_status" where
  "worst_status s [] = s"
| "worst_status s (m # ms) =
     (if hm_status m = UNHEALTHY then UNHEALTHY else worst_status (if hm_status m = DEGRADED then DEGRADED else s) ms)"

record current_health =
  ch_service :: string
  ch_status :: metric_status
  ch_last_check :: "int option"
  ch_metrics :: "health_metric list"

definition get_current_health :: "'r health_monitor \<Rightarrow> current_health" where
  "get_current_health h =
     (if mo_history h = [] then \<lparr>ch_service = mo_service h, ch_status = UNKNOWN, ch_last_check = None, ch_metrics = []\<rparr>
      else let latest = latest_metrics [] (rev (mo_history h))
           in \<lparr>ch_service = mo_service h, ch_status = worst_status HEALTHY latest, ch_last_check = Some (Max (set (map hm_timestamp latest))),
               ch_metrics = latest\<rparr>)"

subsection \<open>The service\<close>

datatype service_status = STOPPED | STARTING | RUNNING | STOPPING | ERROR

record ('w, 'r) base_service =
  bs_status :: service_status
  bs_startup_time :: "int option"
  bs_shutdown :: bool
  bs_monitor :: "'r health_monitor"
  bs_world :: 'w

record 'w service_hooks =
  sh_pre_start :: "'w \<Rightarrow> 'w \<times> exn option"
  sh_start :: "'w \<Rightarrow> 'w \<times> exn option"
  sh_post_start :: "'w \<Rightarrow> 'w \<times> exn option"
  sh_pre_stop :: "'w \<Rightarrow> 'w \<times> exn option"
  sh_stop :: "'w \<Rightarrow> 'w \<times> exn option"
  sh_post_stop :: "'w \<Rightarrow> 'w \<times> exn option"

fun in_order :: "('w \<Rightarrow> 'w \<times> exn option) list \<Rightarrow> 'w \<Rightarrow> 'w \<times> exn option" where
  "in_order [] w = (w, None)"
| "in_order (f # fs) w = (case f w of (w', None) \<Rightarrow> in_order fs w' | (w', Some e) \<Rightarrow> (w', Some e))"

definition base_init :: "string \<Rightarrow> 'r health_redis option \<Rightarrow> 'r \<Rightarrow> 'w \<Rightarrow> ('w, 'r) base_service" where
  "base_init name R r w =
     \<lparr>bs_status = STOPPED, bs_startup_time = None, bs_shutdown = False,
      bs_monitor = \<lparr>mo_service = name, mo_redis = R, mo_history = [], mo_store = r\<rparr>, bs_world = w\<rparr>"

definition startup_metric :: "int \<Rightarrow> health_metric" where
  "startup_metric now = \<lparr>hm_name = ''startup'', hm_value = JBool True, hm_status = HEALTHY, hm_timestamp = now,
     hm_message = JStr ''Service started successfully'', hm_threshold = JNull\<rparr>"

definition base_start :: "(int \<Rightarrow> string) \<Rightarrow> 'w service_hooks \<Rightarrow> int \<Rightarrow> ('w, 'r) base_service \<Rightarrow> exn option \<times> ('w, 'r) base_service" where
  "base_start fmt H now s =
     (if bs_status s \<noteq> STOPPED then (None, s)
      else case in_order [sh_pre_start H, sh_start H, sh_post_start H] (bs_world s) of
          (w, Some e) \<Rightarrow> (Some e, s\<lparr>bs_status := ERROR, bs_world := w\<rparr>)
        | (w, None) \<Rightarrow> (None, s\<lparr>bs_status := RUNNING, bs_startup_time := Some now, bs_world := w,
                               bs_monitor := record_metric fmt (startup_metric now) (bs_monitor s)\<rparr>))"

definition base_stop :: "'w service_hooks \<Rightarrow> ('w, 'r) base_service \<Rightarrow> ('w, 'r) base_service" where
  "base_stop H s =
     (if bs_status s \<in> {STOPPED, STOPPING} then s
      else case in_order [sh_pre_stop H, sh_stop H, sh_post_stop H] (bs_world s) of
          (w, Some e) \<Rightarrow> s\<lparr>bs_status := ERROR, bs_shutdown := True, bs_world := w\<rparr>
        | (w, None) \<Rightarrow> s\<lparr>bs_status := STOPPED, bs_shutdown := True, bs_world := w\<rparr>)"

definition service_running :: "('w, 'r) base_service \<Rightarrow> bool" where
  "service_running s = (bs_status s = RUNNING)"

definition uptime :: "int \<Rightarrow> ('w, 'r) base_service \<Rightarrow> int option" where
  "uptime now s = (case bs_startup_time s of None \<Rightarrow> None | Some t \<Rightarrow> if t = 0 \<or> bs_status s \<noteq> RUNNING then None else Some (now - t))"

text \<open>One turn of the background monitor; \<open>checks\<close> is the outcome of the checks of the subclass.\<close>

definition monitor_turn :: "(int \<Rightarrow> string) \<Rightarrow> ('w \<Rightarrow> 'w \<times> exn option) \<Rightarrow> int \<Rightarrow> ('w, 'r) base_service \<Rightarrow> ('w, 'r) base_service" where
  "monitor_turn fmt checks now s =
     (if bs_shutdown s then s
      else let s1 = (case bs_startup_time s of
               None \<Rightarrow> s
             | Some t \<Rightarrow> if t = 0 then s
                 else s\<lparr>bs_monitor := record_metric fmt \<lparr>hm_name = ''uptime_seconds'', hm_value = JInt (now - t), hm_status = HEALTHY,
                        hm_timestamp = now, hm_message = JNull, hm_threshold = JNull\<rparr> (bs_monitor s)\<rparr>)
      in case checks (bs_world s1) of
          (w, None) \<Rightarrow> s1\<lparr>bs_world := w\<rparr>
        | (w, Some e) \<Rightarrow> s1\<lparr>bs_world := w, bs_monitor := record_metric fmt \<lparr>hm_name = ''health_check_error'', hm_value = JStr (exn_msg e),
                 hm_status = UNHEALTHY, hm_timestamp = now, hm_message = JStr (''Health check failed: '' @ exn_msg e), hm_threshold = JNull\<rparr>
               (bs_monitor s1)\<rparr>)"

subsection \<open>Health\<close>

text \<open>The newest metric of a name.\<close>

definition newest :: "health_metric list \<Rightarrow> string \<Rightarrow> health_metric option" where
  "newest ms n = find (\<lambda>m. hm_name m = n) (rev ms)"

lemma latest_metrics_acc:
  "set (latest_metrics acc ms) = set acc \<union> {m. find (\<lambda>x. hm_name x = hm_name m) ms = Some m \<and> hm_name m \<notin> hm_name ` set acc}"
proof (induction acc ms rule: latest_metrics.induct)
  case (2 acc m ms)
  show ?case
  proof (cases "hm_name m \<in> set (map hm_name acc)")
    case True
    with 2 show ?thesis by (auto)
  next
    case False
    then have "latest_metrics acc (m # ms) = latest_metrics (acc @ [m]) ms" by simp
    moreover have "set (latest_metrics (acc @ [m]) ms) =
        set (acc @ [m]) \<union> {x. find (\<lambda>y. hm_name y = hm_name x) ms = Some x \<and> hm_name x \<notin> hm_name ` set (acc @ [m])}"
      using 2 False by simp
    ultimately show ?thesis using False by auto
  qed
qed simp

lemma worst_status_spec:
  "worst_status s ms = (if \<exists>m \<in> set ms. hm_status m = UNHEALTHY then UNHEALTHY else if \<exists>m \<in> set ms. hm_status m = DEGRADED then DEGRADED else s)"
  by (induction s ms rule: worst_status.induct) auto

lemma record_history:
  assumes "mo_history h = last_n max_history ms"
  shows "mo_history (record_metric fmt m h) = last_n max_history (ms @ [m])"
proof -
  have "mo_history (record_metric fmt m h) = (let xs = mo_history h @ [m] in if max_history < length xs then tl xs else xs)"
    by (auto simp: record_metric_def Let_def split: option.split)
  also have "\<dots> = push max_history m (mo_history h)"
  proof -
    have "length (mo_history h) \<le> 100" using assms by (simp add: max_history_def)
    then consider "length (mo_history h) = 100" | "length (mo_history h) < 100" by linarith
    then show ?thesis by cases (auto simp: push_def max_history_def Let_def drop_Suc tl_append split: list.split)
  qed
  finally show ?thesis using assms by (simp add: push_last_n)
qed

text \<open>The current health. After any metrics are recorded, the health reported is about the last hundred of them: it is unhealthy when the newest
  metric of some name is, otherwise degraded when the newest of some name is, otherwise healthy, and unknown only when nothing was
  recorded. Older metrics of the same name have no influence, and a name that was not recorded again lasts until a
  hundred others have come.\<close>

theorem current_health_of_newest:
  fixes h :: "'r health_monitor" and ms :: "health_metric list"
  shows "let h = foldl (\<lambda>h m. record_metric fmt m h) \<lparr>mo_service = name, mo_redis = R, mo_history = [], mo_store = r\<rparr> ms;
             new = newest (last_n 100 ms)
         in ch_status (get_current_health h) =
              (if ms = [] then UNKNOWN
               else if \<exists>n m. new n = Some m \<and> hm_status m = UNHEALTHY then UNHEALTHY
               else if \<exists>n m. new n = Some m \<and> hm_status m = DEGRADED then DEGRADED else HEALTHY) \<and>
            set (ch_metrics (get_current_health h)) = {m. new (hm_name m) = Some m}"
proof -
  let ?h = "foldl (\<lambda>h m. record_metric fmt m h) \<lparr>mo_service = name, mo_redis = R, mo_history = [], mo_store = r\<rparr> ms"
  have hist: "mo_history ?h = last_n max_history ms"
  proof (induction ms rule: rev_induct)
    case (snoc m ms)
    with record_history [OF snoc] show ?case by simp
  qed (simp add: last_n_def)
  have l: "set (latest_metrics [] (rev xs)) = {m. newest xs (hm_name m) = Some m}" for xs
    by (simp add: latest_metrics_acc newest_def)
  have n: "hm_name m = n" if "newest xs n = Some m" for xs n m
    using that by (auto simp: newest_def find_Some_iff)
  have e: "last_n max_history ms = [] \<longleftrightarrow> ms = []" by (cases ms rule: rev_cases) (simp_all add: last_n_def max_history_def)
  have ex: "(\<exists>m \<in> set (latest_metrics [] (rev xs)). P m) \<longleftrightarrow> (\<exists>n m. newest xs n = Some m \<and> P m)" for xs P
    unfolding l using n by blast
  note ex' = ex [unfolded l, simplified]
  show ?thesis
  proof (cases "ms = []")
    case True
    with hist show ?thesis by (simp add: get_current_health_def newest_def last_n_def)
  next
    case False
    then have "get_current_health ?h = \<lparr>ch_service = mo_service ?h, ch_status = worst_status HEALTHY (latest_metrics [] (rev (last_n 100 ms))),
        ch_last_check = Some (Max (set (map hm_timestamp (latest_metrics [] (rev (last_n 100 ms)))))), ch_metrics = latest_metrics [] (rev (last_n 100 ms))\<rparr>"
      using hist e by (simp add: get_current_health_def Let_def max_history_def)
    then show ?thesis using False by (simp add: worst_status_spec ex' l Let_def)
  qed
qed

subsection \<open>Starting and stopping\<close>

text \<open>Hooks that note their calls; what they raise depends on the calls so far.\<close>

datatype hook = Pre_Start | Start_Impl | Post_Start | Pre_Stop | Stop_Impl | Post_Stop

definition noting :: "(hook list \<Rightarrow> exn option) \<Rightarrow> hook \<Rightarrow> hook list \<Rightarrow> hook list \<times> exn option" where
  "noting out k w = (w @ [k], out (w @ [k]))"

definition noted_hooks :: "(hook list \<Rightarrow> exn option) \<Rightarrow> hook list service_hooks" where
  "noted_hooks out = \<lparr>sh_pre_start = noting out Pre_Start, sh_start = noting out Start_Impl, sh_post_start = noting out Post_Start,
     sh_pre_stop = noting out Pre_Stop, sh_stop = noting out Stop_Impl, sh_post_stop = noting out Post_Stop\<rparr>"

datatype service_call = Start_Service int | Stop_Service | Monitor_Turn int

fun service_step :: "(int \<Rightarrow> string) \<Rightarrow> (hook list \<Rightarrow> exn option) \<Rightarrow> (hook list, 'r) base_service \<Rightarrow> service_call \<Rightarrow> (hook list, 'r) base_service" where
  "service_step fmt out s (Start_Service now) = snd (base_start fmt (noted_hooks out) now s)"
| "service_step fmt out s Stop_Service = base_stop (noted_hooks out) s"
| "service_step fmt out s (Monitor_Turn now) = monitor_turn fmt (\<lambda>w. (w, out w)) now s"

text \<open>\<open>up\<close> holds once the implementation was started, until a stop has run to its end.\<close>

fun starts_apart :: "bool \<Rightarrow> hook list \<Rightarrow> bool" where
  "starts_apart up [] = True"
| "starts_apart up (k # ks) =
     (if k = Start_Impl then \<not> up \<and> starts_apart True ks else starts_apart (up \<and> k \<noteq> Post_Stop) ks)"

fun is_up :: "bool \<Rightarrow> hook list \<Rightarrow> bool" where
  "is_up up [] = up"
| "is_up up (k # ks) = is_up (k = Start_Impl \<or> up \<and> k \<noteq> Post_Stop) ks"

lemma starts_apart_append: "starts_apart up (xs @ ys) \<longleftrightarrow> starts_apart up xs \<and> starts_apart (is_up up xs) ys"
  by (induction up xs rule: starts_apart.induct) auto

lemma is_up_append: "is_up up (xs @ ys) = is_up (is_up up xs) ys"
  by (induction up xs rule: is_up.induct) auto

definition base_inv :: "(hook list, 'r) base_service \<Rightarrow> bool" where
  "base_inv s \<longleftrightarrow> starts_apart False (bs_world s) \<and> (bs_status s = STOPPED \<longrightarrow> \<not> is_up False (bs_world s)) \<and>
     (bs_status s = RUNNING \<longrightarrow> is_up False (bs_world s)) \<and> bs_status s \<in> {STOPPED, RUNNING, ERROR}"

lemma monitor_turn_status [simp]:
  "bs_status (monitor_turn fmt (\<lambda>w. (w, out w)) now s) = bs_status s" "bs_world (monitor_turn fmt (\<lambda>w. (w, out w)) now s) = bs_world s"
  by (auto simp: monitor_turn_def Let_def split: option.splits)

lemma base_step_inv: "base_inv s \<Longrightarrow> base_inv (service_step fmt out s c)"
proof (cases c)
  assume inv: "base_inv s"
  {
    case (Start_Service now)
    with inv show ?thesis
      by (auto simp: base_inv_def base_start_def noted_hooks_def noting_def starts_apart_append is_up_append split: option.splits)
  next
    case Stop_Service
    with inv show ?thesis
      by (auto simp: base_inv_def base_stop_def noted_hooks_def noting_def starts_apart_append is_up_append split: option.splits)
  next
    case (Monitor_Turn now)
    with inv show ?thesis by (simp add: base_inv_def)
  }
qed

interpretation base: step_machine "service_step fmt out" base_inv for fmt out
  by unfold_locales (rule base_step_inv)

text \<open>The implementation of a service is started once. Whatever the hooks raise and however starts, stops and turns of the monitor follow each
  other, between two calls of the implementation's start a stop has run to its end; at rest a service is stopped, running or in
  error; a running one has started, and a stopped one is not up.\<close>

theorem implementation_started_once:
  "let s = foldl (service_step fmt out) (base_init name R r []) cs in
     starts_apart False (bs_world s) \<and> bs_status s \<in> {STOPPED, RUNNING, ERROR} \<and>
     (service_running s \<longrightarrow> is_up False (bs_world s)) \<and> (bs_status s = STOPPED \<longrightarrow> \<not> is_up False (bs_world s))"
proof -
  have "base_inv (foldl (service_step fmt out) (base_init name R r []) cs)"
    by (rule base.run_inv) (simp add: base_inv_def base_init_def)
  then show ?thesis by (simp add: base_inv_def service_running_def Let_def)
qed

lemma implementation_started_once_witness:
  "let s = foldl (service_step show_int (\<lambda>_. None)) (base_init ''a'' None () []) [Start_Service 1, Stop_Service, Start_Service 2]
   in service_running s \<and> is_up False (bs_world s)"
  using implementation_started_once [of show_int "\<lambda>_. None" "''a''" None "()" "[Start_Service 1, Stop_Service, Start_Service 2]"]
  by (simp add: Let_def base_init_def base_start_def base_stop_def noted_hooks_def noting_def service_running_def)

end
