(* ===== verification/Csv_Loader.thy ===== *)
theory Csv_Loader
  imports Exceptions Py_Format
begin

text \<open>
  Instruments from a CSV file: InstrumentCSVLoader (services/instrument_data/csv_loader.py), the reader of Python's csv module as it
  uses it, and Instrument.from_csv_row (instrument.py). A file is the list of its lines, or the exception of opening it.
\<close>

subsection \<open>The csv reader\<close>

datatype csv_state = Start_Field | In_Field | In_Quoted | Quote_In_Quoted

text \<open>A state, the field read so far and the fields before it. Lines are stripped, so a quoted field goes on without a line break.\<close>

fun csv_char :: "csv_state \<times> string \<times> string list \<Rightarrow> char \<Rightarrow> csv_state \<times> string \<times> string list" where
  "csv_char (Start_Field, cur, fs) c =
     (if c = CHR 0x22 then (In_Quoted, cur, fs) else if c = CHR '','' then (Start_Field, [], fs @ [cur]) else (In_Field, cur @ [c], fs))"
| "csv_char (In_Field, cur, fs) c = (if c = CHR '','' then (Start_Field, [], fs @ [cur]) else (In_Field, cur @ [c], fs))"
| "csv_char (In_Quoted, cur, fs) c = (if c = CHR 0x22 then (Quote_In_Quoted, cur, fs) else (In_Quoted, cur @ [c], fs))"
| "csv_char (Quote_In_Quoted, cur, fs) c =
     (if c = CHR 0x22 then (In_Quoted, cur @ [c], fs) else if c = CHR '','' then (Start_Field, [], fs @ [cur]) else (In_Field, cur @ [c], fs))"

fun csv_rows :: "csv_state \<times> string \<times> string list \<Rightarrow> string list \<Rightarrow> string list list" where
  "csv_rows (st, cur, fs) [] = (if st = In_Quoted then [fs @ [cur]] else [])"
| "csv_rows s (l # ls) =
     (case foldl csv_char s l of (st, cur, fs) \<Rightarrow>
        if st = In_Quoted then csv_rows (st, cur, fs) ls else (fs @ [cur]) # csv_rows (Start_Field, [], []) ls)"

text \<open>A row of DictReader: missing fields are None, further ones go under the key None.\<close>

record csv_row =
  cr_fields :: "(string \<times> string option) list"
  cr_extra :: "string list option"

definition dict_row :: "string list \<Rightarrow> string list \<Rightarrow> csv_row" where
  "dict_row names vs =
     \<lparr>cr_fields = fold (\<lambda>k d. dict_set k None d) (drop (length vs) names) (fold (\<lambda>(k, v) d. dict_set k (Some v) d) (zip names vs) []),
      cr_extra = (if length names < length vs then Some (drop (length names) vs) else None)\<rparr>"

subsection \<open>The loader\<close>

definition required_fields :: "string list" where
  "required_fields = [''instrument_token'', ''tradingsymbol'', ''name'', ''exchange'']"

definition data_lines :: "string list \<Rightarrow> string list" where
  "data_lines file = filter (\<lambda>l. l \<noteq> [] \<and> \<not> starts_with ''#'' l) (map strip file)"

definition has_header :: "string list \<Rightarrow> bool" where
  "has_header lines = (case lines of [] \<Rightarrow> False | l # _ \<Rightarrow> in_str ''instrument_token'' (str_lower l))"

definition dict_reader :: "string list \<Rightarrow> csv_row list" where
  "dict_reader lines =
     (let rows = csv_rows (Start_Field, [], []) lines in
      if has_header lines then (case rows of [] \<Rightarrow> [] | h # rs \<Rightarrow> map (dict_row h) rs) else map (dict_row required_fields) rows)"

definition attribute_error :: exn where
  "attribute_error = raise_exn (Other ''AttributeError'') ''no attribute strip''"

text \<open>The fields are checked in order; a value None has no strip.\<close>

fun fields_present :: "csv_row \<Rightarrow> string list \<Rightarrow> exn + bool" where
  "fields_present r [] = Inr True"
| "fields_present r (f # fs) =
     (case map_of (cr_fields r) f of
        None \<Rightarrow> Inr False
      | Some None \<Rightarrow> Inl attribute_error
      | Some (Some v) \<Rightarrow> if strip v = [] then Inr False else fields_present r fs)"

definition validate_row :: "csv_row \<Rightarrow> exn + bool" where
  "validate_row r =
     (case fields_present r required_fields of
        Inr True \<Rightarrow>
          (case map_of (cr_fields r) ''instrument_token'' of
             Some (Some v) \<Rightarrow> Inr (read_int (strip v) \<noteq> None)
           | _ \<Rightarrow> Inl attribute_error)
      | x \<Rightarrow> x)"

definition clean_value :: "string \<Rightarrow> string option \<Rightarrow> json" where
  "clean_value key v =
     (let s = (case v of None \<Rightarrow> [] | Some s \<Rightarrow> strip s) in
      if s = [] then (if key \<in> set required_fields then JStr [] else JNull)
      else if str_lower (strip key) = ''instrument_token'' then (case read_int s of None \<Rightarrow> JStr s | Some i \<Rightarrow> JInt i)
      else JStr s)"

definition clean_row :: "csv_row \<Rightarrow> exn + (string \<times> json) list" where
  "clean_row r =
     (if cr_extra r \<noteq> None then Inl attribute_error
      else Inr (fold (\<lambda>(k, v) d. dict_set (str_lower (strip k)) (clean_value k v) d) (cr_fields r) []))"

text \<open>A row that is invalid or raises is skipped.\<close>

definition load_row :: "csv_row \<Rightarrow> (string \<times> json) list option" where
  "load_row r = (case validate_row r of Inr True \<Rightarrow> (case clean_row r of Inl e \<Rightarrow> None | Inr d \<Rightarrow> Some d) | _ \<Rightarrow> None)"

definition load_instruments :: "exn + string list \<Rightarrow> exn + (string \<times> json) list list" where
  "load_instruments file =
     (case file of
        Inl e \<Rightarrow> Inl e
      | Inr ls \<Rightarrow> (let lines = data_lines ls in if lines = [] then Inr [] else Inr (List.map_filter load_row (dict_reader lines))))"

text \<open>The iterator: what it yields before it ends or raises.\<close>

fun yield_rows :: "csv_row list \<Rightarrow> (string \<times> json) list list" where
  "yield_rows [] = []"
| "yield_rows (r # rs) = (case validate_row r of
       Inr True \<Rightarrow> (case clean_row r of Inl e \<Rightarrow> yield_rows rs | Inr d \<Rightarrow> d # yield_rows rs)
     | _ \<Rightarrow> yield_rows rs)"

definition load_instruments_iterator :: "exn + string list \<Rightarrow> (string \<times> json) list list \<times> exn option" where
  "load_instruments_iterator file =
     (case file of
        Inl e \<Rightarrow> ([], Some e)
      | Inr ls \<Rightarrow> (let lines = data_lines ls in if lines = [] then ([], None) else (yield_rows (dict_reader lines), None)))"

definition count_csv_instruments :: "exn + string list \<Rightarrow> nat" where
  "count_csv_instruments file = length (fst (load_instruments_iterator file))"

lemma yield_rows_map_filter: "yield_rows rs = List.map_filter load_row rs"
  by (induction rs) (auto simp: map_filter_simps load_row_def split: sum.splits bool.splits)

lemma iterator_agrees: "load_instruments file = Inr rows \<Longrightarrow> load_instruments_iterator file = (rows, None)"
  by (auto simp: load_instruments_def load_instruments_iterator_def yield_rows_map_filter Let_def split: sum.splits if_splits)

subsection \<open>An instrument from a row\<close>

record instrument =
  in_token :: int
  in_exchange_token :: int
  in_tradingsymbol :: string
  in_name :: string
  in_exchange :: string
  in_segment :: "string option"
  in_type :: "string option"
  in_last_price :: "rat option"
  in_tick_size :: "rat option"
  in_lot_size :: "int option"
  in_expiry :: "(nat \<times> nat \<times> nat) option"
  in_strike :: "rat option"
  in_is_active :: "bool option"
  in_source_file :: "string option"

definition leap_year :: "nat \<Rightarrow> bool" where
  "leap_year y = (y mod 4 = 0 \<and> (y mod 100 \<noteq> 0 \<or> y mod 400 = 0))"

definition days_in :: "nat \<Rightarrow> nat \<Rightarrow> nat" where
  "days_in y m = (if m = 2 then (if leap_year y then 29 else 28) else if m \<in> {4, 6, 9, 11} then 30 else 31)"

text \<open>\<open>strptime(s, '%Y-%m-%d')\<close>: four digits, one or two, one or two; a day may be padded with a space.\<close>

definition read_day :: "string \<Rightarrow> nat option" where
  "read_day s = (case s of [c, d] \<Rightarrow> if c = CHR '' '' then read_nat [d] else read_nat s | _ \<Rightarrow> read_nat s)"

definition strptime_ymd :: "string \<Rightarrow> (nat \<times> nat \<times> nat) option" where
  "strptime_ymd s =
     (case split_on (CHR ''-'') s of
        [a, b, c] \<Rightarrow>
          (case (read_nat a, read_nat b, read_day c) of
             (Some y, Some m, Some d) \<Rightarrow>
               if length a = 4 \<and> length b \<le> 2 \<and> length c \<le> 2 \<and> 1 \<le> y \<and> 1 \<le> m \<and> m \<le> 12 \<and> 1 \<le> d \<and> d \<le> days_in y m
               then Some (y, m, d) else None
           | _ \<Rightarrow> None)
      | _ \<Rightarrow> None)"

text \<open>\<open>value.strip()\<close> of a JSON value: only text has it.\<close>

definition strip_of :: "json \<Rightarrow> exn + string" where
  "strip_of v = (case v of JStr s \<Rightarrow> Inr (strip s) | _ \<Rightarrow> Inl attribute_error)"

definition field :: "(string \<times> json) list \<Rightarrow> string \<Rightarrow> exn + json" where
  "field row k = (case jget row k of None \<Rightarrow> Inl (raise_exn (Other ''KeyError'') k) | Some v \<Rightarrow> Inr v)"

definition required_text :: "(string \<times> json) list \<Rightarrow> string \<Rightarrow> exn + string" where
  "required_text row k = (case field row k of Inl e \<Rightarrow> Inl e | Inr v \<Rightarrow> strip_of v)"

definition optional_text :: "(string \<times> json) list \<Rightarrow> string \<Rightarrow> exn + string option" where
  "optional_text row k =
     (case jget row k of None \<Rightarrow> Inr None | Some v \<Rightarrow> (case strip_of v of Inl e \<Rightarrow> Inl e | Inr s \<Rightarrow> Inr (if s = [] then None else Some s)))"

text \<open>Decimal raises InvalidOperation, which is neither a ValueError nor a TypeError.\<close>

definition safe_decimal :: "json \<Rightarrow> exn + rat option" where
  "safe_decimal v =
     (if \<not> py_truthy v then Inr None
      else case strip_of v of
          Inl e \<Rightarrow> Inl e
        | Inr s \<Rightarrow> if s = [] then Inr None
            else (case read_decimal s of None \<Rightarrow> Inl (raise_exn (Other ''InvalidOperation'') s) | Some x \<Rightarrow> Inr (Some x)))"

definition safe_int :: "json \<Rightarrow> exn + int option" where
  "safe_int v =
     (if \<not> py_truthy v then Inr None
      else case strip_of v of Inl e \<Rightarrow> Inl e | Inr s \<Rightarrow> Inr (if s = [] then None else read_int s))"

definition parse_expiry :: "(string \<times> json) list \<Rightarrow> exn + (nat \<times> nat \<times> nat) option" where
  "parse_expiry row =
     (let v = jget_none row ''expiry'' in
      if \<not> py_truthy v then Inr None
      else case strip_of v of Inl e \<Rightarrow> Inl e | Inr s \<Rightarrow> Inr (if s = [] then None else strptime_ymd s))"

definition token_of :: "(string \<times> json) list \<Rightarrow> exn + int" where
  "token_of row =
     (case field row ''instrument_token'' of
        Inl e \<Rightarrow> Inl e
      | Inr v \<Rightarrow> (case (case v of JStr s \<Rightarrow> read_int (strip s) | _ \<Rightarrow> int_of_json v) of
            None \<Rightarrow> Inl (raise_exn (Other ''ValueError'') ''invalid literal for int()'') | Some i \<Rightarrow> Inr i))"

fun ebind :: "exn + 'a \<Rightarrow> ('a \<Rightarrow> exn + 'b) \<Rightarrow> exn + 'b" where
  "ebind (Inl e) f = Inl e"
| "ebind (Inr x) f = f x"

text \<open>A new instrument has no \<open>is_active\<close> until it is flushed.\<close>

definition from_csv_row :: "(string \<times> json) list \<Rightarrow> string option \<Rightarrow> exn + instrument" where
  "from_csv_row row source_file =
     ebind (parse_expiry row) (\<lambda>expiry. ebind (token_of row) (\<lambda>token. ebind (safe_int (jget_none row ''exchange_token'')) (\<lambda>ext.
     ebind (required_text row ''tradingsymbol'') (\<lambda>symbol. ebind (required_text row ''name'') (\<lambda>nm. ebind (required_text row ''exchange'') (\<lambda>exch.
     ebind (optional_text row ''segment'') (\<lambda>segment. ebind (optional_text row ''instrument_type'') (\<lambda>itype.
     ebind (safe_decimal (jget_none row ''last_price'')) (\<lambda>price. ebind (safe_decimal (jget_none row ''tick_size'')) (\<lambda>tick.
     ebind (safe_int (jget_none row ''lot_size'')) (\<lambda>lot. ebind (safe_decimal (jget_none row ''strike'')) (\<lambda>strike.
       Inr \<lparr>in_token = token, in_exchange_token = (case ext of None \<Rightarrow> 0 | Some i \<Rightarrow> i), in_tradingsymbol = symbol, in_name = nm,
            in_exchange = exch, in_segment = segment, in_type = itype, in_last_price = price, in_tick_size = tick, in_lot_size = lot,
            in_expiry = expiry, in_strike = strike, in_is_active = None, in_source_file = source_file\<rparr>))))))))))))"

subsection \<open>Writing and loading\<close>

text \<open>A file as a csv writer makes it: the fields with a comma or a quote are quoted.\<close>

record csv_instrument =
  ci_token :: int
  ci_symbol :: string
  ci_name :: string
  ci_exchange :: string

definition csv_field :: "string \<Rightarrow> string" where
  "csv_field f =
     (if CHR '','' \<in> set f \<or> CHR 0x22 \<in> set f then CHR 0x22 # concat (map (\<lambda>c. if c = CHR 0x22 then [c, c] else [c]) f) @ [CHR 0x22] else f)"

definition csv_record :: "csv_instrument \<Rightarrow> string" where
  "csv_record x = show_int (ci_token x) @ '','' @ csv_field (ci_symbol x) @ '','' @ csv_field (ci_name x) @ '','' @ csv_field (ci_exchange x)"

definition loaded :: "csv_instrument \<Rightarrow> (string \<times> json) list" where
  "loaded x = [(''instrument_token'', JInt (ci_token x)), (''tradingsymbol'', JStr (ci_symbol x)), (''name'', JStr (ci_name x)),
     (''exchange'', JStr (ci_exchange x))]"

lemma csv_quoted:
  "foldl csv_char (In_Quoted, cur, fs) (concat (map (\<lambda>c. if c = CHR 0x22 then [c, c] else [c]) f)) = (In_Quoted, cur @ f, fs)"
  by (induction f arbitrary: cur) auto

lemma csv_plain: "CHR '','' \<notin> set f \<Longrightarrow> foldl csv_char (In_Field, cur, fs) f = (In_Field, cur @ f, fs)"
  by (induction f arbitrary: cur) auto

lemma csv_field_read:
  assumes "f \<noteq> []"
  shows "\<exists>st. st \<in> {In_Field, Quote_In_Quoted} \<and> foldl csv_char (Start_Field, [], fs) (csv_field f) = (st, f, fs)"
proof (cases "CHR '','' \<in> set f \<or> CHR 0x22 \<in> set f")
  case True
  then show ?thesis using csv_quoted [of "[]" fs f] by (auto simp: csv_field_def)
next
  case False
  obtain c g where f: "f = c # g" using assms by (cases f) auto
  then have "foldl csv_char (In_Field, [c], fs) g = (In_Field, [c] @ g, fs)" using False by (intro csv_plain) auto
  then show ?thesis using False f by (auto simp: csv_field_def)
qed

lemma csv_sep: "st \<in> {In_Field, Quote_In_Quoted} \<Longrightarrow> csv_char (st, f, fs) (CHR '','') = (Start_Field, [], fs @ [f])"
  by auto

lemma csv_field_sep: "f \<noteq> [] \<Longrightarrow> foldl csv_char (Start_Field, [], fs) (csv_field f @ '','' @ rest) = foldl csv_char (Start_Field, [], fs @ [f]) rest"
  using csv_field_read [of f fs] csv_sep by (auto simp: foldl_append)

lemma csv_field_int: "csv_field (show_int i) = show_int i"
  by (simp add: csv_field_def not_digit_show_int digit_val_def)

definition fields_ok :: "csv_instrument \<Rightarrow> bool" where
  "fields_ok x = (trimmed (ci_symbol x) \<and> trimmed (ci_name x) \<and> trimmed (ci_exchange x))"

lemma trimmed_not_Nil: "trimmed s \<Longrightarrow> s \<noteq> []"
  by (simp add: trimmed_def)

lemma csv_record_read:
  assumes "fields_ok x"
  shows "\<exists>st. st \<noteq> In_Quoted \<and> foldl csv_char (Start_Field, [], []) (csv_record x) =
    (st, ci_exchange x, [show_int (ci_token x), ci_symbol x, ci_name x])"
proof -
  note ne = assms [unfolded fields_ok_def, THEN conjunct1, THEN trimmed_not_Nil]
    assms [unfolded fields_ok_def, THEN conjunct2, THEN conjunct1, THEN trimmed_not_Nil]
    assms [unfolded fields_ok_def, THEN conjunct2, THEN conjunct2, THEN trimmed_not_Nil]
  have "foldl csv_char (Start_Field, [], []) (csv_record x) =
      foldl csv_char (Start_Field, [], [show_int (ci_token x), ci_symbol x, ci_name x]) (csv_field (ci_exchange x))"
    unfolding csv_record_def
    using csv_field_sep [of "show_int (ci_token x)" "[]" "csv_field (ci_symbol x) @ '','' @ csv_field (ci_name x) @ '','' @ csv_field (ci_exchange x)"]
      csv_field_sep [OF ne(1), of "[show_int (ci_token x)]" "csv_field (ci_name x) @ '','' @ csv_field (ci_exchange x)"]
      csv_field_sep [OF ne(2), of "[show_int (ci_token x), ci_symbol x]" "csv_field (ci_exchange x)"]
    by (simp add: csv_field_int)
  with csv_field_read [OF ne(3), of "[show_int (ci_token x), ci_symbol x, ci_name x]"] show ?thesis by auto
qed

lemma csv_rows_records:
  "\<forall>x \<in> set xs. fields_ok x \<Longrightarrow> csv_rows (Start_Field, [], []) (map csv_record xs) =
     map (\<lambda>x. [show_int (ci_token x), ci_symbol x, ci_name x, ci_exchange x]) xs"
proof (induction xs)
  case (Cons x xs)
  then obtain st where "st \<noteq> In_Quoted"
    "foldl csv_char (Start_Field, [], []) (csv_record x) = (st, ci_exchange x, [show_int (ci_token x), ci_symbol x, ci_name x])"
    using csv_record_read [of x] by auto
  with Cons show ?case by simp
qed simp

lemma csv_field_ends: "trimmed f \<Longrightarrow> trimmed (csv_field f)"
  by (auto simp: csv_field_def trimmed_def is_space_def blank_def)

lemma csv_record_trimmed: "fields_ok x \<Longrightarrow> trimmed (csv_record x)"
proof -
  assume "fields_ok x"
  then have e: "trimmed (csv_field (ci_exchange x))" by (simp add: fields_ok_def csv_field_ends)
  have i: "trimmed (show_int (ci_token x))" by (rule show_int_trimmed)
  from e i show ?thesis by (simp add: csv_record_def trimmed_def hd_append)
qed

lemma csv_record_no_comment: "\<not> starts_with ''#'' (csv_record x)"
proof -
  have "CHR ''#'' \<notin> set (show_int (ci_token x))" by (simp add: not_digit_show_int digit_val_def)
  moreover have "hd (show_int (ci_token x)) \<in> set (show_int (ci_token x))" by simp
  ultimately have "hd (show_int (ci_token x)) \<noteq> CHR ''#''" by metis
  then show ?thesis by (cases "show_int (ci_token x)") (simp_all add: csv_record_def)
qed

lemma load_row_record:
  assumes "fields_ok x"
  shows "load_row (dict_row required_fields [show_int (ci_token x), ci_symbol x, ci_name x, ci_exchange x]) = Some (loaded x)"
proof -
  have r: "dict_row required_fields [show_int (ci_token x), ci_symbol x, ci_name x, ci_exchange x] =
      \<lparr>cr_fields = [(''instrument_token'', Some (show_int (ci_token x))), (''tradingsymbol'', Some (ci_symbol x)), (''name'', Some (ci_name x)),
        (''exchange'', Some (ci_exchange x))], cr_extra = None\<rparr>"
    by (simp add: dict_row_def required_fields_def)
  note ok = assms [unfolded fields_ok_def]
  note s = show_int_trimmed [THEN strip_trimmed] ok [THEN conjunct1, THEN strip_trimmed]
    ok [THEN conjunct2, THEN conjunct1, THEN strip_trimmed] ok [THEN conjunct2, THEN conjunct2, THEN strip_trimmed]
  have ne: "ci_symbol x \<noteq> []" "ci_name x \<noteq> []" "ci_exchange x \<noteq> []" using ok by (auto simp: trimmed_def)
  have k: "strip ''instrument_token'' = ''instrument_token''" "strip ''tradingsymbol'' = ''tradingsymbol''" "strip ''name'' = ''name''"
    "strip ''exchange'' = ''exchange''"
    by (simp_all add: strip_trimmed trimmed_def is_space_def blank_def)
  have l: "str_lower ''instrument_token'' = ''instrument_token''" "str_lower ''tradingsymbol'' = ''tradingsymbol''" "str_lower ''name'' = ''name''"
    "str_lower ''exchange'' = ''exchange''" by code_simp+
  have v: "validate_row (dict_row required_fields [show_int (ci_token x), ci_symbol x, ci_name x, ci_exchange x]) = Inr True"
    unfolding r using ne by (simp add: validate_row_def required_fields_def s read_int_show_int)
  have "clean_row (dict_row required_fields [show_int (ci_token x), ci_symbol x, ci_name x, ci_exchange x]) = Inr (loaded x)"
    unfolding r using ne by (simp add: clean_row_def clean_value_def s k l read_int_show_int loaded_def Let_def)
  with v show ?thesis by (simp add: load_row_def)
qed

text \<open>C16: What is written is loaded. A file of any comments and blank lines followed by one line per instrument, with the fields quoted as a
  csv writer quotes them, loads as exactly these instruments, in order, whatever commas and quotes their fields contain, provided no
  field is empty or has outer blanks and the first line does not look like a header. The iterator yields the same.\<close>

theorem csv_roundtrip:
  assumes ok: "\<forall>x \<in> set xs. fields_ok x" and c: "\<forall>l \<in> set comments. strip l = [] \<or> starts_with ''#'' (strip l)"
    and h: "\<not> has_header (map csv_record xs)"
  shows "load_instruments (Inr (comments @ map csv_record xs)) = Inr (map loaded xs) \<and>
     load_instruments_iterator (Inr (comments @ map csv_record xs)) = (map loaded xs, None)"
proof -
  have rec: "strip (csv_record x) = csv_record x \<and> csv_record x \<noteq> []" if "x \<in> set xs" for x
    using ok that csv_record_trimmed [of x] by (auto simp: strip_trimmed trimmed_def)
  have "filter (\<lambda>l. l \<noteq> [] \<and> \<not> starts_with ''#'' l) (map strip comments) = []"
    using c by (auto simp: filter_empty_conv)
  moreover have st: "map strip (map csv_record xs) = map csv_record xs" using rec by simp
  moreover have "filter (\<lambda>l. l \<noteq> [] \<and> \<not> starts_with ''#'' l) (map csv_record xs) = map csv_record xs"
    using rec csv_record_no_comment by (simp add: filter_id_conv)
  ultimately have d: "data_lines (comments @ map csv_record xs) = map csv_record xs"
    unfolding data_lines_def map_append filter_append st by simp
  have "List.map_filter load_row (dict_reader (map csv_record xs)) = map loaded xs"
    using h ok load_row_record by (simp add: dict_reader_def csv_rows_records map_filter_def comp_def filter_id_conv)
  then have "load_instruments (Inr (comments @ map csv_record xs)) = Inr (map loaded xs)"
    by (auto simp: load_instruments_def d Let_def)
  with iterator_agrees show ?thesis by blast
qed

definition demo_instrument :: csv_instrument where
  "demo_instrument = \<lparr>ci_token = 7, ci_symbol = ''A'', ci_name = ''B, C'', ci_exchange = ''D''\<rparr>"

lemma demo_fields_ok: "fields_ok demo_instrument"
  by (simp add: fields_ok_def demo_instrument_def trimmed_def is_space_def blank_def)

lemma demo_no_header: "\<not> has_header (map csv_record [demo_instrument])"
proof -
  have "length (csv_record demo_instrument) < 16"
    by (simp add: csv_record_def csv_field_def demo_instrument_def show_evals)
  then show ?thesis
    using in_str_length [of "''instrument_token''" "str_lower (csv_record demo_instrument)"] by (auto simp: has_header_def str_lower_def)
qed

lemma csv_roundtrip_witness:
  "load_instruments (Inr ([''# x'', []] @ map csv_record [demo_instrument])) = Inr [loaded demo_instrument]"
proof -
  have "\<forall>l \<in> set [''# x'', []]. strip l = [] \<or> starts_with ''#'' (strip l)"
    by (simp add: strip_def is_space_def blank_def)
  then show ?thesis using csv_roundtrip [of "[demo_instrument]" "[''# x'', []]"] demo_fields_ok demo_no_header by simp
qed

subsection \<open>Headers in another case\<close>

lemma dict_row_keys: "fst ` set (cr_fields (dict_row names vs)) \<subseteq> set names"
  using set_drop_subset [of "length vs" names] by (auto simp: dict_row_def keys_fold_dict_set keys_fold_zip dest: set_zip_leftD)

text \<open>The header is recognised in any case, its fields are not: under a header without the exact name every row is skipped.\<close>

lemma unknown_header_loads_nothing:
  assumes "has_header (data_lines file)" "csv_rows (Start_Field, [], []) (data_lines file) = h # rs" "''instrument_token'' \<notin> set h"
  shows "load_instruments (Inr file) = Inr []"
proof -
  have "load_row (dict_row h r) = None" for r
  proof -
    have "map_of (cr_fields (dict_row h r)) ''instrument_token'' = None"
      using dict_row_keys [of h r] assms(3) by (auto simp: map_of_eq_None_iff)
    then show ?thesis by (simp add: load_row_def validate_row_def required_fields_def)
  qed
  then show ?thesis using assms(1,2) by (auto simp: load_instruments_def dict_reader_def Let_def map_filter_def)
qed

end
