(* ===== verification/Instrument_Registry.thy ===== *)
theory Instrument_Registry
  imports Csv_Loader Py_Seq
begin

text \<open>
  The instrument registry: InstrumentRepository and InstrumentRegistryRepository (services/instrument_data/instrument_repository.py) and
  InstrumentRegistryService (instrument_registry_service.py). The database session is a record of the statements the
  repositories execute, each of which may raise. Its contract speaks of the tables the session sees and of those
  committed: tokens are keys of both tables, so an upsert refuses a batch with a repeated token and an insert a
  registered one.
\<close>

subsection \<open>The session\<close>

record registry_entry =
  re_token :: int
  re_symbol :: string
  re_exchange :: string
  re_subscribed :: bool
  re_priority :: int
  re_added_by :: string
  re_notes :: "string option"

record 'd inst_db =
  ib_open :: "'d \<Rightarrow> (exn + unit) \<times> 'd"
  ib_upsert :: "instrument list \<Rightarrow> 'd \<Rightarrow> (exn + unit) \<times> 'd"
  ib_instrument :: "int \<Rightarrow> 'd \<Rightarrow> (exn + instrument option) \<times> 'd"
  ib_count :: "string option \<Rightarrow> 'd \<Rightarrow> (exn + nat) \<times> 'd"
  ib_tokens :: "'d \<Rightarrow> (exn + int list) \<times> 'd"
  ib_subscribed :: "'d \<Rightarrow> (exn + registry_entry list) \<times> 'd"
  ib_entry :: "int \<Rightarrow> 'd \<Rightarrow> (exn + registry_entry option) \<times> 'd"
  ib_insert :: "registry_entry \<Rightarrow> 'd \<Rightarrow> (exn + unit) \<times> 'd"
  ib_update :: "int \<Rightarrow> bool \<Rightarrow> 'd \<Rightarrow> (exn + unit) \<times> 'd"
  ib_delete :: "int \<Rightarrow> 'd \<Rightarrow> (exn + unit) \<times> 'd"
  ib_commit :: "'d \<Rightarrow> (exn + unit) \<times> 'd"
  ib_rollback :: "'d \<Rightarrow> 'd"

record tables =
  tb_instruments :: "int \<Rightarrow> instrument option"
  tb_registry :: "int \<Rightarrow> registry_entry option"

definition put_instruments :: "instrument list \<Rightarrow> tables \<Rightarrow> tables" where
  "put_instruments xs T = T\<lparr>tb_instruments := fold (\<lambda>x m. m(in_token x \<mapsto> x)) xs (tb_instruments T)\<rparr>"

definition put_entry :: "registry_entry \<Rightarrow> tables \<Rightarrow> tables" where
  "put_entry e T = T\<lparr>tb_registry := (tb_registry T)(re_token e \<mapsto> e)\<rparr>"

definition reads_ok :: "('d \<Rightarrow> tables \<times> tables) \<Rightarrow> ('d \<Rightarrow> (exn + 'a) \<times> 'd) \<Rightarrow> ('a \<Rightarrow> tables \<Rightarrow> bool) \<Rightarrow> bool" where
  "reads_ok view f P \<longleftrightarrow> (\<forall>d r d'. f d = (r, d') \<longrightarrow> view d' = view d \<and> (\<forall>x. r = Inr x \<longrightarrow> P x (fst (view d))))"

definition writes_ok :: "('d \<Rightarrow> tables \<times> tables) \<Rightarrow> ('d \<Rightarrow> (exn + unit) \<times> 'd) \<Rightarrow> (tables \<Rightarrow> bool) \<Rightarrow> (tables \<Rightarrow> tables) \<Rightarrow> bool" where
  "writes_ok view f P g \<longleftrightarrow>
     (\<forall>d r d'. f d = (r, d') \<longrightarrow> snd (view d') = snd (view d) \<and> (r = Inr () \<longrightarrow> P (fst (view d)) \<and> fst (view d') = g (fst (view d))))"

definition inst_db_ok :: "'d inst_db \<Rightarrow> ('d \<Rightarrow> tables \<times> tables) \<Rightarrow> bool" where
  "inst_db_ok D view \<longleftrightarrow>
     (\<forall>d r d'. ib_open D d = (r, d') \<longrightarrow> snd (view d') = snd (view d) \<and> (r = Inr () \<longrightarrow> fst (view d') = snd (view d))) \<and>
     (\<forall>xs. writes_ok view (ib_upsert D xs) (\<lambda>_. distinct (map in_token xs)) (put_instruments xs)) \<and>
     (\<forall>t. reads_ok view (ib_instrument D t) (\<lambda>x T. x = tb_instruments T t)) \<and>
     (\<forall>x. reads_ok view (ib_count D x) (\<lambda>_ _. True)) \<and>
     reads_ok view (ib_tokens D) (\<lambda>ts T. set ts = {t. \<exists>e. tb_registry T t = Some e \<and> re_subscribed e}) \<and>
     reads_ok view (ib_subscribed D) (\<lambda>es T. set es = {e. \<exists>t. tb_registry T t = Some e \<and> re_subscribed e}) \<and>
     (\<forall>t. reads_ok view (ib_entry D t) (\<lambda>x T. x = tb_registry T t)) \<and>
     (\<forall>e. writes_ok view (ib_insert D e) (\<lambda>T. tb_registry T (re_token e) = None) (put_entry e)) \<and>
     (\<forall>t b. writes_ok view (ib_update D t b) (\<lambda>_. True) (\<lambda>T. T\<lparr>tb_registry := (tb_registry T)(t := map_option (re_subscribed_update (\<lambda>_. b)) (tb_registry T t))\<rparr>)) \<and>
     (\<forall>t. writes_ok view (ib_delete D t) (\<lambda>_. True) (\<lambda>T. T\<lparr>tb_registry := (tb_registry T)(t := None)\<rparr>)) \<and>
     (\<forall>d r d'. ib_commit D d = (r, d') \<longrightarrow> (case r of Inl e \<Rightarrow> snd (view d') = snd (view d) | Inr _ \<Rightarrow> view d' = (fst (view d), fst (view d)))) \<and>
     (\<forall>d. view (ib_rollback D d) = (snd (view d), snd (view d)))"

subsection \<open>The repositories\<close>

type_synonym ('a, 'd) db = "'d \<Rightarrow> (exn + 'a) \<times> 'd"

definition dbind :: "('a, 'd) db \<Rightarrow> ('a \<Rightarrow> ('b, 'd) db) \<Rightarrow> ('b, 'd) db" where
  "dbind m f = (\<lambda>d. case m d of (Inl e, d') \<Rightarrow> (Inl e, d') | (Inr x, d') \<Rightarrow> f x d')"

definition dret :: "'a \<Rightarrow> ('a, 'd) db" where
  "dret x = (\<lambda>d. (Inr x, d))"

definition or_rollback :: "'d inst_db \<Rightarrow> ('a, 'd) db \<Rightarrow> ('a, 'd) db" where
  "or_rollback D m = (\<lambda>d. case m d of (Inl e, d') \<Rightarrow> (Inl e, ib_rollback D d') | (Inr x, d') \<Rightarrow> (Inr x, d'))"

definition batch_size :: nat where
  "batch_size = 1000"

text \<open>The rows that make an instrument; the others are logged and skipped.\<close>

definition batch_values :: "string option \<Rightarrow> (string \<times> json) list list \<Rightarrow> instrument list" where
  "batch_values source rows = List.map_filter (\<lambda>r. case from_csv_row r source of Inl e \<Rightarrow> None | Inr i \<Rightarrow> Some i) rows"

fun upsert_batches :: "'d inst_db \<Rightarrow> string option \<Rightarrow> nat \<Rightarrow> (string \<times> json) list list list \<Rightarrow> (nat, 'd) db" where
  "upsert_batches D source n [] = dret n"
| "upsert_batches D source n (b # bs) =
     (let vs = batch_values source b in
      if vs = [] then upsert_batches D source n bs
      else dbind (ib_upsert D vs) (\<lambda>_. upsert_batches D source (n + length vs) bs))"

definition bulk_upsert_instruments :: "'d inst_db \<Rightarrow> (string \<times> json) list list \<Rightarrow> string option \<Rightarrow> (nat, 'd) db" where
  "bulk_upsert_instruments D rows source = upsert_batches D source 0 (chunks batch_size rows)"

text \<open>The entry is committed at once; reading it back may still raise.\<close>

definition repo_add_to_registry :: "'d inst_db \<Rightarrow> registry_entry \<Rightarrow> (registry_entry option, 'd) db" where
  "repo_add_to_registry D e = or_rollback D (dbind (ib_insert D e) (\<lambda>_. dbind (ib_commit D) (\<lambda>_. ib_entry D (re_token e))))"

definition repo_remove_from_registry :: "'d inst_db \<Rightarrow> int \<Rightarrow> (bool, 'd) db" where
  "repo_remove_from_registry D t =
     or_rollback D (dbind (ib_entry D t) (\<lambda>x. case x of None \<Rightarrow> dret False
        | Some e \<Rightarrow> dbind (ib_delete D t) (\<lambda>_. dbind (ib_commit D) (\<lambda>_. dret True))))"

definition repo_update_subscription :: "'d inst_db \<Rightarrow> int \<Rightarrow> bool \<Rightarrow> (bool, 'd) db" where
  "repo_update_subscription D t b =
     or_rollback D (dbind (ib_entry D t) (\<lambda>x. case x of None \<Rightarrow> dret False
        | Some e \<Rightarrow> dbind (ib_update D t b) (\<lambda>_. dbind (ib_commit D) (\<lambda>_. dret True))))"

subsection \<open>The service\<close>

definition new_entry :: "(string \<times> json) list \<Rightarrow> int \<Rightarrow> exn + registry_entry" where
  "new_entry row t =
     (case (jget row ''tradingsymbol'', jget row ''exchange'') of
        (Some (JStr s), Some (JStr x)) \<Rightarrow>
          Inr \<lparr>re_token = t, re_symbol = s, re_exchange = x, re_subscribed = True, re_priority = 100, re_added_by = ''csv_loader'',
               re_notes = Some (''Added from CSV: '' @ py_str (case jget row ''name'' of None \<Rightarrow> JStr [] | Some v \<Rightarrow> v))\<rparr>
      | _ \<Rightarrow> Inl (raise_exn (Other ''KeyError'') ''tradingsymbol''))"

text \<open>The rows whose token is new, in order; a repeated token is added again.\<close>

fun add_rows :: "'d inst_db \<Rightarrow> int set \<Rightarrow> (string \<times> json) list list \<Rightarrow> (unit, 'd) db" where
  "add_rows D new [] = dret ()"
| "add_rows D new (r # rs) =
     (case token_of r of
        Inl e \<Rightarrow> (\<lambda>d. (Inl e, d))
      | Inr t \<Rightarrow>
          if t \<notin> new then add_rows D new rs
          else (case new_entry r t of
              Inl e \<Rightarrow> (\<lambda>d. (Inl e, d))
            | Inr e \<Rightarrow> dbind (repo_add_to_registry D e) (\<lambda>_. add_rows D new rs)))"

fun tokens_of :: "(string \<times> json) list list \<Rightarrow> exn + int list" where
  "tokens_of [] = Inr []"
| "tokens_of (r # rs) = (case token_of r of Inl e \<Rightarrow> Inl e | Inr t \<Rightarrow> (case tokens_of rs of Inl e \<Rightarrow> Inl e | Inr ts \<Rightarrow> Inr (t # ts)))"

definition update_registry_from_csv :: "'d inst_db \<Rightarrow> (string \<times> json) list list \<Rightarrow> (unit, 'd) db" where
  "update_registry_from_csv D rows =
     dbind (ib_tokens D) (\<lambda>current.
       case tokens_of rows of Inl e \<Rightarrow> (\<lambda>d. (Inl e, d)) | Inr ts \<Rightarrow> add_rows D (set ts - set current) rows)"

record load_result =
  lo_loaded :: nat
  lo_processed :: nat
  lo_in_database :: nat
  lo_registry_updated :: bool

text \<open>\<open>file\<close> is the file at the path, \<open>name\<close> its name. Opening the session is outside the transaction.\<close>

definition load_instruments_from_csv :: "'d inst_db \<Rightarrow> exn + string list \<Rightarrow> string \<Rightarrow> bool \<Rightarrow> (load_result, 'd) db" where
  "load_instruments_from_csv D file name update_registry =
     (case load_instruments file of
        Inl e \<Rightarrow> (\<lambda>d. (Inl e, d))
      | Inr [] \<Rightarrow> dret \<lparr>lo_loaded = 0, lo_processed = 0, lo_in_database = 0, lo_registry_updated = False\<rparr>
      | Inr rows \<Rightarrow> dbind (ib_open D) (\<lambda>_. or_rollback D
          (dbind (bulk_upsert_instruments D rows (Some name)) (\<lambda>n.
           dbind (if update_registry then dbind (update_registry_from_csv D rows) (\<lambda>_. dret True) else dret False) (\<lambda>updated.
           dbind (ib_commit D) (\<lambda>_. dbind (ib_count D None) (\<lambda>c.
             dret \<lparr>lo_loaded = length rows, lo_processed = n, lo_in_database = c, lo_registry_updated = updated\<rparr>)))))))"

text \<open>The count is asked for with a plain string, which the session refuses; the exception means that there is no table.\<close>

definition get_instrument_count :: nat where
  "get_instrument_count = 0"

definition registry_start :: "'d inst_db \<Rightarrow> exn + string list \<Rightarrow> string \<Rightarrow> (unit, 'd) db" where
  "registry_start D file name =
     dbind (\<lambda>d. case ib_open D d of (Inl e, d') \<Rightarrow> (Inl (raise_exn (Other ''RuntimeError'') (''Cannot access database for instrument registry: '' @ exn_msg e)), d')
              | (Inr _, d') \<Rightarrow> (Inr (), d'))
       (\<lambda>_. if get_instrument_count = 0 then dbind (load_instruments_from_csv D file name True) (\<lambda>_. dret ()) else dret ())"

definition answer_false :: "(bool, 'd) db \<Rightarrow> 'd \<Rightarrow> bool \<times> 'd" where
  "answer_false m d = (case m d of (Inl e, d') \<Rightarrow> (False, d') | (Inr b, d') \<Rightarrow> (b, d'))"

definition add_to_registry :: "'d inst_db \<Rightarrow> int \<Rightarrow> int \<Rightarrow> string option \<Rightarrow> string \<Rightarrow> 'd \<Rightarrow> bool \<times> 'd" where
  "add_to_registry D t priority notes added_by =
     answer_false (dbind (ib_open D) (\<lambda>_. dbind (ib_instrument D t) (\<lambda>x. case x of None \<Rightarrow> dret False
       | Some i \<Rightarrow> dbind (repo_add_to_registry D \<lparr>re_token = t, re_symbol = in_tradingsymbol i, re_exchange = in_exchange i, re_subscribed = True,
             re_priority = priority, re_added_by = added_by, re_notes = notes\<rparr>) (\<lambda>_. dret True))))"

definition remove_from_registry :: "'d inst_db \<Rightarrow> int \<Rightarrow> 'd \<Rightarrow> bool \<times> 'd" where
  "remove_from_registry D t = answer_false (dbind (ib_open D) (\<lambda>_. repo_remove_from_registry D t))"

definition update_subscription_status :: "'d inst_db \<Rightarrow> int \<Rightarrow> bool \<Rightarrow> 'd \<Rightarrow> bool \<times> 'd" where
  "update_subscription_status D t b = answer_false (dbind (ib_open D) (\<lambda>_. repo_update_subscription D t b))"

definition get_registry_tokens :: "'d inst_db \<Rightarrow> (int list, 'd) db" where
  "get_registry_tokens D = dbind (ib_open D) (\<lambda>_. ib_tokens D)"

text \<open>How many entries of each exchange there are.\<close>

fun count_exchanges :: "registry_entry list \<Rightarrow> (string \<times> nat) list \<Rightarrow> (string \<times> nat) list" where
  "count_exchanges [] d = d"
| "count_exchanges (e # es) d = count_exchanges es (dict_set (re_exchange e) ((case map_of d (re_exchange e) of None \<Rightarrow> 0 | Some n \<Rightarrow> n) + 1) d)"

definition get_statistics :: "'d inst_db \<Rightarrow> ((nat \<times> nat \<times> nat) \<times> nat \<times> (string \<times> nat) list, 'd) db" where
  "get_statistics D =
     dbind (ib_open D) (\<lambda>_. dbind (ib_count D None) (\<lambda>n. dbind (ib_count D (Some ''NSE'')) (\<lambda>nse. dbind (ib_count D (Some ''BSE'')) (\<lambda>bse.
       dbind (ib_subscribed D) (\<lambda>es. dret ((n, nse, bse), length es, count_exchanges es []))))))"

subsection \<open>What the session promises\<close>

lemma readsD: "reads_ok view f P \<Longrightarrow> f d = (r, d') \<Longrightarrow> view d' = view d \<and> (\<forall>x. r = Inr x \<longrightarrow> P x (fst (view d)))"
  by (auto simp: reads_ok_def)

lemma writesD:
  "writes_ok view f P g \<Longrightarrow> f d = (r, d') \<Longrightarrow> snd (view d') = snd (view d) \<and> (r = Inr () \<longrightarrow> P (fst (view d)) \<and> fst (view d') = g (fst (view d)))"
  by (auto simp: writes_ok_def)

lemma inst_dbD:
  assumes "inst_db_ok D view"
  shows "ib_open D d = (r, d') \<Longrightarrow> snd (view d') = snd (view d) \<and> (r = Inr () \<longrightarrow> fst (view d') = snd (view d))"
    "writes_ok view (ib_upsert D xs) (\<lambda>_. distinct (map in_token xs)) (put_instruments xs)"
    "reads_ok view (ib_instrument D t) (\<lambda>x T. x = tb_instruments T t)"
    "reads_ok view (ib_count D x) (\<lambda>_ _. True)"
    "reads_ok view (ib_tokens D) (\<lambda>ts T. set ts = {t. \<exists>e. tb_registry T t = Some e \<and> re_subscribed e})"
    "reads_ok view (ib_entry D t) (\<lambda>x T. x = tb_registry T t)"
    "writes_ok view (ib_insert D e) (\<lambda>T. tb_registry T (re_token e) = None) (put_entry e)"
    "ib_commit D d = (Inl y, d') \<Longrightarrow> snd (view d') = snd (view d)"
    "ib_commit D d = (Inr u, d') \<Longrightarrow> view d' = (fst (view d), fst (view d))"
    "view (ib_rollback D d) = (snd (view d), snd (view d))"
  using assms unfolding inst_db_ok_def by (fastforce split: sum.splits)+

lemma dbind_Inr: "dbind m f d = (Inr y, d'') \<longleftrightarrow> (\<exists>x d'. m d = (Inr x, d') \<and> f x d' = (Inr y, d''))"
  by (auto simp: dbind_def split: prod.splits sum.splits)

lemma dbind_Inl: "dbind m f d = (Inl e, d'') \<longleftrightarrow> m d = (Inl e, d'') \<or> (\<exists>x d'. m d = (Inr x, d') \<and> f x d' = (Inl e, d''))"
  by (auto simp: dbind_def split: prod.splits sum.splits)

lemma dret_eq [simp]: "dret x d = (r, d') \<longleftrightarrow> r = Inr x \<and> d' = d"
  by (auto simp: dret_def)

lemma or_rollback_Inr [simp]: "or_rollback D m d = (Inr x, d') \<longleftrightarrow> m d = (Inr x, d')"
  by (auto simp: or_rollback_def split: prod.splits sum.splits)

lemma or_rollback_Inl: "or_rollback D m d = (Inl e, d') \<longleftrightarrow> (\<exists>d1. m d = (Inl e, d1) \<and> d' = ib_rollback D d1)"
  by (auto simp: or_rollback_def split: prod.splits sum.splits)

text \<open>Adding an entry commits whatever the session has done before.\<close>

lemma repo_add_commits:
  assumes ok: "inst_db_ok D view" and add: "repo_add_to_registry D e d = (Inr x, d')"
  shows "tb_registry (fst (view d)) (re_token e) = None \<and> view d' = (put_entry e (fst (view d)), put_entry e (fst (view d)))"
proof -
  obtain d1 d2 u where i: "ib_insert D e d = (Inr (), d1)" and c: "ib_commit D d1 = (Inr u, d2)" and r: "ib_entry D (re_token e) d2 = (Inr x, d')"
    using add by (auto simp: repo_add_to_registry_def dbind_Inr)
  from writesD [OF inst_dbD(7) [OF ok] i] inst_dbD(9) [OF ok c] readsD [OF inst_dbD(6) [OF ok] r] show ?thesis by simp
qed

text \<open>What a failed one leaves committed.\<close>

lemma repo_add_fails:
  assumes ok: "inst_db_ok D view" and add: "repo_add_to_registry D e d = (Inl x, d')"
  shows "fst (view d') = snd (view d') \<and>
    (snd (view d') = snd (view d) \<or> tb_registry (fst (view d)) (re_token e) = None \<and> snd (view d') = put_entry e (fst (view d)))"
proof -
  obtain d1 where m: "dbind (ib_insert D e) (\<lambda>_. dbind (ib_commit D) (\<lambda>_. ib_entry D (re_token e))) d = (Inl x, d1)" "d' = ib_rollback D d1"
    using add by (auto simp: repo_add_to_registry_def or_rollback_Inl)
  have "snd (view d1) = snd (view d) \<or> tb_registry (fst (view d)) (re_token e) = None \<and> snd (view d1) = put_entry e (fst (view d))"
  proof (cases "fst (ib_insert D e d)")
    case (Inl y)
    with m(1) writesD [OF inst_dbD(7) [OF ok], of e d] show ?thesis by (cases "ib_insert D e d") (auto simp: dbind_def)
  next
    case (Inr u)
    then obtain d2 where i: "ib_insert D e d = (Inr (), d2)" by (cases "ib_insert D e d") auto
    note w = writesD [OF inst_dbD(7) [OF ok] i]
    show ?thesis
    proof (cases "fst (ib_commit D d2)")
      case (Inl y)
      then obtain d3 where c: "ib_commit D d2 = (Inl y, d3)" by (cases "ib_commit D d2") auto
      with m(1) i w inst_dbD(8) [OF ok c] show ?thesis by (auto simp: dbind_def)
    next
      case (Inr v)
      then obtain d3 where c: "ib_commit D d2 = (Inr v, d3)" by (cases "ib_commit D d2") auto
      with m(1) i have "ib_entry D (re_token e) d3 = (Inl x, d1)" by (auto simp: dbind_def split: prod.splits sum.splits)
      from readsD [OF inst_dbD(6) [OF ok] this] w inst_dbD(9) [OF ok c] show ?thesis by simp
    qed
  qed
  with m(2) inst_dbD(10) [OF ok] show ?thesis by simp
qed

lemma new_entry_fields: "new_entry r t = Inr e \<Longrightarrow> re_token e = t \<and> re_subscribed e"
  by (auto simp: new_entry_def split: option.splits json.splits)

lemma add_rows_succeeds:
  assumes ok: "inst_db_ok D view"
  shows "add_rows D new rows d = (Inr u, d') \<Longrightarrow> tokens_of rows = Inr ts \<Longrightarrow>
    (\<forall>t \<in> set ts \<inter> new. tb_registry (fst (view d)) t = None \<and> (\<exists>e. tb_registry (fst (view d')) t = Some e \<and> re_subscribed e)) \<and>
    (\<forall>t. t \<notin> set ts \<inter> new \<longrightarrow> tb_registry (fst (view d')) t = tb_registry (fst (view d)) t) \<and>
    tb_instruments (fst (view d')) = tb_instruments (fst (view d))"
proof (induction rows arbitrary: d ts)
  case (Cons r rs)
  then obtain t ts' where t: "token_of r = Inr t" "tokens_of rs = Inr ts'" "ts = t # ts'" by (auto split: sum.splits)
  show ?case
  proof (cases "t \<in> new")
    case False
    with Cons.prems(1) t(1) have "add_rows D new rs d = (Inr u, d')" by simp
    from Cons.IH [OF this t(2)] False t(3) show ?thesis by auto
  next
    case True
    with Cons.prems t obtain e d1 x where e: "new_entry r t = Inr e" and a: "repo_add_to_registry D e d = (Inr x, d1)"
      and rest: "add_rows D new rs d1 = (Inr u, d')" by (auto simp: dbind_Inr split: sum.splits)
    note f = new_entry_fields [OF e] and c = repo_add_commits [OF ok a] and ih = Cons.IH [OF rest t(2)]
    have new: "tb_registry (fst (view d1)) t = Some e" "tb_registry (fst (view d)) t = None" using f c by (simp_all add: put_entry_def)
    have others: "tb_registry (fst (view d1)) v = tb_registry (fst (view d)) v" if "v \<noteq> t" for v
      using f c that by (simp add: put_entry_def)
    have t': "t \<notin> set ts' \<inter> new" using ih new(1) by auto
    then have last: "tb_registry (fst (view d')) t = Some e" using ih new(1) by simp
    have "\<forall>v \<in> set ts \<inter> new. tb_registry (fst (view d)) v = None \<and> (\<exists>e. tb_registry (fst (view d')) v = Some e \<and> re_subscribed e)"
    proof
      fix v assume v: "v \<in> set ts \<inter> new"
      show "tb_registry (fst (view d)) v = None \<and> (\<exists>e. tb_registry (fst (view d')) v = Some e \<and> re_subscribed e)"
      proof (cases "v = t")
        case True
        with new(2) last f show ?thesis by simp
      next
        case False
        with v t(3) have "v \<in> set ts' \<inter> new" by simp
        with ih others [OF False] show ?thesis by auto
      qed
    qed
    moreover have "tb_registry (fst (view d')) v = tb_registry (fst (view d)) v" if "v \<notin> set ts \<inter> new" for v
      using that ih others [of v] t(3) True by auto
    moreover have "tb_instruments (fst (view d')) = tb_instruments (fst (view d))" using ih c by (simp add: put_entry_def)
    ultimately show ?thesis by blast
  qed
qed auto

lemma batch_values_append: "batch_values src (xs @ ys) = batch_values src xs @ batch_values src ys"
  by (simp add: batch_values_def map_filter_def)

lemma put_instruments_append: "put_instruments (xs @ ys) T = put_instruments ys (put_instruments xs T)"
  by (simp add: put_instruments_def)

lemma upsert_batches_succeeds:
  assumes ok: "inst_db_ok D view"
  shows "upsert_batches D src n bs d = (Inr k, d') \<Longrightarrow>
    k = n + length (batch_values src (concat bs)) \<and> snd (view d') = snd (view d) \<and> fst (view d') = put_instruments (batch_values src (concat bs)) (fst (view d))"
proof (induction bs arbitrary: n d)
  case Nil
  then show ?case by (simp add: batch_values_def map_filter_def put_instruments_def)
next
  case (Cons b bs)
  show ?case
  proof (cases "batch_values src b = []")
    case True
    with Cons.prems have "upsert_batches D src n bs d = (Inr k, d')" by simp
    from Cons.IH [OF this] True show ?thesis by (simp add: batch_values_append)
  next
    case False
    with Cons.prems obtain d1 where u: "ib_upsert D (batch_values src b) d = (Inr (), d1)"
      and rest: "upsert_batches D src (n + length (batch_values src b)) bs d1 = (Inr k, d')" by (auto simp: dbind_Inr Let_def)
    from Cons.IH [OF rest] writesD [OF inst_dbD(2) [OF ok] u] show ?thesis by (simp add: batch_values_append put_instruments_append)
  qed
qed

text \<open>C17: A successful load registers the file. When loading a file with instruments succeeds, the committed instruments are those of before
  overwritten by the rows of the file that make an instrument, in order; every token of the file is registered and subscribed, none
  of them was registered without a subscription before, and the entries of other tokens are as they were. The result counts the
  rows and the instruments made from them.\<close>

theorem loaded_file_is_registered:
  assumes ok: "inst_db_ok D view" and src: "load_instruments file = Inr rows" "rows \<noteq> []"
    and run: "load_instruments_from_csv D file name True d = (Inr res, d')"
  shows "\<exists>ts. tokens_of rows = Inr ts \<and>
    (\<forall>t \<in> set ts. (\<exists>e. tb_registry (snd (view d')) t = Some e \<and> re_subscribed e) \<and>
       (\<forall>e. tb_registry (snd (view d)) t = Some e \<longrightarrow> re_subscribed e)) \<and>
    (\<forall>t. t \<notin> set ts \<longrightarrow> tb_registry (snd (view d')) t = tb_registry (snd (view d)) t) \<and>
    tb_instruments (snd (view d')) = tb_instruments (put_instruments (batch_values (Some name) rows) (snd (view d))) \<and>
    lo_loaded res = length rows \<and> lo_processed res = length (batch_values (Some name) rows)"
proof -
  obtain d1 d2 d3 d4 n u v c where o: "ib_open D d = (Inr (), d1)"
    and b: "bulk_upsert_instruments D rows (Some name) d1 = (Inr n, d2)"
    and r: "update_registry_from_csv D rows d2 = (Inr u, d3)" and cm: "ib_commit D d3 = (Inr v, d4)"
    and ct: "ib_count D None d4 = (Inr c, d')" and res: "res = \<lparr>lo_loaded = length rows, lo_processed = n, lo_in_database = c, lo_registry_updated = True\<rparr>"
    using run src by (cases rows) (auto simp: load_instruments_from_csv_def dbind_Inr)
  have v1: "view d1 = (snd (view d), snd (view d))" using inst_dbD(1) [OF ok o] by (simp add: prod_eq_iff)
  have cc: "concat (chunks batch_size rows) = rows" using chunks_concat [of batch_size rows] by (simp add: batch_size_def)
  have v2: "n = length (batch_values (Some name) rows)" "fst (view d2) = put_instruments (batch_values (Some name) rows) (snd (view d))"
    using upsert_batches_succeeds [OF ok b [unfolded bulk_upsert_instruments_def]] v1 cc by simp_all
  obtain cur d2' ts where k: "ib_tokens D d2 = (Inr cur, d2')" and ts: "tokens_of rows = Inr ts"
    and add: "add_rows D (set ts - set cur) rows d2' = (Inr u, d3)"
    using r by (cases "tokens_of rows") (auto simp: update_registry_from_csv_def dbind_Inr)
  have v2': "view d2' = view d2" and cur: "set cur = {t. \<exists>e. tb_registry (fst (view d2)) t = Some e \<and> re_subscribed e}"
    using readsD [OF inst_dbD(5) [OF ok] k] by auto
  note a = add_rows_succeeds [OF ok add ts]
  have reg: "tb_registry (fst (view d2)) = tb_registry (snd (view d))" using v2(2) by (simp add: put_instruments_def)
  have fin: "snd (view d') = fst (view d3)" using inst_dbD(9) [OF ok cm] readsD [OF inst_dbD(4) [OF ok] ct] by simp
  have new: "tb_registry (snd (view d)) t = None \<and> (\<exists>e. tb_registry (snd (view d')) t = Some e \<and> re_subscribed e)"
    if "t \<in> set ts" "t \<notin> set cur" for t
    using a that reg fin v2' by simp
  have old: "tb_registry (snd (view d')) t = tb_registry (snd (view d)) t" if "t \<notin> set ts \<or> t \<in> set cur" for t
    using a that reg fin v2' by auto
  have cur': "t \<in> set cur \<longleftrightarrow> (\<exists>e. tb_registry (snd (view d)) t = Some e \<and> re_subscribed e)" for t
    using cur reg by simp
  have "(\<exists>e. tb_registry (snd (view d')) t = Some e \<and> re_subscribed e) \<and> (\<forall>e. tb_registry (snd (view d)) t = Some e \<longrightarrow> re_subscribed e)"
    if "t \<in> set ts" for t
  proof (cases "t \<in> set cur")
    case True
    with old [of t] cur' [of t] show ?thesis by auto
  next
    case False
    with new [OF that] show ?thesis by simp
  qed
  moreover have "tb_instruments (snd (view d')) = tb_instruments (put_instruments (batch_values (Some name) rows) (snd (view d)))"
    using a fin v2' v2(2) by simp
  moreover have "lo_loaded res = length rows" "lo_processed res = length (batch_values (Some name) rows)" using res v2(1) by simp_all
  ultimately show ?thesis using ts old by (intro exI [of _ ts]) simp
qed

subsection \<open>An unsubscribed instrument\<close>

lemma update_subscription_commits:
  assumes ok: "inst_db_ok D view" and run: "update_subscription_status D t b d = (True, d')"
  shows "\<exists>e. tb_registry (snd (view d)) t = Some e \<and> tb_registry (snd (view d')) t = Some (e\<lparr>re_subscribed := b\<rparr>)"
proof -
  from run obtain d1 where o: "ib_open D d = (Inr (), d1)" and "repo_update_subscription D t b d1 = (Inr True, d')"
    by (auto simp: update_subscription_status_def answer_false_def dbind_Inr split: prod.splits sum.splits)
  then obtain x d2 where x: "ib_entry D t d1 = (Inr x, d2)" and "(case x of None \<Rightarrow> dret False
      | Some e \<Rightarrow> dbind (ib_update D t b) (\<lambda>_. dbind (ib_commit D) (\<lambda>_. dret True))) d2 = (Inr True, d')"
    by (auto simp: repo_update_subscription_def dbind_Inr)
  then obtain e d3 u v where e: "x = Some e" and up: "ib_update D t b d2 = (Inr (), d3)" and c: "ib_commit D d3 = (Inr v, d')"
    by (auto simp: dbind_Inr split: option.splits)
  have w: "writes_ok view (ib_update D t b) (\<lambda>_. True) (\<lambda>T. T\<lparr>tb_registry := (tb_registry T)(t := map_option (re_subscribed_update (\<lambda>_. b)) (tb_registry T t))\<rparr>)"
    using ok by (auto simp: inst_db_ok_def)
  have "fst (view d1) = snd (view d)" using inst_dbD(1) [OF ok o] by simp
  with readsD [OF inst_dbD(6) [OF ok] x] have "view d2 = view d1" "tb_registry (snd (view d)) t = Some e" using e by auto
  with writesD [OF w up] inst_dbD(9) [OF ok c] \<open>fst (view d1) = snd (view d)\<close> show ?thesis by auto
qed

text \<open>Unsubscribing an instrument of the file blocks the service. Once the subscription of a token of the instrument file has been switched off,
  every start of the registry service raises, because loading the file, which happens on every start, tries to register the token
  again; it goes on until the entry is subscribed or removed.\<close>

theorem unsubscribed_token_blocks_start:
  assumes ok: "inst_db_ok D view" and off: "update_subscription_status D t False d = (True, d1)"
    and src: "load_instruments file = Inr rows" "tokens_of rows = Inr ts" "t \<in> set ts"
    and later: "tb_registry (snd (view d2)) t = tb_registry (snd (view d1)) t"
  shows "\<exists>e. fst (registry_start D file name d2) = Inl e"
proof (rule ccontr)
  assume "\<nexists>e. fst (registry_start D file name d2) = Inl e"
  then obtain u d3 where run: "registry_start D file name d2 = (Inr u, d3)"
    by (metis prod.collapse sum.exhaust)
  have ne: "rows \<noteq> []" using src(2,3) by auto
  obtain d2' d4 res d5 where o: "ib_open D d2 = (Inr (), d2')" and l: "load_instruments_from_csv D file name True d2' = (Inr res, d5)"
    using run by (auto simp: registry_start_def get_instrument_count_def dbind_Inr split: prod.splits sum.splits)
  have "snd (view d2') = snd (view d2)" using inst_dbD(1) [OF ok o] by simp
  moreover obtain e where "tb_registry (snd (view d1)) t = Some (e\<lparr>re_subscribed := False\<rparr>)"
    using update_subscription_commits [OF ok off] by blast
  ultimately have "tb_registry (snd (view d2')) t = Some (e\<lparr>re_subscribed := False\<rparr>)" using later by simp
  with loaded_file_is_registered [OF ok src(1) ne l] src(2,3) show False by force
qed

subsection \<open>Tables as association lists\<close>

type_synonym alists = "(int \<times> instrument) list \<times> (int \<times> registry_entry) list"

definition tables_of :: "alists \<Rightarrow> tables" where
  "tables_of a = \<lparr>tb_instruments = map_of (fst a), tb_registry = map_of (snd a)\<rparr>"

definition alist_view :: "alists \<times> alists \<Rightarrow> tables \<times> tables" where
  "alist_view d = (tables_of (fst d), tables_of (snd d))"

definition alist_values :: "(int \<times> 'v) list \<Rightarrow> (int \<times> 'v) list" where
  "alist_values l = map (\<lambda>t. (t, the (map_of l t))) (remdups (map fst l))"

lemma set_alist_values: "set (alist_values l) = {(t, v). map_of l t = Some v}"
proof -
  have "t \<in> fst ` set l \<longleftrightarrow> map_of l t \<noteq> None" for t by (simp add: map_of_eq_None_iff)
  then show ?thesis by (force simp: alist_values_def)
qed

definition refused :: exn where
  "refused = raise_exn (Other ''IntegrityError'') ''duplicate key''"

definition alist_db :: "(alists \<times> alists) inst_db" where
  "alist_db = \<lparr>ib_open = (\<lambda>d. (Inr (), (snd d, snd d))),
     ib_upsert = (\<lambda>xs d. if distinct (map in_token xs)
        then (Inr (), ((rev (map (\<lambda>x. (in_token x, x)) xs) @ fst (fst d), snd (fst d)), snd d)) else (Inl refused, d)),
     ib_instrument = (\<lambda>t d. (Inr (map_of (fst (fst d)) t), d)),
     ib_count = (\<lambda>x d. (Inr (length (filter (\<lambda>(t, i). x = None \<or> x = Some (in_exchange i)) (alist_values (fst (fst d))))), d)),
     ib_tokens = (\<lambda>d. (Inr (map fst (filter (\<lambda>(t, e). re_subscribed e) (alist_values (snd (fst d))))), d)),
     ib_subscribed = (\<lambda>d. (Inr (sort_key re_priority (map snd (filter (\<lambda>(t, e). re_subscribed e) (alist_values (snd (fst d)))))), d)),
     ib_entry = (\<lambda>t d. (Inr (map_of (snd (fst d)) t), d)),
     ib_insert = (\<lambda>e d. if map_of (snd (fst d)) (re_token e) = None
        then (Inr (), ((fst (fst d), (re_token e, e) # snd (fst d)), snd d)) else (Inl refused, d)),
     ib_update = (\<lambda>t b d. (Inr (), ((fst (fst d), map (\<lambda>(u, e). (u, if u = t then e\<lparr>re_subscribed := b\<rparr> else e)) (snd (fst d))), snd d))),
     ib_delete = (\<lambda>t d. (Inr (), ((fst (fst d), filter (\<lambda>(u, e). u \<noteq> t) (snd (fst d))), snd d))),
     ib_commit = (\<lambda>d. (Inr (), (fst d, fst d))), ib_rollback = (\<lambda>d. (snd d, snd d))\<rparr>"

lemma map_of_upsert: "map_of l ++ map_of (rev (map (\<lambda>x. (in_token x, x)) xs)) = fold (\<lambda>x m. m(in_token x \<mapsto> x)) xs (map_of l)"
proof (induction xs rule: rev_induct)
  case (snoc x xs)
  then show ?case by (simp add: map_add_upd [symmetric] fun_upd_def [symmetric])
qed simp

lemma map_of_update: "map_of (map (\<lambda>(u, e). (u, if u = t then f e else e)) l) = (map_of l)(t := map_option f (map_of l t))"
  by (induction l) auto

lemma map_of_delete: "map_of (filter (\<lambda>(u, e). u \<noteq> t) l) = (map_of l)(t := None)"
  by (induction l) auto

lemma subscribed_tokens:
  "fst ` {x \<in> set (alist_values l). case x of (t, e) \<Rightarrow> re_subscribed e} = {t. \<exists>e. map_of l t = Some e \<and> re_subscribed e}"
  by (force simp: set_alist_values)

lemma subscribed_entries:
  "snd ` {x \<in> set (alist_values l). case x of (t, e) \<Rightarrow> re_subscribed e} = {e. (\<exists>t. map_of l t = Some e) \<and> re_subscribed e}"
  by (force simp: set_alist_values)

lemma alist_db_ok: "inst_db_ok alist_db alist_view"
  unfolding inst_db_ok_def reads_ok_def writes_ok_def
  by (simp add: alist_db_def alist_view_def tables_of_def put_instruments_def put_entry_def map_of_upsert map_of_update map_of_delete
    subscribed_tokens subscribed_entries)

lemma demo_file_load: "load_instruments (Inr [csv_record demo_instrument]) = Inr [loaded demo_instrument]"
  using csv_roundtrip [of "[demo_instrument]" "[]"] demo_fields_ok demo_no_header by simp

lemma demo_token: "token_of (loaded demo_instrument) = Inr 7"
  by (simp add: token_of_def field_def jget_def loaded_def demo_instrument_def)

lemma demo_tokens: "tokens_of [loaded demo_instrument] = Inr [7]"
  by (simp add: demo_token)

lemma demo_new_entry: "\<exists>e. new_entry (loaded demo_instrument) 7 = Inr e"
  by (simp add: new_entry_def jget_def loaded_def demo_instrument_def)

lemma demo_row: "from_csv_row (loaded demo_instrument) src = Inr
  \<lparr>in_token = 7, in_exchange_token = 0, in_tradingsymbol = ''A'', in_name = ''B, C'', in_exchange = ''D'', in_segment = None, in_type = None,
   in_last_price = None, in_tick_size = None, in_lot_size = None, in_expiry = None, in_strike = None, in_is_active = None, in_source_file = src\<rparr>"
  by (simp add: from_csv_row_def parse_expiry_def token_of_def safe_int_def safe_decimal_def required_text_def optional_text_def field_def
    jget_none_def jget_def strip_of_def loaded_def demo_instrument_def strip_def is_space_def blank_def Let_def)

lemma loaded_file_is_registered_witness:
  "\<exists>res d' e. load_instruments_from_csv alist_db (Inr [csv_record demo_instrument]) ''f'' True (([], []), ([], [])) = (Inr res, d') \<and>
     tb_registry (snd (alist_view d')) 7 = Some e \<and> re_subscribed e"
proof -
  have c: "chunks batch_size [r] = [[r]]" for r :: "(string \<times> json) list"
    by (simp add: chunks.simps batch_size_def)
  obtain e0 where e0: "new_entry (loaded demo_instrument) 7 = Inr e0" using demo_new_entry by blast
  obtain res d' where run: "load_instruments_from_csv alist_db (Inr [csv_record demo_instrument]) ''f'' True (([], []), ([], [])) = (Inr res, d')"
    using demo_tokens e0 demo_token
    by (simp add: load_instruments_from_csv_def demo_file_load dbind_def or_rollback_def alist_db_def bulk_upsert_instruments_def c batch_values_def
      map_filter_simps demo_row update_registry_from_csv_def alist_values_def dret_def repo_add_to_registry_def Let_def)
  from loaded_file_is_registered [OF alist_db_ok demo_file_load _ run] demo_tokens run show ?thesis by auto
qed

definition demo_entry :: registry_entry where
  "demo_entry = \<lparr>re_token = 7, re_symbol = ''A'', re_exchange = ''D'', re_subscribed = True, re_priority = 100, re_added_by = ''api'', re_notes = None\<rparr>"

lemma unsubscribed_token_blocks_start_witness:
  "let d = (([], [(7, demo_entry)]), ([], [(7, demo_entry)])) in
     \<exists>e. fst (registry_start alist_db (Inr [csv_record demo_instrument]) ''f'' (snd (update_subscription_status alist_db 7 False d))) = Inl e"
proof -
  let ?d = "(([], [(7, demo_entry)]), ([], [(7, demo_entry)]))"
  obtain d1 where off: "update_subscription_status alist_db 7 False ?d = (True, d1)"
    by (simp add: update_subscription_status_def answer_false_def repo_update_subscription_def or_rollback_def dbind_def dret_def alist_db_def)
  from unsubscribed_token_blocks_start [OF alist_db_ok off demo_file_load demo_tokens, of d1 "''f''"] off show ?thesis by (simp add: Let_def)
qed

end
