(* ===== verification/Correlation.thy ===== *)
theory Correlation
  imports Py_Seq
begin

text \<open>
  Correlation of requests (core/streaming/correlation.py): the context of a task, the decorator that opens a trace, and
  TraceMetrics. A context variable that is unset holds None; identifiers come from messages, so they are JSON values. The
  identifiers of uuid4 and the text of the clock are arguments.
\<close>

subsection \<open>The context of a task\<close>

record trace_ctx =
  cx_correlation :: json
  cx_causation :: json
  cx_metadata :: "(string \<times> json) list option"

definition clear_context :: "trace_ctx \<Rightarrow> trace_ctx" where
  "clear_context c = \<lparr>cx_correlation = JNull, cx_causation = JNull, cx_metadata = None\<rparr>"

definition ensure_correlation_id :: "string \<Rightarrow> trace_ctx \<Rightarrow> json \<times> trace_ctx" where
  "ensure_correlation_id uuid c =
     (if py_truthy (cx_correlation c) then (cx_correlation c, c) else (JStr uuid, c\<lparr>cx_correlation := JStr uuid\<rparr>))"

definition start_new_trace ::
  "string \<Rightarrow> string \<Rightarrow> string \<Rightarrow> string \<Rightarrow> json \<Rightarrow> (string \<times> json) list \<Rightarrow> trace_ctx \<Rightarrow> json \<times> trace_ctx" where
  "start_new_trace uuid now service_name operation correlation_id metadata c =
     (let (i, c1) = (if py_truthy correlation_id then (correlation_id, c\<lparr>cx_correlation := correlation_id\<rparr>) else ensure_correlation_id uuid c)
      in (i, c1\<lparr>cx_metadata := Some [(''trace_id'', i), (''root_service'', JStr service_name), (''root_operation'', JStr operation),
              (''started_at'', JStr now), (''custom_metadata'', JObj metadata)]\<rparr>))"

definition continue_trace :: "string \<Rightarrow> json \<Rightarrow> json \<Rightarrow> string \<Rightarrow> string \<Rightarrow> trace_ctx \<Rightarrow> trace_ctx" where
  "continue_trace now event_correlation_id event_id service_name operation c =
     (let existing = (case cx_metadata c of None \<Rightarrow> [] | Some d \<Rightarrow> d) in
      \<lparr>cx_correlation = event_correlation_id, cx_causation = event_id,
       cx_metadata = Some (dict_set ''parent_event_id'' event_id (dict_set ''continued_at'' (JStr now)
         (dict_set ''current_operation'' (JStr operation) (dict_set ''current_service'' (JStr service_name) existing))))\<rparr>)"

definition get_trace_context :: "trace_ctx \<Rightarrow> (string \<times> json) list" where
  "get_trace_context c =
     [(''correlation_id'', cx_correlation c), (''causation_id'', cx_causation c),
      (''metadata'', case cx_metadata c of None \<Rightarrow> JNull | Some d \<Rightarrow> JObj d)]"

definition get_log_context :: "string \<Rightarrow> trace_ctx \<Rightarrow> (string \<times> json) list" where
  "get_log_context service_name c =
     [(''service'', JStr service_name), (''correlation_id'', cx_correlation c), (''causation_id'', cx_causation c)] @
     (case cx_metadata c of None \<Rightarrow> [] | Some [] \<Rightarrow> [] | Some d \<Rightarrow> [(''trace_metadata'', JObj d)])"

text \<open>The decorator: \<open>f\<close> is the decorated coroutine, its outcome is passed on.\<close>

definition trace_operation :: "string \<Rightarrow> string \<Rightarrow> string \<Rightarrow> string \<Rightarrow> (trace_ctx \<Rightarrow> 'a \<times> trace_ctx) \<Rightarrow> trace_ctx \<Rightarrow> 'a \<times> trace_ctx" where
  "trace_operation uuid now service_name operation f c =
     f (if py_truthy (cx_correlation c) then c else snd (start_new_trace uuid now service_name operation JNull [] c))"

subsection \<open>TraceMetrics\<close>

record trace_info =
  ti_service :: string
  ti_operation :: string
  ti_started_at :: int
  ti_span_count :: nat

record trace_metrics =
  tm_active :: int
  tm_completed :: nat
  tm_failed :: nat
  tm_average :: rat
  tm_traces :: "(string \<times> trace_info) list"

definition trace_metrics_init :: trace_metrics where
  "trace_metrics_init = \<lparr>tm_active = 0, tm_completed = 0, tm_failed = 0, tm_average = 0, tm_traces = []\<rparr>"

definition start_trace_measurement :: "int \<Rightarrow> string \<Rightarrow> string \<Rightarrow> string \<Rightarrow> trace_metrics \<Rightarrow> trace_metrics" where
  "start_trace_measurement now correlation_id service_name operation t =
     t\<lparr>tm_active := tm_active t + 1,
       tm_traces := dict_set correlation_id \<lparr>ti_service = service_name, ti_operation = operation, ti_started_at = now, ti_span_count = 1\<rparr> (tm_traces t)\<rparr>"

definition add_span :: "string \<Rightarrow> trace_metrics \<Rightarrow> trace_metrics" where
  "add_span correlation_id t =
     (case map_of (tm_traces t) correlation_id of
        None \<Rightarrow> t
      | Some i \<Rightarrow> t\<lparr>tm_traces := dict_set correlation_id (i\<lparr>ti_span_count := ti_span_count i + 1\<rparr>) (tm_traces t)\<rparr>)"

definition seconds_since :: "int \<Rightarrow> int \<Rightarrow> rat" where
  "seconds_since now t = of_int (now - t) / 1000000"

definition complete_trace :: "int \<Rightarrow> string \<Rightarrow> bool \<Rightarrow> trace_metrics \<Rightarrow> trace_metrics" where
  "complete_trace now correlation_id success t =
     (case map_of (tm_traces t) correlation_id of
        None \<Rightarrow> t
      | Some i \<Rightarrow>
          (let t1 = t\<lparr>tm_traces := dict_pop correlation_id (tm_traces t), tm_active := tm_active t - 1\<rparr>;
               t2 = (if success then t1\<lparr>tm_completed := tm_completed t1 + 1\<rparr> else t1\<lparr>tm_failed := tm_failed t1 + 1\<rparr>);
               duration = seconds_since now (ti_started_at i);
               total = tm_completed t2 + tm_failed t2
           in if 0 < total then t2\<lparr>tm_average := (tm_average t2 * of_nat (total - 1) + duration) / of_nat total\<rparr> else t2))"

definition get_trace_metrics :: "trace_metrics \<Rightarrow> (int \<times> nat \<times> nat \<times> rat) \<times> string list" where
  "get_trace_metrics t = ((tm_active t, tm_completed t, tm_failed t, tm_average t), map fst (tm_traces t))"

subsection \<open>What the counters mean\<close>

datatype trace_op = Start_Trace int string string string | Add_Span string | Complete_Trace int string bool

fun trace_step :: "trace_metrics \<Rightarrow> trace_op \<Rightarrow> trace_metrics" where
  "trace_step t (Start_Trace now i s p) = start_trace_measurement now i s p t"
| "trace_step t (Add_Span i) = add_span i t"
| "trace_step t (Complete_Trace now i b) = complete_trace now i b t"

text \<open>The specification: when each open trace was started last, the durations of the closed ones with their outcomes, and how often a
  trace was started that was open.\<close>

record trace_spec =
  tp_open :: "string \<rightharpoonup> int"
  tp_closed :: "(rat \<times> bool) list"
  tp_restarts :: nat

fun spec_step :: "trace_spec \<Rightarrow> trace_op \<Rightarrow> trace_spec" where
  "spec_step s (Start_Trace now i _ _) =
     s\<lparr>tp_open := (tp_open s)(i \<mapsto> now), tp_restarts := tp_restarts s + (if tp_open s i = None then 0 else 1)\<rparr>"
| "spec_step s (Add_Span i) = s"
| "spec_step s (Complete_Trace now i b) =
     (case tp_open s i of None \<Rightarrow> s
      | Some t \<Rightarrow> s\<lparr>tp_open := (tp_open s)(i := None), tp_closed := tp_closed s @ [(seconds_since now t, b)]\<rparr>)"

definition spec_init :: trace_spec where
  "spec_init = \<lparr>tp_open = Map.empty, tp_closed = [], tp_restarts = 0\<rparr>"

definition trace_refines :: "trace_metrics \<Rightarrow> trace_spec \<Rightarrow> bool" where
  "trace_refines t s \<longleftrightarrow>
     (\<forall>i. tp_open s i = map_option ti_started_at (map_of (tm_traces t) i)) \<and> distinct (map fst (tm_traces t)) \<and>
     tm_completed t = length (filter snd (tp_closed s)) \<and> tm_failed t = length (filter (\<lambda>x. \<not> snd x) (tp_closed s)) \<and>
     tm_average t = avg (map fst (tp_closed s)) \<and> tm_active t = int (length (tm_traces t)) + int (tp_restarts s)"

lemma outcomes_total: "length (filter snd xs) + length (filter (\<lambda>x. \<not> snd x) xs) = length xs"
  by (induction xs) auto

lemma trace_refines_open: "trace_refines t s \<Longrightarrow> tp_open s i = map_option ti_started_at (map_of (tm_traces t) i)"
  by (auto simp: trace_refines_def)

lemma trace_refines_start:
  assumes "trace_refines t s"
  shows "trace_refines (trace_step t (Start_Trace now i sv p)) (spec_step s (Start_Trace now i sv p))"
proof -
  have "tp_open s i = None \<longleftrightarrow> map_of (tm_traces t) i = None" by (simp add: trace_refines_open [OF assms])
  with assms show ?thesis
    by (auto simp: trace_refines_def start_trace_measurement_def length_dict_set fun_eq_iff)
qed

lemma trace_refines_span: "trace_refines t s \<Longrightarrow> trace_refines (trace_step t (Add_Span i)) (spec_step s (Add_Span i))"
  by (auto simp: trace_refines_def add_span_def length_dict_set fun_eq_iff split: option.splits)

lemma trace_refines_complete:
  assumes r: "trace_refines t s"
  shows "trace_refines (trace_step t (Complete_Trace now i b)) (spec_step s (Complete_Trace now i b))"
proof (cases "map_of (tm_traces t) i")
  case None
  then have "tp_open s i = None" by (simp add: trace_refines_open [OF r])
  with None r show ?thesis by (simp add: complete_trace_def)
next
  case (Some x)
  then have o: "tp_open s i = Some (ti_started_at x)" by (simp add: trace_refines_open [OF r])
  have n: "tm_completed t + tm_failed t = length (tp_closed s)" using r outcomes_total [of "tp_closed s"] by (simp add: trace_refines_def)
  have l: "int (length (tm_traces t)) = int (length (dict_pop i (tm_traces t))) + 1"
    using r Some length_dict_pop [of "tm_traces t" i x] by (simp add: trace_refines_def)
  let ?d = "seconds_since now (ti_started_at x)"
  have a: "avg (map fst (tp_closed s) @ [?d]) = (tm_average t * of_nat (tm_completed t + tm_failed t) + ?d) / of_nat (Suc (tm_completed t + tm_failed t))"
    using r avg_snoc [of "map fst (tp_closed s)" ?d] unfolding n by (simp add: trace_refines_def)
  have "complete_trace now i b t = t\<lparr>tm_traces := dict_pop i (tm_traces t), tm_active := tm_active t - 1,
      tm_completed := tm_completed t + (if b then 1 else 0), tm_failed := tm_failed t + (if b then 0 else 1),
      tm_average := avg (map fst (tp_closed s) @ [?d])\<rparr>"
    using Some by (simp add: complete_trace_def Let_def a)
  then show ?thesis
    using r o Some l by (auto simp: trace_refines_def)
qed

lemma trace_run_refines: "trace_refines t s \<Longrightarrow> trace_refines (foldl trace_step t es) (foldl spec_step s es)"
proof (induction es arbitrary: t s)
  case (Cons e es)
  have "trace_refines (trace_step t e) (spec_step s e)"
    using Cons.prems trace_refines_start trace_refines_span trace_refines_complete by (cases e) blast+
  with Cons.IH show ?case by simp
qed simp

text \<open>The trace statistics. After any sequence of calls, the counters of completed and failed traces count the traces closed with each
  outcome, and the average duration, updated in place, is the mean of all their durations. The counter of active traces
  exceeds the number of traces that are open by the number of starts of a trace that was open already.\<close>

theorem trace_statistics:
  "let t = foldl trace_step trace_metrics_init es; s = foldl spec_step spec_init es in
     tm_completed t = length (filter snd (tp_closed s)) \<and> tm_failed t = length (filter (\<lambda>x. \<not> snd x) (tp_closed s)) \<and>
     tm_average t = avg (map fst (tp_closed s)) \<and>
     tm_active t = int (length (snd (get_trace_metrics t))) + int (tp_restarts s)"
proof -
  have "trace_refines (foldl trace_step trace_metrics_init es) (foldl spec_step spec_init es)"
    by (rule trace_run_refines) (simp add: trace_refines_def trace_metrics_init_def spec_init_def avg_def)
  then show ?thesis by (simp add: trace_refines_def get_trace_metrics_def Let_def)
qed

subsection \<open>Contexts that outlive their message\<close>

text \<open>A trace started without an identifier while one is set does not get a new one, and keeps the parent.\<close>

lemma start_new_trace_continues:
  assumes "py_truthy i"
  shows "fst (start_new_trace uuid now sv op JNull md (continue_trace now' i e sv' op' c)) = i"
    "cx_causation (snd (start_new_trace uuid now sv op JNull md (continue_trace now' i e sv' op' c))) = e"
  using assms by (simp_all add: start_new_trace_def continue_trace_def ensure_correlation_id_def Let_def)

end
