(* ===== verification/Stream_Processor.thy ===== *)
theory Stream_Processor
  imports Correlation Error_Handling Deduplication Pipeline_Monitoring Schemas Py_Seq
begin

text \<open>
  The direct streaming clients (core/streaming/clients.py): RedpandaProducer, the adapter for the dead letter queue,
  RedpandaConsumer and StreamProcessor. The Kafka client and the handler of a subclass act on a world of type \<open>'w\<close> and may raise; the
  commit of the client has no arguments, it covers whatever was delivered. Times are microseconds.
\<close>

subsection \<open>State\<close>

record 'w kafka =
  k_start_producer :: "'w \<Rightarrow> 'w \<times> exn option"
  k_flush :: "'w \<Rightarrow> 'w \<times> exn option"
  k_stop_producer :: "'w \<Rightarrow> 'w \<times> exn option"
  k_send :: "string \<Rightarrow> string \<Rightarrow> event_envelope \<Rightarrow> 'w \<Rightarrow> 'w \<times> exn option"
  k_is_kafka_error :: "exn \<Rightarrow> bool"
  k_start_consumer :: "'w \<Rightarrow> 'w \<times> exn option"
  k_stop_consumer :: "'w \<Rightarrow> 'w \<times> exn option"
  k_commit :: "'w \<Rightarrow> 'w \<times> exn option"

text \<open>What emitting an event touches: the producer, the count of published events, the context of the task, and the world.\<close>

record 'w emitter =
  em_started :: bool
  em_published :: nat
  em_ctx :: trace_ctx
  em_world :: 'w

record topic_stat =
  ts_messages :: nat
  ts_errors :: nat
  ts_average :: rat
  ts_last :: int

record partition_stat =
  ps_messages :: nat
  ps_errors :: nat
  ps_last :: int

record processing =
  pr_processed :: nat
  pr_times :: "rat list"
  pr_errors :: nat
  pr_start :: int
  pr_last :: "int option"
  pr_topics :: "(string \<times> topic_stat) list"
  pr_partitions :: "(string \<times> partition_stat) list"

record ('r, 'w) sp_env =
  pe_name :: string
  pe_topics :: "string list"
  pe_default_broker :: string
  pe_kafka :: "'w kafka"
  pe_redis :: "'r redis option"
  pe_clock :: clock
  pe_datetime :: "int \<Rightarrow> datetime"
  pe_uuid :: "nat \<Rightarrow> string"
  pe_random :: rat
  pe_handle :: "string \<Rightarrow> string option \<Rightarrow> (string \<times> json) list \<Rightarrow> 'w emitter \<Rightarrow> 'w emitter \<times> exn option"
  pe_coroutine_text :: string

record ('r, 'w) sp =
  sp_running :: bool
  sp_consumer_started :: bool
  sp_emit :: "'w emitter"
  sp_metrics :: processing
  sp_eh :: eh
  sp_ded :: ded_stats
  sp_redis :: 'r
  sp_traces :: trace_metrics
  sp_last_push :: int
  sp_failures :: nat
  sp_admin :: bool
  sp_lag :: "(string \<times> int) list"
  sp_last_lag :: int

definition processing_init :: "int \<Rightarrow> processing" where
  "processing_init now = \<lparr>pr_processed = 0, pr_times = [], pr_errors = 0, pr_start = now, pr_last = None, pr_topics = [], pr_partitions = []\<rparr>"

definition sp_reset_metrics :: "int \<Rightarrow> ('r, 'w) sp \<Rightarrow> ('r, 'w) sp" where
  "sp_reset_metrics now s = s\<lparr>sp_metrics := processing_init now, sp_emit := (sp_emit s)\<lparr>em_published := 0\<rparr>\<rparr>"

definition sp_init :: "int \<Rightarrow> trace_ctx \<Rightarrow> trace_metrics \<Rightarrow> 'r \<Rightarrow> 'w \<Rightarrow> ('r, 'w) sp" where
  "sp_init now c t r w =
     \<lparr>sp_running = False, sp_consumer_started = False, sp_emit = \<lparr>em_started = False, em_published = 0, em_ctx = c, em_world = w\<rparr>,
      sp_metrics = processing_init now, sp_eh = eh_init,
      sp_ded = \<lparr>total_checks = 0, duplicates_found = 0, marked_processed = 0, ded_errors = 0\<rparr>, sp_redis = r, sp_traces = t,
      sp_last_push = now, sp_failures = 0, sp_admin = False, sp_lag = [], sp_last_lag = 0\<rparr>"

subsection \<open>The producer\<close>

definition rp_start :: "'w kafka \<Rightarrow> 'w emitter \<Rightarrow> 'w emitter \<times> exn option" where
  "rp_start K e =
     (if em_started e then (e, None)
      else case k_start_producer K (em_world e) of
          (w, None) \<Rightarrow> (e\<lparr>em_started := True, em_world := w\<rparr>, None)
        | (w, Some x) \<Rightarrow> (e\<lparr>em_world := w\<rparr>, Some x))"

definition rp_stop :: "'w kafka \<Rightarrow> 'w emitter \<Rightarrow> 'w emitter \<times> exn option" where
  "rp_stop K e =
     (if \<not> em_started e then (e, None)
      else case k_flush K (em_world e) of
          (w, Some x) \<Rightarrow> (e\<lparr>em_world := w\<rparr>, Some x)
        | (w, None) \<Rightarrow>
            (case k_stop_producer K w of
               (w', Some x) \<Rightarrow> (e\<lparr>em_world := w'\<rparr>, Some x)
             | (w', None) \<Rightarrow> (e\<lparr>em_started := False, em_world := w'\<rparr>, None)))"

text \<open>An envelope has a type, so the guard against untyped messages never applies to it.\<close>

definition rp_send :: "'w kafka \<Rightarrow> string \<Rightarrow> string \<Rightarrow> event_envelope \<Rightarrow> 'w emitter \<Rightarrow> 'w emitter \<times> exn option" where
  "rp_send K topic key value e =
     (case rp_start K e of
        (e1, Some x) \<Rightarrow> (e1, Some x)
      | (e1, None) \<Rightarrow>
          (case k_send K topic key value (em_world e1) of
             (w, None) \<Rightarrow> (e1\<lparr>em_world := w\<rparr>, None)
           | (w, Some x) \<Rightarrow>
               (e1\<lparr>em_world := w\<rparr>,
                Some (if k_is_kafka_error K x then raise_exn (Other ''Exception'') (''Failed to send message to '' @ topic @ '': '' @ exn_msg x) else x))))"

definition topic_broker :: "string \<Rightarrow> string \<Rightarrow> string" where
  "topic_broker unknown topic = (if CHR ''.'' \<in> set topic then hd (split_on (CHR ''.'') topic) else unknown)"

text \<open>The envelope refuses a correlation id that is not text.\<close>

definition sp_envelope ::
  "(nat \<Rightarrow> string) \<Rightarrow> datetime \<Rightarrow> string \<Rightarrow> json \<Rightarrow> string option \<Rightarrow> string \<Rightarrow> event_type \<Rightarrow> string \<Rightarrow> (string \<times> json) list \<Rightarrow> exn + event_envelope" where
  "sp_envelope ids now source cid causation broker t key data =
     (case cid of
        JStr c \<Rightarrow> Inr \<lparr>ev_id = ids 0, ev_correlation_id = c, ev_causation_id = causation, ev_trace_id = ids 1, ev_parent_trace_id = None,
           ev_broker = broker, ev_type = t, ev_ts = now, ev_key = key, ev_source = source, ev_version = 1, ev_data = data\<rparr>
      | _ \<Rightarrow> Inl (raise_exn (Other ''ValidationError'') ''correlation_id''))"

text \<open>The adapter under the DLQ publisher: an event of the error handler becomes an envelope.\<close>

definition adapter_send ::
  "('r, 'w) sp_env \<Rightarrow> int \<Rightarrow> string \<Rightarrow> string \<Rightarrow> (string \<times> json) list \<Rightarrow> event_type \<Rightarrow> string \<Rightarrow> 'w emitter \<Rightarrow> 'w emitter \<times> exn option" where
  "adapter_send E now topic key data t broker e =
     (let (cid, c) = ensure_correlation_id (pe_uuid E 2) (em_ctx e); e1 = e\<lparr>em_ctx := c\<rparr> in
      case sp_envelope (pe_uuid E) (pe_datetime E now) (pe_name E) cid None (if broker = [] then topic_broker ''unknown'' topic else broker) t key data of
        Inl x \<Rightarrow> (e1, Some x)
      | Inr v \<Rightarrow> rp_send (pe_kafka E) topic key v e1)"

definition emit_event ::
  "('r, 'w) sp_env \<Rightarrow> int \<Rightarrow> string \<Rightarrow> event_type \<Rightarrow> string \<Rightarrow> (string \<times> json) list \<Rightarrow> json \<Rightarrow> string option \<Rightarrow> string \<Rightarrow>
   'w emitter \<Rightarrow> 'w emitter \<times> exn option" where
  "emit_event E now topic t key data correlation_id causation_id broker e =
     (let b = (if broker \<noteq> [] then broker else if topic = MARKET_TICKS then ''shared'' else topic_broker ''unknown'' topic);
          (cid, c) = (if py_truthy correlation_id then (correlation_id, em_ctx e) else ensure_correlation_id (pe_uuid E 2) (em_ctx e));
          e1 = e\<lparr>em_ctx := c\<rparr>
      in case sp_envelope (pe_uuid E) (pe_datetime E now) (pe_name E) cid causation_id b t key data of
           Inl x \<Rightarrow> (e1, Some x)
         | Inr v \<Rightarrow>
             (case rp_send (pe_kafka E) topic key v e1 of
                (e2, Some x) \<Rightarrow> (e2, Some x)
              | (e2, None) \<Rightarrow> (e2\<lparr>em_published := em_published e2 + 1\<rparr>, None)))"

subsection \<open>Metrics\<close>

definition get_or :: "'v \<Rightarrow> (string \<times> 'v) list \<Rightarrow> string \<Rightarrow> 'v" where
  "get_or x d k = (case map_of d k of None \<Rightarrow> x | Some v \<Rightarrow> v)"

definition partition_key :: "string \<Rightarrow> int \<Rightarrow> string" where
  "partition_key topic p = topic @ '':'' @ show_int p"

definition count_message :: "string \<Rightarrow> int \<Rightarrow> rat \<Rightarrow> int \<Rightarrow> bool \<Rightarrow> processing \<Rightarrow> processing" where
  "count_message topic p t now success m =
     (let failed = (if success then 0 else 1);
          old = get_or \<lparr>ts_messages = 0, ts_errors = 0, ts_average = 0, ts_last = now\<rparr> (pr_topics m) topic;
          n = ts_messages old + 1;
          oldp = get_or \<lparr>ps_messages = 0, ps_errors = 0, ps_last = now\<rparr> (pr_partitions m) (partition_key topic p)
      in m\<lparr>pr_processed := pr_processed m + 1, pr_last := Some now, pr_times := push 100 t (pr_times m), pr_errors := pr_errors m + failed,
           pr_topics := dict_set topic \<lparr>ts_messages = n, ts_errors = ts_errors old + failed,
             ts_average = (ts_average old * of_nat (n - 1) + t) / of_nat n, ts_last = now\<rparr> (pr_topics m),
           pr_partitions := dict_set (partition_key topic p) \<lparr>ps_messages = ps_messages oldp + 1, ps_errors = ps_errors oldp + failed, ps_last = now\<rparr>
             (pr_partitions m)\<rparr>)"

definition timed :: "string \<Rightarrow> string \<Rightarrow> (string \<times> json) list \<Rightarrow> rvalue" where
  "timed now topic extra = RJson (JObj ([(''timestamp'', JStr now), (''topic'', JStr topic)] @ extra))"

definition counted :: "'r redis \<Rightarrow> string \<Rightarrow> nat \<Rightarrow> (unit, 'r) rm" where
  "counted R k ttl = rbind (r_incr R k 1) (\<lambda>_. r_expire R k ttl)"

definition persist_metrics_to_redis :: "('r, 'w) sp_env \<Rightarrow> 'r redis \<Rightarrow> int \<Rightarrow> string \<Rightarrow> bool \<Rightarrow> (unit, 'r) rm" where
  "persist_metrics_to_redis E R now topic success =
     (let t = ck_iso (pe_clock E) now; broker = topic_broker (pe_default_broker E) topic in
      if topic = ''market.ticks''
      then rbind (r_setex R market_ticks_last 300 (timed t topic [(''processed_by'', JStr ''streaming_client'')])) (\<lambda>_. counted R market_ticks_count 3600)
      else if in_str ''signals'' topic
      then rbind (r_setex R (signals_last broker) 600 (timed t topic [])) (\<lambda>_. counted R (signals_count broker) 300)
      else if in_str ''orders'' topic
      then rbind (r_setex R (orders_last broker) 3600 (timed t topic [(''success'', JBool success)]))
             (\<lambda>_. if success \<and> \<not> in_str ''filled'' topic then rret () else counted R (orders_count broker) 3600)
      else rret ())"

text \<open>What is cached is the text of the coroutine: the statistics are not awaited.\<close>

definition maybe_push_metrics :: "('r, 'w) sp_env \<Rightarrow> 'r redis \<Rightarrow> int \<Rightarrow> ('r, 'w) sp \<Rightarrow> ('r, 'w) sp" where
  "maybe_push_metrics E R now s =
     (if seconds_since now (sp_last_push s) \<ge> 60
      then s\<lparr>sp_redis := snd (r_setex R (''alpha_panda:service_metrics:'' @ pe_name E) 300 (RJson (JStr (pe_coroutine_text E))) (sp_redis s)),
             sp_last_push := now\<rparr>
      else s)"

definition update_processing_metrics :: "('r, 'w) sp_env \<Rightarrow> message \<Rightarrow> int \<Rightarrow> int \<Rightarrow> bool \<Rightarrow> ('r, 'w) sp \<Rightarrow> ('r, 'w) sp" where
  "update_processing_metrics E m start now success s =
     (let s1 = s\<lparr>sp_metrics := count_message (m_topic m) (m_partition m) (seconds_since now start) now success (sp_metrics s)\<rparr> in
      case pe_redis E of
        None \<Rightarrow> s1
      | Some R \<Rightarrow>
          (case persist_metrics_to_redis E R now (m_topic m) success (sp_redis s1) of
             (Inl x, r) \<Rightarrow> s1\<lparr>sp_redis := r\<rparr>
           | (Inr _, r) \<Rightarrow> maybe_push_metrics E R now (s1\<lparr>sp_redis := r\<rparr>)))"

subsection \<open>Handling a message\<close>

definition message_event_id :: "message \<Rightarrow> json" where
  "message_event_id m = jget_none (m_value m) ''id''"

text \<open>The context: the trace of the message, or a new one, which keeps an identifier that is set.\<close>

definition enter_context :: "('r, 'w) sp_env \<Rightarrow> int \<Rightarrow> message \<Rightarrow> trace_ctx \<Rightarrow> json \<times> trace_ctx" where
  "enter_context E now m c =
     (let i = jget_none (m_value m) ''correlation_id''; t = ck_iso (pe_clock E) now; op = ''process_'' @ m_topic m in
      if py_truthy i then (i, continue_trace t i (message_event_id m) (pe_name E) op c)
      else start_new_trace (pe_uuid E 3) t (pe_name E) op JNull [] c)"

definition on_emitter :: "('w \<Rightarrow> 'w \<times> exn option) \<Rightarrow> 'w emitter \<Rightarrow> 'w emitter \<times> exn option" where
  "on_emitter f e = (case f (em_world e) of (w, x) \<Rightarrow> (e\<lparr>em_world := w\<rparr>, x))"

definition run_handler :: "('r, 'w) sp_env \<Rightarrow> message \<Rightarrow> 'w emitter \<Rightarrow> 'w emitter \<times> exn option" where
  "run_handler E m = pe_handle E (m_topic m) (m_key m) (m_value m)"

definition sp_io :: "('r, 'w) sp_env \<Rightarrow> int \<Rightarrow> (dlq_event \<Rightarrow> (string \<times> json) list) \<Rightarrow> message \<Rightarrow> 'w emitter io" where
  "sp_io E now dump m =
     \<lparr>io_service = pe_name E, io_send = (\<lambda>ev. adapter_send E now (d_topic ev) (d_key ev) (dump ev) SYSTEM_ERROR ''system''),
      io_on_dlq = None, io_process = run_handler E m, io_commit = Some (on_emitter (k_commit (pe_kafka E))), io_random = pe_random E\<rparr>"

text \<open>\<open>start\<close> and \<open>now\<close> are the clock before and after the handler, \<open>dump\<close> the fields of a dead letter.\<close>

definition handle_failure ::
  "('r, 'w) sp_env \<Rightarrow> (dlq_event \<Rightarrow> (string \<times> json) list) \<Rightarrow> int \<Rightarrow> int \<Rightarrow> message \<Rightarrow> exn \<Rightarrow> ('r, 'w) sp \<Rightarrow> exn option \<times> ('r, 'w) sp" where
  "handle_failure E dump start now m x s =
     (let s1 = update_processing_metrics E m start now False s in
      case handle_processing_error (sp_io E now dump m) m x (sp_eh s1) (sp_emit s1) of
        (r, h, e) \<Rightarrow> (case r of Inl y \<Rightarrow> Some y | Inr _ \<Rightarrow> None, s1\<lparr>sp_eh := h, sp_emit := e\<rparr>))"

definition sp_mark :: "('r, 'w) sp_env \<Rightarrow> int \<Rightarrow> json \<Rightarrow> message \<Rightarrow> ('r, 'w) sp \<Rightarrow> ('r, 'w) sp" where
  "sp_mark E now cid m s =
     (case pe_redis E of
        None \<Rightarrow> s
      | Some R \<Rightarrow>
          if \<not> py_truthy (message_event_id m) then s
          else (case ded_mark_processed R 3600 (pe_datetime E now) (py_str (message_event_id m))
                  (JObj [(''service'', JStr (pe_name E)), (''topic'', JStr (m_topic m)), (''correlation_id'', cid),
                         (''processed_at'', JStr (ck_iso (pe_clock E) now))]) (sp_ded s) (sp_redis s) of
                 (d, r) \<Rightarrow> s\<lparr>sp_ded := d, sp_redis := r\<rparr>))"

definition sp_check :: "('r, 'w) sp_env \<Rightarrow> message \<Rightarrow> ('r, 'w) sp \<Rightarrow> bool \<times> ('r, 'w) sp" where
  "sp_check E m s =
     (case pe_redis E of
        None \<Rightarrow> (False, s)
      | Some R \<Rightarrow>
          if \<not> py_truthy (message_event_id m) then (False, s)
          else (case ded_is_duplicate R (py_str (message_event_id m)) (sp_ded s) (sp_redis s) of
                 (b, d, r) \<Rightarrow> (b, s\<lparr>sp_ded := d, sp_redis := r\<rparr>)))"

definition sp_commit :: "('r, 'w) sp_env \<Rightarrow> ('r, 'w) sp \<Rightarrow> exn option \<times> ('r, 'w) sp" where
  "sp_commit E s = (case on_emitter (k_commit (pe_kafka E)) (sp_emit s) of (e, x) \<Rightarrow> (x, s\<lparr>sp_emit := e\<rparr>))"

definition sp_handle ::
  "('r, 'w) sp_env \<Rightarrow> (dlq_event \<Rightarrow> (string \<times> json) list) \<Rightarrow> int \<Rightarrow> int \<Rightarrow> message \<Rightarrow> ('r, 'w) sp \<Rightarrow> exn option \<times> ('r, 'w) sp" where
  "sp_handle E dump start now m s0 =
     (let (cid, c) = enter_context E start m (em_ctx (sp_emit s0));
          (dup, s1) = sp_check E m (s0\<lparr>sp_emit := (sp_emit s0)\<lparr>em_ctx := c\<rparr>\<rparr>)
      in if dup then sp_commit E s1
         else let s2 = s1\<lparr>sp_traces := add_span (py_str cid) (sp_traces s1)\<rparr> in
              case run_handler E m (sp_emit s2) of
                (e, Some x) \<Rightarrow> handle_failure E dump start now m x (s2\<lparr>sp_emit := e\<rparr>)
              | (e, None) \<Rightarrow>
                  (let s3 = sp_mark E now cid m (update_processing_metrics E m start now True (s2\<lparr>sp_emit := e\<rparr>)) in
                   case sp_commit E s3 of
                     (None, s4) \<Rightarrow> (None, s4)
                   | (Some x, s4) \<Rightarrow> handle_failure E dump start now m x s4))"

subsection \<open>The consumer and its loop\<close>

text \<open>What the client delivers: a message with the clock around its handling, a value that is no envelope, or an exception.\<close>

datatype delivery = Deliver int int message | Invalid | Client_Raises exn

fun sp_consume ::
  "('r, 'w) sp_env \<Rightarrow> (dlq_event \<Rightarrow> (string \<times> json) list) \<Rightarrow> delivery list \<Rightarrow> ('r, 'w) sp \<Rightarrow> exn option \<times> ('r, 'w) sp" where
  "sp_consume E dump [] s = (None, s)"
| "sp_consume E dump (Client_Raises x # ds) s = (Some x, s)"
| "sp_consume E dump (Invalid # ds) s = (case sp_commit E s of (Some x, s1) \<Rightarrow> (Some x, s1) | (None, s1) \<Rightarrow> sp_consume E dump ds s1)"
| "sp_consume E dump (Deliver start now m # ds) s =
     (if jget (m_value m) ''type'' = None
      then (case sp_commit E s of (Some x, s1) \<Rightarrow> (Some x, s1) | (None, s1) \<Rightarrow> sp_consume E dump ds s1)
      else case sp_handle E dump start now m s of (Some x, s1) \<Rightarrow> (Some x, s1) | (None, s1) \<Rightarrow> sp_consume E dump ds s1)"

definition rc_start :: "('r, 'w) sp_env \<Rightarrow> ('r, 'w) sp \<Rightarrow> exn option \<times> ('r, 'w) sp" where
  "rc_start E s =
     (if sp_consumer_started s then (None, s)
      else case on_emitter (k_start_consumer (pe_kafka E)) (sp_emit s) of
          (e, None) \<Rightarrow> (None, s\<lparr>sp_emit := e, sp_consumer_started := True\<rparr>)
        | (e, Some x) \<Rightarrow> (Some x, s\<lparr>sp_emit := e\<rparr>))"

definition rc_consume ::
  "('r, 'w) sp_env \<Rightarrow> (dlq_event \<Rightarrow> (string \<times> json) list) \<Rightarrow> delivery list \<Rightarrow> ('r, 'w) sp \<Rightarrow> exn option \<times> ('r, 'w) sp" where
  "rc_consume E dump ds s = (case rc_start E s of (Some x, s1) \<Rightarrow> (Some x, s1) | (None, s1) \<Rightarrow> sp_consume E dump ds s1)"

definition max_consume_failures :: nat where
  "max_consume_failures = 10"

definition consume_delay :: "nat \<Rightarrow> rat" where
  "consume_delay failures = min (1 * 2 ^ (failures - 1)) 60"

text \<open>The loop over what successive calls of consume are delivered: the exception that ends it, if it ends, and the delays slept.\<close>

fun consume_loop ::
  "('r, 'w) sp_env \<Rightarrow> (dlq_event \<Rightarrow> (string \<times> json) list) \<Rightarrow> delivery list list \<Rightarrow> ('r, 'w) sp \<Rightarrow> exn option \<times> rat list \<times> ('r, 'w) sp" where
  "consume_loop E dump [] s = (None, [], s)"
| "consume_loop E dump (ds # rounds) s =
     (if \<not> sp_running s then (None, [], s)
      else case rc_consume E dump ds s of
          (None, s1) \<Rightarrow> consume_loop E dump rounds (s1\<lparr>sp_failures := 0\<rparr>)
        | (Some x, s1) \<Rightarrow>
            (let s2 = s1\<lparr>sp_failures := sp_failures s1 + 1\<rparr> in
             if max_consume_failures \<le> sp_failures s2
             then (Some (raise_exn (Other ''RuntimeError'') (''Service '' @ pe_name E @ '' failed too many times'')), [], s2\<lparr>sp_running := False\<rparr>)
             else case consume_loop E dump rounds s2 of (r, delays, s3) \<Rightarrow> (r, consume_delay (sp_failures s2) # delays, s3)))"

subsection \<open>Starting and stopping\<close>

text \<open>\<open>admin\<close> says whether the admin client starts; the registration for cleanup is left out.\<close>

definition sp_start :: "('r, 'w) sp_env \<Rightarrow> bool \<Rightarrow> ('r, 'w) sp \<Rightarrow> exn option \<times> ('r, 'w) sp" where
  "sp_start E admin s =
     (case rp_start (pe_kafka E) (sp_emit s) of
        (e, Some x) \<Rightarrow> (Some x, s\<lparr>sp_emit := e\<rparr>)
      | (e, None) \<Rightarrow>
          (let s1 = s\<lparr>sp_emit := e\<rparr> in
           case (if pe_topics E = [] then (None, s1) else rc_start E s1) of
             (Some x, s2) \<Rightarrow> (Some x, s2)
           | (None, s2) \<Rightarrow> (None, s2\<lparr>sp_running := True, sp_admin := sp_admin s2 \<or> admin\<rparr>)))"

text \<open>The wait for the loop ends in its end or in its cancellation, and has no effect here.\<close>

definition sp_stop :: "('r, 'w) sp_env \<Rightarrow> ('r, 'w) sp \<Rightarrow> exn option \<times> ('r, 'w) sp" where
  "sp_stop E s =
     (let s1 = s\<lparr>sp_running := False\<rparr>;
          (x, s2) = (if pe_topics E = [] \<or> \<not> sp_consumer_started s1 then (None, s1)
             else case on_emitter (k_stop_consumer (pe_kafka E)) (sp_emit s1) of
                 (e, None) \<Rightarrow> (None, s1\<lparr>sp_emit := e, sp_consumer_started := False\<rparr>)
               | (e, Some x) \<Rightarrow> (Some x, s1\<lparr>sp_emit := e\<rparr>))
      in case x of
           Some y \<Rightarrow> (Some y, s2)
         | None \<Rightarrow> (case rp_stop (pe_kafka E) (sp_emit s2) of (e, y) \<Rightarrow> (y, s2\<lparr>sp_emit := e\<rparr>)))"

subsection \<open>Statistics\<close>

text \<open>The lag of the partitions: the consumer has no method \<open>position\<close>, so no partition is ever looked at.\<close>

datatype lag = Lag_Error string | Lags "(string \<times> int) list"

definition calculate_partition_lag :: "int \<Rightarrow> bool \<Rightarrow> ('r, 'w) sp \<Rightarrow> lag \<times> ('r, 'w) sp" where
  "calculate_partition_lag now admin s =
     (let s1 = s\<lparr>sp_admin := sp_admin s \<or> admin\<rparr> in
      if \<not> sp_admin s1 then (Lag_Error ''admin_client_unavailable'', s1)
      else if now - sp_last_lag s1 < 30000000 then (Lags (sp_lag s1), s1)
      else (Lags [], s1\<lparr>sp_lag := [], sp_last_lag := now\<rparr>))"

record lag_report =
  lr_total :: int
  lr_max :: int
  lr_average :: rat
  lr_count :: nat
  lr_high :: "string list"

definition round2 :: "rat \<Rightarrow> rat" where
  "round2 x = of_int (round_half_even (x * 100)) / 100"

definition build_lag_metrics :: "lag \<Rightarrow> string + lag_report" where
  "build_lag_metrics l =
     (case l of
        Lag_Error e \<Rightarrow> Inl ''unable_to_calculate''
      | Lags d \<Rightarrow>
          if ''error'' \<in> fst ` set d then Inl ''unable_to_calculate''
          else let valid = filter (\<lambda>x. 0 \<le> x) (map snd d) in
               if valid = [] then Inl ''no_valid_partitions''
               else Inr \<lparr>lr_total = sum_list valid, lr_max = Max (set valid), lr_average = round2 (of_int (sum_list valid) / of_nat (length valid)),
                        lr_count = length valid, lr_high = map fst (filter (\<lambda>(p, x). 1000 < x) d)\<rparr>)"

record processing_stats =
  st_running :: bool
  st_uptime :: rat
  st_processed :: nat
  st_published :: nat
  st_per_second :: rat
  st_average_ms :: rat
  st_min_ms :: rat
  st_max_ms :: rat
  st_errors :: nat
  st_error_rate :: rat
  st_lag :: "string + lag_report"

definition get_processing_stats :: "int \<Rightarrow> bool \<Rightarrow> ('r, 'w) sp \<Rightarrow> processing_stats \<times> ('r, 'w) sp" where
  "get_processing_stats now admin s =
     (let m = sp_metrics s; up = seconds_since now (pr_start m); (l, s1) = calculate_partition_lag now admin s; ts = pr_times m in
      (\<lparr>st_running = sp_running s, st_uptime = up, st_processed = pr_processed m, st_published = em_published (sp_emit s),
        st_per_second = round2 (if 0 < up then of_nat (pr_processed m) / up else 0),
        st_average_ms = round2 ((if ts = [] then 0 else avg ts) * 1000),
        st_min_ms = (if ts = [] then 0 else round2 (Min (set ts) * 1000)), st_max_ms = (if ts = [] then 0 else round2 (Max (set ts) * 1000)),
        st_errors = pr_errors m, st_error_rate = round2 (if 0 < pr_processed m then of_nat (pr_errors m) / of_nat (pr_processed m) * 100 else 0),
        st_lag = build_lag_metrics l\<rparr>, s1))"

end
