(* ===== verification/Stream_Processor_Facts.thy ===== *)
theory Stream_Processor_Facts
  imports Stream_Processor
begin

subsection \<open>What the metrics mean\<close>

record handled =
  hd_topic :: string
  hd_partition :: int
  hd_time :: rat
  hd_now :: int
  hd_success :: bool

definition count_all :: "int \<Rightarrow> handled list \<Rightarrow> processing" where
  "count_all t0 hs = foldl (\<lambda>m h. count_message (hd_topic h) (hd_partition h) (hd_time h) (hd_now h) (hd_success h) m) (processing_init t0) hs"

definition of_topic :: "string \<Rightarrow> handled list \<Rightarrow> handled list" where
  "of_topic k hs = filter (\<lambda>h. hd_topic h = k) hs"

definition of_partition :: "string \<Rightarrow> handled list \<Rightarrow> handled list" where
  "of_partition k hs = filter (\<lambda>h. partition_key (hd_topic h) (hd_partition h) = k) hs"

definition failures :: "handled list \<Rightarrow> nat" where
  "failures hs = length (filter (\<lambda>h. \<not> hd_success h) hs)"

lemma filtered_snoc [simp]:
  "of_topic k (hs @ [h]) = (if hd_topic h = k then of_topic k hs @ [h] else of_topic k hs)"
  "of_partition k (hs @ [h]) = (if partition_key (hd_topic h) (hd_partition h) = k then of_partition k hs @ [h] else of_partition k hs)"
  "failures (hs @ [h]) = failures hs + (if hd_success h then 0 else 1)"
  by (simp_all add: of_topic_def of_partition_def failures_def)

lemma filtered_Nil [simp]: "of_topic k [] = []" "of_partition k [] = []" "failures [] = 0"
  by (simp_all add: of_topic_def of_partition_def failures_def)

definition topic_summary :: "handled list \<Rightarrow> topic_stat option" where
  "topic_summary hs = (if hs = [] then None
     else Some \<lparr>ts_messages = length hs, ts_errors = failures hs, ts_average = avg (map hd_time hs), ts_last = hd_now (last hs)\<rparr>)"

definition partition_summary :: "handled list \<Rightarrow> partition_stat option" where
  "partition_summary hs = (if hs = [] then None else Some \<lparr>ps_messages = length hs, ps_errors = failures hs, ps_last = hd_now (last hs)\<rparr>)"

lemma topic_summary_snoc:
  "topic_summary (hs @ [h]) = (let old = (case topic_summary hs of None \<Rightarrow> \<lparr>ts_messages = 0, ts_errors = 0, ts_average = 0, ts_last = hd_now h\<rparr> | Some x \<Rightarrow> x);
       n = ts_messages old + 1
     in Some \<lparr>ts_messages = n, ts_errors = ts_errors old + (if hd_success h then 0 else 1),
        ts_average = (ts_average old * of_nat (n - 1) + hd_time h) / of_nat n, ts_last = hd_now h\<rparr>)"
proof (cases "hs = []")
  case False
  then show ?thesis using avg_snoc [of "map hd_time hs" "hd_time h"] by (simp add: topic_summary_def Let_def)
qed (simp add: topic_summary_def avg_def failures_def)

lemma partition_summary_snoc:
  "partition_summary (hs @ [h]) = (let old = (case partition_summary hs of None \<Rightarrow> \<lparr>ps_messages = 0, ps_errors = 0, ps_last = hd_now h\<rparr> | Some x \<Rightarrow> x)
     in Some \<lparr>ps_messages = ps_messages old + 1, ps_errors = ps_errors old + (if hd_success h then 0 else 1), ps_last = hd_now h\<rparr>)"
  by (simp add: partition_summary_def failures_def Let_def)

text \<open>C25: The processing metrics. After any messages, the counts and the last hundred processing times are those of all messages, and the
  entry of a topic, updated in place, counts its messages and its errors, and its average is the mean of all their processing times; the
  same holds for the counts of a partition. A topic without messages has no entry.\<close>

theorem processing_metrics_summarise:
  "let m = count_all t0 hs in
     pr_processed m = length hs \<and> pr_errors m = failures hs \<and> pr_times m = last_n 100 (map hd_time hs) \<and>
     (\<forall>k. map_of (pr_topics m) k = topic_summary (of_topic k hs)) \<and>
     (\<forall>k. map_of (pr_partitions m) k = partition_summary (of_partition k hs))"
proof (induction hs rule: rev_induct)
  case Nil
  show ?case by (simp add: count_all_def processing_init_def last_n_def topic_summary_def partition_summary_def)
next
  case (snoc h hs)
  let ?m = "count_all t0 hs"
  have step: "count_all t0 (hs @ [h]) = count_message (hd_topic h) (hd_partition h) (hd_time h) (hd_now h) (hd_success h) ?m"
    by (simp add: count_all_def)
  have ih: "pr_processed ?m = length hs" "pr_errors ?m = failures hs" "pr_times ?m = last_n 100 (map hd_time hs)"
    "\<And>k. map_of (pr_topics ?m) k = topic_summary (of_topic k hs)" "\<And>k. map_of (pr_partitions ?m) k = partition_summary (of_partition k hs)"
    using snoc by (simp_all add: Let_def)
  show ?case
    by (simp add: step count_message_def Let_def ih get_or_def push_last_n topic_summary_snoc partition_summary_snoc)
qed

subsection \<open>Giving up\<close>

lemma on_emitter_fields:
  "em_ctx (fst (on_emitter f e)) = em_ctx e" "em_started (fst (on_emitter f e)) = em_started e" "em_published (fst (on_emitter f e)) = em_published e"
  by (simp_all add: on_emitter_def split: prod.split)

lemma handle_failure_running:
  "sp_running (snd (handle_failure E dump st now m x s)) = sp_running s" "sp_failures (snd (handle_failure E dump st now m x s)) = sp_failures s"
  by (simp_all add: handle_failure_def update_processing_metrics_def maybe_push_metrics_def Let_def split: prod.split option.split sum.split)

lemma sp_commit_running: "sp_running (snd (sp_commit E s)) = sp_running s" "sp_failures (snd (sp_commit E s)) = sp_failures s"
  by (simp_all add: sp_commit_def split: prod.split)

lemma sp_mark_running: "sp_running (sp_mark E now cid m s) = sp_running s" "sp_failures (sp_mark E now cid m s) = sp_failures s"
  by (simp_all add: sp_mark_def split: prod.split option.split)

lemma sp_check_running: "sp_running (snd (sp_check E m s)) = sp_running s" "sp_failures (snd (sp_check E m s)) = sp_failures s"
  by (simp_all add: sp_check_def split: prod.split option.split)

lemma metrics_running:
  "sp_running (update_processing_metrics E m st now b s) = sp_running s" "sp_failures (update_processing_metrics E m st now b s) = sp_failures s"
  by (simp_all add: update_processing_metrics_def maybe_push_metrics_def Let_def split: prod.split option.split sum.split)

lemma sp_handle_running:
  "sp_running (snd (sp_handle E dump st now m s)) = sp_running s \<and> sp_failures (snd (sp_handle E dump st now m s)) = sp_failures s"
proof -
  obtain cid c where c: "enter_context E st m (em_ctx (sp_emit s)) = (cid, c)" by fastforce
  obtain dup s1 where d: "sp_check E m (s\<lparr>sp_emit := (sp_emit s)\<lparr>em_ctx := c\<rparr>\<rparr>) = (dup, s1)" by fastforce
  have s1: "sp_running s1 = sp_running s" "sp_failures s1 = sp_failures s"
    using sp_check_running [of E m "s\<lparr>sp_emit := (sp_emit s)\<lparr>em_ctx := c\<rparr>\<rparr>"] d by simp_all
  let ?s2 = "s1\<lparr>sp_traces := add_span (py_str cid) (sp_traces s1)\<rparr>"
  obtain e x where h: "run_handler E m (sp_emit ?s2) = (e, x)" by fastforce
  let ?s3 = "sp_mark E now cid m (update_processing_metrics E m st now True (?s2\<lparr>sp_emit := e\<rparr>))"
  obtain y s4 where k: "sp_commit E ?s3 = (y, s4)" by fastforce
  have s4: "sp_running s4 = sp_running s" "sp_failures s4 = sp_failures s"
    using sp_commit_running [of E ?s3] k s1 by (simp_all add: sp_mark_running metrics_running)
  show ?thesis
  proof (cases dup)
    case True
    with s1 show ?thesis by (simp add: sp_handle_def c d sp_commit_running)
  next
    case False
    then show ?thesis using s1 s4 h k by (cases x; cases y) (simp_all add: sp_handle_def c d handle_failure_running)
  qed
qed

lemma sp_consume_running:
  "sp_running (snd (sp_consume E dump ds s)) = sp_running s \<and> sp_failures (snd (sp_consume E dump ds s)) = sp_failures s"
proof (induction E dump ds s rule: sp_consume.induct)
  case (3 E dump ds s)
  obtain y s1 where k: "sp_commit E s = (y, s1)" by fastforce
  with 3 sp_commit_running [of E s] show ?case by (cases y) simp_all
next
  case (4 E dump st now m ds s)
  obtain y s1 where k: "sp_commit E s = (y, s1)" by fastforce
  obtain z s2 where h: "sp_handle E dump st now m s = (z, s2)" by fastforce
  show ?case
  proof (cases "jget (m_value m) ''type'' = None")
    case True
    with 4(1) k sp_commit_running [of E s] show ?thesis by (cases y) simp_all
  next
    case False
    with 4(2) h sp_handle_running [of E dump st now m s] show ?thesis by (cases z) auto
  qed
qed simp_all

lemma rc_consume_running:
  assumes "rc_consume E dump ds s = (x, s')"
  shows "sp_running s' = sp_running s \<and> sp_failures s' = sp_failures s"
proof -
  obtain y s1 where r: "rc_start E s = (y, s1)" by fastforce
  then have "sp_running s1 = sp_running s \<and> sp_failures s1 = sp_failures s"
    by (auto simp: rc_start_def split: if_splits prod.splits option.splits)
  with assms r sp_consume_running [of E dump ds s1] show ?thesis by (cases y) (auto simp: rc_consume_def)
qed

text \<open>C24: The consumption loop gives up. When every call of consume raises, whatever happens before the exception, a loop with \<open>f\<close> failures counted sleeps the
  delays of the remaining ones, doubling from one second and capped at sixty, and with the tenth consecutive failure stops
  the service and raises RuntimeError. From a fresh start it sleeps nine times, 243 seconds in all.\<close>

theorem consume_loop_gives_up:
  assumes up: "sp_running s" and f: "sp_failures s = f" "f < 10" and n: "10 - f \<le> length rounds"
    and fail: "\<forall>ds \<in> set rounds. \<forall>s. fst (rc_consume E dump ds s) \<noteq> None"
  shows "\<exists>s'. consume_loop E dump rounds s =
      (Some (raise_exn (Other ''RuntimeError'') (''Service '' @ pe_name E @ '' failed too many times'')), map consume_delay [Suc f..<10], s') \<and>
      \<not> sp_running s' \<and> sum_list (map consume_delay [1..<10]) = 243"
  using assms
proof (induction rounds arbitrary: s f)
  case (Cons ds rounds)
  obtain x s1 where c: "rc_consume E dump ds s = (Some x, s1)"
    using Cons.prems(5) by (metis list.set_intros(1) not_Some_eq prod.collapse)
  note k = rc_consume_running [OF c]
  show ?case
  proof (cases "f = 9")
    case True
    with Cons.prems c k show ?thesis
      by (simp add: max_consume_failures_def consume_delay_def upt_rec Let_def)
  next
    case False
    let ?s = "s1\<lparr>sp_failures := Suc f\<rparr>"
    have "\<exists>s'. consume_loop E dump rounds ?s =
      (Some (raise_exn (Other ''RuntimeError'') (''Service '' @ pe_name E @ '' failed too many times'')), map consume_delay [Suc (Suc f)..<10], s') \<and>
      \<not> sp_running s' \<and> sum_list (map consume_delay [1..<10]) = 243"
      by (rule Cons.IH) (use Cons.prems k False in auto)
    then obtain s' where "consume_loop E dump rounds ?s =
      (Some (raise_exn (Other ''RuntimeError'') (''Service '' @ pe_name E @ '' failed too many times'')), map consume_delay [Suc (Suc f)..<10], s')"
      "\<not> sp_running s'" "sum_list (map consume_delay [1..<10]) = 243" by blast
    with Cons.prems c k False show ?thesis by (simp add: max_consume_failures_def Let_def upt_conv_Cons)
  qed
qed simp

subsection \<open>A context that outlives its message\<close>

text \<open>What the calls of the error handler keep of its world, its run keeps.\<close>

lemma error_handling_keeps:
  assumes "P w" "\<And>ev w. P w \<Longrightarrow> P (fst (io_send io ev w))" "io_on_dlq io = None" "\<And>w. P w \<Longrightarrow> P (fst (io_process io w))"
    "\<And>f w. io_commit io = Some f \<Longrightarrow> P w \<Longrightarrow> P (fst (f w))"
  shows "P (snd (snd (handle_processing_error io m x h w)))"
proof -
  have c: "P (fst (run_commit io w))" if "P w" for w
    using that assms(5) by (auto simp: run_commit_def split: option.splits)
  have d: "P (snd (snd (send_to_dlq_and_commit io m x t n reason st w)))" if w: "P w" for t n reason st w
  proof -
    obtain b dst w1 where s: "send_to_dlq (io_service io) (io_send io) (io_on_dlq io) m x reason n (Some t) (eh_dlq st) w = (b, dst, w1)"
      by (metis prod.collapse)
    have "P w1" using s assms(2) [OF w, of "mk_dlq_event (io_service io) m x reason n (Some t)"]
      by (auto simp: send_to_dlq_def assms(3) Let_def split: prod.splits option.splits)
    then have "P (fst (run_commit io w1))" by (rule c)
    with s \<open>P w1\<close> show ?thesis
      by (cases b) (auto simp: send_to_dlq_and_commit_def Let_def split: prod.splits option.splits)
  qed
  have r: "P (snd (snd (retry_processing io m x n cfg st w)))" if w: "P w" for n cfg st w
  proof -
    obtain w1 y where p: "io_process io w = (w1, y)" by fastforce
    have w1: "P w1" using assms(4) [OF w] p by simp
    show ?thesis
    proof (cases y)
      case None
      obtain w2 z where k: "run_commit io w1 = (w2, z)" by fastforce
      with c [OF w1] None p show ?thesis by (cases z) (simp_all add: retry_processing_def Let_def)
    qed (use p w1 in \<open>simp add: retry_processing_def Let_def\<close>)
  qed
  show ?thesis
  proof (cases "dead_letters x (tries_so_far h m)")
    case True
    with d [OF assms(1), of "classify_error x" "tries_so_far h m" "dlq_reason x" "h\<lparr>eh_total := eh_total h + 1\<rparr>"]
    show ?thesis by (simp add: handle_dead_letters split_beta)
  next
    case False
    with r [OF assms(1), of "tries_so_far h m" "effective_config x" "h\<lparr>eh_total := eh_total h + 1\<rparr>"]
    show ?thesis by (simp add: handle_retries split_beta)
  qed
qed

lemma rp_send_ctx: "em_ctx (fst (rp_send K topic key v e)) = em_ctx e"
  by (simp add: rp_send_def rp_start_def split: prod.split option.split)

lemma adapter_send_ctx:
  "py_truthy (cx_correlation (em_ctx e)) \<Longrightarrow> em_ctx (fst (adapter_send E now topic key data t broker e)) = em_ctx e"
  by (simp add: adapter_send_def ensure_correlation_id_def rp_send_ctx split: sum.split)

lemma sp_handle_ctx:
  assumes keep: "\<And>t k v e. em_ctx (fst (pe_handle E t k v e)) = em_ctx e" and i: "py_truthy (jget_none (m_value m) ''correlation_id'')"
  shows "em_ctx (sp_emit (snd (sp_handle E dump st now m s))) =
    continue_trace (ck_iso (pe_clock E) st) (jget_none (m_value m) ''correlation_id'') (message_event_id m) (pe_name E) (''process_'' @ m_topic m) (em_ctx (sp_emit s))"
    (is "_ = ?c")
proof -
  obtain c0 where c0: "c0 = ?c" by blast
  have c: "enter_context E st m (em_ctx (sp_emit s)) = (jget_none (m_value m) ''correlation_id'', c0)"
    using i by (simp add: enter_context_def Let_def c0)
  have t: "py_truthy (cx_correlation c0)" using i by (simp add: continue_trace_def Let_def c0)
  have f: "em_ctx (sp_emit (snd (handle_failure E dump st now m x s'))) = c0" if "em_ctx (sp_emit s') = c0" for x s'
  proof -
    let ?s = "update_processing_metrics E m st now False s'"
    have e: "em_ctx (sp_emit ?s) = c0"
      using that by (simp add: update_processing_metrics_def maybe_push_metrics_def Let_def split: prod.split option.split sum.split)
    have "em_ctx (snd (snd (handle_processing_error (sp_io E now dump m) m x (sp_eh ?s) (sp_emit ?s)))) = c0"
      by (rule error_handling_keeps [where P = "\<lambda>e. em_ctx e = c0"])
         (use e t keep in \<open>auto simp: sp_io_def adapter_send_ctx run_handler_def on_emitter_fields\<close>)
    then show ?thesis by (simp add: handle_failure_def Let_def split_beta)
  qed
  obtain dup s1 where d: "sp_check E m (s\<lparr>sp_emit := (sp_emit s)\<lparr>em_ctx := c0\<rparr>\<rparr>) = (dup, s1)" by fastforce
  have s1: "em_ctx (sp_emit s1) = c0" using d by (auto simp: sp_check_def split: option.splits prod.splits if_splits)
  let ?s2 = "s1\<lparr>sp_traces := add_span (py_str (jget_none (m_value m) ''correlation_id'')) (sp_traces s1)\<rparr>"
  obtain e x where h: "run_handler E m (sp_emit ?s2) = (e, x)" by fastforce
  have e: "em_ctx e = c0" using keep [of "m_topic m" "m_key m" "m_value m" "sp_emit s1"] h s1 by (simp add: run_handler_def)
  let ?s3 = "sp_mark E now (jget_none (m_value m) ''correlation_id'') m (update_processing_metrics E m st now True (?s2\<lparr>sp_emit := e\<rparr>))"
  have s3: "em_ctx (sp_emit ?s3) = c0"
    using e by (simp add: sp_mark_def update_processing_metrics_def maybe_push_metrics_def Let_def split: prod.split option.split sum.split)
  have k: "em_ctx (sp_emit (snd (sp_commit E s'))) = em_ctx (sp_emit s')" for s'
    by (simp add: sp_commit_def on_emitter_def split: prod.split)
  obtain y s4 where cm: "sp_commit E ?s3 = (y, s4)" by fastforce
  have s4: "em_ctx (sp_emit s4) = c0" using k [of ?s3] cm s3 by simp
  have "em_ctx (sp_emit (snd (sp_handle E dump st now m s))) = c0" (is ?g)
  proof (cases dup)
    case True
    with k [of s1] s1 show ?g by (simp add: sp_handle_def c d)
  next
    case False
    then show ?g using h e s4 cm f by (cases x; cases y) (simp_all add: sp_handle_def c d)
  qed
  then show ?thesis by (simp only: c0)
qed

text \<open>A message without a correlation id joins the trace of the one before. All messages are handled in one task, whose context is never cleared.
  When a message with a correlation id is followed by one without, and the handler leaves the context alone, the second one is handled, and
  what it emits is published, under the identifier of the first, with the first one's event as its cause, instead of under a new one; this
  holds whether the first message was handled, skipped as a duplicate, retried or dead-lettered.\<close>

theorem untraced_message_joins_previous:
  assumes keep: "\<And>t k v e. em_ctx (fst (pe_handle E t k v e)) = em_ctx e"
    and first: "py_truthy (jget_none (m_value m) ''correlation_id'')" and second: "\<not> py_truthy (jget_none (m_value m') ''correlation_id'')"
    and s': "s' = snd (sp_handle E dump st now m s)"
  shows "fst (enter_context E st' m' (em_ctx (sp_emit s'))) = jget_none (m_value m) ''correlation_id'' \<and>
    cx_correlation (snd (enter_context E st' m' (em_ctx (sp_emit s')))) = jget_none (m_value m) ''correlation_id'' \<and>
    cx_causation (snd (enter_context E st' m' (em_ctx (sp_emit s')))) = message_event_id m"
  using first second
  by (simp add: s' sp_handle_ctx [OF keep first] enter_context_def start_new_trace_def continue_trace_def ensure_correlation_id_def Let_def)

subsection \<open>Redelivery\<close>

text \<open>C14: A processed message is not processed again. When the handler and the commit do not raise and Redis answers, a message with an event id that was
  handled once is skipped when it is delivered again: the offset is committed, and the handler and the metrics are left alone.\<close>

theorem redelivered_message_is_skipped:
  assumes R: "pe_redis E = Some R" "redis_ok R view" and i: "py_truthy (message_event_id m)"
    and up: "\<And>k t v r x r'. r_setex R k t v r \<noteq> (Inl x, r')" "\<And>k r x r'. r_exists R k r \<noteq> (Inl x, r')"
    and ok: "\<And>t k v e. snd (pe_handle E t k v e) = None" "\<And>w. snd (k_commit (pe_kafka E) w) = None"
    and s1: "s1 = snd (sp_handle E dump st now m s)"
  shows "em_world (sp_emit (snd (sp_handle E dump st' now' m s1))) = fst (k_commit (pe_kafka E) (em_world (sp_emit s1))) \<and>
    sp_metrics (snd (sp_handle E dump st' now' m s1)) = sp_metrics s1 \<and> fst (sp_handle E dump st' now' m s1) = None"
proof -
  let ?k = "''event_processed:'' @ py_str (message_event_id m)"
  have check: "\<exists>s'. sp_check E m s0 = (view (sp_redis s0) ?k \<noteq> None, s') \<and> view (sp_redis s') = view (sp_redis s0) \<and>
      sp_emit s' = sp_emit s0 \<and> sp_metrics s' = sp_metrics s0" for s0
  proof -
    obtain b r where "r_exists R ?k (sp_redis s0) = (Inr b, r)" using up(2) by (metis prod.collapse sum.exhaust)
    with redis_existsD [OF R(2) this] R(1) i show ?thesis
      by (auto simp: sp_check_def ded_is_duplicate_def Let_def)
  qed
  have com: "\<exists>s'. sp_commit E s0 = (None, s') \<and> sp_redis s' = sp_redis s0 \<and> sp_metrics s' = sp_metrics s0 \<and>
      em_world (sp_emit s') = fst (k_commit (pe_kafka E) (em_world (sp_emit s0)))" for s0
    using ok(2) [of "em_world (sp_emit s0)"] by (cases "k_commit (pe_kafka E) (em_world (sp_emit s0))") (simp add: sp_commit_def on_emitter_def)
  have mark: "view (sp_redis (sp_mark E now cid m s0)) ?k \<noteq> None" for cid s0
  proof -
    let ?v = "ded_mark_processed R 3600 (pe_datetime E now) (py_str (message_event_id m)) (JObj [(''service'', JStr (pe_name E)), (''topic'', JStr (m_topic m)),
       (''correlation_id'', cid), (''processed_at'', JStr (ck_iso (pe_clock E) now))]) (sp_ded s0) (sp_redis s0)"
    obtain d r where v: "?v = (d, r)" by fastforce
    then obtain a where "r_setex R ?k 3600 a (sp_redis s0) = (Inr (), r)"
      using up(1) by (auto simp: ded_mark_processed_def Let_def split: prod.splits sum.splits)
    from redis_setexD [OF R(2) this] v R(1) i show ?thesis by (simp add: sp_mark_def)
  qed
  have "view (sp_redis s1) ?k \<noteq> None"
  proof -
    obtain cid c where c: "enter_context E st m (em_ctx (sp_emit s)) = (cid, c)" by fastforce
    let ?s = "s\<lparr>sp_emit := (sp_emit s)\<lparr>em_ctx := c\<rparr>\<rparr>"
    obtain s2 where d: "sp_check E m ?s = (view (sp_redis s) ?k \<noteq> None, s2)" "view (sp_redis s2) = view (sp_redis s)"
      using check [of ?s] by auto
    show ?thesis
    proof (cases "view (sp_redis s) ?k = None")
      case False
      obtain s3 where "sp_commit E s2 = (None, s3)" "sp_redis s3 = sp_redis s2" using com [of s2] by auto
      with False d s1 show ?thesis by (simp add: sp_handle_def c)
    next
      case True
      let ?s2 = "s2\<lparr>sp_traces := add_span (py_str cid) (sp_traces s2)\<rparr>"
      obtain e where h: "run_handler E m (sp_emit s2) = (e, None)"
        using ok(1) [of "m_topic m" "m_key m" "m_value m" "sp_emit s2"] by (cases "run_handler E m (sp_emit s2)") (simp add: run_handler_def)
      let ?s3 = "sp_mark E now cid m (update_processing_metrics E m st now True (?s2\<lparr>sp_emit := e\<rparr>))"
      obtain s4 where "sp_commit E ?s3 = (None, s4)" "sp_redis s4 = sp_redis ?s3" using com [of ?s3] by auto
      moreover from this True d h s1 have "s1 = s4" by (simp add: sp_handle_def c)
      ultimately show ?thesis using mark [of cid "update_processing_metrics E m st now True (?s2\<lparr>sp_emit := e\<rparr>)"] by simp
    qed
  qed
  moreover obtain cid c where c: "enter_context E st' m (em_ctx (sp_emit s1)) = (cid, c)" by fastforce
  ultimately obtain s2 where d: "sp_check E m (s1\<lparr>sp_emit := (sp_emit s1)\<lparr>em_ctx := c\<rparr>\<rparr>) = (True, s2)"
      "em_world (sp_emit s2) = em_world (sp_emit s1)" "sp_metrics s2 = sp_metrics s1"
    using check [of "s1\<lparr>sp_emit := (sp_emit s1)\<lparr>em_ctx := c\<rparr>\<rparr>"] by auto
  with com [of s2] c show ?thesis by (auto simp: sp_handle_def)
qed

subsection \<open>The lag\<close>

text \<open>The lag of the consumer is never measured.\<close>

lemma lag_never_measured:
  assumes "sp_lag s = []"
  shows "\<exists>e. st_lag (fst (get_processing_stats now admin s)) = Inl e" "sp_lag (snd (get_processing_stats now admin s)) = []"
  using assms by (auto simp: get_processing_stats_def calculate_partition_lag_def build_lag_metrics_def Let_def)

subsection \<open>Concrete runs\<close>

definition demo_kafka :: "nat kafka" where
  "demo_kafka = \<lparr>k_start_producer = (\<lambda>w. (w, None)), k_flush = (\<lambda>w. (w, None)), k_stop_producer = (\<lambda>w. (w, None)),
     k_send = (\<lambda>t k v w. (w, None)), k_is_kafka_error = (\<lambda>x. False), k_start_consumer = (\<lambda>w. (w, None)), k_stop_consumer = (\<lambda>w. (w, None)),
     k_commit = (\<lambda>w. (w + 1, None))\<rparr>"

definition demo_sp_env :: "((string \<times> rvalue) list, nat) sp_env" where
  "demo_sp_env = \<lparr>pe_name = ''s'', pe_topics = [''t''], pe_default_broker = ''paper'', pe_kafka = demo_kafka, pe_redis = Some map_redis,
     pe_clock = \<lparr>ck_iso = show_int, ck_parse = read_int\<rparr>, pe_datetime = (\<lambda>t. \<lparr>dt_date = ''d'', dt_time = ''t''\<rparr>), pe_uuid = show_nat, pe_random = 0,
     pe_handle = (\<lambda>t k v e. (e, None)), pe_coroutine_text = ''c''\<rparr>"

definition demo_traced :: message where
  "demo_traced = \<lparr>m_topic = ''t'', m_partition = 0, m_offset = 0, m_key = None,
     m_value = [(''id'', JStr ''e''), (''correlation_id'', JStr ''c''), (''type'', JStr ''x'')], m_timestamp = 0\<rparr>"

definition demo_sp :: "((string \<times> rvalue) list, nat) sp" where
  "demo_sp = sp_init 0 \<lparr>cx_correlation = JNull, cx_causation = JNull, cx_metadata = None\<rparr> trace_metrics_init [] 0"

lemma demo_sp_fields: "pe_redis demo_sp_env = Some map_redis" "pe_kafka demo_sp_env = demo_kafka" "snd (k_commit demo_kafka w) = None"
  "em_ctx (fst (pe_handle demo_sp_env t k v e)) = em_ctx e" "snd (pe_handle demo_sp_env t k v e) = None"
  "jget_none (m_value demo_traced) ''correlation_id'' = JStr ''c''" "message_event_id demo_traced = JStr ''e''"
  by (simp_all add: demo_sp_env_def demo_kafka_def demo_traced_def message_event_id_def jget_none_def jget_def)

lemma consume_loop_gives_up_witness:
  "\<exists>s'. consume_loop demo_sp_env (\<lambda>_. []) (replicate 10 [Client_Raises (raise_exn (Other ''KafkaError'') [])]) (demo_sp\<lparr>sp_running := True\<rparr>) =
     (Some (raise_exn (Other ''RuntimeError'') (''Service '' @ pe_name demo_sp_env @ '' failed too many times'')), map consume_delay [1..<10], s')"
proof -
  have "\<forall>ds \<in> set (replicate 10 [Client_Raises (raise_exn (Other ''KafkaError'') [])]). \<forall>s. fst (rc_consume demo_sp_env (\<lambda>_. []) ds s) \<noteq> None"
    by (simp add: rc_consume_def rc_start_def demo_sp_fields demo_kafka_def on_emitter_def)
  from consume_loop_gives_up [OF _ _ _ _ this, of "demo_sp\<lparr>sp_running := True\<rparr>" 0]
  show ?thesis by (auto simp: demo_sp_def sp_init_def)
qed

lemma untraced_message_joins_previous_witness:
  "fst (enter_context demo_sp_env 5 (demo_traced\<lparr>m_value := []\<rparr>) (em_ctx (sp_emit (snd (sp_handle demo_sp_env (\<lambda>_. []) 1 2 demo_traced demo_sp))))) = JStr ''c''"
proof -
  have "py_truthy (jget_none (m_value demo_traced) ''correlation_id'')" by (simp add: demo_sp_fields)
  moreover have "\<not> py_truthy (jget_none (m_value (demo_traced\<lparr>m_value := []\<rparr>)) ''correlation_id'')" by (simp add: jget_none_def jget_def)
  ultimately show ?thesis
    using untraced_message_joins_previous [OF demo_sp_fields(4) _ _ refl, of demo_traced "demo_traced\<lparr>m_value := []\<rparr>" 5] demo_sp_fields(6) by metis
qed

lemma redelivered_message_is_skipped_witness:
  "let s1 = snd (sp_handle demo_sp_env (\<lambda>_. []) 1 2 demo_traced demo_sp) in
     fst (sp_handle demo_sp_env (\<lambda>_. []) 3 4 demo_traced s1) = None \<and>
     em_world (sp_emit (snd (sp_handle demo_sp_env (\<lambda>_. []) 3 4 demo_traced s1))) = em_world (sp_emit s1) + 1"
proof -
  have "r_setex map_redis k t v r \<noteq> (Inl x, r')" "r_exists map_redis k r \<noteq> (Inl x, r')" for k t v r x r'
    by (simp_all add: map_redis_def)
  with redelivered_message_is_skipped [where E = demo_sp_env and m = demo_traced, OF demo_sp_fields(1) map_redis_ok _ _ _ demo_sp_fields(5) _ refl]
  show ?thesis by (simp add: demo_sp_fields demo_kafka_def Let_def)
qed

end
