(* ===== verification/Config_Validation.thy ===== *)
theory Config_Validation
  imports Exceptions Py_Format Topics
begin

text \<open>
  The configuration: the settings that gate the start of the application (core/config/settings.py) and the validator that runs
  before it (core/config/validator.py). The files, the two connections and the libraries are probes, and the text of a
  set, whose order Python leaves open, is a function of the elements.
\<close>

subsection \<open>Settings\<close>

datatype environment = DEVELOPMENT | PRODUCTION | TESTING

fun environment_value :: "environment \<Rightarrow> string" where
  "environment_value DEVELOPMENT = ''development''"
| "environment_value PRODUCTION = ''production''"
| "environment_value TESTING = ''testing''"

record settings =
  cg_brokers :: "string list"
  cg_environment :: environment
  cg_logs_dir :: string
  cg_bootstrap_servers :: string
  cg_zerodha_enabled :: bool
  cg_api_key :: string
  cg_api_secret :: string
  cg_secret_key :: string
  cg_log_level :: string
  cg_snapshot_interval :: int
  cg_portfolio_locks :: int
  cg_trading_paper :: "bool option"
  cg_trading_zerodha :: "bool option"

definition default_secret :: string where
  "default_secret = ''your-secret-key-change-in-production''"

definition default_app_settings :: settings where
  "default_app_settings =
     \<lparr>cg_brokers = [''paper'', ''zerodha''], cg_environment = DEVELOPMENT, cg_logs_dir = ''logs'', cg_bootstrap_servers = ''localhost:9092'',
      cg_zerodha_enabled = False, cg_api_key = [], cg_api_secret = [], cg_secret_key = default_secret, cg_log_level = ''INFO'',
      cg_snapshot_interval = 300, cg_portfolio_locks = 1000, cg_trading_paper = None, cg_trading_zerodha = None\<rparr>"

text \<open>The active brokers: a text from the environment or a list.\<close>

datatype broker_setting = Text string | Items "string list"

fun parse_active_brokers :: "broker_setting \<Rightarrow> string list" where
  "parse_active_brokers (Text v) = filter (\<lambda>b. b \<noteq> []) (map strip (split_on (CHR '','') v))"
| "parse_active_brokers (Items bs) = bs"

definition validate_active_brokers :: "string list \<Rightarrow> exn + string list" where
  "validate_active_brokers v =
     (if \<not> set v \<subseteq> set known_brokers then Inl (raise_exn (Other ''ValueError'') ''Unsupported brokers'')
      else if v = [] then Inl (raise_exn (Other ''ValueError'') ''At least one active broker is required'')
      else Inr v)"

definition load_active_brokers :: "broker_setting \<Rightarrow> exn + string list" where
  "load_active_brokers v = validate_active_brokers (parse_active_brokers v)"

definition is_paper_trading_enabled :: "settings \<Rightarrow> bool" where
  "is_paper_trading_enabled s = (case cg_trading_paper s of Some b \<Rightarrow> b | None \<Rightarrow> True)"

definition is_zerodha_trading_enabled :: "settings \<Rightarrow> bool" where
  "is_zerodha_trading_enabled s = (case cg_trading_zerodha s of Some b \<Rightarrow> b | None \<Rightarrow> cg_zerodha_enabled s)"

definition validate_cors_origins :: "string list \<Rightarrow> exn + string list" where
  "validate_cors_origins v =
     (if ''*'' \<in> set v \<and> length v > 1 then Inl (raise_exn (Other ''ValueError'') ''Cannot mix '*' with specific origins'') else Inr v)"

subsection \<open>The checks\<close>

datatype validation_severity = S_Error | S_Warning | S_Info

record validation_result =
  vr_valid :: bool
  vr_component :: string
  vr_message :: string
  vr_severity :: validation_severity

definition flaw :: "string \<Rightarrow> string \<Rightarrow> validation_severity \<Rightarrow> validation_result" where
  "flaw component message sev = \<lparr>vr_valid = False, vr_component = component, vr_message = message, vr_severity = sev\<rparr>"

definition connected :: "string \<Rightarrow> string \<Rightarrow> validation_result" where
  "connected component message = \<lparr>vr_valid = True, vr_component = component, vr_message = message, vr_severity = S_Info\<rparr>"

text \<open>What the checks find: a probe of a connection is None when its library is missing, or else the exception it raises, if any.\<close>

record probes =
  pb_logs_parent :: "string option"
  pb_migrations :: "string option"
  pb_database :: "exn option option"
  pb_redis :: "exn option option"
  pb_show_set :: "string set \<Rightarrow> string"

definition validate_environment_variables :: "probes \<Rightarrow> settings \<Rightarrow> validation_result list" where
  "validate_environment_variables P s =
     (if cg_brokers s = [] then [flaw ''Environment'' ''ACTIVE_BROKERS must contain at least one broker'' S_Error]
      else let invalid = set (cg_brokers s) - set known_brokers in
           if invalid \<noteq> {}
           then [flaw ''Environment'' (''Unsupported brokers in ACTIVE_BROKERS: '' @ pb_show_set P invalid @ ''. Supported: ''
                   @ pb_show_set P (set known_brokers)) S_Error]
           else [])"

text \<open>The probes give the path that is missing.\<close>

definition validate_file_paths :: "probes \<Rightarrow> validation_result list" where
  "validate_file_paths P =
     (case pb_logs_parent P of None \<Rightarrow> [] | Some d \<Rightarrow> [flaw ''File System'' (''Parent directory for logs does not exist: '' @ d) S_Error])
     @ (case pb_migrations P of None \<Rightarrow> [] | Some d \<Rightarrow> [flaw ''File System'' (''Migrations directory not found: '' @ d) S_Warning])"

definition dev_hint :: string where
  "dev_hint = '' (dev warn: infra likely down; run 'make up' or 'docker compose up -d')''"

definition unreachable :: "settings \<Rightarrow> string \<Rightarrow> string \<Rightarrow> exn \<Rightarrow> validation_result" where
  "unreachable s component what e =
     (let prod = (cg_environment s = PRODUCTION) in
      flaw component (''Cannot connect to '' @ what @ '': '' @ exn_msg e @ (if prod then [] else dev_hint)) (if prod then S_Error else S_Warning))"

definition validate_database_connection :: "probes \<Rightarrow> settings \<Rightarrow> validation_result list" where
  "validate_database_connection P s =
     [case pb_database P of
        None \<Rightarrow> flaw ''Database'' ''SQLAlchemy not available - cannot test database connection'' S_Warning
      | Some None \<Rightarrow> connected ''Database'' ''Database connection successful''
      | Some (Some e) \<Rightarrow> unreachable s ''Database'' ''database'' e]"

definition validate_redis_connection :: "probes \<Rightarrow> settings \<Rightarrow> validation_result list" where
  "validate_redis_connection P s =
     [case pb_redis P of
        None \<Rightarrow> flaw ''Redis'' ''Redis client library not available'' S_Warning
      | Some None \<Rightarrow> connected ''Redis'' ''Redis connection successful''
      | Some (Some e) \<Rightarrow> unreachable s ''Redis'' ''Redis'' e]"

definition credentials_missing :: "settings \<Rightarrow> bool" where
  "credentials_missing s = (cg_api_key s = [] \<or> cg_api_secret s = [])"

definition validate_broker_settings :: "settings \<Rightarrow> validation_result list" where
  "validate_broker_settings s =
     (if cg_bootstrap_servers s = [] then [flaw ''Broker'' ''Redpanda bootstrap_servers not configured'' S_Error] else [])
     @ (if cg_zerodha_enabled s \<and> credentials_missing s
        then [flaw ''Broker'' ''Zerodha enabled but API credentials are missing. Set ZERODHA__API_KEY and ZERODHA__API_SECRET or disable Zerodha.'' S_Error]
        else [])
     @ (if ''zerodha'' \<in> set (cg_brokers s) \<and> credentials_missing s
        then [flaw ''Broker'' (''Zerodha broker is active but API credentials are not configured. '' @
                ''Provide ZERODHA__API_KEY and ZERODHA__API_SECRET or remove 'zerodha' from ACTIVE_BROKERS.'') S_Error]
        else [])"

definition validate_auth_settings :: "settings \<Rightarrow> validation_result list" where
  "validate_auth_settings s =
     (if length (cg_secret_key s) < 32 then [flaw ''Authentication'' ''JWT secret key should be at least 32 characters long'' S_Warning] else [])
     @ (if cg_secret_key s = default_secret then [flaw ''Authentication'' ''Using default JWT secret key - change in production!'' S_Error] else [])"

definition valid_log_levels :: "string list" where
  "valid_log_levels = [''DEBUG'', ''INFO'', ''WARNING'', ''ERROR'', ''CRITICAL'']"

definition validate_logging_settings :: "settings \<Rightarrow> validation_result list" where
  "validate_logging_settings s =
     (if str_upper (cg_log_level s) \<notin> set valid_log_levels then [flaw ''Logging'' (''Invalid log level: '' @ cg_log_level s) S_Error] else [])"

definition validate_portfolio_manager_settings :: "settings \<Rightarrow> validation_result list" where
  "validate_portfolio_manager_settings s =
     (if cg_snapshot_interval s < 60
      then [flaw ''Portfolio Manager'' ''Snapshot interval less than 60 seconds may cause performance issues'' S_Warning] else [])
     @ (if cg_portfolio_locks s < 100
        then [flaw ''Portfolio Manager'' ''Max portfolio locks setting too low, may cause lock cleanup thrashing'' S_Warning] else [])"

subsection \<open>The validator\<close>

text \<open>A validator is the list of its results; validating again appends to it.\<close>

definition config_errors :: "validation_result list \<Rightarrow> validation_result list" where
  "config_errors rs = filter (\<lambda>r. vr_severity r = S_Error) rs"

definition config_warnings :: "validation_result list \<Rightarrow> validation_result list" where
  "config_warnings rs = filter (\<lambda>r. vr_severity r = S_Warning) rs"

definition all_checks :: "probes \<Rightarrow> settings \<Rightarrow> validation_result list" where
  "all_checks P s =
     validate_environment_variables P s @ validate_file_paths P @ validate_database_connection P s @ validate_redis_connection P s
     @ validate_broker_settings s @ validate_auth_settings s @ validate_logging_settings s @ validate_portfolio_manager_settings s"

definition validate_all :: "probes \<Rightarrow> settings \<Rightarrow> validation_result list \<Rightarrow> bool \<times> validation_result list" where
  "validate_all P s rs = (let rs1 = rs @ all_checks P s in (length (config_errors rs1) = 0, rs1))"

record validation_summary =
  sm_total :: nat
  sm_errors :: nat
  sm_warnings :: nat
  sm_valid :: bool
  sm_error_details :: "(string \<times> string) list"
  sm_warning_details :: "(string \<times> string) list"

definition get_validation_summary :: "validation_result list \<Rightarrow> validation_summary" where
  "get_validation_summary rs =
     (let es = config_errors rs; ws = config_warnings rs; detail = (\<lambda>r. (vr_component r, vr_message r)) in
      \<lparr>sm_total = length rs, sm_errors = length es, sm_warnings = length ws, sm_valid = (length es = 0),
       sm_error_details = map detail es, sm_warning_details = map detail ws\<rparr>)"

definition validate_startup_configuration :: "probes \<Rightarrow> settings \<Rightarrow> bool" where
  "validate_startup_configuration P s = fst (validate_all P s [])"

subsection \<open>What a valid configuration is\<close>

text \<open>The conditions of the errors; everything else is a warning.\<close>

definition config_sound :: "probes \<Rightarrow> settings \<Rightarrow> bool" where
  "config_sound P s =
     (cg_brokers s \<noteq> [] \<and> set (cg_brokers s) \<subseteq> set known_brokers \<and> pb_logs_parent P = None \<and> cg_bootstrap_servers s \<noteq> [] \<and>
      (cg_zerodha_enabled s \<or> ''zerodha'' \<in> set (cg_brokers s) \<longrightarrow> cg_api_key s \<noteq> [] \<and> cg_api_secret s \<noteq> []) \<and>
      cg_secret_key s \<noteq> default_secret \<and> str_upper (cg_log_level s) \<in> set valid_log_levels \<and>
      (cg_environment s = PRODUCTION \<longrightarrow> (\<forall>e. pb_database P \<noteq> Some (Some e) \<and> pb_redis P \<noteq> Some (Some e))))"

lemma config_errors_append [simp]: "config_errors (xs @ ys) = config_errors xs @ config_errors ys"
  by (simp add: config_errors_def)

lemma errors_environment: "config_errors (validate_environment_variables P s) = [] \<longleftrightarrow> cg_brokers s \<noteq> [] \<and> set (cg_brokers s) \<subseteq> set known_brokers"
  by (auto simp: validate_environment_variables_def config_errors_def flaw_def Let_def)

lemma errors_paths: "config_errors (validate_file_paths P) = [] \<longleftrightarrow> pb_logs_parent P = None"
  by (auto simp: validate_file_paths_def config_errors_def flaw_def split: option.splits)

lemma errors_connections:
  "config_errors (validate_database_connection P s) = [] \<longleftrightarrow> (cg_environment s = PRODUCTION \<longrightarrow> (\<forall>e. pb_database P \<noteq> Some (Some e)))"
  "config_errors (validate_redis_connection P s) = [] \<longleftrightarrow> (cg_environment s = PRODUCTION \<longrightarrow> (\<forall>e. pb_redis P \<noteq> Some (Some e)))"
  by (auto simp: validate_database_connection_def validate_redis_connection_def unreachable_def connected_def config_errors_def flaw_def Let_def
      split: option.splits)

lemma errors_broker:
  "config_errors (validate_broker_settings s) = [] \<longleftrightarrow>
     cg_bootstrap_servers s \<noteq> [] \<and> (cg_zerodha_enabled s \<or> ''zerodha'' \<in> set (cg_brokers s) \<longrightarrow> cg_api_key s \<noteq> [] \<and> cg_api_secret s \<noteq> [])"
  by (auto simp: validate_broker_settings_def credentials_missing_def config_errors_def flaw_def)

lemma errors_rest:
  "config_errors (validate_auth_settings s) = [] \<longleftrightarrow> cg_secret_key s \<noteq> default_secret"
  "config_errors (validate_logging_settings s) = [] \<longleftrightarrow> str_upper (cg_log_level s) \<in> set valid_log_levels"
  "config_errors (validate_portfolio_manager_settings s) = []"
  by (simp_all add: validate_auth_settings_def validate_logging_settings_def validate_portfolio_manager_settings_def config_errors_def flaw_def)

lemma sound_iff_no_errors: "config_errors (all_checks P s) = [] \<longleftrightarrow> config_sound P s"
  unfolding all_checks_def config_sound_def
  by (auto simp: errors_environment errors_paths errors_connections errors_broker errors_rest)

lemma validated_is_sound: "validate_startup_configuration P s \<longleftrightarrow> config_sound P s"
  by (simp add: validate_startup_configuration_def validate_all_def sound_iff_no_errors)

text \<open>A validator that has failed once fails for good, whatever is repaired in between.\<close>

lemma failed_validator_stays_failed:
  assumes "\<not> fst (validate_all P s rs)"
  shows "\<not> fst (validate_all Q t (snd (validate_all P s rs)))"
  using assms by (auto simp: validate_all_def Let_def)

lemma failed_validator_stays_failed_witness:
  defines "P \<equiv> \<lparr>pb_logs_parent = None, pb_migrations = None, pb_database = Some None, pb_redis = Some None, pb_show_set = \<lambda>_. []\<rparr>"
    and "s \<equiv> default_app_settings\<lparr>cg_brokers := [''paper''], cg_secret_key := ''0123456789abcdef''\<rparr>"
  shows "config_sound P s" "\<not> fst (validate_all P s (snd (validate_all P default_app_settings [])))"
proof -
  show "config_sound P s"
    by (simp add: P_def s_def config_sound_def default_app_settings_def default_secret_def known_brokers_def valid_log_levels_def str_upper_def char_upper_def)
  show "\<not> fst (validate_all P s (snd (validate_all P default_app_settings [])))"
    by (rule failed_validator_stays_failed)
      (simp add: validate_all_def sound_iff_no_errors config_sound_def default_app_settings_def)
qed

subsection \<open>The active brokers\<close>

lemma strip_space: "is_space c \<Longrightarrow> strip (c # s) = strip s"
  by (simp add: strip_def)

lemma parse_joined:
  assumes "\<forall>b\<in>set (x # bs). trimmed b \<and> CHR '','' \<notin> set b"
  shows "filter (\<lambda>b. b \<noteq> []) (map strip (split_on (CHR '','') (join_str '', '' (x # bs)))) = x # bs"
  using assms
proof (induction bs arbitrary: x)
  case Nil
  then show ?case by (auto simp: split_on_no_sep strip_trimmed trimmed_def)
next
  case (Cons y ys)
  have sp: "is_space CHR '' ''" by (simp add: is_space_def blank_def)
  let ?r = "join_str '', '' (y # ys)"
  have "split_on (CHR '','') (join_str '', '' (x # y # ys)) = x # split_on (CHR '','') (CHR '' '' # ?r)"
    using Cons.prems split_on_append [of "CHR '',''" x "CHR '' '' # ?r"] by simp
  moreover have "map strip (split_on (CHR '','') (CHR '' '' # ?r)) = map strip (split_on (CHR '','') ?r)"
    by (cases "split_on (CHR '','') ?r") (auto simp: strip_space [OF sp])
  ultimately show ?case
    using Cons by (auto simp: strip_trimmed trimmed_def)
qed

text \<open>Settings that load name only supported brokers, at least one, so the validator's first check never fires on them; a
  list printed with commas loads as itself. Repetitions are kept.\<close>

lemma active_brokers_load:
  shows "load_active_brokers v = Inr bs \<Longrightarrow> validate_environment_variables P (s\<lparr>cg_brokers := bs\<rparr>) = []"
    and "bs \<noteq> [] \<Longrightarrow> set bs \<subseteq> set known_brokers \<Longrightarrow> load_active_brokers (Text (join_str '', '' bs)) = Inr bs"
proof -
  show "load_active_brokers v = Inr bs \<Longrightarrow> validate_environment_variables P (s\<lparr>cg_brokers := bs\<rparr>) = []"
    by (auto simp: load_active_brokers_def validate_active_brokers_def validate_environment_variables_def split: if_splits)
next
  assume "bs \<noteq> []" and sub: "set bs \<subseteq> set known_brokers"
  then obtain x xs where bs: "bs = x # xs" by (cases bs) auto
  have "\<forall>b\<in>set known_brokers. trimmed b \<and> CHR '','' \<notin> set b"
    by (simp add: known_brokers_def trimmed_def is_space_def blank_def)
  then have "parse_active_brokers (Text (join_str '', '' bs)) = bs"
    using parse_joined [of x xs] sub bs by auto
  then show "load_active_brokers (Text (join_str '', '' bs)) = Inr bs"
    using sub bs by (simp add: load_active_brokers_def validate_active_brokers_def)
qed

end
