(* ===== verification/Model_Preflight.thy ===== *)
theory Model_Preflight
  imports Strategy_Runner Config_Validation
begin

text \<open>
  The checks of strategies and of their models that run before the services start (app/pre_flight_checks.py). The active rows
  of the strategy table are a list, the table itself may refuse to be read or written, and the file system is a predicate on paths.
\<close>

subsection \<open>Results\<close>

record check_result =
  pf_component :: string
  pf_passed :: bool
  pf_message :: string
  pf_details :: "json option"

definition check_says :: "string \<Rightarrow> bool \<Rightarrow> string \<Rightarrow> json option \<Rightarrow> check_result" where
  "check_says component passed message details =
     \<lparr>pf_component = component, pf_passed = passed, pf_message = message, pf_details = details\<rparr>"

lemma check_says_simps [simp]:
  "pf_component (check_says c p m d) = c" "pf_passed (check_says c p m d) = p" "pf_message (check_says c p m d) = m" "pf_details (check_says c p m d) = d"
  by (simp_all add: check_says_def)

text \<open>The database: the exception of reading it, if any, the one of committing, and the active strategies.\<close>

record strategy_db =
  sb_read :: "exn option"
  sb_commit :: "exn option"
  sb_rows :: "strategy_row list"

definition active_strategies_check :: "strategy_db \<Rightarrow> check_result" where
  "active_strategies_check D =
     (case sb_read D of
        Some e \<Rightarrow> check_says ''Strategy Config'' False (''Database query failed: '' @ exn_msg e) None
      | None \<Rightarrow>
          if sb_rows D = [] then check_says ''Strategy Config'' False ''No active strategies found in the database. Trading cannot proceed.'' None
          else check_says ''Strategy Config'' True (''Found '' @ show_nat (length (sb_rows D)) @ '' active strategies.'') None)"

subsection \<open>The files of the models\<close>

definition resolve_model_path :: "string \<Rightarrow> string \<Rightarrow> string" where
  "resolve_model_path dir model_path =
     (if starts_with ''/'' model_path then model_path
      else let p = path_parts model_path; p1 = (if length p > 0 \<and> hd p = ''strategies'' then tl p else p)
           in join_str ''/'' (dir # p1))"

definition sample_model :: string where
  "sample_model = ''strategies/models/sample_momentum_v1.joblib''"

definition row_model_path :: "strategy_row \<Rightarrow> json" where
  "row_model_path r = jget_none (row_parameters r) ''model_path''"

text \<open>The rows with a model, and those of them whose file is missing, in order; a path that is not text raises.\<close>

fun missing_models :: "string \<Rightarrow> (string \<Rightarrow> bool) \<Rightarrow> strategy_row list \<Rightarrow> exn + nat \<times> (string \<times> string) list" where
  "missing_models dir exists [] = Inr (0, [])"
| "missing_models dir exists (r # rs) =
     (if \<not> py_truthy (row_model_path r) then missing_models dir exists rs
      else case row_model_path r of
          JStr path \<Rightarrow>
            ebind (missing_models dir exists rs) (\<lambda>(n, ms).
              Inr (n + 1, if exists (resolve_model_path dir path) then ms else (row_id r, resolve_model_path dir path) # ms))
        | _ \<Rightarrow> Inl (raise_exn (Other ''TypeError'') ''expected str, bytes or os.PathLike object''))"

definition remap_row :: "string set \<Rightarrow> strategy_row \<Rightarrow> strategy_row" where
  "remap_row ids r = (if row_id r \<in> ids then r\<lparr>row_parameters := dict_set ''model_path'' (JStr sample_model) (row_parameters r)\<rparr> else r)"

definition models_failed :: "exn \<Rightarrow> check_result" where
  "models_failed e = check_says ''ML Models'' False (''Preflight failed: '' @ exn_msg e) None"

definition missing_details :: "nat \<Rightarrow> (string \<times> string) list \<Rightarrow> json" where
  "missing_details n ms = JObj [(''missing'', JObj (map (\<lambda>(i, p). (i, JStr p)) ms)), (''scanned'', JInt (int n))]"

definition models_verdict :: "environment \<Rightarrow> nat \<Rightarrow> (string \<times> string) list \<Rightarrow> check_result" where
  "models_verdict env n ms =
     (let msg = ''Missing ML model artifacts for '' @ show_nat (length ms) @ ''/'' @ show_nat n @ '' strategies'' in
      if ms \<noteq> [] then
        if env = PRODUCTION then check_says ''ML Models'' False msg (Some (missing_details n ms))
        else check_says ''ML Models'' True (msg @ '' (dev warn)'') (Some (missing_details n ms))
      else check_says ''ML Models'' True (''All ML model artifacts present ('' @ show_nat n @ '' scanned)'') None)"

definition ml_models_check ::
  "string \<Rightarrow> (string \<Rightarrow> bool) \<Rightarrow> bool \<Rightarrow> environment \<Rightarrow> strategy_db \<Rightarrow> check_result \<times> strategy_db" where
  "ml_models_check dir exists auto_fix env D =
     (case sb_read D of
        Some e \<Rightarrow> (models_failed e, D)
      | None \<Rightarrow>
          (case missing_models dir exists (sb_rows D) of
             Inl e \<Rightarrow> (models_failed e, D)
           | Inr (n, ms) \<Rightarrow>
               if ms \<noteq> [] \<and> env \<noteq> PRODUCTION \<and> auto_fix then
                 (case sb_commit D of
                    Some e \<Rightarrow> (models_failed e, D)
                  | None \<Rightarrow>
                      (let D1 = D\<lparr>sb_rows := map (remap_row (set (map fst ms))) (sb_rows D)\<rparr> in
                       case missing_models dir exists (sb_rows D1) of
                         Inl e \<Rightarrow> (models_failed e, D1)
                       | Inr (_, ms1) \<Rightarrow>
                           if ms1 = [] then
                             (check_says ''ML Models'' True (''Auto-fixed missing models for '' @ show_nat (length ms) @ '' strategies (dev mode)'')
                                (Some (JObj [(''updated_model_paths'', JObj (map (\<lambda>(i, p). (i, JStr sample_model)) ms))])), D1)
                           else (models_verdict env n ms1, D1)))
               else (models_verdict env n ms, D)))"

subsection \<open>The features of the models\<close>

definition no_features :: exn where
  "no_features = raise_exn (Other ''AttributeError'') ''object has no attribute extract_features''"

fun extract_features :: "num_env \<Rightarrow> processor \<Rightarrow> market_tick \<Rightarrow> market_tick list \<Rightarrow> exn + rat list" where
  "extract_features E (MLMomentum p) t h =
     (case ml_momentum_features E p t h of None \<Rightarrow> Inl (raise_exn (Other ''IndexError'') ''list index out of range'') | Some fs \<Rightarrow> Inr fs)"
| "extract_features E (MLMeanReversion p) t h = Inr (ml_mean_rev_features E p t h)"
| "extract_features E (MLBreakout p) t h =
     (case ml_breakout_features E p t h of None \<Rightarrow> Inl (raise_exn (Other ''ValueError'') ''zero-size array to reduction operation'') | Some fs \<Rightarrow> Inr fs)"
| "extract_features E _ t h = Inl no_features"

fun processor_lookback :: "processor \<Rightarrow> int" where
  "processor_lookback (MLMomentum p) = (if ml_lookback p = 0 then 20 else ml_lookback p)"
| "processor_lookback (MLMeanReversion p) = (if ml_lookback p = 0 then 20 else ml_lookback p)"
| "processor_lookback (MLBreakout p) = (if ml_lookback p = 0 then 20 else ml_lookback p)"
| "processor_lookback _ = 20"

definition synthetic_tick :: "datetime \<Rightarrow> rat \<Rightarrow> market_tick" where
  "synthetic_tick now price =
     \<lparr>mt_instrument_token = 1, mt_last_price = price, mt_timestamp = now, mt_symbol = Some ''SYNTH'', mt_volume_traded = None,
      mt_last_traded_quantity = None, mt_average_traded_price = None, mt_total_buy_quantity = None, mt_total_sell_quantity = None,
      mt_change = None, mt_ohlc = None, mt_oi = None, mt_oi_day_high = None, mt_oi_day_low = None, mt_last_trade_time = None, mt_exchange_timestamp = None,
      mt_depth = None, mt_mode = None, mt_tradable = None\<rparr>"

definition synthetic_history :: "datetime \<Rightarrow> int \<Rightarrow> market_tick list" where
  "synthetic_history now lookback = map (\<lambda>i. synthetic_tick now (100 + of_nat i / 10)) [0..<nat lookback]"

record feature_report =
  fr_expected :: "int option"
  fr_observed :: nat
  fr_status :: string

text \<open>One strategy: nothing for a type that is not registered. A model that does not load expects nothing.\<close>

definition feature_row ::
  "num_env \<Rightarrow> loader_env \<Rightarrow> datetime \<Rightarrow> strategy_row \<Rightarrow> model_cache \<Rightarrow> (exn + feature_report) option \<times> model_cache" where
  "feature_row E L now r cache =
     (case map_of processors (row_strategy_type r) of
        None \<Rightarrow> (None, cache)
      | Some build \<Rightarrow>
          (case ebind (build (row_parameters r)) (\<lambda>p. extract_features E p (synthetic_tick now 100) (synthetic_history now (processor_lookback p))) of
             Inl e \<Rightarrow> (Some (Inl e), cache)
           | Inr feats \<Rightarrow>
               (case row_model_path r of
                  JStr path \<Rightarrow>
                    (let (m, cache1) = loader_load_model L path cache; expected = (case m of None \<Rightarrow> None | Some x \<Rightarrow> md_n_features x) in
                     (Some (Inr \<lparr>fr_expected = expected, fr_observed = length feats,
                        fr_status = (if expected \<noteq> None \<and> expected \<noteq> Some (int (length feats)) then ''mismatch'' else ''ok'')\<rparr>), cache1))
                | _ \<Rightarrow> (Some (Inl (raise_exn (Other ''TypeError'') ''expected str, bytes or os.PathLike object'')), cache))))"

definition report_json :: "strategy_row \<Rightarrow> exn + feature_report \<Rightarrow> json" where
  "report_json r x =
     (case x of
        Inl e \<Rightarrow> JObj [(''error'', JStr (exn_msg e)), (''strategy_type'', JStr (row_strategy_type r)), (''status'', JStr ''error'')]
      | Inr f \<Rightarrow> JObj [(''expected_features'', case fr_expected f of None \<Rightarrow> JNull | Some i \<Rightarrow> JInt i), (''observed_features'', JInt (int (fr_observed f))),
                   (''strategy_type'', JStr (row_strategy_type r)), (''status'', JStr (fr_status f))])"

definition mismatched :: "(exn + feature_report) option \<Rightarrow> bool" where
  "mismatched x = (case x of Some (Inr f) \<Rightarrow> fr_status f = ''mismatch'' | _ \<Rightarrow> False)"

text \<open>The scan: how many rows have a model, how many of them mismatch, and the reports by id.\<close>

fun scan_features ::
  "num_env \<Rightarrow> loader_env \<Rightarrow> datetime \<Rightarrow> strategy_row list \<Rightarrow> nat \<times> nat \<times> (string \<times> json) list \<Rightarrow> model_cache
     \<Rightarrow> (nat \<times> nat \<times> (string \<times> json) list) \<times> model_cache" where
  "scan_features E L now [] acc cache = (acc, cache)"
| "scan_features E L now (r # rs) (n, k, out) cache =
     (if \<not> py_truthy (row_model_path r) then scan_features E L now rs (n, k, out) cache
      else case feature_row E L now r cache of
          (x, cache1) \<Rightarrow>
            scan_features E L now rs
              (n + 1, if mismatched x then k + 1 else k, case x of None \<Rightarrow> out | Some y \<Rightarrow> dict_set (row_id r) (report_json r y) out) cache1)"

definition ml_features_check ::
  "bool \<Rightarrow> num_env \<Rightarrow> loader_env \<Rightarrow> datetime \<Rightarrow> environment \<Rightarrow> strategy_db \<Rightarrow> model_cache \<Rightarrow> check_result \<times> model_cache" where
  "ml_features_check available E L now env D cache =
     (if \<not> available then (check_says ''ML Feature Compatibility'' True ''Skipped (optional ML components not available)'' None, cache)
      else case sb_read D of
          Some e \<Rightarrow> (check_says ''ML Feature Compatibility'' False (''Preflight failed: '' @ exn_msg e) None, cache)
        | None \<Rightarrow>
            (case scan_features E L now (sb_rows D) (0, 0, []) cache of
               ((n, k, out), cache1) \<Rightarrow>
                 (let msg = ''Scanned '' @ show_nat n @ '' ML strategies; '' @ show_nat k @ '' mismatches''; det = JObj [(''strategies'', JObj out)] in
                  (if env = PRODUCTION \<and> k > 0 then check_says ''ML Feature Compatibility'' False msg (Some det)
                   else check_says ''ML Feature Compatibility'' True (msg @ '' (dev warn)'') (Some det), cache1))))"

subsection \<open>What the checks promise\<close>

lemma resolve_model_path_loader: "resolve_model_path (ld_strategies_dir L) path = resolve_path L path"
  by (simp add: resolve_model_path_def resolve_path_def Let_def)

lemma missing_models_none:
  assumes "missing_models dir exists rs = Inr (n, ms)" and "ms = []" and "r \<in> set rs" and "row_model_path r = JStr path" and "path \<noteq> []"
  shows "exists (resolve_model_path dir path)"
  using assms
proof (induction rs arbitrary: n ms)
  case (Cons x xs)
  show ?case
  proof (cases "py_truthy (row_model_path x)")
    case False
    with Cons show ?thesis by auto
  next
    case True
    with Cons.prems(1) obtain q m k where q: "row_model_path x = JStr q" "missing_models dir exists xs = Inr (k, m)"
        "ms = (if exists (resolve_model_path dir q) then m else (row_id x, resolve_model_path dir q) # m)"
      by (auto simp: ebind_def split: json.splits sum.splits)
    with Cons show ?thesis by (auto split: if_splits)
  qed
qed simp

text \<open>A row is remapped when it is missing, and then names the sample.\<close>

lemma row_model_path_remap: "row_model_path (remap_row ids r) = (if row_id r \<in> ids then JStr sample_model else row_model_path r)"
  by (simp add: remap_row_def row_model_path_def jget_none_def jget_def map_of_dict_set)

text \<open>The number of features of a model strategy is the same for every tick and history.\<close>

fun input_size :: "processor \<Rightarrow> nat" where
  "input_size (MLMomentum p) = 5"
| "input_size _ = 4"

lemma feature_lengths:
  "ml_momentum_features E p t h = Some fs \<Longrightarrow> length fs = 5"
  "length (ml_mean_rev_features E p t h) = 4"
  "ml_breakout_features E p t h = Some fs \<Longrightarrow> length fs = 4"
proof -
  show "ml_momentum_features E p t h = Some fs \<Longrightarrow> length fs = 5"
    unfolding ml_momentum_features_def Let_def by (auto split: option.split_asm if_split_asm)
  show "length (ml_mean_rev_features E p t h) = 4"
    unfolding ml_mean_rev_features_def Let_def by (simp split: option.split)
  show "ml_breakout_features E p t h = Some fs \<Longrightarrow> length fs = 4"
    unfolding ml_breakout_features_def Let_def by (auto split: option.split_asm if_split_asm)
qed

lemma extract_features_length: "extract_features E p t h = Inr fs \<Longrightarrow> length fs = input_size p"
  by (cases p) (auto simp: feature_lengths split: option.split_asm)

lemma synthetic_history_length [simp]: "length (synthetic_history now n) = nat n"
  by (simp add: synthetic_history_def)

fun lookback_of :: "processor \<Rightarrow> int" where
  "lookback_of (MLMomentum p) = ml_lookback p"
| "lookback_of (MLMeanReversion p) = ml_lookback p"
| "lookback_of (MLBreakout p) = ml_lookback p"
| "lookback_of _ = 0"

lemma window_not_Nil: "0 \<le> n \<Longrightarrow> h \<noteq> [] \<Longrightarrow> window_prices n h \<noteq> []"
proof -
  assume "0 \<le> n" and "h \<noteq> []"
  then have "n = 0 \<or> nat (int (length h) - n) < length h" by (cases h) auto
  with \<open>0 \<le> n\<close> \<open>h \<noteq> []\<close> show ?thesis by (auto simp: window_prices_def py_from_def)
qed

lemma features_extracted:
  assumes "has_load_model p" and "0 \<le> lookback_of p" and "h \<noteq> []" and "lookback_of p \<le> int (length h)"
  shows "\<exists>fs. extract_features E p t h = Inr fs"
proof -
  have ne: "window_prices (lookback_of p) h \<noteq> []" by (rule window_not_Nil [OF assms(2,3)])
  then have "py_index (window_prices (lookback_of p) h) 0 \<noteq> None" by (simp add: py_index_def)
  then show ?thesis
    using ne assms by (cases p) (auto simp: ml_momentum_features_def ml_breakout_features_def Let_def split: option.splits)
qed

lemma synthetic_features:
  assumes "has_load_model p" and "0 \<le> lookback_of p"
  shows "\<exists>fs. extract_features E p (synthetic_tick now 100) (synthetic_history now (processor_lookback p)) = Inr fs"
proof (rule features_extracted [OF assms])
  have pos: "0 < processor_lookback p \<and> lookback_of p \<le> processor_lookback p" using assms by (cases p) auto
  then show "lookback_of p \<le> int (length (synthetic_history now (processor_lookback p)))" by simp
  have "0 < length (synthetic_history now (processor_lookback p))" using pos by simp
  then show "synthetic_history now (processor_lookback p) \<noteq> []" by fastforce
qed

text \<open>The cache of loaded models holds what the loader would load.\<close>

definition models_cache_ok :: "loader_env \<Rightarrow> model_cache \<Rightarrow> bool" where
  "models_cache_ok L cache = (\<forall>q m. cache q = Some m \<longrightarrow> ld_load L q = Some m)"

lemma loader_result:
  assumes "models_cache_ok L cache" and "loader_load_model L path cache = (m, cache')"
  shows "m = (if ld_has_joblib L then ld_load L (resolve_path L path) else None)" and "models_cache_ok L cache'"
proof -
  have "m = (if ld_has_joblib L then ld_load L (resolve_path L path) else None) \<and> models_cache_ok L cache'"
    using assms by (cases "cache (resolve_path L path)"; cases "ld_load L (resolve_path L path)")
      (auto simp: models_cache_ok_def loader_load_model_def Let_def split: if_splits)
  then show "m = (if ld_has_joblib L then ld_load L (resolve_path L path) else None)" "models_cache_ok L cache'" by auto
qed

lemma feature_row_cache: "models_cache_ok L cache \<Longrightarrow> feature_row E L now r cache = (x, cache') \<Longrightarrow> models_cache_ok L cache'"
  by (auto simp: feature_row_def Let_def split: option.splits sum.splits json.splits prod.splits dest: loader_result(2))

lemma scan_features_no_mismatch:
  assumes "scan_features E L now rs (n, k, out) cache = ((n', k', out'), cache')" and "models_cache_ok L cache"
  shows "k \<le> k'" and "k' = k \<Longrightarrow> r \<in> set rs \<Longrightarrow> py_truthy (row_model_path r) \<Longrightarrow> \<exists>c. models_cache_ok L c \<and> \<not> mismatched (fst (feature_row E L now r c))"
proof -
  have "k \<le> k' \<and> (k' = k \<longrightarrow> (\<forall>r\<in>set rs. py_truthy (row_model_path r) \<longrightarrow> (\<exists>c. models_cache_ok L c \<and> \<not> mismatched (fst (feature_row E L now r c)))))"
    using assms
  proof (induction rs arbitrary: n k out cache)
    case (Cons x xs)
    show ?case
    proof (cases "py_truthy (row_model_path x)")
      case True
      obtain y c where row: "feature_row E L now x cache = (y, c)" by fastforce
      let ?k = "if mismatched y then k + 1 else k"
      have "?k \<le> k' \<and> (k' = ?k \<longrightarrow> (\<forall>r\<in>set xs. py_truthy (row_model_path r) \<longrightarrow> (\<exists>c. models_cache_ok L c \<and> \<not> mismatched (fst (feature_row E L now r c)))))"
        by (rule Cons.IH [where cache = c]) (use Cons.prems True row feature_row_cache in auto)
      then show ?thesis using Cons.prems(2) row by (auto split: if_splits)
    qed (use Cons in auto)
  qed simp
  then show "k \<le> k'" "k' = k \<Longrightarrow> r \<in> set rs \<Longrightarrow> py_truthy (row_model_path r) \<Longrightarrow> \<exists>c. models_cache_ok L c \<and> \<not> mismatched (fst (feature_row E L now r c))"
    by auto
qed

fun model_of :: "processor \<Rightarrow> model option" where
  "model_of (MLMomentum p) = ml_model p"
| "model_of (MLMeanReversion p) = ml_model p"
| "model_of (MLBreakout p) = ml_model p"
| "model_of _ = None"

fun path_of :: "processor \<Rightarrow> string" where
  "path_of (MLMomentum p) = ml_model_path p"
| "path_of (MLMeanReversion p) = ml_model_path p"
| "path_of (MLBreakout p) = ml_model_path p"
| "path_of _ = []"

lemma loaded_processor:
  assumes "has_load_model p" and "processor_load_model L p c = (p', c')"
  shows "model_of p' = fst (loader_load_model L (path_of p) c)" and "input_size p' = input_size p"
  using assms by (cases p; auto simp: ml_load_model_def Let_def split: prod.splits)+

lemma ml_factory:
  assumes "map_of processors t = Some build" and "build ps = Inr p" and "has_load_model p" and "jget ps ''model_path'' = Some (JStr path)"
  shows "path_of p = path"
  using assms
  by (auto simp: processors_def create_ml_momentum_processor_def create_ml_mean_reversion_processor_def create_ml_breakout_processor_def
      create_ml_processor_def create_hybrid_momentum_processor_def create_hybrid_mean_reversion_processor_def emap_def ebind_def cfg_str_def
      split: if_splits sum.splits)


text \<open>A strategy that names no model is not looked at, although its factory has a default path and a hybrid keeps its path one
  level down.\<close>

lemma unnamed_models_unchecked:
  assumes "\<forall>r\<in>set (sb_rows D). \<not> py_truthy (row_model_path r)" and "sb_read D = None"
  shows "pf_passed (fst (ml_models_check dir exists fix env D))" "pf_passed (fst (ml_features_check True E L now env D cache))"
proof -
  have "missing_models dir exists rs = Inr (0, [])" if "\<forall>r\<in>set rs. \<not> py_truthy (row_model_path r)" for rs
    using that by (induction rs) auto
  then show "pf_passed (fst (ml_models_check dir exists fix env D))"
    using assms by (simp add: ml_models_check_def models_verdict_def Let_def)
  have "scan_features E L now rs acc c = (acc, c)" if "\<forall>r\<in>set rs. \<not> py_truthy (row_model_path r)" for rs acc c
    using that by (induction rs arbitrary: acc) auto
  then show "pf_passed (fst (ml_features_check True E L now env D cache))"
    using assms by (simp add: ml_features_check_def Let_def)
qed

text \<open>Outside production the check repairs what it checks: a missing model is replaced in the table by the sample.\<close>

lemma models_check_rewrites_rows:
  assumes "env \<noteq> PRODUCTION" and "sb_read D = None" "sb_commit D = None" and "missing_models dir exists (sb_rows D) = Inr (n, ms)"
    and "ms \<noteq> []"
  shows "sb_rows (snd (ml_models_check dir exists True env D)) = map (remap_row (set (map fst ms))) (sb_rows D)"
  using assms by (auto simp: ml_models_check_def Let_def split: sum.splits)

definition demo_fit_model :: model where
  "demo_fit_model = \<lparr>md_n_features = Some 4, md_predict = (\<lambda>_. Some 1), md_predict_proba = None\<rparr>"

definition demo_loader :: loader_env where
  "demo_loader = \<lparr>ld_has_joblib = True, ld_strategies_dir = ''dir'', ld_load = (\<lambda>_. Some demo_fit_model)\<rparr>"

definition demo_ml_row :: strategy_row where
  "demo_ml_row = \<lparr>row_id = ''s'', row_strategy_type = ''ml_breakout'', row_parameters = [(''model_path'', JStr ''m'')], row_instruments = [1],
     row_zerodha_trading_enabled = False\<rparr>"

definition demo_strategy_db :: strategy_db where
  "demo_strategy_db = \<lparr>sb_read = None, sb_commit = None, sb_rows = [demo_ml_row]\<rparr>"

definition plain_num :: num_env where
  "plain_num = \<lparr>ne_numpy = None, ne_sqrt = (\<lambda>x. x)\<rparr>"

definition demo_breakout :: processor where
  "demo_breakout = MLBreakout \<lparr>ml_model_path = ''m'', ml_lookback = 30, ml_threshold = 6/10, ml_position_size = 100, ml_model = None\<rparr>"

lemma demo_ml_path: "row_model_path demo_ml_row = JStr ''m''"
  by (simp add: row_model_path_def demo_ml_row_def jget_none_def jget_def)

lemma demo_breakout_built:
  "\<exists>build. map_of processors (row_strategy_type demo_ml_row) = Some build \<and> build (row_parameters demo_ml_row) = Inr demo_breakout"
  by (simp add: processors_def demo_ml_row_def demo_breakout_def emap_def ebind_def create_ml_breakout_processor_def create_ml_processor_def cfg_str_def
      cfg_int_def cfg_num_def jget_def)

lemma demo_models_pass:
  "pf_passed (fst (ml_models_check ''dir'' (\<lambda>_. True) False PRODUCTION demo_strategy_db))"
  by (simp add: ml_models_check_def demo_strategy_db_def demo_ml_path ebind_def models_verdict_def Let_def)

lemma demo_features_pass:
  "pf_passed (fst (ml_features_check True plain_num demo_loader now PRODUCTION demo_strategy_db Map.empty))"
proof -
  obtain build where b: "map_of processors (row_strategy_type demo_ml_row) = Some build" "build (row_parameters demo_ml_row) = Inr demo_breakout"
    using demo_breakout_built by blast
  have "\<not> mismatched (fst (feature_row plain_num demo_loader now demo_ml_row Map.empty))"
    by (simp add: feature_row_def b ebind_def demo_ml_path demo_breakout_def ml_breakout_features_def plain_num_def loader_load_model_def demo_loader_def
        demo_fit_model_def mismatched_def Let_def)
  then show ?thesis
    by (auto simp: ml_features_check_def demo_strategy_db_def demo_ml_path Let_def split: prod.splits)
qed


end
