(* ===== verification/Topic_Preflight.thy ===== *)
theory Topic_Preflight
  imports Model_Preflight
begin

text \<open>
  The checks of the active brokers (core/health/multi_broker_health_checks.py). The Kafka cluster is a state behind the
  admin client, given by its contract: a topic that was created is listed. Environment variables are parameters.
\<close>

subsection \<open>The cluster\<close>

record topic_request =
  tr_name :: string
  tr_partitions :: int
  tr_replicas :: int

text \<open>A description: the name, when there is one, and the number of replicas of each partition.\<close>

record topic_description =
  td_name :: "string option"
  td_partitions :: "nat list"

record 'k topic_admin =
  ka_list :: "'k \<Rightarrow> exn + string list"
  ka_describe :: "string list \<Rightarrow> 'k \<Rightarrow> exn + topic_description list"
  ka_create :: "topic_request list \<Rightarrow> 'k \<Rightarrow> exn option \<times> 'k"

record topic_env =
  tv_brokers :: "string list"
  tv_environment :: environment
  tv_broker_count :: "exn + int"
  tv_multiplier :: "exn + rat"
  tv_auto_bootstrap :: bool

subsection \<open>Expectations\<close>

record topic_expectation =
  te_partitions :: int
  te_replicas :: int

definition least_expectation :: topic_expectation where
  "least_expectation = \<lparr>te_partitions = 1, te_replicas = 1\<rparr>"

definition expected_topic :: "environment \<Rightarrow> int \<Rightarrow> rat \<Rightarrow> string \<Rightarrow> topic_expectation" where
  "expected_topic env count mult t =
     (let (parts, rf) = (case map_of topic_configs t of None \<Rightarrow> (1, 1) | Some c \<Rightarrow> (partitions c, replication_factor c)) in
      \<lparr>te_partitions = max 1 \<lceil>of_nat parts * max (1/10) mult\<rceil>,
       te_replicas = (if env = PRODUCTION then if count \<ge> 3 then 3 else max 1 count
                      else if count > 0 then max 1 (min (int rf) count) else int rf)\<rparr>)"

definition compute_expectations :: "topic_env \<Rightarrow> string list \<Rightarrow> exn + (string \<times> topic_expectation) list" where
  "compute_expectations V ts =
     ebind (tv_broker_count V) (\<lambda>count. ebind (tv_multiplier V) (\<lambda>mult.
       Inr (fold (\<lambda>t d. dict_set t (expected_topic (tv_environment V) count mult t) d) ts [])))"

definition expectation_of :: "(string \<times> topic_expectation) list \<Rightarrow> string \<Rightarrow> topic_expectation" where
  "expectation_of d t = (case map_of d t of None \<Rightarrow> least_expectation | Some e \<Rightarrow> e)"

subsection \<open>Looking at the topics\<close>

definition check_topics_exist :: "'k topic_admin \<Rightarrow> string list \<Rightarrow> 'k \<Rightarrow> string list" where
  "check_topics_exist A ts k = (case ka_list A k of Inl e \<Rightarrow> ts | Inr existing \<Rightarrow> filter (\<lambda>t. t \<notin> set existing) ts)"

definition topic_reasons :: "topic_expectation \<Rightarrow> nat list \<Rightarrow> string list" where
  "topic_reasons e parts =
     (let n = int (length parts); rf = (case parts of [] \<Rightarrow> 0 | r # _ \<Rightarrow> int r) in
      (if n < te_partitions e then [''partitions '' @ show_int n @ '' < expected '' @ show_int (te_partitions e)] else [])
      @ (if rf < te_replicas e then [''RF '' @ show_int rf @ '' < expected '' @ show_int (te_replicas e)] else []))"

text \<open>Without a name a description is passed over.\<close>

fun topic_issues :: "(string \<times> topic_expectation) list \<Rightarrow> topic_description list \<Rightarrow> (string \<times> string) list \<Rightarrow> (string \<times> string) list" where
  "topic_issues d [] out = out"
| "topic_issues d (x # xs) out =
     (case td_name x of
        None \<Rightarrow> topic_issues d xs out
      | Some n \<Rightarrow>
          if n = [] then topic_issues d xs out
          else let rs = topic_reasons (expectation_of d n) (td_partitions x)
               in topic_issues d xs (if rs \<noteq> [] then dict_set n (join_str ''; '' rs) out else out))"

definition check_topic_capacity :: "'k topic_admin \<Rightarrow> string list \<Rightarrow> (string \<times> topic_expectation) list \<Rightarrow> 'k \<Rightarrow> (string \<times> string) list" where
  "check_topic_capacity A ts d k =
     (case ka_describe A ts k of
        Inl e \<Rightarrow> fold (\<lambda>t out. dict_set t ''unable to describe topic; check admin permissions/connectivity'' out) ts []
      | Inr xs \<Rightarrow> topic_issues d xs [])"

definition topic_requests :: "(string \<times> topic_expectation) list \<Rightarrow> string list \<Rightarrow> topic_request list" where
  "topic_requests d ts =
     map (\<lambda>t. \<lparr>tr_name = t, tr_partitions = max 1 (te_partitions (expectation_of d t)), tr_replicas = max 1 (te_replicas (expectation_of d t))\<rparr>) ts"

lemma topic_requests_names [simp]: "map tr_name (topic_requests d ts) = ts"
  by (simp add: topic_requests_def comp_def)

definition auto_create_topics :: "'k topic_admin \<Rightarrow> topic_env \<Rightarrow> string list \<Rightarrow> 'k \<Rightarrow> (string + string list) \<times> 'k" where
  "auto_create_topics A V ts k =
     (case compute_expectations V ts of
        Inl e \<Rightarrow> (Inl (exn_msg e), k)
      | Inr d \<Rightarrow> (case ka_create A (topic_requests d ts) k of (Some e, k1) \<Rightarrow> (Inl (exn_msg e), k1) | (None, k1) \<Rightarrow> (Inr ts, k1)))"

subsection \<open>The check of a broker\<close>

definition required_topics :: "string \<Rightarrow> string list" where
  "required_topics broker =
     [signals_raw broker, signals_validated broker, orders_submitted broker, orders_filled broker, pnl_snapshots broker]"

definition topics_component :: "string \<Rightarrow> string" where
  "topics_component broker = ''broker_topics_'' @ broker"

text \<open>The details of a failed check, apart from the remedies it quotes, are what is missing or too small.\<close>

definition check_broker_topics :: "'k topic_admin \<Rightarrow> topic_env \<Rightarrow> string \<Rightarrow> 'k \<Rightarrow> (exn + check_result) \<times> 'k" where
  "check_broker_topics A V broker k =
     (let name = topics_component broker; required = required_topics broker; missing = check_topics_exist A required k;
          missing_text = ''Missing topics for '' @ broker @ '': '' @ join_str '', '' missing in
      if missing \<noteq> [] then
        if tv_environment V = PRODUCTION \<or> \<not> tv_auto_bootstrap V then (Inr (check_says name False missing_text (Some JNull)), k)
        else (case auto_create_topics A V missing k of
            (Inr created, k1) \<Rightarrow>
              (Inr (if created \<noteq> []
                    then check_says name True (''Auto-created missing topics ('' @ show_nat (length created) @ '') for '' @ broker @ '' (dev)'')
                      (Some (JObj [(''created'', JList (map JStr created))]))
                    else check_says name False (missing_text @ ''; auto-bootstrap failed'') (Some (JObj [(''error'', JNull)]))), k1)
          | (Inl err, k1) \<Rightarrow> (Inr (check_says name False (missing_text @ ''; auto-bootstrap failed'') (Some (JObj [(''error'', JStr err)]))), k1))
      else case compute_expectations V required of
          Inl e \<Rightarrow> (Inl e, k)
        | Inr d \<Rightarrow>
            (let issues = check_topic_capacity A required d k; warn = (tv_environment V \<noteq> PRODUCTION) in
             (Inr (if issues \<noteq> [] then
                check_says name warn
                  (''Topic capacity below expectations for '' @ broker @ '': '' @ join_str ''; '' (map (\<lambda>(t, r). t @ '': '' @ r) issues)
                     @ (if warn then '' (dev warn)'' else []))
                  (Some (JObj [(''issues'', JObj (map (\<lambda>(t, r). (t, JStr r)) issues))]))
              else check_says name True (''All required topics exist for '' @ broker) None), k)))"

subsection \<open>All brokers\<close>

fun check_all_brokers :: "(string \<Rightarrow> 'k \<Rightarrow> (exn + check_result) \<times> 'k) \<Rightarrow> string \<Rightarrow> string list \<Rightarrow> 'k \<Rightarrow> check_result list \<times> 'k" where
  "check_all_brokers f component [] k = ([], k)"
| "check_all_brokers f component (b # bs) k =
     (case f b k of
        (x, k1) \<Rightarrow>
          (case check_all_brokers f component bs k1 of
             (rs, k2) \<Rightarrow>
               ((case x of Inr r \<Rightarrow> r
                 | Inl e \<Rightarrow> check_says (component @ ''_'' @ b) False (''Health check failed for '' @ b @ '': '' @ exn_msg e) None) # rs, k2)))"

definition aggregate_brokers :: "string \<Rightarrow> check_result list \<Rightarrow> check_result" where
  "aggregate_brokers component rs =
     (let names = (\<lambda>xs. py_str (JList (map (\<lambda>r. JStr (pf_component r)) xs))) in
      check_says component (list_all pf_passed rs)
        (if list_all pf_passed rs then ''All broker checks passed: '' @ names rs
         else ''Broker checks failed for: '' @ names (filter (\<lambda>r. \<not> pf_passed r) rs)) None)"

definition broker_topics_check :: "'k topic_admin \<Rightarrow> topic_env \<Rightarrow> 'k \<Rightarrow> check_result \<times> 'k" where
  "broker_topics_check A V k =
     (case check_all_brokers (check_broker_topics A V) ''broker_topics'' (tv_brokers V) k of (rs, k1) \<Rightarrow> (aggregate_brokers ''broker_topics'' rs, k1))"

text \<open>The check of a broker's state looks at nothing.\<close>

definition check_broker_state :: "string \<Rightarrow> 'k \<Rightarrow> (exn + check_result) \<times> 'k" where
  "check_broker_state broker k =
     (Inr (check_says (''broker_state_'' @ broker) True (''Broker state check for '' @ broker @ '': PASSED'') (Some (JObj [(''broker'', JStr broker)]))), k)"

subsection \<open>What a passed check means\<close>

text \<open>The contract of the cluster: \<open>topics\<close> are those there are. Listing gives them; creating keeps them, and adds those
  requested when it does not raise.\<close>

locale topic_cluster =
  fixes A :: "'k topic_admin" and topics :: "'k \<Rightarrow> string set"
  assumes listed: "ka_list A k = Inr ts \<Longrightarrow> set ts = topics k"
    and created: "ka_create A reqs k = (None, k1) \<Longrightarrow> topics k1 = topics k \<union> set (map tr_name reqs)"
    and not_created: "ka_create A reqs k = (Some e, k1) \<Longrightarrow> topics k \<subseteq> topics k1"
begin

lemma exist_none: "check_topics_exist A ts k = [] \<Longrightarrow> set ts \<subseteq> topics k"
  by (auto simp: check_topics_exist_def filter_empty_conv split: sum.splits dest: listed)

lemma missing_rest: "set ts \<subseteq> topics k \<union> set (check_topics_exist A ts k)"
  by (auto simp: check_topics_exist_def split: sum.splits dest: listed)

lemma auto_create:
  assumes "auto_create_topics A V ts k = (x, k1)"
  shows "topics k \<subseteq> topics k1" and "x = Inr created \<Longrightarrow> topics k1 = topics k \<union> set ts"
proof -
  have "topics k \<subseteq> topics k1 \<and> (\<forall>created. x = Inr created \<longrightarrow> topics k1 = topics k \<union> set ts)"
    using assms created [of _ k k1] not_created [of _ k _ k1]
    by (auto simp: auto_create_topics_def simp del: set_map split: sum.splits prod.splits option.splits)
  then show "topics k \<subseteq> topics k1" "x = Inr created \<Longrightarrow> topics k1 = topics k \<union> set ts" by auto
qed

lemma broker_check:
  assumes "check_broker_topics A V b k = (x, k1)"
  shows "topics k \<subseteq> topics k1" and "x = Inr r \<Longrightarrow> pf_passed r \<Longrightarrow> set (required_topics b) \<subseteq> topics k1"
proof -
  let ?m = "check_topics_exist A (required_topics b) k"
  obtain y k2 where c: "auto_create_topics A V ?m k = (y, k2)" by fastforce
  have "topics k \<subseteq> topics k1 \<and> (\<forall>r. x = Inr r \<longrightarrow> pf_passed r \<longrightarrow> set (required_topics b) \<subseteq> topics k1)"
  proof (cases "?m = []")
    case True
    then show ?thesis
      using assms exist_none [OF True]
      by (auto simp: check_broker_topics_def Let_def split: sum.splits if_splits)
  next
    case False
    then show ?thesis
      using assms c auto_create(1) [OF c] auto_create(2) [OF c] missing_rest [of "required_topics b" k]
      by (auto simp: check_broker_topics_def Let_def split: sum.splits if_splits)
  qed
  then show "topics k \<subseteq> topics k1" "x = Inr r \<Longrightarrow> pf_passed r \<Longrightarrow> set (required_topics b) \<subseteq> topics k1" by auto
qed

lemma all_brokers:
  assumes "check_all_brokers (check_broker_topics A V) c bs k = (rs, k1)"
  shows "topics k \<subseteq> topics k1 \<and> (list_all pf_passed rs \<longrightarrow> (\<forall>b\<in>set bs. set (required_topics b) \<subseteq> topics k1))"
  using assms
proof (induction bs arbitrary: k rs k1)
  case (Cons b bs)
  obtain x k2 where x: "check_broker_topics A V b k = (x, k2)" by fastforce
  obtain rs' k3 where rest: "check_all_brokers (check_broker_topics A V) c bs k2 = (rs', k3)" by fastforce
  have k1: "k1 = k3" and rs: "list_all pf_passed rs \<Longrightarrow> list_all pf_passed rs' \<and> (\<exists>r. x = Inr r \<and> pf_passed r)"
    using Cons.prems x rest by (cases x; auto)+
  have "set (required_topics b) \<subseteq> topics k2" if "list_all pf_passed rs"
    using rs [OF that] broker_check(2) [OF x] by blast
  with Cons.IH [OF rest] broker_check(1) [OF x] rs show ?case
    unfolding k1 by (metis set_ConsD subset_trans)
qed simp

lemma topics_check:
  assumes "broker_topics_check A V k = (r, k1)" and "pf_passed r" and "b \<in> set (tv_brokers V)"
  shows "set (required_topics b) \<subseteq> topics k1"
  using assms all_brokers [of V "''broker_topics''" "tv_brokers V" k]
  by (auto simp: broker_topics_check_def aggregate_brokers_def Let_def split: prod.splits)

end

subsection \<open>A cluster\<close>

text \<open>The cluster as a list of its topics with their partitions.\<close>

definition list_admin :: "((string \<times> nat list) list) topic_admin" where
  "list_admin =
     \<lparr>ka_list = (\<lambda>k. Inr (map fst k)),
      ka_describe = (\<lambda>ts k. Inr (map (\<lambda>(t, ps). \<lparr>td_name = Some t, td_partitions = ps\<rparr>) (filter (\<lambda>(t, ps). t \<in> set ts) k))),
      ka_create = (\<lambda>reqs k. (None, k @ map (\<lambda>r. (tr_name r, replicate (nat (tr_partitions r)) (nat (tr_replicas r)))) reqs))\<rparr>"

interpretation lc: topic_cluster list_admin "\<lambda>k. set (map fst k)"
  by unfold_locales (auto simp: list_admin_def image_Un image_image)

text \<open>When the check of the topics passes, the topics it requires of every active broker exist, even if some had to be created on the way.\<close>

theorem passed_topics_exist:
  assumes "topic_cluster A topics" and "broker_topics_check A V k = (r, k1)" and "pf_passed r" and "b \<in> set (tv_brokers V)"
  shows "set (required_topics b) \<subseteq> topics k1"
  by (rule topic_cluster.topics_check [OF assms])

definition dev_topics :: topic_env where
  "dev_topics = \<lparr>tv_brokers = [''paper''], tv_environment = DEVELOPMENT, tv_broker_count = Inr 1, tv_multiplier = Inr 1, tv_auto_bootstrap = True\<rparr>"

lemma dev_topics_created:
  "pf_passed (fst (broker_topics_check list_admin dev_topics []))"
  by (simp add: broker_topics_check_def dev_topics_def check_broker_topics_def check_topics_exist_def list_admin_def required_topics_def
      auto_create_topics_def compute_expectations_def ebind_def aggregate_brokers_def Let_def)

theorem passed_topics_exist_witness:
  "set (required_topics ''paper'') \<subseteq> set (map fst (snd (broker_topics_check list_admin dev_topics [])))"
proof -
  obtain r k1 where run: "broker_topics_check list_admin dev_topics [] = (r, k1)" by fastforce
  have "pf_passed r" using dev_topics_created run by (metis fst_conv)
  then show ?thesis
    using passed_topics_exist [OF lc.topic_cluster_axioms run, of "''paper''"] run by (simp add: dev_topics_def)
qed

text \<open>The topics of rejected signals and of failed and acknowledged orders are not required: they can be missing when the check passes.\<close>

lemma required_topics_not_Nil [simp]: "required_topics b \<noteq> []"
  by (simp add: required_topics_def)

lemma created_names: "map fst (snd (broker_topics_check list_admin dev_topics [])) = required_topics ''paper''"
proof -
  have "map (fst \<circ> (\<lambda>r. (tr_name r, f r))) (topic_requests d ts) = ts" for d ts and f :: "topic_request \<Rightarrow> nat list"
    using topic_requests_names [of d ts] by (simp add: comp_def)
  then show ?thesis
    by (simp add: broker_topics_check_def dev_topics_def check_broker_topics_def check_topics_exist_def list_admin_def
        auto_create_topics_def compute_expectations_def ebind_def Let_def)
qed

lemma unrequired_topics:
  "pf_passed (fst (broker_topics_check list_admin dev_topics []))"
  "{signals_rejected ''paper'', orders_failed ''paper'', orders_ack ''paper''} \<inter> set (map fst (snd (broker_topics_check list_admin dev_topics []))) = {}"
  unfolding created_names using dev_topics_created
  by (simp_all add: required_topics_def signals_raw_def signals_validated_def orders_submitted_def orders_filled_def pnl_snapshots_def
      signals_rejected_def orders_failed_def orders_ack_def)

end
