(* ===== verification/Preflight.thy ===== *)
theory Preflight
  imports Topic_Preflight Auth Market_Hours
begin

text \<open>
  The other checks before the services start, the monitor that runs them all (core/health/__init__.py, app/pre_flight_checks.py) and the
  wait for the database (core/database/connection.py). A probe of a server is the exception it raises, if any; the checks run one after
  the other.
\<close>

subsection \<open>Infrastructure\<close>

record infra =
  in_database :: "exn option"
  in_redis :: "exn option"
  in_kafka :: "exn option"
  in_kafka_close :: "exn option"

definition connection_check :: "string \<Rightarrow> exn option \<Rightarrow> check_result" where
  "connection_check component probe =
     (case probe of
        None \<Rightarrow> check_says component True ''Connection successful.'' None
      | Some e \<Rightarrow> check_says component False (''Connection failed: '' @ exn_msg e) None)"

definition database_check :: "infra \<Rightarrow> exn + check_result" where
  "database_check I = Inr (connection_check ''PostgreSQL'' (in_database I))"

definition redis_check :: "infra \<Rightarrow> exn + check_result" where
  "redis_check I = Inr (connection_check ''Redis'' (in_redis I))"

text \<open>Closing the admin client is not guarded here.\<close>

definition redpanda_check :: "infra \<Rightarrow> exn + check_result" where
  "redpanda_check I = (case in_kafka_close I of Some e \<Rightarrow> Inl e | None \<Rightarrow> Inr (connection_check ''Redpanda'' (in_kafka I)))"

definition probe_json :: "exn option \<Rightarrow> json" where
  "probe_json p = JObj [(''ok'', JBool (p = None)), (''error'', case p of None \<Rightarrow> JNull | Some e \<Rightarrow> JStr (exn_msg e))]"

definition infra_guidance :: "infra \<Rightarrow> string list" where
  "infra_guidance I =
     (if in_database I \<noteq> None \<or> in_redis I \<noteq> None then [''Bring up infra: 'make up' or 'docker compose up -d'' @ [CHR 0x27]] else [])
     @ (if in_kafka I \<noteq> None then [''Ensure Redpanda is up; then 'make bootstrap' for topics''] else [])"

definition infra_check :: "infra \<Rightarrow> check_result" where
  "infra_check I =
     (let down = map fst (filter (\<lambda>(n, p). p \<noteq> None) [(''postgres'', in_database I), (''redis'', in_redis I), (''redpanda'', in_kafka I)]) in
      check_says ''infrastructure'' (down = [])
        (if down = [] then ''Infrastructure OK (Postgres/Redis/Redpanda)'' else ''Infrastructure unavailable: '' @ join_str '', '' down)
        (Some (JObj [(''postgres'', probe_json (in_database I)), (''redis'', probe_json (in_redis I)), (''redpanda'', probe_json (in_kafka I)),
                     (''remediation'', JList (map JStr (infra_guidance I)))])))"

subsection \<open>Authentication\<close>

definition zerodha_auth_check :: "'d auth_env \<Rightarrow> int \<Rightarrow> 'd auth \<Rightarrow> check_result \<times> 'd auth" where
  "zerodha_auth_check E now a =
     (if \<not> is_authenticated a
      then (check_says ''Zerodha Authentication'' False
              ''Zerodha authentication is not active. System requires valid Zerodha session before startup.'' None, a)
      else case get_current_user_profile E now a of
          (None, a1) \<Rightarrow> (check_says ''Zerodha Authentication'' False
              ''Zerodha session is invalid - cannot retrieve user profile. Please re-authenticate.'' None, a1)
        | (Some p, a1) \<Rightarrow> (check_says ''Zerodha Authentication'' True
              (''Zerodha authentication is active and valid for user: '' @ py_str (up_user_id p)) None, a1))"

definition broker_profile_check :: "'d auth_env \<Rightarrow> int \<Rightarrow> 'd auth \<Rightarrow> check_result \<times> 'd auth" where
  "broker_profile_check E now a =
     (case get_current_user_profile E now a of
        (Some p, a1) \<Rightarrow> (check_says ''Zerodha API'' True
            (''Successfully connected to broker API for user: '' @ py_str (up_user_shortname p) @ ''.'') None, a1)
      | (None, a1) \<Rightarrow> (check_says ''Zerodha API'' False
            ''Session is active but failed to fetch user profile. Token may be invalid.'' None, a1))"

definition broker_api_check :: "'d auth_env \<Rightarrow> int \<Rightarrow> prompt \<Rightarrow> 'd auth \<Rightarrow> check_result \<times> 'd auth" where
  "broker_api_check E now typed a =
     (if is_authenticated a then broker_profile_check E now a
      else case auth_initialize E now typed a of
          (True, a1) \<Rightarrow> broker_profile_check E now a1
        | (False, a1) \<Rightarrow>
            (check_says ''Zerodha API'' False
               (if au_status a1 = ERROR then ''CRITICAL: Zerodha authentication configuration error. Check logs for details.''
                else ''CRITICAL: Zerodha authentication required but failed. System cannot start.'') None, a1))"

text \<open>Declining to log in is reported as a configuration error: a failed initialisation always ends in the status ERROR.\<close>

lemma declined_login_is_config_error:
  assumes "\<not> is_authenticated a" and "auth_initialize E now typed a = (False, a1)"
  shows "pf_message (fst (broker_api_check E now typed a)) = ''CRITICAL: Zerodha authentication configuration error. Check logs for details.''"
  using assms auth_initialize_facts [OF assms(2)] by (simp add: broker_api_check_def)

subsection \<open>Market hours\<close>

text \<open>\<open>str(time)\<close>, and the text of an opening, with \<open>dtext\<close> for the text of its date.\<close>

definition show_tod :: "tod \<Rightarrow> string" where
  "show_tod t =
     (let s = micros t div 1000000; us = micros t mod 1000000; two = (\<lambda>n. pad_left 2 (show_nat n)) in
      two (s div 3600) @ '':'' @ two (s div 60 mod 60) @ '':'' @ two (s mod 60) @ (if us = 0 then [] else ''.'' @ pad_left 6 (show_nat us)))"

definition show_opening :: "(int \<Rightarrow> string) \<Rightarrow> local_dt \<Rightarrow> string" where
  "show_opening dtext t =
     (let m = micros (ld_time t) div 60000000 in
      dtext (ld_date t) @ '' '' @ pad_left 2 (show_nat (m div 60)) @ '':'' @ pad_left 2 (show_nat (m mod 60)) @ '' IST'')"

definition market_message :: "(int \<Rightarrow> string) \<Rightarrow> market_config \<Rightarrow> market_info \<Rightarrow> string" where
  "market_message dtext c i =
     (case mi_status i of
        OPEN \<Rightarrow> ''Market is open for trading (Regular session: '' @ show_tod (ses_start (regular_session c)) @ '' - ''
                  @ show_tod (ses_end (regular_session c)) @ '' IST)''
      | PRE_OPEN \<Rightarrow> ''Market is in pre-open session ('' @ show_tod (ses_start (pre_open_session c)) @ '' - ''
                  @ show_tod (ses_end (pre_open_session c)) @ '' IST)''
      | LUNCH_BREAK \<Rightarrow> ''Market is closed for lunch break (resumes at ''
                  @ (if enforce_lunch_break c then show_tod (ses_end (lunch_break c)) else ''1:30 PM'') @ '' IST)''
      | WEEKEND \<Rightarrow> ''Market is closed (weekend) - warning only''
      | HOLIDAY \<Rightarrow> ''Market is closed (holiday) - warning only''
      | CLOSED \<Rightarrow>
          (case mi_next_open i of
             Some t \<Rightarrow> ''Market is closed (next open: '' @ show_opening dtext t @ '') - warning only''
           | None \<Rightarrow> ''Market is closed (outside '' @ show_tod (ses_start (regular_session c)) @ '' - ''
                       @ show_tod (ses_end (regular_session c)) @ '' IST) - warning only''))"

definition market_hours_check :: "(int \<Rightarrow> string) \<Rightarrow> market_config \<Rightarrow> local_dt \<Rightarrow> check_result" where
  "market_hours_check dtext c now = check_says ''Market Hours'' True (market_message dtext c (get_market_info c now)) None"

subsection \<open>The monitor\<close>

text \<open>An exception of a check reaches the caller; otherwise the results are kept in order.\<close>

fun gather_checks :: "('w \<Rightarrow> (exn + check_result) \<times> 'w) list \<Rightarrow> 'w \<Rightarrow> (exn + check_result list) \<times> 'w" where
  "gather_checks [] w = (Inr [], w)"
| "gather_checks (f # fs) w =
     (case f w of
        (Inl e, w1) \<Rightarrow> (Inl e, w1)
      | (Inr r, w1) \<Rightarrow> (case gather_checks fs w1 of (Inl e, w2) \<Rightarrow> (Inl e, w2) | (Inr rs, w2) \<Rightarrow> (Inr (r # rs), w2)))"

definition system_healthy :: "check_result list \<Rightarrow> bool" where
  "system_healthy rs = list_all pf_passed rs"

lemma gather_checks_append:
  "gather_checks (fs @ gs) w = (case gather_checks fs w of (Inl e, w1) \<Rightarrow> (Inl e, w1)
     | (Inr rs, w1) \<Rightarrow> (case gather_checks gs w1 of (Inl e, w2) \<Rightarrow> (Inl e, w2) | (Inr ss, w2) \<Rightarrow> (Inr (rs @ ss), w2)))"
  by (induction fs arbitrary: w) (auto split: prod.splits sum.splits)

subsection \<open>Waiting for the database\<close>

text \<open>Poll \<open>i\<close> takes \<open>took i\<close> microseconds and finds the database ready or not. The result is whether the wait succeeded, and how many
  polls were made; otherwise the source raises.\<close>

function wait_for_ready :: "nat \<Rightarrow> nat \<Rightarrow> (nat \<Rightarrow> nat) \<Rightarrow> (nat \<Rightarrow> bool) \<Rightarrow> nat \<Rightarrow> nat \<Rightarrow> bool \<times> nat" where
  "wait_for_ready timeout interval took ready i elapsed =
     (if elapsed < timeout
      then if ready i then (True, i + 1)
           else wait_for_ready timeout (max 1 interval) took ready (i + 1) (elapsed + took i + max 1 interval)
      else (False, i))"
  by pat_completeness auto
termination
  by (relation "measure (\<lambda>(timeout, interval, took, ready, i, elapsed). timeout - elapsed)") auto

declare wait_for_ready.simps [simp del]

lemma wait_for_ready_stop: "timeout \<le> elapsed \<Longrightarrow> wait_for_ready timeout d took ready i elapsed = (False, i)"
  by (subst wait_for_ready.simps) simp

lemma wait_for_ready_polls:
  assumes "0 < d" and "wait_for_ready timeout d took ready i elapsed = (ok, n)"
  shows "d * (n - i) < timeout - elapsed + d \<and> i \<le> n \<and> (ok \<longrightarrow> i < n \<and> ready (n - 1)) \<and> (\<forall>j. i \<le> j \<and> j < (if ok then n - 1 else n) \<longrightarrow> \<not> ready j)"
  using assms
proof (induction timeout d took ready i elapsed rule: wait_for_ready.induct)
  case (1 timeout d took ready i elapsed)
  consider "timeout \<le> elapsed" | "elapsed < timeout" "ready i" | "elapsed < timeout" "\<not> ready i" by linarith
  then show ?case
  proof cases
    case 3
    then have rec: "wait_for_ready timeout d took ready (i + 1) (elapsed + took i + d) = (ok, n)"
      using 1 by (subst (asm) wait_for_ready.simps) (simp add: max_def)
    have ih: "d * (n - (i + 1)) < timeout - (elapsed + took i + d) + d \<and> i + 1 \<le> n \<and> (ok \<longrightarrow> i + 1 < n \<and> ready (n - 1))
        \<and> (\<forall>j. i + 1 \<le> j \<and> j < (if ok then n - 1 else n) \<longrightarrow> \<not> ready j)"
      using 1(1) 3 1(2) rec by (simp add: max_def)
    have "i + 1 \<le> n" using ih by blast
    then have "n - i = Suc (n - (i + 1))" by arith
    then have "d * (n - i) = d * (n - (i + 1)) + d" by simp
    moreover have "d * (n - (i + 1)) < timeout - elapsed"
    proof (cases "elapsed + took i + d \<le> timeout")
      case False
      then have "wait_for_ready timeout d took ready (i + 1) (elapsed + took i + d) = (False, i + 1)"
        by (simp add: wait_for_ready_stop)
      with rec 3 show ?thesis by simp
    qed (use ih in linarith)
    moreover have "\<not> ready j" if "i \<le> j \<and> j < (if ok then n - 1 else n)" for j
      using ih 3 that by (cases "j = i") auto
    ultimately show ?thesis using ih by auto
  next
    case 1
    with \<open>wait_for_ready timeout d took ready i elapsed = (ok, n)\<close> show ?thesis
      using \<open>0 < d\<close> by (auto simp: wait_for_ready_stop)
  next
    case 2
    then have "wait_for_ready timeout d took ready i elapsed = (True, i + 1)" by (subst wait_for_ready.simps) simp
    with 1(3) have "ok" "n = i + 1" by auto
    with 2 show ?thesis by auto
  qed
qed

text \<open>The wait of half a minute makes at most thirty polls and succeeds just when one of them finds the database ready.\<close>

lemma wait_thirty_polls:
  assumes "wait_for_ready 30000000 1000000 took ready 0 0 = (ok, n)"
  shows "n \<le> 30" and "ok \<longleftrightarrow> (\<exists>i<n. ready i)"
proof -
  have p: "1000000 * n < 30000000 + (1000000 :: nat)" "ok \<longrightarrow> 0 < n \<and> ready (n - 1)" "\<forall>j<(if ok then n - 1 else n). \<not> ready j"
    using wait_for_ready_polls [OF _ assms] by auto
  show "n \<le> 30" using p(1) by simp
  show "ok \<longleftrightarrow> (\<exists>i<n. ready i)" using p(2,3) by (cases ok) (auto intro: exI [of _ "n - 1"])
qed

end
