(* ===== verification/Application.thy ===== *)
theory Application
  imports Preflight
begin

text \<open>
  The application (app/main.py) with the wiring of app/containers.py: validation, database, authentication, the checks in their
  order, the services in theirs, and the shutdown. The services other than authentication are known by what starting and
  stopping them raises, after the calls made before.
\<close>

subsection \<open>State\<close>

datatype service =
  Auth_Service | Registry_Service | Feed_Service | Runner_Service | Risk_Service | Paper_Service | Zerodha_Service | Monitor_Service

definition lifespan_services :: "service list" where
  "lifespan_services =
     [Auth_Service, Registry_Service, Feed_Service, Runner_Service, Risk_Service, Paper_Service, Zerodha_Service, Monitor_Service]"

datatype app_call = Start service | Stop service | Db_Init | Db_Wait | Run_Checks | Db_Shutdown | Streaming_Shutdown

record ('d, 'k) app =
  ap_auth :: "'d auth"
  ap_strategies :: strategy_db
  ap_cluster :: 'k
  ap_models :: model_cache
  ap_calls :: "app_call list"
  ap_started :: "service list option"

record ('d, 'k) app_env =
  av_settings :: settings
  av_probes :: probes
  av_db_init :: "exn option"
  av_db_polls :: "(nat \<Rightarrow> nat) \<times> (nat \<Rightarrow> bool)"
  av_infra :: infra
  av_auth :: "'d auth_env"
  av_now :: int
  av_typed :: prompt
  av_admin :: "'k topic_admin"
  av_broker_count :: "exn + int"
  av_multiplier :: "exn + rat"
  av_auto_bootstrap :: bool
  av_models_dir :: string
  av_exists :: "string \<Rightarrow> bool"
  av_auto_fix :: bool
  av_ml_available :: bool
  av_num :: num_env
  av_loader :: loader_env
  av_tick_time :: datetime
  av_date_text :: "int \<Rightarrow> string"
  av_local :: local_dt
  av_start :: "service \<Rightarrow> app_call list \<Rightarrow> exn option"
  av_stop :: "service \<Rightarrow> app_call list \<Rightarrow> exn option"
  av_streaming :: "exn option"

definition noted :: "app_call \<Rightarrow> ('d, 'k) app \<Rightarrow> ('d, 'k) app" where
  "noted c s = s\<lparr>ap_calls := ap_calls s @ [c]\<rparr>"

definition system_exit :: exn where
  "system_exit = raise_exn (Other ''SystemExit'') ''1''"

subsection \<open>The checks\<close>

definition topic_env_of :: "('d, 'k) app_env \<Rightarrow> topic_env" where
  "topic_env_of E =
     \<lparr>tv_brokers = cg_brokers (av_settings E), tv_environment = cg_environment (av_settings E), tv_broker_count = av_broker_count E,
      tv_multiplier = av_multiplier E, tv_auto_bootstrap = av_auto_bootstrap E\<rparr>"

definition app_auth_check :: "('d, 'k) app_env \<Rightarrow> ('d, 'k) app \<Rightarrow> (exn + check_result) \<times> ('d, 'k) app" where
  "app_auth_check E s = (case zerodha_auth_check (av_auth E) (av_now E) (ap_auth s) of (r, a) \<Rightarrow> (Inr r, s\<lparr>ap_auth := a\<rparr>))"

definition app_topics_check :: "('d, 'k) app_env \<Rightarrow> ('d, 'k) app \<Rightarrow> (exn + check_result) \<times> ('d, 'k) app" where
  "app_topics_check E s = (case broker_topics_check (av_admin E) (topic_env_of E) (ap_cluster s) of (r, k) \<Rightarrow> (Inr r, s\<lparr>ap_cluster := k\<rparr>))"

definition app_models_check :: "('d, 'k) app_env \<Rightarrow> ('d, 'k) app \<Rightarrow> (exn + check_result) \<times> ('d, 'k) app" where
  "app_models_check E s =
     (case ml_models_check (av_models_dir E) (av_exists E) (av_auto_fix E) (cg_environment (av_settings E)) (ap_strategies s) of
        (r, D) \<Rightarrow> (Inr r, s\<lparr>ap_strategies := D\<rparr>))"

definition app_features_check :: "('d, 'k) app_env \<Rightarrow> ('d, 'k) app \<Rightarrow> (exn + check_result) \<times> ('d, 'k) app" where
  "app_features_check E s =
     (case ml_features_check (av_ml_available E) (av_num E) (av_loader E) (av_tick_time E) (cg_environment (av_settings E)) (ap_strategies s) (ap_models s) of
        (r, c) \<Rightarrow> (Inr r, s\<lparr>ap_models := c\<rparr>))"

definition app_api_check :: "('d, 'k) app_env \<Rightarrow> ('d, 'k) app \<Rightarrow> (exn + check_result) \<times> ('d, 'k) app" where
  "app_api_check E s = (case broker_api_check (av_auth E) (av_now E) (av_typed E) (ap_auth s) of (r, a) \<Rightarrow> (Inr r, s\<lparr>ap_auth := a\<rparr>))"

definition health_checks_list :: "('d, 'k) app_env \<Rightarrow> (('d, 'k) app \<Rightarrow> (exn + check_result) \<times> ('d, 'k) app) list" where
  "health_checks_list E =
     [app_auth_check E,
      \<lambda>s. (Inr (infra_check (av_infra E)), s),
      \<lambda>s. (database_check (av_infra E), s),
      \<lambda>s. (redis_check (av_infra E), s),
      \<lambda>s. (redpanda_check (av_infra E), s),
      app_topics_check E,
      \<lambda>s. (Inr (active_strategies_check (ap_strategies s)), s),
      app_models_check E,
      app_features_check E,
      app_api_check E,
      \<lambda>s. (Inr (market_hours_check (av_date_text E) default_config (av_local E)), s)]"

subsection \<open>Stopping\<close>

text \<open>The authentication service changes its state and raises nothing.\<close>

definition stop_service :: "('d, 'k) app_env \<Rightarrow> service \<Rightarrow> ('d, 'k) app \<Rightarrow> exn option \<times> ('d, 'k) app" where
  "stop_service E v s =
     (if v = Auth_Service then (None, noted (Stop v) (s\<lparr>ap_auth := auth_stop (ap_auth s)\<rparr>))
      else (av_stop E v (ap_calls s), noted (Stop v) s))"

text \<open>All are stopped; the first exception, if any, is the one that gathering them raises.\<close>

fun stop_services :: "('d, 'k) app_env \<Rightarrow> service list \<Rightarrow> ('d, 'k) app \<Rightarrow> exn option \<times> ('d, 'k) app" where
  "stop_services E [] s = (None, s)"
| "stop_services E (v # vs) s =
     (case stop_service E v s of
        (x, s1) \<Rightarrow> (case stop_services E vs s1 of (y, s2) \<Rightarrow> (case x of None \<Rightarrow> y | Some e \<Rightarrow> Some e, s2)))"

definition cleanup_partial_initialization :: "('d, 'k) app_env \<Rightarrow> ('d, 'k) app \<Rightarrow> ('d, 'k) app" where
  "cleanup_partial_initialization E s = noted Db_Shutdown (snd (stop_services E (rev lifespan_services) s))"

definition cancelled :: "exn \<Rightarrow> bool" where
  "cancelled e = (exn_class e = Other ''CancelledError'')"

text \<open>An empty list of started services counts as none, and an exception of the streaming components leaves the database open.\<close>

definition services_to_stop :: "('d, 'k) app \<Rightarrow> service list" where
  "services_to_stop s = (case ap_started s of None \<Rightarrow> lifespan_services | Some vs \<Rightarrow> if vs = [] then lifespan_services else vs)"

definition app_shutdown :: "('d, 'k) app_env \<Rightarrow> ('d, 'k) app \<Rightarrow> ('d, 'k) app" where
  "app_shutdown E s =
     (let vs = rev (services_to_stop s); (x, s1) = stop_services E vs s;
          s2 = (case x of Some e \<Rightarrow> if cancelled e then snd (stop_services E vs s1) else s1 | None \<Rightarrow> s1);
          s3 = noted Streaming_Shutdown s2
      in if av_streaming E = None then noted Db_Shutdown s3 else s3)"

subsection \<open>Starting\<close>

definition allowed :: "settings \<Rightarrow> service \<Rightarrow> bool" where
  "allowed S v =
     (if v = Paper_Service then is_paper_trading_enabled S \<and> ''paper'' \<in> set (cg_brokers S)
      else if v = Zerodha_Service then is_zerodha_trading_enabled S \<and> ''zerodha'' \<in> set (cg_brokers S)
      else True)"

definition remaining_services :: "settings \<Rightarrow> service list" where
  "remaining_services S = filter (\<lambda>v. v \<noteq> Auth_Service) (filter (allowed S) lifespan_services)"

fun start_services :: "('d, 'k) app_env \<Rightarrow> service list \<Rightarrow> ('d, 'k) app \<Rightarrow> exn option \<times> ('d, 'k) app" where
  "start_services E [] s = (None, s)"
| "start_services E (v # vs) s =
     (case av_start E v (ap_calls s) of
        Some e \<Rightarrow> (Some e, noted (Start v) s)
      | None \<Rightarrow> start_services E vs ((noted (Start v) s)\<lparr>ap_started := Some ((case ap_started s of None \<Rightarrow> [] | Some ws \<Rightarrow> ws) @ [v])\<rparr>))"

definition start_auth :: "('d, 'k) app_env \<Rightarrow> ('d, 'k) app \<Rightarrow> ('d, 'k) app" where
  "start_auth E s = noted (Start Auth_Service) (s\<lparr>ap_auth := snd (auth_initialize (av_auth E) (av_now E) (av_typed E) (ap_auth s))\<rparr>)"

text \<open>The steps after validation.\<close>

definition start_checked :: "('d, 'k) app_env \<Rightarrow> ('d, 'k) app \<Rightarrow> exn option \<times> ('d, 'k) app" where
  "start_checked E s =
     (case gather_checks (health_checks_list E) (noted Run_Checks s) of
        (Inl e, s1) \<Rightarrow> (Some e, s1)
      | (Inr rs, s1) \<Rightarrow>
          if \<not> system_healthy rs then (Some system_exit, cleanup_partial_initialization E s1)
          else start_services E (remaining_services (av_settings E)) (s1\<lparr>ap_started := Some []\<rparr>))"

definition start_database :: "('d, 'k) app_env \<Rightarrow> ('d, 'k) app \<Rightarrow> exn option \<times> ('d, 'k) app" where
  "start_database E s =
     (let s1 = noted Db_Init s in
      case av_db_init E of
        Some e \<Rightarrow> (Some e, s1)
      | None \<Rightarrow>
          (let s2 = noted Db_Wait s1 in
           if fst (wait_for_ready 30000000 1000000 (fst (av_db_polls E)) (snd (av_db_polls E)) 0 0) then (None, s2)
           else (Some (raise_exn (Other ''RuntimeError'') ''Database not ready after 30 seconds''), s2)))"

definition startup :: "('d, 'k) app_env \<Rightarrow> ('d, 'k) app \<Rightarrow> exn option \<times> ('d, 'k) app" where
  "startup E s =
     (let S = av_settings E in
      if cg_environment S = PRODUCTION \<and> cg_secret_key S = default_secret then (Some system_exit, s)
      else if \<not> validate_startup_configuration (av_probes E) S then (Some system_exit, cleanup_partial_initialization E s)
      else case start_database E s of
          (Some e, s1) \<Rightarrow> (Some e, s1)
        | (None, s1) \<Rightarrow> start_checked E (start_auth E s1))"

text \<open>A run: starting, waiting for the signal when that succeeded, and shutting down in any case.\<close>

definition run_app :: "('d, 'k) app_env \<Rightarrow> ('d, 'k) app \<Rightarrow> exn option \<times> ('d, 'k) app" where
  "run_app E s = (case startup E s of (x, s1) \<Rightarrow> (x, app_shutdown E s1))"

definition app_init :: "'d auth \<Rightarrow> strategy_db \<Rightarrow> 'k \<Rightarrow> ('d, 'k) app" where
  "app_init a D k = \<lparr>ap_auth = a, ap_strategies = D, ap_cluster = k, ap_models = Map.empty, ap_calls = [], ap_started = None\<rparr>"

lemma app_init_simps [simp]: "ap_calls (app_init a D k) = []" "ap_started (app_init a D k) = None"
  by (simp_all add: app_init_def)

subsection \<open>What the calls are\<close>

lemma stop_services_calls:
  assumes "stop_services E vs s = (x, s1)"
  shows "ap_calls s1 = ap_calls s @ map Stop vs" and "ap_started s1 = ap_started s" and "ap_cluster s1 = ap_cluster s"
    and "au_status (ap_auth s1) = au_status (ap_auth s)"
proof -
  have "ap_calls s1 = ap_calls s @ map Stop vs \<and> ap_started s1 = ap_started s \<and> ap_cluster s1 = ap_cluster s
      \<and> au_status (ap_auth s1) = au_status (ap_auth s)"
    using assms by (induction vs arbitrary: s x) (auto simp: stop_service_def noted_def auth_stop_def split: prod.splits if_splits)
  then show "ap_calls s1 = ap_calls s @ map Stop vs" "ap_started s1 = ap_started s" "ap_cluster s1 = ap_cluster s"
    "au_status (ap_auth s1) = au_status (ap_auth s)" by auto
qed

lemma start_services_run:
  assumes "start_services E vs s = (x, s1)" and "ap_started s = Some ws"
  shows "\<exists>us rest. vs = us @ rest \<and> ap_started s1 = Some (ws @ us) \<and> ap_cluster s1 = ap_cluster s \<and> ap_auth s1 = ap_auth s \<and>
    ap_calls s1 = ap_calls s @ map Start us @ (case x of None \<Rightarrow> [] | Some e \<Rightarrow> [Start (hd rest)]) \<and> (x = None \<longleftrightarrow> rest = [])"
  using assms
proof (induction vs arbitrary: s ws)
  case (Cons v vs)
  show ?case
  proof (cases "av_start E v (ap_calls s)")
    case None
    let ?s = "(noted (Start v) s)\<lparr>ap_started := Some (ws @ [v])\<rparr>"
    have "start_services E vs ?s = (x, s1)" using Cons.prems None by simp
    from Cons.IH [OF this] obtain us rest where ih: "vs = us @ rest" "ap_started s1 = Some ((ws @ [v]) @ us)" "ap_cluster s1 = ap_cluster s"
        "ap_auth s1 = ap_auth s"
        "ap_calls s1 = (ap_calls s @ [Start v]) @ map Start us @ (case x of None \<Rightarrow> [] | Some e \<Rightarrow> [Start (hd rest)])" "x = None \<longleftrightarrow> rest = []"
      by (auto simp: noted_def)
    then show ?thesis by (intro exI [of _ "v # us"] exI [of _ rest]) simp
  next
    case (Some e)
    with Cons.prems have "x = Some e" "s1 = noted (Start v) s" by auto
    with Cons.prems show ?thesis by (intro exI [of _ "[]"] exI [of _ "v # vs"]) (simp add: noted_def)
  qed
qed auto

subsection \<open>What the checks establish\<close>

lemma gather_keeps:
  assumes "gather_checks fs s = (x, s1)" and "P s" and "\<And>f s y s'. f \<in> set fs \<Longrightarrow> f s = (y, s') \<Longrightarrow> P s \<Longrightarrow> P s'"
  shows "P s1"
  using assms
proof (induction fs arbitrary: s x s1)
  case (Cons f fs)
  obtain y s2 where f: "f s = (y, s2)" by fastforce
  obtain z s3 where rest: "gather_checks fs s2 = (z, s3)" by fastforce
  have "P s2" using Cons.prems(2,3) f by auto
  then have "P s3" using Cons.IH [OF rest] Cons.prems(3) by auto
  then show ?case using \<open>P s2\<close> Cons.prems(1) f rest by (auto split: sum.splits)
qed simp

lemma gather_establishes:
  assumes "gather_checks (pre @ f # post) s = (Inr rs, s1)" and "system_healthy rs"
    and "\<And>s r s'. f s = (Inr r, s') \<Longrightarrow> pf_passed r \<Longrightarrow> P s'"
    and "\<And>g s y s'. g \<in> set post \<Longrightarrow> g s = (y, s') \<Longrightarrow> P s \<Longrightarrow> P s'"
  shows "P s1"
proof -
  obtain qs r ts s2 s3 where "gather_checks pre s = (Inr qs, s2)" and f: "f s2 = (Inr r, s3)" and post: "gather_checks post s3 = (Inr ts, s1)"
      and "rs = qs @ r # ts"
    using assms(1) by (auto simp: gather_checks_append split: prod.splits sum.splits)
  then have "P s3" using assms(2,3) by (auto simp: system_healthy_def)
  then show ?thesis by (rule gather_keeps [OF post]) (use assms(4) in blast)
qed

lemma profile_keeps_status: "get_current_user_profile E now a = (p, a1) \<Longrightarrow> au_status a1 = au_status a"
  by (auto simp: get_current_user_profile_def manager_access_token_def Let_def split: if_splits option.splits prod.splits sum.splits)

lemmas app_checks = app_auth_check_def app_topics_check_def app_models_check_def app_features_check_def app_api_check_def
  database_check_def redis_check_def redpanda_check_def

lemma checks_keep_calls:
  assumes "gather_checks (health_checks_list E) s = (x, s1)"
  shows "ap_calls s1 = ap_calls s" and "ap_started s1 = ap_started s"
proof -
  have "ap_calls s1 = ap_calls s \<and> ap_started s1 = ap_started s"
    by (rule gather_keeps [OF assms, where P = "\<lambda>t. ap_calls t = ap_calls s \<and> ap_started t = ap_started s"])
      (auto simp: health_checks_list_def app_checks split: prod.splits)
  then show "ap_calls s1 = ap_calls s" "ap_started s1 = ap_started s" by auto
qed

lemma checks_authenticate:
  assumes "gather_checks (health_checks_list E) s = (Inr rs, s1)" and "system_healthy rs"
  shows "au_status (ap_auth s1) = AUTHENTICATED"
proof (rule gather_establishes [where pre = "[]" and f = "app_auth_check E"])
  show "gather_checks ([] @ app_auth_check E # tl (health_checks_list E)) s = (Inr rs, s1)"
    using assms(1) by (simp add: health_checks_list_def)
  show "au_status (ap_auth s') = AUTHENTICATED" if "app_auth_check E t = (Inr r, s')" "pf_passed r" for t r s'
    using that profile_keeps_status
    by (fastforce simp: app_auth_check_def zerodha_auth_check_def is_authenticated_def split: if_splits prod.splits option.splits)
  show "au_status (ap_auth s') = AUTHENTICATED"
    if "g \<in> set (tl (health_checks_list E))" "g t = (y, s')" "au_status (ap_auth t) = AUTHENTICATED" for g t y s'
    using that profile_keeps_status
    by (fastforce simp: health_checks_list_def app_checks broker_api_check_def broker_profile_check_def is_authenticated_def
        split: prod.splits option.splits)
qed (rule assms(2))

lemma checks_find_topics:
  assumes "gather_checks (health_checks_list E) s = (Inr rs, s1)" and "system_healthy rs" and "topic_cluster (av_admin E) topics"
    and "b \<in> set (cg_brokers (av_settings E))"
  shows "set (required_topics b) \<subseteq> topics (ap_cluster s1)"
proof (rule gather_establishes [where pre = "take 5 (health_checks_list E)" and f = "app_topics_check E"])
  show "gather_checks (take 5 (health_checks_list E) @ app_topics_check E # drop 6 (health_checks_list E)) s = (Inr rs, s1)"
    using assms(1) by (simp add: health_checks_list_def numeral_eq_Suc)
  show "set (required_topics b) \<subseteq> topics (ap_cluster s')" if t: "app_topics_check E t = (Inr r, s')" and p: "pf_passed r" for t r s'
  proof -
    obtain k where "broker_topics_check (av_admin E) (topic_env_of E) (ap_cluster t) = (r, k)" "s' = t\<lparr>ap_cluster := k\<rparr>"
      using t by (cases "broker_topics_check (av_admin E) (topic_env_of E) (ap_cluster t)") (auto simp: app_topics_check_def)
    then show ?thesis
      using topic_cluster.topics_check [OF assms(3) _ p] assms(4) by (simp add: topic_env_of_def)
  qed
  show "set (required_topics b) \<subseteq> topics (ap_cluster s')"
    if "g \<in> set (drop 6 (health_checks_list E))" "g t = (y, s')" "set (required_topics b) \<subseteq> topics (ap_cluster t)" for g t y s'
  proof -
    have "ap_cluster s' = ap_cluster t"
      using that(1,2) by (auto simp: health_checks_list_def numeral_eq_Suc app_checks split: prod.splits)
    with that(3) show ?thesis by simp
  qed
qed (rule assms(2))

lemma checks_find_servers:
  assumes "gather_checks (health_checks_list E) s = (Inr rs, s1)" and "system_healthy rs"
  shows "in_database (av_infra E) = None \<and> in_redis (av_infra E) = None \<and> in_kafka (av_infra E) = None"
proof (rule gather_establishes [where pre = "[app_auth_check E]" and f = "\<lambda>s. (Inr (infra_check (av_infra E)), s)"])
  show "gather_checks ([app_auth_check E] @ (\<lambda>s. (Inr (infra_check (av_infra E)), s)) # drop 2 (health_checks_list E)) s = (Inr rs, s1)"
    using assms(1) by (simp add: health_checks_list_def numeral_eq_Suc)
qed (use assms(2) in \<open>auto simp: infra_check_def Let_def split: if_splits\<close>)

text \<open>Where a start ends: before the services, with none of them started, or among them, after all checks passed.\<close>

lemma startup_cases:
  assumes "startup E (app_init a D k) = (x, s)"
  shows "(\<forall>v. Start v \<in> set (ap_calls s) \<longrightarrow> v = Auth_Service) \<and> ap_started s = None \<and> x \<noteq> None \<or>
    config_sound (av_probes E) (av_settings E) \<and>
    (\<exists>s0 rs s1. ap_calls s0 = [Db_Init, Db_Wait, Start Auth_Service, Run_Checks] \<and> gather_checks (health_checks_list E) s0 = (Inr rs, s1) \<and>
      system_healthy rs \<and> start_services E (remaining_services (av_settings E)) (s1\<lparr>ap_started := Some []\<rparr>) = (x, s))"
proof (cases "config_sound (av_probes E) (av_settings E)")
  case False
  obtain y t where t: "stop_services E (rev lifespan_services) (app_init a D k) = (y, t)" by fastforce
  from stop_services_calls [OF t] t False assms show ?thesis
    by (auto simp: startup_def Let_def validated_is_sound cleanup_partial_initialization_def noted_def split: if_splits)
next
  case True
  obtain y s1 where db: "start_database E (app_init a D k) = (y, s1)" by fastforce
  show ?thesis
  proof (cases y)
    case (Some e)
    with assms db True show ?thesis
      by (auto simp: startup_def validated_is_sound start_database_def noted_def Let_def config_sound_def split: option.splits if_splits)
  next
    case None
    let ?s0 = "noted Run_Checks (start_auth E s1)"
    have c: "ap_calls ?s0 = [Db_Init, Db_Wait, Start Auth_Service, Run_Checks]" "ap_started ?s0 = None"
      using db None by (auto simp: start_database_def noted_def start_auth_def Let_def split: option.splits if_splits)
    have run: "start_checked E (start_auth E s1) = (x, s)"
      using assms db None True by (simp add: startup_def Let_def validated_is_sound config_sound_def)
    obtain z s2 where g: "gather_checks (health_checks_list E) ?s0 = (z, s2)" by fastforce
    have c2: "ap_calls s2 = ap_calls ?s0" "ap_started s2 = ap_started ?s0" by (rule checks_keep_calls [OF g])+
    show ?thesis
    proof (cases "\<exists>rs. z = Inr rs \<and> system_healthy rs")
      case True
      with run g c \<open>config_sound _ _\<close> show ?thesis by (auto simp: start_checked_def)
    next
      case False
      obtain w t where t: "stop_services E (rev lifespan_services) s2 = (w, t)" by fastforce
      from stop_services_calls [OF t] t False run g c c2 show ?thesis
        by (cases z) (auto simp: start_checked_def cleanup_partial_initialization_def noted_def)
    qed
  qed
qed

lemma shutdown_calls:
  assumes "\<And>v c e. av_stop E v c = Some e \<Longrightarrow> \<not> cancelled e"
  shows "ap_calls (app_shutdown E s) = ap_calls s @ map Stop (rev (services_to_stop s)) @ Streaming_Shutdown
    # (if av_streaming E = None then [Db_Shutdown] else [])"
proof -
  have "stop_services E vs t = (Some e, t') \<Longrightarrow> \<not> cancelled e" for vs t t' e
    by (induction vs arbitrary: t e) (auto simp: stop_service_def assms split: prod.splits option.splits if_splits)
  moreover obtain x t where t: "stop_services E (rev (services_to_stop s)) s = (x, t)" by fastforce
  ultimately show ?thesis
    using stop_services_calls(1) [OF t] by (cases x) (auto simp: app_shutdown_def noted_def Let_def)
qed

lemma shutdown_keeps:
  "ap_cluster (app_shutdown E s) = ap_cluster s" "au_status (ap_auth (app_shutdown E s)) = au_status (ap_auth s)"
  "Start v \<in> set (ap_calls (app_shutdown E s)) \<longleftrightarrow> Start v \<in> set (ap_calls s)"
proof -
  obtain x t where t: "stop_services E (rev (services_to_stop s)) s = (x, t)" by fastforce
  obtain y u where u: "stop_services E (rev (services_to_stop s)) t = (y, u)" by fastforce
  note facts = stop_services_calls [OF t] stop_services_calls [OF u]
  show "ap_cluster (app_shutdown E s) = ap_cluster s" "au_status (ap_auth (app_shutdown E s)) = au_status (ap_auth s)"
    "Start v \<in> set (ap_calls (app_shutdown E s)) \<longleftrightarrow> Start v \<in> set (ap_calls s)"
    using t u facts by (auto simp: app_shutdown_def noted_def Let_def split: option.splits)
qed

subsection \<open>Runs of the application\<close>



text \<open>A configuration that is not sound stops every service twice, none of which was started.\<close>

lemma refused_start_stops_everything:
  assumes "\<not> config_sound (av_probes E) (av_settings E)" and "cg_environment (av_settings E) \<noteq> PRODUCTION"
    and calm: "\<And>v c e. av_stop E v c = Some e \<Longrightarrow> \<not> cancelled e"
  shows "ap_calls (snd (run_app E (app_init a D k))) = map Stop (rev lifespan_services) @ Db_Shutdown # map Stop (rev lifespan_services)
    @ Streaming_Shutdown # (if av_streaming E = None then [Db_Shutdown] else [])"
proof -
  obtain y t where t: "stop_services E (rev lifespan_services) (app_init a D k) = (y, t)" by fastforce
  have s1: "startup E (app_init a D k) = (Some system_exit, noted Db_Shutdown t)"
    using assms(1,2) t by (simp add: startup_def Let_def validated_is_sound cleanup_partial_initialization_def)
  have "services_to_stop (noted Db_Shutdown t) = lifespan_services"
    using stop_services_calls(2) [OF t] by (simp add: services_to_stop_def noted_def)
  then show ?thesis
    using shutdown_calls [OF calm, where s = "noted Db_Shutdown t"] stop_services_calls(1) [OF t] s1
    by (simp add: run_app_def) (simp add: noted_def)
qed

subsection \<open>An example\<close>

definition demo_settings :: settings where
  "demo_settings = default_app_settings\<lparr>cg_brokers := [''paper''], cg_secret_key := ''0123456789abcdef''\<rparr>"

definition demo_app_env :: "(service \<Rightarrow> exn option) \<Rightarrow> ((string \<times> session_row) list, (string \<times> nat list) list) app_env" where
  "demo_app_env starts =
     \<lparr>av_settings = demo_settings,
      av_probes = \<lparr>pb_logs_parent = None, pb_migrations = None, pb_database = Some None, pb_redis = Some None, pb_show_set = (\<lambda>_. [])\<rparr>,
      av_db_init = None, av_db_polls = (\<lambda>_. 0, \<lambda>_. True),
      av_infra = \<lparr>in_database = None, in_redis = None, in_kafka = None, in_kafka_close = None\<rparr>,
      av_auth = demo_env, av_now = 0, av_typed = Line ''0123456789'', av_admin = list_admin, av_broker_count = Inr 1, av_multiplier = Inr 1,
      av_auto_bootstrap = True, av_models_dir = ''dir'', av_exists = (\<lambda>_. True), av_auto_fix = True, av_ml_available = False,
      av_num = plain_num, av_loader = demo_loader, av_tick_time = \<lparr>dt_date = [], dt_time = []\<rparr>, av_date_text = (\<lambda>_. []),
      av_local = \<lparr>ld_date = 0, ld_time = time_of 10 0\<rparr>, av_start = (\<lambda>v _. starts v), av_stop = (\<lambda>_ _. None),
      av_streaming = None\<rparr>"

definition demo_app :: "((string \<times> session_row) list, (string \<times> nat list) list) app" where
  "demo_app = app_init (auth_init demo_env True []) demo_strategy_db []"

lemma demo_app_fields [simp]:
  "av_settings (demo_app_env f) = demo_settings" "av_db_init (demo_app_env f) = None" "av_db_polls (demo_app_env f) = (\<lambda>_. 0, \<lambda>_. True)"
  "av_infra (demo_app_env f) = \<lparr>in_database = None, in_redis = None, in_kafka = None, in_kafka_close = None\<rparr>"
  "av_auth (demo_app_env f) = demo_env" "av_now (demo_app_env f) = 0" "av_typed (demo_app_env f) = Line ''0123456789''"
  "av_admin (demo_app_env f) = list_admin" "av_models_dir (demo_app_env f) = ''dir''" "av_exists (demo_app_env f) = (\<lambda>_. True)"
  "av_auto_fix (demo_app_env f) = True" "av_ml_available (demo_app_env f) = False" "av_start (demo_app_env f) = (\<lambda>v _. f v)"
  "av_stop (demo_app_env f) = (\<lambda>_ _. None)" "av_streaming (demo_app_env f) = None"
  by (simp_all add: demo_app_env_def)

lemma authenticated_checks_pass:
  assumes "au_status a = AUTHENTICATED" and "au_profile a = Some p"
  shows "\<exists>r. zerodha_auth_check E now a = (r, a) \<and> pf_passed r" "\<exists>r. broker_api_check E now typed a = (r, a) \<and> pf_passed r"
  using assms by (simp_all add: zerodha_auth_check_def broker_api_check_def broker_profile_check_def get_current_user_profile_def is_authenticated_def)

lemma demo_login_works:
  "\<exists>p a. auth_initialize demo_env 0 (Line ''0123456789'') (auth_init demo_env True []) = (True, a) \<and> au_status a = AUTHENTICATED \<and> au_profile a = Some p"
proof -
  obtain b a where run: "auth_initialize demo_env 0 (Line ''0123456789'') (auth_init demo_env True []) = (b, a)" by fastforce
  moreover have b
    using run by (auto simp: auth_initialize_def load_session_def pick_session_def list_rows_def interactive_authentication_def
        validate_api_credentials_def generate_session_def response_token_def blank_def strip_def is_space_def demo_login)
  ultimately show ?thesis using auth_initialize_facts [OF run] by auto
qed

lemma demo_models_check: "\<exists>r. ml_models_check ''dir'' (\<lambda>_. True) True DEVELOPMENT demo_strategy_db = (r, demo_strategy_db) \<and> pf_passed r"
  by (simp add: ml_models_check_def demo_strategy_db_def demo_ml_path ebind_def models_verdict_def Let_def)

lemma demo_healthy:
  assumes "au_status (ap_auth s) = AUTHENTICATED" and "au_profile (ap_auth s) = Some p" and "ap_strategies s = demo_strategy_db" and "ap_cluster s = []"
  shows "\<exists>rs s1. gather_checks (health_checks_list (demo_app_env f)) s = (Inr rs, s1) \<and> system_healthy rs"
proof -
  obtain r1 where r1: "zerodha_auth_check demo_env 0 (ap_auth s) = (r1, ap_auth s)" "pf_passed r1"
    using authenticated_checks_pass(1) [OF assms(1,2)] by blast
  obtain r2 where r2: "broker_api_check demo_env 0 (Line ''0123456789'') (ap_auth s) = (r2, ap_auth s)" "pf_passed r2"
    using authenticated_checks_pass(2) [OF assms(1,2)] by blast
  obtain r3 where r3: "ml_models_check ''dir'' (\<lambda>_. True) True DEVELOPMENT demo_strategy_db = (r3, demo_strategy_db)" "pf_passed r3"
    using demo_models_check by blast
  obtain r4 k where r4: "broker_topics_check list_admin dev_topics [] = (r4, k)" by fastforce
  have "pf_passed r4" using dev_topics_created r4 by (metis fst_conv)
  moreover have "topic_env_of (demo_app_env f) = dev_topics"
    by (simp add: topic_env_of_def demo_app_env_def dev_topics_def demo_settings_def default_app_settings_def)
  moreover have "cg_environment demo_settings = DEVELOPMENT" by (simp add: demo_settings_def default_app_settings_def)
  ultimately show ?thesis
    using r1 r2 r3 r4 assms(3,4)
    by (simp add: health_checks_list_def app_checks system_healthy_def infra_check_def connection_check_def ml_features_check_def market_hours_check_def)
      (simp add: active_strategies_check_def demo_strategy_db_def)
qed

lemma demo_sound: "config_sound (av_probes (demo_app_env f)) (av_settings (demo_app_env f))"
  by (simp add: demo_app_env_def demo_settings_def config_sound_def default_app_settings_def default_secret_def known_brokers_def valid_log_levels_def
      str_upper_def char_upper_def)

lemma demo_startup:
  "\<exists>s0 rs s1. gather_checks (health_checks_list (demo_app_env f)) s0 = (Inr rs, s1) \<and>
     startup (demo_app_env f) demo_app = start_services (demo_app_env f) (remaining_services demo_settings) (s1\<lparr>ap_started := Some []\<rparr>)"
proof -
  obtain s0 where s0: "start_database (demo_app_env f) demo_app = (None, s0)" "ap_auth s0 = auth_init demo_env True []"
      "ap_strategies s0 = demo_strategy_db" "ap_cluster s0 = []"
    by (simp add: start_database_def demo_app_def app_init_def noted_def Let_def wait_for_ready.simps)
  obtain p a where a: "auth_initialize demo_env 0 (Line ''0123456789'') (auth_init demo_env True []) = (True, a)" "au_status a = AUTHENTICATED" "au_profile a = Some p"
    using demo_login_works by blast
  let ?s = "noted Run_Checks (start_auth (demo_app_env f) s0)"
  have "ap_auth ?s = a" "ap_strategies ?s = demo_strategy_db" "ap_cluster ?s = []"
    using a s0 by (simp_all add: noted_def start_auth_def)
  then obtain rs s1 where g: "gather_checks (health_checks_list (demo_app_env f)) ?s = (Inr rs, s1)" "system_healthy rs"
    using demo_healthy [of ?s p f] a by auto
  have "startup (demo_app_env f) demo_app = start_checked (demo_app_env f) (start_auth (demo_app_env f) s0)"
    using s0(1) demo_sound [of f] by (simp add: startup_def validated_is_sound Let_def config_sound_def)
  also have "\<dots> = start_services (demo_app_env f) (remaining_services demo_settings) (s1\<lparr>ap_started := Some []\<rparr>)"
    using g by (simp add: start_checked_def)
  finally show ?thesis using g by blast
qed

lemma demo_remaining: "remaining_services demo_settings = [Registry_Service, Feed_Service, Runner_Service, Risk_Service, Paper_Service, Monitor_Service]"
  by (simp add: remaining_services_def lifespan_services_def allowed_def demo_settings_def default_app_settings_def is_paper_trading_enabled_def
      is_zerodha_trading_enabled_def)

lemma demo_reaches: "Start Registry_Service \<in> set (ap_calls (snd (run_app (demo_app_env f) demo_app)))"
proof -
  obtain s0 rs s1 where st: "startup (demo_app_env f) demo_app = start_services (demo_app_env f) (remaining_services demo_settings) (s1\<lparr>ap_started := Some []\<rparr>)"
    using demo_startup by blast
  obtain x t where t: "startup (demo_app_env f) demo_app = (x, t)" by fastforce
  then have "start_services (demo_app_env f) (remaining_services demo_settings) (s1\<lparr>ap_started := Some []\<rparr>) = (x, t)" using st by simp
  from start_services_run [OF this] obtain us rest where "remaining_services demo_settings = us @ rest"
      "ap_calls t = ap_calls s1 @ map Start us @ (case x of None \<Rightarrow> [] | Some e \<Rightarrow> [Start (hd rest)])" "x = None \<longleftrightarrow> rest = []" by auto
  then have "Start Registry_Service \<in> set (ap_calls t)" by (cases us) (auto simp: demo_remaining split: option.splits)
  then show ?thesis using t by (simp add: run_app_def shutdown_keeps)
qed


lemma start_services_succeed: "\<forall>v c. av_start E v c = None \<Longrightarrow> fst (start_services E vs s) = None"
  by (induction vs arbitrary: s) auto


end
