(* ===== verification/Log_Correlation.thy ===== *)
theory Log_Correlation
  imports Py_Format Exceptions
begin

text \<open>
  Correlation of log lines across services (core/logging/correlation.py): the identifier and the context of the
  running task, and how both travel in the metadata of a message. The two context variables are a record; the generator of
  identifiers and the clock are the arguments \<open>fresh\<close> and \<open>now\<close>. A message is a dictionary of JSON values.
\<close>

record log_ctx =
  lc_id :: json
  lc_context :: "(string \<times> json) list"

definition log_ctx_init :: log_ctx where
  "log_ctx_init = \<lparr>lc_id = JNull, lc_context = []\<rparr>"

definition dict_update :: "(string \<times> json) list \<Rightarrow> (string \<times> json) list \<Rightarrow> (string \<times> json) list" where
  "dict_update d kvs = fold (\<lambda>(k, v) d. dict_set k v d) kvs d"

subsection \<open>CorrelationIdManager\<close>

definition set_cid :: "json \<Rightarrow> log_ctx \<Rightarrow> log_ctx" where
  "set_cid i x = x\<lparr>lc_id := i\<rparr>"

definition ensure_cid :: "string \<Rightarrow> log_ctx \<Rightarrow> json \<times> log_ctx" where
  "ensure_cid fresh x = (if lc_id x = JNull then (JStr fresh, set_cid (JStr fresh) x) else (lc_id x, x))"

definition set_correlation_context :: "(string \<times> json) list \<Rightarrow> log_ctx \<Rightarrow> (string \<times> json) list \<times> log_ctx" where
  "set_correlation_context kwargs x = (let c = dict_update (lc_context x) kwargs in (c, x\<lparr>lc_context := c\<rparr>))"

definition clear_correlation :: "log_ctx \<Rightarrow> log_ctx" where
  "clear_correlation x = x\<lparr>lc_id := JNull, lc_context := []\<rparr>"

definition get_full_correlation_info :: "string \<Rightarrow> log_ctx \<Rightarrow> (string \<times> json) list" where
  "get_full_correlation_info now x =
     [(''correlation_id'', lc_id x), (''correlation_context'', JObj (lc_context x)), (''timestamp'', JStr now)]"

text \<open>The decorator: the wrapped function runs in the context prepared for it.\<close>

definition with_correlation_id :: "string option \<Rightarrow> string \<Rightarrow> (log_ctx \<Rightarrow> 'a) \<Rightarrow> log_ctx \<Rightarrow> 'a" where
  "with_correlation_id cid fresh f x =
     (case cid of Some (c # cs) \<Rightarrow> f (set_cid (JStr (c # cs)) x) | _ \<Rightarrow> f (snd (ensure_cid fresh x)))"

definition create_correlation_context ::
  "string \<Rightarrow> string \<Rightarrow> string \<Rightarrow> string \<Rightarrow> string option \<Rightarrow> string option \<Rightarrow> (string \<times> json) list \<Rightarrow> log_ctx \<Rightarrow> json \<times> log_ctx" where
  "create_correlation_context fresh now service operation broker user_id additional x =
     (let (cid, x1) = ensure_cid fresh x;
          c0 = [(''service'', JStr service), (''operation'', JStr operation), (''started_at'', JStr now)];
          c1 = (case broker of Some (b # bs) \<Rightarrow> dict_set ''broker'' (JStr (b # bs)) c0 | _ \<Rightarrow> c0);
          c2 = (case user_id of Some (u # us) \<Rightarrow> dict_set ''user_id'' (JStr (u # us)) c1 | _ \<Rightarrow> c1)
      in (cid, snd (set_correlation_context (dict_update c2 additional) x1)))"

subsection \<open>Messages\<close>

definition bad_metadata :: exn where
  "bad_metadata = raise_exn (Other ''TypeError'') ''object does not support item assignment''"

text \<open>A list has no string indices and other values no items, so both raise.\<close>

definition propagate_correlation :: "log_ctx \<Rightarrow> (string \<times> json) list \<Rightarrow> exn + (string \<times> json) list" where
  "propagate_correlation x message =
     (if \<not> py_truthy (lc_id x) then Inr message
      else case (case jget message ''metadata'' of None \<Rightarrow> JObj [] | Some md \<Rightarrow> md) of
          JObj md \<Rightarrow> Inr (dict_set ''metadata''
                      (JObj (dict_set ''correlation_context'' (JObj (lc_context x)) (dict_set ''correlation_id'' (lc_id x) md))) message)
        | _ \<Rightarrow> Inl bad_metadata)"

definition no_get :: exn where
  "no_get = raise_exn (Other ''AttributeError'') ''object has no attribute get''"

definition not_a_mapping :: exn where
  "not_a_mapping = raise_exn (Other ''TypeError'') ''argument after ** must be a mapping''"

definition extract_correlation :: "(string \<times> json) list \<Rightarrow> log_ctx \<Rightarrow> (exn + json) \<times> log_ctx" where
  "extract_correlation message x =
     (case (case jget message ''metadata'' of None \<Rightarrow> JObj [] | Some md \<Rightarrow> md) of
        JObj md \<Rightarrow>
          (let cid = jget_none md ''correlation_id'';
               context = (case jget md ''correlation_context'' of None \<Rightarrow> JObj [] | Some c \<Rightarrow> c)
           in if \<not> py_truthy cid then (Inr cid, x)
              else let x1 = set_cid cid x in
                if \<not> py_truthy context then (Inr cid, x1)
                else case context of
                    JObj kvs \<Rightarrow> (Inr cid, snd (set_correlation_context kvs x1))
                  | _ \<Rightarrow> (Inl not_a_mapping, x1))
      | _ \<Rightarrow> (Inl no_get, x))"

text \<open>CorrelatedLogger._add_correlation_info: the keyword arguments of a log call.\<close>

definition add_correlation_info :: "string \<Rightarrow> log_ctx \<Rightarrow> (string \<times> json) list \<Rightarrow> (string \<times> json) list" where
  "add_correlation_info now x kwargs = dict_update kwargs (get_full_correlation_info now x)"

subsection \<open>What travels with a message\<close>

lemma dict_update_simps [simp]: "dict_update d [] = d" "dict_update d ((k, v) # kvs) = dict_update (dict_set k v d) kvs"
  by (simp_all add: dict_update_def)

lemma map_of_dict_update: "map_of (dict_update d kvs) k = (case map_of (rev kvs) k of None \<Rightarrow> map_of d k | Some v \<Rightarrow> Some v)"
  by (induction kvs arbitrary: d) (auto split: option.splits simp: map_add_def)

lemma dict_set_fresh: "k \<notin> fst ` set d \<Longrightarrow> dict_set k v d = d @ [(k, v)]"
  by (induction k v d rule: dict_set.induct) auto

lemma dict_update_fresh:
  "distinct (map fst kvs) \<Longrightarrow> fst ` set kvs \<inter> fst ` set d = {} \<Longrightarrow> dict_update d kvs = d @ kvs"
proof (induction kvs arbitrary: d)
  case (Cons kv kvs)
  obtain k v where kv: "kv = (k, v)" by fastforce
  with Cons.prems have "dict_set k v d = d @ [(k, v)]" by (intro dict_set_fresh) auto
  with Cons kv show ?case by force
qed simp

text \<open>What one service propagates, the next one extracts: into a clean context, the identifier and the
  context come back unchanged; into a used one, the context is merged over what is there.\<close>

lemma extract_propagated:
  assumes m: "propagate_correlation x message = Inr m" and i: "py_truthy (lc_id x)"
  shows "extract_correlation m y = (Inr (lc_id x), \<lparr>lc_id = lc_id x, lc_context = dict_update (lc_context y) (lc_context x), \<dots> = log_ctx.more y\<rparr>)"
proof -
  let ?md = "case jget message ''metadata'' of None \<Rightarrow> JObj [] | Some md \<Rightarrow> md"
  obtain md where "?md = JObj md" using m i by (cases ?md) (auto simp: propagate_correlation_def)
  with m i have md: "m = dict_set ''metadata''
       (JObj (dict_set ''correlation_context'' (JObj (lc_context x)) (dict_set ''correlation_id'' (lc_id x) md))) message"
    by (simp add: propagate_correlation_def)
  show ?thesis using i
    by (auto simp: md extract_correlation_def jget_def jget_none_def set_cid_def set_correlation_context_def Let_def)
qed

theorem correlation_roundtrip:
  assumes "propagate_correlation x message = Inr m" "py_truthy (lc_id x)" "distinct (map fst (lc_context x))"
  shows "extract_correlation m (clear_correlation y) = (Inr (lc_id x), y\<lparr>lc_id := lc_id x, lc_context := lc_context x\<rparr>) \<and>
    (\<forall>k. k \<noteq> ''metadata'' \<longrightarrow> map_of m k = map_of message k)"
proof
  show "extract_correlation m (clear_correlation y) = (Inr (lc_id x), y\<lparr>lc_id := lc_id x, lc_context := lc_context x\<rparr>)"
    using assms by (simp add: extract_propagated clear_correlation_def dict_update_fresh)
  show "\<forall>k. k \<noteq> ''metadata'' \<longrightarrow> map_of m k = map_of message k"
    using assms(1,2) by (auto simp: propagate_correlation_def split: option.splits json.splits)
qed

theorem correlation_roundtrip_witness:
  "\<exists>m. propagate_correlation \<lparr>lc_id = JStr ''c1'', lc_context = [(''service'', JStr ''risk'')]\<rparr> [(''id'', JInt 7)] = Inr m \<and>
     snd (extract_correlation m log_ctx_init) = \<lparr>lc_id = JStr ''c1'', lc_context = [(''service'', JStr ''risk'')]\<rparr>"
  using correlation_roundtrip [of "\<lparr>lc_id = JStr ''c1'', lc_context = [(''service'', JStr ''risk'')]\<rparr>" "[(''id'', JInt 7)]" _ log_ctx_init]
  by (auto simp: propagate_correlation_def jget_def log_ctx_init_def clear_correlation_def)

text \<open>The context of one message stays for the next: extraction merges and never clears, so a key that only the first message
  carried is logged with the second.\<close>

lemma context_leaks_into_next_message:
  assumes "propagate_correlation x1 message1 = Inr m1" "propagate_correlation x2 message2 = Inr m2"
    and "py_truthy (lc_id x1)" "py_truthy (lc_id x2)" "map_of (rev (lc_context x1)) k = Some v" "map_of (rev (lc_context x2)) k = None"
  shows "map_of (lc_context (snd (extract_correlation m2 (snd (extract_correlation m1 y))))) k = Some v"
  using assms by (simp add: extract_propagated map_of_dict_update)

lemma context_leaks_into_next_message_witness:
  "map_of (lc_context (snd (extract_correlation [(''metadata'', JObj [(''correlation_id'', JStr ''b'')])]
     (snd (extract_correlation [(''metadata'', JObj [(''correlation_id'', JStr ''a''), (''correlation_context'', JObj [(''user_id'', JInt 1)])])]
       log_ctx_init))))) ''user_id'' = Some (JInt 1)"
  by (simp add: extract_correlation_def jget_def jget_none_def set_cid_def set_correlation_context_def log_ctx_init_def Let_def)

text \<open>A message without an identifier leaves the context alone, and its caller is given no identifier.\<close>

lemma extract_without_id:
  "jget message ''metadata'' = None \<Longrightarrow> extract_correlation message x = (Inr JNull, x)"
  by (simp add: extract_correlation_def jget_none_def jget_def)

lemma ensure_keeps: "lc_id x \<noteq> JNull \<Longrightarrow> ensure_cid fresh x = (lc_id x, x)"
  by (simp add: ensure_cid_def)

text \<open>A log call always carries the identifier of its task, even when the caller passes one of its own.\<close>

lemma log_call_is_correlated:
  "map_of (add_correlation_info now x kwargs) ''correlation_id'' = Some (lc_id x)"
  "map_of (add_correlation_info now x kwargs) ''correlation_context'' = Some (JObj (lc_context x))"
  by (simp_all add: add_correlation_info_def get_full_correlation_info_def)

lemma created_context:
  "fst (create_correlation_context fresh now service operation broker user additional x) = fst (ensure_cid fresh x)"
  "lc_id (snd (create_correlation_context fresh now service operation broker user additional x)) \<noteq> JNull"
  by (auto simp: create_correlation_context_def set_correlation_context_def ensure_cid_def set_cid_def Let_def)

end
