(* ===== verification/Log_Processors.thy ===== *)
theory Log_Processors
  imports Log_Correlation
begin

text \<open>
  The structlog processors that EnhancedLoggerManager configures (core/logging/enhanced_logging.py, _configure_structlog):
  correlation, standard context, normalised errors and the redaction of secrets. An event is a dictionary of
  JSON values (the code passes other objects through unchanged). The processors of structlog that run between
  them are the parameters \<open>lib\<close> and \<open>decode\<close>.
\<close>

type_synonym event = "(string \<times> json) list"

definition setdefault :: "string \<Rightarrow> json \<Rightarrow> event \<Rightarrow> event" where
  "setdefault k v d = (case jget d k of None \<Rightarrow> dict_set k v d | Some _ \<Rightarrow> d)"

definition add_correlation_id :: "log_ctx \<Rightarrow> event \<Rightarrow> event" where
  "add_correlation_id x d =
     (if \<not> py_truthy (lc_id x) then d
      else let d1 = dict_set ''correlation_id'' (lc_id x) d in
        if lc_context x = [] then d1 else dict_set ''correlation_context'' (JObj (lc_context x)) d1)"

record log_settings =
  ls_environment :: "string option"
  ls_app_name :: "string option"
  ls_version :: "string option"
  ls_redact_keys :: "string list option"

definition opt_default :: "string \<Rightarrow> string option \<Rightarrow> event \<Rightarrow> event" where
  "opt_default k v d = (case v of Some (c # cs) \<Rightarrow> setdefault k (JStr (c # cs)) d | _ \<Rightarrow> d)"

definition add_standard_context :: "log_settings \<Rightarrow> event \<Rightarrow> event" where
  "add_standard_context st d =
     (let d1 = (case ls_environment st of None \<Rightarrow> d | Some e \<Rightarrow> setdefault ''env'' (JStr e) d)
      in opt_default ''version'' (ls_version st) (opt_default ''service'' (ls_app_name st) d1))"

subsection \<open>Redaction\<close>

definition default_redact_keys :: "string list" where
  "default_redact_keys =
     [''authorization'', ''access_token'', ''refresh_token'', ''api_key'', ''api-secret'', ''api_secret'', ''password'', ''secret'',
      ''token'', ''set-cookie'']"

definition keys_to_redact :: "log_settings \<Rightarrow> string list" where
  "keys_to_redact st = (case ls_redact_keys st of Some (k # ks) \<Rightarrow> k # ks | _ \<Rightarrow> default_redact_keys)"

definition redacted :: json where
  "redacted = JStr ''[REDACTED]''"

fun redact :: "string list \<Rightarrow> json \<Rightarrow> json" and redact_items :: "string list \<Rightarrow> event \<Rightarrow> event" and
  redact_list :: "string list \<Rightarrow> json list \<Rightarrow> json list" where
  "redact ks (JObj kvs) = JObj (redact_items ks kvs)"
| "redact ks (JList xs) = JList (redact_list ks xs)"
| "redact ks v = v"
| "redact_items ks [] = []"
| "redact_items ks ((k, v) # kvs) = (k, if str_lower k \<in> set ks then redacted else redact ks v) # redact_items ks kvs"
| "redact_list ks [] = []"
| "redact_list ks (v # vs) = redact ks v # redact_list ks vs"

definition redact_sensitive :: "log_settings \<Rightarrow> event \<Rightarrow> event" where
  "redact_sensitive st d = redact_items (keys_to_redact st) d"

subsection \<open>Normalised errors\<close>

definition line_end :: "char \<Rightarrow> bool" where
  "line_end c = (c \<in> {CHR 0x0A, CHR 0x0B, CHR 0x0C, CHR 0x0D, CHR 0x1C, CHR 0x1D, CHR 0x1E})"

definition first_line :: "string \<Rightarrow> string" where
  "first_line s = takeWhile (\<lambda>c. \<not> line_end c) s"

definition split_error :: "string \<Rightarrow> event \<Rightarrow> event" where
  "split_error line d =
     (if CHR '':'' \<in> set line
      then setdefault ''error_message'' (JStr (strip (tl (dropWhile (\<lambda>c. c \<noteq> CHR '':'') line))))
             (setdefault ''error_type'' (JStr (strip (takeWhile (\<lambda>c. c \<noteq> CHR '':'') line))) d)
      else d)"

definition normalize_error :: "event \<Rightarrow> event" where
  "normalize_error d =
     (let d1 = (case jget d ''exception'' of
                  Some (JStr (c # cs)) \<Rightarrow> split_error (first_line (c # cs)) (setdefault ''stack'' (JStr (c # cs)) d)
                | _ \<Rightarrow> d)
      in case jget d1 ''error'' of
           None \<Rightarrow> d1
         | Some e \<Rightarrow> if py_truthy (jget_none d1 ''error_message'') then d1 else dict_set ''error_message'' (JStr (py_str e)) d1)"

definition run_processors :: "(event \<Rightarrow> event) \<Rightarrow> (event \<Rightarrow> event) \<Rightarrow> log_settings \<Rightarrow> log_ctx \<Rightarrow> event \<Rightarrow> event" where
  "run_processors lib decode st x d =
     redact_sensitive st (decode (normalize_error (lib (add_standard_context st (add_correlation_id x d)))))"

subsection \<open>No secret is written under its name\<close>

text \<open>No sensitive key, at any depth of objects and lists, has another value than the mark.\<close>

fun no_secrets :: "string list \<Rightarrow> json \<Rightarrow> bool" and no_secrets_items :: "string list \<Rightarrow> event \<Rightarrow> bool" and
  no_secrets_list :: "string list \<Rightarrow> json list \<Rightarrow> bool" where
  "no_secrets ks (JObj kvs) = no_secrets_items ks kvs"
| "no_secrets ks (JList xs) = no_secrets_list ks xs"
| "no_secrets ks v = True"
| "no_secrets_items ks [] = True"
| "no_secrets_items ks ((k, v) # kvs) =
     ((if str_lower k \<in> set ks then v = redacted else no_secrets ks v) \<and> no_secrets_items ks kvs)"
| "no_secrets_list ks [] = True"
| "no_secrets_list ks (v # vs) = (no_secrets ks v \<and> no_secrets_list ks vs)"

lemma redact_no_secrets:
  "no_secrets ks (redact ks v)" "no_secrets_items ks (redact_items ks kvs)" "no_secrets_list ks (redact_list ks vs)"
  by (induction ks v and ks kvs and ks vs rule: redact_redact_items_redact_list.induct) (auto simp: redacted_def)

lemma redact_id_iff:
  "redact ks v = v \<longleftrightarrow> no_secrets ks v" "redact_items ks kvs = kvs \<longleftrightarrow> no_secrets_items ks kvs"
  "redact_list ks vs = vs \<longleftrightarrow> no_secrets_list ks vs"
  by (induction ks v and ks kvs and ks vs rule: redact_redact_items_redact_list.induct) (auto simp: redacted_def)

lemma redact_idem: "redact_items ks (redact_items ks kvs) = redact_items ks kvs"
  by (simp add: redact_id_iff redact_no_secrets)

lemma redact_keys: "map fst (redact_items ks kvs) = map fst kvs"
  by (induction kvs) auto

text \<open>Following keys and positions into a value.\<close>

fun follow :: "(string + nat) list \<Rightarrow> json \<Rightarrow> json option" where
  "follow [] v = Some v"
| "follow (Inl k # p) (JObj kvs) = (case map_of kvs k of None \<Rightarrow> None | Some v \<Rightarrow> follow p v)"
| "follow (Inr i # p) (JList vs) = (if i < length vs then follow p (vs ! i) else None)"
| "follow (s # p) v = None"

definition plain_path :: "string list \<Rightarrow> (string + nat) list \<Rightarrow> bool" where
  "plain_path ks p = (\<forall>k. Inl k \<in> set p \<longrightarrow> str_lower k \<notin> set ks)"

lemma map_of_redact:
  "map_of (redact_items ks kvs) k =
     (case map_of kvs k of None \<Rightarrow> None | Some v \<Rightarrow> Some (if str_lower k \<in> set ks then redacted else redact ks v))"
  by (induction kvs) auto

lemma redact_list_map: "redact_list ks vs = map (redact ks) vs"
  by (induction vs) auto

lemma follow_redact:
  "plain_path ks p \<Longrightarrow> follow p (redact ks v) = map_option (redact ks) (follow p v)"
proof (induction p v rule: follow.induct)
  case (2 k p kvs)
  then have "str_lower k \<notin> set ks" "plain_path ks p" by (auto simp: plain_path_def)
  with 2 show ?case by (auto simp: map_of_redact split: option.splits)
next
  case (3 i p vs)
  then have "plain_path ks p" by (auto simp: plain_path_def)
  with 3 show ?case by (auto simp: redact_list_map)
qed simp_all

text \<open>C33: Whatever the processors before it do, no event leaves the chain with a value under a sensitive key, at any depth;
  every value that no sensitive key leads to keeps its place, and a value that holds no secret is written as it is.\<close>

theorem events_leave_without_secrets:
  "no_secrets (keys_to_redact st) (JObj (run_processors lib decode st x d)) \<and>
   (\<forall>p. plain_path (keys_to_redact st) p \<longrightarrow>
     follow p (JObj (run_processors lib decode st x d)) =
       map_option (redact (keys_to_redact st)) (follow p (JObj (decode (normalize_error (lib (add_standard_context st (add_correlation_id x d)))))))) \<and>
   (\<forall>v. no_secrets (keys_to_redact st) v \<longrightarrow> redact (keys_to_redact st) v = v)"
  using follow_redact [of "keys_to_redact st" _ "JObj _"]
  by (simp add: run_processors_def redact_sensitive_def redact_no_secrets redact_id_iff(1))

theorem events_leave_without_secrets_witness:
  "redact_sensitive \<lparr>ls_environment = None, ls_app_name = None, ls_version = None, ls_redact_keys = None\<rparr>
     [(''user'', JStr ''u''), (''Api_Key'', JStr ''k''), (''kite'', JList [JObj [(''access_token'', JStr ''t''), (''mode'', JInt 1)]])] =
     [(''user'', JStr ''u''), (''Api_Key'', redacted), (''kite'', JList [JObj [(''access_token'', redacted), (''mode'', JInt 1)]])] \<and>
   no_secrets default_redact_keys (JObj (run_processors id id
     \<lparr>ls_environment = None, ls_app_name = None, ls_version = None, ls_redact_keys = None\<rparr> log_ctx_init [(''password'', JStr ''p'')]))"
proof
  show "no_secrets default_redact_keys (JObj (run_processors id id
     \<lparr>ls_environment = None, ls_app_name = None, ls_version = None, ls_redact_keys = None\<rparr> log_ctx_init [(''password'', JStr ''p'')]))"
    using events_leave_without_secrets [of "\<lparr>ls_environment = None, ls_app_name = None, ls_version = None, ls_redact_keys = None\<rparr>" id id
        log_ctx_init "[(''password'', JStr ''p'')]"] by (simp add: keys_to_redact_def)
qed code_simp

text \<open>Two ways around it. An error that is a dictionary is copied as text into the message before its own secrets are
  redacted; and a key that is configured with a capital letter never matches.\<close>

lemma error_message_leaks:
  "run_processors id id st log_ctx_init [(''error'', JObj [(''password'', JStr p)])] =
     redact_sensitive st (add_standard_context st [(''error'', JObj [(''password'', JStr p)])] @
       [(''error_message'', JStr (''{'' @ [CHR 0x27] @ ''password'' @ [CHR 0x27] @ '': '' @ [CHR 0x27] @ p @ [CHR 0x27] @ ''}''))])"
  if "ls_environment st = None" "ls_app_name st = None" "ls_version st = None"
  using that by (simp add: run_processors_def normalize_error_def add_correlation_id_def add_standard_context_def opt_default_def
      log_ctx_init_def jget_def jget_none_def Let_def)

lemma capital_keys_never_match:
  assumes "ls_redact_keys st = Some [''Authorization'']"
  shows "redact_sensitive st [(''Authorization'', JStr t), (''authorization'', JStr t)] = [(''Authorization'', JStr t), (''authorization'', JStr t)]"
proof -
  have l: "str_lower ''Authorization'' \<noteq> ''Authorization''" "str_lower ''authorization'' \<noteq> ''Authorization''" by code_simp+
  show ?thesis using assms l by (simp add: redact_sensitive_def keys_to_redact_def)
qed

text \<open>A normalised error keeps the fields that the event already had.\<close>

lemma setdefault_keeps: "jget d k = Some v \<Longrightarrow> jget (setdefault k' v' d) k = Some v"
  by (auto simp: setdefault_def jget_def split: option.splits)

lemma normalize_keeps:
  assumes "jget d k = Some v" "k \<noteq> ''error_message''"
  shows "jget (normalize_error d) k = Some v"
proof -
  have s: "jget (split_error l (setdefault ''stack'' w d)) k = Some v" for l w
    using assms(1) by (auto simp: split_error_def intro!: setdefault_keeps)
  have d: "jget (dict_set ''error_message'' w d') k = jget d' k" for w d'
    using assms(2) by (simp add: jget_def)
  show ?thesis using assms(1) by (auto simp: normalize_error_def Let_def d s split: option.splits json.splits list.splits)
qed

text \<open>An event that says what the error was has a message.\<close>

lemma normalize_gives_message:
  assumes "jget d ''error'' = Some e"
  shows "jget (normalize_error d) ''error_message'' \<noteq> None"
proof -
  have s: "jget (split_error l (setdefault ''stack'' w d)) ''error'' = Some e" for l w
    using assms(1) by (auto simp: split_error_def intro!: setdefault_keeps)
  show ?thesis using assms(1) s [unfolded jget_def]
    by (auto simp: normalize_error_def Let_def jget_none_def jget_def split: option.splits json.splits list.splits)
qed

end
