(* ===== verification/Log_Channels.thy ===== *)
theory Log_Channels
  imports Py_Format Py_Seq "HOL-Library.Monad_Syntax"
begin

text \<open>
  The log channels (core/logging/channels.py) and the filters and formatters in front of their files
  (core/logging/enhanced_logging.py): which component writes to which file, sizes such as 100MB, the channel filter, the
  parser of access log lines, the sampling of informational records and the formatter that strips escape codes. A
  record carries its logger, its level, its channel and its text.
\<close>

datatype log_channel = APPLICATION_LOG | TRADING_LOG | MARKET_DATA_LOG | DATABASE_LOG | API_LOG | AUDIT_LOG | PERFORMANCE_LOG | ERROR_LOG | MONITORING_LOG

definition all_channels :: "log_channel list" where
  "all_channels = [APPLICATION_LOG, TRADING_LOG, MARKET_DATA_LOG, DATABASE_LOG, API_LOG, AUDIT_LOG, PERFORMANCE_LOG, ERROR_LOG, MONITORING_LOG]"

fun channel_value :: "log_channel \<Rightarrow> string" where
  "channel_value APPLICATION_LOG = ''application''"
| "channel_value TRADING_LOG = ''trading''"
| "channel_value MARKET_DATA_LOG = ''market_data''"
| "channel_value DATABASE_LOG = ''database''"
| "channel_value API_LOG = ''api''"
| "channel_value AUDIT_LOG = ''audit''"
| "channel_value PERFORMANCE_LOG = ''performance''"
| "channel_value ERROR_LOG = ''error''"
| "channel_value MONITORING_LOG = ''monitoring''"

record channel_config =
  cc_name :: string
  cc_filename :: string
  cc_level :: nat
  cc_max_bytes :: string
  cc_backup_count :: nat
  cc_retention_days :: "nat option"

definition level_info :: nat where "level_info = 20"

definition level_warning :: nat where "level_warning = 30"

definition level_error :: nat where "level_error = 40"

definition channel_conf :: "string \<Rightarrow> nat \<Rightarrow> string \<Rightarrow> nat \<Rightarrow> nat \<Rightarrow> channel_config" where
  "channel_conf n l mb bc rd =
     \<lparr>cc_name = n, cc_filename = n @ ''.log'', cc_level = l, cc_max_bytes = mb, cc_backup_count = bc, cc_retention_days = Some rd\<rparr>"

fun get_channel_config :: "log_channel \<Rightarrow> channel_config" where
  "get_channel_config APPLICATION_LOG = channel_conf ''application'' level_info ''100MB'' 10 30"
| "get_channel_config TRADING_LOG = channel_conf ''trading'' level_info ''50MB'' 20 365"
| "get_channel_config MARKET_DATA_LOG = channel_conf ''market_data'' level_info ''200MB'' 5 7"
| "get_channel_config DATABASE_LOG = channel_conf ''database'' level_warning ''50MB'' 5 30"
| "get_channel_config API_LOG = channel_conf ''api'' level_info ''50MB'' 10 30"
| "get_channel_config AUDIT_LOG = channel_conf ''audit'' level_info ''100MB'' 50 365"
| "get_channel_config PERFORMANCE_LOG = channel_conf ''performance'' level_info ''50MB'' 10 30"
| "get_channel_config ERROR_LOG = channel_conf ''error'' level_error ''50MB'' 20 90"
| "get_channel_config MONITORING_LOG = channel_conf ''monitoring'' level_info ''50MB'' 10 30"

definition component_mapping :: "(string \<times> log_channel) list" where
  "component_mapping =
     [(''market_feed'', MARKET_DATA_LOG), (''strategy_runner'', TRADING_LOG), (''risk_manager'', TRADING_LOG), (''trading_engine'', TRADING_LOG),
      (''portfolio_manager'', TRADING_LOG), (''paper_trader'', TRADING_LOG), (''zerodha_trader'', TRADING_LOG), (''database'', DATABASE_LOG),
      (''redis'', DATABASE_LOG), (''streaming'', APPLICATION_LOG), (''api'', API_LOG), (''auth'', API_LOG), (''health_checker'', MONITORING_LOG),
      (''metrics'', MONITORING_LOG), (''performance'', PERFORMANCE_LOG), (''audit'', AUDIT_LOG)]"

definition get_channel_for_component :: "string \<Rightarrow> log_channel" where
  "get_channel_for_component c = (case map_of component_mapping c of None \<Rightarrow> APPLICATION_LOG | Some ch \<Rightarrow> ch)"

definition get_channel_statistics :: "nat \<times> (string \<times> channel_config) list" where
  "get_channel_statistics = (length all_channels, map (\<lambda>ch. (channel_value ch, get_channel_config ch)) all_channels)"

lemma channel_in_all [simp]: "ch \<in> set all_channels"
  by (cases ch) (simp_all add: all_channels_def)

lemma channel_value_inject [simp]: "channel_value a = channel_value b \<longleftrightarrow> a = b"
  by (cases a; cases b) simp_all

lemma channel_files_differ: "cc_filename (get_channel_config a) = cc_filename (get_channel_config b) \<longleftrightarrow> a = b"
  by (cases a; cases b) (simp_all add: channel_conf_def)

subsection \<open>Sizes\<close>

definition multipliers :: "(char \<times> int) list" where
  "multipliers = [(CHR ''K'', 1024), (CHR ''M'', 1024 * 1024), (CHR ''G'', 1024 * 1024 * 1024)]"

definition drop_b :: "string \<Rightarrow> string" where
  "drop_b s = (if s \<noteq> [] \<and> last s = CHR ''B'' then butlast s else s)"

text \<open>\<open>float()\<close> and \<open>int()\<close> of the text strip blanks; a text with underscores, an exponent without digits and the like raise.\<close>

definition parse_size :: "string \<Rightarrow> int option" where
  "parse_size size_str =
     (let s = drop_b (str_upper size_str) in
      case (if s = [] then None else map_of multipliers (last s)) of
        Some mul \<Rightarrow> map_option (\<lambda>r. trunc_rat (r * of_int mul)) (read_decimal (butlast s))
      | None \<Rightarrow> read_int s)"

definition parse_size_str :: "string \<Rightarrow> int" where
  "parse_size_str size_str = (case parse_size size_str of None \<Rightarrow> 100 * 1024 * 1024 | Some n \<Rightarrow> n)"

subsection \<open>Records and filters\<close>

datatype log_msg = PlainText string | EventDict "string option"

text \<open>The channel attribute of the record itself, its message (an event dictionary with its channel, or text).\<close>

record log_record =
  lr_name :: string
  lr_level :: nat
  lr_attr :: "string option"
  lr_msg :: log_msg

definition channel_filter :: "string \<Rightarrow> string list \<Rightarrow> log_record \<Rightarrow> bool" where
  "channel_filter expected prefixes r =
     (case lr_attr r of
        Some ch \<Rightarrow> ch = expected
      | None \<Rightarrow> (case lr_msg r of
          EventDict (Some ch) \<Rightarrow> ch = expected
        | _ \<Rightarrow> list_ex (\<lambda>p. starts_with p (lr_name r)) prefixes))"

definition allowed_prefixes :: "log_channel \<Rightarrow> string list" where
  "allowed_prefixes ch = (if ch = API_LOG then [''uvicorn'', ''fastapi'', ''starlette''] else [])"

text \<open>The filter clamps the probability; \<open>draw\<close> is the random number in [0, 1).\<close>

definition info_sampling :: "rat \<Rightarrow> rat \<Rightarrow> log_record \<Rightarrow> bool" where
  "info_sampling probability draw r =
     (if lr_level r \<noteq> level_info then True else draw < max 0 (min 1 probability))"

definition sampling_ratio :: "rat \<Rightarrow> rat" where
  "sampling_ratio setting = (if setting = 0 then 1 else setting)"

text \<open>The filters of the handler of a channel, in their order; the error channel has none.\<close>

definition channel_accepts :: "rat \<Rightarrow> rat \<Rightarrow> log_channel \<Rightarrow> log_record \<Rightarrow> bool" where
  "channel_accepts setting draw ch r =
     (if ch = ERROR_LOG then True
      else channel_filter (channel_value ch) (allowed_prefixes ch) r \<and>
        (if ch = API_LOG \<and> sampling_ratio setting < 1 then info_sampling (sampling_ratio setting) draw r else True))"

text \<open>Only a ratio of zero means all: a negative ratio drops every informational record of the API.\<close>

lemma sampling_zero_is_all: "channel_accepts 0 draw API_LOG r = channel_filter ''api'' [''uvicorn'', ''fastapi'', ''starlette''] r"
  by (simp add: channel_accepts_def sampling_ratio_def allowed_prefixes_def)

lemma sampling_keeps_warnings:
  "lr_level r \<noteq> level_info \<Longrightarrow> channel_accepts s draw ch r = channel_accepts 1 draw ch r"
  by (simp add: channel_accepts_def info_sampling_def)

subsection \<open>Access log lines\<close>

text \<open>The regular expression of AccessLogEnricherFilter has no choice but where it starts: every repeated class is followed by a character
  outside it. A group that needs one character or more is \<open>many1\<close>.\<close>

definition many1 :: "(char \<Rightarrow> bool) \<Rightarrow> string \<Rightarrow> (string \<times> string) option" where
  "many1 P s = (let w = takeWhile P s in if w = [] then None else Some (w, dropWhile P s))"

definition lit :: "string \<Rightarrow> string \<Rightarrow> string option" where
  "lit p s = (if starts_with p s then Some (drop (length p) s) else None)"

definition status3 :: "string \<Rightarrow> (nat \<times> string) option" where
  "status3 s = (if length (take 3 s) = 3 then (case read_digits 0 (take 3 s) of None \<Rightarrow> None | Some n \<Rightarrow> Some (n, drop 3 s)) else None)"

record access =
  ac_client_ip :: string
  ac_request :: string
  ac_status :: nat
  ac_latency :: string
  ac_user_agent :: string

definition digit_or_dot :: "char \<Rightarrow> bool" where
  "digit_or_dot c = (digit_val c \<noteq> None \<or> c = CHR ''.'')"

definition match_here :: "string \<Rightarrow> access option" where
  "match_here s0 =
     do {
       s1 \<leftarrow> lit ''h='' s0;
       (h, s2) \<leftarrow> many1 (\<lambda>c. \<not> is_space c) s1;
       (_, s3) \<leftarrow> many1 is_space s2;
       s4 \<leftarrow> lit (''r='' @ [CHR 0x22]) s3;
       (r, s5) \<leftarrow> many1 (\<lambda>c. c \<noteq> CHR 0x22) s4;
       s6 \<leftarrow> lit [CHR 0x22] s5;
       (_, s7) \<leftarrow> many1 is_space s6;
       s8 \<leftarrow> lit ''s='' s7;
       (st, s9) \<leftarrow> status3 s8;
       (_, s10) \<leftarrow> many1 is_space s9;
       s11 \<leftarrow> lit ''L='' s10;
       (l, s12) \<leftarrow> many1 digit_or_dot s11;
       (_, s13) \<leftarrow> many1 is_space s12;
       s14 \<leftarrow> lit (''a='' @ [CHR 0x22]) s13;
       s15 \<leftarrow> lit [CHR 0x22] (dropWhile (\<lambda>c. c \<noteq> CHR 0x22) s14);
       Some \<lparr>ac_client_ip = h, ac_request = r, ac_status = st, ac_latency = l, ac_user_agent = takeWhile (\<lambda>c. c \<noteq> CHR 0x22) s14\<rparr>
     }"

fun search_access :: "string \<Rightarrow> access option" where
  "search_access [] = match_here []"
| "search_access (c # cs) = (case match_here (c # cs) of Some a \<Rightarrow> Some a | None \<Rightarrow> search_access cs)"

text \<open>\<open>s.split()\<close>: the maximal runs of characters that are not blank.\<close>

fun py_words :: "string \<Rightarrow> string list" where
  "py_words [] = []"
| "py_words (c # cs) =
     (if is_space c then py_words cs
      else case cs of
          [] \<Rightarrow> [[c]]
        | d # ds \<Rightarrow> if is_space d then [c] # py_words cs
                   else (case py_words cs of [] \<Rightarrow> [[c]] | w # ws \<Rightarrow> (c # w) # ws))"

record http_fields =
  hf_client_ip :: string
  hf_method :: "string option"
  hf_path :: "string option"
  hf_protocol :: "string option"
  hf_status :: nat
  hf_duration_ms :: "rat option"
  hf_user_agent :: string

definition nth_word :: "nat \<Rightarrow> string list \<Rightarrow> string option" where
  "nth_word i ws = (if i < length ws then Some (ws ! i) else None)"

definition enrich_access :: "string \<Rightarrow> bool \<Rightarrow> string \<Rightarrow> http_fields option" where
  "enrich_access name enriched msg =
     (if name \<noteq> ''uvicorn.access'' \<or> enriched then None
      else case search_access msg of
          None \<Rightarrow> None
        | Some a \<Rightarrow>
            (let ws = py_words (ac_request a) in
             Some \<lparr>hf_client_ip = ac_client_ip a, hf_method = nth_word 0 ws, hf_path = nth_word 1 ws, hf_protocol = nth_word 2 ws,
                   hf_status = ac_status a, hf_duration_ms = map_option (\<lambda>x. x * 1000) (read_decimal (ac_latency a)),
                   hf_user_agent = ac_user_agent a\<rparr>))"

text \<open>The access line that api/main.py asks the server for.\<close>

definition access_line :: "access \<Rightarrow> string" where
  "access_line a =
     ''h='' @ ac_client_ip a @ '' r='' @ [CHR 0x22] @ ac_request a @ [CHR 0x22] @ '' s='' @ show_nat (ac_status a) @ '' L='' @ ac_latency a @
     '' a='' @ [CHR 0x22] @ ac_user_agent a @ [CHR 0x22]"

definition plain_access :: "access \<Rightarrow> bool" where
  "plain_access a =
     (ac_client_ip a \<noteq> [] \<and> list_all (\<lambda>c. \<not> is_space c) (ac_client_ip a) \<and> ac_request a \<noteq> [] \<and> CHR 0x22 \<notin> set (ac_request a) \<and>
      100 \<le> ac_status a \<and> ac_status a \<le> 999 \<and> ac_latency a \<noteq> [] \<and> list_all digit_or_dot (ac_latency a) \<and>
      CHR 0x22 \<notin> set (ac_user_agent a))"

lemma many1_append:
  assumes "w \<noteq> []" "list_all P w" "\<not> P c"
  shows "many1 P (w @ c # s) = Some (w, c # s)"
proof -
  have "takeWhile P (w @ c # s) = w" "dropWhile P (w @ c # s) = c # s" using assms(2,3) by (induction w) auto
  then show ?thesis using assms(1) by (simp add: many1_def)
qed

lemma span_until: "c \<notin> set w \<Longrightarrow> takeWhile (\<lambda>x. x \<noteq> c) (w @ c # s) = w \<and> dropWhile (\<lambda>x. x \<noteq> c) (w @ c # s) = c # s"
  by (induction w) auto

lemma lit_append [simp]: "lit p (p @ s) = Some s"
  by (simp add: lit_def)

lemma show_nat_three: "100 \<le> n \<Longrightarrow> n \<le> 999 \<Longrightarrow> length (show_nat n) = 3"
  by (subst show_nat.simps, subst show_nat.simps, subst show_nat.simps) auto

lemma status3_show:
  assumes "100 \<le> n" "n \<le> 999"
  shows "status3 (show_nat n @ s) = Some (n, s)"
  using show_nat_three [OF assms] by (simp add: status3_def read_digits_show_nat)

lemma space_facts [simp]: "is_space CHR '' ''" "\<not> is_space CHR ''h''" "\<not> is_space CHR ''r''" "\<not> is_space CHR ''s''" "\<not> is_space CHR ''L''" "\<not> is_space CHR ''a''"
    "\<not> is_space CHR 0x22"
  by (simp_all add: is_space_def blank_def)

text \<open>A line as the server writes it is read back field by field.\<close>

theorem access_roundtrip:
  assumes "plain_access a"
  shows "match_here (access_line a) = Some a"
proof -
  have d: "\<not> digit_or_dot CHR '' ''" by (simp add: digit_or_dot_def digit_val_def)
  have q: "list_all (\<lambda>c. c \<noteq> CHR 0x22) (ac_request a)" "takeWhile (\<lambda>c. c \<noteq> CHR 0x22) (ac_user_agent a @ [CHR 0x22]) = ac_user_agent a"
    "dropWhile (\<lambda>c. c \<noteq> CHR 0x22) (ac_user_agent a @ [CHR 0x22]) = [CHR 0x22]"
    using assms span_until [of "CHR 0x22" "ac_user_agent a" "[]"] by (auto simp: plain_access_def list_all_iff)
  have sp: "many1 is_space (CHR '' '' # c # s) = Some ('' '', c # s)" if "\<not> is_space c" for c s
    using many1_append [of "'' ''" is_space c s] that by simp
  note p = assms [unfolded plain_access_def]
  have h: "many1 (\<lambda>c. \<not> is_space c) (ac_client_ip a @ CHR '' '' # s) = Some (ac_client_ip a, CHR '' '' # s)" for s
    using p by (intro many1_append) auto
  have r: "many1 (\<lambda>c. c \<noteq> CHR 0x22) (ac_request a @ CHR 0x22 # s) = Some (ac_request a, CHR 0x22 # s)" for s
    using p q(1) by (intro many1_append) auto
  have l: "many1 digit_or_dot (ac_latency a @ CHR '' '' # s) = Some (ac_latency a, CHR '' '' # s)" for s
    using p d by (intro many1_append) auto
  have st: "status3 (show_nat (ac_status a) @ s) = Some (ac_status a, s)" for s
    using p by (intro status3_show) auto
  show ?thesis
    by (simp add: match_here_def access_line_def lit_def sp h r l st q(2,3))
qed

lemma access_roundtrip_witness:
  "search_access (''h=10.0.0.1 r='' @ [CHR 0x22] @ ''GET /health HTTP/1.1'' @ [CHR 0x22] @ '' s=200 L=0.5 a='' @ [CHR 0x22] @ ''curl'' @ [CHR 0x22]) =
     Some \<lparr>ac_client_ip = ''10.0.0.1'', ac_request = ''GET /health HTTP/1.1'', ac_status = 200, ac_latency = ''0.5'', ac_user_agent = ''curl''\<rparr>"
  by code_simp

lemma search_roundtrip: "plain_access a \<Longrightarrow> search_access (access_line a) = Some a"
  using access_roundtrip [of a] by (cases "access_line a") (simp_all add: access_line_def)

subsection \<open>Escape codes\<close>

text \<open>\<open>re.sub\<close> removes the leftmost codes without rescanning; then what is not ASCII is dropped, given by \<open>ascii\<close>.\<close>

definition ansi_letter :: "char \<Rightarrow> bool" where
  "ansi_letter c = (let n = (of_char c :: nat) in 65 \<le> n \<and> n \<le> 90 \<or> 97 \<le> n \<and> n \<le> 122)"

definition ansi_code :: "string \<Rightarrow> string option" where
  "ansi_code s =
     (case lit [CHR 0x1B, CHR ''[''] s of
        None \<Rightarrow> None
      | Some s1 \<Rightarrow> (case dropWhile (\<lambda>c. digit_val c \<noteq> None \<or> c = CHR '';'') s1 of
          c # s2 \<Rightarrow> if ansi_letter c then Some s2 else None
        | [] \<Rightarrow> None))"

lemma ansi_code_shorter: "ansi_code s = Some t \<Longrightarrow> length t < length s"
proof -
  assume "ansi_code s = Some t"
  then obtain s1 c where "lit [CHR 0x1B, CHR ''[''] s = Some s1" "dropWhile (\<lambda>c. digit_val c \<noteq> None \<or> c = CHR '';'') s1 = c # t"
    by (auto simp: ansi_code_def split: option.splits list.splits if_splits)
  then show ?thesis using length_dropWhile_le [of "\<lambda>c. digit_val c \<noteq> None \<or> c = CHR '';''" s1] by (auto simp: lit_def split: if_splits)
qed

function strip_ansi :: "string \<Rightarrow> string" where
  "strip_ansi [] = []"
| "strip_ansi (c # cs) = (case ansi_code (c # cs) of Some t \<Rightarrow> strip_ansi t | None \<Rightarrow> c # strip_ansi cs)"
  by pat_completeness auto
termination
  by (relation "measure length") (auto dest: ansi_code_shorter)

definition ansi_format :: "(char \<Rightarrow> bool) \<Rightarrow> string \<Rightarrow> string" where
  "ansi_format ascii msg = filter ascii (strip_ansi msg)"

lemma strip_ansi_plain: "CHR 0x1B \<notin> set s \<Longrightarrow> strip_ansi s = s"
  by (induction s) (auto simp: ansi_code_def lit_def)

text \<open>One pass is not enough for nested codes: removing the inner one completes the outer one.\<close>

lemma nested_code_survives: "strip_ansi [CHR 0x1B, CHR ''['', CHR 0x1B, CHR ''['', CHR ''0'', CHR ''m'', CHR ''1'', CHR ''m''] = [CHR 0x1B, CHR ''['', CHR ''1'', CHR ''m'']"
  by code_simp

end
