(* ===== verification/Log_Routing.thy ===== *)
theory Log_Routing
  imports Log_Channels
begin

text \<open>
  Where a log record ends (core/logging/enhanced_logging.py, EnhancedLoggerManager, and core/logging/service_logger.py). The
  loggers of Python's logging are a tree by dotted name, each with its handlers, its level and whether it
  propagates; the manager attaches the file of a channel to the loggers it hands out and to those of libraries, and moves
  the handlers of the root behind a queue. A sink is what a handler writes to; levels are the numbers of logging. The name [] is
  the root. Formatting is not modelled.
\<close>

datatype sink = StdOut | StdErr | Foreign nat | RootFile | ChannelFile log_channel

datatype handler = Direct sink | Queued

record logger_node =
  ln_handlers :: "handler list"
  ln_propagate :: bool
  ln_level :: nat

record bound_logger =
  bg_name :: string
  bg_component :: "string option"
  bg_channel :: "log_channel option"

record log_manager =
  mg_tree :: "string \<Rightarrow> logger_node"
  mg_levels :: "sink \<Rightarrow> nat"
  mg_attached :: "log_channel list"
  mg_loggers :: "(string \<times> bound_logger) list"
  mg_targets :: "sink list"
  mg_queue_level :: nat

record route_settings =
  rs_level :: nat
  rs_console_enabled :: bool
  rs_file_enabled :: bool
  rs_multi_channel :: bool
  rs_queue_enabled :: bool
  rs_sampling_ratio :: rat

subsection \<open>Python's loggers\<close>

text \<open>addHandler and removeHandler; a logger and its ancestors, the root last.\<close>

definition node_add :: "handler \<Rightarrow> logger_node \<Rightarrow> logger_node" where
  "node_add h nd = (if h \<in> set (ln_handlers nd) then nd else nd\<lparr>ln_handlers := ln_handlers nd @ [h]\<rparr>)"

definition update_node :: "(logger_node \<Rightarrow> logger_node) \<Rightarrow> string \<Rightarrow> log_manager \<Rightarrow> log_manager" where
  "update_node f n m = m\<lparr>mg_tree := (mg_tree m)(n := f (mg_tree m n))\<rparr>"

definition chain :: "string \<Rightarrow> string list" where
  "chain n =
     (if n = [] then [[]]
      else let ps = split_on CHR ''.'' n in map (\<lambda>k. join_str ''.'' (take k ps)) (rev [1..<Suc (length ps)]) @ [[]])"

definition effective_level :: "(string \<Rightarrow> logger_node) \<Rightarrow> string \<Rightarrow> nat" where
  "effective_level t n = (case find (\<lambda>l. l \<noteq> 0) (map (\<lambda>k. ln_level (t k)) (chain n)) of None \<Rightarrow> 0 | Some l \<Rightarrow> l)"

fun call_handlers :: "(string \<Rightarrow> logger_node) \<Rightarrow> string list \<Rightarrow> handler list" where
  "call_handlers t [] = []"
| "call_handlers t (n # ns) = ln_handlers (t n) @ (if ln_propagate (t n) then call_handlers t ns else [])"

definition sink_takes :: "route_settings \<Rightarrow> rat \<Rightarrow> log_manager \<Rightarrow> log_record \<Rightarrow> sink \<Rightarrow> bool" where
  "sink_takes st draw m r s =
     (mg_levels m s \<le> lr_level r \<and> (case s of ChannelFile ch \<Rightarrow> channel_accepts (rs_sampling_ratio st) draw ch r | _ \<Rightarrow> True))"

fun handle_record :: "route_settings \<Rightarrow> rat \<Rightarrow> log_manager \<Rightarrow> log_record \<Rightarrow> handler \<Rightarrow> sink list" where
  "handle_record st draw m r (Direct s) = (if sink_takes st draw m r s then [s] else [])"
| "handle_record st draw m r Queued = (if mg_queue_level m \<le> lr_level r then filter (sink_takes st draw m r) (mg_targets m) else [])"

definition delivered :: "route_settings \<Rightarrow> rat \<Rightarrow> log_manager \<Rightarrow> log_record \<Rightarrow> sink list" where
  "delivered st draw m r =
     (if lr_level r < effective_level (mg_tree m) (lr_name r) then []
      else concat (map (handle_record st draw m r) (call_handlers (mg_tree m) (chain (lr_name r)))))"

subsection \<open>Configuration\<close>

fun std_stream :: "handler \<Rightarrow> bool" where
  "std_stream (Direct StdOut) = True"
| "std_stream (Direct StdErr) = True"
| "std_stream h = False"

definition set_root_level :: "nat \<Rightarrow> log_manager \<Rightarrow> log_manager" where
  "set_root_level l = update_node (\<lambda>nd. nd\<lparr>ln_level := l\<rparr>) []"

definition set_level :: "sink \<Rightarrow> nat \<Rightarrow> log_manager \<Rightarrow> log_manager" where
  "set_level s l m = m\<lparr>mg_levels := (mg_levels m)(s := l)\<rparr>"

definition setup_console :: "route_settings \<Rightarrow> log_manager \<Rightarrow> log_manager" where
  "setup_console st m =
     (let hs = ln_handlers (mg_tree m []) in
      if \<not> rs_console_enabled st then update_node (\<lambda>nd. nd\<lparr>ln_handlers := filter (\<lambda>h. h \<noteq> Direct StdOut) hs\<rparr>) [] m
      else if list_ex std_stream hs
      then set_root_level (rs_level st)
             (fold (\<lambda>s. if Direct s \<in> set hs then set_level s (rs_level st) else id) [StdOut, StdErr] m)
      else set_root_level (rs_level st) (update_node (node_add (Direct StdOut)) [] (set_level StdOut (rs_level st) m)))"

definition setup_file :: "route_settings \<Rightarrow> log_manager \<Rightarrow> log_manager" where
  "setup_file st m =
     (if \<not> rs_file_enabled st \<or> Direct RootFile \<in> set (ln_handlers (mg_tree m [])) then m
      else update_node (node_add (Direct RootFile)) [] (set_level RootFile (if rs_multi_channel st then level_warning else rs_level st) m))"

definition create_channel_handler :: "log_channel \<Rightarrow> log_manager \<Rightarrow> log_manager" where
  "create_channel_handler ch m =
     (set_level (ChannelFile ch) (cc_level (get_channel_config ch)) m)\<lparr>mg_attached := mg_attached m @ [ch]\<rparr>"

text \<open>Attaching the file of a channel to a library's logger; \<open>quiet\<close> raises an unset level to warnings.\<close>

definition attach :: "bool \<Rightarrow> log_channel \<Rightarrow> string \<Rightarrow> log_manager \<Rightarrow> log_manager" where
  "attach quiet ch =
     update_node (\<lambda>nd. let nd1 = node_add (Direct (ChannelFile ch)) nd;
                         nd2 = (if quiet \<and> ln_level nd1 = 0 then nd1\<lparr>ln_level := level_warning\<rparr> else nd1)
                     in nd2\<lparr>ln_propagate := False\<rparr>)"

definition api_loggers :: "string list" where
  "api_loggers = [''uvicorn'', ''uvicorn.error'', ''uvicorn.access'', ''fastapi'']"

definition database_loggers :: "string list" where
  "database_loggers = [''sqlalchemy'', ''sqlalchemy.engine'', ''sqlalchemy.pool'', ''sqlalchemy.orm'']"

definition kafka_loggers :: "string list" where
  "kafka_loggers = [''aiokafka'', ''kafka'']"

definition setup_multi_channel :: "route_settings \<Rightarrow> log_manager \<Rightarrow> log_manager" where
  "setup_multi_channel st m =
     (if \<not> rs_multi_channel st \<or> \<not> rs_file_enabled st then m
      else let m1 = fold create_channel_handler all_channels m;
               m2 = fold (attach False API_LOG) api_loggers m1;
               m3 = update_node (node_add (Direct (ChannelFile ERROR_LOG))) [] (set_level (ChannelFile ERROR_LOG) level_error m2);
               m4 = fold (attach True DATABASE_LOG) database_loggers m3
           in fold (attach True APPLICATION_LOG) kafka_loggers m4)"

fun sinks_of :: "handler \<Rightarrow> sink list" where
  "sinks_of (Direct s) = [s]"
| "sinks_of Queued = []"

definition enable_queue :: "log_manager \<Rightarrow> log_manager" where
  "enable_queue m =
     (let hs = ln_handlers (mg_tree m []) in
      if hs = [] then m
      else (update_node (\<lambda>nd. nd\<lparr>ln_handlers := [Queued]\<rparr>) [] m)
             \<lparr>mg_targets := concat (map sinks_of hs), mg_queue_level := ln_level (mg_tree m [])\<rparr>)"

definition setup_logging :: "route_settings \<Rightarrow> (string \<Rightarrow> logger_node) \<Rightarrow> (sink \<Rightarrow> nat) \<Rightarrow> log_manager" where
  "setup_logging st t lv =
     (let m0 = \<lparr>mg_tree = t, mg_levels = lv, mg_attached = [], mg_loggers = [], mg_targets = [], mg_queue_level = 0\<rparr>;
          m1 = setup_multi_channel st (setup_file st (setup_console st m0))
      in if rs_queue_enabled st then enable_queue m1 else m1)"

subsection \<open>Handing out loggers\<close>

definition attach_logger :: "log_channel \<Rightarrow> string \<Rightarrow> log_manager \<Rightarrow> log_manager" where
  "attach_logger ch n m =
     (if ch \<in> set (mg_attached m) then update_node (\<lambda>nd. (node_add (Direct (ChannelFile ch)) nd)\<lparr>ln_propagate := False\<rparr>) n m else m)"

definition get_logger :: "route_settings \<Rightarrow> string \<Rightarrow> string option \<Rightarrow> log_manager \<Rightarrow> bound_logger \<times> log_manager" where
  "get_logger st name component m =
     (case map_of (mg_loggers m) name of
        Some b \<Rightarrow> (b, m)
      | None \<Rightarrow>
          (let (b, m1) =
             (case component of
                Some (c # cs) \<Rightarrow>
                  if rs_multi_channel st
                  then let ch = get_channel_for_component (c # cs) in
                       (\<lparr>bg_name = name, bg_component = component, bg_channel = Some ch\<rparr>, attach_logger ch name m)
                  else (\<lparr>bg_name = name, bg_component = component, bg_channel = None\<rparr>, m)
              | _ \<Rightarrow> (\<lparr>bg_name = name, bg_component = None, bg_channel = None\<rparr>, m))
           in (b, m1\<lparr>mg_loggers := dict_set name b (mg_loggers m1)\<rparr>)))"

definition get_channel_logger :: "route_settings \<Rightarrow> string \<Rightarrow> log_channel \<Rightarrow> log_manager \<Rightarrow> bound_logger \<times> log_manager" where
  "get_channel_logger st name ch m =
     (let (b, m1) = get_logger st name None m in (b\<lparr>bg_channel := Some ch\<rparr>, attach_logger ch name m1))"

text \<open>A record of a bound logger: its channel is in the event dictionary.\<close>

definition bound_record :: "bound_logger \<Rightarrow> nat \<Rightarrow> log_record" where
  "bound_record b level = \<lparr>lr_name = bg_name b, lr_level = level, lr_attr = None, lr_msg = EventDict (map_option channel_value (bg_channel b))\<rparr>"

text \<open>The collection of a service: the suffix of each logger's name and its channel.\<close>

definition service_loggers :: "(string \<times> log_channel) list" where
  "service_loggers =
     [('''', TRADING_LOG), (''_performance'', PERFORMANCE_LOG), (''_errors'', ERROR_LOG), (''_audit'', AUDIT_LOG), (''_monitoring'', MONITORING_LOG)]"

definition base_name :: "string \<Rightarrow> string option \<Rightarrow> string" where
  "base_name service component = (case component of Some (c # cs) \<Rightarrow> service @ ''_'' @ (c # cs) | _ \<Rightarrow> service)"

definition service_logger :: "route_settings \<Rightarrow> string \<Rightarrow> string option \<Rightarrow> log_manager \<Rightarrow> log_manager" where
  "service_logger st service component m =
     fold (\<lambda>(suffix, ch) m. snd (get_channel_logger st (base_name service component @ suffix) ch m)) service_loggers m"

subsection \<open>Requests\<close>

datatype log_request = Component string "string option" | Channel string log_channel

fun log_step :: "route_settings \<Rightarrow> log_manager \<Rightarrow> log_request \<Rightarrow> log_manager" where
  "log_step st m (Component n c) = snd (get_logger st n c m)"
| "log_step st m (Channel n ch) = snd (get_channel_logger st n ch m)"

text \<open>The logger a request is for and the channels it may attach to it.\<close>

fun asks_for :: "log_request \<Rightarrow> string \<times> log_channel option" where
  "asks_for (Component n (Some (c # cs))) = (n, Some (get_channel_for_component (c # cs)))"
| "asks_for (Component n c) = (n, None)"
| "asks_for (Channel n ch) = (n, Some ch)"

text \<open>Below the root, the handlers are files of channels, and a logger that has one does not propagate.\<close>

definition files :: "log_channel list \<Rightarrow> handler list" where
  "files chs = map (\<lambda>ch. Direct (ChannelFile ch)) chs"

definition file_node :: "logger_node \<Rightarrow> log_channel list \<Rightarrow> bool" where
  "file_node nd chs = (ln_handlers nd = files chs \<and> distinct chs \<and> (chs \<noteq> [] \<longrightarrow> \<not> ln_propagate nd))"

definition file_routed :: "log_manager \<Rightarrow> bool" where
  "file_routed m = ((\<forall>n. n \<noteq> [] \<longrightarrow> (\<exists>chs. file_node (mg_tree m n) chs)) \<and> mg_attached m = all_channels \<and>
     (\<forall>ch. mg_levels m (ChannelFile ch) = cc_level (get_channel_config ch)))"

lemma in_files [simp]: "Direct (ChannelFile ch) \<in> set (files chs) \<longleftrightarrow> ch \<in> set chs"
  by (auto simp: files_def)

lemma files_snoc: "files (chs @ [ch]) = files chs @ [Direct (ChannelFile ch)]"
  by (simp add: files_def)

lemma update_node_simps [simp]:
  "mg_tree (update_node f n m) = (mg_tree m)(n := f (mg_tree m n))" "mg_levels (update_node f n m) = mg_levels m"
  "mg_attached (update_node f n m) = mg_attached m" "mg_loggers (update_node f n m) = mg_loggers m"
  "mg_targets (update_node f n m) = mg_targets m" "mg_queue_level (update_node f n m) = mg_queue_level m"
  by (simp_all add: update_node_def)

lemma attach_logger_simps [simp]:
  "mg_attached (attach_logger ch n m) = mg_attached m" "mg_levels (attach_logger ch n m) = mg_levels m"
  "mg_loggers (attach_logger ch n m) = mg_loggers m"
  by (simp_all add: attach_logger_def)

lemma attach_logger_node:
  assumes "mg_attached m = all_channels" "file_node (mg_tree m n) chs"
  shows "file_node (mg_tree (attach_logger ch n m) n) (if ch \<in> set chs then chs else chs @ [ch])"
  using assms by (auto simp: attach_logger_def file_node_def node_add_def files_snoc)

lemma attach_logger_other: "n' \<noteq> n \<Longrightarrow> mg_tree (attach_logger ch n m) n' = mg_tree m n'"
  by (simp add: attach_logger_def)

lemma attach_logger_level [simp]: "ln_level (mg_tree (attach_logger ch n m) k) = ln_level (mg_tree m k)"
  by (simp add: attach_logger_def node_add_def)

lemma get_logger_cases:
  obtains "snd (get_logger st n c m) = m" | "mg_tree (snd (get_logger st n c m)) = mg_tree m" "mg_attached (snd (get_logger st n c m)) = mg_attached m"
      "mg_levels (snd (get_logger st n c m)) = mg_levels m"
  | ch where "asks_for (Component n c) = (n, Some ch)" "mg_tree (snd (get_logger st n c m)) = mg_tree (attach_logger ch n m)"
      "mg_attached (snd (get_logger st n c m)) = mg_attached m" "mg_levels (snd (get_logger st n c m)) = mg_levels m"
proof (cases "map_of (mg_loggers m) n")
  case None
  show thesis
  proof (cases "\<exists>x xs. c = Some (x # xs) \<and> rs_multi_channel st")
    case True
    then obtain x xs where "c = Some (x # xs)" "rs_multi_channel st" by blast
    with None show thesis by (intro that(3) [of "get_channel_for_component (x # xs)"]) (simp_all add: get_logger_def Let_def)
  next
    case False
    with None show thesis by (intro that(2)) (auto simp: get_logger_def split: option.splits list.splits)
  qed
qed (use that(1) in \<open>simp add: get_logger_def\<close>)

lemma get_logger_none_tree [simp]: "mg_tree (snd (get_logger st n None m)) = mg_tree m"
  by (simp add: get_logger_def split: option.splits)

lemma get_logger_keeps [simp]:
  "mg_attached (snd (get_logger st n c m)) = mg_attached m" "mg_levels (snd (get_logger st n c m)) = mg_levels m"
  by (cases rule: get_logger_cases [of st n c m], simp_all)+

lemma get_channel_logger_snd: "snd (get_channel_logger st n ch m) = attach_logger ch n (snd (get_logger st n None m))"
  by (simp add: get_channel_logger_def split: prod.splits)

lemma log_step_simps [simp]:
  "mg_attached (log_step st m q) = mg_attached m" "mg_levels (log_step st m q) = mg_levels m"
  by (cases q, simp_all add: get_channel_logger_snd)+

lemma log_step_node:
  assumes "mg_attached m = all_channels" "file_node (mg_tree m n) chs" "n \<noteq> []"
  shows "\<exists>chs'. file_node (mg_tree (log_step st m q) n) chs' \<and> set chs \<subseteq> set chs' \<and>
    set chs' \<subseteq> set chs \<union> {ch. asks_for q = (n, Some ch)} \<and> (\<forall>ch. q = Channel n ch \<longrightarrow> ch \<in> set chs')"
proof (cases q)
  case (Component k c)
  show ?thesis
  proof (cases rule: get_logger_cases [of st k c m])
    case (3 ch)
    show ?thesis
    proof (cases "k = n")
      case True
      with attach_logger_node [OF assms(1,2), of ch] 3 Component show ?thesis by (intro exI [of _ "if ch \<in> set chs then chs else chs @ [ch]"]) auto
    qed (use 3 Component assms(2) attach_logger_other [of n k ch m] in \<open>auto intro!: exI [of _ chs]\<close>)
  qed (use Component assms(2) in \<open>auto intro!: exI [of _ chs]\<close>)
next
  case (Channel k ch)
  show ?thesis
  proof (cases "k = n")
    case True
    have "file_node (mg_tree (snd (get_logger st n None m)) n) chs" using assms(2) by simp
    from attach_logger_node [OF _ this, of ch] assms(1) True Channel show ?thesis
      by (intro exI [of _ "if ch \<in> set chs then chs else chs @ [ch]"]) (auto simp: get_channel_logger_snd)
  qed (use Channel assms(2) attach_logger_other [of n k ch] in \<open>auto simp: get_channel_logger_snd intro!: exI [of _ chs]\<close>)
qed

interpretation lr: step_machine "log_step st" file_routed for st
proof
  fix m q assume r: "file_routed m"
  have "\<exists>chs. file_node (mg_tree (log_step st m q) n) chs" if "n \<noteq> []" for n
    using log_step_node [of m n _ st q] r that unfolding file_routed_def by blast
  with r show "file_routed (log_step st m q)" by (simp add: file_routed_def)
qed

lemma log_run_node:
  assumes "mg_attached m = all_channels" "file_node (mg_tree m n) chs" "n \<noteq> []"
  shows "\<exists>chs'. file_node (mg_tree (foldl (log_step st) m qs) n) chs' \<and> set chs \<subseteq> set chs' \<and>
    set chs' \<subseteq> set chs \<union> {ch. \<exists>q\<in>set qs. asks_for q = (n, Some ch)} \<and> (\<forall>ch. Channel n ch \<in> set qs \<longrightarrow> ch \<in> set chs')"
  using assms
proof (induction qs arbitrary: m chs)
  case (Cons q qs)
  obtain c1 where 1: "file_node (mg_tree (log_step st m q) n) c1" "set chs \<subseteq> set c1"
    "set c1 \<subseteq> set chs \<union> {ch. asks_for q = (n, Some ch)}" "\<forall>ch. q = Channel n ch \<longrightarrow> ch \<in> set c1"
    using log_step_node [OF Cons.prems] by metis
  have a: "mg_attached (log_step st m q) = all_channels" using Cons.prems(1) by simp
  from Cons.IH [OF a 1(1) Cons.prems(3)] 1 show ?case by simp blast
qed auto

end
