(* ===== verification/Log_Delivery.thy ===== *)
theory Log_Delivery
  imports Log_Routing
begin

text \<open>
  What the configured logging does with a record: the logger of a component writes to the file of its channel and
  to nothing else, the server's own loggers write to the file of the API, and the records of the database and Kafka
  libraries are written nowhere. The loggers start without handlers and levels, except the root, which may have any.
\<close>

definition fresh_tree :: "(string \<Rightarrow> logger_node) \<Rightarrow> bool" where
  "fresh_tree t = (\<forall>n. n \<noteq> [] \<longrightarrow> t n = \<lparr>ln_handlers = [], ln_propagate = True, ln_level = 0\<rparr>)"

definition library_loggers :: "string list" where
  "library_loggers = api_loggers @ database_loggers @ kafka_loggers"

definition multi_file :: "route_settings \<Rightarrow> bool" where
  "multi_file st = (rs_multi_channel st \<and> rs_file_enabled st)"

subsection \<open>The configured tree\<close>

lemma set_level_simps [simp]:
  "mg_tree (set_level s l m) = mg_tree m" "mg_levels (set_level s l m) = (mg_levels m)(s := l)" "mg_attached (set_level s l m) = mg_attached m"
  by (simp_all add: set_level_def)

lemma create_all_simps [simp]:
  "mg_tree (fold create_channel_handler chs m) = mg_tree m"
  "mg_attached (fold create_channel_handler chs m) = mg_attached m @ chs"
  by (induction chs arbitrary: m, simp_all add: create_channel_handler_def)+

lemma create_all_levels:
  "mg_levels (fold create_channel_handler chs m) (ChannelFile ch) =
     (if ch \<in> set chs then cc_level (get_channel_config ch) else mg_levels m (ChannelFile ch))"
  by (induction chs arbitrary: m) (auto simp: create_channel_handler_def)

lemma attach_simps [simp]:
  "mg_attached (fold (attach q ch) ns m) = mg_attached m" "mg_levels (fold (attach q ch) ns m) = mg_levels m"
  "n \<notin> set ns \<Longrightarrow> mg_tree (fold (attach q ch) ns m) n = mg_tree m n"
  by (induction ns arbitrary: m, simp_all add: attach_def)+

lemma attach_fresh:
  "mg_tree m n = \<lparr>ln_handlers = [], ln_propagate = True, ln_level = 0\<rparr> \<Longrightarrow>
   mg_tree (attach q ch n m) n = \<lparr>ln_handlers = files [ch], ln_propagate = False, ln_level = (if q then level_warning else 0)\<rparr>"
  by (simp add: attach_def node_add_def files_def)

lemma attach_other [simp]: "k \<noteq> n \<Longrightarrow> mg_tree (attach q ch k m) n = mg_tree m n"
  by (simp add: attach_def)

lemma attach_at:
  assumes "n \<in> set ns" "distinct ns" "mg_tree m n = \<lparr>ln_handlers = [], ln_propagate = True, ln_level = 0\<rparr>"
  shows "mg_tree (fold (attach q ch) ns m) n = \<lparr>ln_handlers = files [ch], ln_propagate = False, ln_level = (if q then level_warning else 0)\<rparr>"
  using assms
proof (induction ns arbitrary: m)
  case (Cons k ns)
  show ?case
  proof (cases "k = n")
    case True
    then have "n \<notin> set ns" using Cons.prems by simp
    with True Cons.prems(3) show ?thesis by (simp add: attach_fresh)
  qed (use Cons in simp)
qed simp

lemma setup_console_other: "n \<noteq> [] \<Longrightarrow> mg_tree (setup_console st m) n = mg_tree m n"
  by (simp add: setup_console_def set_root_level_def Let_def)

lemma setup_file_other: "n \<noteq> [] \<Longrightarrow> mg_tree (setup_file st m) n = mg_tree m n"
  by (simp add: setup_file_def)

lemma setup_attached [simp]: "mg_attached (setup_console st m) = mg_attached m" "mg_attached (setup_file st m) = mg_attached m"
  by (simp_all add: setup_console_def set_root_level_def setup_file_def Let_def)

lemma enable_queue_simps [simp]:
  "n \<noteq> [] \<Longrightarrow> mg_tree (enable_queue m) n = mg_tree m n" "mg_attached (enable_queue m) = mg_attached m" "mg_levels (enable_queue m) = mg_levels m"
  by (simp_all add: enable_queue_def Let_def)

lemma library_names: "distinct api_loggers" "distinct database_loggers" "distinct kafka_loggers" "[] \<notin> set library_loggers"
    "set api_loggers \<inter> set database_loggers = {}" "set api_loggers \<inter> set kafka_loggers = {}" "set database_loggers \<inter> set kafka_loggers = {}"
  by (simp_all add: api_loggers_def database_loggers_def kafka_loggers_def library_loggers_def)

definition library_channel :: "string \<Rightarrow> log_channel option" where
  "library_channel n =
     (if n \<in> set api_loggers then Some API_LOG else if n \<in> set database_loggers then Some DATABASE_LOG
      else if n \<in> set kafka_loggers then Some APPLICATION_LOG else None)"

lemma setup_multi_tree:
  assumes "multi_file st" "n \<noteq> []" "mg_tree m n = \<lparr>ln_handlers = [], ln_propagate = True, ln_level = 0\<rparr>"
  shows "mg_tree (setup_multi_channel st m) n =
     (case library_channel n of
        None \<Rightarrow> \<lparr>ln_handlers = [], ln_propagate = True, ln_level = 0\<rparr>
      | Some ch \<Rightarrow> \<lparr>ln_handlers = files [ch], ln_propagate = False, ln_level = (if ch = API_LOG then 0 else level_warning)\<rparr>)"
proof -
  note l = library_names
  consider "n \<in> set api_loggers" "n \<notin> set database_loggers" "n \<notin> set kafka_loggers"
    | "n \<in> set database_loggers" "n \<notin> set api_loggers" "n \<notin> set kafka_loggers"
    | "n \<in> set kafka_loggers" "n \<notin> set api_loggers" "n \<notin> set database_loggers"
    | "n \<notin> set api_loggers" "n \<notin> set database_loggers" "n \<notin> set kafka_loggers"
    using l(5,6,7) by blast
  then show ?thesis
    by cases (use assms l(1,2,3) in \<open>simp_all add: setup_multi_channel_def multi_file_def Let_def attach_at library_channel_def\<close>)
qed

lemma setup_multi_rest:
  assumes "multi_file st" "mg_attached m = []"
  shows "mg_attached (setup_multi_channel st m) = all_channels"
    "mg_levels (setup_multi_channel st m) (ChannelFile ch) = cc_level (get_channel_config ch)"
proof -
  show "mg_attached (setup_multi_channel st m) = all_channels"
    using assms by (simp add: setup_multi_channel_def multi_file_def Let_def)
  have "mg_levels (setup_multi_channel st m) = (mg_levels (fold create_channel_handler all_channels m))(ChannelFile ERROR_LOG := level_error)"
    using assms(1) by (simp add: setup_multi_channel_def multi_file_def Let_def)
  then show "mg_levels (setup_multi_channel st m) (ChannelFile ch) = cc_level (get_channel_config ch)"
    by (cases "ch = ERROR_LOG") (simp_all add: create_all_levels channel_conf_def)
qed

lemma setup_logging_facts:
  assumes "fresh_tree t" "multi_file st"
  shows "n \<noteq> [] \<Longrightarrow> mg_tree (setup_logging st t lv) n =
     (case library_channel n of
        None \<Rightarrow> \<lparr>ln_handlers = [], ln_propagate = True, ln_level = 0\<rparr>
      | Some ch \<Rightarrow> \<lparr>ln_handlers = files [ch], ln_propagate = False, ln_level = (if ch = API_LOG then 0 else level_warning)\<rparr>)"
    "mg_attached (setup_logging st t lv) = all_channels"
    "mg_levels (setup_logging st t lv) (ChannelFile ch) = cc_level (get_channel_config ch)"
proof -
  let ?m = "setup_file st (setup_console st \<lparr>mg_tree = t, mg_levels = lv, mg_attached = [], mg_loggers = [], mg_targets = [], mg_queue_level = 0\<rparr>)"
  have t: "mg_tree ?m n = \<lparr>ln_handlers = [], ln_propagate = True, ln_level = 0\<rparr>" if "n \<noteq> []" for n
    using that assms(1) by (simp add: setup_file_other setup_console_other fresh_tree_def)
  have a: "mg_attached ?m = []" by simp
  show "n \<noteq> [] \<Longrightarrow> mg_tree (setup_logging st t lv) n =
     (case library_channel n of
        None \<Rightarrow> \<lparr>ln_handlers = [], ln_propagate = True, ln_level = 0\<rparr>
      | Some ch \<Rightarrow> \<lparr>ln_handlers = files [ch], ln_propagate = False, ln_level = (if ch = API_LOG then 0 else level_warning)\<rparr>)"
    using setup_multi_tree [OF assms(2) _ t] by (simp add: setup_logging_def Let_def)
  show "mg_attached (setup_logging st t lv) = all_channels" "mg_levels (setup_logging st t lv) (ChannelFile ch) = cc_level (get_channel_config ch)"
    using setup_multi_rest [OF assms(2) a] by (simp_all add: setup_logging_def Let_def)
qed

definition library_files :: "string \<Rightarrow> log_channel list" where
  "library_files n = (case library_channel n of None \<Rightarrow> [] | Some ch \<Rightarrow> [ch])"

lemma setup_file_node:
  "fresh_tree t \<Longrightarrow> multi_file st \<Longrightarrow> n \<noteq> [] \<Longrightarrow> file_node (mg_tree (setup_logging st t lv) n) (library_files n)"
  by (auto simp: setup_logging_facts(1) file_node_def library_files_def files_def split: option.splits)

lemma setup_routed: "fresh_tree t \<Longrightarrow> multi_file st \<Longrightarrow> file_routed (setup_logging st t lv)"
  using setup_file_node [of t st] unfolding file_routed_def by (auto simp: setup_logging_facts(2,3))

subsection \<open>Delivery\<close>

lemma chain_hd: "n \<noteq> [] \<Longrightarrow> \<exists>ns. chain n = n # ns"
proof -
  assume n: "n \<noteq> []"
  let ?ps = "split_on CHR ''.'' n"
  have j: "join_str ''.'' ?ps = n"
  proof (induction n)
    case (Cons x xs)
    then show ?case by (cases "split_on CHR ''.'' xs"; cases "tl (split_on CHR ''.'' xs)") auto
  qed simp
  have "rev [1..<Suc (length ?ps)] = length ?ps # rev [1..<length ?ps]" by (cases "length ?ps") simp_all
  with n j show "\<exists>ns. chain n = n # ns" by (simp add: chain_def Let_def)
qed

lemma handled_files:
  assumes "\<And>ch. mg_levels m (ChannelFile ch) = cc_level (get_channel_config ch)"
  shows "concat (map (handle_record st draw m r) (files chs)) =
     map ChannelFile (filter (\<lambda>ch. cc_level (get_channel_config ch) \<le> lr_level r \<and> channel_accepts (rs_sampling_ratio st) draw ch r) chs)"
  by (induction chs) (simp_all add: files_def sink_takes_def assms)

lemma delivered_files:
  assumes "file_routed m" "n \<noteq> []" "file_node (mg_tree m n) chs" "chs \<noteq> []" "lr_name r = n"
  shows "delivered st draw m r =
     (if lr_level r < effective_level (mg_tree m) n then []
      else map ChannelFile (filter (\<lambda>ch. cc_level (get_channel_config ch) \<le> lr_level r \<and> channel_accepts (rs_sampling_ratio st) draw ch r) chs))"
proof -
  obtain ns where ns: "chain n = n # ns" using chain_hd [OF assms(2)] by blast
  have "call_handlers (mg_tree m) (chain n) = files chs" using assms(3,4) ns by (simp add: file_node_def)
  moreover have "\<And>ch. mg_levels m (ChannelFile ch) = cc_level (get_channel_config ch)" using assms(1) by (simp add: file_routed_def)
  ultimately show ?thesis using assms(5) by (simp add: delivered_def handled_files)
qed

lemma channel_record_delivered:
  assumes c: "fresh_tree t" "multi_file st" and n: "n \<noteq> []" "n \<notin> set library_loggers"
    and q: "Channel n ch \<in> set qs" "\<And>q ch'. q \<in> set qs \<Longrightarrow> asks_for q = (n, Some ch') \<Longrightarrow> ch' = ch"
    and m: "m = foldl (log_step st) (setup_logging st t lv) qs"
  shows "delivered st draw m (bound_record \<lparr>bg_name = n, bg_component = cn, bg_channel = Some ch\<rparr> level) =
     (if level < effective_level (mg_tree m) n \<or> level < cc_level (get_channel_config ch) \<or>
         (ch = API_LOG \<and> level = level_info \<and> sampling_ratio (rs_sampling_ratio st) < 1 \<and> max 0 (sampling_ratio (rs_sampling_ratio st)) \<le> draw)
      then [] else [ChannelFile ch])"
proof -
  have f: "file_node (mg_tree (setup_logging st t lv) n) []"
    using setup_file_node [OF c n(1)] n(2) by (simp add: library_files_def library_channel_def library_loggers_def)
  have r: "file_routed m" unfolding m by (rule lr.run_inv) (rule setup_routed [OF c])
  obtain chs where chs: "file_node (mg_tree m n) chs" "set chs \<subseteq> {ch. \<exists>q\<in>set qs. asks_for q = (n, Some ch)}" "ch \<in> set chs"
    using log_run_node [OF setup_logging_facts(2) [OF c] f n(1), of st qs] q(1) m by auto
  then have "set chs = {ch}" "distinct chs" using q(2) by (auto simp: file_node_def)
  then have "chs = [ch]" by (cases chs) (auto simp: subset_singleton_iff)
  with delivered_files [OF r n(1) chs(1), of "bound_record \<lparr>bg_name = n, bg_component = cn, bg_channel = Some ch\<rparr> level" st draw] show ?thesis
    by (auto simp: bound_record_def channel_accepts_def channel_filter_def info_sampling_def not_le min_def)
qed


definition default_routes :: route_settings where
  "default_routes = \<lparr>rs_level = level_info, rs_console_enabled = True, rs_file_enabled = True, rs_multi_channel = True, rs_queue_enabled = True,
     rs_sampling_ratio = 1\<rparr>"

definition clean_tree :: "string \<Rightarrow> logger_node" where
  "clean_tree = (\<lambda>n. \<lparr>ln_handlers = [], ln_propagate = True, ln_level = 0\<rparr>)"


text \<open>The loggers of a service never mix: each of the five writes to its own file.\<close>

definition service_requests :: "string \<Rightarrow> string option \<Rightarrow> log_request list" where
  "service_requests service component = map (\<lambda>(suffix, ch). Channel (base_name service component @ suffix) ch) service_loggers"

lemma service_logger_run: "service_logger st service component m = foldl (log_step st) m (service_requests service component)"
  by (simp add: service_logger_def service_requests_def service_loggers_def)

lemma suffixes_differ: "(s1, c1) \<in> set service_loggers \<Longrightarrow> (s2, c2) \<in> set service_loggers \<Longrightarrow> n @ s1 = n @ s2 \<Longrightarrow> c1 = c2"
  by (auto simp: service_loggers_def)

lemma service_loggers_keep_apart:
  assumes "fresh_tree t" "multi_file st" "(suffix, ch) \<in> set service_loggers" "base_name service component \<noteq> []"
    and "base_name service component @ suffix \<notin> set library_loggers"
    and m: "m = service_logger st service component (setup_logging st t lv)"
    and l: "effective_level (mg_tree m) (base_name service component @ suffix) \<le> level" "cc_level (get_channel_config ch) \<le> level"
  shows "delivered st draw m (bound_record \<lparr>bg_name = base_name service component @ suffix, bg_component = cn, bg_channel = Some ch\<rparr> level) = [ChannelFile ch]"
proof -
  let ?n = "base_name service component @ suffix"
  have ch: "ch \<noteq> API_LOG" using assms(3) by (auto simp: service_loggers_def)
  have q: "Channel ?n ch \<in> set (service_requests service component)" using assms(3) by (force simp: service_requests_def)
  have u: "ch' = ch" if "r \<in> set (service_requests service component)" "asks_for r = (?n, Some ch')" for r ch'
    using that assms(3) suffixes_differ by (auto simp: service_requests_def dest: suffixes_differ)
  have "delivered st draw m (bound_record \<lparr>bg_name = ?n, bg_component = cn, bg_channel = Some ch\<rparr> level) =
     (if level < effective_level (mg_tree m) ?n \<or> level < cc_level (get_channel_config ch) \<or>
         (ch = API_LOG \<and> level = level_info \<and> sampling_ratio (rs_sampling_ratio st) < 1 \<and> max 0 (sampling_ratio (rs_sampling_ratio st)) \<le> draw)
      then [] else [ChannelFile ch])"
    by (rule channel_record_delivered [OF assms(1,2) _ assms(5) q u m [unfolded service_logger_run]]) (use assms(4) in auto)
  with l ch show ?thesis by simp
qed

text \<open>Nothing that the database and Kafka libraries log is written: their records carry no channel, the file attached to their
  loggers takes only records of its channel, and they do not propagate. A child of such a logger fares no better.\<close>

lemma split_on_snoc: "c \<notin> set w \<Longrightarrow> split_on c (n @ c # w) = split_on c n @ [w]"
  by (induction n) (auto simp: split_on_no_sep split: list.splits)

lemma chain_child:
  assumes "n \<noteq> []" "CHR ''.'' \<notin> set w"
  shows "chain (n @ CHR ''.'' # w) = (n @ CHR ''.'' # w) # chain n"
proof -
  let ?ps = "split_on CHR ''.'' n"
  obtain ns where "chain (n @ CHR ''.'' # w) = (n @ CHR ''.'' # w) # ns" using chain_hd [of "n @ CHR ''.'' # w"] by auto
  moreover have "chain (n @ CHR ''.'' # w) = join_str ''.'' (?ps @ [w]) # chain n"
    using assms by (auto simp: chain_def split_on_snoc Let_def)
  ultimately show ?thesis by simp
qed

lemma library_record_refused:
  assumes "library_channel n = Some ch" "ch \<noteq> API_LOG"
  shows "\<not> channel_accepts sr draw ch \<lparr>lr_name = k, lr_level = l, lr_attr = None, lr_msg = PlainText x\<rparr>"
  using assms by (auto simp: library_channel_def channel_accepts_def channel_filter_def allowed_prefixes_def split: if_splits)

lemma log_step_other: "(\<And>ch. asks_for q \<noteq> (n, Some ch)) \<Longrightarrow> mg_tree (log_step st m q) n = mg_tree m n"
proof (cases q)
  case (Component k c)
  assume "\<And>ch. asks_for q \<noteq> (n, Some ch)"
  with Component show ?thesis by (cases rule: get_logger_cases [of st k c m]) (auto simp: attach_logger_def)
qed (auto simp: get_channel_logger_snd attach_logger_def)

lemma log_run_other: "(\<And>q ch. q \<in> set qs \<Longrightarrow> asks_for q \<noteq> (n, Some ch)) \<Longrightarrow> mg_tree (foldl (log_step st) m qs) n = mg_tree m n"
  by (induction qs arbitrary: m) (simp_all add: log_step_other)

theorem library_logs_vanish:
  assumes c: "fresh_tree t" "multi_file st" and n: "n \<in> set database_loggers \<union> set kafka_loggers"
    and k: "k = n \<or> (\<exists>w. k = n @ CHR ''.'' # w \<and> CHR ''.'' \<notin> set w \<and> k \<notin> set library_loggers)"
    and q: "\<And>q ch. q \<in> set qs \<Longrightarrow> asks_for q \<noteq> (n, Some ch)" "\<And>q ch. q \<in> set qs \<Longrightarrow> asks_for q \<noteq> (k, Some ch)"
  shows "delivered st draw (foldl (log_step st) (setup_logging st t lv) qs) \<lparr>lr_name = k, lr_level = level, lr_attr = None, lr_msg = PlainText x\<rparr> = []"
proof -
  let ?m = "foldl (log_step st) (setup_logging st t lv) qs" and ?r = "\<lparr>lr_name = k, lr_level = level, lr_attr = None, lr_msg = PlainText x\<rparr>"
  have n0: "n \<noteq> []" using n library_names(4) by (auto simp: library_loggers_def)
  have "n \<notin> set api_loggers" using n library_names(5,6) by blast
  then have "\<exists>ch. library_channel n = Some ch \<and> ch \<noteq> API_LOG" using n by (auto simp: library_channel_def)
  then obtain ch where ch: "library_channel n = Some ch" "ch \<noteq> API_LOG" by blast
  have lv: "\<And>ch. mg_levels ?m (ChannelFile ch) = cc_level (get_channel_config ch)"
    using lr.run_inv [OF setup_routed [OF c], of st lv qs] by (simp add: file_routed_def)
  have tn: "mg_tree ?m n = mg_tree (setup_logging st t lv) n" "mg_tree ?m k = mg_tree (setup_logging st t lv) k"
    using q by (auto intro!: log_run_other)
  obtain ns where ns: "chain n = n # ns" using chain_hd [OF n0] by blast
  have n1: "call_handlers (mg_tree ?m) (chain n) = files [ch]" using ns ch by (simp add: tn setup_logging_facts(1) [OF c n0])
  have "call_handlers (mg_tree ?m) (chain k) = files [ch]"
  proof (cases "k = n")
    case False
    then obtain w where w: "k = n @ CHR ''.'' # w" "CHR ''.'' \<notin> set w" "k \<notin> set library_loggers" using k by blast
    have k0: "k \<noteq> []" using w(1) by simp
    have "library_channel k = None" using w(3) by (simp add: library_channel_def library_loggers_def)
    then have "mg_tree ?m k = \<lparr>ln_handlers = [], ln_propagate = True, ln_level = 0\<rparr>" by (simp add: tn setup_logging_facts(1) [OF c k0])
    moreover have "chain k = k # chain n" using chain_child [OF n0 w(2)] w(1) by simp
    ultimately show ?thesis using n1 by simp
  qed (use n1 in simp)
  then show ?thesis using library_record_refused [OF ch, of "rs_sampling_ratio st" draw k level x] handled_files [OF lv, of st draw ?r "[ch]"]
    by (simp add: delivered_def)
qed

theorem library_logs_vanish_witness:
  "delivered default_routes 0 (foldl (log_step default_routes) (setup_logging default_routes clean_tree (\<lambda>s. 0)) [])
     \<lparr>lr_name = ''sqlalchemy.engine.Engine'', lr_level = 50, lr_attr = None, lr_msg = PlainText ''lost''\<rparr> = []"
  by (rule library_logs_vanish [where n = "''sqlalchemy.engine''"])
    (auto simp: fresh_tree_def clean_tree_def multi_file_def default_routes_def library_loggers_def api_loggers_def database_loggers_def kafka_loggers_def)

text \<open>The server's own loggers are allowed by their names, so their records reach the file of the API.\<close>

lemma server_logs_reach_api:
  "delivered default_routes 0 (setup_logging default_routes clean_tree (\<lambda>s. 0))
     \<lparr>lr_name = ''uvicorn.access'', lr_level = 20, lr_attr = None, lr_msg = PlainText ''GET''\<rparr> = [ChannelFile API_LOG]"
  by code_simp

text \<open>A plain logger propagates to the root and, behind the queue, reaches the console; an error reaches the error log as well.\<close>

lemma plain_logger_reaches_root:
  "delivered default_routes 0 (setup_logging default_routes clean_tree (\<lambda>s. 0))
     \<lparr>lr_name = ''other'', lr_level = 40, lr_attr = None, lr_msg = PlainText ''x''\<rparr> = [StdOut, RootFile, ChannelFile ERROR_LOG]"
  by code_simp

end
