(* ===== verification/Log_Maintenance.thy ===== *)
theory Log_Maintenance
  imports Log_Channels
begin

text \<open>
  Keeping the log directory small and the log queue bounded (core/logging/enhanced_logging.py, _perform_log_maintenance and
  _enable_queue_logging). A directory is a list of entries with distinct names, a file is its content and the time of its last change in
  seconds. What the file system does with a compression is the parameter \<open>io\<close>; \<open>gz\<close> is the compression.
\<close>

record 'c log_file =
  fl_content :: 'c
  fl_mtime :: int

datatype 'c entry = File "'c log_file" | Directory

record 'c log_dir =
  ld_main :: "(string \<times> 'c entry) list"
  ld_archived :: "(string \<times> 'c entry) list"

text \<open>Compressing a file: it works, the source cannot be opened, the copy breaks off and leaves a part, or only the removal fails.\<close>

datatype 'c copy_outcome = Copied | NotOpened | Broken 'c | NotRemoved

record maintenance_settings =
  mt_compression_enabled :: bool
  mt_compression_age_days :: int

definition count_char :: "char \<Rightarrow> string \<Rightarrow> nat" where
  "count_char c s = length (filter (\<lambda>x. x = c) s)"

definition has_suffix :: "string \<Rightarrow> string \<Rightarrow> bool" where
  "has_suffix e s = starts_with (rev e) (rev s)"

text \<open>A primary file: its suffix is .log (a name that only starts with a dot has no suffix) and it has one dot.\<close>

definition primary_log :: "string \<Rightarrow> bool" where
  "primary_log n = (has_suffix ''.log'' n \<and> length n > 4 \<and> count_char CHR ''.'' n = 1)"

definition age_days :: "maintenance_settings \<Rightarrow> int" where
  "age_days st = (if mt_compression_age_days st = 0 then 7 else mt_compression_age_days st)"

definition to_compress :: "maintenance_settings \<Rightarrow> int \<Rightarrow> string \<Rightarrow> 'c log_file \<Rightarrow> bool" where
  "to_compress st now n f =
     (\<not> primary_log n \<and> mt_compression_enabled st \<and> \<not> has_suffix ''.gz'' n \<and> fl_mtime f < now - age_days st * 86400)"

text \<open>A directory in the way of the archive cannot be opened for writing.\<close>

definition compress_file :: "('c \<Rightarrow> 'c) \<Rightarrow> int \<Rightarrow> 'c copy_outcome \<Rightarrow> string \<Rightarrow> 'c log_file \<Rightarrow> 'c log_dir \<Rightarrow> 'c log_dir" where
  "compress_file gz now r n f d =
     (if map_of (ld_archived d) (n @ ''.gz'') = Some Directory then d
      else let store = (\<lambda>c. d\<lparr>ld_archived := dict_set (n @ ''.gz'') (File \<lparr>fl_content = c, fl_mtime = now\<rparr>) (ld_archived d)\<rparr>) in
        case r of
          NotOpened \<Rightarrow> d
        | Broken c \<Rightarrow> store c
        | NotRemoved \<Rightarrow> store (gz (fl_content f))
        | Copied \<Rightarrow> (store (gz (fl_content f)))\<lparr>ld_main := dict_pop n (ld_main d)\<rparr>)"

definition compress_entry ::
  "('c \<Rightarrow> 'c) \<Rightarrow> maintenance_settings \<Rightarrow> int \<Rightarrow> (string \<Rightarrow> 'c copy_outcome) \<Rightarrow> string \<times> 'c entry \<Rightarrow> 'c log_dir \<Rightarrow> 'c log_dir" where
  "compress_entry gz st now io = (\<lambda>(n, e) d.
     (case e of
        Directory \<Rightarrow> d
      | File f \<Rightarrow> if to_compress st now n f then compress_file gz now (io n) n f d else d))"

subsection \<open>Retention\<close>

definition retention_by_prefix :: "(string \<times> nat) list" where
  "retention_by_prefix =
     concat (map (\<lambda>ch. case cc_retention_days (get_channel_config ch) of
         None \<Rightarrow> [] | Some d \<Rightarrow> if d = 0 then [] else [(cc_filename (get_channel_config ch), d)]) all_channels)"

definition retention_days :: "string \<Rightarrow> nat" where
  "retention_days n = (case find (\<lambda>(p, d). starts_with p n) retention_by_prefix of None \<Rightarrow> 30 | Some (p, d) \<Rightarrow> d)"

text \<open>\<open>(now - mtime).days\<close> rounds down.\<close>

definition expired :: "int \<Rightarrow> string \<Rightarrow> 'c entry \<Rightarrow> bool" where
  "expired now n e = (case e of Directory \<Rightarrow> False | File f \<Rightarrow> (now - fl_mtime f) div 86400 > int (retention_days n))"

definition perform_log_maintenance ::
  "('c \<Rightarrow> 'c) \<Rightarrow> maintenance_settings \<Rightarrow> int \<Rightarrow> int \<Rightarrow> (string \<Rightarrow> 'c copy_outcome) \<Rightarrow> (string \<Rightarrow> bool) \<Rightarrow> 'c log_dir \<Rightarrow> 'c log_dir" where
  "perform_log_maintenance gz st now later io unlink_fails d =
     (let d1 = fold (compress_entry gz st now io) (ld_main d) d in
      d1\<lparr>ld_archived := filter (\<lambda>(n, e). \<not> expired later n e \<or> unlink_fails n) (ld_archived d1)\<rparr>)"

subsection \<open>What maintenance keeps\<close>

lemma append_gz [simp]: "n @ ''.gz'' = n' @ ''.gz'' \<longleftrightarrow> n = n'"
  by simp

lemma compress_entry_main:
  "map_of (ld_main (compress_entry gz st now io (n, e) d)) k =
     (if k = n \<and> (\<exists>f. e = File f \<and> to_compress st now n f) \<and> io n = Copied \<and> map_of (ld_archived d) (n @ ''.gz'') \<noteq> Some Directory
      then None else map_of (ld_main d) k)"
  by (auto simp: compress_entry_def compress_file_def Let_def split: entry.splits copy_outcome.splits)

lemma compress_entry_archived:
  "k \<noteq> n @ ''.gz'' \<Longrightarrow> map_of (ld_archived (compress_entry gz st now io (n, e) d)) k = map_of (ld_archived d) k"
  by (auto simp: compress_entry_def compress_file_def Let_def split: entry.splits copy_outcome.splits)

lemma compress_entry_directories:
  "map_of (ld_archived (compress_entry gz st now io x d)) k = Some Directory \<longleftrightarrow> map_of (ld_archived d) k = Some Directory"
  by (cases x) (auto simp: compress_entry_def compress_file_def Let_def split: entry.splits copy_outcome.splits)

lemma compress_all_main:
  "k \<notin> fst ` set es \<Longrightarrow> map_of (ld_main (fold (compress_entry gz st now io) es d)) k = map_of (ld_main d) k"
  by (induction es arbitrary: d) (auto simp: compress_entry_main)

lemma compress_all_archived:
  "\<forall>n\<in>fst ` set es. k \<noteq> n @ ''.gz'' \<Longrightarrow> map_of (ld_archived (fold (compress_entry gz st now io) es d)) k = map_of (ld_archived d) k"
  by (induction es arbitrary: d) (auto simp: compress_entry_archived)

lemma compress_all_at:
  assumes "distinct (map fst es)" "(n, e) \<in> set es"
  shows "map_of (ld_main (fold (compress_entry gz st now io) es d)) n =
      (if (\<exists>f. e = File f \<and> to_compress st now n f) \<and> io n = Copied \<and> map_of (ld_archived d) (n @ ''.gz'') \<noteq> Some Directory
       then None else map_of (ld_main d) n) \<and>
    map_of (ld_archived (fold (compress_entry gz st now io) es d)) (n @ ''.gz'') =
      map_of (ld_archived (compress_entry gz st now io (n, e) d)) (n @ ''.gz'')"
  using assms
proof (induction es arbitrary: d)
  case (Cons x es)
  show ?case
  proof (cases "x = (n, e)")
    case True
    then have n: "n \<notin> fst ` set es" using Cons.prems(1) by auto
    then have g: "\<forall>k\<in>fst ` set es. n @ ''.gz'' \<noteq> k @ ''.gz''" by auto
    show ?thesis using True compress_all_main [OF n] compress_all_archived [OF g] by (simp add: compress_entry_main)
  next
    case False
    obtain n' e' where x: "x = (n', e')" by fastforce
    have n: "n' \<noteq> n" using False Cons.prems x by force
    have m: "map_of (ld_main (compress_entry gz st now io x d)) n = map_of (ld_main d) n" using n x by (simp add: compress_entry_main)
    have a: "map_of (ld_archived (compress_entry gz st now io x d)) (n @ ''.gz'') = map_of (ld_archived d) (n @ ''.gz'')"
      using n x by (simp add: compress_entry_archived)
    have eq: "map_of (ld_archived (compress_entry gz st now io (n, e) d1)) (n @ ''.gz'') =
        map_of (ld_archived (compress_entry gz st now io (n, e) d2)) (n @ ''.gz'')"
      if "map_of (ld_archived d1) (n @ ''.gz'') = map_of (ld_archived d2) (n @ ''.gz'')" for d1 d2 :: "'a log_dir"
      using that by (auto simp: compress_entry_def compress_file_def Let_def split: entry.splits copy_outcome.splits)
    from Cons.prems False x have "distinct (map fst es)" "(n, e) \<in> set es" by auto
    note IH = Cons.IH [OF this]
    show ?thesis using IH [of "compress_entry gz st now io x d"] unfolding m a eq [OF a] fold_simps .
  qed
qed simp

text \<open>The file stays where it is, or its archive holds it compressed.\<close>

definition still_there :: "('c \<Rightarrow> 'c) \<Rightarrow> string \<Rightarrow> 'c log_file \<Rightarrow> 'c log_dir \<Rightarrow> bool" where
  "still_there gz n f d =
     (map_of (ld_main d) n = Some (File f) \<or>
      (\<exists>t. map_of (ld_archived d) (n @ ''.gz'') = Some (File \<lparr>fl_content = gz (fl_content f), fl_mtime = t\<rparr>)))"

lemma map_of_kept: "distinct (map fst d) \<Longrightarrow> map_of (filter (\<lambda>(n, e). P n e) d) k = (case map_of d k of Some e \<Rightarrow> if P k e then Some e else None | None \<Rightarrow> None)"
  by (induction d) (auto split: option.splits simp: map_of_eq_None_iff)

lemma compress_entry_distinct:
  "distinct (map fst (ld_archived d)) \<Longrightarrow> distinct (map fst (ld_archived (compress_entry gz st now io x d)))"
  by (cases x) (auto simp: compress_entry_def compress_file_def Let_def split: entry.splits copy_outcome.splits)

lemma compress_all_distinct:
  "distinct (map fst (ld_archived d)) \<Longrightarrow> distinct (map fst (ld_archived (fold (compress_entry gz st now io) es d)))"
  by (induction es arbitrary: d) (simp_all add: compress_entry_distinct)

text \<open>C39: Maintenance does not lose the log it is working on. A file of the directory is unchanged or its archive holds it, whatever fails; the
  files being written (one dot, suffix .log) are never touched.\<close>

theorem maintenance_keeps_logs:
  assumes d: "distinct (map fst (ld_main d))" "distinct (map fst (ld_archived d))" and f: "map_of (ld_main d) n = Some (File f)"
    and t: "now \<le> later" "later < now + 86400"
  shows "still_there gz n f (perform_log_maintenance gz st now later io uf d) \<and>
    (primary_log n \<longrightarrow> map_of (ld_main (perform_log_maintenance gz st now later io uf d)) n = Some (File f))"
proof -
  let ?d1 = "fold (compress_entry gz st now io) (ld_main d) d"
  have m: "(n, File f) \<in> set (ld_main d)" using f by (rule map_of_SomeD)
  note c = compress_all_at [OF d(1) m, of gz st now io d]
  have keep: "\<not> expired later (n @ ''.gz'') (File \<lparr>fl_content = x, fl_mtime = now\<rparr>)" for x
    using t by (simp add: expired_def)
  have fin: "map_of (ld_archived (perform_log_maintenance gz st now later io uf d)) k =
      (case map_of (ld_archived ?d1) k of Some e \<Rightarrow> if \<not> expired later k e \<or> uf k then Some e else None | None \<Rightarrow> None)" for k
    by (simp add: perform_log_maintenance_def Let_def map_of_kept [OF compress_all_distinct [OF d(2)]] split: option.splits)
  have mn: "ld_main (perform_log_maintenance gz st now later io uf d) = ld_main ?d1"
    by (simp add: perform_log_maintenance_def Let_def)
  show ?thesis
  proof (cases "to_compress st now n f \<and> io n = Copied \<and> map_of (ld_archived d) (n @ ''.gz'') \<noteq> Some Directory")
    case True
    then have "map_of (ld_archived ?d1) (n @ ''.gz'') = Some (File \<lparr>fl_content = gz (fl_content f), fl_mtime = now\<rparr>)"
      using c by (simp add: compress_entry_def compress_file_def Let_def)
    then have "still_there gz n f (perform_log_maintenance gz st now later io uf d)" by (simp add: still_there_def fin keep)
    moreover have "\<not> primary_log n" using True by (simp add: to_compress_def)
    ultimately show ?thesis by simp
  next
    case False
    then have "map_of (ld_main ?d1) n = Some (File f)" using c f by auto
    then show ?thesis by (simp add: still_there_def mn)
  qed
qed

theorem maintenance_keeps_logs_witness:
  "still_there id ''audit.log.1'' \<lparr>fl_content = ''x'', fl_mtime = 0\<rparr>
     (perform_log_maintenance id \<lparr>mt_compression_enabled = True, mt_compression_age_days = 7\<rparr> 1000000 1000001 (\<lambda>n. Copied) (\<lambda>n. False)
       \<lparr>ld_main = [(''audit.log'', File \<lparr>fl_content = ''y'', fl_mtime = 0\<rparr>), (''audit.log.1'', File \<lparr>fl_content = ''x'', fl_mtime = 0\<rparr>)],
        ld_archived = []\<rparr>)"
  using maintenance_keeps_logs [of "\<lparr>ld_main = [(''audit.log'', File \<lparr>fl_content = ''y'', fl_mtime = 0\<rparr>), (''audit.log.1'', File \<lparr>fl_content = ''x'', fl_mtime = 0\<rparr>)],
        ld_archived = []\<rparr>" "''audit.log.1''" "\<lparr>fl_content = ''x'', fl_mtime = 0\<rparr>" 1000000 1000001] by simp

text \<open>But it loses the log before: rotation reuses the same names, so the archive of an earlier file with that name is replaced,
  however long its channel asks to keep it.\<close>

theorem archive_replaces_earlier_log:
  assumes d: "distinct (map fst (ld_main d))" "distinct (map fst (ld_archived d))" and f: "map_of (ld_main d) n = Some (File f)"
    and c: "to_compress st now n f" "io n = Copied" and old: "map_of (ld_archived d) (n @ ''.gz'') = Some (File g)"
    and t: "now \<le> later" "later < now + 86400"
  shows "map_of (ld_archived (perform_log_maintenance gz st now later io uf d)) (n @ ''.gz'') = Some (File \<lparr>fl_content = gz (fl_content f), fl_mtime = now\<rparr>)"
proof -
  let ?d1 = "fold (compress_entry gz st now io) (ld_main d) d"
  have "map_of (ld_archived ?d1) (n @ ''.gz'') = Some (File \<lparr>fl_content = gz (fl_content f), fl_mtime = now\<rparr>)"
    using compress_all_at [OF d(1) map_of_SomeD [OF f], of gz st now io d] c old by (simp add: compress_entry_def compress_file_def Let_def)
  then show ?thesis using t
    by (simp add: perform_log_maintenance_def Let_def map_of_kept [OF compress_all_distinct [OF d(2)]] expired_def)
qed

theorem archive_replaces_earlier_log_witness:
  "map_of (ld_archived (perform_log_maintenance id \<lparr>mt_compression_enabled = True, mt_compression_age_days = 7\<rparr> 1000000 1000001 (\<lambda>n. Copied) (\<lambda>n. False)
     \<lparr>ld_main = [(''audit.log.1'', File \<lparr>fl_content = ''second'', fl_mtime = 0\<rparr>)],
      ld_archived = [(''audit.log.1.gz'', File \<lparr>fl_content = ''first'', fl_mtime = 999999\<rparr>)]\<rparr>)) ''audit.log.1.gz'' =
     Some (File \<lparr>fl_content = ''second'', fl_mtime = 1000000\<rparr>)"
  using archive_replaces_earlier_log [of "\<lparr>ld_main = [(''audit.log.1'', File \<lparr>fl_content = ''second'', fl_mtime = 0\<rparr>)],
      ld_archived = [(''audit.log.1.gz'', File \<lparr>fl_content = ''first'', fl_mtime = 999999\<rparr>)]\<rparr>" "''audit.log.1''" "\<lparr>fl_content = ''second'', fl_mtime = 0\<rparr>"
    "\<lparr>mt_compression_enabled = True, mt_compression_age_days = 7\<rparr>" 1000000 "\<lambda>n. Copied" "\<lparr>fl_content = ''first'', fl_mtime = 999999\<rparr>" 1000001 id "\<lambda>n. False"]
  by (simp add: to_compress_def primary_log_def has_suffix_def age_days_def count_char_def)

text \<open>Retention is by channel: an archived file goes exactly when it is older than its channel asks, a year for trading and audit.\<close>

lemma retention_values:
  "retention_days ''audit.log.3.gz'' = 365" "retention_days ''trading.log.1.gz'' = 365" "retention_days ''market_data.log.1.gz'' = 7"
  "retention_days ''error.log.1.gz'' = 90" "retention_days ''alpha_panda.log.1.gz'' = 30"
  by code_simp+

subsection \<open>The queue of records\<close>

text \<open>The handler puts a record without waiting and counts it as dropped when the queue is full; the listener takes them in order.\<close>

record 'm log_queue =
  lq_queue :: "'m list"
  lq_maxsize :: nat
  lq_dropped :: nat

definition queue_capacity :: "int \<Rightarrow> nat" where
  "queue_capacity setting = nat (max 1000 (if setting = 0 then 10000 else setting))"

definition queue_emit :: "'m \<Rightarrow> 'm log_queue \<Rightarrow> 'm log_queue" where
  "queue_emit r q = (if length (lq_queue q) < lq_maxsize q then q\<lparr>lq_queue := lq_queue q @ [r]\<rparr> else q\<lparr>lq_dropped := lq_dropped q + 1\<rparr>)"

datatype 'm queue_event = Emit 'm | Listen

text \<open>One step, and the records forwarded so far.\<close>

fun queue_step :: "'m log_queue \<times> 'm list \<Rightarrow> 'm queue_event \<Rightarrow> 'm log_queue \<times> 'm list" where
  "queue_step (q, out) (Emit r) = (queue_emit r q, out)"
| "queue_step (q, out) Listen = (case lq_queue q of [] \<Rightarrow> (q, out) | r # rs \<Rightarrow> (q\<lparr>lq_queue := rs\<rparr>, out @ [r]))"

definition emitted :: "'m queue_event list \<Rightarrow> 'm list" where
  "emitted es = concat (map (\<lambda>e. case e of Emit r \<Rightarrow> [r] | Listen \<Rightarrow> []) es)"

lemma queue_step_keeps:
  assumes "queue_step (q, out) e = (q', out')"
  shows "lq_maxsize q' = lq_maxsize q" "length (lq_queue q) \<le> lq_maxsize q \<Longrightarrow> length (lq_queue q') \<le> lq_maxsize q'"
    "length out' + length (lq_queue q') + lq_dropped q' = length out + length (lq_queue q) + lq_dropped q + length (emitted [e])"
    "lq_dropped q \<le> lq_dropped q'"
  using assms by (cases e; auto simp: queue_emit_def emitted_def split: list.splits if_splits)+

text \<open>The queue stays within its size, and every record emitted is forwarded, waiting or counted as dropped.\<close>

theorem queue_accounts_for_records:
  assumes "foldl queue_step (q, out) es = (q', out')" "length (lq_queue q) \<le> lq_maxsize q"
  shows "length (lq_queue q') \<le> lq_maxsize q \<and> length out' + length (lq_queue q') + lq_dropped q' = length out + length (lq_queue q) + lq_dropped q + length (emitted es)"
  using assms
proof (induction es arbitrary: q out)
  case (Cons e es)
  obtain q1 out1 where 1: "queue_step (q, out) e = (q1, out1)" by fastforce
  have "length (emitted (e # es)) = length (emitted [e]) + length (emitted es)" by (simp add: emitted_def)
  with Cons.IH [of q1 out1] Cons.prems 1 queue_step_keeps [OF 1] show ?case by simp
qed (simp add: emitted_def)

text \<open>While nothing is dropped, the records come out in the order they were emitted.\<close>

lemma queue_in_order:
  assumes "foldl queue_step (q, out) es = (q', out')" "lq_dropped q' = lq_dropped q"
  shows "out' @ lq_queue q' = out @ lq_queue q @ emitted es"
  using assms
proof (induction es arbitrary: q out)
  case (Cons e es)
  obtain q1 out1 where 1: "queue_step (q, out) e = (q1, out1)" by fastforce
  have mono: "lq_dropped a \<le> lq_dropped a'" if "foldl queue_step (a, o1) es = (a', o2)" for a a' :: "'a log_queue" and o1 o2 es
    using that
  proof (induction es arbitrary: a o1)
    case (Cons x xs)
    obtain b o3 where "queue_step (a, o1) x = (b, o3)" by fastforce
    with Cons queue_step_keeps(4) [OF this] show ?case by (metis foldl_Cons order.trans)
  qed simp
  have d: "lq_dropped q1 = lq_dropped q" using mono [of q1 out1 es q' out'] queue_step_keeps(4) [OF 1] 1 Cons.prems by simp
  have "out1 @ lq_queue q1 = out @ lq_queue q @ emitted [e]"
    using 1 d by (cases e) (auto simp: queue_emit_def emitted_def split: list.splits if_splits)
  with Cons.IH [of q1 out1] Cons.prems 1 d show ?case by (simp add: emitted_def)
qed (simp add: emitted_def)

lemma queue_capacity_at_least: "1000 \<le> queue_capacity s"
  by (simp add: queue_capacity_def)

end
