(* ===== verification/Rate_Limit.thy ===== *)
theory Rate_Limit
  imports Py_Format Py_Seq "HOL-Library.List_Lexorder" "HOL-Library.Char_ord"
begin

text \<open>
  RateLimitingMiddleware (api/middleware/rate_limiting.py): who a request is from, and the sliding window kept in
  memory or, as a sorted set per client, in Redis. Times are seconds. The expiry of a key only removes members that are too
  old anyway and is left out; \<open>tx\<close> is \<open>str\<close> of a time, the member under which a request is counted.
\<close>

record request =
  rq_path :: string
  rq_forwarded_for :: "string option"
  rq_real_ip :: "string option"
  rq_host :: "string option"

definition get_client_ip :: "request \<Rightarrow> string" where
  "get_client_ip r =
     (case rq_forwarded_for r of
        Some (c # cs) \<Rightarrow> strip (hd (split_on CHR '','' (c # cs)))
      | _ \<Rightarrow> (case rq_real_ip r of
          Some (c # cs) \<Rightarrow> strip (c # cs)
        | _ \<Rightarrow> (case rq_host r of Some h \<Rightarrow> h | None \<Rightarrow> ''unknown'')))"

record limit_config =
  lm_calls :: nat
  lm_period :: rat

subsection \<open>In memory\<close>

definition check_memory :: "limit_config \<Rightarrow> rat \<Rightarrow> rat list \<Rightarrow> bool \<times> rat list" where
  "check_memory c now reqs =
     (let recent = dropWhile (\<lambda>t. t \<le> now - lm_period c) reqs in
      if lm_calls c \<le> length recent then (False, recent) else (True, recent @ [now]))"

subsection \<open>In Redis\<close>

definition zremrangebyscore :: "rat \<Rightarrow> rat \<Rightarrow> (string \<times> rat) list \<Rightarrow> (string \<times> rat) list" where
  "zremrangebyscore lo hi z = filter (\<lambda>(m, sc). \<not> (lo \<le> sc \<and> sc \<le> hi)) z"

definition check_redis :: "(rat \<Rightarrow> string) \<Rightarrow> limit_config \<Rightarrow> rat \<Rightarrow> (string \<times> rat) list \<Rightarrow> bool \<times> (string \<times> rat) list" where
  "check_redis tx c now z =
     (let z' = dict_set (tx now) now (zremrangebyscore 0 (now - lm_period c) z) in (length z' \<le> lm_calls c, z'))"

subsection \<open>The middleware\<close>

datatype limiter = Memory "string \<Rightarrow> rat list" | Redis "string \<Rightarrow> (string \<times> rat) list"

datatype answer = Forwarded | TooManyRequests rat

text \<open>\<open>fails\<close>: Redis raises before it has done anything; the request is let through.\<close>

definition dispatch :: "(rat \<Rightarrow> string) \<Rightarrow> limit_config \<Rightarrow> bool \<Rightarrow> rat \<Rightarrow> request \<Rightarrow> limiter \<Rightarrow> answer \<times> limiter" where
  "dispatch tx c fails now r l =
     (let ip = get_client_ip r; verdict = (\<lambda>b. if b then Forwarded else TooManyRequests (lm_period c)) in
      if rq_path r = ''/health'' \<or> rq_path r = ''/api/v1/monitoring/health'' then (Forwarded, l)
      else case l of
          Memory m \<Rightarrow> (let (b, q) = check_memory c now (m ip) in (verdict b, Memory (m(ip := q))))
        | Redis s \<Rightarrow> if fails then (Forwarded, l)
                     else let (b, z) = check_redis tx c now (s ip) in (verdict b, Redis (s(ip := z))))"

subsection \<open>What the limits promise\<close>

text \<open>The contract: a request is allowed when fewer than \<open>lm_calls\<close> of the requests counted so far lie within the period. In memory the
  allowed requests are counted.\<close>

definition in_window :: "limit_config \<Rightarrow> rat \<Rightarrow> rat list \<Rightarrow> rat list" where
  "in_window c now ts = filter (\<lambda>t. now - lm_period c < t) ts"

fun spec_run :: "limit_config \<Rightarrow> rat list \<Rightarrow> rat list \<Rightarrow> bool list" where
  "spec_run c hist [] = []"
| "spec_run c hist (t # ts) =
     (let ok = length (in_window c t hist) < lm_calls c in ok # spec_run c (if ok then hist @ [t] else hist) ts)"

fun memory_run :: "limit_config \<Rightarrow> rat list \<Rightarrow> rat list \<Rightarrow> bool list" where
  "memory_run c reqs [] = []"
| "memory_run c reqs (t # ts) = (let (b, reqs') = check_memory c t reqs in b # memory_run c reqs' ts)"

lemma dropWhile_sorted: "sorted ts \<Longrightarrow> dropWhile (\<lambda>t. t \<le> b) ts = filter (\<lambda>t. b < t) (ts :: rat list)"
proof (induction ts)
  case (Cons x xs)
  show ?case
  proof (cases "x \<le> b")
    case False
    then have "\<forall>y\<in>set xs. b < y" using Cons.prems by auto
    with False show ?thesis by simp
  qed (use Cons in simp)
qed simp

lemma in_window_twice: "b \<le> now \<Longrightarrow> in_window c now (in_window c b ts) = in_window c now ts"
  by (auto simp: in_window_def intro!: filter_cong)

lemma memory_run_spec:
  assumes "sorted (hist @ ts)" "reqs = in_window c b hist" "\<And>t. t \<in> set ts \<Longrightarrow> b \<le> t" "0 < lm_period c"
  shows "memory_run c reqs ts = spec_run c hist ts"
  using assms
proof (induction ts arbitrary: hist reqs b)
  case (Cons t ts)
  have s: "sorted (in_window c b hist)" using Cons.prems(1) by (simp add: in_window_def sorted_append sorted_wrt_filter)
  have w: "dropWhile (\<lambda>x. x \<le> t - lm_period c) reqs = in_window c t hist"
    using dropWhile_sorted [OF s] in_window_twice [of b t c hist] Cons.prems(2,3) by (simp add: in_window_def)
  have t: "in_window c t (hist @ [t]) = in_window c t hist @ [t]" using Cons.prems(4) by (simp add: in_window_def)
  have le: "\<And>x. x \<in> set ts \<Longrightarrow> t \<le> x" using Cons.prems(1) by (simp add: sorted_append)
  show ?case
  proof (cases "length (in_window c t hist) < lm_calls c")
    case True
    have "memory_run c (in_window c t hist @ [t]) ts = spec_run c (hist @ [t]) ts"
      using Cons.prems(1,4) t le by (intro Cons.IH [of "hist @ [t]" _ t]) auto
    with True w show ?thesis by (simp add: check_memory_def Let_def)
  next
    case False
    have "memory_run c (in_window c t hist) ts = spec_run c hist ts"
      using Cons.prems(1,4) le by (intro Cons.IH [of hist _ t]) (auto simp: sorted_append)
    with False w show ?thesis by (simp add: check_memory_def Let_def)
  qed
qed simp

text \<open>C36: The deque of recent requests answers like the whole history: while the clock does not go back, every request of a client is allowed
  exactly when fewer than the limit of the requests allowed before lie in the last period.\<close>

theorem memory_limit_refines_history:
  assumes "sorted ts" "0 < lm_period c"
  shows "memory_run c [] ts = spec_run c [] ts"
proof (cases ts)
  case (Cons t us)
  have "memory_run c (in_window c t []) ts = spec_run c [] ts"
    by (rule memory_run_spec [where b = t]) (use assms Cons in auto)
  then show ?thesis by (simp add: in_window_def)
qed simp

theorem memory_limit_refines_history_witness:
  "memory_run \<lparr>lm_calls = 2, lm_period = 60\<rparr> [] [0, 25, 50, 75] = [True, True, False, True]"
  using memory_limit_refines_history [of "[0, 25, 50, 75]" "\<lparr>lm_calls = 2, lm_period = 60\<rparr>"] by (simp add: in_window_def)

text \<open>So no window of one period ever holds more allowed requests than the limit.\<close>

fun spec_allowed :: "limit_config \<Rightarrow> rat list \<Rightarrow> rat list \<Rightarrow> rat list" where
  "spec_allowed c hist [] = hist"
| "spec_allowed c hist (t # ts) = spec_allowed c (if length (in_window c t hist) < lm_calls c then hist @ [t] else hist) ts"

definition within_limit :: "limit_config \<Rightarrow> rat list \<Rightarrow> bool" where
  "within_limit c hist = (\<forall>e. length (filter (\<lambda>t. e - lm_period c < t \<and> t \<le> e) hist) \<le> lm_calls c)"

lemma window_ok_snoc:
  assumes "within_limit c hist" "length (in_window c t hist) < lm_calls c" "\<And>x. x \<in> set hist \<Longrightarrow> x \<le> t"
  shows "within_limit c (hist @ [t])"
  unfolding within_limit_def
proof
  fix e
  have le: "length (filter (\<lambda>x. e - lm_period c < x \<and> x \<le> e) hist) \<le> lm_calls c" using assms(1) by (simp add: within_limit_def)
  show "length (filter (\<lambda>x. e - lm_period c < x \<and> x \<le> e) (hist @ [t])) \<le> lm_calls c"
  proof (cases "e - lm_period c < t \<and> t \<le> e")
    case True
    then have "filter (\<lambda>x. e - lm_period c < x \<and> x \<le> e) hist = filter (\<lambda>x. e - lm_period c < x \<and> x \<le> e) (in_window c t hist)"
      using assms(3) by (auto simp: in_window_def intro!: filter_cong)
    then have "length (filter (\<lambda>x. e - lm_period c < x \<and> x \<le> e) hist) \<le> length (in_window c t hist)" by simp
    with True assms(2) show ?thesis by simp
  qed (use le in auto)
qed

lemma windows_within_limit:
  assumes "sorted (hist @ ts)" "within_limit c hist"
  shows "within_limit c (spec_allowed c hist ts)"
  using assms
proof (induction ts arbitrary: hist)
  case (Cons t ts)
  then have "\<And>x. x \<in> set hist \<Longrightarrow> x \<le> t" by (auto simp: sorted_append)
  with Cons window_ok_snoc [of c hist t] show ?case by (auto simp: sorted_append)
qed simp

subsection \<open>Redis counts what it refuses\<close>

fun redis_run :: "(rat \<Rightarrow> string) \<Rightarrow> limit_config \<Rightarrow> (string \<times> rat) list \<Rightarrow> rat list \<Rightarrow> bool list" where
  "redis_run tx c z [] = []"
| "redis_run tx c z (t # ts) = (let (b, z') = check_redis tx c t z in b # redis_run tx c z' ts)"

text \<open>The contract of this variant: every attempt counts, also a refused one.\<close>

fun attempts_run :: "limit_config \<Rightarrow> rat list \<Rightarrow> rat list \<Rightarrow> bool list" where
  "attempts_run c hist [] = []"
| "attempts_run c hist (t # ts) = (length (in_window c t (hist @ [t])) \<le> lm_calls c) # attempts_run c (hist @ [t]) ts"

definition members :: "(rat \<Rightarrow> string) \<Rightarrow> rat list \<Rightarrow> (string \<times> rat) list" where
  "members tx ts = map (\<lambda>t. (tx t, t)) ts"

lemma dict_set_new: "k \<notin> fst ` set d \<Longrightarrow> dict_set k v d = d @ [(k, v)]"
  by (induction k v d rule: dict_set.induct) auto

lemma redis_run_attempts:
  assumes "inj tx" "sorted_wrt (<) (hist @ ts)" "\<And>t. t \<in> set (hist @ ts) \<Longrightarrow> 0 \<le> t" "z = members tx (in_window c b hist)"
    "\<And>t. t \<in> set ts \<Longrightarrow> b \<le> t" "0 < lm_period c"
  shows "redis_run tx c z ts = attempts_run c hist ts"
  using assms
proof (induction ts arbitrary: hist z b)
  case (Cons t ts)
  have w: "zremrangebyscore 0 (t - lm_period c) z = members tx (in_window c t hist)"
  proof -
    have "zremrangebyscore 0 (t - lm_period c) z = members tx (filter (\<lambda>x. \<not> (0 \<le> x \<and> x \<le> t - lm_period c)) (in_window c b hist))"
      by (simp add: Cons.prems(4) zremrangebyscore_def members_def filter_map comp_def)
    also have "filter (\<lambda>x. \<not> (0 \<le> x \<and> x \<le> t - lm_period c)) (in_window c b hist) = in_window c t (in_window c b hist)"
      using Cons.prems(3) by (auto simp: in_window_def intro!: filter_cong)
    finally show ?thesis using in_window_twice [of b t c hist] Cons.prems(5) by simp
  qed
  have "tx t \<notin> fst ` set (members tx (in_window c t hist))"
    using Cons.prems(1,2) by (auto simp: members_def in_window_def sorted_wrt_append inj_eq)
  then have z': "check_redis tx c t z = (length (in_window c t (hist @ [t])) \<le> lm_calls c, members tx (in_window c t (hist @ [t])))"
    using Cons.prems(6) by (simp add: check_redis_def w dict_set_new members_def in_window_def)
  have "redis_run tx c (members tx (in_window c t (hist @ [t]))) ts = attempts_run c (hist @ [t]) ts"
    using Cons.prems by (intro Cons.IH [of "hist @ [t]" _ t]) (auto simp: sorted_wrt_append less_imp_le)
  with z' show ?case by simp
qed simp

theorem redis_limit_counts_attempts:
  assumes "inj tx" "sorted_wrt (<) ts" "\<And>t. t \<in> set ts \<Longrightarrow> 0 \<le> t" "0 < lm_period c"
  shows "redis_run tx c [] ts = attempts_run c [] ts"
proof (cases ts)
  case (Cons t us)
  have "redis_run tx c (members tx (in_window c t [])) ts = attempts_run c [] ts"
    by (rule redis_run_attempts [where b = t]) (use assms Cons in \<open>auto simp: less_imp_le\<close>)
  then show ?thesis by (simp add: in_window_def members_def)
qed simp

text \<open>A client that asks a little too often is locked out for good, where the variant in memory would admit it again and again.\<close>

lemma attempts_append: "attempts_run c hist (ts @ us) = attempts_run c hist ts @ attempts_run c (hist @ ts) us"
  by (induction ts arbitrary: hist) simp_all

definition every25 :: "nat \<Rightarrow> rat list" where
  "every25 n = map (\<lambda>k. 25 * of_nat k) [0..<n]"

lemma every25_Suc: "every25 (Suc n) = every25 n @ [25 * of_nat n]"
  by (simp add: every25_def)

lemma eager_client_locked_out:
  "attempts_run \<lparr>lm_calls = 2, lm_period = 60\<rparr> [] (every25 (n + 2)) = [True, True] @ replicate n False"
proof (induction n)
  case 0
  show ?case by (simp add: every25_def in_window_def numeral_2_eq_2)
next
  case (Suc n)
  have l: "[25 * of_nat n, 25 * of_nat n + 25, 25 * of_nat n + 50 :: rat] = in_window \<lparr>lm_calls = 2, lm_period = 60\<rparr> (25 * of_nat n + 50)
      [25 * of_nat n, 25 * of_nat n + 25, 25 * of_nat n + 50]" by (simp add: in_window_def)
  have e: "every25 (Suc n + 2) = every25 n @ [25 * of_nat n, 25 * of_nat n + 25, 25 * of_nat n + 50]"
    by (simp add: every25_Suc algebra_simps)
  have "3 \<le> length (in_window \<lparr>lm_calls = 2, lm_period = 60\<rparr> (25 * of_nat n + 50) (every25 (Suc n + 2)))"
    unfolding e by (simp add: in_window_def)
  moreover have "every25 (Suc n + 2) = every25 (n + 2) @ [25 * of_nat n + 50]" using every25_Suc [of "n + 2"] by (simp add: algebra_simps)
  ultimately show ?case using Suc by (simp add: attempts_append replicate_append_same)
qed

text \<open>The header decides who is asking, so a client chooses its own name: with a new one it starts afresh.\<close>

lemma header_decides_client:
  "rq_forwarded_for r = Some (c # cs) \<Longrightarrow> CHR '','' \<notin> set (c # cs) \<Longrightarrow> get_client_ip r = strip (c # cs)"
  by (simp add: get_client_ip_def split_on_no_sep del: split_on.simps)

lemma new_name_is_free:
  assumes "m (get_client_ip r) = []" "0 < lm_calls c"
  shows "fst (dispatch tx c fails now r (Memory m)) = Forwarded"
  using assms by (simp add: dispatch_def check_memory_def Let_def)

lemma refused_without_room:
  assumes "rq_path r \<noteq> ''/health''" "rq_path r \<noteq> ''/api/v1/monitoring/health''" "lm_calls c = 0"
  shows "fst (dispatch tx c fails now r (Memory m)) = TooManyRequests (lm_period c)"
  using assms by (simp add: dispatch_def check_memory_def Let_def)

end
