(* ===== verification/Api_Gateway.thy ===== *)
theory Api_Gateway
  imports Rate_Limit Log_Correlation
begin

text \<open>
  The middleware of the API (api/middleware, api/main.py) and the dependency that asks for a user (api/dependencies.py), around
  the handler of the route, a parameter. FastAPI calls the middleware that was added last first: rate limiting, authentication, errors,
  route template, request id. An exception that leaves the stack is a value; the body of a response is left out.
\<close>

datatype http_result = Response nat "(string \<times> string) list" | HttpError nat | Raised exn

record api_request = request +
  rq_method :: string
  rq_template :: "string option"
  rq_correlation :: "string option"
  rq_user_id :: "string option"
  rq_query :: string

type_synonym endpoint = "api_request \<Rightarrow> log_ctx \<Rightarrow> http_result \<times> log_ctx"

fun add_header :: "string \<Rightarrow> string \<Rightarrow> http_result \<Rightarrow> http_result" where
  "add_header k v (Response st hs) = Response st (dict_set k v hs)"
| "add_header k v r = r"

subsection \<open>Identifiers\<close>

text \<open>RequestIdMiddleware: only a response that comes back carries the headers.\<close>

definition request_id_middleware :: "string \<Rightarrow> string \<Rightarrow> endpoint \<Rightarrow> endpoint" where
  "request_id_middleware rid fresh app r x =
     (let (cid, x1) = ensure_cid fresh x;
          (_, x2) = set_correlation_context [(''request_id'', JStr rid), (''method'', JStr (rq_method r)), (''path'', JStr (rq_path r))] x1;
          (res, x3) = app r x2;
          res1 = add_header ''X-Request-ID'' rid res
      in ((if py_truthy cid then add_header ''X-Correlation-ID'' (py_str cid) res1 else res1), x3))"

definition route_template_middleware :: "endpoint \<Rightarrow> endpoint" where
  "route_template_middleware app r x =
     (case rq_template r of
        Some (c # cs) \<Rightarrow> app r (snd (set_correlation_context [(''route_template'', JStr (c # cs))] x))
      | _ \<Rightarrow> app r x)"

text \<open>CorrelationMiddleware: the identifier of the request, cleared whatever happens.\<close>

definition text_or_null :: "string option \<Rightarrow> json" where
  "text_or_null v = (case v of None \<Rightarrow> JNull | Some t \<Rightarrow> JStr t)"

definition correlation_middleware :: "string \<Rightarrow> string \<Rightarrow> endpoint \<Rightarrow> endpoint" where
  "correlation_middleware fresh now app r x =
     (let cid = (case rq_correlation r of Some (c # cs) \<Rightarrow> c # cs | _ \<Rightarrow> fresh);
          x1 = set_cid (JStr cid) x;
          (_, x2) = create_correlation_context fresh now ''alpha_panda_api'' (rq_method r @ '' '' @ rq_path r) None (rq_user_id r)
             [(''client_ip'', JStr (case rq_host r of Some h \<Rightarrow> h | None \<Rightarrow> ''unknown'')), (''method'', JStr (rq_method r)),
              (''path'', JStr (rq_path r)), (''query_params'', if rq_query r = [] then JNull else JStr (rq_query r))] x1;
          (res, x3) = app r x2
      in (add_header ''X-Correlation-ID'' cid res, clear_correlation x3))"

subsection \<open>Errors\<close>

definition error_handling_middleware :: "endpoint \<Rightarrow> endpoint" where
  "error_handling_middleware app r x = (case app r x of (Raised e, x1) \<Rightarrow> (Response 500 [], x1) | res \<Rightarrow> res)"

subsection \<open>Authentication\<close>

record auth_gate =
  ag_validated :: bool
  ag_status :: "exn + bool"
  ag_authenticated :: bool
  ag_development :: bool

definition excluded_paths :: "string list" where
  "excluded_paths = [''/health'', ''/docs'', ''/openapi.json'', ''/redoc'', ''/api/v1/auth/status'', ''/api/v1/system/info'']"

definition auth_unready :: exn where
  "auth_unready = raise_exn (Other ''RuntimeError'') ''Auth middleware cannot initialize''"

definition validate_auth_service :: "auth_gate \<Rightarrow> bool" where
  "validate_auth_service g = (ag_validated g \<or> ag_status g = Inr True)"

definition open_path :: "auth_gate \<Rightarrow> string \<Rightarrow> bool" where
  "open_path g p = (list_ex (\<lambda>e. starts_with e p) excluded_paths \<or> starts_with ''/api/v1/monitoring'' p \<and> ag_development g)"

definition authentication_middleware :: "auth_gate \<Rightarrow> endpoint \<Rightarrow> endpoint" where
  "authentication_middleware g app r x =
     (if \<not> validate_auth_service g then (Raised auth_unready, x)
      else if open_path g (rq_path r) then app r x
      else if \<not> ag_authenticated g then (HttpError 401, x)
      else app r x)"

text \<open>get_current_user: the profile of the session, or the status it raises.\<close>

definition get_current_user :: "auth_gate \<Rightarrow> (exn + 'u option) \<Rightarrow> nat + 'u" where
  "get_current_user g profile =
     (if \<not> ag_authenticated g then Inl 401
      else case profile of Inl e \<Rightarrow> Inl 503 | Inr None \<Rightarrow> Inl 401 | Inr (Some u) \<Rightarrow> Inr u)"

definition get_current_user_optional :: "auth_gate \<Rightarrow> (exn + 'u option) \<Rightarrow> 'u option" where
  "get_current_user_optional g profile = (if \<not> ag_authenticated g then None else case profile of Inl e \<Rightarrow> None | Inr u \<Rightarrow> u)"

subsection \<open>The stack\<close>

definition limit_middleware ::
  "(rat \<Rightarrow> string) \<Rightarrow> limit_config \<Rightarrow> bool \<Rightarrow> rat \<Rightarrow> endpoint \<Rightarrow> api_request \<Rightarrow> limiter \<times> log_ctx \<Rightarrow> http_result \<times> limiter \<times> log_ctx" where
  "limit_middleware tx c fails now app r s =
     (case dispatch tx c fails now (request.truncate r) (fst s) of
        (Forwarded, l) \<Rightarrow> (let (res, x) = app r (snd s) in (res, l, x))
      | (TooManyRequests p, l) \<Rightarrow> (HttpError 429, l, snd s))"

definition inner_stack :: "auth_gate \<Rightarrow> string \<Rightarrow> string \<Rightarrow> endpoint \<Rightarrow> endpoint" where
  "inner_stack g rid fresh app =
     authentication_middleware g (error_handling_middleware (route_template_middleware (request_id_middleware rid fresh app)))"

definition api_config :: limit_config where
  "api_config = \<lparr>lm_calls = 100, lm_period = 60\<rparr>"

definition api_stack ::
  "(rat \<Rightarrow> string) \<Rightarrow> bool \<Rightarrow> auth_gate \<Rightarrow> string \<Rightarrow> string \<Rightarrow> rat \<Rightarrow> endpoint \<Rightarrow> api_request \<Rightarrow> limiter \<times> log_ctx \<Rightarrow> http_result \<times> limiter \<times> log_ctx" where
  "api_stack tx fails g rid fresh now app = limit_middleware tx api_config fails now (inner_stack g rid fresh app)"


definition demo_request :: api_request where
  "demo_request = \<lparr>rq_path = ''/api/v1/portfolios'', rq_forwarded_for = None, rq_real_ip = None, rq_host = Some ''10.0.0.1'', rq_method = ''GET'',
     rq_template = None, rq_correlation = None, rq_user_id = None, rq_query = []\<rparr>"

definition closed_gate :: auth_gate where
  "closed_gate = \<lparr>ag_validated = True, ag_status = Inr True, ag_authenticated = False, ag_development = False\<rparr>"


text \<open>The session is the broker's, not the caller's: once the service is logged in, who is calling plays no part.\<close>

lemma any_caller_is_authenticated:
  assumes "ag_authenticated g" "validate_auth_service g"
  shows "authentication_middleware g app r x = app r x"
  using assms by (simp add: authentication_middleware_def)

text \<open>Paths are open by prefix, so everything that begins like one is.\<close>

lemma prefix_opens_path: "open_path g (''/health'' @ rest)"
  by (simp add: open_path_def excluded_paths_def)

text \<open>A handler that fails unexpectedly is answered with 500, and that response carries no identifiers: the headers are
  added inside.\<close>

lemma failure_loses_headers:
  assumes "app r x2 = (Raised e, x3)" "open_path g (rq_path r)" "validate_auth_service g" "rq_template r = None"
    and "x2 = snd (set_correlation_context [(''request_id'', JStr rid), (''method'', JStr (rq_method r)), (''path'', JStr (rq_path r))] (snd (ensure_cid fresh x)))"
  shows "inner_stack g rid fresh app r x = (Response 500 [], x3)"
  using assms by (auto simp: inner_stack_def authentication_middleware_def error_handling_middleware_def route_template_middleware_def
      request_id_middleware_def Let_def split: prod.splits)

text \<open>The correlation middleware gives back the caller's identifier and leaves no context behind.\<close>

lemma correlation_is_returned:
  assumes "rq_correlation r = Some (c # cs)" "\<And>x2. app r x2 = (Response st hs, x3)"
  shows "fst (correlation_middleware fresh now app r x) = Response st (dict_set ''X-Correlation-ID'' (c # cs) hs)"
  using assms by (simp add: correlation_middleware_def Let_def split: prod.splits)

lemma correlation_is_cleared:
  "lc_id (snd (correlation_middleware fresh now app r x)) = JNull" "lc_context (snd (correlation_middleware fresh now app r x)) = []"
  by (simp_all add: correlation_middleware_def clear_correlation_def Let_def split: prod.splits)

end
