(* ===== verification/Pipeline_Loop.thy ===== *)
theory Pipeline_Loop
  imports Pipeline_Validator
begin

text \<open>
  PipelineMonitor (core/monitoring/pipeline_monitor.py): a round of validations of every active broker, what it stores in Redis, its history, the
  pauses of the loop, and reading the results back. The validator is that of Pipeline_Validator; lists in Redis are a second
  interface. A round reads the clock once; a stage is stored with its verdict and its issue.
\<close>

subsection \<open>The history\<close>

record 'r list_ops =
  lo_lpush :: "string \<Rightarrow> json \<Rightarrow> (unit, 'r) rm"
  lo_ltrim :: "string \<Rightarrow> nat \<Rightarrow> nat \<Rightarrow> (unit, 'r) rm"
  lo_expire :: "string \<Rightarrow> nat \<Rightarrow> (unit, 'r) rm"
  lo_lrange :: "string \<Rightarrow> nat \<Rightarrow> int \<Rightarrow> (json list, 'r) rm"

definition history_key :: "string \<Rightarrow> string" where
  "history_key broker = ''pipeline:health_history:'' @ broker"

definition health_record :: "string \<Rightarrow> string \<Rightarrow> verdict \<Rightarrow> json" where
  "health_record now broker v =
     JObj [(''timestamp'', JStr now), (''overall_health'', JStr (vr_overall v)), (''broker'', JStr broker),
       (''stage_health'', JObj (map (\<lambda>(n, st). (n, JBool (sg_healthy st))) (vr_stages v))),
       (''bottleneck_count'', JInt (int (length (vr_bottlenecks v))))]"

definition store_health_history :: "'r list_ops \<Rightarrow> string \<Rightarrow> verdict \<Rightarrow> string \<Rightarrow> (unit, 'r) rm" where
  "store_health_history L now v broker s =
     (case rbind (lo_lpush L (history_key broker) (health_record now broker v))
         (\<lambda>_. rbind (lo_ltrim L (history_key broker) 0 99) (\<lambda>_. lo_expire L (history_key broker) 86400)) s of
        (_, s1) \<Rightarrow> (Inr (), s1))"

text \<open>What the lists of Redis promise; the list under a key, newest first.\<close>

locale list_store =
  fixes L :: "'r list_ops" and hist :: "'r \<Rightarrow> string \<Rightarrow> json list"
  assumes push: "lo_lpush L k v s = (Inr (), s') \<Longrightarrow> hist s' = (hist s)(k := v # hist s k)"
    and trim: "lo_ltrim L k 0 n s = (Inr (), s') \<Longrightarrow> hist s' = (hist s)(k := take (Suc n) (hist s k))"
    and expire: "lo_expire L k t s = (Inr (), s') \<Longrightarrow> hist s' = hist s"
begin

lemma stored:
  assumes "lo_lpush L (history_key b) (health_record now b v) s = (Inr (), s1)" "lo_ltrim L (history_key b) 0 99 s1 = (Inr (), s2)"
    "lo_expire L (history_key b) 86400 s2 = (Inr (), s3)"
  shows "store_health_history L now v b s = (Inr (), s3)"
    "hist s3 = (hist s)(history_key b := take 100 (health_record now b v # hist s (history_key b)))"
proof -
  show "store_health_history L now v b s = (Inr (), s3)" using assms by (simp add: store_health_history_def rbind_def)
  show "hist s3 = (hist s)(history_key b := take 100 (health_record now b v # hist s (history_key b)))"
    using push [OF assms(1)] trim [OF assms(2)] expire [OF assms(3)] by simp
qed

end


definition demo_lists :: "((string \<times> rvalue) list \<times> (string \<Rightarrow> json list)) list_ops" where
  "demo_lists =
     \<lparr>lo_lpush = (\<lambda>k v (d, h). (Inr (), (d, h(k := v # h k)))), lo_ltrim = (\<lambda>k lo hi (d, h). (Inr (), (d, h(k := drop lo (take (Suc hi) (h k)))))),
      lo_expire = (\<lambda>k t s. (Inr (), s)),
      lo_lrange = (\<lambda>k lo hi (d, h). (Inr (if hi < 0 then drop lo (h k) else drop lo (take (Suc (nat hi)) (h k))), (d, h)))\<rparr>"

interpretation dl: list_store demo_lists snd
  by unfold_locales (auto simp: demo_lists_def)

text \<open>After a round is stored, the history starts with it and never holds more than a hundred records.\<close>

lemma history_bounded:
  "store_health_history demo_lists now v b (d, h) = (Inr (), (d, h(history_key b := take 100 (health_record now b v # h (history_key b)))))"
  by (simp add: store_health_history_def rbind_def demo_lists_def)

subsection \<open>A round\<close>

definition validation_key :: "string \<Rightarrow> string" where
  "validation_key broker = ''pipeline:validation:'' @ broker"

definition stage_json :: "stage \<Rightarrow> json" where
  "stage_json st = JObj ((''healthy'', JBool (sg_healthy st)) # (case sg_issue st of None \<Rightarrow> [] | Some i \<Rightarrow> [(''issue'', JStr i)]))"

definition verdict_json :: "string \<Rightarrow> string \<Rightarrow> verdict \<Rightarrow> json" where
  "verdict_json now broker v =
     JObj [(''timestamp'', JStr now), (''broker'', JStr broker), (''stages'', JObj (map (\<lambda>(n, st). (n, stage_json st)) (vr_stages v))),
       (''bottlenecks'', JList (map (\<lambda>(n, i). JObj [(''stage'', JStr n), (''issue'', JStr i), (''broker'', JStr broker)]) (vr_bottlenecks v))),
       (''recommendations'', JList (map (\<lambda>(n, i). JObj [(''stage'', JStr n), (''recommendation'', JStr i), (''broker'', JStr broker)]) (vr_recommendations v))),
       (''overall_health'', JStr (vr_overall v))]"

definition good_health :: "string \<Rightarrow> bool" where
  "good_health h = (h \<in> {''healthy'', ''warning'', ''startup'', ''idle''})"

record 'r round_env =
  re_redis :: "'r redis"
  re_lists :: "'r list_ops"
  re_ping :: "exn option"
  re_clock :: clock
  re_market_open :: bool

definition validate_broker :: "'r round_env \<Rightarrow> int \<Rightarrow> vconfig \<Rightarrow> (verdict, 'r) rm" where
  "validate_broker e now c s =
     (let (v, s1) = validate_end_to_end_flow (re_redis e) (re_ping e) (re_clock e) (re_market_open e) now c s;
          t = ck_iso (re_clock e) now
      in rbind (r_setex (re_redis e) (validation_key (vc_broker c)) 300 (RJson (verdict_json t (vc_broker c) v)))
           (\<lambda>_. rbind (store_health_history (re_lists e) t v (vc_broker c)) (\<lambda>_. rret v)) s1)"

fun validate_all_brokers :: "'r round_env \<Rightarrow> int \<Rightarrow> vconfig list \<Rightarrow> ((string \<times> verdict) list, 'r) rm" where
  "validate_all_brokers e now [] = rret []"
| "validate_all_brokers e now (c # cs) =
     rbind (validate_broker e now c) (\<lambda>v. rbind (validate_all_brokers e now cs) (\<lambda>vs. rret ((vc_broker c, v) # vs)))"

definition aggregated_key :: string where
  "aggregated_key = ''pipeline:validation:aggregated''"

definition aggregated_json :: "string \<Rightarrow> (string \<times> verdict) list \<Rightarrow> json" where
  "aggregated_json now vs =
     JObj [(''timestamp'', JStr now), (''overall_healthy'', JBool (list_all (\<lambda>(b, v). good_health (vr_overall v)) vs)),
       (''active_brokers'', JList (map (JStr \<circ> fst) vs)), (''broker_results'', JObj (map (\<lambda>(b, v). (b, verdict_json now b v)) vs))]"

definition monitoring_round :: "'r round_env \<Rightarrow> int \<Rightarrow> vconfig list \<Rightarrow> ((string \<times> verdict) list, 'r) rm" where
  "monitoring_round e now cs =
     rbind (validate_all_brokers e now cs)
       (\<lambda>vs. rbind (r_setex (re_redis e) aggregated_key 300 (RJson (aggregated_json (ck_iso (re_clock e) now) vs))) (\<lambda>_. rret vs))"

subsection \<open>Reading it back\<close>

definition no_recent_data :: "string \<Rightarrow> json" where
  "no_recent_data broker =
     JObj [(''broker'', JStr broker), (''status'', JStr ''no_recent_data''), (''message'', JStr ''No recent validation data available'')]"

text \<open>\<open>json.loads\<close> of what is stored; \<open>None\<close> when it raises.\<close>

definition stored_json :: "rvalue \<Rightarrow> json option" where
  "stored_json v = (case v of RJson j \<Rightarrow> Some j | RInt i \<Rightarrow> Some (JInt i) | RNum r \<Rightarrow> Some (JNum r) | RStr t \<Rightarrow> None)"

definition status_error :: "string list \<Rightarrow> string \<Rightarrow> (string \<times> json) list" where
  "status_error brokers msg = [(''status'', JStr ''error''), (''error'', JStr msg), (''active_brokers'', JList (map JStr brokers))]"

definition get_current_status :: "'r redis \<Rightarrow> string list \<Rightarrow> string \<Rightarrow> 'r \<Rightarrow> (string \<times> json) list \<times> 'r" where
  "get_current_status R brokers broker s =
     (case r_get R (validation_key broker) s of
        (Inl e, s1) \<Rightarrow> (status_error brokers (exn_msg e), s1)
      | (Inr v, s1) \<Rightarrow>
          ((if present v
            then (case stored_json (the v) of None \<Rightarrow> status_error brokers ''Expecting value'' | Some j \<Rightarrow> [(broker, j)])
            else [(broker, no_recent_data broker)]), s1))"

definition get_aggregated_status :: "'r redis \<Rightarrow> string list \<Rightarrow> 'r \<Rightarrow> json \<times> 'r" where
  "get_aggregated_status R brokers s =
     (case r_get R aggregated_key s of
        (Inl e, s1) \<Rightarrow> (JObj (status_error brokers (exn_msg e)), s1)
      | (Inr v, s1) \<Rightarrow>
          ((if present v
            then (case stored_json (the v) of None \<Rightarrow> JObj (status_error brokers ''Expecting value'') | Some j \<Rightarrow> j)
            else JObj [(''status'', JStr ''no_recent_data''), (''message'', JStr ''No recent validation data available''),
                       (''active_brokers'', JList (map JStr brokers))]), s1))"

fun read_histories :: "'r list_ops \<Rightarrow> int \<Rightarrow> string list \<Rightarrow> ((string \<times> json) list, 'r) rm" where
  "read_histories L limit [] = rret []"
| "read_histories L limit (b # bs) =
     rbind (lo_lrange L (history_key b) 0 (limit - 1)) (\<lambda>h. rbind (read_histories L limit bs) (\<lambda>d. rret ((b, JList h) # d)))"

definition get_health_history :: "'r list_ops \<Rightarrow> string list \<Rightarrow> string option \<Rightarrow> int \<Rightarrow> 'r \<Rightarrow> (string \<times> json) list \<times> 'r" where
  "get_health_history L brokers broker limit s =
     (case read_histories L limit (case broker of Some (c # cs) \<Rightarrow> [c # cs] | _ \<Rightarrow> brokers) s of
        (Inl e, s1) \<Rightarrow> ([], s1) | (Inr d, s1) \<Rightarrow> (d, s1))"

text \<open>A limit of zero reads the whole history: the range then ends at the last element.\<close>

lemma zero_limit_reads_all: "fst (get_health_history demo_lists [] (Some ''paper'') 0 (d, h)) = [(''paper'', JList (h (history_key ''paper'')))]"
  by (simp add: get_health_history_def rbind_def rret_def demo_lists_def)

subsection \<open>The loop\<close>

record loop_state =
  mo_running :: bool
  mo_task :: bool

definition monitor_start :: "loop_state \<Rightarrow> loop_state" where
  "monitor_start m = (if mo_running m then m else m\<lparr>mo_running := True, mo_task := True\<rparr>)"

definition monitor_stop :: "loop_state \<Rightarrow> loop_state" where
  "monitor_stop m = (if \<not> mo_running m then m else m\<lparr>mo_running := False, mo_task := False\<rparr>)"

definition pause_after :: "rat \<Rightarrow> bool \<Rightarrow> nat \<Rightarrow> rat \<times> nat" where
  "pause_after interval ok failures =
     (if ok then (interval, 0)
      else let n = failures + 1 in (if n \<ge> 3 then min 300 (interval * of_nat n) else 30, n))"

text \<open>The pauses of a run, given which rounds succeeded.\<close>

fun pauses :: "rat \<Rightarrow> nat \<Rightarrow> bool list \<Rightarrow> rat list" where
  "pauses interval failures [] = []"
| "pauses interval failures (ok # oks) = (let (p, n) = pause_after interval ok failures in p # pauses interval n oks)"

lemma pause_bounds:
  assumes "0 < interval"
  shows "0 < fst (pause_after interval ok n)" "fst (pause_after interval ok n) \<le> max interval 300"
proof -
  have "0 < interval * of_nat (n + 1)" using assms by simp
  then show "0 < fst (pause_after interval ok n)" using assms by (simp add: pause_after_def Let_def del: of_nat_add)
  show "fst (pause_after interval ok n) \<le> max interval 300"
    by (simp add: pause_after_def Let_def le_max_iff_disj min_le_iff_disj)
qed

lemma pauses_bounded:
  assumes "0 < interval" "p \<in> set (pauses interval n oks)"
  shows "0 < p \<and> p \<le> max interval 300"
  using assms(2)
proof (induction oks arbitrary: n)
  case (Cons ok oks)
  then show ?case using pause_bounds [OF assms(1), of ok n] by (cases "pause_after interval ok n") auto
qed simp

text \<open>Failures in a row: two pauses of half a minute, then a growing one, up to five minutes. With a short interval the third
  pause is the shorter one.\<close>

lemma failing_pauses:
  "pauses interval 0 (replicate (Suc (Suc n)) False) = 30 # 30 # map (\<lambda>k. min 300 (interval * of_nat (k + 3))) [0..<n]"
proof -
  have "pauses interval m (replicate n False) = map (\<lambda>k. min 300 (interval * of_nat (k + Suc m))) [0..<n]" if "2 \<le> m" for m
    using that
  proof (induction n arbitrary: m)
    case (Suc n)
    have "map (\<lambda>k. min 300 (interval * of_nat (k + Suc m))) [0..<Suc n] = min 300 (interval * of_nat (Suc m)) # map (\<lambda>k. min 300 (interval * of_nat (k + Suc (Suc m)))) [0..<n]"
      by (simp add: upt_conv_Cons map_Suc_upt [symmetric] comp_def del: upt_Suc)
    with Suc show ?case by (simp add: pause_after_def Let_def)
  qed simp
  from this [of "Suc (Suc 0)"] show ?thesis by (simp add: pause_after_def Let_def numeral_3_eq_3 add.commute)
qed

lemma short_interval_backs_off_less: "pauses 5 0 [False, False, False] = [30, 30, 15]"
  by (simp add: pause_after_def)

end
