(* ===== verification/Dashboard_Data.thy ===== *)
theory Dashboard_Data
  imports Pipeline_Loop
begin

text \<open>
  DashboardService (api/services/dashboard_service.py), the reader of what the monitor and the metrics leave in Redis. Every read of the service catches its exceptions
  and answers with an error field. A round and a read take the clock as an argument.
\<close>

subsection \<open>The health of a broker\<close>

definition jstr_get :: "json \<Rightarrow> string \<Rightarrow> json \<Rightarrow> exn + json" where
  "jstr_get j k d =
     (case j of JObj kvs \<Rightarrow> Inr (case jget kvs k of None \<Rightarrow> d | Some v \<Rightarrow> v)
      | _ \<Rightarrow> Inl (raise_exn (Other ''AttributeError'') ''object has no attribute get''))"

fun py_len :: "json \<Rightarrow> nat option" where
  "py_len (JList xs) = Some (length xs)"
| "py_len (JObj kvs) = Some (length kvs)"
| "py_len (JStr s) = Some (length s)"
| "py_len v = None"

record service_row =
  sv_healthy :: bool
  sv_last_activity :: "string option"
  sv_latency :: "rat option"
  sv_error :: bool

record broker_health =
  bh_healthy :: bool
  bh_pipeline_health :: json
  bh_last_validation :: json
  bh_bottlenecks :: nat
  bh_services :: "(string \<times> service_row) list"
  bh_error :: bool

definition failed_health :: broker_health where
  "failed_health = \<lparr>bh_healthy = False, bh_pipeline_health = JNull, bh_last_validation = JNull, bh_bottlenecks = 0, bh_services = [], bh_error = True\<rparr>"

definition dashboard_services :: "string list" where
  "dashboard_services = [''strategy_runner'', ''risk_manager'', ''paper_trading'', ''zerodha_trading'']"

definition activity_key :: "string \<Rightarrow> string \<Rightarrow> string" where
  "activity_key broker service = ''alpha_panda:metrics:'' @ broker @ '':'' @ service @ '':last_activity''"

text \<open>The last activity of a service is a time in text; anything else raises.\<close>

definition service_row_of :: "'r redis \<Rightarrow> clock \<Rightarrow> int \<Rightarrow> string \<Rightarrow> string \<Rightarrow> 'r \<Rightarrow> service_row \<times> 'r" where
  "service_row_of R ck now broker service s =
     (let failed = \<lparr>sv_healthy = False, sv_last_activity = None, sv_latency = None, sv_error = True\<rparr> in
      case r_get R (activity_key broker service) s of
        (Inl e, s1) \<Rightarrow> (failed, s1)
      | (Inr v, s1) \<Rightarrow>
          ((if \<not> present v then \<lparr>sv_healthy = False, sv_last_activity = None, sv_latency = None, sv_error = False\<rparr>
            else case v of
                Some (RStr t) \<Rightarrow> (case ck_parse ck t of
                    None \<Rightarrow> failed
                  | Some u \<Rightarrow> \<lparr>sv_healthy = seconds_between now u < 60, sv_last_activity = Some t, sv_latency = Some (seconds_between now u), sv_error = False\<rparr>)
              | _ \<Rightarrow> failed), s1))"

fun service_rows :: "'r redis \<Rightarrow> clock \<Rightarrow> int \<Rightarrow> string \<Rightarrow> string list \<Rightarrow> 'r \<Rightarrow> (string \<times> service_row) list \<times> 'r" where
  "service_rows R ck now broker [] s = ([], s)"
| "service_rows R ck now broker (n # ns) s =
     (let (row, s1) = service_row_of R ck now broker n s; (rows, s2) = service_rows R ck now broker ns s1 in ((n, row) # rows, s2))"

definition get_broker_health :: "'r redis \<Rightarrow> clock \<Rightarrow> int \<Rightarrow> string list \<Rightarrow> string \<Rightarrow> 'r \<Rightarrow> broker_health \<times> 'r" where
  "get_broker_health R ck now brokers broker s =
     (let (status, s1) = get_current_status R brokers broker s;
          data = (case jget status broker of None \<Rightarrow> JObj [] | Some d \<Rightarrow> d)
      in case (jstr_get data ''overall_health'' (JStr ''unknown''), jstr_get data ''timestamp'' JNull, jstr_get data ''bottlenecks'' (JList [])) of
           (Inr h, Inr t, Inr b) \<Rightarrow>
             (case py_len b of
                None \<Rightarrow> (failed_health, s1)
              | Some n \<Rightarrow> (let (rows, s2) = service_rows R ck now broker dashboard_services s1 in
                  (\<lparr>bh_healthy = (h = JStr ''healthy'' \<or> h = JStr ''warning''), bh_pipeline_health = h, bh_last_validation = t, bh_bottlenecks = n,
                    bh_services = rows, bh_error = False\<rparr>, s2)))
         | _ \<Rightarrow> (failed_health, s1))"

fun broker_healths :: "'r redis \<Rightarrow> clock \<Rightarrow> int \<Rightarrow> string list \<Rightarrow> string list \<Rightarrow> 'r \<Rightarrow> (string \<times> broker_health) list \<times> 'r" where
  "broker_healths R ck now brokers [] s = ([], s)"
| "broker_healths R ck now brokers (b # bs) s =
     (let (h, s1) = get_broker_health R ck now brokers b s; (hs, s2) = broker_healths R ck now brokers bs s1 in ((b, h) # hs, s2))"

definition get_health_summary :: "'r redis \<Rightarrow> clock \<Rightarrow> int \<Rightarrow> string list \<Rightarrow> 'r \<Rightarrow> (bool \<times> (string \<times> broker_health) list) \<times> 'r" where
  "get_health_summary R ck now brokers s =
     (let (hs, s1) = broker_healths R ck now brokers brokers s in ((list_all (\<lambda>(b, h). bh_healthy h) hs, hs), s1))"

subsection \<open>Stored documents and counts\<close>

text \<open>A document under a key, or that there is none; the error of reading it.\<close>

definition read_document :: "'r redis \<Rightarrow> string \<Rightarrow> (json option, 'r) rm" where
  "read_document R k =
     rbind (r_get R k) (\<lambda>v. if \<not> present v then rret None
       else case stored_json (the v) of None \<Rightarrow> rraise (raise_exn (Other ''JSONDecodeError'') ''Expecting value'') | Some j \<Rightarrow> rret (Some j))"

fun read_documents :: "'r redis \<Rightarrow> (string \<Rightarrow> string) \<Rightarrow> string list \<Rightarrow> ((string \<times> json option) list, 'r) rm" where
  "read_documents R key [] = rret []"
| "read_documents R key (b # bs) = rbind (read_document R (key b)) (\<lambda>d. rbind (read_documents R key bs) (\<lambda>ds. rret ((b, d) # ds)))"

definition performance_key :: "string \<Rightarrow> string \<Rightarrow> string" where
  "performance_key service broker = ''alpha_panda:metrics:'' @ broker @ '':'' @ service @ '':performance''"

definition get_service_metrics :: "'r redis \<Rightarrow> string list \<Rightarrow> string \<Rightarrow> string option \<Rightarrow> ((string \<times> json option) list, 'r) rm" where
  "get_service_metrics R brokers service broker =
     read_documents R (performance_key service) (case broker of Some (c # cs) \<Rightarrow> [c # cs] | _ \<Rightarrow> brokers)"

definition portfolio_key :: "string \<Rightarrow> string" where
  "portfolio_key broker = ''portfolio:'' @ broker @ '':summary''"

definition dashboard_portfolio_summary :: "'r redis \<Rightarrow> string list \<Rightarrow> string option \<Rightarrow> ((string \<times> json option) list, 'r) rm" where
  "dashboard_portfolio_summary R brokers broker =
     read_documents R portfolio_key (case broker of Some (c # cs) \<Rightarrow> [c # cs] | _ \<Rightarrow> brokers)"

record trading_summary =
  ts_signals :: int
  ts_orders :: int
  ts_pnl :: rat
  ts_start :: int
  ts_end :: int

definition timeframe_seconds :: "string \<Rightarrow> int" where
  "timeframe_seconds tf = (if tf = ''1h'' then 3600 else if tf = ''1d'' then 86400 else if tf = ''1w'' then 604800 else 3600)"

definition trading_key :: "string \<Rightarrow> string \<Rightarrow> string \<Rightarrow> string" where
  "trading_key broker name tf = ''alpha_panda:metrics:'' @ broker @ '':'' @ name @ ''_'' @ tf"

definition conversion_error :: exn where
  "conversion_error = raise_exn (Other ''ValueError'') ''invalid literal''"

definition convert_or :: "'a \<Rightarrow> (rvalue \<Rightarrow> 'a option) \<Rightarrow> rvalue option \<Rightarrow> ('a, 'r) rm" where
  "convert_or d f v = (if \<not> present v then rret d else case f (the v) of None \<Rightarrow> rraise conversion_error | Some x \<Rightarrow> rret x)"

definition broker_trading_summary :: "'r redis \<Rightarrow> int \<Rightarrow> string \<Rightarrow> string \<Rightarrow> (trading_summary, 'r) rm" where
  "broker_trading_summary R now broker tf =
     rbind (r_get R (trading_key broker ''signals:count'' tf)) (\<lambda>sc.
     rbind (r_get R (trading_key broker ''orders:count'' tf)) (\<lambda>oc.
     rbind (r_get R (trading_key broker ''pnl:total'' tf)) (\<lambda>pt.
     rbind (convert_or 0 rv_int sc) (\<lambda>signals.
     rbind (convert_or 0 rv_int oc) (\<lambda>orders.
     rbind (convert_or 0 rv_float pt) (\<lambda>pnl.
       rret \<lparr>ts_signals = signals, ts_orders = orders, ts_pnl = pnl, ts_start = now - timeframe_seconds tf * 1000000, ts_end = now\<rparr>))))))"

definition get_system_uptime :: "'r redis \<Rightarrow> clock \<Rightarrow> int \<Rightarrow> 'r \<Rightarrow> rat \<times> 'r" where
  "get_system_uptime R ck now s =
     (case r_get R ''alpha_panda:system:start_time'' s of
        (Inl e, s1) \<Rightarrow> (0, s1)
      | (Inr v, s1) \<Rightarrow> (case v of
          Some (RStr (c # cs)) \<Rightarrow> (case ck_parse ck (c # cs) of None \<Rightarrow> 0 | Some t \<Rightarrow> seconds_between now t)
        | _ \<Rightarrow> 0, s1))"

subsection \<open>The dashboard and the monitor\<close>

text \<open>Lists in Redis are apart from its other values.\<close>

definition lists_apart :: "'r list_ops \<Rightarrow> ('r \<Rightarrow> string \<Rightarrow> rvalue option) \<Rightarrow> bool" where
  "lists_apart L view =
     ((\<forall>k v s. view (snd (lo_lpush L k v s)) = view s) \<and> (\<forall>k a b s. view (snd (lo_ltrim L k a b s)) = view s) \<and>
      (\<forall>k t s. view (snd (lo_expire L k t s)) = view s))"

lemma lists_apartD:
  assumes "lists_apart L view"
  shows "lo_lpush L k v s = (x, s1) \<Longrightarrow> view s1 = view s" "lo_ltrim L k a b s = (x, s1) \<Longrightarrow> view s1 = view s"
    "lo_expire L k t s = (x, s1) \<Longrightarrow> view s1 = view s"
  using assms unfolding lists_apart_def by (metis snd_conv)+

lemma history_view:
  assumes "lists_apart L view" "store_health_history L now v b s = (x, s1)"
  shows "view s1 = view s \<and> x = Inr ()"
proof -
  obtain r1 t1 where 1: "lo_lpush L (history_key b) (health_record now b v) s = (r1, t1)" by fastforce
  obtain r2 t2 where 2: "lo_ltrim L (history_key b) 0 99 t1 = (r2, t2)" by fastforce
  obtain r3 t3 where 3: "lo_expire L (history_key b) 86400 t2 = (r3, t3)" by fastforce
  show ?thesis
    using assms(2) 1 2 3 lists_apartD [OF assms(1)] by (cases r1; cases r2; cases r3) (auto simp: store_health_history_def rbind_def)
qed

lemma end_to_end_view:
  assumes "reads_ok R view"
  shows "view (snd (validate_end_to_end_flow R ping ck mo now c s)) = view s"
proof -
  note h = activity_stage_healthy(2) [OF assms]
  show ?thesis
    using market_data_view [OF assms] signal_generation_view [OF assms] h
    by (auto simp: validate_end_to_end_flow_def validate_risk_management_def validate_order_execution_def validate_portfolio_updates_def Let_def
        split: prod.splits) (metis snd_conv)+
qed

text \<open>What a successful round leaves under the keys of its brokers.\<close>

definition stored_verdict :: "('r \<Rightarrow> string \<Rightarrow> rvalue option) \<Rightarrow> 'r \<Rightarrow> string \<Rightarrow> string \<Rightarrow> verdict \<Rightarrow> bool" where
  "stored_verdict view s t b v = (view s (validation_key b) = Some (RJson (verdict_json t b v)))"

lemma validate_broker_view:
  assumes ok: "reads_ok (re_redis e) view" "redis_ok (re_redis e) view" "lists_apart (re_lists e) view"
    and run: "validate_broker e now c s = (Inr v, s')"
  shows "view s' = (view s)(validation_key (vc_broker c) \<mapsto> RJson (verdict_json (ck_iso (re_clock e) now) (vc_broker c) v)) \<and>
    v = fst (validate_end_to_end_flow (re_redis e) (re_ping e) (re_clock e) (re_market_open e) now c s)"
proof -
  obtain w s1 where 1: "validate_end_to_end_flow (re_redis e) (re_ping e) (re_clock e) (re_market_open e) now c s = (w, s1)" by fastforce
  have v1: "view s1 = view s" using end_to_end_view [OF ok(1), of "re_ping e" "re_clock e" "re_market_open e" now c s] 1 by simp
  obtain s2 where 2: "r_setex (re_redis e) (validation_key (vc_broker c)) 300 (RJson (verdict_json (ck_iso (re_clock e) now) (vc_broker c) w)) s1 = (Inr (), s2)"
    and 3: "store_health_history (re_lists e) (ck_iso (re_clock e) now) w (vc_broker c) s2 = (Inr (), s')" and w: "w = v"
    using run 1 by (auto simp: validate_broker_def Let_def rbind_Inr)
  have "view s2 = (view s1)(validation_key (vc_broker c) \<mapsto> RJson (verdict_json (ck_iso (re_clock e) now) (vc_broker c) w))"
    using ok(2) 2 unfolding redis_ok_def ok_setex_def by blast
  with history_view [OF ok(3) 3] v1 w 1 show ?thesis by simp
qed

lemma validation_key_inject [simp]: "validation_key a = validation_key b \<longleftrightarrow> a = b"
  by (simp add: validation_key_def)

lemma validate_all_view:
  assumes ok: "reads_ok (re_redis e) view" "redis_ok (re_redis e) view" "lists_apart (re_lists e) view"
    and run: "validate_all_brokers e now cs s = (Inr vs, s')" and d: "distinct (map vc_broker cs)"
  shows "map fst vs = map vc_broker cs \<and> (\<forall>(b, v)\<in>set vs. stored_verdict view s' (ck_iso (re_clock e) now) b v) \<and>
    (\<forall>k. k \<notin> validation_key ` set (map vc_broker cs) \<longrightarrow> view s' k = view s k)"
  using run d
proof (induction cs arbitrary: s vs)
  case (Cons c cs)
  obtain v s1 vs1 where 1: "validate_broker e now c s = (Inr v, s1)" and 2: "validate_all_brokers e now cs s1 = (Inr vs1, s')"
    and vs: "vs = (vc_broker c, v) # vs1"
    using Cons.prems(1) by (auto simp: rbind_Inr)
  have d: "distinct (map vc_broker cs)" "vc_broker c \<notin> set (map vc_broker cs)" using Cons.prems(2) by auto
  have n: "validation_key (vc_broker c) \<notin> validation_key ` set (map vc_broker cs)" using d(2) by auto
  from Cons.IH [OF 2 d(1)] validate_broker_view [OF ok 1] n vs show ?case by (auto simp: stored_verdict_def)
qed simp

lemma round_view:
  assumes ok: "reads_ok (re_redis e) view" "redis_ok (re_redis e) view" "lists_apart (re_lists e) view"
    and run: "monitoring_round e now cs s = (Inr vs, s')" and d: "distinct (map vc_broker cs)" "''aggregated'' \<notin> set (map vc_broker cs)"
  shows "map fst vs = map vc_broker cs \<and> (\<forall>(b, v)\<in>set vs. stored_verdict view s' (ck_iso (re_clock e) now) b v) \<and>
    view s' aggregated_key = Some (RJson (aggregated_json (ck_iso (re_clock e) now) vs))"
proof -
  obtain s1 where 1: "validate_all_brokers e now cs s = (Inr vs, s1)"
    and 2: "r_setex (re_redis e) aggregated_key 300 (RJson (aggregated_json (ck_iso (re_clock e) now) vs)) s1 = (Inr (), s')"
    using run by (auto simp: monitoring_round_def rbind_Inr)
  have v: "view s' = (view s1)(aggregated_key \<mapsto> RJson (aggregated_json (ck_iso (re_clock e) now) vs))"
    using ok(2) 2 unfolding redis_ok_def ok_setex_def by blast
  have "validation_key b \<noteq> aggregated_key" if "b \<in> set (map vc_broker cs)" for b
    using that d(2) by (force simp: validation_key_def aggregated_key_def)
  moreover note a = validate_all_view [OF ok 1 d(1)]
  moreover have "fst x \<in> set (map vc_broker cs)" if "x \<in> set vs" for x
    using a that by (metis list.set_map image_eqI)
  ultimately show ?thesis using v by (fastforce simp: stored_verdict_def)
qed

lemma service_row_view:
  assumes "reads_ok R view"
  shows "view (snd (service_row_of R ck now b n s)) = view s"
  using assms by (rule reads_okE [of R view "activity_key b n" s]) (simp add: service_row_of_def Let_def)

lemma service_rows_view: "reads_ok R view \<Longrightarrow> view (snd (service_rows R ck now b ns s)) = view s"
proof (induction ns arbitrary: s)
  case (Cons n ns)
  obtain row s1 where 1: "service_row_of R ck now b n s = (row, s1)" by fastforce
  obtain rows s2 where 2: "service_rows R ck now b ns s1 = (rows, s2)" by fastforce
  from Cons.IH [OF Cons.prems, of s1] service_row_view [OF Cons.prems, of ck now b n s] 1 2 show ?case by simp
qed simp

lemma broker_health_of_stored:
  assumes ok: "reads_ok R view" and st: "stored_verdict view s t b v"
  shows "bh_pipeline_health (fst (get_broker_health R ck now bs b s)) = JStr (vr_overall v) \<and>
    (bh_healthy (fst (get_broker_health R ck now bs b s)) \<longleftrightarrow> vr_overall v = ''healthy'' \<or> vr_overall v = ''warning'') \<and>
    bh_bottlenecks (fst (get_broker_health R ck now bs b s)) = length (vr_bottlenecks v) \<and>
    view (snd (get_broker_health R ck now bs b s)) = view s"
proof -
  obtain s1 where 1: "r_get R (validation_key b) s = (Inr (view s (validation_key b)), s1)" "view s1 = view s" using ok by (rule reads_okE)
  obtain rows s2 where 2: "service_rows R ck now b dashboard_services s1 = (rows, s2)" by fastforce
  have "view s2 = view s" using service_rows_view [OF ok, of ck now b dashboard_services s1] 1 2 by simp
  with 1 2 st show ?thesis
    by (simp add: get_broker_health_def get_current_status_def stored_verdict_def present_def verdict_json_def stored_json_def jstr_get_def jget_def)
qed

lemma broker_healths_of_stored:
  assumes ok: "reads_ok R view" and st: "\<forall>(b, v)\<in>set vs. stored_verdict view s t b v"
  shows "map (\<lambda>(b, h). (b, bh_pipeline_health h, bh_healthy h)) (fst (broker_healths R ck now bs (map fst vs) s)) =
    map (\<lambda>(b, v). (b, JStr (vr_overall v), vr_overall v = ''healthy'' \<or> vr_overall v = ''warning'')) vs"
  using st
proof (induction vs arbitrary: s)
  case (Cons bv vs)
  obtain b v where bv: "bv = (b, v)" by fastforce
  obtain h s1 where 1: "get_broker_health R ck now bs b s = (h, s1)" by fastforce
  obtain hs s2 where 2: "broker_healths R ck now bs (map fst vs) s1 = (hs, s2)" by fastforce
  have "stored_verdict view s t b v" using Cons.prems bv by simp
  note bh = broker_health_of_stored [OF ok this, of ck now bs]
  have "\<forall>(b, v)\<in>set vs. stored_verdict view s1 t b v" using Cons.prems bh 1 by (auto simp: stored_verdict_def)
  from Cons.IH [OF this] bh 1 2 bv show ?case by simp
qed simp

text \<open>C38: The dashboard shows what the monitor stored, but judges it differently. After a round, the health of every broker read back is the verdict of
  the validator; the monitor calls the system healthy when every verdict is healthy, warning, startup or idle, the dashboard only when every
  verdict is healthy or warning, so it reports a quiet system, closed or starting, as unhealthy.\<close>

theorem dashboard_reads_the_round:
  assumes ok: "reads_ok (re_redis e) view" "redis_ok (re_redis e) view" "lists_apart (re_lists e) view"
    and run: "monitoring_round e now cs s = (Inr vs, s')" and d: "distinct (map vc_broker cs)" "''aggregated'' \<notin> set (map vc_broker cs)"
  shows "view s' aggregated_key = Some (RJson (aggregated_json (ck_iso (re_clock e) now) vs)) \<and>
    map (\<lambda>(b, h). (b, bh_pipeline_health h)) (snd (fst (get_health_summary (re_redis e) ck later (map vc_broker cs) s'))) = map (\<lambda>(b, v). (b, JStr (vr_overall v))) vs \<and>
    (fst (fst (get_health_summary (re_redis e) ck later (map vc_broker cs) s')) \<longleftrightarrow> (\<forall>(b, v)\<in>set vs. vr_overall v \<in> {''healthy'', ''warning''}))"
proof -
  note r = round_view [OF assms]
  obtain hs s2 where hs: "broker_healths (re_redis e) ck later (map vc_broker cs) (map vc_broker cs) s' = (hs, s2)" by fastforce
  have m: "map (\<lambda>(b, h). (b, bh_pipeline_health h, bh_healthy h)) hs =
      map (\<lambda>(b, v). (b, JStr (vr_overall v), vr_overall v = ''healthy'' \<or> vr_overall v = ''warning'')) vs"
    using broker_healths_of_stored [OF ok(1), of vs s' "ck_iso (re_clock e) now" ck later "map vc_broker cs"] r hs by simp
  have "map (\<lambda>(b, h). (b, bh_pipeline_health h)) hs = map (\<lambda>(b, h, g). (b, h)) (map (\<lambda>(b, h). (b, bh_pipeline_health h, bh_healthy h)) hs)"
    by (simp add: case_prod_beta)
  also have "\<dots> = map (\<lambda>(b, v). (b, JStr (vr_overall v))) vs" unfolding m by (simp add: case_prod_beta)
  finally have 1: "map (\<lambda>(b, h). (b, bh_pipeline_health h)) hs = map (\<lambda>(b, v). (b, JStr (vr_overall v))) vs" .
  have "list_all (\<lambda>(b, h). bh_healthy h) hs \<longleftrightarrow> list_all (\<lambda>(b, h, g). g) (map (\<lambda>(b, h). (b, bh_pipeline_health h, bh_healthy h)) hs)"
    by (simp add: list_all_iff case_prod_beta)
  also have "\<dots> \<longleftrightarrow> (\<forall>(b, v)\<in>set vs. vr_overall v \<in> {''healthy'', ''warning''})"
    unfolding m by (auto simp: list_all_iff case_prod_beta)
  finally show ?thesis using r hs 1 by (simp add: get_health_summary_def)
qed

text \<open>The client of Redis_State beside the lists.\<close>

definition beside :: "('a, 'r) rm \<Rightarrow> ('a, 'r \<times> 'h) rm" where
  "beside m = (\<lambda>(d, h). case m d of (x, d') \<Rightarrow> (x, (d', h)))"

definition demo_redis :: "((string \<times> rvalue) list \<times> (string \<Rightarrow> json list)) redis" where
  "demo_redis =
     \<lparr>r_get = (\<lambda>k. beside (r_get map_redis k)), r_set = (\<lambda>k v. beside (r_set map_redis k v)), r_expire = (\<lambda>k t. beside (r_expire map_redis k t)),
      r_setex = (\<lambda>k t v. beside (r_setex map_redis k t v)), r_incr = (\<lambda>k i. beside (r_incr map_redis k i)), r_mget = (\<lambda>ks. beside (r_mget map_redis ks)),
      r_keys = (\<lambda>p. beside (r_keys map_redis p)), r_delete = (\<lambda>ks. beside (r_delete map_redis ks)), r_exists = (\<lambda>k. beside (r_exists map_redis k))\<rparr>"

lemma beside_eq: "beside m s = (x, s') \<longleftrightarrow> (\<exists>d'. m (fst s) = (x, d') \<and> s' = (d', snd s))"
  by (cases s) (auto simp: beside_def split: prod.splits)

lemma demo_redis_ok: "redis_ok demo_redis (\<lambda>s. map_of (fst s))"
proof -
  note m = map_redis_ok [unfolded redis_ok_def]
  show ?thesis unfolding redis_ok_def
    using m [unfolded redis_ok_defs] by (auto simp: demo_redis_def redis_ok_defs beside_eq)
qed

lemma demo_redis_reads: "reads_ok demo_redis (\<lambda>s. map_of (fst s))"
  by (simp add: reads_ok_def demo_redis_def beside_def map_redis_def split_paired_all)

lemma demo_lists_apart: "lists_apart demo_lists (\<lambda>s. map_of (fst s))"
  by (auto simp: lists_apart_def demo_lists_def split: prod.splits)

definition closed_round :: "((string \<times> rvalue) list \<times> (string \<Rightarrow> json list)) round_env" where
  "closed_round = \<lparr>re_redis = demo_redis, re_lists = demo_lists, re_ping = None, re_clock = \<lparr>ck_iso = (\<lambda>t. ''t''), ck_parse = (\<lambda>t. None)\<rparr>,
     re_market_open = False\<rparr>"

definition paper_config :: vconfig where
  "paper_config = \<lparr>vc_broker = ''paper'', vc_start_time = 0, vc_market_data_latency = 5, vc_grace_period = 30, vc_trading_enabled = True\<rparr>"

theorem dashboard_reads_the_round_witness:
  "\<exists>vs s'. monitoring_round closed_round 100000000 [paper_config] ([], \<lambda>k. []) = (Inr vs, s') \<and> map (\<lambda>(b, v). (b, vr_overall v)) vs = [(''paper'', ''idle'')] \<and>
     jget (case map_of (fst s') aggregated_key of Some (RJson (JObj d)) \<Rightarrow> d | _ \<Rightarrow> []) ''overall_healthy'' = Some (JBool True) \<and>
     \<not> fst (fst (get_health_summary demo_redis (re_clock closed_round) 100000000 [''paper''] s'))"
proof -
  obtain x s' where run: "monitoring_round closed_round 100000000 [paper_config] ([], \<lambda>k. []) = (x, s')" by (rule prod.exhaust)
  have "\<exists>v. x = Inr [(''paper'', v)] \<and> vr_overall v = ''idle''"
    using run by (auto simp: monitoring_round_def validate_broker_def validate_end_to_end_flow_def in_startup_grace_period_def seconds_between_def
        closed_round_def paper_config_def demo_redis_def map_redis_def beside_def rbind_def rret_def store_health_history_def demo_lists_def
        validate_market_data_flow_def Let_def)
  then obtain v where v: "x = Inr [(''paper'', v)]" "vr_overall v = ''idle''" by blast
  from dashboard_reads_the_round [of closed_round "\<lambda>s. map_of (fst s)" 100000000 "[paper_config]" "([], \<lambda>k. [])" "[(''paper'', v)]" s' "re_clock closed_round" 100000000]
  show ?thesis using run v demo_redis_ok demo_redis_reads demo_lists_apart
    by (auto simp: closed_round_def paper_config_def aggregated_json_def good_health_def jget_def)
qed

end
