(* ===== verification/Service_Stats.thy ===== *)
theory Service_Stats
  imports Py_Format Py_Seq Redis_State "HOL-Library.List_Lexorder" "HOL-Library.Char_ord" "HOL-Library.Multiset"
begin

text \<open>
  The metrics of one service (core/monitoring/metrics.py): counters, gauges, histograms, timers and the running
  averages, the health check over them, and the aggregation over services. Times are seconds, measurements exact. The copies written to
  Redis in the background are separate operations; alert callbacks can change nothing and are left out. The source file ends in a
  stray quote, so Python cannot load it; the model is of the text before it.
\<close>

record gauge =
  ga_value :: rat
  ga_timestamp :: rat
  ga_tags :: "(string \<times> string) list"

record performance =
  pf_messages :: nat
  pf_per_second :: rat
  pf_average_ms :: rat
  pf_error_rate :: rat
  pf_last :: "rat option"

record stats =
  st_service :: string
  st_counters :: "(string \<times> rat) list"
  st_gauges :: "(string \<times> gauge) list"
  st_histograms :: "(string \<times> rat list) list"
  st_timers :: "(string \<times> rat list) list"
  st_start :: rat
  st_last_reset :: rat
  st_performance :: performance

definition no_performance :: performance where
  "no_performance = \<lparr>pf_messages = 0, pf_per_second = 0, pf_average_ms = 0, pf_error_rate = 0, pf_last = None\<rparr>"

definition stats_init :: "string \<Rightarrow> rat \<Rightarrow> stats" where
  "stats_init service now =
     \<lparr>st_service = service, st_counters = [], st_gauges = [], st_histograms = [], st_timers = [], st_start = now, st_last_reset = now,
      st_performance = no_performance\<rparr>"

subsection \<open>Recording\<close>

definition make_metric_key :: "string \<Rightarrow> (string \<times> string) list \<Rightarrow> string" where
  "make_metric_key name tags =
     (if tags = [] then name else name @ ''['' @ join_str '','' (map (\<lambda>(k, v). k @ ''='' @ v) (sort_key fst tags)) @ '']'')"

definition increment_metric :: "string \<Rightarrow> rat \<Rightarrow> (string \<times> string) list \<Rightarrow> stats \<Rightarrow> stats" where
  "increment_metric name v tags s =
     (let k = make_metric_key name tags in
      s\<lparr>st_counters := dict_set k ((case map_of (st_counters s) k of None \<Rightarrow> 0 | Some x \<Rightarrow> x) + v) (st_counters s)\<rparr>)"

definition set_gauge :: "rat \<Rightarrow> string \<Rightarrow> rat \<Rightarrow> (string \<times> string) list \<Rightarrow> stats \<Rightarrow> stats" where
  "set_gauge now name v tags s =
     s\<lparr>st_gauges := dict_set (make_metric_key name tags) \<lparr>ga_value = v, ga_timestamp = now, ga_tags = tags\<rparr> (st_gauges s)\<rparr>"

definition append_value :: "string \<Rightarrow> rat \<Rightarrow> (string \<times> rat list) list \<Rightarrow> (string \<times> rat list) list" where
  "append_value k v d = dict_set k (last_n 1000 ((case map_of d k of None \<Rightarrow> [] | Some xs \<Rightarrow> xs) @ [v])) d"

definition record_histogram :: "string \<Rightarrow> rat \<Rightarrow> (string \<times> string) list \<Rightarrow> stats \<Rightarrow> stats" where
  "record_histogram name v tags s = s\<lparr>st_histograms := append_value (make_metric_key name tags) v (st_histograms s)\<rparr>"

definition update_performance :: "rat \<Rightarrow> rat \<Rightarrow> rat \<Rightarrow> performance \<Rightarrow> performance" where
  "update_performance start now ms p =
     (let n = pf_messages p + 1 in
      p\<lparr>pf_messages := n, pf_last := Some now,
        pf_per_second := (if now - start > 0 then of_nat n / (now - start) else pf_per_second p),
        pf_average_ms := (pf_average_ms p * of_nat (n - 1) + ms) / of_nat n\<rparr>)"

definition record_timer :: "rat \<Rightarrow> string \<Rightarrow> rat \<Rightarrow> (string \<times> string) list \<Rightarrow> stats \<Rightarrow> stats" where
  "record_timer now name ms tags s =
     s\<lparr>st_timers := append_value (make_metric_key name tags) ms (st_timers s), st_performance := update_performance (st_start s) now ms (st_performance s)\<rparr>"

text \<open>TimerContext: a timer that was started at time zero records nothing.\<close>

definition timer_exit :: "rat \<Rightarrow> rat \<Rightarrow> string \<Rightarrow> (string \<times> string) list \<Rightarrow> stats \<Rightarrow> stats" where
  "timer_exit started now name tags s = (if started = 0 then s else record_timer now name ((now - started) * 1000) tags s)"

definition reset_stats :: "rat \<Rightarrow> stats \<Rightarrow> stats" where
  "reset_stats now s =
     s\<lparr>st_counters := [], st_gauges := [], st_histograms := [], st_timers := [], st_last_reset := now, st_performance := no_performance\<rparr>"

definition persist_counter :: "'r redis \<Rightarrow> string \<Rightarrow> string \<Rightarrow> rat \<Rightarrow> 'r \<Rightarrow> 'r" where
  "persist_counter R service k v r = snd (r_set R (''metrics:'' @ service @ '':counter:'' @ k) (RNum v) r)"

definition persist_gauge :: "'r redis \<Rightarrow> string \<Rightarrow> (rat \<Rightarrow> string) \<Rightarrow> string \<Rightarrow> gauge \<Rightarrow> 'r \<Rightarrow> 'r" where
  "persist_gauge R service show_time k g r =
     snd (r_set R (''metrics:'' @ service @ '':gauge:'' @ k)
       (RJson (JObj [(''value'', JNum (ga_value g)), (''timestamp'', JStr (show_time (ga_timestamp g))),
          (''tags'', JObj (map (\<lambda>(t, v). (t, JStr v)) (ga_tags g)))])) r)"

subsection \<open>Summaries\<close>

definition percentile_rank :: "nat \<Rightarrow> nat \<Rightarrow> nat" where
  "percentile_rank n p = (let i = nat \<lfloor>of_nat p / 100 * of_nat n :: rat\<rfloor> in if i \<ge> n then n - 1 else i)"

definition nearest_rank :: "rat list \<Rightarrow> nat \<Rightarrow> rat" where
  "nearest_rank values p = (if values = [] then 0 else sort values ! percentile_rank (length values) p)"

text \<open>\<open>statistics.median\<close>.\<close>

definition median :: "rat list \<Rightarrow> rat" where
  "median values =
     (let xs = sort values; n = length xs in if odd n then xs ! (n div 2) else (xs ! (n div 2 - 1) + xs ! (n div 2)) / 2)"

record distribution =
  ds_count :: nat
  ds_min :: rat
  ds_max :: rat
  ds_mean :: rat
  ds_median :: rat
  ds_p95 :: rat
  ds_p99 :: rat

definition distribution_of :: "rat list \<Rightarrow> distribution" where
  "distribution_of xs =
     \<lparr>ds_count = length xs, ds_min = Min (set xs), ds_max = Max (set xs), ds_mean = avg xs, ds_median = median xs, ds_p95 = nearest_rank xs 95,
      ds_p99 = nearest_rank xs 99\<rparr>"

definition summarize :: "(string \<times> rat list) list \<Rightarrow> (string \<times> distribution) list" where
  "summarize d = map (\<lambda>(k, xs). (k, distribution_of xs)) (filter (\<lambda>(k, xs). xs \<noteq> []) d)"

record stats_summary =
  sm_service :: string
  sm_uptime :: rat
  sm_performance :: performance
  sm_counters :: "(string \<times> rat) list"
  sm_gauges :: "(string \<times> gauge) list"
  sm_histograms :: "(string \<times> distribution) list"
  sm_timers :: "(string \<times> distribution) list"

definition get_metrics_summary :: "rat \<Rightarrow> stats \<Rightarrow> stats_summary" where
  "get_metrics_summary now s =
     \<lparr>sm_service = st_service s, sm_uptime = now - st_start s, sm_performance = st_performance s, sm_counters = st_counters s, sm_gauges = st_gauges s,
      sm_histograms = summarize (st_histograms s), sm_timers = summarize (st_timers s)\<rparr>"

subsection \<open>The health check\<close>

record thresholds =
  th_max_error_rate :: rat
  th_max_processing_ms :: rat
  th_min_per_second :: rat

definition default_limits :: thresholds where
  "default_limits = \<lparr>th_max_error_rate = 1/20, th_max_processing_ms = 5000, th_min_per_second = 1/10\<rparr>"

record health_report =
  hk_status :: string
  hk_checks :: "(string \<times> string) list"
  hk_alerts :: "(string \<times> string) list"

text \<open>A custom check returns or raises.\<close>

fun custom_checks :: "nat \<Rightarrow> (exn + bool) list \<Rightarrow> (string \<times> string) list" where
  "custom_checks i [] = []"
| "custom_checks i (r # rs) = (''custom_check_'' @ show_nat i, if r = Inr True then ''ok'' else ''error'') # custom_checks (Suc i) rs"

definition overall_status :: "(string \<times> string) list \<Rightarrow> (string \<times> string) list \<Rightarrow> string" where
  "overall_status alerts checks =
     (if list_ex (\<lambda>a. snd a = ''critical'') alerts then ''critical''
      else if list_ex (\<lambda>a. snd a = ''warning'') alerts then ''degraded''
      else if list_ex (\<lambda>c. snd c = ''error'') checks then ''error'' else ''healthy'')"

definition stats_health_check :: "thresholds \<Rightarrow> (exn + bool) list \<Rightarrow> rat \<Rightarrow> stats \<Rightarrow> health_report" where
  "stats_health_check th customs now s =
     (let p = sm_performance (get_metrics_summary now s);
          checks = [(''error_rate'', if pf_error_rate p \<le> th_max_error_rate th then ''ok'' else ''critical''),
                    (''processing_time'', if pf_average_ms p \<le> th_max_processing_ms th then ''ok'' else ''warning''),
                    (''throughput'', if pf_per_second p \<ge> th_min_per_second th then ''ok'' else ''warning'')] @ custom_checks 0 customs;
          alerts = (if pf_error_rate p > th_max_error_rate th then [(''high_error_rate'', ''critical'')] else []) @
                   (if pf_average_ms p > th_max_processing_ms th then [(''slow_processing'', ''warning'')] else [])
      in \<lparr>hk_status = overall_status alerts checks, hk_checks = checks, hk_alerts = alerts\<rparr>)"

subsection \<open>Over all services\<close>

record system_totals =
  to_messages :: nat
  to_errors :: nat
  to_average_ms :: rat
  to_services :: nat

definition get_system_metrics :: "rat \<Rightarrow> (string \<times> stats) list \<Rightarrow> (string \<times> stats_summary) list \<times> system_totals" where
  "get_system_metrics now d =
     (let ss = map (\<lambda>(n, s). (n, get_metrics_summary now s)) d;
          times = filter (\<lambda>t. t > 0) (map (\<lambda>(n, m). pf_average_ms (sm_performance m)) ss)
      in (ss, \<lparr>to_messages = sum_list (map (\<lambda>(n, m). pf_messages (sm_performance m)) ss), to_errors = 0,
               to_average_ms = (if times = [] then 0 else avg times), to_services = length d\<rparr>))"

definition worse_status :: "string \<Rightarrow> string \<Rightarrow> string" where
  "worse_status overall status =
     (if status = ''critical'' \<or> status = ''error'' then ''critical''
      else if status = ''degraded'' \<and> overall = ''healthy'' then ''degraded'' else overall)"

definition get_service_health_summary :: "rat \<Rightarrow> (string \<times> stats) list \<Rightarrow> string \<times> (string \<times> health_report) list" where
  "get_service_health_summary now d =
     (let hs = map (\<lambda>(n, s). (n, stats_health_check default_limits [] now s)) d
      in (fold (\<lambda>(n, h) o'. worse_status o' (hk_status h)) hs ''healthy'', hs))"

subsection \<open>Runs\<close>

datatype stats_op =
    Increment string rat "(string \<times> string) list"
  | Gauge string rat "(string \<times> string) list"
  | Histogram string rat "(string \<times> string) list"
  | Timer string rat "(string \<times> string) list"
  | Reset

fun stats_step :: "stats \<Rightarrow> rat \<times> stats_op \<Rightarrow> stats" where
  "stats_step s (now, Increment n v t) = increment_metric n v t s"
| "stats_step s (now, Gauge n v t) = set_gauge now n v t s"
| "stats_step s (now, Histogram n v t) = record_histogram n v t s"
| "stats_step s (now, Timer n v t) = record_timer now n v t s"
| "stats_step s (now, Reset) = reset_stats now s"

text \<open>What has been measured since the last reset.\<close>

fun measured_since_reset :: "rat list \<Rightarrow> (rat \<times> stats_op) list \<Rightarrow> rat list" where
  "measured_since_reset ms [] = ms"
| "measured_since_reset ms ((now, Timer n v t) # es) = measured_since_reset (ms @ [v]) es"
| "measured_since_reset ms ((now, Reset) # es) = measured_since_reset [] es"
| "measured_since_reset ms ((now, op) # es) = measured_since_reset ms es"

definition averages :: "rat list \<Rightarrow> stats \<Rightarrow> bool" where
  "averages ms s = (pf_messages (st_performance s) = length ms \<and> pf_average_ms (st_performance s) * of_nat (length ms) = sum_list ms \<and>
     (ms = [] \<longrightarrow> pf_average_ms (st_performance s) = 0) \<and> pf_error_rate (st_performance s) = 0)"

lemma update_averages:
  assumes "averages ms s"
  shows "averages (ms @ [v]) (record_timer now n v t s)"
proof -
  let ?p = "st_performance s"
  have z: "of_nat (length ms + 1) \<noteq> (0 :: rat)" by (simp only: of_nat_eq_0_iff)
  have "(pf_average_ms ?p * of_nat (length ms) + v) / of_nat (length ms + 1) * of_nat (length ms + 1) = pf_average_ms ?p * of_nat (length ms) + v"
    by (rule nonzero_divide_eq_eq [OF z, THEN iffD1, OF refl, symmetric])
  with assms show ?thesis by (simp add: averages_def record_timer_def update_performance_def Let_def del: of_nat_add)
qed

lemma other_averages:
  "averages ms (increment_metric n v t s) = averages ms s" "averages ms (set_gauge now n v t s) = averages ms s"
  "averages ms (record_histogram n v t s) = averages ms s" "averages [] (reset_stats now s)"
  by (simp_all add: averages_def increment_metric_def set_gauge_def record_histogram_def reset_stats_def no_performance_def Let_def)

lemma run_averages: "averages ms s \<Longrightarrow> averages (measured_since_reset ms es) (foldl stats_step s es)"
proof (induction es arbitrary: ms s)
  case (Cons e es)
  obtain now op where e: "e = (now, op)" by fastforce
  show ?case
  proof (cases op)
    case (Timer n v t)
    with Cons.IH [OF update_averages [OF Cons.prems]] e show ?thesis by simp
  next
    case Reset
    with Cons.IH [OF other_averages(4)] e show ?thesis by simp
  qed (use Cons e in \<open>simp_all add: other_averages\<close>)
qed simp

text \<open>The running average is the average. After any operations the counter and the incremental mean are the number and the mean of the
  durations timed since the last reset, of every metric together.\<close>

theorem running_average_is_mean:
  fixes es :: "(rat \<times> stats_op) list" and service :: string and t0 :: rat
  defines "ms \<equiv> measured_since_reset [] es" and "p \<equiv> st_performance (foldl stats_step (stats_init service t0) es)"
  shows "pf_messages p = length ms \<and> pf_average_ms p = avg ms"
proof -
  have "averages [] (stats_init service t0)" by (simp add: averages_def stats_init_def no_performance_def)
  from run_averages [OF this, of es] show ?thesis
    by (auto simp: averages_def ms_def p_def avg_def eq_divide_eq)
qed

text \<open>Nothing ever sets the error rate, so the critical alert cannot fire, and low throughput raises no alert: the status follows from the average
  and the custom checks alone.\<close>

lemma custom_checks_error: "list_ex (\<lambda>c. snd c = ''error'') (custom_checks i rs) \<longleftrightarrow> (\<exists>r\<in>set rs. r \<noteq> Inr True)"
  by (induction i rs rule: custom_checks.induct) auto

theorem health_status_decides:
  assumes "0 \<le> th_max_error_rate th" "s = foldl stats_step (stats_init service t0) es"
  shows "hk_status (stats_health_check th customs now s) =
     (if pf_average_ms (st_performance s) > th_max_processing_ms th then ''degraded''
      else if \<exists>r\<in>set customs. r \<noteq> Inr True then ''error'' else ''healthy'')"
proof -
  have "averages [] (stats_init service t0)" by (simp add: averages_def stats_init_def no_performance_def)
  from run_averages [OF this, of es] have "pf_error_rate (st_performance s) = 0" using assms(2) by (simp add: averages_def)
  then show ?thesis using assms(1) custom_checks_error [of 0 customs]
    by (auto simp: stats_health_check_def overall_status_def get_metrics_summary_def Let_def)
qed

theorem health_status_decides_witness:
  "hk_status (stats_health_check default_limits [] 1000 (foldl stats_step (stats_init ''feed'' 0) [])) = ''healthy'' \<and>
   (''throughput'', ''warning'') \<in> set (hk_checks (stats_health_check default_limits [] 1000 (foldl stats_step (stats_init ''feed'' 0) [])))"
proof
  show "hk_status (stats_health_check default_limits [] 1000 (foldl stats_step (stats_init ''feed'' 0) [])) = ''healthy''"
    by (subst health_status_decides [OF _ refl]) (simp_all add: default_limits_def stats_init_def no_performance_def)
qed (simp add: default_limits_def stats_init_def no_performance_def stats_health_check_def get_metrics_summary_def Let_def)

text \<open>Histograms and timers keep the last thousand values.\<close>

definition bounded_lists :: "stats \<Rightarrow> bool" where
  "bounded_lists s = (\<forall>(k, xs)\<in>set (st_histograms s) \<union> set (st_timers s). 0 < length xs \<and> length xs \<le> 1000)"

lemma set_dict_set: "set (dict_set k v d) \<subseteq> insert (k, v) (set d)"
  by (induction k v d rule: dict_set.induct) auto

lemma append_value_bounded:
  assumes "\<forall>(k, xs)\<in>set d. 0 < length xs \<and> length xs \<le> 1000"
  shows "\<forall>(k, xs)\<in>set (append_value k v d). 0 < length xs \<and> length xs \<le> 1000"
proof -
  define w where "w = last_n 1000 ((case map_of d k of None \<Rightarrow> [] | Some xs \<Rightarrow> xs) @ [v])"
  have v: "0 < length w \<and> length w \<le> 1000" unfolding w_def by simp
  show ?thesis
  proof
    fix x assume "x \<in> set (append_value k v d)"
    then have "x = (k, w) \<or> x \<in> set d" using set_dict_set [of k w d] unfolding append_value_def w_def by blast
    then show "case x of (k, xs) \<Rightarrow> 0 < length xs \<and> length xs \<le> 1000" using v assms by auto
  qed
qed

interpretation ss: step_machine stats_step bounded_lists
proof
  fix s and e :: "rat \<times> stats_op" assume b: "bounded_lists s"
  obtain now op where e: "e = (now, op)" by fastforce
  from b have h: "\<forall>(k, xs)\<in>set (st_histograms s). 0 < length xs \<and> length xs \<le> 1000" "\<forall>(k, xs)\<in>set (st_timers s). 0 < length xs \<and> length xs \<le> 1000"
    by (auto simp: bounded_lists_def)
  show "bounded_lists (stats_step s e)"
    using b append_value_bounded [OF h(1)] append_value_bounded [OF h(2)]
    by (cases op) (fastforce simp: e bounded_lists_def increment_metric_def set_gauge_def record_histogram_def record_timer_def reset_stats_def Let_def)+
qed

lemma recorded_values_bounded: "bounded_lists (foldl stats_step (stats_init service t0) es)"
  by (rule ss.run_inv) (simp add: bounded_lists_def stats_init_def)

text \<open>A nearest_rank is one of the values, and grows with the rank.\<close>

lemma percentile_rank_less: "0 < n \<Longrightarrow> percentile_rank n p < n"
  by (simp add: percentile_rank_def Let_def not_le)

lemma percentile_member: "xs \<noteq> [] \<Longrightarrow> nearest_rank xs p \<in> set xs"
  using nth_mem [of "percentile_rank (length xs) p" "sort xs"] percentile_rank_less [of "length xs" p] by (simp add: nearest_rank_def)

lemma percentile_rank_mono:
  assumes "p \<le> q"
  shows "percentile_rank n p \<le> percentile_rank n q"
proof -
  have "of_nat p / 100 * of_nat n \<le> (of_nat q / 100 * of_nat n :: rat)"
    using assms by (intro mult_right_mono divide_right_mono) auto
  then have "nat \<lfloor>of_nat p / 100 * of_nat n :: rat\<rfloor> \<le> nat \<lfloor>of_nat q / 100 * of_nat n :: rat\<rfloor>"
    by (intro nat_mono floor_mono)
  then show ?thesis unfolding percentile_rank_def Let_def by (auto simp: not_le)
qed

lemma percentile_mono: "p \<le> q \<Longrightarrow> nearest_rank xs p \<le> nearest_rank xs q"
  using sorted_nth_mono [of "sort xs" "percentile_rank (length xs) p" "percentile_rank (length xs) q"] percentile_rank_less [of "length xs" q]
    percentile_rank_mono [of p q "length xs"] by (simp add: nearest_rank_def)

text \<open>Tags are sorted, so the order in which a caller gives them does not matter.\<close>

lemma metric_key_order:
  assumes "mset tags = mset tags'" "distinct (map fst tags)"
  shows "make_metric_key name tags = make_metric_key name tags'"
proof -
  have "sort_key fst tags = sort_key fst tags'"
    using assms by (intro sort_key_inj_key_eq) (simp_all add: distinct_map)
  moreover have "tags = [] \<longleftrightarrow> tags' = []" using assms(1) by (metis mset_zero_iff)
  ultimately show ?thesis by (simp add: make_metric_key_def)
qed

text \<open>After a reset the rate is that of the messages since the reset over the time since the start.\<close>

lemma rate_after_reset:
  assumes "0 < now - st_start s"
  shows "pf_per_second (st_performance (record_timer now n v t (reset_stats r s))) = 1 / (now - st_start s)"
  using assms by (simp add: record_timer_def reset_stats_def update_performance_def no_performance_def Let_def)

text \<open>The summary over services is never critical, and no error is ever counted.\<close>

lemma summary_never_critical:
  assumes "\<And>n s. (n, s) \<in> set d \<Longrightarrow> \<exists>t0 es. s = foldl stats_step (stats_init n t0) es"
  shows "fst (get_service_health_summary now d) \<in> {''healthy'', ''degraded''}" "to_errors (snd (get_system_metrics now d)) = 0"
proof -
  have st: "hk_status (stats_health_check default_limits [] now s) \<in> {''healthy'', ''degraded''}" if "(n, s) \<in> set d" for n s
    using assms [OF that] health_status_decides [of default_limits s n _ _ "[]" now] by (auto simp: default_limits_def)
  have "fold (\<lambda>(n, h) o'. worse_status o' (hk_status h)) (map (\<lambda>(n, s). (n, stats_health_check default_limits [] now s)) d') o1 \<in> {''healthy'', ''degraded''}"
    if "set d' \<subseteq> set d" "o1 \<in> {''healthy'', ''degraded''}" for d' o1
    using that
  proof (induction d' arbitrary: o1)
    case (Cons x d')
    obtain n s where x: "x = (n, s)" by fastforce
    have "worse_status o1 (hk_status (stats_health_check default_limits [] now s)) \<in> {''healthy'', ''degraded''}"
      using st [of n s] Cons.prems x by (auto simp: worse_status_def)
    with Cons x show ?case by simp
  qed simp
  from this [of d "''healthy''"] show "fst (get_service_health_summary now d) \<in> {''healthy'', ''degraded''}"
    by (simp add: get_service_health_summary_def Let_def)
  show "to_errors (snd (get_system_metrics now d)) = 0" by (simp add: get_system_metrics_def Let_def)
qed

end
