(* ===== verification/Metric_Collection.thy ===== *)
theory Metric_Collection
  imports Alerting Py_Format
begin

text \<open>
  The collection of the metrics of all services (core/monitoring/metrics_collector.py): a round over the known services, thresholds and the
  alerts they send, history and aggregates. What a service reported is JSON, so its fields may have any type; times are
  seconds. The reply of the cache for a service is an argument of a round.
\<close>

record metric_threshold =
  mt_metric :: string
  mt_warning :: rat
  mt_critical :: rat
  mt_comparison :: string

definition default_thresholds :: "metric_threshold list" where
  "default_thresholds =
     [\<lparr>mt_metric = ''error_rate_percent'', mt_warning = 5, mt_critical = 15, mt_comparison = ''greater''\<rparr>,
      \<lparr>mt_metric = ''avg_processing_time_ms'', mt_warning = 100, mt_critical = 500, mt_comparison = ''greater''\<rparr>,
      \<lparr>mt_metric = ''messages_per_second'', mt_warning = 1, mt_critical = 1/10, mt_comparison = ''less''\<rparr>,
      \<lparr>mt_metric = ''uptime_seconds'', mt_warning = 300, mt_critical = 60, mt_comparison = ''less''\<rparr>]"

record service_metrics =
  vm_service :: string
  vm_broker :: json
  vm_updated :: rat
  vm_processed :: json
  vm_published :: json
  vm_errors :: json
  vm_uptime :: json
  vm_avg_ms :: json
  vm_min_ms :: json
  vm_max_ms :: json
  vm_per_second :: json
  vm_error_rate :: json
  vm_topics :: json
  vm_partitions :: json
  vm_running :: json
  vm_last_message :: json

definition new_service :: "rat \<Rightarrow> string \<Rightarrow> json \<Rightarrow> service_metrics" where
  "new_service now name broker =
     \<lparr>vm_service = name, vm_broker = broker, vm_updated = now, vm_processed = JInt 0, vm_published = JInt 0, vm_errors = JInt 0, vm_uptime = JInt 0,
      vm_avg_ms = JInt 0, vm_min_ms = JInt 0, vm_max_ms = JInt 0, vm_per_second = JInt 0, vm_error_rate = JInt 0, vm_topics = JObj [],
      vm_partitions = JObj [], vm_running = JBool True, vm_last_message = JNull\<rparr>"

text \<open>\<open>getattr(service, name, None)\<close>; the time of the update stands as text, which no comparison accepts either.\<close>

definition metric_attribute :: "service_metrics \<Rightarrow> string \<Rightarrow> json" where
  "metric_attribute v name =
     jget_none [(''service_name'', JStr (vm_service v)), (''broker_namespace'', vm_broker v), (''last_updated'', JStr ''time''),
       (''messages_processed'', vm_processed v), (''messages_published'', vm_published v), (''error_count'', vm_errors v),
       (''uptime_seconds'', vm_uptime v), (''avg_processing_time_ms'', vm_avg_ms v), (''min_processing_time_ms'', vm_min_ms v),
       (''max_processing_time_ms'', vm_max_ms v), (''messages_per_second'', vm_per_second v), (''error_rate_percent'', vm_error_rate v),
       (''topic_stats'', vm_topics v), (''partition_stats'', vm_partitions v), (''is_running'', vm_running v),
       (''last_message_time'', vm_last_message v)] name"

record collection =
  cn_services :: "(string \<times> service_metrics) list"
  cn_thresholds :: "metric_threshold list"
  cn_history :: "(string \<times> (rat \<times> service_metrics) list) list"
  cn_alerts :: alert_manager
  cn_collections :: nat
  cn_last :: "rat option"
  cn_triggered :: nat
  cn_monitored :: nat
  cn_running :: bool

definition collection_init :: "alert_manager \<Rightarrow> collection" where
  "collection_init am =
     \<lparr>cn_services = [], cn_thresholds = default_thresholds, cn_history = [], cn_alerts = am, cn_collections = 0, cn_last = None, cn_triggered = 0,
      cn_monitored = 0, cn_running = False\<rparr>"

definition add_threshold :: "metric_threshold \<Rightarrow> collection \<Rightarrow> collection" where
  "add_threshold t c = c\<lparr>cn_thresholds := cn_thresholds c @ [t]\<rparr>"

text \<open>start_collection and stop_collection: whether a new task is created, and the flag.\<close>

definition start_collection :: "collection \<Rightarrow> bool \<times> collection" where
  "start_collection c = (if cn_running c then (False, c) else (True, c\<lparr>cn_running := True\<rparr>))"

definition stop_collection :: "collection \<Rightarrow> collection" where
  "stop_collection c = c\<lparr>cn_running := False\<rparr>"

subsection \<open>Reading the cache\<close>

text \<open>Nothing, bytes with what their JSON is (if it is JSON), text that cannot be decoded, or an exception.\<close>

datatype cached = Nothing | Bytes "json option" | Decoded | ReadFails

definition first_truthy :: "json list \<Rightarrow> json" where
  "first_truthy vs = (case find py_truthy vs of Some v \<Rightarrow> v | None \<Rightarrow> JStr ''unknown'')"

definition reported :: "(string \<times> json) list \<Rightarrow> string \<Rightarrow> json \<Rightarrow> json" where
  "reported d k z = (case jget d k of None \<Rightarrow> z | Some v \<Rightarrow> v)"

definition update_service_metrics :: "rat \<Rightarrow> string \<Rightarrow> (string \<times> json) list \<Rightarrow> collection \<Rightarrow> collection" where
  "update_service_metrics now name d c =
     (let broker = first_truthy (map (jget_none d) [''broker'', ''broker_context'', ''namespace'', ''broker_namespace'']);
          v0 = (case map_of (cn_services c) name of None \<Rightarrow> new_service now name broker | Some v \<Rightarrow> v);
          v = v0\<lparr>vm_processed := reported d ''messages_processed'' (JInt 0), vm_published := reported d ''messages_published'' (JInt 0),
                 vm_errors := reported d ''error_count'' (JInt 0), vm_uptime := reported d ''uptime_seconds'' (JInt 0),
                 vm_avg_ms := reported d ''average_processing_time_ms'' (JInt 0), vm_min_ms := reported d ''min_processing_time_ms'' (JInt 0),
                 vm_max_ms := reported d ''max_processing_time_ms'' (JInt 0), vm_per_second := reported d ''messages_per_second'' (JInt 0),
                 vm_error_rate := reported d ''error_rate_percent'' (JInt 0), vm_running := reported d ''is_running'' (JBool False),
                 vm_last_message := jget_none d ''last_message_time'', vm_topics := reported d ''topic_stats'' (JObj []),
                 vm_partitions := reported d ''partition_stats'' (JObj []), vm_updated := now\<rparr>;
          old = (case map_of (cn_history c) name of None \<Rightarrow> [] | Some h \<Rightarrow> h)
      in c\<lparr>cn_services := dict_set name v (cn_services c), cn_history := dict_set name (push 100 (now, v) old) (cn_history c)\<rparr>)"

definition create_default_metrics :: "rat \<Rightarrow> string \<Rightarrow> collection \<Rightarrow> collection" where
  "create_default_metrics now name c =
     (let broker = (if name = ''market_feed'' then JStr ''shared'' else JStr ''unknown'');
          v0 = (case map_of (cn_services c) name of None \<Rightarrow> new_service now name broker | Some v \<Rightarrow> v)
      in c\<lparr>cn_services := dict_set name (v0\<lparr>vm_running := JBool False, vm_updated := now\<rparr>) (cn_services c)\<rparr>)"

text \<open>JSON that is not an object has no fields to read, and the exception falls back to the defaults.\<close>

definition collect_service :: "rat \<Rightarrow> (string \<Rightarrow> cached) \<Rightarrow> string \<Rightarrow> collection \<Rightarrow> collection" where
  "collect_service now reply name c =
     (case reply name of
        Bytes (Some (JObj d)) \<Rightarrow> update_service_metrics now name d c
      | _ \<Rightarrow> create_default_metrics now name c)"

subsection \<open>Thresholds\<close>

definition comparison_error :: exn where
  "comparison_error = raise_exn (Other ''TypeError'') ''unsupported comparison''"

definition threshold_severity :: "metric_threshold \<Rightarrow> json \<Rightarrow> exn + severity option" where
  "threshold_severity t v =
     (if v = JNull then Inr None
      else if mt_comparison t = ''greater''
      then (case py_num v of None \<Rightarrow> Inl comparison_error
            | Some x \<Rightarrow> Inr (if x > mt_critical t then Some CRITICAL else if x > mt_warning t then Some HIGH else None))
      else if mt_comparison t = ''less''
      then (case py_num v of None \<Rightarrow> Inl comparison_error
            | Some x \<Rightarrow> Inr (if x < mt_critical t then Some CRITICAL else if x < mt_warning t then Some HIGH else None))
      else Inr None)"

definition threshold_message :: "service_metrics \<Rightarrow> metric_threshold \<Rightarrow> rat \<Rightarrow> string" where
  "threshold_message v t x =
     vm_service v @ '': '' @ mt_metric t @ '' is '' @ show_fixed 2 x @ '' (threshold: '' @ show_fixed 2 (mt_warning t) @ ''/'' @ show_fixed 2 (mt_critical t) @ '')''"

definition check_service_threshold ::
  "(channel \<Rightarrow> alert \<Rightarrow> bool) \<Rightarrow> rat \<Rightarrow> service_metrics \<Rightarrow> metric_threshold \<Rightarrow> alert_manager \<Rightarrow> (exn + bool) \<times> alert_manager" where
  "check_service_threshold lf now v t am =
     (case threshold_severity t (metric_attribute v (mt_metric t)) of
        Inl e \<Rightarrow> (Inl e, am)
      | Inr None \<Rightarrow> (Inr False, am)
      | Inr (Some sv) \<Rightarrow>
          (let x = (case py_num (metric_attribute v (mt_metric t)) of Some r \<Rightarrow> r | None \<Rightarrow> 0);
               (r, am1) = send_alert lf now (''Metric Threshold Exceeded: '' @ mt_metric t) (threshold_message v t x) sv PERFORMANCE
                  (vm_service v) (no_kwargs\<lparr>kw_broker_namespace := Some (py_str (vm_broker v))\<rparr>) am
           in (case r of Inl e \<Rightarrow> Inl e | Inr b \<Rightarrow> Inr True, am1)))"

text \<open>Exceptions of a check are logged and the checks go on.\<close>

fun check_pairs :: "(channel \<Rightarrow> alert \<Rightarrow> bool) \<Rightarrow> rat \<Rightarrow> (service_metrics \<times> metric_threshold) list \<Rightarrow> alert_manager \<Rightarrow> nat \<times> alert_manager" where
  "check_pairs lf now [] am = (0, am)"
| "check_pairs lf now ((v, t) # ps) am =
     (let (r, am1) = check_service_threshold lf now v t am; (n, am2) = check_pairs lf now ps am1 in ((if r = Inr True then n + 1 else n), am2))"

definition service_thresholds :: "collection \<Rightarrow> (service_metrics \<times> metric_threshold) list" where
  "service_thresholds c = concat (map (\<lambda>(n, v). map (\<lambda>t. (v, t)) (cn_thresholds c)) (cn_services c))"

definition check_thresholds :: "(channel \<Rightarrow> alert \<Rightarrow> bool) \<Rightarrow> rat \<Rightarrow> collection \<Rightarrow> collection" where
  "check_thresholds lf now c =
     (let (n, am) = check_pairs lf now (service_thresholds c) (cn_alerts c) in c\<lparr>cn_alerts := am, cn_triggered := cn_triggered c + n\<rparr>)"

subsection \<open>A round and its results\<close>

definition known_services :: "string list" where
  "known_services = [''market_feed'', ''strategy_runner'', ''risk_manager'', ''paper_trading'', ''zerodha_trading'']"

definition collect_all_metrics :: "(channel \<Rightarrow> alert \<Rightarrow> bool) \<Rightarrow> rat \<Rightarrow> (string \<Rightarrow> cached) \<Rightarrow> collection \<Rightarrow> collection" where
  "collect_all_metrics lf now reply c =
     (let c1 = check_thresholds lf now (fold (collect_service now reply) known_services c)
      in c1\<lparr>cn_collections := cn_collections c1 + 1, cn_last := Some now, cn_monitored := length (cn_services c1)\<rparr>)"

definition sum_field :: "(service_metrics \<Rightarrow> json) \<Rightarrow> collection \<Rightarrow> rat option" where
  "sum_field f c =
     fold (\<lambda>(n, v) acc. case (acc, py_num (f v)) of (Some a, Some x) \<Rightarrow> Some (a + x) | _ \<Rightarrow> None) (cn_services c) (Some 0)"

record aggregate =
  ag_services :: nat
  ag_running :: nat
  ag_availability :: rat
  ag_processed :: rat
  ag_published :: rat
  ag_errors :: rat
  ag_overall_error_rate :: rat
  ag_average_error_rate :: rat
  ag_average_ms :: rat
  ag_throughput :: rat

definition running_services :: "collection \<Rightarrow> nat" where
  "running_services c = length (filter (\<lambda>(n, v). py_truthy (vm_running v)) (cn_services c))"

text \<open>Empty without services; the outer \<open>None\<close> is TypeError.\<close>

definition get_aggregated_metrics :: "collection \<Rightarrow> aggregate option option" where
  "get_aggregated_metrics c =
     (if cn_services c = [] then Some None
      else case (sum_field vm_processed c, sum_field vm_published c, sum_field vm_errors c, sum_field vm_error_rate c, sum_field vm_avg_ms c, sum_field vm_per_second c) of
          (Some p, Some q, Some e, Some er, Some ms, Some tp) \<Rightarrow>
            (let n = length (cn_services c); run = running_services c in
             Some (Some \<lparr>ag_services = n, ag_running = run, ag_availability = of_nat run / of_nat n * 100, ag_processed = p, ag_published = q, ag_errors = e,
               ag_overall_error_rate = (if p > 0 then e / p * 100 else 0), ag_average_error_rate = er / of_nat n, ag_average_ms = ms / of_nat n,
               ag_throughput = tp\<rparr>))
        | _ \<Rightarrow> None)"

definition get_trending_data :: "rat \<Rightarrow> rat \<Rightarrow> string \<Rightarrow> collection \<Rightarrow> (rat \<times> service_metrics) list" where
  "get_trending_data now minutes name c =
     (case map_of (cn_history c) name of None \<Rightarrow> [] | Some h \<Rightarrow> filter (\<lambda>(t, v). t > now - minutes * 60) h)"

subsection \<open>What a round does\<close>

lemma check_result:
  "fst (check_service_threshold lf now v t am) =
     (case threshold_severity t (metric_attribute v (mt_metric t)) of Inl e \<Rightarrow> Inl e | Inr sv \<Rightarrow> Inr (sv \<noteq> None))"
  by (auto simp: check_service_threshold_def send_alert_def no_kwargs_def Let_def split: sum.splits option.splits prod.splits)

definition exceeded :: "service_metrics \<times> metric_threshold \<Rightarrow> bool" where
  "exceeded p = (case threshold_severity (snd p) (metric_attribute (fst p) (mt_metric (snd p))) of Inr (Some sv) \<Rightarrow> True | _ \<Rightarrow> False)"

lemma check_pairs_count: "fst (check_pairs lf now ps am) = length (filter exceeded ps)"
proof (induction ps arbitrary: am)
  case (Cons p ps)
  obtain v t where p: "p = (v, t)" by fastforce
  obtain r am1 where 1: "check_service_threshold lf now v t am = (r, am1)" by fastforce
  have "r = Inr True \<longleftrightarrow> exceeded (v, t)" using check_result [of lf now v t am] 1 by (auto simp: exceeded_def split: sum.splits option.splits)
  moreover have "fst (check_pairs lf now ps am1) = length (filter exceeded ps)" by (rule Cons.IH)
  ultimately show ?case using 1 by (auto simp: p split: prod.splits)
qed simp

lemma round_triggered:
  "cn_triggered (collect_all_metrics lf now reply c) =
     cn_triggered c + length (filter exceeded (service_thresholds (fold (collect_service now reply) known_services c)))"
proof -
  have s: "cn_triggered (collect_service now reply n c) = cn_triggered c" for n c
    by (simp add: collect_service_def update_service_metrics_def create_default_metrics_def Let_def split: cached.splits option.splits json.splits)
  have f: "cn_triggered (fold (collect_service now reply) ns c) = cn_triggered c" for ns
    by (induction ns arbitrary: c) (simp_all add: s)
  show ?thesis
    using check_pairs_count [of lf now "service_thresholds (fold (collect_service now reply) known_services c)" "cn_alerts (fold (collect_service now reply) known_services c)"]
    by (auto simp: collect_all_metrics_def check_thresholds_def f Let_def split: prod.splits)
qed


text \<open>A threshold that compares for equality, as the configuration offers, never fires.\<close>

lemma equality_never_fires: "mt_comparison t = ''equal'' \<Longrightarrow> threshold_severity t v = Inr None"
  by (simp add: threshold_severity_def)

text \<open>The stricter threshold decides first.\<close>

lemma severity_of_value:
  assumes "py_num v = Some x" "mt_comparison t = ''less''" "mt_critical t \<le> mt_warning t"
  shows "threshold_severity t v = Inr (Some CRITICAL) \<longleftrightarrow> x < mt_critical t"
    "threshold_severity t v \<noteq> Inr None \<longleftrightarrow> x < mt_warning t"
proof -
  have "v \<noteq> JNull" using assms(1) by auto
  then show "threshold_severity t v = Inr (Some CRITICAL) \<longleftrightarrow> x < mt_critical t" "threshold_severity t v \<noteq> Inr None \<longleftrightarrow> x < mt_warning t"
    using assms by (auto simp: threshold_severity_def)
qed

text \<open>A first round over services that have reported nothing raises ten alarms: throughput and uptime of each of the five are zero, so
  critically low.\<close>

lemma silent_services_raise_alarms:
  assumes "\<And>n. reply n = Nothing"
  shows "cn_triggered (collect_all_metrics lf now reply (collection_init am)) = 10 \<and>
    cn_monitored (collect_all_metrics lf now reply (collection_init am)) = 5"
proof -
  have r: "collect_service now reply n c = create_default_metrics now n c" for n c by (simp add: collect_service_def assms)
  let ?c = "fold (collect_service now reply) known_services (collection_init am)"
  have "length (cn_services ?c) = 5" by (simp add: known_services_def r create_default_metrics_def collection_init_def)
  moreover have "length (filter exceeded (service_thresholds ?c)) = 10"
    by (simp add: known_services_def r create_default_metrics_def collection_init_def service_thresholds_def default_thresholds_def new_service_def
        exceeded_def threshold_severity_def metric_attribute_def jget_none_def jget_def)
  moreover have "cn_services (check_thresholds lf now ?c) = cn_services ?c" by (simp add: check_thresholds_def split: prod.splits)
  ultimately show ?thesis using round_triggered [of lf now reply "collection_init am"]
    by (simp add: collect_all_metrics_def collection_init_def Let_def)
qed

text \<open>When a service falls silent its last numbers stay; only the flag changes, so its thresholds go on being judged by them.\<close>

lemma silence_keeps_numbers:
  assumes "map_of (cn_services c) n = Some v" "reply n = Nothing"
  shows "map_of (cn_services (collect_service now reply n c)) n = Some (v\<lparr>vm_running := JBool False, vm_updated := now\<rparr>)"
  using assms by (simp add: collect_service_def create_default_metrics_def Let_def)

text \<open>The availability is a percentage; the history keeps a hundred entries of a service.\<close>

lemma availability_is_percentage:
  assumes "get_aggregated_metrics c = Some (Some a)"
  shows "0 \<le> ag_availability a \<and> ag_availability a \<le> 100 \<and> ag_running a \<le> ag_services a"
proof -
  have a: "ag_availability a = of_nat (running_services c) / of_nat (length (cn_services c)) * 100" "ag_running a = running_services c"
    "ag_services a = length (cn_services c)" and n: "cn_services c \<noteq> []"
    using assms by (auto simp: get_aggregated_metrics_def Let_def split: option.splits if_splits)
  have le: "running_services c \<le> length (cn_services c)" by (simp add: running_services_def)
  then have "(of_nat (running_services c) :: rat) \<le> of_nat (length (cn_services c))" by simp
  with a le n show ?thesis by (simp add: divide_le_eq)
qed

definition short_history :: "collection \<Rightarrow> bool" where
  "short_history c = (\<forall>n h. map_of (cn_history c) n = Some h \<longrightarrow> length h \<le> 100)"

lemma collect_service_history: "short_history c \<Longrightarrow> short_history (collect_service now reply n c)"
  using length_push [of 100]
  by (auto simp: short_history_def collect_service_def update_service_metrics_def create_default_metrics_def Let_def split: cached.splits option.splits json.splits)

interpretation mc: step_machine "\<lambda>c (lf, now, reply). collect_all_metrics lf now reply c" short_history
proof
  fix c and e :: "(channel \<Rightarrow> alert \<Rightarrow> bool) \<times> rat \<times> (string \<Rightarrow> cached)"
  assume c: "short_history c"
  obtain lf now reply where e: "e = (lf, now, reply)" by (metis prod_cases3)
  have "short_history (fold (collect_service now reply) ns c)" for ns
    using c by (induction ns arbitrary: c) (simp_all add: collect_service_history)
  then show "short_history (case e of (lf, now, reply) \<Rightarrow> collect_all_metrics lf now reply c)"
    by (simp add: e short_history_def collect_all_metrics_def check_thresholds_def Let_def split: prod.splits)
qed

end
