(* ===== verification/Api_Views.thy ===== *)
theory Api_Views
  imports Py_Format Exceptions
begin

text \<open>
  The alerts that the API keeps (api/routers/alerts.py), the simulated log store behind its log views (api/services/log_service.py), the
  pagination both use (api/dependencies.py) and the WebSocket connections (api/services/realtime_service.py). Authentication is that of
  Api_Gateway; an identifier and the time are arguments. A handler answers with a value or with the status it raises.
\<close>

subsection \<open>Pages\<close>

record page_params =
  pg_page :: nat
  pg_size :: nat

text \<open>The query validator admits pages from 1 and sizes from 1 to 1000.\<close>

definition valid_page :: "page_params \<Rightarrow> bool" where
  "valid_page p = (1 \<le> pg_page p \<and> 1 \<le> pg_size p \<and> pg_size p \<le> 1000)"

definition page_offset :: "page_params \<Rightarrow> nat" where
  "page_offset p = (pg_page p - 1) * pg_size p"

definition slice :: "nat \<Rightarrow> nat \<Rightarrow> 'a list \<Rightarrow> 'a list" where
  "slice offset limit xs = take limit (drop offset xs)"

definition page_count :: "nat \<Rightarrow> nat \<Rightarrow> nat" where
  "page_count items per_page = (items + per_page - 1) div per_page"

lemma slices_cover:
  assumes "0 < n"
  shows "concat (map (\<lambda>k. slice (k * n) n xs) [0..<m]) = take (m * n) xs"
proof (induction m)
  case (Suc m)
  have "take (m * n) xs @ slice (m * n) n xs = take (m * n + n) xs" by (simp add: slice_def take_add)
  with Suc show ?case by (simp add: add.commute)
qed simp

lemma page_count_covers:
  assumes "0 < n"
  shows "t \<le> page_count t n * n"
proof -
  have "t + n - 1 < (t + n - 1) div n * n + n" using assms by (metis div_mult_mod_eq mod_less_divisor nat_add_left_cancel_less)
  with assms show ?thesis by (simp add: page_count_def)
qed

subsection \<open>Alerts\<close>

record api_alert =
  aa_id :: string
  aa_title :: string
  aa_message :: string
  aa_severity :: string
  aa_category :: string
  aa_component :: string
  aa_status :: string
  aa_created_at :: string
  aa_acknowledged_at :: "string option"
  aa_resolved_at :: "string option"

record alert_filter =
  af_status :: "string option"
  af_severity :: "string option"
  af_category :: "string option"

text \<open>An empty filter text counts as none.\<close>

definition filter_passes :: "string option \<Rightarrow> string \<Rightarrow> bool" where
  "filter_passes f v = (case f of Some (c # cs) \<Rightarrow> v = c # cs | _ \<Rightarrow> True)"

definition alert_matches :: "alert_filter \<Rightarrow> api_alert \<Rightarrow> bool" where
  "alert_matches f a = (filter_passes (af_status f) (aa_status a) \<and> filter_passes (af_severity f) (aa_severity a) \<and> filter_passes (af_category f) (aa_category a))"

definition get_alerts :: "alert_filter \<Rightarrow> nat \<Rightarrow> nat \<Rightarrow> api_alert list \<Rightarrow> api_alert list" where
  "get_alerts f offset limit as = slice offset limit (filter (alert_matches f) as)"

definition count_alerts :: "alert_filter \<Rightarrow> api_alert list \<Rightarrow> nat" where
  "count_alerts f as = length (filter (alert_matches f) as)"

record alert_summary =
  asu_active :: nat
  asu_critical :: nat
  asu_acknowledged :: nat
  asu_24h :: nat
  asu_categories :: "(string \<times> nat) list"

definition get_alert_summary :: "api_alert list \<Rightarrow> alert_summary" where
  "get_alert_summary as =
     \<lparr>asu_active = length (filter (\<lambda>a. aa_status a = ''active'') as), asu_critical = length (filter (\<lambda>a. aa_severity a = ''critical'') as),
      asu_acknowledged = length (filter (\<lambda>a. aa_status a = ''acknowledged'') as), asu_24h = length as,
      asu_categories = fold (\<lambda>a d. dict_set (aa_category a) ((case map_of d (aa_category a) of None \<Rightarrow> 0 | Some n \<Rightarrow> n) + 1) d) as []\<rparr>"

definition find_alert :: "string \<Rightarrow> api_alert list \<Rightarrow> api_alert option" where
  "find_alert i as = find (\<lambda>a. aa_id a = i) as"

text \<open>The first alert with the identifier is changed in place.\<close>

fun change_alert :: "(api_alert \<Rightarrow> api_alert) \<Rightarrow> string \<Rightarrow> api_alert list \<Rightarrow> bool \<times> api_alert list" where
  "change_alert f i [] = (False, [])"
| "change_alert f i (a # as) = (if aa_id a = i then (True, f a # as) else let (b, as') = change_alert f i as in (b, a # as'))"

definition acknowledge_alert :: "string \<Rightarrow> string \<Rightarrow> api_alert list \<Rightarrow> bool \<times> api_alert list" where
  "acknowledge_alert now = change_alert (\<lambda>a. a\<lparr>aa_status := ''acknowledged'', aa_acknowledged_at := Some now\<rparr>)"

definition resolve_alert :: "string \<Rightarrow> string \<Rightarrow> api_alert list \<Rightarrow> bool \<times> api_alert list" where
  "resolve_alert now = change_alert (\<lambda>a. a\<lparr>aa_status := ''resolved'', aa_resolved_at := Some now\<rparr>)"

definition create_test_alert :: "string \<Rightarrow> string \<Rightarrow> string \<Rightarrow> api_alert list \<Rightarrow> api_alert list" where
  "create_test_alert i now user as =
     \<lparr>aa_id = i, aa_title = ''Test Alert'', aa_message = ''Test alert created by '' @ user, aa_severity = ''info'', aa_category = ''system'',
      aa_component = ''api_service'', aa_status = ''active'', aa_created_at = now, aa_acknowledged_at = None, aa_resolved_at = None\<rparr> # as"

text \<open>The handlers: the value answered, or the status raised.\<close>

definition alerts_page :: "alert_filter \<Rightarrow> page_params \<Rightarrow> api_alert list \<Rightarrow> api_alert list \<times> nat \<times> nat" where
  "alerts_page f p as =
     (get_alerts f (page_offset p) (pg_size p) as, count_alerts f as, page_count (count_alerts f as) (pg_size p))"

definition alert_handler :: "string \<Rightarrow> api_alert list \<Rightarrow> nat + api_alert" where
  "alert_handler i as = (case find_alert i as of None \<Rightarrow> Inl 404 | Some a \<Rightarrow> Inr a)"

definition change_handler :: "(string \<Rightarrow> string \<Rightarrow> api_alert list \<Rightarrow> bool \<times> api_alert list) \<Rightarrow> string \<Rightarrow> string \<Rightarrow> api_alert list \<Rightarrow> (nat + string) \<times> api_alert list" where
  "change_handler op now i as = (case op now i as of (b, as') \<Rightarrow> (if b then Inr i else Inl 404, as'))"

text \<open>Every alert that matches is on exactly one page: the pages in order are the list of the matching alerts.\<close>

theorem pages_are_the_alerts:
  assumes "0 < n"
  shows "concat (map (\<lambda>k. fst (alerts_page f \<lparr>pg_page = k + 1, pg_size = n\<rparr> as)) [0..<page_count (count_alerts f as) n]) = filter (alert_matches f) as"
  using slices_cover [OF assms, of "filter (alert_matches f) as" "page_count (count_alerts f as) n"] page_count_covers [OF assms, of "count_alerts f as"]
  by (simp add: alerts_page_def get_alerts_def page_offset_def count_alerts_def)

lemma changed_alerts:
  assumes "change_alert f i as = (b, as')" "\<And>a. aa_id (f a) = aa_id a"
  shows "map aa_id as' = map aa_id as" "b \<longleftrightarrow> i \<in> aa_id ` set as" "distinct (map aa_id as) \<Longrightarrow> as' = map (\<lambda>a. if aa_id a = i then f a else a) as"
proof -
  have "map aa_id as' = map aa_id as \<and> (b \<longleftrightarrow> i \<in> aa_id ` set as) \<and> (distinct (map aa_id as) \<longrightarrow> as' = map (\<lambda>a. if aa_id a = i then f a else a) as)"
    using assms(1)
  proof (induction as arbitrary: b as')
    case (Cons a as)
    show ?case
    proof (cases "aa_id a = i")
      case True
      have "map (\<lambda>a. if aa_id a = i then f a else a) as = as" if "i \<notin> aa_id ` set as" using that by (induction as) auto
      with True Cons.prems assms(2) show ?thesis by auto
    next
      case False
      obtain c cs where 1: "change_alert f i as = (c, cs)" by fastforce
      with Cons.IH [OF 1] Cons.prems False show ?thesis by auto
    qed
  qed simp
  then show "map aa_id as' = map aa_id as" "b \<longleftrightarrow> i \<in> aa_id ` set as" "distinct (map aa_id as) \<Longrightarrow> as' = map (\<lambda>a. if aa_id a = i then f a else a) as"
    by blast+
qed

text \<open>An acknowledged or resolved alert changes alone, and an unknown identifier is answered with 404 and changes nothing.\<close>

lemma resolve_changes_one:
  assumes "distinct (map aa_id as)" "a \<in> set as"
  shows "change_handler resolve_alert now (aa_id a) as =
     (Inr (aa_id a), map (\<lambda>x. if aa_id x = aa_id a then x\<lparr>aa_status := ''resolved'', aa_resolved_at := Some now\<rparr> else x) as)"
proof -
  obtain b as' where 1: "change_alert (\<lambda>a. a\<lparr>aa_status := ''resolved'', aa_resolved_at := Some now\<rparr>) (aa_id a) as = (b, as')" by fastforce
  with changed_alerts [OF 1] assms show ?thesis by (simp add: change_handler_def resolve_alert_def)
qed

lemma unknown_alert: "i \<notin> aa_id ` set as \<Longrightarrow> change_handler acknowledge_alert now i as = (Inl 404, as)"
proof -
  assume i: "i \<notin> aa_id ` set as"
  then have "change_alert f i as = (False, as)" for f by (induction as) auto
  then show "change_handler acknowledge_alert now i as = (Inl 404, as)" by (simp add: change_handler_def acknowledge_alert_def)
qed

text \<open>A resolved alert can be acknowledged: it is then open again, with the time it was resolved.\<close>

lemma acknowledging_reopens:
  assumes "aa_status a = ''resolved''" "aa_resolved_at a = Some t"
  shows "snd (acknowledge_alert now (aa_id a) [a]) = [a\<lparr>aa_status := ''acknowledged'', aa_acknowledged_at := Some now\<rparr>] \<and>
    aa_resolved_at (hd (snd (acknowledge_alert now (aa_id a) [a]))) = Some t"
  using assms by (simp add: acknowledge_alert_def)

lemma summary_counts: "asu_active (get_alert_summary as) + asu_acknowledged (get_alert_summary as) \<le> asu_24h (get_alert_summary as)"
  by (induction as) (auto simp: get_alert_summary_def)

subsection \<open>Simulated logs\<close>

record log_filter =
  lf_service :: "string option"
  lf_level :: "string option"
  lf_search :: "string option"

record log_line =
  ll_timestamp :: int
  ll_level :: string
  ll_service :: string

text \<open>A draw of the random generator is a service, a level and an age in minutes. Lines sort by time, the latest first.\<close>

definition make_line :: "int \<Rightarrow> string \<times> string \<times> int \<Rightarrow> log_line" where
  "make_line now d = (case d of (s, l, m) \<Rightarrow> \<lparr>ll_timestamp = now - m * 60, ll_level = l, ll_service = s\<rparr>)"

definition line_passes :: "log_filter \<Rightarrow> string \<times> string \<times> int \<Rightarrow> bool" where
  "line_passes f d = (case d of (s, l, m) \<Rightarrow> filter_passes (lf_service f) s \<and> filter_passes (lf_level f) l)"

definition get_logs :: "int \<Rightarrow> (string \<times> string \<times> int) list \<Rightarrow> log_filter \<Rightarrow> nat \<Rightarrow> nat \<Rightarrow> log_line list" where
  "get_logs now draws f offset limit =
     slice offset limit (sort_key (\<lambda>l. - ll_timestamp l) (map (make_line now) (filter (line_passes f) (take limit draws))))"

definition count_logs :: "log_filter \<Rightarrow> nat" where
  "count_logs f =
     (let given = (\<lambda>v. case v of Some (c # cs) \<Rightarrow> True | _ \<Rightarrow> False);
          n0 = 10000;
          n1 = (if given (lf_service f) then n0 div 3 else n0);
          n2 = (if given (lf_level f) then n1 div 2 else n1)
      in if given (lf_search f) then n2 div 5 else n2)"

definition search_results :: "nat \<Rightarrow> nat" where
  "search_results limit = min 20 limit"

definition count_search_results :: "string \<Rightarrow> nat" where
  "count_search_results query = max 10 (length query * 5)"

text \<open>Only as many lines are made as a page holds, and then the page is cut out of them: the second page and all later ones are
  empty, although the count promises hundreds of pages.\<close>

theorem later_log_pages_are_empty:
  assumes "2 \<le> pg_page p" "valid_page p"
  shows "get_logs now draws f (page_offset p) (pg_size p) = []"
proof -
  have "pg_size p \<le> page_offset p" using assms by (cases "pg_page p") (auto simp: page_offset_def valid_page_def)
  moreover have "length (filter (line_passes f) (take (pg_size p) draws)) \<le> pg_size p"
    by (rule order.trans [OF length_filter_le]) simp
  ultimately show ?thesis by (simp add: get_logs_def slice_def)
qed

theorem later_log_pages_are_empty_witness:
  "get_logs 0 [(''api_service'', ''INFO'', 5), (''api_service'', ''INFO'', 6)] \<lparr>lf_service = None, lf_level = None, lf_search = None\<rparr> 1 1 = [] \<and>
   page_count (count_logs \<lparr>lf_service = None, lf_level = None, lf_search = None\<rparr>) 1 = 10000"
  using later_log_pages_are_empty [of "\<lparr>pg_page = 2, pg_size = 1\<rparr>" 0 "[(''api_service'', ''INFO'', 5), (''api_service'', ''INFO'', 6)]"
      "\<lparr>lf_service = None, lf_level = None, lf_search = None\<rparr>"]
  by (simp add: page_offset_def valid_page_def count_logs_def page_count_def)

text \<open>A search says more results than it can ever list.\<close>

lemma search_overstates: "5 \<le> length query \<Longrightarrow> search_results limit < count_search_results query"
  by (simp add: search_results_def count_search_results_def)

subsection \<open>Connections\<close>

text \<open>The connections, and whether sending to one raises.\<close>

definition ws_connect :: "'w \<Rightarrow> 'w list \<Rightarrow> 'w list" where
  "ws_connect w ws = (if w \<in> set ws then ws else ws @ [w])"

definition ws_disconnect :: "'w \<Rightarrow> 'w list \<Rightarrow> 'w list" where
  "ws_disconnect w ws = filter (\<lambda>x. x \<noteq> w) ws"

definition ws_send :: "('w \<Rightarrow> bool) \<Rightarrow> 'w \<Rightarrow> 'w list \<Rightarrow> bool \<times> 'w list" where
  "ws_send fails w ws = (if fails w then (False, ws_disconnect w ws) else (True, ws))"

text \<open>Who receives the message, and who stays.\<close>

definition ws_broadcast :: "('w \<Rightarrow> bool) \<Rightarrow> 'w list \<Rightarrow> 'w list \<times> 'w list" where
  "ws_broadcast fails ws = (filter (\<lambda>w. \<not> fails w) ws, fold ws_disconnect (filter fails ws) ws)"

lemma fold_disconnect: "fold ws_disconnect xs ws = filter (\<lambda>w. w \<notin> set xs) ws"
  by (induction xs arbitrary: ws) (auto simp: ws_disconnect_def intro!: filter_cong)

text \<open>A failing connection does not keep the others from the message: all that can be reached receive it once, and exactly they stay.\<close>

lemma broadcast_reaches_all:
  assumes "distinct ws"
  shows "fst (ws_broadcast fails ws) = filter (\<lambda>w. \<not> fails w) ws \<and> snd (ws_broadcast fails ws) = fst (ws_broadcast fails ws) \<and>
    distinct (fst (ws_broadcast fails ws))"
  using assms by (auto simp: ws_broadcast_def fold_disconnect intro!: filter_cong)

end
