(* ===== verification/Spec2Isabelle.thy ===== *)
theory Spec2Isabelle
  imports Error_Handling Circuit_Breaker Market_Hours Deduplication Reliability Lifecycle Risk_Manager Paper_Trading Strategy_Runner Pipeline_Validator Health_Checker Market_Feed Zerodha_Trading Auth Base_Service Instrument_Registry Stream_Processor_Facts Application Log_Processors Log_Delivery Log_Maintenance Api_Gateway Dashboard_Data Service_Stats Metric_Collection Api_Views
begin

text \<open>
  Alpha Panda is an event-driven trading system: services that read and write Kafka topics, with
  Redis for shared state. This development models its streaming core, its risk manager, its
  strategies and its simulated and live brokers, the starting of the application with its checks, authentication and the
  instrument registry, and what watches over them: logging, monitoring, and the middleware and services of the HTTP API. Files are named relative to the repository.

  \<^bold>\<open>The parts and how they interact.\<close> The market feed publishes ticks. The strategy runner
  (services/strategy_runner) feeds each tick to the strategies (strategies) that trade its
  instrument and publishes their signals on a raw topic per broker. The risk manager
  (services/risk_manager) evaluates a raw signal against its rules and the state it keeps in
  Redis, and publishes it as validated or rejected. The paper trading service
  (services/paper_trading) fills validated signals against a simulated portfolio. Every service
  is built by a StreamServiceBuilder: a consumer per topic, whose messages go through a
  reliability layer (deduplication, handler, commit, metrics, error handling with retries and a dead letter
  queue); a service orchestrator starts and stops the clients and the consumption loops. The application starts the services
  after its checks and stops them; the pipeline monitor validates the flow and stores verdicts that the dashboard reads.

  \<^bold>\<open>Theories and sources.\<close>

    \<^item> Py_Prelude, Py_Format, Py_Seq: the Python the sources use: dictionaries as
      association lists, JSON values, truthiness, strings, formatting of numbers and dates,
      indexing from the end, bounded deques, means; the locale step_machine (an invariant kept by every
      step holds after every run), interpreted for each stateful component.
    \<^item> Exceptions (core/utils/exceptions.py): the class hierarchy, isinstance and retryability.
    \<^item> Topics (core/schemas/topics.py, topic_validator.py): topic names, brokers of topics, partition keys.
    \<^item> Schemas (core/schemas/events.py, core/streaming/infrastructure/message_producer.py): the event records, envelopes and
      their lineage, the envelope that the producer adds.
    \<^item> Redis_State (core/utils/state_manager.py): the namespaced key-value, counter and document managers over a
      Redis client given by its contract (locale), interpreted on finite maps.
    \<^item> Error_Handling (core/streaming/error_handling.py): classification, retry budgets, back-off, dead letters.
    \<^item> Circuit_Breaker (core/utils/circuit_breaker.py), Market_Hours (core/market_hours).
    \<^item> Deduplication (core/streaming/reliability/deduplication_manager.py, core/streaming/deduplication.py).
    \<^item> Reliability (core/streaming/reliability, message_consumer.py, service_orchestrator.py): the layer around a handler and the consumption loop.
    \<^item> Lifecycle (core/streaming/orchestration, lifecycle_manager.py): starting and stopping services.
    \<^item> Risk_Manager (services/risk_manager): rules, state and handlers.
    \<^item> Paper_Trading (services/paper_trading/service.py): order routing, limits, fills, portfolio, brackets, stops.
    \<^item> Rule_Strategies, ML_Strategies, Strategy_Executor (strategies), Strategy_Runner
      (services/strategy_runner): from a tick to the signals published.
    \<^item> Pipeline_Monitoring, Pipeline_Validator (core/monitoring/metrics_registry.py, pipeline_metrics.py, pipeline_validator.py): the keys
      under which the stages of the pipeline record their activity, the collector's report and the validator's verdict.
    \<^item> Alerting (core/monitoring/alerting.py), Health_Checker (core/health/health_checker.py): alerts with their suppression,
      the health checks, the overall status and the alerts it sends.
    \<^item> Tick_Formatter, Market_Feed (services/market_feed/formatter.py, service.py): from a raw tick of the broker's socket to the published
      tick, the queue and its worker, subscription, reconnection, health.
    \<^item> Zerodha_Trading (services/zerodha_trading/service.py): the handler of the signals for live trading.
    \<^item> Sessions, Auth (services/auth, services/market_feed/auth.py): the stored sessions of the broker over a table given by its
      contract (a predicate that an association list satisfies), logging in, and who gets the token.
    \<^item> Csv_Loader, Instrument_Registry (services/instrument_data): the reader of the instrument file, instruments made from its rows, and
      the registry over a session given by its contract on the tables it sees and those committed.
    \<^item> Correlation (core/streaming/correlation.py), Stream_Processor, Stream_Processor_Facts (core/streaming/clients.py): the trace context
      of a task and the trace metrics; the direct producer and consumer, and the processor that wraps a handler with deduplication,
      metrics, error handling and commits.
    \<^item> Base_Service (core/services/base_service.py, core/monitoring/service_health.py): the lifecycle of a service and its health monitor.
    \<^item> Config_Validation (core/config): the settings that gate the start and their validator. Model_Preflight, Topic_Preflight, Preflight
      (app/pre_flight_checks.py, core/health): the checks before the start, over the modelled strategies, topics, authentication and market
      hours, with the Kafka cluster given by its contract (locale), interpreted on a list of topics.
    \<^item> Application (app/main.py, app/containers.py): starting, gating and stopping the services.

    \<^item> Log_Correlation, Log_Processors (core/logging/correlation.py, enhanced_logging.py): the context of a task's log lines, how it
      travels with a message, the processors of an event and the redaction of secrets.
    \<^item> Log_Channels, Log_Routing, Log_Delivery, Log_Maintenance (core/logging): channels, filters and formatters; the handlers, levels and
      propagation the manager configures over the tree of loggers; where a record ends; compression, retention and the queue of records.
    \<^item> Rate_Limit, Api_Gateway (api/middleware, api/dependencies.py, api/main.py): the limits of a client, and every middleware around a
      handler. Api_Views (api/routers/alerts.py, api/services): pages of alerts and logs, and the connections.
    \<^item> Pipeline_Loop, Dashboard_Data (core/monitoring/pipeline_monitor.py, api/services/dashboard_service.py): the monitor's rounds over the
      validator, with the lists of Redis given by a contract (locale), and the dashboard that reads what they store.
    \<^item> Service_Stats, Metric_Collection (core/monitoring/metrics.py, metrics_collector.py): the metrics of a service, their summaries and
      checks; the collection over all services, with thresholds that send alerts.
  A class is a record of its fields, a method a function from the record to its result
  and the new record; exceptions are values of the type exn, raised as the left summand. What lies outside the
  sources is a parameter: the Redis client, the Kafka clients (a send or commit raises or not, as
  a function of what was done before), pydantic's constructors, the clock, the random generator,
  numpy, joblib and the trained models, the broker's SDK, the SQL statements of the session, instrument and strategy tables, the
  Kafka cluster, the file system and the processors of structlog.

  \<^bold>\<open>What is shown.\<close> For the streaming core: an offset is committed only for a message that was
  handled, recognised as a duplicate or dead-lettered; duplicates are recognised exactly; retry
  counters, delays and metrics stay within bounds; stopping reaches every service. For the risk manager: one decision per
  signal, equal to an abstract decision on the state read. For the paper service: the portfolio stays
  sound over every run and agrees with the fills published. For strategies: an executor is a
  function of its last ticks, signals pass validation, the instrument index agrees with a scan.
  For the market feed: every tick received is queued, published, dropped or counted as failed, and reconnecting ends.
  For authentication: an authenticated service knows its user, and a login is good for a day. For monitoring: alerts with the same key are spaced, and a recorded stage is healthy until its threshold passes.
  For the application: services start only behind their checks, and what was started is stopped in the reverse order; models that pass
  the checks fit the features their strategies compute. For logging: secrets are redacted at any depth, a channel's record goes to its
  file alone, maintenance keeps the log it compresses. For the API: a refused request reaches no handler, and the limits in memory hold.
  The dashboard is compared with the monitor it reads, and collected metrics with the thresholds they pass.
  This theory adds the properties that span services. Several theorems state what goes wrong instead, on the code as it is: lost
  messages, limits that never apply, models that are never loaded, verdicts that do not depend on what was checked.

  \<^bold>\<open>Assumptions and bounds.\<close> Decimals and floats are exact rationals, so rounding is not
  modelled, and strings are ASCII. A handler runs without interleaving with other handlers of
  its service. Keys do not expire during a run. Loops recurse on their data, except the search for the next trading day, whose
  measure is the distance to the next weekday, and the stripping of escape codes, whose measure is the length of the text. Nothing uses
  fuel. The free-text reasoning of a signal, and the calls that the services make to logging, tracing and Prometheus, have no effect on
  their modelled state and are left out of them; logging is modelled by itself.

  \<^bold>\<open>Not modelled.\<close> The remaining routers and the pages of the dashboard, which only pass answers of the services on; declarations of
  tables and schemas; the command line; metric exporters and tracing, which are I/O; the training of models. The directory examples holds
  a reference implementation and vendored SDKs that the program does not import, and scripts and tests are not part of it.
\<close>


subsection \<open>From the strategy runner to the risk manager\<close>

lemma emitted_event:
  assumes sig: "is_event_type msg TRADING_SIGNAL" and run: "handle_message E m msg topic w = (Inr (), w')"
    and parse: "en_parse E (im_data msg) = Inr orig" and b: "get_broker_from_topic topic = b"
  shows "\<exists>e. rw_sent w' = rw_sent w @ [e] \<and> re_broker e = b \<and>
     ((\<exists>v. re_payload e = PValidated v \<and> re_topic e = signals_validated b \<and> vs_original_signal v = orig \<and>
         vs_validated_quantity v = ts_quantity orig \<and> vs_validated_price v = ts_price orig) \<or>
      (\<exists>v. re_payload e = PRejected v \<and> re_topic e = signals_rejected b \<and> rs_original_signal v = orig))"
proof -
  from handle_signal_Inr [OF sig run] b obtain w1 where
    v: "validate_and_emit E m (message_key (im_data msg)) msg b w = (Inr (), w1)" and w': "rw_sent w' = rw_sent w1" by auto
  from v show ?thesis
  proof (rule validate_and_emit_cases, goal_cases)
    case (1 st s1 res w2)
    show ?case
    proof (cases "passed res")
      case True
      with 1(3,4) parse w' show ?thesis
        by (auto simp: emit_validated_signal_def emit_signal_def on_redis_Inr split: option.splits)
    next
      case False
      with 1(5) parse w' show ?thesis
        by (auto simp: emit_rejected_signal_def emit_signal_def split: option.splits)
    qed
  qed
qed

text \<open>C7: A signal stays with its broker. When the strategy runner emits a signal for a broker and the risk
  manager handles the message read from that event's topic, the risk manager answers with one event
  that carries the signal on the validated or the rejected topic of the same broker, with the
  quantity and price of the signal when it passes.\<close>

theorem signal_keeps_its_broker:
  assumes b: "b \<in> set known_brokers" and emit: "runner_emit_signal V sig b sid st = (None, st')"
    and msg: "is_event_type msg TRADING_SIGNAL" "en_parse E (im_data msg) = Inr sig"
    and run: "handle_message E m msg (ne_topic (last (rn_sent st'))) w = (Inr (), w')"
  shows "\<exists>e. rw_sent w' = rw_sent w @ [e] \<and> re_broker e = b \<and>
     ((\<exists>v. re_payload e = PValidated v \<and> re_topic e = signals_validated b \<and> vs_original_signal v = sig \<and>
         vs_validated_quantity v = ts_quantity sig \<and> vs_validated_price v = ts_price sig) \<or>
      (\<exists>v. re_payload e = PRejected v \<and> re_topic e = signals_rejected b \<and> rs_original_signal v = sig))"
proof -
  have "ne_topic (last (rn_sent st')) = signals_raw b"
    using emit by (auto simp: runner_emit_signal_def runner_signal_event_def Let_def split: if_splits option.splits)
  then have "get_broker_from_topic (ne_topic (last (rn_sent st'))) = b" using raw.broker_of_topic [OF b] by simp
  from emitted_event [OF msg(1) run msg(2) this] show ?thesis .
qed

subsection \<open>From the risk manager to the paper service\<close>

definition validated_law :: "risk_event \<Rightarrow> bool" where
  "validated_law e = (\<forall>v. re_payload e = PValidated v \<longrightarrow> vs_validated_quantity v = ts_quantity (vs_original_signal v))"

lemma handle_message_law:
  assumes "handle_message E m msg topic w = (r, w')" "\<forall>e \<in> set (rw_sent w). validated_law e"
  shows "\<forall>e \<in> set (rw_sent w'). validated_law e"
  using assms
  by (auto simp: handle_message_def handle_trading_signal_def validate_and_emit_def handle_market_tick_def rbind_def rret_def rraise_def
      on_redis_def emit_validated_signal_def emit_rejected_signal_def emit_signal_def validated_law_def Let_def
      split: if_splits prod.splits sum.splits option.splits)

lemma handle_all_law:
  assumes "handle_all m ms w = (r, w')" "\<forall>e \<in> set (rw_sent w). validated_law e"
  shows "\<forall>e \<in> set (rw_sent w'). validated_law e"
  using assms
proof (induction ms arbitrary: w)
  case (Cons a ms)
  obtain E msg topic where a: "a = (E, msg, topic)" by (cases a)
  obtain r1 w1 where h: "handle_message E m msg topic w = (r1, w1)" by fastforce
  from handle_message_law [OF h Cons.prems(2)] Cons.IH [of w1] Cons.prems(1) a h show ?case
    by (cases r1) (auto simp: rbind_def)
qed (simp add: rret_def)

text \<open>C9: The risk manager keeps the paper portfolio sound. The paper service relies on validated quantities
  being those of the signals. When everything it parses was emitted by a risk manager, that
  holds, and after any sequence of signals and ticks no cash and no holding is negative.\<close>

theorem risk_manager_feeds_paper:
  assumes sets: "settings_ok (x_set X)" "randint_ok (x_rng X)"
    and risk: "handle_all m ms w = (r, w')" "rw_sent w = []"
    and reads: "\<forall>d v. x_parse X d = Some v \<longrightarrow> (\<exists>e \<in> set (rw_sent w'). re_payload e = PValidated v)"
  shows "0 \<le> get_num (cash (foldl (pt_step X) pt_init es)) sid \<and> 0 \<le> qty_of (foldl (pt_step X) pt_init es) k"
proof -
  have "\<forall>e \<in> set (rw_sent w'). validated_law e" using handle_all_law [OF risk(1)] risk(2) by simp
  with sets reads have "env_ok X" unfolding env_ok_def validated_law_def by blast
  with paper.run_inv [of X pt_init es] paper_inv_init show ?thesis
    by (auto simp: paper_inv_def portfolio_okD cash_of_def [symmetric])
qed

subsection \<open>Services inside the reliability layer\<close>

text \<open>A service with the ids marked as processed, the commits and the dead letters of its layer, whose outside calls succeed.\<close>

record 'p service_world =
  sw_state :: 'p
  sw_marked :: "(string \<times> string) list"
  sw_commits :: "(string \<times> int \<times> int) list"
  sw_dlq :: "dlq_event list"

definition service_layer :: "string \<Rightarrow> ((string \<times> json) list \<Rightarrow> string \<Rightarrow> 'p \<Rightarrow> 'p \<times> exn option) \<Rightarrow> 'p service_world layer" where
  "service_layer name h =
     \<lparr>ly_is_duplicate = Some (\<lambda>i b w. (Inr ((i, b) \<in> set (sw_marked w)), w)),
      ly_mark_processed = (\<lambda>i b w. (w\<lparr>sw_marked := sw_marked w @ [(i, b)]\<rparr>, None)),
      ly_handler = (\<lambda>v t w. (w\<lparr>sw_state := fst (h v t (sw_state w))\<rparr>, snd (h v t (sw_state w)))),
      ly_commit = (\<lambda>t p n w. (w\<lparr>sw_commits := sw_commits w @ [(t, p, n)]\<rparr>, None)),
      ly_error_handler = Some (name, (\<lambda>ev w. (w\<lparr>sw_dlq := sw_dlq w @ [ev]\<rparr>, None)), 0), ly_on_dlq = True\<rparr>"

lemma service_layer_fields [simp]:
  "ly_handler (service_layer name h) = (\<lambda>v t w. (w\<lparr>sw_state := fst (h v t (sw_state w))\<rparr>, snd (h v t (sw_state w))))"
  "ly_commit (service_layer name h) = (\<lambda>t p n w. (w\<lparr>sw_commits := sw_commits w @ [(t, p, n)]\<rparr>, None))"
  "ly_error_handler (service_layer name h) = Some (name, (\<lambda>ev w. (w\<lparr>sw_dlq := sw_dlq w @ [ev]\<rparr>, None)), 0)"
  by (simp_all add: service_layer_def)

text \<open>A new message whose handling returns is committed and marked.\<close>

lemma handled_message_committed:
  assumes "event_id_of m = Some i" "(i, layer_broker (m_topic m)) \<notin> set (sw_marked w)" "h (m_value m) (m_topic m) (sw_state w) = (s', None)"
  shows "process_message (service_layer name h) dur now m st mc w =
     (None, st, mc_record_success dur now mc,
      w\<lparr>sw_state := s', sw_commits := sw_commits w @ [(m_topic m, m_partition m, m_offset m + 1)],
        sw_marked := sw_marked w @ [(i, layer_broker (m_topic m))]\<rparr>)"
  using assms by (simp add: process_message_def check_duplicate_def process_and_commit_def consumer_commit_def service_layer_def)

subsection \<open>The paper service inside the layer\<close>

definition paper_handler :: "'g pt_env \<Rightarrow> (string \<times> json) list \<Rightarrow> string \<Rightarrow> pt \<Rightarrow> pt \<times> exn option" where
  "paper_handler X v topic s =
     (let d = (case jget v ''data'' of Some (JObj d) \<Rightarrow> d | _ \<Rightarrow> []) in
      case handle_validated_signal X (jget_none v ''type'') d s of
        (Inl e, s') \<Rightarrow> (s', Some e)
      | (Inr _, s') \<Rightarrow> (s', None))"

definition paper_layer :: "'g pt_env \<Rightarrow> pt service_world layer" where
  "paper_layer X = service_layer ''paper_trading'' (paper_handler X)"

lemma paper_layer_fields [simp]:
  "ly_handler (paper_layer X) = (\<lambda>v t w. (w\<lparr>sw_state := fst (paper_handler X v t (sw_state w))\<rparr>, snd (paper_handler X v t (sw_state w))))"
  "ly_commit (paper_layer X) = (\<lambda>t p n w. (w\<lparr>sw_commits := sw_commits w @ [(t, p, n)]\<rparr>, None))"
  "ly_error_handler (paper_layer X) = Some (''paper_trading'', (\<lambda>ev w. (w\<lparr>sw_dlq := sw_dlq w @ [ev]\<rparr>, None)), 0)"
  by (simp_all add: paper_layer_def)

lemma seen_after_failure:
  assumes "window_ok s" "idem_key v \<notin> seen_keys s" "process_signal X v (remember_key (idem_key v) s) = (r, s')"
  shows "idem_key v \<in> seen_keys s'"
  using assms remember_key_window(2) process_signal_seen [of X v "remember_key (idem_key v) s"] by auto

text \<open>C27: A failed fill is lost. When sending a fill raises a retryable error, the reliability layer retries the handler at once;
  the service has already remembered the signal and drops the retry as a duplicate, so the retry
  counts as success. The message is committed, nothing goes to the dead letter queue, and the
  state stays that of the failed attempt: the fills that were not sent never will be.\<close>

theorem failed_fill_is_lost:
  assumes win: "window_ok (sw_state w)" and id: "event_id_of m = Some i" "(i, layer_broker (m_topic m)) \<notin> set (sw_marked w)"
    and msg: "jget_none (m_value m) ''type'' = JStr ''validated_signal''" "jget (m_value m) ''data'' = Some (JObj d)"
    and parse: "x_parse X d = Some v" "idem_key v \<notin> seen_keys (sw_state w)"
    and fails: "process_signal X v (remember_key (idem_key v) (sw_state w)) = (Inl e, s')"
    and retry: "\<not> dead_letters e (tries_so_far st m)"
  shows "\<exists>st' mc'. process_message (paper_layer X) dur now m st mc w =
     (None, st', mc', w\<lparr>sw_state := s', sw_commits := sw_commits w @ [(m_topic m, m_partition m, m_offset m + 1)]\<rparr>)"
proof -
  let ?L = "paper_layer X"
  have h1: "paper_handler X (m_value m) t (sw_state w) = (s', Some e)" for t
    using msg parse fails by (simp add: paper_handler_def handle_validated_signal_def)
  have "idem_key v \<in> seen_keys s'" by (rule seen_after_failure [OF win parse(2) fails])
  then have h2: "paper_handler X (m_value m) t s' = (s', None)" for t
    using msg parse by (simp add: paper_handler_def handle_validated_signal_def)
  have c: "check_duplicate ?L m w = (Inr False, w)" using id by (simp add: check_duplicate_def paper_layer_def service_layer_def)
  have p: "process_and_commit ?L m w = (w\<lparr>sw_state := s'\<rparr>, Some e)" by (simp add: process_and_commit_def h1)
  show ?thesis
    by (simp add: handle_retries [OF retry] process_message_def c p on_processing_error_def retry_processing_def layer_io_def on_world_def
        consumer_commit_def run_commit_def h2 Let_def)
qed

subsection \<open>The live service inside the layer\<close>

definition live_layer :: "'r zt_env \<Rightarrow> int \<Rightarrow> 'r zt service_world layer" where
  "live_layer X now = service_layer ''zerodha_trading'' (\<lambda>v topic s. (handle_live_signal X now v s, None))"

text \<open>A live order that cannot be sent is lost. The handler of the live service catches what its producer raises, so the reliability
  layer takes the signal for handled: whatever the exception, the message is committed and marked as processed with no
  order sent, no retry and no dead letter; and when the message is delivered again, it is dropped as a duplicate.\<close>

theorem live_order_is_lost:
  assumes id: "event_id_of m = Some i" "(i, layer_broker (m_topic m)) \<notin> set (sw_marked w)"
    and msg: "jget_none (m_value m) ''type'' = JStr (event_type_value VALIDATED_SIGNAL)" "jget (m_value m) ''data'' = Some (JObj d)"
    and parse: "zx_parse X d = Inr v"
    and fails: "zx_send X (zt_sent (sw_state w)) (placed_event (zx_new_id X (zt_ids (sw_state w))) v) = Some e"
  shows "\<exists>w' mc'. process_message (live_layer X now) dur t m st mc w = (None, st, mc', w') \<and>
     zt_sent (sw_state w') = zt_sent (sw_state w) \<and> sw_dlq w' = sw_dlq w \<and>
     sw_commits w' = sw_commits w @ [(m_topic m, m_partition m, m_offset m + 1)] \<and>
     (\<forall>dur' t' st' mc''. \<exists>w'' mc3. process_message (live_layer X now) dur' t' m st' mc'' w' = (None, st', mc3, w'') \<and>
        zt_sent (sw_state w'') = zt_sent (sw_state w))"
proof -
  let ?s = "handle_live_signal X now (m_value m) (sw_state w)"
  have sent: "zt_sent ?s = zt_sent (sw_state w)"
    using assms by (simp add: handle_live_signal_def zt_generate_event_id_def emit_live_order_sent)
  obtain w' where w': "process_message (live_layer X now) dur t m st mc w = (None, st, mc_record_success dur t mc, w')"
    "sw_state w' = ?s" "sw_dlq w' = sw_dlq w" "sw_commits w' = sw_commits w @ [(m_topic m, m_partition m, m_offset m + 1)]"
    "(i, layer_broker (m_topic m)) \<in> set (sw_marked w')"
    using handled_message_committed [OF id, of "\<lambda>v topic s. (handle_live_signal X now v s, None)"] by (simp add: live_layer_def)
  moreover have "\<exists>w'' mc3. process_message (live_layer X now) dur' t' m st' mc'' w' = (None, st', mc3, w'') \<and> zt_sent (sw_state w'') = zt_sent ?s"
    for dur' t' st' mc''
    using w'(2,5) id(1) by (simp add: process_message_def check_duplicate_def live_layer_def service_layer_def consumer_commit_def)
  ultimately show ?thesis using sent by auto
qed

theorem live_order_is_lost_witness:
  "\<exists>w' mc'. process_message (live_layer (demo_zt_env False) 0) 0 0
       \<lparr>m_topic = ''zerodha.signals.validated'', m_partition = 0, m_offset = 7, m_key = None, m_value = demo_live_message, m_timestamp = 0\<rparr>
       eh_init metrics_init \<lparr>sw_state = zt_init [], sw_marked = [], sw_commits = [], sw_dlq = []\<rparr> = (None, eh_init, mc', w') \<and>
     zt_sent (sw_state w') = [] \<and> sw_commits w' = [(''zerodha.signals.validated'', 0, 8)] \<and> sw_dlq w' = []"
proof -
  obtain v where v: "zx_parse (demo_zt_env False) [] = Inr v" using demo_zt_fields(4) by blast
  let ?m = "\<lparr>m_topic = ''zerodha.signals.validated'', m_partition = 0, m_offset = 7, m_key = None, m_value = demo_live_message, m_timestamp = 0\<rparr>"
  let ?w = "\<lparr>sw_state = zt_init ([] :: (string \<times> rvalue) list), sw_marked = [], sw_commits = [], sw_dlq = []\<rparr>"
  have "event_id_of ?m = Some ''a''" by (simp add: event_id_of_def demo_live_message_def jget_none_def jget_def)
  from live_order_is_lost [OF this, of ?w "[]" "demo_zt_env False" v] v show ?thesis
    by (fastforce simp: zt_init_def)
qed

theorem signal_keeps_its_broker_witness:
  "\<exists>sig st' w' e. runner_emit_signal (demo_runner_env True) sig ''paper'' ''m1'' (runner_init [''paper'']) = (None, st') \<and>
     handle_message Risk_Manager.demo_env (service_start [''paper'', ''zerodha''] risk_mgr_init)
       demo_signal (ne_topic (last (rn_sent st'))) Risk_Manager.demo_world = (Inr (), w') \<and>
     rw_sent w' = [e] \<and> re_broker e = ''paper''"
proof -
  obtain sig where parse: "en_parse Risk_Manager.demo_env (im_data demo_signal) = Inr sig" by (simp add: Risk_Manager.demo_env_def)
  have t: "is_event_type demo_signal TRADING_SIGNAL" by (simp add: is_event_type_def demo_signal_def)
  have v: "validate_broker_topic_pair (signals_raw ''paper'') ''paper''" by code_simp
  obtain st' where emit: "runner_emit_signal (demo_runner_env True) sig ''paper'' ''m1'' (runner_init [''paper'']) = (None, st')"
    and topic: "ne_topic (last (rn_sent st')) = ''paper.signals.raw''"
    using v by (simp add: runner_emit_signal_def runner_init_def demo_runner_env_def runner_signal_event_def signals_raw_def Let_def)
  obtain w' where run: "handle_message Risk_Manager.demo_env (service_start [''paper'', ''zerodha''] risk_mgr_init)
      demo_signal (ne_topic (last (rn_sent st'))) Risk_Manager.demo_world = (Inr (), w')" using demo_run topic by metis
  have "''paper'' \<in> set known_brokers" by (simp add: known_brokers_def)
  from signal_keeps_its_broker [OF this emit t parse run] emit run show ?thesis
    by (auto simp: Risk_Manager.demo_world_def)
qed

theorem risk_manager_feeds_paper_witness:
  "\<exists>w'. handle_all (service_start [''paper'', ''zerodha''] risk_mgr_init) [(Risk_Manager.demo_env, demo_signal, ''paper.signals.raw'')]
       Risk_Manager.demo_world = (Inr (), w') \<and>
     (\<forall>v e. rw_sent w' = [e] \<and> re_payload e = PValidated v \<longrightarrow>
       0 \<le> qty_of (foldl (pt_step ((demo_paper True)\<lparr>x_parse := (\<lambda>_. Some v)\<rparr>)) pt_init [(demo_ts, Signal (JStr ''validated_signal'') [])]) (''m1'', 5))"
proof -
  obtain w' where run: "handle_message Risk_Manager.demo_env (service_start [''paper'', ''zerodha''] risk_mgr_init) demo_signal ''paper.signals.raw''
      Risk_Manager.demo_world = (Inr (), w')" using demo_run by blast
  have all: "handle_all (service_start [''paper'', ''zerodha''] risk_mgr_init) [(Risk_Manager.demo_env, demo_signal, ''paper.signals.raw'')]
       Risk_Manager.demo_world = (Inr (), w')" by (simp add: rbind_def run rret_def)
  have "0 \<le> qty_of (foldl (pt_step ((demo_paper True)\<lparr>x_parse := (\<lambda>_. Some v)\<rparr>)) pt_init [(demo_ts, Signal (JStr ''validated_signal'') [])]) (''m1'', 5)"
    if "rw_sent w' = [e]" "re_payload e = PValidated v" for v e
    by (rule risk_manager_feeds_paper [THEN conjunct2, OF _ _ all])
      (use demo_paper_ok [of True] that in \<open>simp_all add: env_ok_def demo_paper_def Risk_Manager.demo_world_def\<close>)
  with all show ?thesis by blast
qed

lemma not_dead_runtime: "\<not> dead_letters (raise_exn (Other ''RuntimeError'') ''down'') 0"
  by code_simp

theorem failed_fill_is_lost_witness:
  "\<exists>s' st' mc'. process_message (paper_layer (demo_paper False)) 0 0
       \<lparr>m_topic = ''paper.signals.validated'', m_partition = 0, m_offset = 7, m_key = None,
        m_value = [(''id'', JStr ''a''), (''type'', JStr ''validated_signal''), (''data'', JObj [])], m_timestamp = 0\<rparr> eh_init metrics_init
       \<lparr>sw_state = pt_init, sw_marked = [], sw_commits = [], sw_dlq = []\<rparr> =
     (None, st', mc', \<lparr>sw_state = s', sw_marked = [], sw_commits = [(''paper.signals.validated'', 0, 8)], sw_dlq = []\<rparr>) \<and> sent s' = []"
proof -
  let ?m = "\<lparr>m_topic = ''paper.signals.validated'', m_partition = 0, m_offset = 7, m_key = None,
        m_value = [(''id'', JStr ''a''), (''type'', JStr ''validated_signal''), (''data'', JObj [])], m_timestamp = 0\<rparr>"
  let ?w = "\<lparr>sw_state = pt_init, sw_marked = [], sw_commits = [], sw_dlq = []\<rparr>"
  obtain s' where run: "handle_validated_signal (demo_paper False) (JStr ''validated_signal'') [] pt_init =
     (Inl (raise_exn (Other ''RuntimeError'') ''down''), s')" and s': "sent s' = []" using demo_fill_fails by blast
  have k: "idem_key (demo_validated []) \<notin> seen_keys pt_init" by (simp add: pt_init_def)
  with run have f: "process_signal (demo_paper False) (demo_validated []) (remember_key (idem_key (demo_validated [])) (sw_state ?w)) =
     (Inl (raise_exn (Other ''RuntimeError'') ''down''), s')" by (simp add: handle_validated_signal_def)
  have win: "window_ok (sw_state ?w)" using paper_inv_init by (simp add: paper_inv_def)
  have "\<not> dead_letters (raise_exn (Other ''RuntimeError'') ''down'') (tries_so_far eh_init ?m)"
    using not_dead_runtime by (simp add: tries_so_far_def eh_init_def)
  from failed_fill_is_lost [OF win _ _ _ _ _ _ f this, of "''a''" "[]" 0 0 metrics_init] k s' show ?thesis
    by (auto simp: event_id_of_def jget_none_def jget_def)
qed

end
